(* ===== verification/Prelude.thy ===== *)
theory Prelude
  imports Complex_Main "HOL-Library.Word" "HOL-Library.Multiset"
begin

text \<open>
  Shared vocabulary of the development.

  \<^item> The result type of the Rust code: every fallible function returns \<open>Ok\<close>, \<open>Err\<close> with an
    \<open>api_error\<close> (\<open>src/src/error.rs\<close>; an \<open>anyhow\<close> error is \<open>Anyhow\<close>), or does not return because
    it panics (\<open>Panic\<close>).  Stateful code is a function from a world to an outcome and the next
    world; \<open>bnd\<close> is the \<open>?\<close> operator (stop at the first error or panic), \<open>attempt\<close> is a
    \<open>match\<close> on the result of a call.
  \<^item> \<open>rust_decimal::Decimal\<close>: a value of type \<^typ>\<open>rat\<close>.  Sums, differences and comparisons are
    exact.  Products and quotients pass through a rounding function, a parameter of the model
    whose documented behaviour is the locale \<open>decimal_rounding\<close>.
  \<^item> Machine integers at their width, with the wrap-around of a release build.
  \<^item> Table updates (\<open>UPDATE ... WHERE\<close>) over lists of rows and the lemmas on sums over rows.
\<close>

named_theorems io_simps \<open>equations that run a step of a stateful program\<close>
named_theorems frame \<open>which part of the world a statement leaves alone\<close>

subsection \<open>Machine types\<close>

type_synonym decimal = rat
type_synonym i32 = "32 word"
type_synonym i64 = "64 word"
type_synonym u64 = "64 word"
type_synonym uuid = "128 word"
type_synonym time = int \<comment> \<open>\<open>DateTime<Utc>\<close>: nanoseconds since the Unix epoch\<close>

text \<open>\<open>i32::abs\<close>: the least value is its own absolute value, as a release build wraps.\<close>

definition i32_abs :: "i32 \<Rightarrow> i32" where
  "i32_abs x = (if sint x < 0 then - x else x)"

lemma sint_i32_abs:
  assumes "sint x \<noteq> - (2 ^ 31)"
  shows "sint (i32_abs x) = \<bar>sint x\<bar>"
proof (cases "sint x < 0")
  case True
  have "- (2 ^ 31) \<le> sint x" and "sint x < 2 ^ 31"
    using sint_range_size [of x] by (simp_all add: word_size)
  with True assms have "sint (- x) = - sint x"
    by (simp add: sint_word_ariths(4) signed_take_bit_int_eq_self)
  with True show ?thesis by (simp add: i32_abs_def)
next
  case False
  then show ?thesis by (simp add: i32_abs_def)
qed

text \<open>The printed form of a \<open>Uuid\<close>: 32 hexadecimal digits in groups of 8, 4, 4, 4 and 12.\<close>

definition hex_digit :: "nat \<Rightarrow> char" where
  "hex_digit n = ''0123456789abcdef'' ! n"

definition uuid_simple :: "uuid \<Rightarrow> string" where
  "uuid_simple u = map (\<lambda>i. hex_digit (unat u div 16 ^ i mod 16)) (rev [0..<32])"

definition uuid_str :: "uuid \<Rightarrow> string" where
  "uuid_str u = (let h = uuid_simple u in take 8 h @ ''-'' @ take 4 (drop 8 h) @ ''-''
     @ take 4 (drop 12 h) @ ''-'' @ take 4 (drop 16 h) @ ''-'' @ drop 20 h)"

text \<open>\<open>str::to_lowercase\<close>, \<open>str::to_uppercase\<close> on ASCII, and \<open>str::contains\<close>.\<close>

definition to_lower :: "string \<Rightarrow> string" where
  "to_lower s = map (\<lambda>c. if 65 \<le> (of_char c :: nat) \<and> (of_char c :: nat) \<le> 90 then char_of ((of_char c :: nat) + 32) else c) s"

definition to_upper :: "string \<Rightarrow> string" where
  "to_upper s = map (\<lambda>c. if 97 \<le> (of_char c :: nat) \<and> (of_char c :: nat) \<le> 122 then char_of ((of_char c :: nat) - 32) else c) s"

fun starts_with :: "string \<Rightarrow> string \<Rightarrow> bool" where
  "starts_with s [] = True"
| "starts_with [] (p # ps) = False"
| "starts_with (c # cs) (p # ps) = (c = p \<and> starts_with cs ps)"

fun contains :: "string \<Rightarrow> string \<Rightarrow> bool" where
  "contains [] p = (p = [])"
| "contains (c # cs) p = (starts_with (c # cs) p \<or> contains cs p)"

lemma sint_i64_small: "- (2 ^ 63) \<le> x \<Longrightarrow> x < 2 ^ 63 \<Longrightarrow> sint (word_of_int x :: i64) = x"
  by (simp add: signed_take_bit_int_eq_self sint_sbintrunc')

text \<open>Decimal texts of whole numbers (\<open>Display\<close>).\<close>

fun show_nat :: "nat \<Rightarrow> string" where
  "show_nat n = (if n < 10 then [char_of (48 + n)] else show_nat (n div 10) @ [char_of (48 + n mod 10)])"

declare show_nat.simps [simp del]

definition show_int :: "int \<Rightarrow> string" where
  "show_int i = (if i < 0 then ''-'' @ show_nat (nat (- i)) else show_nat (nat i))"

subsection \<open>Outcomes and stateful programs\<close>

text \<open>The codes and the variants of \<open>src/src/error.rs\<close>.\<close>

datatype ErrorCode =
    EcInvalidCredentials | EcTokenExpired | EcTokenInvalid | EcTokenMissing | EcEmailNotVerified
  | EcAccountLocked | EcAccountDisabled | EcInsufficientPermissions | EcResourceAccessDenied
  | EcRoleNotAuthorized | EcInvalidInput | EcMissingRequiredField | EcInvalidFormat
  | EcInvalidWalletAddress | EcInvalidAmount | EcInvalidEmail | EcInvalidPassword
  | EcPasswordTooWeak | EcNotFound | EcAlreadyExists | EcConflict | EcGone
  | EcInsufficientBalance | EcOrderNotMatched | EcTradingNotAllowed | EcMeterReadingInvalid
  | EcTokenMintingFailed | EcEpochNotActive | EcBlockchainConnectionFailed
  | EcBlockchainTransactionFailed | EcTransactionTimeout | EcInvalidSignature
  | EcInsufficientGasFee | EcProgramError | EcDatabaseConnectionFailed | EcQueryFailed
  | EcDatabaseTransactionFailed | EcConstraintViolation | EcExternalServiceUnavailable
  | EcExternalServiceTimeout | EcExternalServiceError | EcEmailServiceFailed
  | EcServiceUnavailable | EcRateLimitExceeded | EcTooManyRequests | EcInternalServerError
  | EcConfigurationError | EcUnexpectedError

datatype api_error =
    Authentication string
  | Authorization string
  | BadRequest string
  | Unauthorized string
  | Forbidden string
  | Validation string
  | Database string
  | Redis string
  | Blockchain string
  | ExternalService string
  | Configuration string
  | NotFound string
  | Conflict string
  | Internal string
  | RateLimitExceeded string
  | WithCode ErrorCode string
  | WithCodeAndDetails ErrorCode string string
  | ValidationWithField ErrorCode string string
  | Anyhow string

text \<open>The \<open>Display\<close> text of an error; an \<open>anyhow\<close> error prints its own message.\<close>

fun api_display :: "api_error \<Rightarrow> string" where
  "api_display (Authentication m) = ''Authentication failed: '' @ m"
| "api_display (Authorization m) = ''Authorization failed: '' @ m"
| "api_display (BadRequest m) = ''Bad request: '' @ m"
| "api_display (Unauthorized m) = ''Unauthorized: '' @ m"
| "api_display (Forbidden m) = ''Forbidden: '' @ m"
| "api_display (Validation m) = ''Validation error: '' @ m"
| "api_display (Database m) = ''Database error: '' @ m"
| "api_display (Redis m) = ''Redis error: '' @ m"
| "api_display (Blockchain m) = ''Blockchain error: '' @ m"
| "api_display (ExternalService m) = ''External service error: '' @ m"
| "api_display (Configuration m) = ''Configuration error: '' @ m"
| "api_display (NotFound m) = ''Not found: '' @ m"
| "api_display (Conflict m) = ''Conflict: '' @ m"
| "api_display (Internal m) = ''Internal server error: '' @ m"
| "api_display (RateLimitExceeded m) = ''Rate limit exceeded: '' @ m"
| "api_display (WithCode c m) = m"
| "api_display (WithCodeAndDetails c m d) = m"
| "api_display (ValidationWithField c f m) = ''Validation failed: '' @ f"
| "api_display (Anyhow m) = m"

datatype 'a outcome = Ok 'a | Err api_error | Panic

type_synonym ('w, 'a) io = "'w \<Rightarrow> 'a outcome \<times> 'w"

definition ret :: "'a \<Rightarrow> ('w, 'a) io" where
  "ret x = (\<lambda>w. (Ok x, w))"

definition fail :: "api_error \<Rightarrow> ('w, 'a) io" where
  "fail e = (\<lambda>w. (Err e, w))"

definition panic :: "('w, 'a) io" where
  "panic = (\<lambda>w. (Panic, w))"

definition bnd :: "('w, 'a) io \<Rightarrow> ('a \<Rightarrow> ('w, 'b) io) \<Rightarrow> ('w, 'b) io" where
  "bnd m k = (\<lambda>w. case m w of
      (Ok x, w') \<Rightarrow> k x w'
    | (Err e, w') \<Rightarrow> (Err e, w')
    | (Panic, w') \<Rightarrow> (Panic, w'))"

definition sq :: "('w, unit) io \<Rightarrow> ('w, 'b) io \<Rightarrow> ('w, 'b) io" where
  "sq m n = bnd m (\<lambda>_. n)"

text \<open>\<open>match f().await { Ok(x) => ..., Err(e) => ... }\<close>: the error becomes a value.\<close>

definition attempt :: "('w, 'a) io \<Rightarrow> ('w, api_error + 'a) io" where
  "attempt m = (\<lambda>w. case m w of
      (Ok x, w') \<Rightarrow> (Ok (Inr x), w')
    | (Err e, w') \<Rightarrow> (Ok (Inl e), w')
    | (Panic, w') \<Rightarrow> (Panic, w'))"

text \<open>\<open>f().await.map_err(|e| g(e))?\<close>.\<close>

definition map_err :: "(api_error \<Rightarrow> api_error) \<Rightarrow> ('w, 'a) io \<Rightarrow> ('w, 'a) io" where
  "map_err g m = (\<lambda>w. case m w of
      (Ok x, w') \<Rightarrow> (Ok x, w')
    | (Err e, w') \<Rightarrow> (Err (g e), w')
    | (Panic, w') \<Rightarrow> (Panic, w'))"

text \<open>\<open>ok_or_else\<close> followed by \<open>?\<close>, and \<open>unwrap\<close>.\<close>

definition ok_or :: "'a option \<Rightarrow> api_error \<Rightarrow> ('w, 'a) io" where
  "ok_or x e = (case x of None \<Rightarrow> fail e | Some v \<Rightarrow> ret v)"

definition unwrap :: "'a option \<Rightarrow> ('w, 'a) io" where
  "unwrap x = (case x of None \<Rightarrow> panic | Some v \<Rightarrow> ret v)"

text \<open>\<open>let _ = f().await\<close>: the result is dropped.\<close>

definition ignore :: "('w, 'a) io \<Rightarrow> ('w, unit) io" where
  "ignore m = bnd (attempt m) (\<lambda>_. ret ())"

text \<open>A loop that collects the results of its body.\<close>

primrec map_each :: "'a list \<Rightarrow> ('a \<Rightarrow> ('w, 'b) io) \<Rightarrow> ('w, 'b list) io" where
  "map_each [] f = ret []"
| "map_each (x # xs) f = bnd (f x) (\<lambda>y. bnd (map_each xs f) (\<lambda>ys. ret (y # ys)))"

text \<open>A \<open>for\<close> loop over a list, left to right; the first error leaves the loop.\<close>

primrec for_each :: "'a list \<Rightarrow> ('a \<Rightarrow> ('w, unit) io) \<Rightarrow> ('w, unit) io" where
  "for_each [] f = ret ()"
| "for_each (x # xs) f = sq (f x) (for_each xs f)"

definition is_ok :: "'a outcome \<times> 'w \<Rightarrow> bool" where
  "is_ok r = (case fst r of Ok _ \<Rightarrow> True | _ \<Rightarrow> False)"

lemma ret_app [io_simps, simp]: "ret x w = (Ok x, w)"
  by (simp add: ret_def)

lemma fail_app [io_simps, simp]: "fail e w = (Err e, w)"
  by (simp add: fail_def)

lemma panic_app [io_simps, simp]: "panic w = (Panic, w)"
  by (simp add: panic_def)

lemma bnd_app [io_simps]:
  "bnd m k w = (case m w of
      (Ok x, w') \<Rightarrow> k x w'
    | (Err e, w') \<Rightarrow> (Err e, w')
    | (Panic, w') \<Rightarrow> (Panic, w'))"
  by (simp add: bnd_def)

lemma sq_app [io_simps]:
  "sq m n w = (case m w of
      (Ok _, w') \<Rightarrow> n w'
    | (Err e, w') \<Rightarrow> (Err e, w')
    | (Panic, w') \<Rightarrow> (Panic, w'))"
  by (simp add: sq_def bnd_def)

lemma attempt_app [io_simps]:
  "attempt m w = (case m w of
      (Ok x, w') \<Rightarrow> (Ok (Inr x), w')
    | (Err e, w') \<Rightarrow> (Ok (Inl e), w')
    | (Panic, w') \<Rightarrow> (Panic, w'))"
  by (simp add: attempt_def)

lemma map_err_app [io_simps]:
  "map_err g m w = (case m w of
      (Ok x, w') \<Rightarrow> (Ok x, w')
    | (Err e, w') \<Rightarrow> (Err (g e), w')
    | (Panic, w') \<Rightarrow> (Panic, w'))"
  by (simp add: map_err_def)

lemma ok_or_simps [io_simps, simp]: "ok_or None e = fail e" "ok_or (Some v) e = ret v"
  and unwrap_simps [io_simps, simp]: "unwrap None = panic" "unwrap (Some v) = ret v"
  by (simp_all add: ok_or_def unwrap_def)

lemma ignore_app [io_simps]:
  "ignore m w = (case m w of (Panic, w') \<Rightarrow> (Panic, w') | (_, w') \<Rightarrow> (Ok (), w'))"
  by (simp add: ignore_def bnd_app attempt_app split: prod.split outcome.split)

lemma bnd_ret [simp]: "bnd (ret x) k = k x"
  by (simp add: bnd_def ret_def)

lemma bnd_OkE:
  assumes "bnd m k w = (Ok y, w'')"
  obtains x w' where "m w = (Ok x, w')" and "k x w' = (Ok y, w'')"
  using assms by (auto simp: bnd_def split: prod.splits outcome.splits)

lemma sq_OkE:
  assumes "sq m n w = (Ok y, w'')"
  obtains w' where "m w = (Ok (), w')" and "n w' = (Ok y, w'')"
  using assms by (auto simp: sq_def elim!: bnd_OkE)

lemma bnd_ErrE:
  assumes "bnd m k w = (Err er, w'')"
  obtains "m w = (Err er, w'')" | x w' where "m w = (Ok x, w')" and "k x w' = (Err er, w'')"
  using assms by (auto simp: bnd_def split: prod.splits outcome.splits)

lemma sq_ErrE:
  assumes "sq m n w = (Err er, w'')"
  obtains "m w = (Err er, w'')" | w' where "m w = (Ok (), w')" and "n w' = (Err er, w'')"
  using assms by (auto simp: sq_def elim!: bnd_ErrE)

text \<open>A panic goes through a dropped result and through a sequence.\<close>

lemma panic_through:
  "fst (m w) = Panic \<Longrightarrow> fst (ignore m w) = Panic"
  "fst (k w) = Panic \<Longrightarrow> fst (sq k n w) = Panic"
  by (cases "m w"; simp add: ignore_app) (cases "k w"; simp add: sq_app)

lemma map_err_Ok [simp]: "map_err g m w = (Ok y, w') \<longleftrightarrow> m w = (Ok y, w')"
  by (auto simp: map_err_def split: prod.splits outcome.splits)

lemma ok_or_Ok [simp]: "ok_or x e w = (Ok y, w') \<longleftrightarrow> x = Some y \<and> w' = w"
  and unwrap_Ok [simp]: "unwrap x w = (Ok y, w') \<longleftrightarrow> x = Some y \<and> w' = w"
  by (cases x; auto)+

text \<open>
  A property of worlds that each part of a program keeps is kept by the whole, whatever the
  outcome: the rule behind every invariant of a handler.
\<close>

definition keeps :: "('w \<Rightarrow> bool) \<Rightarrow> ('w, 'a) io \<Rightarrow> bool" where
  "keeps I m \<longleftrightarrow> (\<forall>w. I w \<longrightarrow> I (snd (m w)))"

named_theorems keeps_intros \<open>which programs keep a property of the world\<close>

lemma keepsD: "keeps I m \<Longrightarrow> I w \<Longrightarrow> I (snd (m w))"
  by (simp add: keeps_def)

lemma keeps_ret [keeps_intros]: "keeps I (ret x)"
  by (simp add: keeps_def)

lemma keeps_fail [keeps_intros]: "keeps I (fail e)"
  by (simp add: keeps_def)

lemma keeps_panic [keeps_intros]: "keeps I panic"
  by (simp add: keeps_def)

lemma keeps_bnd [keeps_intros]:
  assumes "keeps I m" and "\<And>x. keeps I (k x)"
  shows "keeps I (bnd m k)"
  unfolding keeps_def bnd_def
proof (intro allI impI)
  fix w assume "I w"
  then have m: "I (snd (m w))" by (rule keepsD [OF assms(1)])
  obtain r w' where "m w = (r, w')" by (cases "m w") auto
  with m show "I (snd (case m w of (Ok x, w') \<Rightarrow> k x w' | (Err e, w') \<Rightarrow> (Err e, w')
      | (Panic, w') \<Rightarrow> (Panic, w')))"
    by (cases r) (auto intro: keepsD [OF assms(2)])
qed

lemma keeps_sq [keeps_intros]: "keeps I m \<Longrightarrow> keeps I n \<Longrightarrow> keeps I (sq m n)"
  unfolding sq_def by (rule keeps_bnd)

lemma keeps_attempt [keeps_intros]: "keeps I m \<Longrightarrow> keeps I (attempt m)"
  by (fastforce simp: keeps_def attempt_def split: prod.splits outcome.splits dest: spec)

lemma keeps_for_each [keeps_intros]:
  "(\<And>x. x \<in> set xs \<Longrightarrow> keeps I (f x)) \<Longrightarrow> keeps I (for_each xs f)"
  by (induction xs) (auto intro!: keeps_intros)

lemma keeps_map_err [keeps_intros]: "keeps I m \<Longrightarrow> keeps I (map_err g m)"
  by (fastforce simp: keeps_def map_err_def split: prod.splits outcome.splits dest: spec)

lemma keeps_ok_or [keeps_intros]: "keeps I (ok_or x e)"
  and keeps_unwrap [keeps_intros]: "keeps I (unwrap x)"
  by (cases x; simp add: keeps_def)+

lemma keeps_ignore [keeps_intros]: "keeps I m \<Longrightarrow> keeps I (ignore m)"
  unfolding ignore_def by (intro keeps_intros)

lemma keeps_map_each [keeps_intros]:
  "(\<And>x. x \<in> set xs \<Longrightarrow> keeps I (f x)) \<Longrightarrow> keeps I (map_each xs f)"
  by (induction xs) (auto intro!: keeps_intros)

lemma keeps_if [keeps_intros]:
  "(b \<Longrightarrow> keeps I m) \<Longrightarrow> (\<not> b \<Longrightarrow> keeps I n) \<Longrightarrow> keeps I (if b then m else n)"
  by simp

lemma keeps_option [keeps_intros]:
  "(x = None \<Longrightarrow> keeps I m) \<Longrightarrow> (\<And>y. x = Some y \<Longrightarrow> keeps I (k y)) \<Longrightarrow>
   keeps I (case x of None \<Rightarrow> m | Some y \<Rightarrow> k y)"
  by (cases x) auto

lemma keeps_sum [keeps_intros]:
  "(\<And>y. x = Inl y \<Longrightarrow> keeps I (l y)) \<Longrightarrow> (\<And>y. x = Inr y \<Longrightarrow> keeps I (r y)) \<Longrightarrow>
   keeps I (case x of Inl y \<Rightarrow> l y | Inr y \<Rightarrow> r y)"
  by (cases x) auto

lemma keeps_prod [keeps_intros]:
  "(\<And>a b. x = (a, b) \<Longrightarrow> keeps I (k a b)) \<Longrightarrow> keeps I (case x of (a, b) \<Rightarrow> k a b)"
  by (cases x) auto

subsection \<open>Decimal arithmetic\<close>

text \<open>
  The crate rounds a product or a quotient that needs more than 28 digits to the nearest
  representable value.  What the code relies on: the order is kept, an integer of at most 96 bits
  is representable, and a rounded value is not rounded again.
\<close>

locale decimal_rounding =
  fixes rnd :: "rat \<Rightarrow> rat"
  assumes rnd_mono: "x \<le> y \<Longrightarrow> rnd x \<le> rnd y"
    and rnd_idem: "rnd (rnd x) = rnd x"
    and rnd_int: "\<bar>k\<bar> < 2 ^ 96 \<Longrightarrow> rnd (of_int k) = of_int k"
begin

lemma rnd_zero [simp]: "rnd 0 = 0"
  using rnd_int [of 0] by simp

lemma rnd_nonneg: "0 \<le> x \<Longrightarrow> 0 \<le> rnd x"
  using rnd_mono [of 0 x] rnd_zero by simp

lemma rnd_nonpos: "x \<le> 0 \<Longrightarrow> rnd x \<le> 0"
  using rnd_mono [of x 0] rnd_zero by simp

lemma rnd_between:
  "rnd a = a \<Longrightarrow> rnd b = b \<Longrightarrow> a \<le> x \<Longrightarrow> x \<le> b \<Longrightarrow> a \<le> rnd x \<and> rnd x \<le> b"
  using rnd_mono [of a x] rnd_mono [of x b] by simp

lemma rnd_le_self: "rnd a = a \<Longrightarrow> x \<le> a \<Longrightarrow> rnd x \<le> a"
  using rnd_mono [of x a] by simp

end

text \<open>Rounding to a fixed number of decimal places, half up: a concrete function with these laws.\<close>

definition round_dp :: "nat \<Rightarrow> rat \<Rightarrow> rat" where
  "round_dp n x = of_int (round (x * 10 ^ n)) / 10 ^ n"

interpretation dp28: decimal_rounding "round_dp 28"
proof
  fix x y :: rat
  assume "x \<le> y"
  then have "round (x * 10 ^ 28) \<le> round (y * 10 ^ 28)"
    by (intro round_mono) simp
  then show "round_dp 28 x \<le> round_dp 28 y"
    by (simp add: round_dp_def divide_right_mono)
next
  show "round_dp 28 (round_dp 28 x) = round_dp 28 x" for x
    by (simp add: round_dp_def)
next
  show "round_dp 28 (of_int k) = of_int k" for k
    using round_of_int [of "k * 10 ^ 28", where 'a = rat] by (simp add: round_dp_def)
qed

lemma round_dp_int [simp]:
  "round_dp n (numeral k) = numeral k" "round_dp n 0 = 0" "round_dp n 1 = 1"
proof -
  have "round_dp n (of_int j) = of_int j" for j
    using round_of_int [of "j * 10 ^ n", where 'a = rat] by (simp add: round_dp_def)
  from this [of "numeral k"] this [of 0] this [of 1]
  show "round_dp n (numeral k) = numeral k" "round_dp n 0 = 0" "round_dp n 1 = 1" by simp_all
qed

subsection \<open>Tables\<close>

text \<open>\<open>UPDATE t SET ... WHERE p\<close>: every row that satisfies the condition is rewritten.\<close>

definition update_where :: "('r \<Rightarrow> bool) \<Rightarrow> ('r \<Rightarrow> 'r) \<Rightarrow> 'r list \<Rightarrow> 'r list" where
  "update_where p f rs = map (\<lambda>r. if p r then f r else r) rs"

lemma update_where_Nil [simp]: "update_where p f [] = []"
  by (simp add: update_where_def)

lemma update_where_Cons [simp]:
  "update_where p f (r # rs) = (if p r then f r else r) # update_where p f rs"
  by (simp add: update_where_def)

lemma length_update_where [simp]: "length (update_where p f rs) = length rs"
  by (simp add: update_where_def)

lemma set_update_where:
  "set (update_where p f rs) = (\<lambda>r. if p r then f r else r) ` set rs"
  by (simp add: update_where_def)

lemma map_update_where_same:
  "(\<And>r. p r \<Longrightarrow> g (f r) = g r) \<Longrightarrow> map g (update_where p f rs) = map g rs"
  by (simp add: update_where_def)

lemma update_where_none: "(\<And>r. r \<in> set rs \<Longrightarrow> \<not> p r) \<Longrightarrow> update_where p f rs = rs"
  by (induction rs) auto

lemma list_all_update_where: "(\<And>r. p r \<Longrightarrow> Q (f r) = Q r) \<Longrightarrow> list_all Q (update_where p f rs) = list_all Q rs"
  by (induction rs) auto

lemma sum_list_update_where:
  fixes g :: "'r \<Rightarrow> rat"
  shows "sum_list (map g (update_where p f rs))
    = sum_list (map g rs) + sum_list (map (\<lambda>r. g (f r) - g r) (filter p rs))"
  by (induction rs) auto

text \<open>A row is found by its primary key; the first match wins.\<close>

definition find_row :: "('r \<Rightarrow> 'k) \<Rightarrow> 'k \<Rightarrow> 'r list \<Rightarrow> 'r option" where
  "find_row key k rs = find (\<lambda>r. key r = k) rs"

lemma find_row_Nil [simp]: "find_row key k [] = None"
  by (simp add: find_row_def)

lemma find_row_Cons [simp]:
  "find_row key k (r # rs) = (if key r = k then Some r else find_row key k rs)"
  by (simp add: find_row_def)

lemma find_row_Some: "find_row key k rs = Some r \<Longrightarrow> r \<in> set rs \<and> key r = k"
  by (induction rs) (auto split: if_splits)

lemma find_row_update_same:
  "(\<And>r. key (f r) = key r) \<Longrightarrow>
   find_row key k (update_where (\<lambda>r. key r = k) f rs) = map_option f (find_row key k rs)"
  by (induction rs) auto

lemma find_row_update_other:
  assumes "\<And>r. p r \<Longrightarrow> key (f r) = key r" and "\<And>r. p r \<Longrightarrow> key r \<noteq> k"
  shows "find_row key k (update_where p f rs) = find_row key k rs"
proof (induction rs)
  case (Cons r rs)
  show ?case
  proof (cases "p r")
    case True
    with assms [of r] Cons show ?thesis by simp
  qed (use Cons in simp)
qed simp

lemma find_Some_in: "find p xs = Some x \<Longrightarrow> x \<in> set xs \<and> p x"
  by (induction xs) (auto split: if_splits)

lemma find_row_map:
  "(\<And>r. r \<in> set rs \<Longrightarrow> key (h r) = key r) \<Longrightarrow> find_row key k (map h rs) = map_option h (find_row key k rs)"
  by (induction rs) auto

lemma find_row_append: "find_row key k (xs @ ys) = (case find_row key k xs of None \<Rightarrow> find_row key k ys | Some r \<Rightarrow> Some r)"
  by (induction xs) auto

lemma find_row_none: "(\<And>r. r \<in> set rs \<Longrightarrow> key r \<noteq> k) \<Longrightarrow> find_row key k rs = None"
  by (induction rs) auto

lemma same_key_same_row: "distinct (map key rs) \<Longrightarrow> r \<in> set rs \<Longrightarrow> s \<in> set rs \<Longrightarrow> key r = key s \<Longrightarrow> r = s"
  by (auto simp: distinct_map inj_on_def)

lemma find_row_distinct: "distinct (map key rs) \<Longrightarrow> r \<in> set rs \<Longrightarrow> find_row key (key r) rs = Some r"
  by (induction rs) (auto simp: image_iff)

lemma find_row_view:
  assumes "map g rs = map g rs'" and "\<And>r. key (g r) = key r"
  shows "map_option g (find_row key k rs) = map_option g (find_row key k rs')"
  using assms(1)
proof (induction rs arbitrary: rs')
  case (Cons r rs)
  then obtain r' rs'' where rs': "rs' = r' # rs''" "g r = g r'" "map g rs = map g rs''" by auto
  then have "key r = key r'" using assms(2) by metis
  with rs' Cons.IH [OF rs'(3)] show ?case by simp
qed simp

lemma update_where_cong: "(\<And>r. r \<in> set rs \<Longrightarrow> p r = q r) \<Longrightarrow> update_where p f rs = update_where q f rs"
  by (simp add: update_where_def)

lemma distinct_sort_filter: "distinct (map key xs) \<Longrightarrow> distinct (map key (sort_key f (filter p xs)))"
  by (simp add: distinct_map inj_on_def)

lemma sorted_wrt_lex:
  fixes f :: "'a \<Rightarrow> 'b::linorder" and g :: "'a \<Rightarrow> 'c::linorder"
  assumes "sorted (map f ys)" and "\<And>k. sorted (map g (filter (\<lambda>x. f x = k) ys))"
  shows "sorted_wrt (\<lambda>a b. f a < f b \<or> f a = f b \<and> g a \<le> g b) ys"
  using assms
proof (induction ys)
  case (Cons y ys)
  have "sorted (map g (filter (\<lambda>x. f x = k) ys))" for k
    using Cons.prems(2) [of k] by (simp split: if_splits)
  with Cons have "sorted_wrt (\<lambda>a b. f a < f b \<or> f a = f b \<and> g a \<le> g b) ys" by simp
  moreover have "f y < f x \<or> f y = f x \<and> g y \<le> g x" if "x \<in> set ys" for x
  proof (cases "f y = f x")
    case True
    with that Cons.prems(2) [of "f y"] show ?thesis by simp
  next
    case False
    with that Cons.prems(1) show ?thesis by auto
  qed
  ultimately show ?case by simp
qed simp

lemma sort_key_lex:
  fixes f :: "'a \<Rightarrow> 'b::linorder" and g :: "'a \<Rightarrow> 'c::linorder"
  shows "sorted_wrt (\<lambda>a b. f a < f b \<or> f a = f b \<and> g a \<le> g b) (sort_key f (sort_key g xs))"
proof (rule sorted_wrt_lex)
  fix k
  have "filter (\<lambda>x. f x = k) (sort_key f (sort_key g xs)) = filter (\<lambda>x. f x = k) (sort_key g xs)"
    by (simp add: sort_key_stable)
  then show "sorted (map g (filter (\<lambda>x. f x = k) (sort_key f (sort_key g xs))))"
    by (simp add: sorted_filter)
qed simp

subsection \<open>Batches of rows\<close>

text \<open>
  A background worker reads a batch of rows and handles them one by one, each handler rewriting the
  row with its key.  The contract of the handler, and what a whole batch does: every row of the batch
  moves at most once, from the state in which it was read; the others stay.
\<close>

locale row_batch =
  fixes rows :: "'w \<Rightarrow> 'r list" and key :: "'r \<Rightarrow> 'k" and handle :: "'r \<Rightarrow> ('w, unit) io"
    and moved :: "'r \<Rightarrow> 'r \<Rightarrow> 'r \<Rightarrow> bool"
  assumes moved_refl: "moved t r r"
    and moved_key: "moved t r r' \<Longrightarrow> key r' = key r"
    and handle_rows: "\<exists>h. (\<forall>r. moved t r (h r)) \<and> rows (snd (handle t w)) = update_where (\<lambda>r. key r = key t) h (rows w)"
begin

definition batch_map :: "('r \<Rightarrow> 'r \<Rightarrow> 'r) \<Rightarrow> 'r list \<Rightarrow> 'r list \<Rightarrow> 'r list" where
  "batch_map g ts rs = map (\<lambda>r. case find_row key (key r) ts of Some t \<Rightarrow> g t r | None \<Rightarrow> r) rs"

lemma batch_map_Cons:
  assumes "\<And>r. key (h r) = key r" and "key t \<notin> key ` set ts"
  shows "batch_map (\<lambda>s r. if s = t then h r else g s r) (t # ts) rs = batch_map g ts (update_where (\<lambda>r. key r = key t) h rs)"
proof -
  have "find_row key (key t) ts = None" using assms(2) by (intro find_row_none) (auto simp: image_iff)
  moreover have "find_row key k ts = Some t \<Longrightarrow> k = key t" for k using find_row_Some [of key k ts t] by auto
  moreover have "find_row key k ts = Some s \<Longrightarrow> s \<noteq> t" for k s using find_row_Some [of key k ts s] assms(2) by auto
  ultimately show ?thesis using assms(1) by (auto simp: batch_map_def update_where_def split: option.split)
qed

lemma batch_moves:
  assumes "distinct (map key ts)"
  shows "\<exists>g. (\<forall>t \<in> set ts. \<forall>r. moved t r (g t r)) \<and> rows (snd (for_each ts handle w)) = batch_map g ts (rows w)"
  using assms
proof (induction ts arbitrary: w)
  case Nil
  show ?case by (simp add: batch_map_def)
next
  case (Cons t ts)
  obtain h where h: "\<And>r. moved t r (h r)" "rows (snd (handle t w)) = update_where (\<lambda>r. key r = key t) h (rows w)"
    using handle_rows by blast
  obtain q w1 where q: "handle t w = (q, w1)" by (cases "handle t w")
  have map: "batch_map (\<lambda>s r. if s = t then h r else g s r) (t # ts) (rows w) = batch_map g ts (rows w1)" for g
    using batch_map_Cons [of h t ts g "rows w"] h moved_key q Cons.prems by auto
  obtain g where g: "\<forall>s \<in> set ts. \<forall>r. moved s r (g s r)"
    "rows (snd (for_each (t # ts) handle w)) = batch_map g ts (rows w1)"
  proof (cases q)
    case (Ok u)
    then show thesis using Cons.IH [of w1] Cons.prems q that by (auto simp: sq_app)
  qed (use q moved_refl that [of "\<lambda>_ r. r"] in \<open>auto simp: sq_app batch_map_def map_idI split: option.split\<close>)
  with h(1) map [of g] show ?case by (intro exI [of _ "\<lambda>s r. if s = t then h r else g s r"]) auto
qed

lemma batch_of_rows:
  assumes "distinct (map key (rows w))" and "distinct (map key ts)" and "set ts \<subseteq> set (rows w)"
  shows "\<exists>g. (\<forall>r \<in> set ts. moved r r (g r)) \<and>
    rows (snd (for_each ts handle w)) = map (\<lambda>r. if r \<in> set ts then g r else r) (rows w)"
proof -
  obtain g where g: "\<forall>t \<in> set ts. \<forall>r. moved t r (g t r)" "rows (snd (for_each ts handle w)) = batch_map g ts (rows w)"
    using batch_moves [OF assms(2)] by blast
  have "(case find_row key (key r) ts of Some t \<Rightarrow> g t r | None \<Rightarrow> r) = (if r \<in> set ts then g r r else r)"
    if r: "r \<in> set (rows w)" for r
  proof (cases "r \<in> set ts")
    case True
    then show ?thesis using find_row_distinct [OF assms(2), of r] by simp
  next
    case False
    then have "find_row key (key r) ts = None"
      using same_key_same_row [OF assms(1) r] assms(3) by (intro find_row_none) (metis subsetD)
    with False show ?thesis by simp
  qed
  then have "batch_map g ts (rows w) = map (\<lambda>r. if r \<in> set ts then g r r else r) (rows w)"
    by (auto simp: batch_map_def)
  with g show ?thesis by (intro exI [of _ "\<lambda>r. g r r"]) simp
qed

lemma batch_invariant:
  assumes "distinct (map key (rows w))" and "distinct (map key ts)" and "set ts \<subseteq> set (rows w)"
    and "\<forall>r \<in> set (rows w). P r" and "\<And>t r'. t \<in> set ts \<Longrightarrow> P t \<Longrightarrow> moved t t r' \<Longrightarrow> P r'"
  shows "distinct (map key (rows (snd (for_each ts handle w)))) \<and> (\<forall>r \<in> set (rows (snd (for_each ts handle w))). P r)"
proof -
  obtain g where g: "\<forall>r \<in> set ts. moved r r (g r)"
    "rows (snd (for_each ts handle w)) = map (\<lambda>r. if r \<in> set ts then g r else r) (rows w)"
    using batch_of_rows [OF assms(1-3)] by blast
  have "map key (rows (snd (for_each ts handle w))) = map key (rows w)"
    using g moved_key by auto
  then have "distinct (map key (rows (snd (for_each ts handle w))))" using assms(1) by (rule ssubst)
  moreover have "\<forall>r \<in> set (rows (snd (for_each ts handle w))). P r" using g assms(3-5) by auto
  ultimately show ?thesis ..
qed

end

end
