(* ===== verification/Schema.thy ===== *)
theory Schema
  imports Prelude
begin

text \<open>
  The data of the gateway: the enums of \<open>src/src/database/schema.rs\<close> and
  \<open>src/src/services/settlement/types.rs\<close>, the order and escrow structs of
  \<open>src/src/models/trading.rs\<close>, the market structs of
  \<open>src/src/services/market_clearing/types.rs\<close>, and the rows of the tables the trading core
  reads and writes.  A field that several structs share carries the initial of its struct.
\<close>

subsection \<open>Enums and their text\<close>

datatype UserRole = RUser | RAdmin | RProsumer | RConsumer | RCorporate

datatype OrderType = Limit | Market

datatype OrderSide = Buy | Sell

datatype OrderStatus =
  Pending | Active | PartiallyFilled | Filled | Settled | Cancelled | Expired

datatype EpochStatus = EpPending | EpActive | EpCleared | EpSettled

fun order_type_as_str :: "OrderType \<Rightarrow> string" where
  "order_type_as_str Limit = ''limit''"
| "order_type_as_str Market = ''market''"

fun order_side_as_str :: "OrderSide \<Rightarrow> string" where
  "order_side_as_str Buy = ''buy''"
| "order_side_as_str Sell = ''sell''"

fun order_status_as_str :: "OrderStatus \<Rightarrow> string" where
  "order_status_as_str Pending = ''pending''"
| "order_status_as_str Active = ''active''"
| "order_status_as_str PartiallyFilled = ''partially_filled''"
| "order_status_as_str Filled = ''filled''"
| "order_status_as_str Settled = ''settled''"
| "order_status_as_str Cancelled = ''cancelled''"
| "order_status_as_str Expired = ''expired''"

fun epoch_status_fmt :: "EpochStatus \<Rightarrow> string" where
  "epoch_status_fmt EpPending = ''pending''"
| "epoch_status_fmt EpActive = ''active''"
| "epoch_status_fmt EpCleared = ''cleared''"
| "epoch_status_fmt EpSettled = ''settled''"

datatype SettlementStatus =
  StPending | StProcessing | StCompleted | StFailed | StPendingBridge | StBridgingInitiated

fun settlement_status_fmt :: "SettlementStatus \<Rightarrow> string" where
  "settlement_status_fmt StPending = ''pending''"
| "settlement_status_fmt StProcessing = ''processing''"
| "settlement_status_fmt StCompleted = ''completed''"
| "settlement_status_fmt StFailed = ''failed''"
| "settlement_status_fmt StPendingBridge = ''pending_bridge''"
| "settlement_status_fmt StBridgingInitiated = ''bridging_initiated''"

datatype TriggerType = StopLoss | TakeProfit | TrailingStop

datatype TriggerStatus = TrPending | TrTriggered | TrCancelled | TrExpired

fun trigger_type_fmt :: "TriggerType \<Rightarrow> string" where
  "trigger_type_fmt StopLoss = ''stop_loss''"
| "trigger_type_fmt TakeProfit = ''take_profit''"
| "trigger_type_fmt TrailingStop = ''trailing_stop''"

fun trigger_status_fmt :: "TriggerStatus \<Rightarrow> string" where
  "trigger_status_fmt TrPending = ''pending''"
| "trigger_status_fmt TrTriggered = ''triggered''"
| "trigger_status_fmt TrCancelled = ''cancelled''"
| "trigger_status_fmt TrExpired = ''expired''"

subsection \<open>Orders and escrow\<close>

record trading_order =
  t_id :: uuid
  t_user_id :: uuid
  t_order_type :: OrderType
  t_side :: OrderSide
  t_energy_amount :: decimal
  t_price_per_kwh :: decimal
  t_filled_amount :: decimal
  t_status :: OrderStatus
  t_expires_at :: "time option"
  t_created_at :: "time option"
  t_filled_at :: "time option"
  t_epoch_id :: "uuid option"
  t_zone_id :: "i32 option"
  t_meter_id :: "uuid option"
  t_refund_tx_signature :: "string option"
  t_order_pda :: "string option"
  t_session_token :: "string option"
  t_is_confidential :: bool
  t_energy_source :: "string option"

record trading_order_db =
  o_id :: uuid
  o_user_id :: uuid
  o_order_type :: OrderType
  o_side :: OrderSide
  o_energy_amount :: decimal
  o_price_per_kwh :: decimal
  o_filled_amount :: "decimal option"
  o_status :: OrderStatus
  o_expires_at :: "time option"
  o_created_at :: "time option"
  o_filled_at :: "time option"
  o_epoch_id :: "uuid option"
  o_zone_id :: "i32 option"
  o_meter_id :: "uuid option"
  o_refund_tx_signature :: "string option"
  o_order_pda :: "string option"
  o_session_token :: "string option"
  o_is_confidential :: bool
  o_energy_source :: "string option"
  o_trigger_price :: "decimal option"
  o_trigger_type :: "TriggerType option"
  o_trigger_status :: "TriggerStatus option"
  o_trailing_offset :: "decimal option"
  o_triggered_at :: "time option"

text \<open>A row of \<open>trading_orders\<close>: the struct and the one column it does not load.\<close>

record order_row = trading_order_db +
  o_blockchain_tx_signature :: "string option"

definition unwrap_or :: "'a option \<Rightarrow> 'a \<Rightarrow> 'a" where
  "unwrap_or x d = (case x of None \<Rightarrow> d | Some v \<Rightarrow> v)"

lemma unwrap_or_simps [simp]: "unwrap_or None d = d" "unwrap_or (Some v) d = v"
  by (simp_all add: unwrap_or_def)

definition trading_order_from :: "order_row \<Rightarrow> trading_order" where
  "trading_order_from d =
    \<lparr> t_id = o_id d, t_user_id = o_user_id d, t_order_type = o_order_type d, t_side = o_side d,
      t_energy_amount = o_energy_amount d, t_price_per_kwh = o_price_per_kwh d,
      t_filled_amount = unwrap_or (o_filled_amount d) 0, t_status = o_status d,
      t_expires_at = o_expires_at d, t_created_at = o_created_at d, t_filled_at = o_filled_at d,
      t_epoch_id = o_epoch_id d, t_zone_id = o_zone_id d, t_meter_id = o_meter_id d,
      t_refund_tx_signature = o_refund_tx_signature d, t_order_pda = o_order_pda d,
      t_session_token = o_session_token d, t_is_confidential = o_is_confidential d,
      t_energy_source = o_energy_source d \<rparr>"

text \<open>The length limit of a nullable \<open>VARCHAR\<close> column.\<close>

definition at_most :: "nat \<Rightarrow> string option \<Rightarrow> bool" where
  "at_most n s = (case s of None \<Rightarrow> True | Some x \<Rightarrow> length x \<le> n)"

lemma at_most_None [simp]: "at_most n None"
  by (simp add: at_most_def)

text \<open>The energy an order still has to trade; a \<open>NULL\<close> fill counts as zero.\<close>

definition o_remaining :: "order_row \<Rightarrow> decimal" where
  "o_remaining d = o_energy_amount d - unwrap_or (o_filled_amount d) 0"

text \<open>The columns of \<open>escrow_records\<close> that the code writes.\<close>

record escrow_record =
  e_user_id :: uuid
  e_order_id :: "uuid option"
  e_amount :: decimal
  e_asset_type :: string
  e_escrow_type :: string
  e_status :: string
  e_description :: "string option"

text \<open>The columns of \<open>users\<close> the trading core uses; the money columns are nullable.\<close>

text \<open>The login columns of \<open>users\<close>.\<close>

record account_row =
  ac_username :: string
  ac_password_hash :: string
  ac_role :: string
  ac_first_name :: "string option"
  ac_last_name :: "string option"
  ac_is_active :: "bool option"
  ac_blockchain_registered :: "bool option"
  ac_email_verification_token :: "string option"
  ac_email_verification_expires_at :: "time option"
  ac_password_reset_token :: "string option"
  ac_password_reset_expires_at :: "time option"

record user_row =
  balance :: "decimal option"
  locked_amount :: "decimal option"
  locked_energy :: "decimal option"
  wallet_address :: "string option"
  encrypted_private_key :: "string option"
  wallet_salt :: "string option"
  encryption_iv :: "string option"
  email :: string
  email_verified :: bool
  account :: account_row

text \<open>The claims of an access token (\<open>auth/mod.rs\<close>); times are in seconds.\<close>

record claims =
  cl_sub :: uuid
  cl_username :: string
  cl_role :: string
  cl_exp :: i64
  cl_iat :: i64
  cl_iss :: string

subsection \<open>Market\<close>

record market_epoch =
  ep_id :: uuid
  ep_number :: int
  ep_start_time :: time
  ep_end_time :: time
  ep_status :: EpochStatus
  ep_clearing_price :: "decimal option"
  ep_total_volume :: "decimal option"
  ep_total_orders :: "nat option"
  ep_matched_orders :: "nat option"

record order_match =
  m_id :: uuid
  m_epoch_id :: uuid
  m_buy_order_id :: uuid
  m_sell_order_id :: uuid
  m_matched_amount :: decimal
  m_match_price :: decimal
  m_match_time :: time
  m_status :: string

text \<open>A row of \<open>order_matches\<close> also links to its settlement.\<close>

record match_row = order_match +
  m_settlement_id :: "uuid option"

record order_book_entry =
  b_order_id :: uuid
  b_user_id :: uuid
  b_side :: OrderSide
  b_energy_amount :: decimal
  b_original_amount :: decimal
  b_price_per_kwh :: decimal
  b_created_at :: "time option"
  b_zone_id :: "i32 option"

record clearing_price =
  cp_price :: decimal
  cp_volume :: decimal
  cp_buy_orders_count :: nat
  cp_sell_orders_count :: nat
  cp_best_bid :: decimal
  cp_best_ask :: decimal

record trade_match =
  tm_id :: uuid
  tm_match_id :: uuid
  tm_epoch_id :: uuid
  tm_buyer_id :: uuid
  tm_seller_id :: uuid
  tm_buy_order_id :: uuid
  tm_sell_order_id :: uuid
  tm_quantity :: decimal
  tm_price :: decimal
  tm_total_value :: decimal
  tm_wheeling_charge :: decimal
  tm_loss_factor :: decimal
  tm_loss_cost :: decimal
  tm_buyer_zone_id :: "i32 option"
  tm_seller_zone_id :: "i32 option"
  tm_matched_at :: time
  tm_buyer_session_token :: "string option"
  tm_seller_session_token :: "string option"

text \<open>
  A row of \<open>settlements\<close>.  The status is text: \<open>mark_settlement_permanent_failure\<close> writes one
  that no variant of \<open>SettlementStatus\<close> prints.
\<close>

record settlement_row =
  s_id :: uuid
  s_epoch_id :: uuid
  s_buyer_id :: uuid
  s_seller_id :: uuid
  s_buy_order_id :: "uuid option"
  s_sell_order_id :: "uuid option"
  s_energy_amount :: decimal
  s_price :: decimal
  s_total_value :: decimal
  s_fee_amount :: decimal
  s_net_amount :: decimal
  s_status :: string
  s_transaction_hash :: "string option"
  s_created_at :: time
  s_processed_at :: "time option"
  s_buyer_zone_id :: "i32 option"
  s_seller_zone_id :: "i32 option"
  s_wheeling_charge :: "decimal option"
  s_loss_cost :: "decimal option"
  s_loss_factor :: "decimal option"
  s_effective_energy :: "decimal option"
  s_buyer_session_token :: "string option"
  s_seller_session_token :: "string option"
  s_retry_count :: "nat option"
  s_updated_at :: time

record revenue_row =
  r_settlement_id :: uuid
  r_amount :: decimal
  r_revenue_type :: string

text \<open>
  A row of \<open>erc_certificates\<close>, the part of its metadata that varies, and a row of
  \<open>erc_certificate_transfers\<close>.
\<close>

record erc_metadata =
  md_name :: string
  md_description :: string
  md_attributes :: "(string \<times> string) list"
  md_external_url :: string

record erc_certificate =
  c_id :: uuid
  c_certificate_id :: string
  c_user_id :: "uuid option"
  c_wallet_address :: string
  c_kwh_amount :: "decimal option"
  c_issue_date :: "time option"
  c_expiry_date :: "time option"
  c_issuer_wallet :: "string option"
  c_status :: string
  c_blockchain_tx_signature :: "string option"
  c_metadata :: "erc_metadata option"
  c_settlement_id :: "uuid option"
  c_created_at :: time

record cert_transfer =
  ct_id :: uuid
  ct_certificate_id :: uuid
  ct_from_wallet :: string
  ct_to_wallet :: string
  ct_transfer_date :: time
  ct_blockchain_tx_signature :: string
  ct_from_user_id :: "uuid option"
  ct_to_user_id :: uuid

text \<open>The columns of \<open>meters\<close> and of \<open>wallet_sessions\<close> that the trading core reads.\<close>

record meter_row =
  mt_id :: uuid
  mt_user_id :: uuid
  mt_serial_number :: string
  mt_meter_type :: "string option"
  mt_location :: "string option"
  mt_latitude :: "rat option"
  mt_longitude :: "rat option"
  mt_zone_id :: "i32 option"
  mt_is_verified :: "bool option"

record session_row =
  ws_user_id :: uuid
  ws_session_token :: string
  ws_cached_key_encrypted :: string
  ws_key_salt :: string
  ws_key_iv :: string
  ws_expires_at :: time
  ws_revoked_at :: "time option"
  ws_is_active :: "bool option"

text \<open>A row of \<open>zone_rates\<close>: the struct \<open>ZoneRate\<close> and the columns its query filters on.\<close>

record zone_rate =
  from_zone_id :: i32
  to_zone_id :: i32
  zr_wheeling_charge :: decimal
  zr_loss_factor :: decimal

record zone_rate_row = zone_rate +
  zr_is_active :: bool
  zr_effective_from :: time
  zr_effective_until :: "time option"

subsection \<open>Blockchain tasks\<close>

datatype BlockchainTaskType = TkEscrowRefund | TkSettlement | TkMinting

datatype TaskStatus = TkPending | TkProcessing | TkCompleted | TkFailed | TkMaxRetries

record escrow_refund_payload =
  p_user_id :: uuid
  p_amount :: decimal
  p_asset_type :: string
  p_order_id :: uuid

datatype TaskPayload = EscrowRefund escrow_refund_payload

text \<open>
  A row of \<open>blockchain_tasks\<close>.  The payload column holds JSON: the value it deserialises to, or
  the error text of deserialising it.
\<close>

record task_row =
  k_id :: uuid
  k_task_type :: BlockchainTaskType
  k_payload :: "string + TaskPayload"
  k_status :: TaskStatus
  k_retry_count :: int
  k_max_retries :: int
  k_last_error :: "string option"
  k_next_retry_at :: time

subsection \<open>Recurring orders\<close>

datatype IntervalType = Hourly | Daily | Weekly | Monthly

datatype RecurringStatus = RcActive | RcPaused | RcCompleted | RcCancelled

fun interval_type_fmt :: "IntervalType \<Rightarrow> string" where
  "interval_type_fmt Hourly = ''hourly''"
| "interval_type_fmt Daily = ''daily''"
| "interval_type_fmt Weekly = ''weekly''"
| "interval_type_fmt Monthly = ''monthly''"

fun recurring_status_fmt :: "RecurringStatus \<Rightarrow> string" where
  "recurring_status_fmt RcActive = ''active''"
| "recurring_status_fmt RcPaused = ''paused''"
| "recurring_status_fmt RcCompleted = ''completed''"
| "recurring_status_fmt RcCancelled = ''cancelled''"

text \<open>
  A row of \<open>recurring_orders\<close>: the struct \<open>RecurringOrder\<close> and the session token it does not load.
  The columns that the one \<open>INSERT\<close> of the program always fills are not nullable here.
\<close>

record recurring_order =
  rc_id :: uuid
  rc_user_id :: uuid
  rc_side :: OrderSide
  rc_energy_amount :: decimal
  rc_max_price_per_kwh :: "decimal option"
  rc_min_price_per_kwh :: "decimal option"
  rc_interval_type :: IntervalType
  rc_interval_value :: i32
  rc_next_execution_at :: time
  rc_last_executed_at :: "time option"
  rc_status :: RecurringStatus
  rc_total_executions :: i32
  rc_max_executions :: "i32 option"
  rc_name :: "string option"
  rc_description :: "string option"
  rc_created_at :: time
  rc_updated_at :: time

record recurring_row = recurring_order +
  rc_session_token :: "string option"

record execution_row =
  x_recurring_order_id :: uuid
  x_trading_order_id :: "uuid option"
  x_status :: string
  x_error_message :: "string option"
  x_energy_amount :: "decimal option"
  x_price_per_kwh :: "decimal option"

subsection \<open>Price alerts\<close>

datatype AlertCondition = Above | Below | Crosses

datatype AlertStatus = AlActive | AlTriggered | AlCancelled

record price_alert =
  a_id :: uuid
  a_user_id :: uuid
  a_target_price :: decimal
  a_condition :: AlertCondition
  a_status :: AlertStatus
  a_triggered_at :: "time option"
  a_triggered_price :: "decimal option"
  a_repeat :: bool
  a_note :: "string option"
  a_created_at :: time

subsection \<open>Carbon credits\<close>

datatype CarbonStatus = CcActive | CcRetired | CcTransferred

datatype CarbonTransactionStatus = CtPending | CtCompleted | CtFailed | CtCancelled

record carbon_credit =
  cc_id :: uuid
  cc_user_id :: uuid
  cc_amount :: decimal
  cc_source :: string
  cc_source_reference_id :: "uuid option"
  cc_status :: CarbonStatus
  cc_description :: "string option"
  cc_created_at :: time

record carbon_transaction =
  cx_id :: uuid
  cx_from_user_id :: "uuid option"
  cx_to_user_id :: uuid
  cx_amount :: decimal
  cx_price_per_credit :: "decimal option"
  cx_total_value :: "decimal option"
  cx_status :: CarbonTransactionStatus
  cx_notes :: "string option"
  cx_created_at :: time

subsection \<open>Linked wallets\<close>

record user_wallet =
  uw_id :: uuid
  uw_user_id :: uuid
  uw_wallet_address :: string
  uw_label :: "string option"
  uw_is_primary :: bool
  uw_verified :: bool
  uw_created_at :: time

subsection \<open>Futures\<close>

datatype FuturesSide = Long | Short

datatype FuturesOrderType = FtMarket | FtLimit

datatype FuturesOrderStatus = FtPending | FtOpen | FtFilled | FtCancelled | FtLiquidated

record futures_product =
  fp_id :: uuid
  fp_symbol :: string
  fp_base_asset :: string
  fp_quote_asset :: string
  fp_contract_size :: decimal
  fp_expiration_date :: time
  fp_current_price :: decimal
  fp_is_active :: "bool option"

record futures_order =
  fo_id :: uuid
  fo_user_id :: uuid
  fo_product_id :: uuid
  fo_side :: FuturesSide
  fo_order_type :: FuturesOrderType
  fo_quantity :: decimal
  fo_price :: decimal
  fo_leverage :: i32
  fo_status :: FuturesOrderStatus
  fo_filled_quantity :: "decimal option"
  fo_average_fill_price :: "decimal option"
  fo_created_at :: time

record futures_position =
  fq_id :: uuid
  fq_user_id :: uuid
  fq_product_id :: uuid
  fq_side :: FuturesSide
  fq_quantity :: decimal
  fq_entry_price :: decimal
  fq_current_price :: decimal
  fq_leverage :: i32
  fq_margin_used :: decimal
  fq_unrealized_pnl :: "decimal option"
  fq_liquidation_price :: "decimal option"

subsection \<open>Meter registry and readings\<close>

text \<open>
  Rows of \<open>meter_registry\<close>, \<open>meter_verification_attempts\<close>, \<open>meter_unminted_balances\<close> and \<open>meter_readings\<close>.
  A double precision value of a request is finite, as JSON has no other numbers, and is kept as the
  rational it denotes.
\<close>

record registry_row =
  mr_id :: uuid
  mr_user_id :: uuid
  mr_meter_serial :: string
  mr_meter_key_hash :: string
  mr_verification_method :: string
  mr_verification_status :: string
  mr_manufacturer :: "string option"
  mr_meter_type :: "string option"
  mr_location_address :: "string option"
  mr_installation_date :: "int option"
  mr_verification_proof :: "string option"
  mr_verified_at :: "time option"
  mr_verified_by :: "uuid option"
  mr_zone_id :: "i32 option"
  mr_created_at :: "time option"
  mr_updated_at :: "time option"

record attempt_row =
  va_id :: uuid
  va_meter_serial :: string
  va_user_id :: uuid
  va_verification_method :: string
  va_ip_address :: "string option"
  va_user_agent :: "string option"
  va_attempt_status :: string
  va_attempt_result :: "string option"
  va_failure_reason :: "string option"
  va_attempted_at :: "time option"

record unminted_row =
  ub_meter_serial :: string
  ub_accumulated_kwh :: "decimal option"
  ub_last_mint_at :: "time option"

text \<open>The columns of a reading that only pass through, as doubles and texts.\<close>

record reading_extra =
  rx_current_amps :: "rat option"
  rx_power_factor :: "rat option"
  rx_frequency :: "rat option"
  rx_thd_voltage :: "rat option"
  rx_thd_current :: "rat option"
  rx_latitude :: "rat option"
  rx_longitude :: "rat option"
  rx_weather_condition :: "string option"
  rx_rec_eligible :: "bool option"
  rx_carbon_offset :: "rat option"
  rx_max_sell_price :: "rat option"
  rx_max_buy_price :: "rat option"
  rx_meter_signature :: "string option"
  rx_meter_type :: "string option"

record reading_row =
  rd_id :: uuid
  rd_meter_serial :: "string option"
  rd_meter_id :: "uuid option"
  rd_user_id :: "uuid option"
  rd_wallet_address :: string
  rd_timestamp :: time
  rd_reading_timestamp :: time
  rd_kwh_amount :: "decimal option"
  rd_energy_generated :: "decimal option"
  rd_energy_consumed :: "decimal option"
  rd_surplus_energy :: "decimal option"
  rd_deficit_energy :: "decimal option"
  rd_voltage :: "decimal option"
  rd_temperature :: "decimal option"
  rd_battery_level :: "decimal option"
  rd_health_score :: "rat option"
  rd_extra :: reading_extra
  rd_minted :: "bool option"
  rd_mint_tx_signature :: "string option"
  rd_created_at :: "time option"

subsection \<open>Notifications\<close>

datatype NotificationType =
  OrderFilled | OrderMatched | ConditionalTriggered | RecurringExecuted | PriceAlert | EscrowReleased | System

text \<open>A row of \<open>notifications\<close> (the JSON column as its text) and of \<open>user_notification_preferences\<close>.\<close>

record notification =
  n_id :: uuid
  n_user_id :: uuid
  n_notification_type :: NotificationType
  n_title :: string
  n_message :: "string option"
  n_data :: "string option"
  n_read :: bool
  n_created_at :: time

record notification_preferences =
  np_user_id :: uuid
  np_order_filled :: bool
  np_order_matched :: bool
  np_conditional_triggered :: bool
  np_recurring_executed :: bool
  np_price_alerts :: bool
  np_escrow_events :: bool
  np_system_announcements :: bool
  np_email_enabled :: bool
  np_push_enabled :: bool
  np_updated_at :: time

end
