(* ===== verification/World.thy ===== *)
theory World
  imports Schema
begin

text \<open>
  The world a service call runs in and the parameters that stand for code outside the repository.

  \<^item> \<open>db\<close>: the tables of the PostgreSQL database.  A statement is atomic; a statement that violates
    a constraint of the migrations, or that the connection loses (the list \<open>faults\<close>, one entry
    per statement, with the error text), returns \<open>Database\<close>.  A transaction that does not
    commit leaves the tables as they were.
  \<^item> \<open>clock\<close>: \<open>Utc::now()\<close> and \<open>NOW()\<close>; \<open>uuids\<close>: how many fresh identifiers were drawn.
  \<^item> \<open>chain_log\<close>: the calls made to the blockchain, oldest first.
  \<^item> \<open>env\<close>: the rounding and the conversions of the decimal crate, the identifier generator, the
    calendar and the range of dates, number and date formatting, the server's average and its
    conversion of a double to \<open>NUMERIC\<close>, public-key parsing, key hashing, wallet encryption, the
    authority's key (when it was loaded), the zonal cost simulator and the blockchain, with
    whether an answer of it arrives before a deadline.
    A blockchain answer may depend on every call made before it.  Logging, metrics and web
    socket broadcasts change none of this and are left out; numbers and identifiers that an error
    text interpolates are left out of the text.
\<close>

record db =
  users :: "uuid \<rightharpoonup> user_row"
  orders :: "order_row list"
  escrow_records :: "escrow_record list"
  order_matches :: "match_row list"
  settlements :: "settlement_row list"
  epochs :: "market_epoch list"
  platform_revenue :: "revenue_row list"
  blockchain_tasks :: "task_row list"
  zone_rates :: "zone_rate_row list"
  erc_certificates :: "erc_certificate list"
  erc_transfers :: "cert_transfer list"
  meters :: "meter_row list"
  wallet_sessions :: "session_row list"
  recurring_orders :: "recurring_row list"
  recurring_order_executions :: "execution_row list"
  price_alerts :: "price_alert list"
  carbon_credits :: "carbon_credit list"
  carbon_transactions :: "carbon_transaction list"
  user_wallets :: "user_wallet list"
  futures_products :: "futures_product list"
  futures_orders :: "futures_order list"
  futures_positions :: "futures_position list"
  meter_registry :: "registry_row list"
  meter_verification_attempts :: "attempt_row list"
  meter_unminted_balances :: "unminted_row list"
  meter_readings :: "reading_row list"
  notifications :: "notification list"
  preferences :: "notification_preferences list"

text \<open>
  A call to the blockchain service, with the keys, accounts and amounts it is given.  A market,
  pool or vault address that the code derives from the trading program is the program's identifier.
\<close>

datatype chain_call =
    TradingProgramId
  | GetAuthority
  | GetSlot
  | AtaAddress string string
  | EnsureTokenAccount string string string
  | TokenBalance string string
  | CreateOrder string string u64 u64 OrderSide
  | LockTokens string string string string u64 nat
  | ReleaseEscrow string string string string u64 nat
  | RefundEscrow string string string string u64 nat
  | AtomicSettlement string string string string "string list" string string u64 u64 u64
  | MatchOrders string string string string u64
  | SwapBuyEnergy string string nat string string string string u64 u64
  | TransferTokens string string string string u64 nat
  | InitiateBridge string string string u64 nat
  | CompleteBridge string
  | BatchSettlement string string "u64 list" "u64 list" "u64 list" "string list"
  | MintEnergyTokens string string string string rat
  | MintSplTokens string string string rat
  | BurnEnergyTokens string string string rat
  | UpdateMeterReading string string u64 u64 i64
  | RequestAirdrop string u64
  | RegisterUser string nat string

record world =
  db :: db
  faults :: "string option list"
  clock :: time
  uuids :: nat
  chain_log :: "chain_call list"

record env =
  rnd :: "rat \<Rightarrow> rat"
  dec_to_u64 :: "rat \<Rightarrow> u64 option"
  dec_from_f64 :: "rat \<Rightarrow> rat"
  new_v4 :: "nat \<Rightarrow> uuid"
  civil :: "int \<Rightarrow> int \<times> int \<times> int"
  parse_pubkey :: "string \<Rightarrow> string option"
  decrypt_private_key :: "string \<Rightarrow> string \<Rightarrow> string \<Rightarrow> string \<Rightarrow> string option"
  keypair_pubkey :: "string \<Rightarrow> string option"
  seed_pubkey :: "string \<Rightarrow> string"
  base64_decode :: "string \<Rightarrow> string option"
  new_wallet :: "nat \<Rightarrow> string + (string \<times> string \<times> string \<times> string)"
  dec_to_f64 :: "rat \<Rightarrow> rat"
  show_f64 :: "rat \<Rightarrow> string"
  rfc3339 :: "time \<Rightarrow> string"
  year_str :: "time \<Rightarrow> string"
  date_in_range :: "time \<Rightarrow> bool"
  sql_avg :: "rat list \<Rightarrow> rat"
  simulator :: "i32 \<Rightarrow> i32 \<Rightarrow> decimal \<Rightarrow> decimal \<Rightarrow> (decimal \<times> decimal \<times> decimal \<times> decimal) option"
  chain_str :: "chain_call list \<Rightarrow> chain_call \<Rightarrow> string + string"
  chain_u64 :: "chain_call list \<Rightarrow> chain_call \<Rightarrow> string + u64"
  chain_order :: "chain_call list \<Rightarrow> chain_call \<Rightarrow> string + (string \<times> string)"
  env_var :: "string \<Rightarrow> string option"
  enable_real_blockchain :: bool
  use_onchain_balance_for_escrow :: bool
  currency_decimals :: nat
  currency_token_mint :: string
  energy_token_mint :: string
  encryption_secret :: string
  authority_keypair :: "string option"
  mint_threshold :: rat
  in_time :: "chain_call list \<Rightarrow> chain_call \<Rightarrow> u64 \<Rightarrow> bool"
  pg_numeric :: "nat \<Rightarrow> nat \<Rightarrow> rat \<Rightarrow> rat option"
  bcrypt_hash :: "string \<Rightarrow> string + string"
  bcrypt_verify :: "string \<Rightarrow> string \<Rightarrow> string + bool"
  hmac_hex :: "string \<Rightarrow> string \<Rightarrow> string"
  jwt_encode :: "claims \<Rightarrow> string option"
  jwt_decode :: "time \<Rightarrow> string \<Rightarrow> claims option"
  parse_uuid :: "string \<Rightarrow> uuid option"
  mailer :: "(string \<Rightarrow> string \<Rightarrow> string \<Rightarrow> bool) option"
  engineering_api_key :: string
  simulator_user_id :: string
  verification_expiry_hours :: int

definition dmul :: "env \<Rightarrow> decimal \<Rightarrow> decimal \<Rightarrow> decimal" where
  "dmul e x y = rnd e (x * y)"

definition ddiv :: "env \<Rightarrow> decimal \<Rightarrow> decimal \<Rightarrow> decimal" where
  "ddiv e x y = rnd e (x / y)"

text \<open>\<open>(x * 10^n).to_u64().unwrap_or(0)\<close>: an amount in units of the token.\<close>

definition to_raw :: "env \<Rightarrow> decimal \<Rightarrow> nat \<Rightarrow> u64" where
  "to_raw e x n = unwrap_or (dec_to_u64 e (dmul e x (10 ^ n))) 0"

subsection \<open>Statements\<close>

definition faulty :: "world \<Rightarrow> string option" where
  "faulty w = (case faults w of [] \<Rightarrow> None | f # _ \<Rightarrow> f)"

definition tick :: "world \<Rightarrow> world" where
  "tick w = w\<lparr>faults := tl (faults w)\<rparr>"

definition exec_chk :: "(db \<Rightarrow> bool) \<Rightarrow> (db \<Rightarrow> db) \<Rightarrow> (world, unit) io" where
  "exec_chk ok f = (\<lambda>w. case faulty w of
      Some m \<Rightarrow> (Err (Database m), tick w)
    | None \<Rightarrow> if ok (db w) then (Ok (), (tick w)\<lparr>db := f (db w)\<rparr>)
        else (Err (Database ''violates constraint''), tick w))"

definition exec :: "(db \<Rightarrow> db) \<Rightarrow> (world, unit) io" where
  "exec f = exec_chk (\<lambda>_. True) f"

definition query :: "(db \<Rightarrow> 'a) \<Rightarrow> (world, 'a) io" where
  "query q = (\<lambda>w. case faulty w of
      Some m \<Rightarrow> (Err (Database m), tick w)
    | None \<Rightarrow> (Ok (q (db w)), tick w))"

definition fetch_one :: "(db \<Rightarrow> 'a option) \<Rightarrow> (world, 'a) io" where
  "fetch_one q = bnd (query q) (\<lambda>r. case r of
      None \<Rightarrow> fail (Database ''no rows returned'')
    | Some x \<Rightarrow> ret x)"

text \<open>
  A statement that names columns: when the migrations did not create one of them the server refuses
  the statement.  \<open>Row::get\<close> of a column that the query did not select panics.
\<close>

definition with_columns :: "string list \<Rightarrow> string list \<Rightarrow> (world, 'a) io \<Rightarrow> (world, 'a) io" where
  "with_columns table named m = (if list_all (\<lambda>c. c \<in> set table) named then m
     else (\<lambda>w. (Err (Database (unwrap_or (faulty w) ''column does not exist'')), tick w)))"

definition row_get :: "string list \<Rightarrow> string \<Rightarrow> 'a \<Rightarrow> (world, 'a) io" where
  "row_get selected c v = (if c \<in> set selected then ret v else panic)"

text \<open>
  A statement with named constraints: the error text carries the name of the first one violated.
  \<open>internal_err\<close> is \<open>map_err(|e| ApiError::Internal(format!("...{}", e)))\<close> on a database error.
\<close>

primrec first_violated :: "(string \<times> (db \<Rightarrow> bool)) list \<Rightarrow> db \<Rightarrow> string option" where
  "first_violated [] d = None"
| "first_violated (c # cs) d = (if snd c d then first_violated cs d else Some (fst c))"

definition exec_named :: "(string \<times> (db \<Rightarrow> bool)) list \<Rightarrow> (db \<Rightarrow> db) \<Rightarrow> (db \<Rightarrow> 'a) \<Rightarrow> (world, 'a) io" where
  "exec_named cs f q = (\<lambda>w. case faulty w of
      Some m \<Rightarrow> (Err (Database m), tick w)
    | None \<Rightarrow> (case first_violated cs (db w) of
        Some n \<Rightarrow> (Err (Database (''violates constraint '' @ n)), tick w)
      | None \<Rightarrow> (Ok (q (f (db w))), (tick w)\<lparr>db := f (db w)\<rparr>)))"

definition to_internal :: "string \<Rightarrow> api_error \<Rightarrow> api_error" where
  "to_internal pre er = (case er of Database m \<Rightarrow> Internal (pre @ m) | _ \<Rightarrow> er)"

definition internal_err :: "string \<Rightarrow> (world, 'a) io \<Rightarrow> (world, 'a) io" where
  "internal_err pre m = map_err (to_internal pre) m"

text \<open>A statement whose number of affected rows the code reads.\<close>

definition exec_count :: "(db \<Rightarrow> nat) \<Rightarrow> (db \<Rightarrow> db) \<Rightarrow> (world, nat) io" where
  "exec_count n f = (\<lambda>w. case faulty w of
      Some m \<Rightarrow> (Err (Database m), tick w)
    | None \<Rightarrow> (Ok (n (db w)), (tick w)\<lparr>db := f (db w)\<rparr>))"

text \<open>\<open>UPDATE ... RETURNING\<close> and \<open>INSERT ... RETURNING\<close>: change the tables and answer from them.\<close>

definition exec_returning :: "(db \<Rightarrow> bool) \<Rightarrow> (db \<Rightarrow> db) \<Rightarrow> (db \<Rightarrow> 'a) \<Rightarrow> (world, 'a) io" where
  "exec_returning ok f q = (\<lambda>w. case exec_chk ok f w of
      (Ok _, w') \<Rightarrow> (Ok (q (db w')), w')
    | (Err er, w') \<Rightarrow> (Err er, w')
    | (Panic, w') \<Rightarrow> (Panic, w'))"

definition transaction :: "(world, 'a) io \<Rightarrow> (world, 'a) io" where
  "transaction body = (\<lambda>w. case faulty w of
      Some m \<Rightarrow> (Err (Database m), tick w)
    | None \<Rightarrow> (case body (tick w) of
        (Ok x, w') \<Rightarrow> (case faulty w' of
            Some m \<Rightarrow> (Err (Database m), (tick w')\<lparr>db := db w\<rparr>)
          | None \<Rightarrow> (Ok x, tick w'))
      | (Err er, w') \<Rightarrow> (Err er, w'\<lparr>db := db w\<rparr>)
      | (Panic, w') \<Rightarrow> (Panic, w'\<lparr>db := db w\<rparr>)))"

text \<open>
  A transaction whose body drops the error of one of its statements: the body answers whether every
  statement succeeded.  After a failed one the server answers \<open>COMMIT\<close> with a rollback, which the
  client takes for success.
\<close>

definition transaction_lenient :: "(world, bool) io \<Rightarrow> (world, unit) io" where
  "transaction_lenient body = (\<lambda>w. case transaction body w of
      (Ok intact, w') \<Rightarrow> (Ok (), if intact then w' else w'\<lparr>db := db w\<rparr>)
    | (Err er, w') \<Rightarrow> (Err er, w')
    | (Panic, w') \<Rightarrow> (Panic, w'))"

definition get_clock :: "(world, time) io" where
  "get_clock = (\<lambda>w. (Ok (clock w), w))"

definition sleep :: "u64 \<Rightarrow> (world, unit) io" where
  "sleep secs = (\<lambda>w. (Ok (), w\<lparr>clock := clock w + int (unat secs) * 1000000000\<rparr>))"

definition fresh_uuid :: "env \<Rightarrow> (world, uuid) io" where
  "fresh_uuid e = (\<lambda>w. (Ok (new_v4 e (uuids w)), w\<lparr>uuids := Suc (uuids w)\<rparr>))"

definition call_str :: "env \<Rightarrow> chain_call \<Rightarrow> (world, string) io" where
  "call_str e c = (\<lambda>w.
     (case chain_str e (chain_log w) c of Inl m \<Rightarrow> Err (Anyhow m) | Inr s \<Rightarrow> Ok s,
      w\<lparr>chain_log := chain_log w @ [c]\<rparr>))"

definition call_u64 :: "env \<Rightarrow> chain_call \<Rightarrow> (world, u64) io" where
  "call_u64 e c = (\<lambda>w.
     (case chain_u64 e (chain_log w) c of Inl m \<Rightarrow> Err (Anyhow m) | Inr s \<Rightarrow> Ok s,
      w\<lparr>chain_log := chain_log w @ [c]\<rparr>))"

definition call_order :: "env \<Rightarrow> chain_call \<Rightarrow> (world, string \<times> string) io" where
  "call_order e c = (\<lambda>w.
     (case chain_order e (chain_log w) c of Inl m \<Rightarrow> Err (Anyhow m) | Inr s \<Rightarrow> Ok s,
      w\<lparr>chain_log := chain_log w @ [c]\<rparr>))"

text \<open>A fresh key pair with its encrypted form; drawing it uses the same source of randomness.\<close>

definition fresh_wallet :: "env \<Rightarrow> (world, string \<times> string \<times> string \<times> string) io" where
  "fresh_wallet e = (\<lambda>w.
     (case new_wallet e (uuids w) of Inl m \<Rightarrow> Err (Anyhow m) | Inr k \<Rightarrow> Ok k,
      w\<lparr>uuids := Suc (uuids w)\<rparr>))"

lemma tick_simps [simp]:
  "db (tick w) = db w" "clock (tick w) = clock w" "uuids (tick w) = uuids w"
  "chain_log (tick w) = chain_log w" "faults (tick w) = tl (faults w)"
  by (simp_all add: tick_def)

lemma faulty_update [simp]:
  "faulty (w\<lparr>db := d\<rparr>) = faulty w" "faulty (w\<lparr>uuids := n\<rparr>) = faulty w"
  "faulty (w\<lparr>chain_log := l\<rparr>) = faulty w" "faulty (w\<lparr>clock := t\<rparr>) = faulty w"
  by (simp_all add: faulty_def)

lemma faulty_calm [simp]: "faults w = [] \<Longrightarrow> faulty w = None"
  by (simp add: faulty_def)

lemma tick_calm [simp]: "faults w = [] \<Longrightarrow> tick w = w"
  by (simp add: tick_def)

lemma exec_chk_calm [io_simps]:
  "faults w = [] \<Longrightarrow> exec_chk ok f w =
     (if ok (db w) then (Ok (), w\<lparr>db := f (db w)\<rparr>)
      else (Err (Database ''violates constraint''), w))"
  by (simp add: exec_chk_def)

lemma exec_calm [io_simps]: "faults w = [] \<Longrightarrow> exec f w = (Ok (), w\<lparr>db := f (db w)\<rparr>)"
  by (simp add: exec_def exec_chk_calm)

lemma query_calm [io_simps]: "faults w = [] \<Longrightarrow> query q w = (Ok (q (db w)), w)"
  by (simp add: query_def)

lemma fetch_one_calm [io_simps]:
  "faults w = [] \<Longrightarrow> fetch_one q w =
     (case q (db w) of None \<Rightarrow> (Err (Database ''no rows returned''), w) | Some x \<Rightarrow> (Ok x, w))"
  by (simp add: fetch_one_def bnd_app query_calm split: option.split)

lemma transaction_calm [io_simps]:
  "faults w = [] \<Longrightarrow> transaction body w = (case body w of
      (Ok x, w') \<Rightarrow> (case faulty w' of
          Some m \<Rightarrow> (Err (Database m), (tick w')\<lparr>db := db w\<rparr>)
        | None \<Rightarrow> (Ok x, tick w'))
    | (Err er, w') \<Rightarrow> (Err er, w'\<lparr>db := db w\<rparr>)
    | (Panic, w') \<Rightarrow> (Panic, w'\<lparr>db := db w\<rparr>))"
  by (simp add: transaction_def)

lemma transaction_lenient_app [io_simps]:
  "transaction_lenient body w = (case transaction body w of
      (Ok intact, w') \<Rightarrow> (Ok (), if intact then w' else w'\<lparr>db := db w\<rparr>)
    | (Err er, w') \<Rightarrow> (Err er, w')
    | (Panic, w') \<Rightarrow> (Panic, w'))"
  by (simp add: transaction_lenient_def)

lemma get_clock_app [io_simps]: "get_clock w = (Ok (clock w), w)"
  by (simp add: get_clock_def)

lemma fresh_uuid_app [io_simps]:
  "fresh_uuid e w = (Ok (new_v4 e (uuids w)), w\<lparr>uuids := Suc (uuids w)\<rparr>)"
  by (simp add: fresh_uuid_def)

lemma exec_returning_calm [io_simps]:
  "faults w = [] \<Longrightarrow> exec_returning ok f q w =
     (if ok (db w) then (Ok (q (f (db w))), w\<lparr>db := f (db w)\<rparr>)
      else (Err (Database ''violates constraint''), w))"
  by (simp add: exec_returning_def exec_chk_calm)

lemma exec_named_calm [io_simps]:
  "faults w = [] \<Longrightarrow> exec_named cs f q w = (case first_violated cs (db w) of
        Some n \<Rightarrow> (Err (Database (''violates constraint '' @ n)), w)
      | None \<Rightarrow> (Ok (q (f (db w))), w\<lparr>db := f (db w)\<rparr>))"
  by (simp add: exec_named_def split: option.split)

lemma exec_count_calm [io_simps]:
  "faults w = [] \<Longrightarrow> exec_count n f w = (Ok (n (db w)), w\<lparr>db := f (db w)\<rparr>)"
  by (simp add: exec_count_def)

lemma internal_err_app [io_simps]:
  "internal_err pre m w = (case m w of
      (Ok x, w') \<Rightarrow> (Ok x, w')
    | (Err er, w') \<Rightarrow> (Err (to_internal pre er), w')
    | (Panic, w') \<Rightarrow> (Panic, w'))"
  by (simp add: internal_err_def map_err_app)

lemma to_internal_simps [simp]:
  "to_internal pre (Database m) = Internal (pre @ m)" "to_internal pre (Internal m) = Internal m"
  "to_internal pre (BadRequest m) = BadRequest m" "to_internal pre (NotFound m) = NotFound m"
  by (simp_all add: to_internal_def)

lemma sleep_app [io_simps]:
  "sleep n w = (Ok (), w\<lparr>clock := clock w + int (unat n) * 1000000000\<rparr>)"
  by (simp add: sleep_def)

lemma calls_app [io_simps]:
  "call_str e c w = (case chain_str e (chain_log w) c of Inl m \<Rightarrow> Err (Anyhow m) | Inr s \<Rightarrow> Ok s,
      w\<lparr>chain_log := chain_log w @ [c]\<rparr>)"
  "call_u64 e c w = (case chain_u64 e (chain_log w) c of Inl m \<Rightarrow> Err (Anyhow m) | Inr n \<Rightarrow> Ok n,
      w\<lparr>chain_log := chain_log w @ [c]\<rparr>)"
  "call_order e c w = (case chain_order e (chain_log w) c of Inl m \<Rightarrow> Err (Anyhow m) | Inr p \<Rightarrow> Ok p,
      w\<lparr>chain_log := chain_log w @ [c]\<rparr>)"
  by (simp_all add: call_str_def call_u64_def call_order_def)

subsection \<open>What a statement that returned has done\<close>

lemma exec_chk_Ok:
  "exec_chk ok f w = (Ok u, w') \<longleftrightarrow>
     faulty w = None \<and> ok (db w) \<and> w' = (tick w)\<lparr>db := f (db w)\<rparr>"
  by (auto simp: exec_chk_def split: option.splits)

lemma exec_Ok:
  "exec f w = (Ok u, w') \<longleftrightarrow> faulty w = None \<and> w' = (tick w)\<lparr>db := f (db w)\<rparr>"
  by (auto simp: exec_def exec_chk_Ok)

lemma query_Ok:
  "query q w = (Ok x, w') \<longleftrightarrow> faulty w = None \<and> x = q (db w) \<and> w' = tick w"
  by (auto simp: query_def split: option.splits)

lemma fetch_one_Ok:
  "fetch_one q w = (Ok x, w') \<longleftrightarrow> faulty w = None \<and> q (db w) = Some x \<and> w' = tick w"
  by (auto simp: fetch_one_def query_def bnd_app split: option.splits)

lemma exec_returning_Ok:
  "exec_returning ok f q w = (Ok x, w') \<longleftrightarrow>
     faulty w = None \<and> ok (db w) \<and> w' = (tick w)\<lparr>db := f (db w)\<rparr> \<and> x = q (f (db w))"
  by (auto simp: exec_returning_def exec_chk_def split: option.splits if_splits)

lemma first_violated_None: "first_violated cs d = None \<longleftrightarrow> (\<forall>c \<in> set cs. snd c d)"
  by (induction cs) auto

lemma exec_named_Ok:
  "exec_named cs f q w = (Ok x, w') \<longleftrightarrow>
     faulty w = None \<and> (\<forall>c \<in> set cs. snd c (db w)) \<and> w' = (tick w)\<lparr>db := f (db w)\<rparr> \<and> x = q (f (db w))"
  by (auto simp: exec_named_def simp flip: first_violated_None split: option.splits)

lemma internal_err_Ok: "internal_err pre m w = (Ok x, w') \<longleftrightarrow> m w = (Ok x, w')"
  by (simp add: internal_err_def)

lemma exec_count_Ok:
  "exec_count n f w = (Ok x, w') \<longleftrightarrow> faulty w = None \<and> x = n (db w) \<and> w' = (tick w)\<lparr>db := f (db w)\<rparr>"
  by (auto simp: exec_count_def split: option.splits)

lemmas statement_Ok = exec_count_Ok exec_chk_Ok exec_Ok query_Ok fetch_one_Ok exec_returning_Ok exec_named_Ok internal_err_Ok

lemma statement_Err:
  "exec_chk ok f w \<noteq> (Err (Internal m), w')" "query q w \<noteq> (Err (Internal m), w')"
  "ignore p w \<noteq> (Err er, w')" "attempt p w \<noteq> (Err er, w')"
  by (auto simp: exec_chk_def query_def ignore_app attempt_app split: option.splits if_splits prod.splits outcome.splits)

text \<open>
  All or nothing: a transaction that does not return \<open>Ok\<close> leaves every table as it was, whichever
  statement failed.
\<close>

lemma transaction_atomic:
  assumes "transaction body w = (r, w')" and "\<And>x. r \<noteq> Ok x"
  shows "db w' = db w"
  using assms
  by (auto simp: transaction_def split: option.splits prod.splits outcome.splits)

lemma transaction_OkE:
  assumes "transaction body w = (Ok x, w')"
  obtains w1 where "body (tick w) = (Ok x, w1)" and "w' = tick w1"
  using assms
  by (auto simp: transaction_def split: option.splits prod.splits outcome.splits)

lemma transaction_lenient_atomic:
  assumes "transaction_lenient body w = (r, w')" and "\<And>x. r \<noteq> Ok x"
  shows "db w' = db w"
proof -
  obtain r1 w1 where "transaction body w = (r1, w1)" by (cases "transaction body w")
  with assms transaction_atomic [OF this] show ?thesis by (cases r1) (auto simp: transaction_lenient_def)
qed

lemma transaction_lenient_OkE:
  assumes "transaction_lenient body w = (Ok x, w')"
  obtains b w1 where "transaction body w = (Ok b, w1)" and "db w' = (if b then db w1 else db w)"
proof -
  obtain r1 w1 where "transaction body w = (r1, w1)" by (cases "transaction body w")
  with assms that show thesis by (cases r1) (auto simp: transaction_lenient_def split: if_splits)
qed

subsection \<open>Which statements keep a property of the tables\<close>

definition keeps_db :: "(db \<Rightarrow> bool) \<Rightarrow> (world, 'a) io \<Rightarrow> bool" where
  "keeps_db I m \<longleftrightarrow> keeps (\<lambda>w. I (db w)) m"

lemma keeps_dbD: "keeps_db I m \<Longrightarrow> I (db w) \<Longrightarrow> I (db (snd (m w)))"
  unfolding keeps_db_def by (drule keepsD) auto

lemma keeps_dbE: "keeps_db I m \<Longrightarrow> m w = (r, w') \<Longrightarrow> I (db w) \<Longrightarrow> I (db w')"
  using keeps_dbD [of I m w] by simp

named_theorems keeps_db_intros \<open>which programs keep a property of the tables\<close>

lemma keeps_db_ret [keeps_db_intros]: "keeps_db I (ret x)"
  and keeps_db_fail [keeps_db_intros]: "keeps_db I (fail er)"
  and keeps_db_panic [keeps_db_intros]: "keeps_db I panic"
  by (simp_all add: keeps_db_def keeps_def)

lemma keeps_db_bnd [keeps_db_intros]:
  "keeps_db I m \<Longrightarrow> (\<And>x. keeps_db I (k x)) \<Longrightarrow> keeps_db I (bnd m k)"
  by (simp add: keeps_db_def keeps_bnd)

lemma keeps_db_sq [keeps_db_intros]: "keeps_db I m \<Longrightarrow> keeps_db I n \<Longrightarrow> keeps_db I (sq m n)"
  by (simp add: keeps_db_def keeps_sq)

lemma keeps_db_attempt [keeps_db_intros]: "keeps_db I m \<Longrightarrow> keeps_db I (attempt m)"
  by (simp add: keeps_db_def keeps_attempt)

lemma keeps_db_for_each [keeps_db_intros]:
  "(\<And>x. x \<in> set xs \<Longrightarrow> keeps_db I (f x)) \<Longrightarrow> keeps_db I (for_each xs f)"
  by (simp add: keeps_db_def keeps_for_each)

lemma keeps_db_map_err [keeps_db_intros]: "keeps_db I m \<Longrightarrow> keeps_db I (map_err g m)"
  and keeps_db_ok_or [keeps_db_intros]: "keeps_db I (ok_or x er)"
  and keeps_db_unwrap [keeps_db_intros]: "keeps_db I (unwrap y)"
  and keeps_db_ignore [keeps_db_intros]: "keeps_db I m \<Longrightarrow> keeps_db I (ignore m)"
  by (simp_all add: keeps_db_def keeps_map_err keeps_ok_or keeps_unwrap keeps_ignore)

lemma keeps_db_map_each [keeps_db_intros]:
  "(\<And>x. x \<in> set xs \<Longrightarrow> keeps_db I (f x)) \<Longrightarrow> keeps_db I (map_each xs f)"
  by (simp add: keeps_db_def keeps_map_each)

lemma keeps_db_query [keeps_db_intros]: "keeps_db I (query q)"
  by (auto simp: keeps_db_def keeps_def query_def split: option.splits)

lemma keeps_db_fetch_one [keeps_db_intros]: "keeps_db I (fetch_one q)"
  unfolding fetch_one_def
  by (rule keeps_db_bnd [OF keeps_db_query]) (auto intro: keeps_db_intros split: option.split)

lemma keeps_db_exec_chk [keeps_db_intros]:
  "(\<And>d. I d \<Longrightarrow> ok d \<Longrightarrow> I (f d)) \<Longrightarrow> keeps_db I (exec_chk ok f)"
  by (auto simp: keeps_db_def keeps_def exec_chk_def split: option.splits)

lemma keeps_db_exec [keeps_db_intros]:
  "(\<And>d. I d \<Longrightarrow> I (f d)) \<Longrightarrow> keeps_db I (exec f)"
  unfolding exec_def by (rule keeps_db_exec_chk)

lemma keeps_db_exec_returning [keeps_db_intros]:
  assumes "\<And>d. I d \<Longrightarrow> ok d \<Longrightarrow> I (f d)"
  shows "keeps_db I (exec_returning ok f q)"
  using keeps_db_exec_chk [of I ok f] assms
  by (auto simp: keeps_db_def keeps_def exec_returning_def exec_chk_def split: option.splits)

lemma keeps_db_exec_named [keeps_db_intros]:
  assumes "\<And>d. I d \<Longrightarrow> (\<forall>c \<in> set cs. snd c d) \<Longrightarrow> I (f d)"
  shows "keeps_db I (exec_named cs f q)"
  using assms
  by (auto simp: keeps_db_def keeps_def exec_named_def first_violated_None split: option.splits)

lemma keeps_db_exec_count [keeps_db_intros]: "(\<And>d. I d \<Longrightarrow> I (f d)) \<Longrightarrow> keeps_db I (exec_count n f)"
  by (auto simp: keeps_db_def keeps_def exec_count_def split: option.splits)

lemma keeps_db_internal_err [keeps_db_intros]: "keeps_db I m \<Longrightarrow> keeps_db I (internal_err pre m)"
  unfolding internal_err_def by (rule keeps_db_map_err)

lemma keeps_db_with_columns [keeps_db_intros]: "keeps_db I m \<Longrightarrow> keeps_db I (with_columns t n m)"
  and keeps_db_row_get [keeps_db_intros]: "keeps_db I (row_get sel c v)"
  by (auto simp: keeps_db_def keeps_def with_columns_def row_get_def)

lemma keeps_db_transaction [keeps_db_intros]:
  assumes "keeps_db I m"
  shows "keeps_db I (transaction m)"
  unfolding keeps_db_def keeps_def
proof (intro allI impI)
  fix w :: world assume I: "I (db w)"
  obtain r w' where b: "m (tick w) = (r, w')" by (cases "m (tick w)") auto
  have "I (db w')" using keeps_dbD [OF assms, of "tick w"] I b by simp
  with I b show "I (db (snd (transaction m w)))"
    by (cases r) (auto simp: transaction_def split: option.splits)
qed

lemma keeps_db_transaction_lenient [keeps_db_intros]:
  assumes "keeps_db I m"
  shows "keeps_db I (transaction_lenient m)"
  unfolding keeps_db_def keeps_def
proof (intro allI impI)
  fix w :: world assume I: "I (db w)"
  obtain r w' where b: "transaction m w = (r, w')" by (cases "transaction m w") auto
  have "I (db w')" using keeps_dbD [OF keeps_db_transaction [OF assms], of w] I b by simp
  with I b show "I (db (snd (transaction_lenient m w)))"
    by (cases r) (auto simp: transaction_lenient_def)
qed

lemma keeps_db_calls [keeps_db_intros]:
  "keeps_db I get_clock" "keeps_db I (fresh_uuid e)" "keeps_db I (call_str e c)"
  "keeps_db I (call_u64 e c)" "keeps_db I (call_order e c)" "keeps_db I (sleep n)"
  "keeps_db I (fresh_wallet e)"
  by (simp_all add: keeps_db_def keeps_def get_clock_def fresh_uuid_def call_str_def call_u64_def
      call_order_def sleep_def fresh_wallet_def)

lemma keeps_db_if [keeps_db_intros]:
  "(b \<Longrightarrow> keeps_db I m) \<Longrightarrow> (\<not> b \<Longrightarrow> keeps_db I n) \<Longrightarrow> keeps_db I (if b then m else n)"
  by simp

lemma keeps_db_option [keeps_db_intros]:
  "(x = None \<Longrightarrow> keeps_db I m) \<Longrightarrow> (\<And>y. x = Some y \<Longrightarrow> keeps_db I (k y)) \<Longrightarrow>
   keeps_db I (case x of None \<Rightarrow> m | Some y \<Rightarrow> k y)"
  by (cases x) auto

lemma keeps_db_sum [keeps_db_intros]:
  "(\<And>y. x = Inl y \<Longrightarrow> keeps_db I (l y)) \<Longrightarrow> (\<And>y. x = Inr y \<Longrightarrow> keeps_db I (r y)) \<Longrightarrow>
   keeps_db I (case x of Inl y \<Rightarrow> l y | Inr y \<Rightarrow> r y)"
  by (cases x) auto

lemma keeps_db_prod [keeps_db_intros]:
  "(\<And>a b. x = (a, b) \<Longrightarrow> keeps_db I (k a b)) \<Longrightarrow> keeps_db I (case x of (a, b) \<Rightarrow> k a b)"
  by (cases x) auto

lemma keeps_db_side [keeps_db_intros]:
  "keeps_db I m \<Longrightarrow> keeps_db I n \<Longrightarrow> keeps_db I (case s of Buy \<Rightarrow> m | Sell \<Rightarrow> n)"
  by (cases s) auto

subsection \<open>Programs that do not panic\<close>

definition no_panic :: "(world, 'a) io \<Rightarrow> bool" where
  "no_panic m \<longleftrightarrow> (\<forall>w. fst (m w) \<noteq> Panic)"

named_theorems no_panic_intros \<open>which programs do not panic\<close>

lemma no_panicD: "no_panic m \<Longrightarrow> fst (m w) \<noteq> Panic"
  by (simp add: no_panic_def)

lemma no_panic_basic [no_panic_intros]:
  "no_panic (ret x)" "no_panic (fail er)" "no_panic get_clock" "no_panic (sleep n)"
  "no_panic (fresh_uuid e)" "no_panic (query q)" "no_panic (exec_chk ok f)" "no_panic (exec f)"
  by (auto simp: no_panic_def get_clock_def sleep_def fresh_uuid_def query_def exec_def exec_chk_def split: option.splits)

lemma no_panic_calls [no_panic_intros]:
  "no_panic (call_str e c)" "no_panic (call_u64 e c)" "no_panic (call_order e c)" "no_panic (fresh_wallet e)"
  "no_panic (ok_or x er)"
  by (auto simp: no_panic_def call_str_def call_u64_def call_order_def fresh_wallet_def ok_or_def split: sum.splits option.splits)

lemma no_panic_bnd [no_panic_intros]:
  assumes "no_panic m" and "\<And>x. no_panic (k x)"
  shows "no_panic (bnd m k)"
  unfolding no_panic_def
proof
  fix w show "fst (bnd m k w) \<noteq> Panic"
    using no_panicD [OF assms(1), of w] no_panicD [OF assms(2)]
    by (cases "m w") (auto simp: bnd_app split: outcome.splits)
qed

lemma no_panic_sq [no_panic_intros]: "no_panic m \<Longrightarrow> no_panic n \<Longrightarrow> no_panic (sq m n)"
  unfolding sq_def by (rule no_panic_bnd)

lemma no_panic_attempt [no_panic_intros]: "no_panic m \<Longrightarrow> no_panic (attempt m)"
  and no_panic_map_err [no_panic_intros]: "no_panic m \<Longrightarrow> no_panic (map_err g m)"
  and no_panic_ignore [no_panic_intros]: "no_panic m \<Longrightarrow> no_panic (ignore m)"
proof -
  assume m: "no_panic m"
  have "fst (attempt m w) \<noteq> Panic \<and> fst (map_err g m w) \<noteq> Panic" for w
    using no_panicD [OF m, of w] by (cases "m w") (auto simp: attempt_app map_err_app split: outcome.splits)
  then show "no_panic (attempt m)" "no_panic (map_err g m)" by (auto simp: no_panic_def)
  then show "no_panic (ignore m)" unfolding ignore_def by (intro no_panic_intros)
qed

lemma no_panic_fetch_one [no_panic_intros]: "no_panic (fetch_one q)"
  unfolding fetch_one_def
  by (rule no_panic_bnd) (auto intro: no_panic_intros split: option.split)

lemma no_panic_transaction [no_panic_intros]: "no_panic m \<Longrightarrow> no_panic (transaction m)"
proof -
  assume m: "no_panic m"
  have "fst (transaction m w) \<noteq> Panic" for w
    using no_panicD [OF m, of "tick w"]
    by (cases "m (tick w)") (auto simp: transaction_def split: option.splits outcome.splits)
  then show ?thesis by (simp add: no_panic_def)
qed

lemma no_panic_cases [no_panic_intros]:
  "(b \<Longrightarrow> no_panic m) \<Longrightarrow> (\<not> b \<Longrightarrow> no_panic n) \<Longrightarrow> no_panic (if b then m else n)"
  "(x = None \<Longrightarrow> no_panic m) \<Longrightarrow> (\<And>y. x = Some y \<Longrightarrow> no_panic (k y)) \<Longrightarrow> no_panic (case x of None \<Rightarrow> m | Some y \<Rightarrow> k y)"
  "(\<And>y. z = Inl y \<Longrightarrow> no_panic (l y)) \<Longrightarrow> (\<And>y. z = Inr y \<Longrightarrow> no_panic (r y)) \<Longrightarrow> no_panic (case z of Inl y \<Rightarrow> l y | Inr y \<Rightarrow> r y)"
  "(\<And>a b. p = (a, b) \<Longrightarrow> no_panic (h a b)) \<Longrightarrow> no_panic (case p of (a, b) \<Rightarrow> h a b)"
  "no_panic m \<Longrightarrow> no_panic n \<Longrightarrow> no_panic (case s of Buy \<Rightarrow> m | Sell \<Rightarrow> n)"
  by (auto split: option.split sum.split prod.split OrderSide.split)

lemma ignore_no_panic: "no_panic m \<Longrightarrow> ignore m w = (Ok (), snd (m w))"
  using no_panicD [of m w] by (cases "m w") (auto simp: ignore_app split: outcome.split)

subsection \<open>Statements that succeed when no statement is lost\<close>

definition commits :: "(db \<Rightarrow> bool) \<Rightarrow> (world, unit) io \<Rightarrow> bool" where
  "commits I m \<longleftrightarrow> (\<forall>w. faults w = [] \<longrightarrow> I (db w) \<longrightarrow> (\<exists>d. m w = (Ok (), w\<lparr>db := d\<rparr>) \<and> I d))"

named_theorems commits_intros \<open>which programs succeed and keep a property of the tables\<close>

lemma commitsD: "commits I m \<Longrightarrow> faults w = [] \<Longrightarrow> I (db w) \<Longrightarrow> \<exists>d. m w = (Ok (), w\<lparr>db := d\<rparr>) \<and> I d"
  by (simp add: commits_def)

lemma commits_ret [commits_intros]: "commits I (ret ())"
  unfolding commits_def by (auto intro!: exI [of _ "db _"])

lemma commits_exec_chk [commits_intros]:
  "(\<And>d. I d \<Longrightarrow> ok d) \<Longrightarrow> (\<And>d. I d \<Longrightarrow> I (f d)) \<Longrightarrow> commits I (exec_chk ok f)"
  by (auto simp: commits_def exec_chk_calm)

lemma commits_exec [commits_intros]: "(\<And>d. I d \<Longrightarrow> I (f d)) \<Longrightarrow> commits I (exec f)"
  unfolding exec_def by (rule commits_exec_chk) simp_all

lemma commits_sq [commits_intros]:
  assumes "commits I m" and "commits I n"
  shows "commits I (sq m n)"
  unfolding commits_def
proof (intro allI impI)
  fix w :: world assume w: "faults w = []" "I (db w)"
  obtain d where m: "m w = (Ok (), w\<lparr>db := d\<rparr>)" "I d" using commitsD [OF assms(1) w] by blast
  with commitsD [OF assms(2), of "w\<lparr>db := d\<rparr>"] w
  show "\<exists>d. sq m n w = (Ok (), w\<lparr>db := d\<rparr>) \<and> I d" by (auto simp: sq_app)
qed

lemma commits_transaction [commits_intros]:
  assumes "commits I m"
  shows "commits I (transaction m)"
  unfolding commits_def
proof (intro allI impI)
  fix w :: world assume w: "faults w = []" "I (db w)"
  from commitsD [OF assms w] w show "\<exists>d. transaction m w = (Ok (), w\<lparr>db := d\<rparr>) \<and> I d"
    by (auto simp: transaction_calm)
qed

lemma commits_if [commits_intros]:
  "(b \<Longrightarrow> commits I m) \<Longrightarrow> (\<not> b \<Longrightarrow> commits I n) \<Longrightarrow> commits I (if b then m else n)"
  and commits_option [commits_intros]:
  "(x = None \<Longrightarrow> commits I m) \<Longrightarrow> (\<And>y. x = Some y \<Longrightarrow> commits I (k y)) \<Longrightarrow>
   commits I (case x of None \<Rightarrow> m | Some y \<Rightarrow> k y)"
  by (auto split: option.split)

subsection \<open>Worlds in which no statement is lost\<close>

definition quiet_at :: "time \<Rightarrow> nat \<Rightarrow> world \<Rightarrow> bool" where
  "quiet_at c n w \<longleftrightarrow> faults w = [] \<and> clock w = c \<and> uuids w = n"

lemma quiet_atD: "keeps (quiet_at (clock w) (uuids w)) m \<Longrightarrow> faults w = [] \<Longrightarrow>
    faults (snd (m w)) = [] \<and> clock (snd (m w)) = clock w \<and> uuids (snd (m w)) = uuids w"
  using keepsD [of "quiet_at (clock w) (uuids w)" m w] by (simp add: quiet_at_def)

lemma keeps_quiet [keeps_intros]:
  "keeps (quiet_at c n) (query q)" "keeps (quiet_at c n) (exec_chk ok f)" "keeps (quiet_at c n) (exec f)"
  "keeps (quiet_at c n) (call_str e x)" "keeps (quiet_at c n) (call_u64 e x)" "keeps (quiet_at c n) (call_order e x)"
  "keeps (quiet_at c n) get_clock"
  by (auto simp: keeps_def quiet_at_def query_calm exec_chk_calm exec_calm calls_app get_clock_app)

lemma keeps_quiet_fetch_one [keeps_intros]: "keeps (quiet_at c n) (fetch_one q)"
  unfolding fetch_one_def by (intro keeps_intros)

end
