(* ===== verification/Sample.thy ===== *)
theory Sample
  imports World
begin

text \<open>
  A concrete environment, and concrete rows, at which the hypotheses of the theorems hold.  The
  rounding, the conversions, the identifier generator, the calendar, the key parser, the simulator
  and the blockchain are executable functions with the documented behaviour; nothing of the model
  depends on them.
\<close>

definition std_to_u64 :: "rat \<Rightarrow> u64 option" where
  "std_to_u64 x = (if 0 \<le> x \<and> x < 2 ^ 64 then Some (of_int \<lfloor>x\<rfloor>) else None)"

text \<open>A calendar of twelve months of thirty days: injective, with months and days in range.\<close>

definition std_civil :: "int \<Rightarrow> int \<times> int \<times> int" where
  "std_civil d = (d div 360, (d mod 360) div 30 + 1, d mod 30 + 1)"

definition std_env :: env where
  "std_env =
    \<lparr> rnd = round_dp 28, dec_to_u64 = std_to_u64, dec_from_f64 = round_dp 12,
      new_v4 = (\<lambda>n. word_of_nat (n + 1000)), civil = std_civil,
      parse_pubkey = (\<lambda>s. if s = [] then None else Some s),
      decrypt_private_key = (\<lambda>_ k _ _. Some k), keypair_pubkey = (\<lambda>k. Some k),
      seed_pubkey = (\<lambda>k. k), base64_decode = (\<lambda>s. Some s),
      new_wallet = (\<lambda>_. Inr (''pk'', ''enc'', ''salt'', ''iv'')), dec_to_f64 = (\<lambda>x. x),
      show_f64 = (\<lambda>_. ''f''), rfc3339 = (\<lambda>_. ''t''), year_str = (\<lambda>_. ''2026''),
      date_in_range = (\<lambda>t. \<bar>t\<bar> < 8000000000000000000000), sql_avg = (\<lambda>xs. sum_list xs / rat_of_nat (length xs)),
      simulator = (\<lambda>_ _ _ _. None), chain_str = (\<lambda>_ _. Inr ''sig''), chain_u64 = (\<lambda>_ _. Inr 0),
      chain_order = (\<lambda>_ _. Inr (''sig'', ''pda'')), env_var = (\<lambda>_. None),
      enable_real_blockchain = False, use_onchain_balance_for_escrow = False,
      currency_decimals = 6, currency_token_mint = ''usdc'', energy_token_mint = ''grx'',
      encryption_secret = ''secret'',
      authority_keypair = Some ''authority'', mint_threshold = 5, in_time = (\<lambda>_ _ _. True),
      pg_numeric = (\<lambda>p s x. if \<bar>round_dp s x\<bar> < 10 ^ (p - s) then Some (round_dp s x) else None),
      bcrypt_hash = (\<lambda>k. Inr (''hash-'' @ k)),
      bcrypt_verify = (\<lambda>k h. Inr (h = ''hash-'' @ k)), hmac_hex = (\<lambda>k m. k @ m),
      jwt_encode = (\<lambda>c. if cl_username c = [] then None else Some (cl_username c)),
      jwt_decode = (\<lambda>_ _. None), parse_uuid = (\<lambda>s. if s = ''one'' then Some 1 else None), mailer = None,
      engineering_api_key = ''key'', simulator_user_id = ''one'', verification_expiry_hours = 24 \<rparr>"

lemma std_env_simps [simp]:
  "rnd std_env = round_dp 28" "dec_to_u64 std_env = std_to_u64" "dec_from_f64 std_env = round_dp 12"
  "new_v4 std_env = (\<lambda>n. word_of_nat (n + 1000))" "civil std_env = std_civil"
  "parse_pubkey std_env = (\<lambda>s. if s = [] then None else Some s)"
  "decrypt_private_key std_env = (\<lambda>_ k _ _. Some k)" "keypair_pubkey std_env = (\<lambda>k. Some k)"
  "seed_pubkey std_env = (\<lambda>k. k)" "base64_decode std_env = (\<lambda>s. Some s)"
  "new_wallet std_env = (\<lambda>_. Inr (''pk'', ''enc'', ''salt'', ''iv''))" "dec_to_f64 std_env = (\<lambda>x. x)"
  "show_f64 std_env = (\<lambda>_. ''f'')" "rfc3339 std_env = (\<lambda>_. ''t'')" "year_str std_env = (\<lambda>_. ''2026'')"
  "date_in_range std_env = (\<lambda>t. \<bar>t\<bar> < 8000000000000000000000)"
  "sql_avg std_env = (\<lambda>xs. sum_list xs / rat_of_nat (length xs))"
  "simulator std_env = (\<lambda>_ _ _ _. None)" "chain_str std_env = (\<lambda>_ _. Inr ''sig'')"
  "chain_u64 std_env = (\<lambda>_ _. Inr 0)" "chain_order std_env = (\<lambda>_ _. Inr (''sig'', ''pda''))"
  "env_var std_env = (\<lambda>_. None)" "encryption_secret std_env = ''secret''"
  "authority_keypair std_env = Some ''authority''" "mint_threshold std_env = 5" "in_time std_env = (\<lambda>_ _ _. True)"
  "pg_numeric std_env = (\<lambda>p s x. if \<bar>round_dp s x\<bar> < 10 ^ (p - s) then Some (round_dp s x) else None)"
  "bcrypt_hash std_env = (\<lambda>k. Inr (''hash-'' @ k))" "bcrypt_verify std_env = (\<lambda>k h. Inr (h = ''hash-'' @ k))"
  "hmac_hex std_env = (\<lambda>k m. k @ m)" "jwt_encode std_env = (\<lambda>c. if cl_username c = [] then None else Some (cl_username c))"
  "jwt_decode std_env = (\<lambda>_ _. None)" "parse_uuid std_env = (\<lambda>s. if s = ''one'' then Some 1 else None)" "mailer std_env = None"
  "engineering_api_key std_env = ''key''" "simulator_user_id std_env = ''one''" "verification_expiry_hours std_env = 24"
  "enable_real_blockchain std_env = False" "use_onchain_balance_for_escrow std_env = False"
  by (simp_all add: std_env_def)

definition sample_account :: "string \<Rightarrow> account_row" where
  "sample_account name =
    \<lparr> ac_username = name, ac_password_hash = ''hash-secret'', ac_role = ''user'', ac_first_name = None, ac_last_name = None,
      ac_is_active = Some True, ac_blockchain_registered = Some False, ac_email_verification_token = None,
      ac_email_verification_expires_at = None, ac_password_reset_token = None, ac_password_reset_expires_at = None \<rparr>"

definition sample_user :: "decimal \<Rightarrow> decimal \<Rightarrow> decimal \<Rightarrow> user_row" where
  "sample_user b l en =
    \<lparr> balance = Some b, locked_amount = Some l, locked_energy = Some en,
      wallet_address = Some ''wallet'', encrypted_private_key = Some ''enc'',
      wallet_salt = Some ''salt'', encryption_iv = Some ''iv'',
      email = ''user'', email_verified = True, account = sample_account ''user'' \<rparr>"

definition sample_order :: "uuid \<Rightarrow> uuid \<Rightarrow> OrderSide \<Rightarrow> decimal \<Rightarrow> decimal \<Rightarrow> decimal \<Rightarrow> OrderStatus \<Rightarrow> order_row" where
  "sample_order i u sd en pr fi st =
    \<lparr> o_id = i, o_user_id = u, o_order_type = Limit, o_side = sd, o_energy_amount = en,
      o_price_per_kwh = pr, o_filled_amount = Some fi, o_status = st, o_expires_at = Some 100,
      o_created_at = Some 0, o_filled_at = None, o_epoch_id = Some 7, o_zone_id = Some 1,
      o_meter_id = None, o_refund_tx_signature = None, o_order_pda = None, o_session_token = None,
      o_is_confidential = False, o_energy_source = None, o_trigger_price = None,
      o_trigger_type = None, o_trigger_status = Some TrPending, o_trailing_offset = None,
      o_triggered_at = None, o_blockchain_tx_signature = None \<rparr>"

definition empty_db :: db where
  "empty_db =
    \<lparr> users = Map.empty, orders = [], escrow_records = [], order_matches = [], settlements = [],
      epochs = [], platform_revenue = [], blockchain_tasks = [], zone_rates = [],
      erc_certificates = [], erc_transfers = [], meters = [], wallet_sessions = [],
      recurring_orders = [], recurring_order_executions = [], price_alerts = [],
      carbon_credits = [], carbon_transactions = [], user_wallets = [],
      futures_products = [], futures_orders = [], futures_positions = [],
      meter_registry = [], meter_verification_attempts = [], meter_unminted_balances = [], meter_readings = [], notifications = [], preferences = [] \<rparr>"

definition calm_world :: "db \<Rightarrow> world" where
  "calm_world d = \<lparr> db = d, faults = [], clock = 1000, uuids = 0, chain_log = [] \<rparr>"

lemma calm_world_simps [simp]:
  "db (calm_world d) = d" "faults (calm_world d) = []" "clock (calm_world d) = 1000"
  "uuids (calm_world d) = 0" "chain_log (calm_world d) = []"
  by (simp_all add: calm_world_def)

lemma empty_db_simps [simp]:
  "users empty_db = Map.empty" "orders empty_db = []" "escrow_records empty_db = []"
  "order_matches empty_db = []" "settlements empty_db = []" "epochs empty_db = []"
  "platform_revenue empty_db = []" "blockchain_tasks empty_db = []" "zone_rates empty_db = []"
  "erc_certificates empty_db = []" "erc_transfers empty_db = []" "meters empty_db = []"
  "wallet_sessions empty_db = []" "recurring_orders empty_db = []" "recurring_order_executions empty_db = []"
  "price_alerts empty_db = []" "carbon_credits empty_db = []" "carbon_transactions empty_db = []"
  "user_wallets empty_db = []" "futures_products empty_db = []" "futures_orders empty_db = []"
  "futures_positions empty_db = []" "meter_registry empty_db = []" "meter_verification_attempts empty_db = []"
  "meter_unminted_balances empty_db = []" "meter_readings empty_db = []" "notifications empty_db = []" "preferences empty_db = []"
  by (simp_all add: empty_db_def)

end
