(* ===== verification/Escrow.thy ===== *)
theory Escrow
  imports Sample
begin

text \<open>
  Off-chain escrow (\<open>src/src/services/market_clearing/escrow.rs\<close>): the four operations that lock
  and unlock a user's money and energy, each one database transaction.  The contract the order
  book, the matching engine and the settlement service rely on is the locale \<open>escrow_side\<close>; it is
  interpreted on the money side and on the energy side.
\<close>

subsection \<open>Statements on users and escrow records\<close>

text \<open>\<open>c + $1\<close> in SQL: \<open>NULL\<close> stays \<open>NULL\<close>.\<close>

definition sql_add :: "decimal option \<Rightarrow> decimal \<Rightarrow> decimal option" where
  "sql_add c a = map_option (\<lambda>v. v + a) c"

lemma sql_add_simps [simp]:
  "sql_add None a = None" "sql_add (Some v) a = Some (v + a)" "sql_add c 0 = c"
  "sql_add (sql_add c a) b = sql_add c (a + b)"
  by (cases c; simp add: sql_add_def add.assoc)+

lemma sql_add_None [simp]: "sql_add c a = None \<longleftrightarrow> c = None" "None = sql_add c a \<longleftrightarrow> c = None"
  by (auto simp: sql_add_def)

definition upd_user :: "uuid \<Rightarrow> (user_row \<Rightarrow> user_row) \<Rightarrow> db \<Rightarrow> db" where
  "upd_user u f d = d\<lparr>users := (users d)(u := map_option f (users d u))\<rparr>"

lemma users_upd_user [simp]: "users (upd_user u f d) = (users d)(u := map_option f (users d u))"
  and upd_user_frame [simp]:
    "orders (upd_user u f d) = orders d" "escrow_records (upd_user u f d) = escrow_records d"
    "order_matches (upd_user u f d) = order_matches d" "settlements (upd_user u f d) = settlements d"
    "epochs (upd_user u f d) = epochs d" "platform_revenue (upd_user u f d) = platform_revenue d"
    "blockchain_tasks (upd_user u f d) = blockchain_tasks d" "zone_rates (upd_user u f d) = zone_rates d"
  by (simp_all add: upd_user_def)

definition order_exists :: "uuid \<Rightarrow> db \<Rightarrow> bool" where
  "order_exists i d = list_ex (\<lambda>r. o_id r = i) (orders d)"

definition add_escrow :: "escrow_record \<Rightarrow> db \<Rightarrow> db" where
  "add_escrow r d = d\<lparr>escrow_records := escrow_records d @ [r]\<rparr>"

text \<open>The foreign keys of \<open>escrow_records\<close>.\<close>

definition escrow_fk :: "uuid \<Rightarrow> uuid \<Rightarrow> db \<Rightarrow> bool" where
  "escrow_fk u i d \<longleftrightarrow> users d u \<noteq> None \<and> order_exists i d"

definition release_escrow :: "(escrow_record \<Rightarrow> bool) \<Rightarrow> (escrow_record \<Rightarrow> escrow_record) \<Rightarrow> db \<Rightarrow> db" where
  "release_escrow p f d = d\<lparr>escrow_records :=
     update_where p (\<lambda>r. (f r)\<lparr>e_status := ''released''\<rparr>) (escrow_records d)\<rparr>"

lemma escrow_frame [simp]:
  "users (add_escrow r d) = users d" "orders (add_escrow r d) = orders d"
  "settlements (add_escrow r d) = settlements d" "epochs (add_escrow r d) = epochs d"
  "order_matches (add_escrow r d) = order_matches d"
  "platform_revenue (add_escrow r d) = platform_revenue d"
  "blockchain_tasks (add_escrow r d) = blockchain_tasks d"
  "escrow_records (add_escrow r d) = escrow_records d @ [r]"
  "users (release_escrow p f d) = users d" "orders (release_escrow p f d) = orders d"
  "settlements (release_escrow p f d) = settlements d" "epochs (release_escrow p f d) = epochs d"
  "order_matches (release_escrow p f d) = order_matches d"
  "platform_revenue (release_escrow p f d) = platform_revenue d"
  "blockchain_tasks (release_escrow p f d) = blockchain_tasks d"
  by (simp_all add: add_escrow_def release_escrow_def)

definition move_to_locked :: "decimal \<Rightarrow> user_row \<Rightarrow> user_row" where
  "move_to_locked a r = r\<lparr>balance := sql_add (balance r) (- a), locked_amount := sql_add (locked_amount r) a\<rparr>"

definition add_locked_energy :: "decimal \<Rightarrow> user_row \<Rightarrow> user_row" where
  "add_locked_energy a r = r\<lparr>locked_energy := sql_add (locked_energy r) a\<rparr>"

lemma move_to_locked_fields [simp]:
  "balance (move_to_locked a r) = sql_add (balance r) (- a)"
  "locked_amount (move_to_locked a r) = sql_add (locked_amount r) a"
  "locked_energy (move_to_locked a r) = locked_energy r"
  "wallet_address (move_to_locked a r) = wallet_address r"
  "encrypted_private_key (move_to_locked a r) = encrypted_private_key r"
  "wallet_salt (move_to_locked a r) = wallet_salt r" "encryption_iv (move_to_locked a r) = encryption_iv r"
  by (simp_all add: move_to_locked_def)

lemma add_locked_energy_fields [simp]:
  "balance (add_locked_energy a r) = balance r"
  "locked_amount (add_locked_energy a r) = locked_amount r"
  "locked_energy (add_locked_energy a r) = sql_add (locked_energy r) a"
  "wallet_address (add_locked_energy a r) = wallet_address r"
  "encrypted_private_key (add_locked_energy a r) = encrypted_private_key r"
  "wallet_salt (add_locked_energy a r) = wallet_salt r" "encryption_iv (add_locked_energy a r) = encryption_iv r"
  by (simp_all add: add_locked_energy_def)

definition buy_lock_record :: "uuid \<Rightarrow> uuid \<Rightarrow> decimal \<Rightarrow> escrow_record" where
  "buy_lock_record u i a =
    \<lparr> e_user_id = u, e_order_id = Some i, e_amount = a, e_asset_type = ''currency'',
      e_escrow_type = ''buy_lock'', e_status = ''locked'', 
      e_description = Some (''Buy order '' @ uuid_str i @ '' escrow'') \<rparr>"

definition sell_lock_record :: "uuid \<Rightarrow> uuid \<Rightarrow> decimal \<Rightarrow> escrow_record" where
  "sell_lock_record u i a =
    \<lparr> e_user_id = u, e_order_id = Some i, e_amount = a, e_asset_type = ''energy'',
      e_escrow_type = ''sell_lock'', e_status = ''locked'', 
      e_description = Some (''Sell order '' @ uuid_str i @ '' energy lock'') \<rparr>"

subsection \<open>The operations\<close>

definition lock_funds :: "uuid \<Rightarrow> uuid \<Rightarrow> decimal \<Rightarrow> (world, unit) io" where
  "lock_funds user_id order_id amount = transaction (
     bnd (fetch_one (\<lambda>d. users d user_id)) (\<lambda>user.
     if unwrap_or (balance user) 0 < amount then fail (Anyhow ''Insufficient balance for escrow'')
     else sq (exec (upd_user user_id (move_to_locked amount)))
         (exec_chk (escrow_fk user_id order_id) (add_escrow (buy_lock_record user_id order_id amount)))))"

definition lock_energy :: "uuid \<Rightarrow> uuid \<Rightarrow> decimal \<Rightarrow> (world, unit) io" where
  "lock_energy user_id order_id amount = transaction (
     sq (exec (upd_user user_id (add_locked_energy amount)))
        (exec_chk (escrow_fk user_id order_id) (add_escrow (sell_lock_record user_id order_id amount))))"

definition unlock_funds :: "uuid \<Rightarrow> uuid \<Rightarrow> decimal \<Rightarrow> string \<Rightarrow> (world, unit) io" where
  "unlock_funds user_id order_id amount reason = transaction (
     sq (exec (upd_user user_id (move_to_locked (- amount))))
        (exec (release_escrow (\<lambda>r. e_user_id r = user_id \<and> e_order_id r = Some order_id
             \<and> e_asset_type r = ''currency'') (\<lambda>r. r\<lparr>e_description := Some (''Unlock: '' @ reason)\<rparr>))))"

definition unlock_energy :: "uuid \<Rightarrow> uuid \<Rightarrow> decimal \<Rightarrow> string \<Rightarrow> (world, unit) io" where
  "unlock_energy user_id order_id amount reason = transaction (
     sq (exec (upd_user user_id (add_locked_energy (- amount))))
        (exec (release_escrow (\<lambda>r. e_user_id r = user_id \<and> e_order_id r = Some order_id
             \<and> e_asset_type r = ''energy'') (\<lambda>r. r\<lparr>e_description := Some (''Unlock: '' @ reason)\<rparr>))))"

lemmas escrow_ops = lock_funds_def lock_energy_def unlock_funds_def unlock_energy_def

subsection \<open>What an operation that returned has done\<close>

lemma lock_funds_Ok:
  assumes "lock_funds u i a w = (Ok x, w')"
  obtains r where "users (db w) u = Some r" and "a \<le> unwrap_or (balance r) 0"
    and "escrow_fk u i (db w)"
    and "db w' = add_escrow (buy_lock_record u i a) (upd_user u (move_to_locked a) (db w))"
proof -
  from assms show thesis
    unfolding lock_funds_def
    by (elim transaction_OkE bnd_OkE)
      (auto simp: statement_Ok escrow_fk_def order_exists_def not_less elim!: sq_OkE
        split: if_splits intro!: that)
qed

lemma lock_energy_Ok:
  assumes "lock_energy u i a w = (Ok x, w')"
  shows "escrow_fk u i (db w)"
    and "db w' = add_escrow (sell_lock_record u i a) (upd_user u (add_locked_energy a) (db w))"
  using assms unfolding lock_energy_def
  by (auto elim!: transaction_OkE sq_OkE simp: statement_Ok escrow_fk_def order_exists_def)

lemma unlock_funds_Ok:
  assumes "unlock_funds u i a reason w = (Ok x, w')"
  shows "db w' = release_escrow (\<lambda>r. e_user_id r = u \<and> e_order_id r = Some i \<and> e_asset_type r = ''currency'')
     (\<lambda>r. r\<lparr>e_description := Some (''Unlock: '' @ reason)\<rparr>) (upd_user u (move_to_locked (- a)) (db w))"
  using assms unfolding unlock_funds_def
  by (auto elim!: transaction_OkE sq_OkE simp: statement_Ok)

lemma unlock_energy_Ok:
  assumes "unlock_energy u i a reason w = (Ok x, w')"
  shows "db w' = release_escrow (\<lambda>r. e_user_id r = u \<and> e_order_id r = Some i \<and> e_asset_type r = ''energy'')
     (\<lambda>r. r\<lparr>e_description := Some (''Unlock: '' @ reason)\<rparr>) (upd_user u (add_locked_energy (- a)) (db w))"
  using assms unfolding unlock_energy_def
  by (auto elim!: transaction_OkE sq_OkE simp: statement_Ok)

subsection \<open>The contract\<close>

text \<open>
  One side of the escrow: what is held for a user, and what money plus held money the user owns
  (\<open>worth\<close>).  Locking and unlocking move the held amount by exactly the amount asked, touch no
  other user, keep the worth, and change nothing when they fail.
\<close>

locale escrow_side =
  fixes lock :: "uuid \<Rightarrow> uuid \<Rightarrow> decimal \<Rightarrow> (world, unit) io"
    and unlock :: "uuid \<Rightarrow> uuid \<Rightarrow> decimal \<Rightarrow> string \<Rightarrow> (world, unit) io"
    and held :: "user_row \<Rightarrow> decimal option"
    and worth :: "user_row \<Rightarrow> decimal option"
  assumes lock_users: "lock u i a w = (Ok x, w') \<Longrightarrow>
      \<exists>f. users (db w') = (users (db w))(u := map_option f (users (db w) u))
        \<and> (\<forall>r. held (f r) = sql_add (held r) a \<and> worth (f r) = worth r)"
    and unlock_users: "unlock u i a s w = (Ok x, w') \<Longrightarrow>
      \<exists>f. users (db w') = (users (db w))(u := map_option f (users (db w) u))
        \<and> (\<forall>r. held (f r) = sql_add (held r) (- a) \<and> worth (f r) = worth r)"
    and lock_fails: "lock u i a w = (r, w') \<Longrightarrow> (\<And>x. r \<noteq> Ok x) \<Longrightarrow> db w' = db w"
    and unlock_fails: "unlock u i a s w = (r, w') \<Longrightarrow> (\<And>x. r \<noteq> Ok x) \<Longrightarrow> db w' = db w"
begin

definition held_by :: "db \<Rightarrow> uuid \<Rightarrow> decimal option" where
  "held_by d u = Option.bind (users d u) held"

definition worth_of :: "db \<Rightarrow> uuid \<Rightarrow> decimal option" where
  "worth_of d u = Option.bind (users d u) worth"

lemma lock_held:
  assumes "lock u i a w = (Ok x, w')"
  shows "held_by (db w') v = (if v = u then sql_add (held_by (db w) u) a else held_by (db w) v)"
  using lock_users [OF assms]
  by (cases "users (db w) u") (auto simp: held_by_def)

lemma unlock_held:
  assumes "unlock u i a s w = (Ok x, w')"
  shows "held_by (db w') v = (if v = u then sql_add (held_by (db w) u) (- a) else held_by (db w) v)"
  using unlock_users [OF assms]
  by (cases "users (db w) u") (auto simp: held_by_def)

lemma worth_kept:
  assumes "lock u i a w = (r, w') \<or> unlock u i a s w = (r, w')"
  shows "worth_of (db w') v = worth_of (db w) v"
proof (cases "\<exists>x. r = Ok x")
  case True
  with assms show ?thesis
    by (cases "users (db w) u") (auto simp: worth_of_def dest!: lock_users unlock_users)
next
  case False
  with assms have "db w' = db w" using lock_fails unlock_fails by blast
  then show ?thesis by simp
qed

lemma lock_then_unlock:
  assumes "lock u i a w = (Ok x, w1)" and "unlock u i a s w1 = (Ok y, w2)"
  shows "held_by (db w2) v = held_by (db w) v \<and> worth_of (db w2) v = worth_of (db w) v"
  using lock_held [OF assms(1)] unlock_held [OF assms(2)]
    worth_kept [OF disjI1, OF assms(1)] worth_kept [OF disjI2, OF assms(2)] by simp

end

definition money_worth :: "user_row \<Rightarrow> decimal option" where
  "money_worth r = (case (balance r, locked_amount r) of (Some b, Some l) \<Rightarrow> Some (b + l) | _ \<Rightarrow> None)"

lemma money_worth_move [simp]: "money_worth (move_to_locked a r) = money_worth r"
  by (auto simp: money_worth_def split: option.split)

lemma money_worth_energy [simp]: "money_worth (add_locked_energy a r) = money_worth r"
  by (simp add: money_worth_def)

interpretation money: escrow_side lock_funds unlock_funds locked_amount money_worth
proof
  show "\<exists>f. users (db w') = (users (db w))(u := map_option f (users (db w) u))
      \<and> (\<forall>r. locked_amount (f r) = sql_add (locked_amount r) a \<and> money_worth (f r) = money_worth r)"
    if "lock_funds u i a w = (Ok x, w')" for u i a w x w'
    using that by (elim lock_funds_Ok) (auto intro!: exI [of _ "move_to_locked a"])
  show "\<exists>f. users (db w') = (users (db w))(u := map_option f (users (db w) u))
      \<and> (\<forall>r. locked_amount (f r) = sql_add (locked_amount r) (- a) \<and> money_worth (f r) = money_worth r)"
    if "unlock_funds u i a s w = (Ok x, w')" for u i a s w x w'
    using unlock_funds_Ok [OF that] by (auto intro!: exI [of _ "move_to_locked (- a)"])
qed (auto simp: escrow_ops dest!: transaction_atomic)

interpretation energy: escrow_side lock_energy unlock_energy locked_energy money_worth
proof
  show "\<exists>f. users (db w') = (users (db w))(u := map_option f (users (db w) u))
      \<and> (\<forall>r. locked_energy (f r) = sql_add (locked_energy r) a \<and> money_worth (f r) = money_worth r)"
    if "lock_energy u i a w = (Ok x, w')" for u i a w x w'
    using lock_energy_Ok(2) [OF that]
    by (auto intro!: exI [of _ "add_locked_energy a"])
  show "\<exists>f. users (db w') = (users (db w))(u := map_option f (users (db w) u))
      \<and> (\<forall>r. locked_energy (f r) = sql_add (locked_energy r) (- a) \<and> money_worth (f r) = money_worth r)"
    if "unlock_energy u i a s w = (Ok x, w')" for u i a s w x w'
    using unlock_energy_Ok [OF that]
    by (auto intro!: exI [of _ "add_locked_energy (- a)"])
qed (auto simp: escrow_ops dest!: transaction_atomic)

subsection \<open>Properties\<close>

text \<open>\<open>lock_funds\<close> never overdraws and moves money exactly: when it returns, the user's balance
  covered the amount, the balance fell and the locked amount rose by it, no other user changed, and
  one \<open>locked\<close> currency record for the order was appended.\<close>

theorem lock_funds_exact:
  assumes "lock_funds u i a w = (Ok x, w')" and "users (db w) u = Some r" and "balance r = Some b"
  shows "a \<le> b
    \<and> users (db w') = (users (db w))(u \<mapsto> r\<lparr>balance := Some (b - a), locked_amount := sql_add (locked_amount r) a\<rparr>)
    \<and> escrow_records (db w') = escrow_records (db w) @ [buy_lock_record u i a]"
  using assms by (elim lock_funds_Ok) (auto simp: move_to_locked_def)

definition sample_escrow :: db where
  "sample_escrow = empty_db\<lparr>users := [1 \<mapsto> sample_user 100 0 0, 2 \<mapsto> sample_user 5 0 40],
     orders := [sample_order 11 1 Buy 10 2 0 Pending, sample_order 12 2 Sell 10 1 0 Pending]\<rparr>"

lemma sample_escrow_simps [simp]:
  "users sample_escrow = [1 \<mapsto> sample_user 100 0 0, 2 \<mapsto> sample_user 5 0 40]"
  "orders sample_escrow = [sample_order 11 1 Buy 10 2 0 Pending, sample_order 12 2 Sell 10 1 0 Pending]"
  "escrow_records sample_escrow = []"
  by (simp_all add: sample_escrow_def)

lemma sample_row_simps [simp]:
  "balance (sample_user b l en) = Some b" "locked_amount (sample_user b l en) = Some l"
  "locked_energy (sample_user b l en) = Some en" "o_id (sample_order i u sd en' pr fi st) = i"
  "o_user_id (sample_order i u sd en' pr fi st) = u" "o_side (sample_order i u sd en' pr fi st) = sd"
  "o_energy_amount (sample_order i u sd en' pr fi st) = en'"
  "o_price_per_kwh (sample_order i u sd en' pr fi st) = pr"
  "o_filled_amount (sample_order i u sd en' pr fi st) = Some fi"
  "o_status (sample_order i u sd en' pr fi st) = st"
  "o_zone_id (sample_order i u sd en' pr fi st) = Some 1"
  "o_epoch_id (sample_order i u sd en' pr fi st) = Some 7"
  by (simp_all add: sample_user_def sample_order_def)

lemma sample_lock:
  "lock_funds 1 11 20 (calm_world sample_escrow) = (Ok (), (calm_world sample_escrow)\<lparr>db :=
     add_escrow (buy_lock_record 1 11 20) (upd_user 1 (move_to_locked 20) sample_escrow)\<rparr>)"
  by (simp add: lock_funds_def io_simps escrow_fk_def order_exists_def upd_user_def)

theorem lock_funds_exact_witness:
  "\<exists>x w'. lock_funds 1 11 20 (calm_world sample_escrow) = (Ok x, w')
     \<and> (20::decimal) \<le> 100
     \<and> escrow_records (db w') = [buy_lock_record 1 11 20]"
  using lock_funds_exact [OF sample_lock, of "sample_user 100 0 0" 100] sample_lock by simp



text \<open>Locking money for an order and unlocking the same amount gives every user back what was
  held and owned before.\<close>

theorem lock_unlock_roundtrip:
  assumes "lock_funds u i a w = (Ok x, w1)" and "unlock_funds u i a s w1 = (Ok y, w2)"
  shows "Option.bind (users (db w2) v) locked_amount = Option.bind (users (db w) v) locked_amount
    \<and> Option.bind (users (db w2) v) money_worth = Option.bind (users (db w) v) money_worth"
  using money.lock_then_unlock [OF assms]
  by (simp add: money.held_by_def money.worth_of_def)

theorem lock_unlock_roundtrip_witness:
  "\<exists>w1 w2. lock_funds 1 11 20 (calm_world sample_escrow) = (Ok (), w1)
     \<and> unlock_funds 1 11 20 ''test'' w1 = (Ok (), w2)
     \<and> Option.bind (users (db w2) 1) locked_amount = Some 0"
proof -
  define w1 where "w1 = snd (lock_funds 1 11 20 (calm_world sample_escrow))"
  have l: "lock_funds 1 11 20 (calm_world sample_escrow) = (Ok (), w1)"
    by (simp add: w1_def sample_lock)
  have "faults w1 = []" by (simp add: w1_def sample_lock)
  then obtain w2 where u: "unlock_funds 1 11 20 ''test'' w1 = (Ok (), w2)"
    by (simp add: unlock_funds_def io_simps)
  from lock_unlock_roundtrip [OF l u, of 1] l u show ?thesis by auto
qed

text \<open>\<open>unlock_funds\<close> has no guard: it neither looks at the escrow record nor at the locked
  amount.  A second unlock for the same order succeeds and credits the amount again, so the locked
  amount can become negative.\<close>

theorem unlock_funds_repeats:
  assumes "faults w = []" and "users (db w) u = Some r" and "balance r = Some b"
    and "locked_amount r = Some l"
  shows "\<exists>w1 w2 r2. unlock_funds u i a s w = (Ok (), w1) \<and> unlock_funds u i a s w1 = (Ok (), w2)
    \<and> users (db w2) u = Some r2 \<and> balance r2 = Some (b + 2 * a) \<and> locked_amount r2 = Some (l - 2 * a)"
proof -
  have step: "\<exists>w1. unlock_funds u i a s w' = (Ok (), w1) \<and> faults w1 = []" if "faults w' = []" for w'
    using that by (simp add: unlock_funds_def io_simps)
  from step [OF assms(1)] obtain w1 where 1: "unlock_funds u i a s w = (Ok (), w1)" "faults w1 = []"
    by blast
  from step [OF 1(2)] obtain w2 where 2: "unlock_funds u i a s w1 = (Ok (), w2)" by blast
  show ?thesis
    using 1(1) 2 assms unlock_funds_Ok [OF 1(1)] unlock_funds_Ok [OF 2] by auto
qed

theorem unlock_funds_repeats_witness:
  "\<exists>w1 w2 r2. unlock_funds 1 11 20 ''x'' (calm_world sample_escrow) = (Ok (), w1)
    \<and> unlock_funds 1 11 20 ''x'' w1 = (Ok (), w2)
    \<and> users (db w2) 1 = Some r2 \<and> balance r2 = Some 140 \<and> locked_amount r2 = Some (- 40)"
  using unlock_funds_repeats [of "calm_world sample_escrow" 1 "sample_user 100 0 0" 100 0 11 20 "''x''"]
  by simp

end
