(* ===== verification/Epochs.thy ===== *)
theory Epochs
  imports Escrow
begin

text \<open>
  Market epochs (\<open>src/src/services/market_clearing/epoch.rs\<close>): quarter-hour windows numbered
  \<open>YYYYMMDDHHMM\<close>.  Time is in nanoseconds; year, month and day of a day number come from the
  calendar of the environment, whose documented behaviour is the locale \<open>calendar\<close>.
\<close>

abbreviation minute_ns :: int where "minute_ns \<equiv> 60000000000"
abbreviation hour_ns :: int where "hour_ns \<equiv> 3600000000000"
abbreviation day_ns :: int where "day_ns \<equiv> 86400000000000"
abbreviation quarter_ns :: int where "quarter_ns \<equiv> 900000000000"

definition dt_hour :: "time \<Rightarrow> int" where
  "dt_hour t = (t mod day_ns) div hour_ns"

definition dt_minute :: "time \<Rightarrow> int" where
  "dt_minute t = (t mod hour_ns) div minute_ns"

definition epoch_number :: "env \<Rightarrow> time \<Rightarrow> int" where
  "epoch_number e t = (case civil e (t div day_ns) of (y, m, d) \<Rightarrow>
     y * 100000000 + m * 1000000 + d * 10000 + dt_hour t * 100 + (dt_minute t div 15) * 15)"

text \<open>\<open>with_minute\<close>, \<open>with_second(0)\<close>, \<open>with_nanosecond(0)\<close>: the fields below the hour are replaced.\<close>

definition epoch_start :: "time \<Rightarrow> time" where
  "epoch_start t = (t - t mod hour_ns) + ((dt_minute t div 15) * 15) * minute_ns"

definition epoch_end :: "time \<Rightarrow> time" where
  "epoch_end t = epoch_start t + 15 * minute_ns"

definition get_current_epoch :: "(world, market_epoch option) io" where
  "get_current_epoch = bnd get_clock (\<lambda>now. query (\<lambda>d.
     case sort_key (\<lambda>r. - ep_start_time r)
       (filter (\<lambda>r. ep_start_time r \<le> now \<and> now < ep_end_time r) (epochs d)) of
       [] \<Rightarrow> None | r # _ \<Rightarrow> Some r))"

definition get_epoch_by_number :: "int \<Rightarrow> (world, market_epoch option) io" where
  "get_epoch_by_number n = query (\<lambda>d. find_row ep_number n (epochs d))"

definition epoch_status_at :: "time \<Rightarrow> time \<Rightarrow> time \<Rightarrow> EpochStatus \<Rightarrow> EpochStatus" where
  "epoch_status_at now start_t end_t old =
    (if now \<ge> start_t \<and> now < end_t then EpActive else if now \<ge> end_t then EpCleared else old)"

definition set_epoch_status :: "uuid \<Rightarrow> EpochStatus \<Rightarrow> db \<Rightarrow> db" where
  "set_epoch_status i st d =
     d\<lparr>epochs := update_where (\<lambda>r. ep_id r = i) (\<lambda>r. r\<lparr>ep_status := st\<rparr>) (epochs d)\<rparr>"

definition add_epoch :: "market_epoch \<Rightarrow> db \<Rightarrow> db" where
  "add_epoch r d = d\<lparr>epochs := epochs d @ [r]\<rparr>"

text \<open>The columns the \<open>INSERT\<close> leaves out take their defaults.\<close>

definition epoch_defaults :: "market_epoch \<Rightarrow> market_epoch" where
  "epoch_defaults r = r\<lparr>ep_total_volume := Some 0, ep_total_orders := Some 0, ep_matched_orders := Some 0\<rparr>"

text \<open>The primary key and the unique epoch number.\<close>

definition epoch_unique :: "market_epoch \<Rightarrow> db \<Rightarrow> bool" where
  "epoch_unique r d = list_all (\<lambda>q. ep_number q \<noteq> ep_number r \<and> ep_id q \<noteq> ep_id r) (epochs d)"

definition get_or_create_epoch :: "env \<Rightarrow> time \<Rightarrow> (world, market_epoch) io" where
  "get_or_create_epoch e timestamp =
    bnd (get_epoch_by_number (epoch_number e timestamp)) (\<lambda>found. case found of
      Some existing \<Rightarrow> bnd get_clock (\<lambda>now.
        let new_status = epoch_status_at now (epoch_start timestamp) (epoch_end timestamp) (ep_status existing)
        in if new_status \<noteq> ep_status existing
           then sq (exec (set_epoch_status (ep_id existing) new_status))
                   (ret (existing\<lparr>ep_status := new_status\<rparr>))
           else ret existing)
    | None \<Rightarrow> bnd (fresh_uuid e) (\<lambda>i.
        let epoch = \<lparr> ep_id = i, ep_number = epoch_number e timestamp,
              ep_start_time = epoch_start timestamp, ep_end_time = epoch_end timestamp,
              ep_status = EpPending, ep_clearing_price = None, ep_total_volume = None,
              ep_total_orders = None, ep_matched_orders = None \<rparr>
        in sq (exec_chk (epoch_unique epoch) (add_epoch (epoch_defaults epoch))) (ret epoch)))"

definition counts_for_epoch :: "uuid \<Rightarrow> order_row \<Rightarrow> bool" where
  "counts_for_epoch i r \<longleftrightarrow> o_epoch_id r = Some i \<and> o_status r \<in> {Pending, Filled}"

definition update_epoch_statistics :: "uuid \<Rightarrow> decimal \<Rightarrow> nat \<Rightarrow> (world, unit) io" where
  "update_epoch_statistics i total_volume matched_orders =
    bnd (query (\<lambda>d. length (filter (counts_for_epoch i) (orders d)))) (\<lambda>total_orders.
    exec (\<lambda>d. d\<lparr>epochs := update_where (\<lambda>r. ep_id r = i)
       (\<lambda>r. r\<lparr>ep_total_volume := Some total_volume, ep_matched_orders := Some matched_orders,
              ep_total_orders := Some total_orders, ep_status := EpCleared\<rparr>) (epochs d)\<rparr>))"

definition get_market_statistics :: "int \<Rightarrow> (world, market_epoch list) io" where
  "get_market_statistics n =
    (if n < 0 then fail (Database ''LIMIT must not be negative'')
     else query (\<lambda>d. take (nat n) (sort_key (\<lambda>r. - ep_number r)
            (filter (\<lambda>r. ep_status r \<in> {EpCleared, EpSettled}) (epochs d)))))"

subsection \<open>Windows\<close>

lemma dt_minute_quarter: "(dt_minute t div 15) * 15 * minute_ns = t mod hour_ns - t mod quarter_ns"
proof -
  have "dt_minute t div 15 = (t mod hour_ns) div quarter_ns"
    by (simp add: dt_minute_def div_mult2_eq [symmetric] zdiv_zmult2_eq [symmetric])
  moreover have "(t mod hour_ns) mod quarter_ns = t mod quarter_ns"
    by (simp add: mod_mod_cancel)
  ultimately show ?thesis
    using div_mult_mod_eq [of "t mod hour_ns" quarter_ns] by (simp add: algebra_simps)
qed

lemma epoch_start_floor: "epoch_start t = t - t mod quarter_ns"
  using dt_minute_quarter [of t] by (simp add: epoch_start_def)

lemma epoch_window: "epoch_start t \<le> t" "t < epoch_end t"
  by (simp_all add: epoch_start_floor epoch_end_def)

lemma epoch_start_div: "epoch_start t = (t div quarter_ns) * quarter_ns"
  by (simp add: epoch_start_floor minus_mod_eq_div_mult)

lemma digits_unique:
  fixes a b r s B :: int
  assumes "a * B + r = b * B + s" and "0 \<le> r" "r < B" "0 \<le> s" "s < B"
  shows "a = b \<and> r = s"
proof -
  have "(a * B + r) div B = a" and "(b * B + s) div B = b"
    using assms(2-5) by (simp_all add: div_add1_eq)
  with assms(1) show ?thesis by auto
qed

lemma dt_ranges: "0 \<le> dt_hour t" "dt_hour t < 24" "0 \<le> dt_minute t div 15" "dt_minute t div 15 < 4"
proof -
  have "0 \<le> t mod day_ns" "t mod day_ns < day_ns" "0 \<le> t mod hour_ns" "t mod hour_ns < hour_ns"
    by simp_all
  then show "0 \<le> dt_hour t" "dt_hour t < 24" "0 \<le> dt_minute t div 15" "dt_minute t div 15 < 4"
    unfolding dt_hour_def dt_minute_def by linarith+
qed

lemma quarter_of_fields: "t div quarter_ns = (t div day_ns) * 96 + dt_hour t * 4 + dt_minute t div 15"
proof -
  have "(dt_minute t div 15) * quarter_ns = t mod hour_ns - t mod quarter_ns"
    using dt_minute_quarter [of t] by simp
  moreover have "dt_hour t * hour_ns = t mod day_ns - t mod hour_ns"
    unfolding dt_hour_def using div_mult_mod_eq [of "t mod day_ns" hour_ns]
    by (simp add: mod_mod_cancel)
  moreover have "t = (t div day_ns) * day_ns + t mod day_ns"
    and "t = (t div quarter_ns) * quarter_ns + t mod quarter_ns" by simp_all
  ultimately show ?thesis by linarith
qed

subsection \<open>The calendar\<close>

locale calendar =
  fixes civ :: "int \<Rightarrow> int \<times> int \<times> int"
  assumes civ_inj: "civ a = civ b \<Longrightarrow> a = b"
    and civ_range: "civ a = (y, m, d) \<Longrightarrow> 1 \<le> m \<and> m \<le> 12 \<and> 1 \<le> d \<and> d \<le> 31"
begin

lemma epoch_number_window:
  assumes "civil e = civ"
  shows "epoch_number e t = epoch_number e s \<longleftrightarrow> epoch_start t = epoch_start s"
proof
  assume eq: "epoch_number e t = epoch_number e s"
  obtain y m d where c: "civ (t div day_ns) = (y, m, d)" by (cases "civ (t div day_ns)")
  obtain y' m' d' where c': "civ (s div day_ns) = (y', m', d')" by (cases "civ (s div day_ns)")
  let ?q = "dt_minute t div 15" and ?q' = "dt_minute s div 15"
  note r = civ_range [OF c] civ_range [OF c'] dt_ranges [of t] dt_ranges [of s]
  have e0: "y * 100000000 + (m * 1000000 + d * 10000 + dt_hour t * 100 + ?q * 15)
      = y' * 100000000 + (m' * 1000000 + d' * 10000 + dt_hour s * 100 + ?q' * 15)"
    using eq c c' assms by (simp add: epoch_number_def)
  have y: "y = y' \<and> m * 1000000 + d * 10000 + dt_hour t * 100 + ?q * 15
      = m' * 1000000 + d' * 10000 + dt_hour s * 100 + ?q' * 15"
    by (rule digits_unique [OF e0]) (use r in linarith)+
  have m: "m = m' \<and> d * 10000 + dt_hour t * 100 + ?q * 15 = d' * 10000 + dt_hour s * 100 + ?q' * 15"
    by (rule digits_unique [where B = 1000000]) (use y r in linarith)+
  have d: "d = d' \<and> dt_hour t * 100 + ?q * 15 = dt_hour s * 100 + ?q' * 15"
    by (rule digits_unique [where B = 10000]) (use m r in linarith)+
  have h: "dt_hour t = dt_hour s \<and> ?q * 15 = ?q' * 15"
    by (rule digits_unique [where B = 100]) (use d r in linarith)+
  from y m d c c' have "t div day_ns = s div day_ns" by (intro civ_inj) simp
  with h have "t div quarter_ns = s div quarter_ns"
    by (simp add: quarter_of_fields)
  then show "epoch_start t = epoch_start s" by (simp add: epoch_start_div)
next
  assume "epoch_start t = epoch_start s"
  then have q: "(t div day_ns) * 96 + (dt_hour t * 4 + dt_minute t div 15)
      = (s div day_ns) * 96 + (dt_hour s * 4 + dt_minute s div 15)"
    by (simp add: epoch_start_div quarter_of_fields)
  note r = dt_ranges [of t] dt_ranges [of s]
  have a: "t div day_ns = s div day_ns \<and> dt_hour t * 4 + dt_minute t div 15 = dt_hour s * 4 + dt_minute s div 15"
    by (rule digits_unique [OF q]) (use r in linarith)+
  then have "dt_hour t = dt_hour s \<and> dt_minute t div 15 = dt_minute s div 15"
    by (intro digits_unique [where B = 4]) (use r in linarith)+
  with a show "epoch_number e t = epoch_number e s" by (simp add: epoch_number_def)
qed

end

lemma std_civil_day:
  fixes d :: int
  shows "d = d div 360 * 360 + ((d mod 360) div 30 * 30 + d mod 30)"
proof -
  have "(d mod 360) mod 30 = d mod 30" by (simp add: mod_mod_cancel)
  then show ?thesis using div_mult_mod_eq [of "d mod 360" 30] div_mult_mod_eq [of d 360] by simp
qed

interpretation std_calendar: calendar "civil std_env"
proof
  fix a b :: int
  assume "civil std_env a = civil std_env b"
  then have "a div 360 = b div 360" "(a mod 360) div 30 = (b mod 360) div 30" "a mod 30 = b mod 30"
    by (simp_all add: std_civil_def)
  then show "a = b" using std_civil_day [of a] std_civil_day [of b] by linarith
next
  fix a y m d :: int
  assume "civil std_env a = (y, m, d)"
  then have eqs: "m = (a mod 360) div 30 + 1" "d = a mod 30 + 1"
    by (auto simp: std_civil_def)
  have "0 \<le> a mod 360" "a mod 360 < 360" "0 \<le> a mod 30" "a mod 30 < 30" by simp_all
  then show "1 \<le> m \<and> m \<le> 12 \<and> 1 \<le> d \<and> d \<le> 31" unfolding eqs by linarith
qed

subsection \<open>Tables of epochs\<close>

text \<open>No two rows share an epoch number or an identifier.\<close>

definition epochs_ok :: "db \<Rightarrow> bool" where
  "epochs_ok d \<longleftrightarrow> distinct (map ep_number (epochs d)) \<and> distinct (map ep_id (epochs d))"

lemma epochs_frame [simp]:
  "epochs (set_epoch_status i st d) = update_where (\<lambda>r. ep_id r = i) (\<lambda>r. r\<lparr>ep_status := st\<rparr>) (epochs d)"
  "epochs (add_epoch r d) = epochs d @ [r]"
  "users (set_epoch_status i st d) = users d" "users (add_epoch r d) = users d"
  "orders (set_epoch_status i st d) = orders d" "orders (add_epoch r d) = orders d"
  by (simp_all add: set_epoch_status_def add_epoch_def)

lemma epoch_defaults_fields [simp]:
  "ep_number (epoch_defaults r) = ep_number r" "ep_id (epoch_defaults r) = ep_id r"
  "ep_start_time (epoch_defaults r) = ep_start_time r" "ep_end_time (epoch_defaults r) = ep_end_time r"
  "ep_status (epoch_defaults r) = ep_status r"
  by (simp_all add: epoch_defaults_def)

lemma epochs_ok_intros:
  "epochs_ok d \<Longrightarrow> epochs_ok (set_epoch_status i st d)"
  "epochs_ok d \<Longrightarrow> epoch_unique r d \<Longrightarrow> epochs_ok (add_epoch (epoch_defaults r) d)"
  "epochs_ok d \<Longrightarrow> epochs_ok (d\<lparr>epochs := update_where p
     (\<lambda>r. r\<lparr>ep_total_volume := v, ep_matched_orders := m, ep_total_orders := n, ep_status := EpCleared\<rparr>) (epochs d)\<rparr>)"
  by (auto simp: epochs_ok_def map_update_where_same epoch_unique_def list_all_iff)

lemma get_or_create_epoch_keeps: "keeps_db epochs_ok (get_or_create_epoch e t)"
  unfolding get_or_create_epoch_def get_epoch_by_number_def Let_def
  by (intro keeps_db_intros) (simp_all add: epochs_ok_intros)

lemma update_epoch_statistics_keeps: "keeps_db epochs_ok (update_epoch_statistics i v m)"
  unfolding update_epoch_statistics_def by (intro keeps_db_intros epochs_ok_intros)

text \<open>After \<open>get_or_create_epoch\<close> returned, the table holds a row with the number and identifier it returned.\<close>

lemma get_or_create_epoch_found:
  assumes "get_or_create_epoch e t w = (Ok ep, w')"
  shows "ep_number ep = epoch_number e t
    \<and> (\<exists>row. find_row ep_number (epoch_number e t) (epochs (db w')) = Some row \<and> ep_id row = ep_id ep
         \<and> ep_status row = ep_status ep)"
proof (cases "find_row ep_number (epoch_number e t) (epochs (db w))")
  case None
  with assms show ?thesis
    by (auto simp: get_or_create_epoch_def get_epoch_by_number_def statement_Ok Let_def
        find_row_append fresh_uuid_def elim!: bnd_OkE sq_OkE)
next
  case (Some old)
  have upd: "find_row ep_number n (update_where (\<lambda>r. ep_id r = ep_id old) (\<lambda>r. r\<lparr>ep_status := st\<rparr>) rs)
      = Some (old\<lparr>ep_status := st\<rparr>)" if "find_row ep_number n rs = Some old" for n st rs
    using that by (induction rs) (auto split: if_splits)
  from Some assms find_row_Some [OF Some] show ?thesis
    by (auto simp: get_or_create_epoch_def get_epoch_by_number_def statement_Ok Let_def get_clock_def upd
        elim!: bnd_OkE sq_OkE split: if_splits)
qed

subsection \<open>Properties\<close>

text \<open>Every instant lies in the window its epoch is created with, the window is a quarter of an
  hour that starts at a multiple of a quarter of an hour, and two instants get the same epoch
  number exactly when they lie in the same window.\<close>

theorem epoch_number_partition:
  assumes "calendar (civil e)"
  shows "epoch_start t \<le> t \<and> t < epoch_end t \<and> epoch_end t - epoch_start t = quarter_ns
    \<and> epoch_start t mod quarter_ns = 0
    \<and> (epoch_number e t = epoch_number e s \<longleftrightarrow> epoch_start t = epoch_start s)"
  using epoch_window [of t] calendar.epoch_number_window [OF assms refl]
  by (simp add: epoch_end_def epoch_start_div)

theorem epoch_number_partition_witness:
  "epoch_start 1000 \<le> 1000 \<and> (epoch_number std_env 1000 = epoch_number std_env 2000
     \<longleftrightarrow> epoch_start 1000 = epoch_start 2000)"
  using epoch_number_partition [OF std_calendar.calendar_axioms, of 1000 2000] by simp



text \<open>A settled epoch goes back to \<open>cleared\<close>: when the window is over, \<open>get_or_create_epoch\<close>
  recomputes the status from the clock alone and writes \<open>cleared\<close> over \<open>settled\<close>.\<close>

theorem get_or_create_epoch_unsettles:
  assumes "faults w = []" and "find_row ep_number (epoch_number e t) (epochs (db w)) = Some old"
    and "ep_status old = EpSettled" and "epoch_end t \<le> clock w"
  shows "get_or_create_epoch e t w
    = (Ok (old\<lparr>ep_status := EpCleared\<rparr>), w\<lparr>db := set_epoch_status (ep_id old) EpCleared (db w)\<rparr>)"
  using assms
  by (simp add: get_or_create_epoch_def get_epoch_by_number_def io_simps epoch_status_at_def Let_def)

definition settled_epoch :: market_epoch where
  "settled_epoch = \<lparr> ep_id = 7, ep_number = epoch_number std_env (- quarter_ns), ep_start_time = - quarter_ns,
     ep_end_time = 0, ep_status = EpSettled, ep_clearing_price = None, ep_total_volume = None,
     ep_total_orders = None, ep_matched_orders = None \<rparr>"

theorem get_or_create_epoch_unsettles_witness:
  "fst (get_or_create_epoch std_env (- quarter_ns) (calm_world (empty_db\<lparr>epochs := [settled_epoch]\<rparr>)))
    = Ok (settled_epoch\<lparr>ep_status := EpCleared\<rparr>)"
  using get_or_create_epoch_unsettles [of "calm_world (empty_db\<lparr>epochs := [settled_epoch]\<rparr>)" std_env "- quarter_ns" settled_epoch]
  by (simp add: settled_epoch_def epoch_end_def epoch_start_floor)

end
