(* ===== verification/Onchain.thy ===== *)
theory Onchain
  imports Epochs
begin

text \<open>
  The blockchain half of the market clearing service
  (\<open>src/src/services/market_clearing/blockchain.rs\<close>): keys, the order creation transaction, and the
  transfers that lock, release, refund and swap tokens.  A key pair is its public key; keys,
  addresses and signatures are text.
\<close>

definition energy_mint_default :: string where
  "energy_mint_default = ''Geq98m3Vw63AqrMEVoZsiW5DbNkScteZAdWDmm95ykYF''"

definition currency_mint_default :: string where
  "currency_mint_default = ''4zMMC9srt5Ri5X14GAgXhaHii3GnPAEERYPJgZJDncDU''"

text \<open>\<open>Pubkey::from_str(s)?\<close>.\<close>

definition pubkey_from_str :: "env \<Rightarrow> string \<Rightarrow> (world, string) io" where
  "pubkey_from_str e s = ok_or (parse_pubkey e s) (Anyhow ''Invalid pubkey'')"

text \<open>The mint an asset is locked, released and refunded in, and its decimals.\<close>

definition mint_for :: "env \<Rightarrow> string \<Rightarrow> string" where
  "mint_for e asset_type = (if asset_type = ''energy''
     then unwrap_or (case env_var e ''EnergyTokenMint'' of Some m \<Rightarrow> Some m
            | None \<Rightarrow> env_var e ''ENERGY_TOKEN_MINT'') energy_mint_default
     else unwrap_or (env_var e ''CURRENCY_TOKEN_MINT'') currency_mint_default)"

definition asset_decimals :: "string \<Rightarrow> nat" where
  "asset_decimals asset_type = (if asset_type = ''energy'' then 9 else 6)"

text \<open>Decrypting a stored key with the master secret; the base 64 layer is undone on both sides.\<close>

definition stored_keypair :: "env \<Rightarrow> string \<Rightarrow> string \<Rightarrow> string \<Rightarrow> string \<Rightarrow> (world, string) io" where
  "stored_keypair e enc_key salt iv msg =
     bnd (ok_or (decrypt_private_key e (encryption_secret e) enc_key salt iv) (Anyhow ''Decryption failed''))
       (\<lambda>bytes. ok_or (keypair_pubkey e bytes) (Anyhow msg))"

definition set_wallet :: "string \<Rightarrow> string \<Rightarrow> string \<Rightarrow> string \<Rightarrow> user_row \<Rightarrow> user_row" where
  "set_wallet pubkey enc salt iv r = r\<lparr>wallet_address := Some pubkey, encrypted_private_key := Some enc,
     wallet_salt := Some salt, encryption_iv := Some iv\<rparr>"

definition order_keypair :: "env \<Rightarrow> uuid \<Rightarrow> (world, string) io" where
  "order_keypair e user_id =
    bnd (query (\<lambda>d. users d user_id)) (\<lambda>r.
    bnd (ok_or r (Anyhow ''User not found'')) (\<lambda>db_user.
    case (encrypted_private_key db_user, encryption_iv db_user, wallet_salt db_user) of
      (Some enc_key, Some iv, Some salt) \<Rightarrow> stored_keypair e enc_key salt iv ''Invalid decrypted key''
    | _ \<Rightarrow> bnd (fresh_wallet e) (\<lambda>(pubkey, enc_key, salt, iv).
        sq (exec (upd_user user_id (set_wallet pubkey enc_key salt iv))) (ret pubkey))))"

subsection \<open>Escrow transfers\<close>

definition execute_escrow_lock :: "env \<Rightarrow> uuid \<Rightarrow> uuid \<Rightarrow> decimal \<Rightarrow> string \<Rightarrow> (world, string) io" where
  "execute_escrow_lock e user_id order_id amount asset_type =
    (if \<not> enable_real_blockchain e then ret (''mock_escrow_lock_'' @ uuid_str order_id)
     else
      bnd (query (\<lambda>d. users d user_id)) (\<lambda>r.
      bnd (ok_or r (Anyhow ''User not found'')) (\<lambda>db_user.
      bnd (case (encrypted_private_key db_user, encryption_iv db_user, wallet_salt db_user) of
             (Some enc_key, Some iv, Some salt) \<Rightarrow>
                stored_keypair e enc_key salt iv ''Invalid decrypted key for escrow''
           | _ \<Rightarrow> fail (Anyhow ''User has no wallet keys'')) (\<lambda>keypair.
      bnd (pubkey_from_str e (mint_for e asset_type)) (\<lambda>mint.
      bnd (call_str e (AtaAddress keypair mint)) (\<lambda>user_ata.
      bnd (call_str e GetAuthority) (\<lambda>api_authority.
      bnd (call_str e (EnsureTokenAccount api_authority api_authority mint)) (\<lambda>escrow_ata.
      call_str e (LockTokens keypair user_ata escrow_ata mint
        (to_raw e amount (asset_decimals asset_type)) (asset_decimals asset_type))))))))))"

definition receiver_wallet :: "env \<Rightarrow> uuid \<Rightarrow> string \<Rightarrow> string \<Rightarrow> (world, string) io" where
  "receiver_wallet e user_id missing no_wallet =
    bnd (query (\<lambda>d. users d user_id)) (\<lambda>r.
    bnd (ok_or r (Anyhow missing)) (\<lambda>db_user.
    bnd (ok_or (wallet_address db_user) (Anyhow no_wallet)) (pubkey_from_str e)))"

definition execute_escrow_release :: "env \<Rightarrow> uuid \<Rightarrow> decimal \<Rightarrow> string \<Rightarrow> (world, string) io" where
  "execute_escrow_release e seller_id amount asset_type =
    (if \<not> enable_real_blockchain e then ret (''mock_escrow_release_'' @ uuid_str seller_id)
     else
      bnd (receiver_wallet e seller_id ''Receiver (Seller) not found'' ''Receiver has no wallet address'') (\<lambda>receiver.
      bnd (pubkey_from_str e (mint_for e asset_type)) (\<lambda>mint.
      bnd (call_str e GetAuthority) (\<lambda>api_authority.
      bnd (call_str e (AtaAddress api_authority mint)) (\<lambda>escrow_ata.
      bnd (call_str e (EnsureTokenAccount api_authority receiver mint)) (\<lambda>receiver_ata.
      call_str e (ReleaseEscrow api_authority escrow_ata receiver_ata mint
        (to_raw e amount (asset_decimals asset_type)) (asset_decimals asset_type))))))))"

definition execute_escrow_refund :: "env \<Rightarrow> uuid \<Rightarrow> decimal \<Rightarrow> string \<Rightarrow> (world, string) io" where
  "execute_escrow_refund e buyer_id amount asset_type =
    (if \<not> enable_real_blockchain e then ret (''mock_escrow_refund_'' @ uuid_str buyer_id)
     else
      bnd (receiver_wallet e buyer_id ''User (Buyer) not found'' ''User has no wallet address'') (\<lambda>user_wallet.
      bnd (pubkey_from_str e (mint_for e asset_type)) (\<lambda>mint.
      bnd (call_str e GetAuthority) (\<lambda>api_authority.
      bnd (call_str e (AtaAddress api_authority mint)) (\<lambda>escrow_ata.
      bnd (call_str e (EnsureTokenAccount api_authority user_wallet mint)) (\<lambda>user_ata.
      call_str e (RefundEscrow api_authority escrow_ata user_ata mint
        (to_raw e amount (asset_decimals asset_type)) (asset_decimals asset_type))))))))"

text \<open>A user whose wallet is \<open>NULL\<close>: \<open>row.get\<close> into a \<open>String\<close> panics.\<close>

definition fetch_user_wallet :: "env \<Rightarrow> uuid \<Rightarrow> (world, string) io" where
  "fetch_user_wallet e user_id =
    bnd (fetch_one (\<lambda>d. users d user_id)) (\<lambda>row.
    bnd (unwrap (wallet_address row)) (pubkey_from_str e))"

definition execute_atomic_swap ::
  "env \<Rightarrow> uuid \<Rightarrow> uuid \<Rightarrow> string \<Rightarrow> string \<Rightarrow> decimal \<Rightarrow> decimal \<Rightarrow> decimal \<Rightarrow> (world, string) io" where
  "execute_atomic_swap e buyer_id seller_id buy_pda_str sell_pda_str amount price wheeling_charge =
    (if \<not> enable_real_blockchain e
     then ret (''mock_atomic_swap_'' @ uuid_str buyer_id @ ''_'' @ uuid_str seller_id)
     else
      bnd (pubkey_from_str e buy_pda_str) (\<lambda>buy_pda.
      bnd (pubkey_from_str e sell_pda_str) (\<lambda>sell_pda.
      bnd (fetch_user_wallet e buyer_id) (\<lambda>buyer_wallet.
      bnd (fetch_user_wallet e seller_id) (\<lambda>seller_wallet.
      bnd (pubkey_from_str e (unwrap_or (env_var e ''ENERGY_TOKEN_MINT'') energy_mint_default)) (\<lambda>energy_mint.
      bnd (pubkey_from_str e (unwrap_or (env_var e ''CURRENCY_TOKEN_MINT'') currency_mint_default)) (\<lambda>currency_mint.
      bnd (call_str e GetAuthority) (\<lambda>authority.
      bnd (call_str e (AtaAddress authority currency_mint)) (\<lambda>buyer_currency_escrow.
      bnd (call_str e (AtaAddress authority energy_mint)) (\<lambda>seller_energy_escrow.
      bnd (call_str e (AtaAddress seller_wallet currency_mint)) (\<lambda>seller_currency_account.
      bnd (call_str e (AtaAddress buyer_wallet energy_mint)) (\<lambda>buyer_energy_account.
      bnd (call_str e (AtaAddress authority currency_mint)) (\<lambda>fee_collector.
      bnd (call_str e (AtaAddress authority currency_mint)) (\<lambda>wheeling_collector.
      bnd (call_str e TradingProgramId) (\<lambda>program.
      call_str e (AtomicSettlement authority program buy_pda sell_pda
        [buyer_currency_escrow, seller_energy_escrow, seller_currency_account, buyer_energy_account,
         fee_collector, wheeling_collector] energy_mint currency_mint
        (to_raw e amount 9) (to_raw e price 9) (to_raw e wheeling_charge 6)))))))))))))))))"

subsection \<open>Order creation\<close>

text \<open>\<open>Signature::default().to_string()\<close>: base 58 of 64 zero bytes.\<close>

definition default_signature :: string where
  "default_signature = replicate 64 (CHR ''1'')"

definition set_order_tx :: "uuid \<Rightarrow> string \<Rightarrow> string option \<Rightarrow> db \<Rightarrow> db" where
  "set_order_tx i sig pda d = d\<lparr>orders := update_where (\<lambda>r. o_id r = i)
     (\<lambda>r. case pda of
         Some p \<Rightarrow> r\<lparr>o_order_pda := Some p, o_blockchain_tx_signature := Some sig\<rparr>
       | None \<Rightarrow> r\<lparr>o_blockchain_tx_signature := Some sig\<rparr>) (orders d)\<rparr>"

definition execute_on_chain_order_creation ::
  "env \<Rightarrow> uuid \<Rightarrow> uuid \<Rightarrow> OrderSide \<Rightarrow> decimal \<Rightarrow> decimal \<Rightarrow> (world, unit) io" where
  "execute_on_chain_order_creation e user_id order_id side energy_amount price_per_kwh =
    bnd (order_keypair e user_id) (\<lambda>keypair.
    bnd (if enable_real_blockchain e then
           bnd (call_str e TradingProgramId) (\<lambda>program.
           bnd (attempt (call_order e (CreateOrder keypair program
                  (to_raw e energy_amount 9) (to_raw e price_per_kwh 9) side))) (\<lambda>res.
           case res of
             Inr (sig, pda) \<Rightarrow> ret (sig, if pda = [] then None else Some pda)
           | Inl _ \<Rightarrow> ret (default_signature, None)))
         else ret (''mock_order_sig_'' @ uuid_str order_id, None)) (\<lambda>(signature, order_pda).
    sq (exec (set_order_tx order_id signature order_pda))
      (let (asset_type, lock_amount) = (case side of
             Buy \<Rightarrow> (''currency'', dmul e price_per_kwh energy_amount)
           | Sell \<Rightarrow> (''energy'', energy_amount))
       in if lock_amount > 0
          then ignore (execute_escrow_lock e user_id order_id lock_amount asset_type)
          else ret ())))"

lemmas onchain_defs = execute_escrow_lock_def execute_escrow_release_def execute_escrow_refund_def
  receiver_wallet_def stored_keypair_def pubkey_from_str_def

subsection \<open>What the blockchain half leaves alone\<close>

lemma keeps_db_triple [keeps_db_intros]:
  "(\<And>a b c. x = (Some a, Some b, Some c) \<Longrightarrow> keeps_db I (k a b c)) \<Longrightarrow> keeps_db I m \<Longrightarrow>
   keeps_db I (case x of (Some a, Some b, Some c) \<Rightarrow> k a b c | _ \<Rightarrow> m)"
  by (cases x) (auto split: option.split)

lemma escrow_transfers_keep [keeps_db_intros]:
  "keeps_db I (execute_escrow_lock e u i a t)" "keeps_db I (execute_escrow_release e u a t)"
  "keeps_db I (execute_escrow_refund e u a t)"
  unfolding onchain_defs by (intro keeps_db_intros)+

lemma execute_atomic_swap_keeps [keeps_db_intros]:
  "keeps_db I (execute_atomic_swap e b s bp sp a p wc)"
  unfolding execute_atomic_swap_def fetch_user_wallet_def pubkey_from_str_def
  by (intro keeps_db_intros)

text \<open>A property of the tables that a new wallet and a new signature keep is kept by order creation.\<close>

lemma order_creation_keeps:
  assumes "\<And>d pk enc salt iv. I d \<Longrightarrow> I (upd_user u (set_wallet pk enc salt iv) d)"
    and "\<And>d sig pda. I d \<Longrightarrow> I (set_order_tx i sig pda d)"
  shows "keeps_db I (execute_on_chain_order_creation e u i sd a p)"
  unfolding execute_on_chain_order_creation_def order_keypair_def stored_keypair_def Let_def
  by (intro keeps_db_intros assms)

end
