(* ===== verification/Orders.thy ===== *)
theory Orders
  imports Onchain
begin

text \<open>
  The order operations of the market clearing service
  (\<open>src/src/services/market_clearing/orders.rs\<close>): the order book of an epoch, placing an order with
  its escrow in one transaction, status and fill updates, cancelling with a refund, and the trading
  history of a user.
\<close>

subsection \<open>The order book\<close>

definition in_book :: "OrderSide \<Rightarrow> uuid \<Rightarrow> order_row \<Rightarrow> bool" where
  "in_book sd epoch r \<longleftrightarrow> o_status r \<in> {Pending, PartiallyFilled} \<and> o_side r = sd \<and> o_epoch_id r = Some epoch"

definition book_entry :: "order_row \<Rightarrow> order_book_entry" where
  "book_entry r =
    \<lparr> b_order_id = o_id r, b_user_id = o_user_id r, b_side = o_side r, b_energy_amount = o_remaining r,
      b_original_amount = o_energy_amount r, b_price_per_kwh = o_price_per_kwh r,
      b_created_at = o_created_at r, b_zone_id = o_zone_id r \<rparr>"

text \<open>
  \<open>ORDER BY a, b\<close> is a stable sort by \<open>b\<close> followed by one by \<open>a\<close>; an ascending sort puts \<open>NULL\<close>
  times last, the column has a default and every order carries a time.
\<close>

definition created_key :: "order_row \<Rightarrow> time" where
  "created_key r = unwrap_or (o_created_at r) 0"

definition buy_rows :: "uuid \<Rightarrow> db \<Rightarrow> order_row list" where
  "buy_rows epoch d = sort_key (\<lambda>r. - o_price_per_kwh r) (sort_key created_key (filter (in_book Buy epoch) (orders d)))"

definition sell_rows :: "uuid \<Rightarrow> db \<Rightarrow> order_row list" where
  "sell_rows epoch d = sort_key o_price_per_kwh (sort_key created_key (filter (in_book Sell epoch) (orders d)))"

definition get_order_book :: "uuid \<Rightarrow> (world, order_book_entry list \<times> order_book_entry list) io" where
  "get_order_book epoch_id =
    bnd (query (\<lambda>d. map book_entry (buy_rows epoch_id d))) (\<lambda>buy_orders.
    bnd (query (\<lambda>d. map book_entry (sell_rows epoch_id d))) (\<lambda>sell_orders.
    ret (buy_orders, sell_orders)))"

subsection \<open>Placing an order\<close>

text \<open>The keys and checks of \<open>trading_orders\<close>.\<close>

definition order_ok :: "order_row \<Rightarrow> db \<Rightarrow> bool" where
  "order_ok r d \<longleftrightarrow> 0 < o_energy_amount r \<and> 0 < o_price_per_kwh r \<and> users d (o_user_id r) \<noteq> None
     \<and> \<not> order_exists (o_id r) d
     \<and> (case o_epoch_id r of None \<Rightarrow> True | Some i \<Rightarrow> list_ex (\<lambda>q. ep_id q = i) (epochs d))
     \<and> (case o_meter_id r of None \<Rightarrow> True | Some i \<Rightarrow> list_ex (\<lambda>q. mt_id q = i) (meters d))
     \<and> at_most 128 (o_session_token r)"

definition add_order :: "order_row \<Rightarrow> db \<Rightarrow> db" where
  "add_order r d = d\<lparr>orders := orders d @ [r]\<rparr>"

definition new_order ::
  "uuid \<Rightarrow> uuid \<Rightarrow> OrderType \<Rightarrow> OrderSide \<Rightarrow> decimal \<Rightarrow> decimal \<Rightarrow> time \<Rightarrow> time \<Rightarrow> uuid \<Rightarrow> i32 option \<Rightarrow> uuid option \<Rightarrow> order_row" where
  "new_order i u ty sd en pr exp_t now ep zone meter =
    \<lparr> o_id = i, o_user_id = u, o_order_type = ty, o_side = sd, o_energy_amount = en,
      o_price_per_kwh = pr, o_filled_amount = Some 0, o_status = Pending, o_expires_at = Some exp_t,
      o_created_at = Some now, o_filled_at = None, o_epoch_id = Some ep, o_zone_id = zone,
      o_meter_id = meter, o_refund_tx_signature = None, o_order_pda = None, o_session_token = None,
      o_is_confidential = False, o_energy_source = None, o_trigger_price = None,
      o_trigger_type = None, o_trigger_status = Some TrPending, o_trailing_offset = None,
      o_triggered_at = None, o_blockchain_tx_signature = None \<rparr>"

text \<open>The optional check of the wallet's balance on the chain.\<close>

definition onchain_balance_check ::
  "env \<Rightarrow> user_row \<Rightarrow> string \<Rightarrow> decimal \<Rightarrow> nat \<Rightarrow> string \<Rightarrow> string \<Rightarrow> string \<Rightarrow> (world, unit) io" where
  "onchain_balance_check e user mint_config amount decimals bad_mint too_large insufficient =
    (if \<not> use_onchain_balance_for_escrow e then ret ()
     else
      bnd (ok_or (wallet_address user) (Anyhow ''User wallet address required for on-chain check'')) (\<lambda>wallet_str.
      bnd (ok_or (parse_pubkey e wallet_str) (Anyhow ''Invalid user wallet address'')) (\<lambda>wallet.
      bnd (ok_or (parse_pubkey e mint_config) (Anyhow bad_mint)) (\<lambda>mint.
      bnd (ok_or (dec_to_u64 e (dmul e amount (10 ^ decimals))) (Anyhow too_large)) (\<lambda>required.
      bnd (call_u64 e (TokenBalance wallet mint)) (\<lambda>bal.
      if bal < required then fail (Anyhow insufficient) else ret ()))))))"

definition escrow_buy :: "env \<Rightarrow> uuid \<Rightarrow> uuid \<Rightarrow> decimal \<Rightarrow> user_row \<Rightarrow> (world, unit) io" where
  "escrow_buy e user_id order_id total_amount user =
    sq (onchain_balance_check e user (currency_token_mint e) total_amount (currency_decimals e)
          ''Invalid currency mint config'' ''Amount too large'' ''Insufficient on-chain balance'')
    (if unwrap_or (balance user) 0 < total_amount then fail (Anyhow ''Insufficient DB balance for escrow'')
     else sq (exec (upd_user user_id (move_to_locked total_amount)))
       (exec_chk (escrow_fk user_id order_id) (add_escrow (buy_lock_record user_id order_id total_amount))))"

definition escrow_sell :: "env \<Rightarrow> uuid \<Rightarrow> uuid \<Rightarrow> decimal \<Rightarrow> user_row \<Rightarrow> (world, unit) io" where
  "escrow_sell e user_id order_id amount user =
    sq (onchain_balance_check e user (energy_token_mint e) amount 9
          ''Invalid energy mint config'' ''Energy amount too large'' ''Insufficient on-chain energy balance'')
    (sq (exec (upd_user user_id (add_locked_energy amount)))
       (exec_chk (escrow_fk user_id order_id) (add_escrow (sell_lock_record user_id order_id amount))))"

definition limit_price :: "OrderType \<Rightarrow> decimal option \<Rightarrow> (world, decimal) io" where
  "limit_price order_type price_per_kwh = (case order_type of
      Limit \<Rightarrow> bnd (ok_or price_per_kwh (Anyhow ''Price per kWh is required for Limit orders'')) (\<lambda>price.
        if price \<le> 0 then fail (Anyhow ''Price per kWh must be positive'') else ret price)
    | Market \<Rightarrow> ret 0)"

text \<open>One day, in nanoseconds: the default life of an order.\<close>

definition default_expiry :: "time \<Rightarrow> time" where
  "default_expiry now = now + 86400000000000"

text \<open>The transaction that inserts and escrows an order; an error of the meter lookup is dropped.\<close>

definition place_tx :: "env \<Rightarrow> uuid \<Rightarrow> OrderSide \<Rightarrow> uuid option \<Rightarrow> order_row \<Rightarrow> (world, unit) io" where
  "place_tx e user_id side meter_id row = transaction_lenient (
     sq (exec_chk (order_ok row) (add_order row))
     (bnd (fetch_one (\<lambda>d. users d user_id)) (\<lambda>user.
      sq (case side of
            Buy \<Rightarrow> escrow_buy e user_id (o_id row) (dmul e (o_energy_amount row) (o_price_per_kwh row)) user
          | Sell \<Rightarrow> escrow_sell e user_id (o_id row) (o_energy_amount row) user)
      (case meter_id of
           None \<Rightarrow> ret True
         | Some m \<Rightarrow> bnd (attempt (query (\<lambda>d. ()))) (\<lambda>res. ret (\<not> isl res))))))"

definition create_order ::
  "env \<Rightarrow> uuid \<Rightarrow> OrderSide \<Rightarrow> OrderType \<Rightarrow> decimal \<Rightarrow> decimal option \<Rightarrow> time option \<Rightarrow> i32 option
   \<Rightarrow> uuid option \<Rightarrow> (world, uuid) io" where
  "create_order e user_id side order_type energy_amount price_per_kwh expiry_time zone_id meter_id =
    (if energy_amount \<le> 0 then fail (Anyhow ''Energy amount must be positive'')
     else
      bnd (limit_price order_type price_per_kwh) (\<lambda>price.
      bnd (fresh_uuid e) (\<lambda>order_id.
      bnd get_clock (\<lambda>now.
      bnd (get_or_create_epoch e now) (\<lambda>epoch.
      let row = new_order order_id user_id order_type side energy_amount price
                  (unwrap_or expiry_time (default_expiry now)) now (ep_id epoch) zone_id meter_id
      in sq (place_tx e user_id side meter_id row)
        (sq (execute_on_chain_order_creation e user_id order_id side energy_amount price)
            (ret order_id)))))))"

subsection \<open>Updating and cancelling\<close>

definition upd_order :: "uuid \<Rightarrow> (order_row \<Rightarrow> order_row) \<Rightarrow> db \<Rightarrow> db" where
  "upd_order i f d = d\<lparr>orders := update_where (\<lambda>r. o_id r = i) f (orders d)\<rparr>"

definition update_order_status :: "uuid \<Rightarrow> OrderStatus \<Rightarrow> (world, unit) io" where
  "update_order_status order_id status = exec (upd_order order_id (\<lambda>r. r\<lparr>o_status := status\<rparr>))"

definition update_order_filled_amount :: "uuid \<Rightarrow> decimal \<Rightarrow> (world, unit) io" where
  "update_order_filled_amount order_id amount =
     exec (upd_order order_id (\<lambda>r. r\<lparr>o_filled_amount := sql_add (o_filled_amount r) amount\<rparr>))"

text \<open>
  The text of a task type becomes the enum of the column, or the server refuses the statement.  The
  database draws the identifier of a queued task and fills in the retry columns.
\<close>

definition task_type_of :: "string \<Rightarrow> BlockchainTaskType option" where
  "task_type_of s = (if s = ''escrow_refund'' then Some TkEscrowRefund
     else if s = ''settlement'' then Some TkSettlement
     else if s = ''minting'' then Some TkMinting else None)"

definition new_task :: "uuid \<Rightarrow> BlockchainTaskType \<Rightarrow> string + TaskPayload \<Rightarrow> time \<Rightarrow> task_row" where
  "new_task i ty payload now =
    \<lparr> k_id = i, k_task_type = ty, k_payload = payload, k_status = TkPending, k_retry_count = 0,
      k_max_retries = 5, k_last_error = None, k_next_retry_at = now \<rparr>"

definition add_task :: "task_row \<Rightarrow> db \<Rightarrow> db" where
  "add_task t d = d\<lparr>blockchain_tasks := blockchain_tasks d @ [t]\<rparr>"

definition task_fresh :: "uuid \<Rightarrow> db \<Rightarrow> bool" where
  "task_fresh i d \<longleftrightarrow> list_all (\<lambda>t. k_id t \<noteq> i) (blockchain_tasks d)"

definition queue_blockchain_task :: "env \<Rightarrow> string \<Rightarrow> TaskPayload \<Rightarrow> (world, uuid) io" where
  "queue_blockchain_task e task_type payload =
    bnd get_clock (\<lambda>now. bnd (fresh_uuid e) (\<lambda>i.
    case task_type_of task_type of
      None \<Rightarrow> fail (Database ''invalid input value for enum blockchain_task_type'')
    | Some ty \<Rightarrow> sq (exec_chk (task_fresh i) (add_task (new_task i ty (Inr payload) now))) (ret i)))"

definition refund_of :: "env \<Rightarrow> order_row \<Rightarrow> string \<times> decimal" where
  "refund_of e r = (case o_side r of
      Buy \<Rightarrow> (''currency'', dmul e (o_remaining r) (o_price_per_kwh r))
    | Sell \<Rightarrow> (''energy'', o_remaining r))"

definition refund_payload :: "uuid \<Rightarrow> decimal \<Rightarrow> string \<Rightarrow> uuid \<Rightarrow> TaskPayload" where
  "refund_payload user_id amount asset_type order_id = EscrowRefund
     \<lparr> p_user_id = user_id, p_amount = amount, p_asset_type = asset_type, p_order_id = order_id \<rparr>"

definition cancel_order :: "env \<Rightarrow> uuid \<Rightarrow> uuid \<Rightarrow> (world, unit) io" where
  "cancel_order e order_id user_id =
    bnd (query (\<lambda>d. find_row o_id order_id (orders d))) (\<lambda>found. case found of
      None \<Rightarrow> fail (NotFound ''Order not found'')
    | Some order \<Rightarrow>
        if o_user_id order \<noteq> user_id then fail (Forbidden ''Order does not belong to user'')
        else if o_status order \<notin> {Pending, PartiallyFilled}
          then fail (BadRequest ''Order cannot be cancelled'')
        else if o_remaining order \<le> 0
          then fail (BadRequest ''Order is fully filled and cannot be cancelled'')
        else let (asset_type, refund_amount) = refund_of e order in
          sq (transaction (
            sq (exec (case o_side order of
                  Buy \<Rightarrow> upd_user user_id (move_to_locked (- refund_amount))
                | Sell \<Rightarrow> upd_user user_id (add_locked_energy (- refund_amount))))
            (sq (exec (release_escrow (\<lambda>r. e_order_id r = Some order_id \<and> e_status r = ''locked'')
                  (\<lambda>r. r\<lparr>e_description := Some ''Order cancelled - refunded unfilled portion''\<rparr>)))
                (exec (upd_order order_id (\<lambda>r. r\<lparr>o_status := Cancelled\<rparr>))))))
          (if refund_amount > 0 then
             bnd (attempt (execute_escrow_refund e user_id refund_amount asset_type)) (\<lambda>res. case res of
               Inr sig \<Rightarrow> ret ()
             | Inl er \<Rightarrow> ignore (queue_blockchain_task e ''escrow_refund'' (refund_payload user_id refund_amount asset_type order_id)))
           else ret ()))"

text \<open>The history reads charges into \<open>Decimal\<close>: a \<open>NULL\<close> charge panics.\<close>

definition history_row_ok :: "settlement_row \<Rightarrow> bool" where
  "history_row_ok r \<longleftrightarrow> s_wheeling_charge r \<noteq> None \<and> s_loss_factor r \<noteq> None
     \<and> s_loss_cost r \<noteq> None \<and> s_effective_energy r \<noteq> None"

definition get_trading_history :: "uuid \<Rightarrow> int \<Rightarrow> int \<Rightarrow> (world, settlement_row list) io" where
  "get_trading_history user_id limit_n offset_n =
    (if limit_n < 0 \<or> offset_n < 0 then fail (Database ''LIMIT and OFFSET must not be negative'')
     else bnd (query (\<lambda>d. take (nat limit_n) (drop (nat offset_n) (sort_key (\<lambda>r. - s_created_at r)
            (filter (\<lambda>r. s_buyer_id r = user_id \<or> s_seller_id r = user_id) (settlements d))))))
          (\<lambda>rows. if list_all history_row_ok rows then ret rows else panic))"

subsection \<open>What the operations change\<close>

text \<open>The money columns of the users, and an order without the columns the blockchain fills in.\<close>

definition money_view :: "db \<Rightarrow> uuid \<Rightarrow> (decimal option \<times> decimal option \<times> decimal option) option" where
  "money_view d u = map_option (\<lambda>r. (balance r, locked_amount r, locked_energy r)) (users d u)"

definition order_view :: "order_row \<Rightarrow> order_row" where
  "order_view r = r\<lparr>o_order_pda := None, o_blockchain_tx_signature := None\<rparr>"

definition escrow_amount :: "env \<Rightarrow> order_row \<Rightarrow> decimal" where
  "escrow_amount e r = (case o_side r of
      Buy \<Rightarrow> dmul e (o_energy_amount r) (o_price_per_kwh r) | Sell \<Rightarrow> o_energy_amount r)"

definition lock_user :: "OrderSide \<Rightarrow> decimal \<Rightarrow> user_row \<Rightarrow> user_row" where
  "lock_user sd a = (case sd of Buy \<Rightarrow> move_to_locked a | Sell \<Rightarrow> add_locked_energy a)"

definition lock_record :: "order_row \<Rightarrow> decimal \<Rightarrow> escrow_record" where
  "lock_record r a = (case o_side r of
      Buy \<Rightarrow> buy_lock_record (o_user_id r) (o_id r) a | Sell \<Rightarrow> sell_lock_record (o_user_id r) (o_id r) a)"

text \<open>The specification of placing an order: the row, its escrow and its record, together.\<close>

definition place :: "env \<Rightarrow> order_row \<Rightarrow> db \<Rightarrow> db" where
  "place e r d = add_escrow (lock_record r (escrow_amount e r))
     (upd_user (o_user_id r) (lock_user (o_side r) (escrow_amount e r)) (add_order r d))"

definition same_book :: "db \<Rightarrow> db \<Rightarrow> bool" where
  "same_book d d' \<longleftrightarrow> money_view d' = money_view d \<and> map order_view (orders d') = map order_view (orders d)
     \<and> escrow_records d' = escrow_records d"

lemma orders_frame [simp]:
  "users (add_order r d) = users d" "escrow_records (add_order r d) = escrow_records d"
  "orders (add_order r d) = orders d @ [r]" "users (upd_order i f d) = users d"
  "escrow_records (upd_order i f d) = escrow_records d"
  "orders (upd_order i f d) = update_where (\<lambda>r. o_id r = i) f (orders d)"
  "users (set_order_tx i sig pda d) = users d" "escrow_records (set_order_tx i sig pda d) = escrow_records d"
  "epochs (add_order r d) = epochs d"
  by (simp_all add: add_order_def upd_order_def set_order_tx_def)

lemma same_book_refl [simp]: "same_book d d"
  by (simp add: same_book_def)

lemma same_book_trans: "same_book d d' \<Longrightarrow> same_book d' d'' \<Longrightarrow> same_book d d''"
  by (simp add: same_book_def)

lemma same_book_exists: "same_book d d' \<Longrightarrow> order_exists i d' \<longleftrightarrow> order_exists i d"
proof -
  assume "same_book d d'"
  then have "map o_id (map order_view (orders d')) = map o_id (map order_view (orders d))" by (simp add: same_book_def)
  then have "map o_id (orders d') = map o_id (orders d)" by (simp add: order_view_def comp_def)
  then have "i \<in> set (map o_id (orders d')) \<longleftrightarrow> i \<in> set (map o_id (orders d))" by simp
  then show ?thesis by (auto simp: order_exists_def list_ex_iff)
qed

lemma same_book_set_order_tx: "same_book d (set_order_tx i sig pda d)"
proof -
  have "map order_view (orders (set_order_tx i sig pda d)) = map order_view (orders d)"
    unfolding set_order_tx_def
    by (simp add: map_update_where_same order_view_def split: option.split)
  then show ?thesis by (simp add: same_book_def money_view_def fun_eq_iff)
qed

lemma same_book_set_wallet: "same_book d (upd_user u (set_wallet pk enc salt iv) d)"
  by (auto simp: same_book_def money_view_def set_wallet_def fun_eq_iff map_option_case split: option.split)

lemma order_creation_same_book:
  "same_book (db w) (db (snd (execute_on_chain_order_creation e u i sd a p w)))"
  by (rule keeps_dbD [OF order_creation_keeps])
    (auto intro: same_book_trans same_book_set_order_tx same_book_set_wallet)

lemma get_or_create_epoch_frame:
  "users (db (snd (get_or_create_epoch e t w))) = users (db w)
   \<and> orders (db (snd (get_or_create_epoch e t w))) = orders (db w)
   \<and> escrow_records (db (snd (get_or_create_epoch e t w))) = escrow_records (db w)"
proof -
  have "keeps_db (\<lambda>d. users d = users (db w) \<and> orders d = orders (db w) \<and> escrow_records d = escrow_records (db w))
      (get_or_create_epoch e t)"
    unfolding get_or_create_epoch_def get_epoch_by_number_def Let_def
    by (intro keeps_db_intros) (simp_all add: set_epoch_status_def add_epoch_def)
  from keeps_dbD [OF this, of w] show ?thesis by simp
qed

subsection \<open>Placing\<close>

lemma new_order_fields [simp]:
  "o_id (new_order i u ty sd en pr t now ep z m) = i"
  "o_user_id (new_order i u ty sd en pr t now ep z m) = u"
  "o_side (new_order i u ty sd en pr t now ep z m) = sd"
  "o_energy_amount (new_order i u ty sd en pr t now ep z m) = en"
  "o_price_per_kwh (new_order i u ty sd en pr t now ep z m) = pr"
  "o_status (new_order i u ty sd en pr t now ep z m) = Pending"
  "o_filled_amount (new_order i u ty sd en pr t now ep z m) = Some 0"
  "o_epoch_id (new_order i u ty sd en pr t now ep z m) = Some ep"
  "o_meter_id (new_order i u ty sd en pr t now ep z m) = m"
  "o_session_token (new_order i u ty sd en pr t now ep z m) = None"
  "o_filled_at (new_order i u ty sd en pr t now ep z m) = None"
  "o_trigger_type (new_order i u ty sd en pr t now ep z m) = None"
  "o_trigger_status (new_order i u ty sd en pr t now ep z m) = Some TrPending"
  by (simp_all add: new_order_def)

lemma onchain_balance_check_db:
  "onchain_balance_check e u mint a n s1 s2 s3 w = (r, w') \<Longrightarrow> db w' = db w"
proof -
  assume a: "onchain_balance_check e u mint a n s1 s2 s3 w = (r, w')"
  have "keeps_db (\<lambda>d. d = db w) (onchain_balance_check e u mint a n s1 s2 s3)"
    unfolding onchain_balance_check_def by (intro keeps_db_intros)
  from keeps_dbD [OF this, of w] a show "db w' = db w" by simp
qed

lemma meter_lookup_db:
  "(case m of None \<Rightarrow> ret True | Some i \<Rightarrow> bnd (attempt (query q)) (\<lambda>res. ret (\<not> isl res))) w = (Ok b, w') \<Longrightarrow>
     db w' = db w \<and> (m = None \<longrightarrow> b)"
  by (auto simp: bnd_app attempt_app query_def split: option.splits prod.splits outcome.splits)

lemma escrow_buy_Ok:
  assumes "escrow_buy e u i a r w = (Ok x, w')"
  shows "a \<le> unwrap_or (balance r) 0 \<and> escrow_fk u i (db w)
    \<and> db w' = add_escrow (buy_lock_record u i a) (upd_user u (move_to_locked a) (db w))"
  using assms unfolding escrow_buy_def
  by (auto elim!: sq_OkE dest!: onchain_balance_check_db
      simp: statement_Ok not_less escrow_fk_def order_exists_def split: if_splits)

lemma escrow_sell_Ok:
  assumes "escrow_sell e u i a r w = (Ok x, w')"
  shows "escrow_fk u i (db w)
    \<and> db w' = add_escrow (sell_lock_record u i a) (upd_user u (add_locked_energy a) (db w))"
  using assms unfolding escrow_sell_def
  by (auto elim!: sq_OkE dest!: onchain_balance_check_db
      simp: statement_Ok escrow_fk_def order_exists_def)

lemma place_tx_Ok:
  assumes "place_tx e (o_user_id row) (o_side row) m row w = (Ok x, w')"
  shows "order_ok row (db w)
    \<and> (db w' = place e row (db w) \<or> m \<noteq> None \<and> db w' = db w)
    \<and> (o_side row = Buy \<longrightarrow> (\<exists>r. users (db w) (o_user_id row) = Some r
         \<and> escrow_amount e row \<le> unwrap_or (balance r) 0))"
proof -
  from assms obtain user w2 w3 b where
    1: "(case o_side row of
            Buy \<Rightarrow> escrow_buy e (o_user_id row) (o_id row) (dmul e (o_energy_amount row) (o_price_per_kwh row)) user
          | Sell \<Rightarrow> escrow_sell e (o_user_id row) (o_id row) (o_energy_amount row) user) w2 = (Ok (), w3)" and
    2: "order_ok row (db w)" "db w2 = add_order row (db w)" "users (db w) (o_user_id row) = Some user" and
    3: "db w' = (if b then db w3 else db w)" "m = None \<longrightarrow> b"
    unfolding place_tx_def
    by (elim transaction_lenient_OkE transaction_OkE sq_OkE bnd_OkE)
      (force simp: statement_Ok split: option.splits if_splits dest!: meter_lookup_db)
  have "db w3 = place e row (db w) \<and> (o_side row = Buy \<longrightarrow> escrow_amount e row \<le> unwrap_or (balance user) 0)"
  proof (cases "o_side row")
    case Buy
    with 1 2 escrow_buy_Ok show ?thesis
      by (fastforce simp: place_def lock_record_def lock_user_def escrow_amount_def)
  next
    case Sell
    with 1 2 escrow_sell_Ok show ?thesis
      by (fastforce simp: place_def lock_record_def lock_user_def escrow_amount_def)
  qed
  with 2 3 show ?thesis by (auto split: if_splits)
qed

text \<open>An order operation either leaves the book as it was or places the whole order.\<close>

definition order_placed :: "env \<Rightarrow> order_row \<Rightarrow> db \<Rightarrow> db \<Rightarrow> bool" where
  "order_placed e row d d' \<longleftrightarrow> same_book (place e row d) d' \<and> \<not> order_exists (o_id row) d
     \<and> 0 < o_energy_amount row \<and> 0 < o_price_per_kwh row
     \<and> (o_side row = Buy \<longrightarrow> (\<exists>r. users d (o_user_id row) = Some r \<and> escrow_amount e row \<le> unwrap_or (balance r) 0))"

lemma order_placed_cong:
  assumes "users d1 = users d" "orders d1 = orders d" "escrow_records d1 = escrow_records d"
  shows "order_placed e row d1 d' \<longleftrightarrow> order_placed e row d d'"
  using assms by (simp add: order_placed_def same_book_def place_def money_view_def order_exists_def fun_eq_iff)

lemma limit_price_state: "limit_price ty p w = (r, w') \<Longrightarrow> w' = w"
  by (cases ty; cases p) (auto simp: limit_price_def bnd_app split: if_splits)

lemma limit_price_Ok:
  "limit_price ty p w = (Ok pr, w') \<Longrightarrow> (ty = Limit \<and> p = Some pr \<and> 0 < pr) \<or> (ty = Market \<and> pr = 0)"
  by (cases ty; cases p) (auto simp: limit_price_def bnd_app split: if_splits)

lemma place_tx_fails:
  "place_tx e u sd m row w = (r, w') \<Longrightarrow> (\<And>x. r \<noteq> Ok x) \<Longrightarrow> db w' = db w"
  unfolding place_tx_def by (rule transaction_lenient_atomic)

text \<open>The three ways \<open>create_order\<close> can end: refused, placed, or rolled back after the meter lookup failed.\<close>

lemma create_order_cases:
  assumes "create_order e u sd ty en p t z m w = (r, w')"
  shows "(users (db w') = users (db w) \<and> orders (db w') = orders (db w) \<and> escrow_records (db w') = escrow_records (db w)
      \<and> (\<forall>i. r \<noteq> Ok i))
    \<or> (\<exists>pr ep. ty = Limit \<and> p = Some pr \<and> (\<forall>i. r = Ok i \<longrightarrow> i = new_v4 e (uuids w))
        \<and> order_placed e (new_order (new_v4 e (uuids w)) u ty sd en pr (unwrap_or t (default_expiry (clock w)))
             (clock w) ep z m) (db w) (db w'))
    \<or> (m \<noteq> None \<and> ty = Limit \<and> same_book (db w) (db w') \<and> \<not> order_exists (new_v4 e (uuids w)) (db w)
        \<and> (\<forall>i. r = Ok i \<longrightarrow> i = new_v4 e (uuids w)))"
proof -
  let ?id = "new_v4 e (uuids w)"
  let ?w1 = "w\<lparr>uuids := Suc (uuids w)\<rparr>"
  obtain rp wp where lp: "limit_price ty p w = (rp, wp)" by (cases "limit_price ty p w")
  obtain re we where ep: "get_or_create_epoch e (clock w) ?w1 = (re, we)" by (cases "get_or_create_epoch e (clock w) ?w1")
  note f = get_or_create_epoch_frame [of e "clock w" ?w1, unfolded ep]
  note run = assms [unfolded create_order_def]
  show ?thesis
  proof (cases "\<exists>pr epo. 0 < en \<and> rp = Ok pr \<and> re = Ok epo")
    case False
    with run lp limit_price_state [OF lp] ep f show ?thesis
      by (cases rp; cases re) (auto simp: io_simps not_le split: if_splits)
  next
    case True
    then obtain pr epo where ok: "0 < en" "rp = Ok pr" "re = Ok epo" by blast
    let ?row = "new_order ?id u ty sd en pr (unwrap_or t (default_expiry (clock w))) (clock w) (ep_id epo) z m"
    obtain rt wt where pt: "place_tx e u sd m ?row we = (rt, wt)" by (cases "place_tx e u sd m ?row we")
    have step: "(r, w') = (case rt of Ok _ \<Rightarrow>
        sq (execute_on_chain_order_creation e u ?id sd en pr) (ret ?id) wt | Err er \<Rightarrow> (Err er, wt) | Panic \<Rightarrow> (Panic, wt))"
      using run lp limit_price_state [OF lp] ep ok pt
      by (auto simp: bnd_app sq_app fresh_uuid_app get_clock_app Let_def split: outcome.split)
    show ?thesis
    proof (cases "\<exists>x. rt = Ok x")
      case False
      with place_tx_fails [OF pt] step f show ?thesis by (cases rt) auto
    next
      case True
      with pt have "place_tx e (o_user_id ?row) (o_side ?row) m ?row we = (Ok (), wt)" by auto
      from place_tx_Ok [OF this] have pl: "order_ok ?row (db we)" "db wt = place e ?row (db we) \<or> m \<noteq> None \<and> db wt = db we"
        "sd = Buy \<longrightarrow> (\<exists>r. users (db we) u = Some r \<and> escrow_amount e ?row \<le> unwrap_or (balance r) 0)" by auto
      have after: "same_book (db wt) (db w')" "\<forall>i. r = Ok i \<longrightarrow> i = ?id"
        using True step order_creation_same_book [of wt e u ?id sd en pr]
        by (auto simp: sq_app split: prod.splits outcome.splits)
      have lim: "ty = Limit \<and> p = Some pr"
        using limit_price_Ok lp ok(2) pl(1) by (fastforce simp: order_ok_def)
      have we: "same_book (db w) (db we)" "order_exists ?id (db we) \<longleftrightarrow> order_exists ?id (db w)"
        using f by (auto simp: same_book_def money_view_def order_exists_def fun_eq_iff)
      from pl(2) show ?thesis
      proof
        assume "db wt = place e ?row (db we)"
        with pl after(1) have "order_placed e ?row (db we) (db w')" by (auto simp: order_placed_def order_ok_def)
        with lim after(2) show ?thesis using order_placed_cong [of "db we" "db w"] f by auto
      next
        assume "m \<noteq> None \<and> db wt = db we"
        with pl(1) after lim we same_book_trans show ?thesis by (fastforce simp: order_ok_def)
      qed
    qed
  qed
qed

subsection \<open>Cancelling\<close>

definition unplace :: "env \<Rightarrow> order_row \<Rightarrow> db \<Rightarrow> db" where
  "unplace e r d = upd_order (o_id r) (\<lambda>q. q\<lparr>o_status := Cancelled\<rparr>)
     (release_escrow (\<lambda>q. e_order_id q = Some (o_id r) \<and> e_status q = ''locked'')
        (\<lambda>q. q\<lparr>e_description := Some ''Order cancelled - refunded unfilled portion''\<rparr>)
        (upd_user (o_user_id r) (lock_user (o_side r) (- snd (refund_of e r))) d))"

definition cancellable :: "uuid \<Rightarrow> order_row \<Rightarrow> bool" where
  "cancellable u r \<longleftrightarrow> o_user_id r = u \<and> o_status r \<in> {Pending, PartiallyFilled} \<and> 0 < o_remaining r"

definition same_tables :: "db \<Rightarrow> db \<Rightarrow> bool" where
  "same_tables d d' \<longleftrightarrow> users d' = users d \<and> orders d' = orders d \<and> escrow_records d' = escrow_records d"

lemma queue_blockchain_task_keeps: "keeps_db (same_tables d) (queue_blockchain_task e ty pl)"
  unfolding queue_blockchain_task_def by (intro keeps_db_intros) (simp add: same_tables_def add_task_def)

lemma refund_step_keeps:
  "keeps_db (same_tables d) (if 0 < a then
     bnd (attempt (execute_escrow_refund e u a k)) (\<lambda>res. case res of
         Inr sig \<Rightarrow> ret () | Inl er \<Rightarrow> ignore (queue_blockchain_task e ty pl)) else ret ())"
  by (intro keeps_db_intros queue_blockchain_task_keeps)

lemma cancel_order_cases:
  assumes "cancel_order e i u w = (r, w')"
  shows "same_tables (db w) (db w') \<and> (\<forall>x. r \<noteq> Ok x)
    \<or> (\<exists>row. find_row o_id i (orders (db w)) = Some row \<and> cancellable u row \<and> same_tables (unplace e row (db w)) (db w'))"
proof (cases "faulty w = None \<and> (\<exists>row. find_row o_id i (orders (db w)) = Some row \<and> cancellable u row)")
  case False
  with assms show ?thesis
    by (auto simp: cancel_order_def query_def bnd_app same_tables_def cancellable_def Let_def
        split: option.splits if_splits)
next
  case True
  then obtain row where row: "find_row o_id i (orders (db w)) = Some row" "cancellable u row" and nf: "faulty w = None"
    by blast
  have ids: "o_id row = i" "o_user_id row = u" using find_row_Some [OF row(1)] row(2) by (auto simp: cancellable_def)
  obtain k a where k: "refund_of e row = (k, a)" by (cases "refund_of e row")
  let ?tx = "transaction (
            sq (exec (case o_side row of
                  Buy \<Rightarrow> upd_user u (move_to_locked (- a))
                | Sell \<Rightarrow> upd_user u (add_locked_energy (- a))))
            (sq (exec (release_escrow (\<lambda>r. e_order_id r = Some i \<and> e_status r = ''locked'')
                  (\<lambda>r. r\<lparr>e_description := Some ''Order cancelled - refunded unfilled portion''\<rparr>)))
                (exec (upd_order i (\<lambda>r. r\<lparr>o_status := Cancelled\<rparr>)))))"
  let ?rest = "if 0 < a then
     bnd (attempt (execute_escrow_refund e u a k)) (\<lambda>res. case res of
         Inr sig \<Rightarrow> ret () | Inl er \<Rightarrow> ignore (queue_blockchain_task e ''escrow_refund'' (refund_payload u a k i))) else ret ()"
  have run: "sq ?tx ?rest (tick w) = (r, w')"
    using assms row nf k by (auto simp: cancel_order_def query_def bnd_app cancellable_def not_le)
  obtain rt wt where tx: "?tx (tick w) = (rt, wt)" by (cases "?tx (tick w)")
  show ?thesis
  proof (cases "\<exists>x. rt = Ok x")
    case False
    with transaction_atomic [OF tx] run tx show ?thesis
      by (cases rt) (auto simp: sq_app same_tables_def)
  next
    case True
    then have "?tx (tick w) = (Ok (), wt)" using tx by auto
    then have "db wt = unplace e row (db w)"
      by (cases "o_side row")
        (auto elim!: transaction_OkE sq_OkE simp: statement_Ok unplace_def k ids lock_user_def)
    moreover have "same_tables (db wt) (db w')"
      using run True tx keeps_dbD [OF refund_step_keeps [of "db wt" a e u k "''escrow_refund''" "refund_payload u a k i"], of wt]
      by (auto simp: sq_app same_tables_def)
    ultimately show ?thesis using row by auto
  qed
qed

lemma money_view_lock_user:
  "money_view (upd_user u (lock_user sd a) d) = (money_view d)(u := map_option (\<lambda>(b, l, k).
     case sd of Buy \<Rightarrow> (sql_add b (- a), sql_add l a, k) | Sell \<Rightarrow> (b, l, sql_add k a)) (money_view d u))"
  by (auto simp: money_view_def lock_user_def fun_eq_iff option.map_comp comp_def split: OrderSide.split)

lemma money_view_frame [simp]:
  "money_view (add_order r d) = money_view d" "money_view (add_escrow q d) = money_view d"
  "money_view (upd_order i f d) = money_view d" "money_view (release_escrow p g d) = money_view d"
  by (simp_all add: money_view_def fun_eq_iff)

lemma same_tables_money: "same_tables d d' \<Longrightarrow> money_view d' = money_view d"
  by (simp add: same_tables_def money_view_def fun_eq_iff)

lemma money_view_place:
  "money_view (place e r d) = money_view (upd_user (o_user_id r) (lock_user (o_side r) (escrow_amount e r)) d)"
  by (simp add: place_def money_view_lock_user)

text \<open>Locking and unlocking the same amount cancel out.\<close>

lemma money_view_lock_unlock:
  "money_view (upd_user u (lock_user sd (- a)) (upd_user u (lock_user sd a) d)) = money_view d"
  by (cases sd) (auto simp: money_view_lock_user fun_eq_iff option.map_comp comp_def money_view_def)

lemma order_view_fields [simp]:
  "o_id (order_view r) = o_id r" "o_user_id (order_view r) = o_user_id r" "o_side (order_view r) = o_side r"
  "o_energy_amount (order_view r) = o_energy_amount r" "o_price_per_kwh (order_view r) = o_price_per_kwh r"
  "o_filled_amount (order_view r) = o_filled_amount r" "o_status (order_view r) = o_status r"
  by (simp_all add: order_view_def)

text \<open>The placed order is the one a later call finds under its identifier.\<close>

lemma order_placed_found:
  assumes "order_placed e row d d'"
  shows "\<exists>q. find_row o_id (o_id row) (orders d') = Some q \<and> order_view q = order_view row"
proof -
  from assms have v: "map order_view (orders d') = map order_view (orders d @ [row])"
    and new: "\<not> order_exists (o_id row) d"
    by (simp_all add: order_placed_def same_book_def place_def)
  have "find_row o_id (o_id row) (orders d) = None"
    using new by (intro find_row_none) (auto simp: order_exists_def list_ex_iff)
  then have "find_row o_id (o_id row) (orders d @ [row]) = Some row" by (simp add: find_row_append)
  then show ?thesis using find_row_view [OF v, of o_id "o_id row"] by (auto simp: map_option_case split: option.splits)
qed

subsection \<open>Properties\<close>

text \<open>C5. No half-placed order: whatever happens (bad arguments, a lost connection, a failing
  blockchain), after \<open>create_order\<close> either the users, orders and escrow records are as before and
  the call did not return an order, or the whole order is there: a limit order with a positive
  price and a fresh identifier, its escrow moved out of the owner's balance (which covered it) or
  added to the locked energy, and its escrow record.  The one further case needs a meter: its
  failed lookup rolls the transaction back, and then no money, order or record changed.\<close>

theorem create_order_all_or_nothing:
  "(\<forall>i. fst (create_order e u sd ty en p t z m w) \<noteq> Ok i)
      \<and> users (db (snd (create_order e u sd ty en p t z m w))) = users (db w)
      \<and> orders (db (snd (create_order e u sd ty en p t z m w))) = orders (db w)
      \<and> escrow_records (db (snd (create_order e u sd ty en p t z m w))) = escrow_records (db w)
   \<or> (\<exists>pr ep. ty = Limit \<and> p = Some pr
      \<and> order_placed e (new_order (new_v4 e (uuids w)) u ty sd en pr (unwrap_or t (default_expiry (clock w)))
           (clock w) ep z m) (db w) (db (snd (create_order e u sd ty en p t z m w))))
   \<or> m \<noteq> None \<and> same_book (db w) (db (snd (create_order e u sd ty en p t z m w)))"
  using create_order_cases [of e u sd ty en p t z m w] by (cases "create_order e u sd ty en p t z m w") auto

text \<open>A market order is never accepted: its price is stored as zero, which the check
  constraint on \<open>price_per_kwh\<close> refuses, so the call never returns an order and no order, balance or
  escrow record changes.\<close>

theorem market_orders_rejected:
  "(\<forall>i. fst (create_order e u sd Market en p t z m w) \<noteq> Ok i)
   \<and> orders (db (snd (create_order e u sd Market en p t z m w))) = orders (db w)
   \<and> users (db (snd (create_order e u sd Market en p t z m w))) = users (db w)"
  using create_order_cases [of e u sd Market en p t z m w] by (cases "create_order e u sd Market en p t z m w") auto

text \<open>C6. Cancelling refunds exactly the unfilled part: when \<open>cancel_order\<close> returns, the order
  belonged to the caller, was pending or partially filled and had energy left; its escrow for the
  unfilled energy went back to the owner, the order is cancelled, its locked records are released,
  and nothing else of the users, orders and records changed.  When it does not return, either
  nothing changed or the whole cancellation was committed.\<close>

theorem cancel_order_refunds_unfilled:
  "(\<forall>x. fst (cancel_order e i u w) \<noteq> Ok x) \<and> same_tables (db w) (db (snd (cancel_order e i u w)))
   \<or> (\<exists>row. find_row o_id i (orders (db w)) = Some row \<and> cancellable u row
        \<and> same_tables (unplace e row (db w)) (db (snd (cancel_order e i u w))))"
  using cancel_order_cases [of e i u w] by (cases "cancel_order e i u w") auto


definition trader_db :: db where
  "trader_db = empty_db\<lparr>users := [1 \<mapsto> sample_user 100 0 0]\<rparr>"

lemmas run_simps = io_simps Let_def sample_user_def

lemma sample_create:
  "\<exists>w1. create_order std_env 1 Buy Limit 10 (Some 2) None None None (calm_world trader_db) = (Ok 1000, w1)
     \<and> faults w1 = [] \<and> uuids w1 = 2"
  by (simp add: create_order_def limit_price_def run_simps get_or_create_epoch_def get_epoch_by_number_def
      trader_db_def epoch_unique_def place_tx_def order_ok_def order_exists_def add_epoch_def escrow_buy_def
      onchain_balance_check_def dmul_def escrow_fk_def add_order_def upd_user_def
      execute_on_chain_order_creation_def order_keypair_def stored_keypair_def
      execute_escrow_lock_def)

lemma cancel_order_succeeds:
  assumes "faults w = []" and "find_row o_id i (orders (db w)) = Some row" and "cancellable u row"
    and "\<not> enable_real_blockchain e"
  shows "\<exists>w'. cancel_order e i u w = (Ok (), w')"
  using assms
  by (auto simp: cancel_order_def cancellable_def not_le io_simps execute_escrow_refund_def split: prod.split)


text \<open>The answer of \<open>create_order\<close> does not tell whether the order was placed: with a user whose
  stored key does not decrypt it returns an error after the order and its escrow were committed, and
  when the lookup of the meter fails inside the transaction it returns the identifier of an order
  that was rolled back.\<close>

theorem create_order_error_after_commit:
  "(\<exists>e w er. fst (create_order e 1 Buy Limit 10 (Some 2) None None None w) = Err er
     \<and> money_view (db w) 1 = Some (Some 100, Some 0, Some 0)
     \<and> money_view (db (snd (create_order e 1 Buy Limit 10 (Some 2) None None None w))) 1
         = Some (Some 80, Some 20, Some 0))
   \<and> (\<exists>e w i. fst (create_order e 1 Buy Limit 10 (Some 2) None None (Some 4) w) = Ok i
     \<and> orders (db (snd (create_order e 1 Buy Limit 10 (Some 2) None None (Some 4) w))) = [])"
proof (intro exI conjI)
  let ?v = "calm_world (trader_db\<lparr>meters := [\<lparr> mt_id = 4, mt_user_id = 1, mt_serial_number = ''m4'', mt_meter_type = None,
        mt_location = None, mt_latitude = None, mt_longitude = None, mt_zone_id = None, mt_is_verified = Some True \<rparr>]\<rparr>)\<lparr>faults := replicate 7 None @ [Some ''statement timeout'']\<rparr>"
  show "fst (create_order std_env 1 Buy Limit 10 (Some 2) None None (Some 4) ?v) = Ok 1000"
    and "orders (db (snd (create_order std_env 1 Buy Limit 10 (Some 2) None None (Some 4) ?v))) = []"
    by (simp_all add: create_order_def limit_price_def run_simps get_or_create_epoch_def get_epoch_by_number_def
      trader_db_def epoch_unique_def place_tx_def order_ok_def order_exists_def add_epoch_def escrow_buy_def
      onchain_balance_check_def dmul_def escrow_fk_def add_order_def upd_user_def add_escrow_def faulty_def tick_def
      exec_def exec_chk_def query_def fetch_one_def transaction_def execute_on_chain_order_creation_def order_keypair_def
      stored_keypair_def execute_escrow_lock_def set_order_tx_def numeral_eq_Suc update_where_def)
  let ?e = "std_env\<lparr>decrypt_private_key := \<lambda>_ _ _ _. None\<rparr>" and ?w = "calm_world trader_db"
  show "fst (create_order ?e 1 Buy Limit 10 (Some 2) None None None ?w) = Err (Anyhow ''Decryption failed'')"
    and "money_view (db (snd (create_order ?e 1 Buy Limit 10 (Some 2) None None None ?w))) 1
         = Some (Some 80, Some 20, Some 0)"
    by (simp_all add: create_order_def limit_price_def run_simps get_or_create_epoch_def get_epoch_by_number_def
      trader_db_def epoch_unique_def place_tx_def order_ok_def order_exists_def add_epoch_def escrow_buy_def
      onchain_balance_check_def dmul_def escrow_fk_def add_order_def upd_user_def money_view_def
      execute_on_chain_order_creation_def order_keypair_def stored_keypair_def add_escrow_def)
  show "money_view (db ?w) 1 = Some (Some 100, Some 0, Some 0)"
    by (simp add: trader_db_def money_view_def sample_user_def)
qed

subsection \<open>The book\<close>

text \<open>Price-time priority: \<open>get_order_book\<close> returns exactly the open orders of the epoch on each
  side, buy orders by falling price and sell orders by rising price, equal prices oldest first.\<close>

theorem order_book_price_time:
  assumes "get_order_book ep w = (Ok (buys, sells), w')"
  shows "db w' = db w
    \<and> mset buys = image_mset book_entry (mset (filter (in_book Buy ep) (orders (db w))))
    \<and> mset sells = image_mset book_entry (mset (filter (in_book Sell ep) (orders (db w))))
    \<and> sorted_wrt (\<lambda>a b. b_price_per_kwh b < b_price_per_kwh a
         \<or> b_price_per_kwh a = b_price_per_kwh b \<and> unwrap_or (b_created_at a) 0 \<le> unwrap_or (b_created_at b) 0) buys
    \<and> sorted_wrt (\<lambda>a b. b_price_per_kwh a < b_price_per_kwh b
         \<or> b_price_per_kwh a = b_price_per_kwh b \<and> unwrap_or (b_created_at a) 0 \<le> unwrap_or (b_created_at b) 0) sells"
proof -
  from assms have "buys = map book_entry (buy_rows ep (db w))" "sells = map book_entry (sell_rows ep (db w))" "db w' = db w"
    by (auto simp: get_order_book_def statement_Ok elim!: bnd_OkE)
  then show ?thesis
    using sort_key_lex [of "\<lambda>r. - o_price_per_kwh r" created_key "filter (in_book Buy ep) (orders (db w))"]
      sort_key_lex [of o_price_per_kwh created_key "filter (in_book Sell ep) (orders (db w))"]
    by (simp add: buy_rows_def sell_rows_def sorted_wrt_map book_entry_def created_key_def)
qed

definition book_db :: db where
  "book_db = empty_db\<lparr>orders := [sample_order 1 1 Buy 10 2 0 Pending, sample_order 2 1 Buy 10 3 0 Pending]\<rparr>"

theorem order_book_price_time_witness:
  "\<exists>buys w'. get_order_book 7 (calm_world book_db) = (Ok (buys, []), w')
     \<and> mset buys = image_mset book_entry (mset (orders book_db))"
proof -
  obtain buys sells w' where r: "get_order_book 7 (calm_world book_db) = (Ok (buys, sells), w')"
    by (auto simp: get_order_book_def io_simps)
  from order_book_price_time [OF r] have
    "mset buys = image_mset book_entry (mset (filter (in_book Buy 7) (orders book_db)))"
    "mset sells = image_mset book_entry (mset (filter (in_book Sell 7) (orders book_db)))" by auto
  then show ?thesis using r by (auto simp: book_db_def in_book_def sample_order_def)
qed

end
