(* ===== verification/Erc.thy ===== *)
theory Erc
  imports Escrow
begin

text \<open>
  Renewable energy certificates (\<open>src/src/services/erc/\<close>): issuing a certificate, recording its
  signature, transferring and retiring it, and the queries.  The certificate's life is a state
  machine over its status text; the database refuses a status outside
  \<open>active\<close>, \<open>retired\<close>, \<open>expired\<close> and \<open>transferred\<close>.
\<close>

subsection \<open>Issuing\<close>

record issue_request =
  rq_wallet_address :: string
  rq_kwh_amount :: decimal
  rq_expiry_date :: "time option"
  rq_renewable_source :: "string option"
  rq_validation_data :: "string option"

definition generate_certificate_id :: "env \<Rightarrow> (world, string) io" where
  "generate_certificate_id e = bnd get_clock (\<lambda>now. bnd (fresh_uuid e) (\<lambda>u.
     ret (''ERC-'' @ year_str e now @ ''-'' @ to_upper (take 6 (uuid_simple u)))))"

definition create_certificate_metadata ::
  "env \<Rightarrow> string \<Rightarrow> rat \<Rightarrow> string \<Rightarrow> string \<Rightarrow> time \<Rightarrow> time option \<Rightarrow> string \<Rightarrow> erc_metadata" where
  "create_certificate_metadata e certificate_id energy_amount renewable_source issuer issue_date expiry_date validation_data =
    \<lparr> md_name = ''Renewable Energy Certificate #'' @ certificate_id,
      md_description = ''Energy Renewable Certificate for '' @ show_f64 e energy_amount @ '' kWh from ''
        @ renewable_source @ ''. Issued by '' @ issuer @ ''.'',
      md_attributes =
        [(''Renewable Source'', renewable_source), (''Energy Amount (kWh)'', show_f64 e energy_amount),
         (''Issuer'', issuer), (''Issue Date'', rfc3339 e issue_date),
         (''Expiry Date'', case expiry_date of None \<Rightarrow> ''Never'' | Some d \<Rightarrow> rfc3339 e d),
         (''Validation Data'', validation_data)],
      md_external_url = ''https://gridtokenx.com/erc/'' @ certificate_id \<rparr>"

text \<open>The primary key, the unique certificate number and the foreign keys.\<close>

definition cert_ok :: "erc_certificate \<Rightarrow> db \<Rightarrow> bool" where
  "cert_ok c d \<longleftrightarrow> list_all (\<lambda>q. c_id q \<noteq> c_id c \<and> c_certificate_id q \<noteq> c_certificate_id c) (erc_certificates d)
     \<and> (case c_user_id c of None \<Rightarrow> True | Some u \<Rightarrow> users d u \<noteq> None)
     \<and> (case c_settlement_id c of None \<Rightarrow> True | Some i \<Rightarrow> list_ex (\<lambda>s. s_id s = i) (settlements d))"

definition issue_certificate :: "env \<Rightarrow> uuid \<Rightarrow> string \<Rightarrow> issue_request \<Rightarrow> uuid option \<Rightarrow> (world, erc_certificate) io" where
  "issue_certificate e user_id issuer_wallet request settlement_id =
    bnd (generate_certificate_id e) (\<lambda>certificate_id.
    bnd get_clock (\<lambda>now.
    let metadata = create_certificate_metadata e certificate_id (dec_to_f64 e (rq_kwh_amount request))
          (unwrap_or (rq_renewable_source request) ''Unknown'') issuer_wallet now (rq_expiry_date request)
          (unwrap_or (rq_validation_data request) [])
    in bnd (fresh_uuid e) (\<lambda>i.
       let cert = \<lparr> c_id = i, c_certificate_id = certificate_id, c_user_id = Some user_id,
             c_wallet_address = rq_wallet_address request, c_kwh_amount = Some (rq_kwh_amount request),
             c_issue_date = Some now, c_expiry_date = rq_expiry_date request,
             c_issuer_wallet = Some issuer_wallet, c_status = ''active'',
             c_blockchain_tx_signature = None, c_metadata = Some metadata,
             c_settlement_id = settlement_id, c_created_at = now \<rparr>
       in sq (map_err (\<lambda>er. Anyhow (''Failed to create certificate record: '' @ api_display er))
               (exec_chk (cert_ok cert) (\<lambda>d. d\<lparr>erc_certificates := erc_certificates d @ [cert]\<rparr>)))
             (ret cert))))"

subsection \<open>Signature, transfer and retirement\<close>

definition upd_cert :: "(erc_certificate \<Rightarrow> bool) \<Rightarrow> (erc_certificate \<Rightarrow> erc_certificate) \<Rightarrow> db \<Rightarrow> db" where
  "upd_cert p f d = d\<lparr>erc_certificates := update_where p f (erc_certificates d)\<rparr>"

text \<open>
  \<open>UPDATE ... WHERE p RETURNING *\<close>: the first row that the statement changed, as it is afterwards.
\<close>

definition update_cert_returning ::
  "(erc_certificate \<Rightarrow> bool) \<Rightarrow> (erc_certificate \<Rightarrow> erc_certificate) \<Rightarrow> (world, erc_certificate option) io" where
  "update_cert_returning p f = (\<lambda>w.
     exec_returning (\<lambda>_. True) (upd_cert p f) (\<lambda>_. map_option f (find p (erc_certificates (db w)))) w)"

definition update_certificate_signature :: "uuid \<Rightarrow> string \<Rightarrow> (world, erc_certificate) io" where
  "update_certificate_signature certificate_uuid signature =
    map_err (\<lambda>er. Anyhow (''Failed to update certificate signature: '' @ api_display er))
      (bnd (update_cert_returning (\<lambda>c. c_id c = certificate_uuid)
              (\<lambda>c. c\<lparr>c_blockchain_tx_signature := Some signature\<rparr>))
           (\<lambda>r. ok_or r (Database ''no rows returned'')))"

definition retire_certificate :: "uuid \<Rightarrow> (world, erc_certificate) io" where
  "retire_certificate certificate_uuid =
    bnd (map_err (\<lambda>er. Anyhow (''Failed to retire certificate: '' @ api_display er))
          (update_cert_returning
             (\<lambda>c. c_id c = certificate_uuid \<and> c_status c \<in> {''active'', ''transferred''})
             (\<lambda>c. c\<lparr>c_status := ''retired''\<rparr>)))
        (\<lambda>r. ok_or r (Anyhow ''Certificate not found or already retired''))"

text \<open>Looking a user up by wallet: the table is a finite map, the candidates are given in the order
  the server scans them.\<close>

definition user_of_wallet :: "uuid list \<Rightarrow> string \<Rightarrow> db \<Rightarrow> uuid option" where
  "user_of_wallet scan wallet d =
     find (\<lambda>u. case users d u of None \<Rightarrow> False | Some r \<Rightarrow> wallet_address r = Some wallet) scan"

text \<open>An error of the server becomes an \<open>anyhow\<close> error with a prefix; for the start and the commit
  of the transaction the model has one prefix where the code has two.\<close>

definition db_context :: "string \<Rightarrow> (world, 'a) io \<Rightarrow> (world, 'a) io" where
  "db_context msg m = map_err (\<lambda>er. case er of Database t \<Rightarrow> Anyhow (msg @ api_display er) | _ \<Rightarrow> er) m"

definition transfer_certificate ::
  "env \<Rightarrow> uuid list \<Rightarrow> uuid \<Rightarrow> string \<Rightarrow> string \<Rightarrow> string \<Rightarrow> (world, erc_certificate \<times> cert_transfer) io" where
  "transfer_certificate e scan certificate_uuid from_wallet to_wallet tx_signature =
    db_context ''Failed to start or commit: '' (transaction (
    bnd (db_context ''Failed to resolve new user: '' (query (user_of_wallet scan to_wallet))) (\<lambda>new_user.
    bnd (ok_or new_user (Anyhow ''Recipient user not found for wallet'')) (\<lambda>to_user_id.
    bnd (db_context ''Failed to fetch certificate: ''
           (query (\<lambda>d. find_row c_id certificate_uuid (erc_certificates d)))) (\<lambda>current.
    bnd (ok_or current (Anyhow ''Certificate not found'')) (\<lambda>current_cert.
    bnd (db_context ''Failed to update certificate: ''
          (update_cert_returning (\<lambda>c. c_id c = certificate_uuid)
            (\<lambda>c. c\<lparr>c_wallet_address := to_wallet, c_status := ''transferred'', c_user_id := Some to_user_id\<rparr>))) (\<lambda>updated.
    bnd (ok_or updated (Anyhow ''Failed to update certificate: no rows returned'')) (\<lambda>certificate.
    bnd get_clock (\<lambda>now. bnd (fresh_uuid e) (\<lambda>i.
    let transfer = \<lparr> ct_id = i, ct_certificate_id = certificate_uuid, ct_from_wallet = from_wallet,
          ct_to_wallet = to_wallet, ct_transfer_date = now, ct_blockchain_tx_signature = tx_signature,
          ct_from_user_id = c_user_id current_cert, ct_to_user_id = to_user_id \<rparr>
    in sq (db_context ''Failed to record transfer: ''
             (exec (\<lambda>d. d\<lparr>erc_transfers := erc_transfers d @ [transfer]\<rparr>)))
          (ret (certificate, transfer))))))))))))"

subsection \<open>Queries\<close>

record certificate_stats =
  total_certificates :: nat
  active_kwh :: decimal
  retired_kwh :: decimal
  total_kwh :: decimal

definition sql_sum :: "decimal option list \<Rightarrow> decimal" where
  "sql_sum xs = sum_list (map (\<lambda>x. unwrap_or x 0) xs)"

definition get_user_stats :: "uuid \<Rightarrow> (world, certificate_stats) io" where
  "get_user_stats user_id =
    bnd (query (\<lambda>d. length (filter (\<lambda>c. c_user_id c = Some user_id) (erc_certificates d)))) (\<lambda>n.
    bnd (query (\<lambda>d. length (filter (\<lambda>c. c_user_id c = Some user_id \<and> c_status c = ''Active'') (erc_certificates d)))) (\<lambda>_.
    bnd (query (\<lambda>d. length (filter (\<lambda>c. c_user_id c = Some user_id \<and> c_status c = ''Retired'') (erc_certificates d)))) (\<lambda>_.
    bnd (query (\<lambda>d. sql_sum (map c_kwh_amount (filter (\<lambda>c. c_user_id c = Some user_id) (erc_certificates d))))) (\<lambda>kwh.
    ret \<lparr> total_certificates = n, active_kwh = 0, retired_kwh = 0, total_kwh = kwh \<rparr>))))"

definition get_certificate_by_id :: "string \<Rightarrow> (world, erc_certificate) io" where
  "get_certificate_by_id certificate_id =
    bnd (query (\<lambda>d. find_row c_certificate_id certificate_id (erc_certificates d)))
        (\<lambda>r. ok_or r (Anyhow ''Certificate not found''))"

definition get_my_certificates :: "uuid \<Rightarrow> (world, erc_certificate list) io" where
  "get_my_certificates user_id =
    map_err (\<lambda>er. Anyhow (''Failed to fetch user certificates: '' @ api_display er))
      (query (\<lambda>d. sort_key (\<lambda>c. - c_created_at c) (filter (\<lambda>c. c_user_id c = Some user_id) (erc_certificates d))))"

definition count_user_certificates :: "uuid \<Rightarrow> string option \<Rightarrow> (world, nat) io" where
  "count_user_certificates user_id status_filter =
    map_err (\<lambda>er. Anyhow (''Failed to count user certificates: '' @ api_display er))
      (query (\<lambda>d. length (filter (\<lambda>c. c_user_id c = Some user_id
         \<and> (case status_filter of None \<Rightarrow> True | Some st \<Rightarrow> c_status c = st)) (erc_certificates d))))"

subsection \<open>The life of a certificate\<close>

definition certs_ok :: "db \<Rightarrow> bool" where
  "certs_ok d \<longleftrightarrow> distinct (map c_id (erc_certificates d)) \<and> distinct (map c_certificate_id (erc_certificates d))
     \<and> list_all (\<lambda>c. c_status c \<in> {''active'', ''retired'', ''expired'', ''transferred''}) (erc_certificates d)"

lemma certs_ok_update:
  assumes "certs_ok d" and "\<And>c. c_id (f c) = c_id c" and "\<And>c. c_certificate_id (f c) = c_certificate_id c"
    and "\<And>c. c_status c \<in> {''active'', ''retired'', ''expired'', ''transferred''} \<Longrightarrow>
      c_status (f c) \<in> {''active'', ''retired'', ''expired'', ''transferred''}"
  shows "certs_ok (upd_cert p f d)"
proof -
  have "list_all (\<lambda>c. c_status c \<in> {''active'', ''retired'', ''expired'', ''transferred''}) (update_where p f rs)"
    if "list_all (\<lambda>c. c_status c \<in> {''active'', ''retired'', ''expired'', ''transferred''}) rs" for rs
    using that by (induction rs) (simp_all add: assms(4) del: insert_iff)
  then show ?thesis
    using assms(1-3) by (simp add: certs_ok_def upd_cert_def map_update_where_same)
qed

lemma certs_ok_add:
  "certs_ok d \<Longrightarrow> cert_ok c d \<Longrightarrow> c_status c = ''active'' \<Longrightarrow> certs_ok (d\<lparr>erc_certificates := erc_certificates d @ [c]\<rparr>)"
  by (auto simp: certs_ok_def cert_ok_def list_all_iff)

lemma certs_ok_transfers [simp]: "certs_ok (d\<lparr>erc_transfers := ts\<rparr>) = certs_ok d"
  by (simp add: certs_ok_def)

lemma update_cert_returning_keeps:
  "(\<And>d. I d \<Longrightarrow> I (upd_cert p f d)) \<Longrightarrow> keeps_db I (update_cert_returning p f)"
  unfolding keeps_db_def keeps_def update_cert_returning_def
  by (auto simp: exec_returning_def exec_chk_def split: option.splits)

lemma db_context_Ok [simp]: "db_context msg m w = (Ok x, w') \<longleftrightarrow> m w = (Ok x, w')"
  by (simp add: db_context_def)

lemma db_context_keeps: "keeps_db I m \<Longrightarrow> keeps_db I (db_context msg m)"
  unfolding db_context_def by (intro keeps_db_intros)

lemma update_where_done:
  assumes "\<And>c. \<not> p (f c)"
  shows "find p (update_where p f rs) = None" "update_where p f (update_where p f rs) = update_where p f rs"
  by (induction rs) (simp_all add: assms)

lemma update_cert_returning_Ok:
  "update_cert_returning p f w = (Ok x, w') \<longleftrightarrow> faulty w = None
     \<and> x = map_option f (find p (erc_certificates (db w))) \<and> w' = (tick w)\<lparr>db := upd_cert p f (db w)\<rparr>"
  by (auto simp: update_cert_returning_def exec_returning_Ok)

subsection \<open>Properties\<close>

text \<open>Certificate numbers and identifiers stay unique and every status stays one of the four
  the schema knows, under issuing, signing, transferring and retiring, whatever the outcome.\<close>

lemma certificates_well_formed:
  assumes "certs_ok (db w)"
  shows "certs_ok (db (snd (issue_certificate e u iss rq sid w)))
    \<and> certs_ok (db (snd (update_certificate_signature i sig w)))
    \<and> certs_ok (db (snd (transfer_certificate e scan i fw tw sig w)))
    \<and> certs_ok (db (snd (retire_certificate i w)))"
proof (intro conjI)
  have "keeps_db certs_ok (issue_certificate e u iss rq sid)"
    unfolding issue_certificate_def generate_certificate_id_def Let_def
    by (intro keeps_db_intros) (auto intro: certs_ok_add)
  then show "certs_ok (db (snd (issue_certificate e u iss rq sid w)))" using assms by (rule keeps_dbD)
  have "keeps_db certs_ok (update_certificate_signature i sig)"
    unfolding update_certificate_signature_def
    by (intro keeps_db_intros update_cert_returning_keeps certs_ok_update) auto
  then show "certs_ok (db (snd (update_certificate_signature i sig w)))" using assms by (rule keeps_dbD)
  have "keeps_db certs_ok (transfer_certificate e scan i fw tw sig)"
    unfolding transfer_certificate_def Let_def
    by (intro keeps_db_intros db_context_keeps update_cert_returning_keeps certs_ok_update) auto
  then show "certs_ok (db (snd (transfer_certificate e scan i fw tw sig w)))" using assms by (rule keeps_dbD)
  have "keeps_db certs_ok (retire_certificate i)"
    unfolding retire_certificate_def
    by (intro keeps_db_intros update_cert_returning_keeps certs_ok_update) auto
  then show "certs_ok (db (snd (retire_certificate i w)))" using assms by (rule keeps_dbD)
qed


definition cert_sample :: erc_certificate where
  "cert_sample = \<lparr> c_id = 5, c_certificate_id = ''ERC-2026-ABCDEF'', c_user_id = Some 1, c_wallet_address = ''w1'',
     c_kwh_amount = Some 10, c_issue_date = None, c_expiry_date = None, c_issuer_wallet = None,
     c_status = ''active'', c_blockchain_tx_signature = None, c_metadata = None, c_settlement_id = None,
     c_created_at = 0 \<rparr>"

definition cert_db :: db where
  "cert_db = empty_db\<lparr>users := [1 \<mapsto> sample_user 0 0 0], erc_certificates := [cert_sample]\<rparr>"


text \<open>A transfer brings a retired certificate back: \<open>transfer_certificate\<close> checks neither the
  status nor the sender, so a retired certificate becomes \<open>transferred\<close>, can be retired a second
  time, and the energy it stands for can be claimed again.\<close>

theorem transfer_revives_retired:
  assumes "find_row c_id i (erc_certificates (db w)) = Some c" and "c_status c = ''retired''"
    and "transfer_certificate e scan i fw tw sig w = (Ok (c', tr), w')"
  shows "c_status c' = ''transferred'' \<and> c_wallet_address c' = tw \<and> c_kwh_amount c' = c_kwh_amount c
    \<and> (faulty w' = None \<longrightarrow> (\<exists>c''. fst (retire_certificate i w') = Ok c''))"
proof -
  let ?f = "\<lambda>v c. c\<lparr>c_wallet_address := tw, c_status := ''transferred'', c_user_id := Some v\<rparr>"
  have f0: "find (\<lambda>c. c_id c = i) (erc_certificates (db w)) = Some c"
    using assms(1) by (simp add: find_row_def)
  from assms(3) obtain v where c': "c' = ?f v c"
    and d': "erc_certificates (db w') = update_where (\<lambda>c. c_id c = i) (?f v) (erc_certificates (db w))"
    unfolding transfer_certificate_def
    by (auto elim!: transaction_OkE bnd_OkE sq_OkE simp: statement_Ok update_cert_returning_Ok Let_def f0 upd_cert_def
        get_clock_def fresh_uuid_def)
  have "find (\<lambda>c. c_id c = i \<and> c_status c \<in> {''active'', ''transferred''}) (update_where (\<lambda>c. c_id c = i) (?f v) rs)
      = Some (?f v c)" if "find (\<lambda>c. c_id c = i) rs = Some c" for rs
    using that by (induction rs) (auto split: if_splits)
  from this [OF f0] c' d' show ?thesis
    by (auto simp: retire_certificate_def update_cert_returning_def exec_returning_def exec_chk_def bnd_app map_err_app)
qed

theorem transfer_revives_retired_witness:
  "\<exists>c' tr w'. transfer_certificate std_env [1] 5 ''w1'' ''wallet'' ''sig''
        (calm_world (cert_db\<lparr>erc_certificates := [cert_sample\<lparr>c_status := ''retired''\<rparr>]\<rparr>)) = (Ok (c', tr), w')
     \<and> c_status c' = ''transferred''"
proof -
  let ?w = "calm_world (cert_db\<lparr>erc_certificates := [cert_sample\<lparr>c_status := ''retired''\<rparr>]\<rparr>)"
  have "\<exists>c' tr w'. transfer_certificate std_env [1] 5 ''w1'' ''wallet'' ''sig'' ?w = (Ok (c', tr), w')"
    by (simp add: transfer_certificate_def db_context_def io_simps user_of_wallet_def cert_db_def sample_user_def
        cert_sample_def update_cert_returning_def Let_def)
  then obtain c' tr w' where r: "transfer_certificate std_env [1] 5 ''w1'' ''wallet'' ''sig'' ?w = (Ok (c', tr), w')" by blast
  from transfer_revives_retired [OF _ _ r, of "cert_sample\<lparr>c_status := ''retired''\<rparr>"] r show ?thesis
    by (auto simp: cert_db_def cert_sample_def)
qed

end
