(* ===== verification/Clearing.thy ===== *)
theory Clearing
  imports Orders Erc
begin

text \<open>
  Market clearing: the clearing price of an order book (\<open>src/src/services/market_clearing/mod.rs\<close>),
  the epoch auction by landed cost with its settlements
  (\<open>src/src/services/market_clearing/matching.rs\<close>) and the revenue queries
  (\<open>src/src/services/market_clearing/revenue.rs\<close>).  The matching loop need not end, so it is a
  partial function: \<open>None\<close> is a loop that runs forever.
\<close>

subsection \<open>Clearing price\<close>

fun list_max :: "decimal list \<Rightarrow> decimal option" where
  "list_max [] = None"
| "list_max (x # xs) = (case list_max xs of None \<Rightarrow> Some x | Some m \<Rightarrow> Some (max x m))"

fun list_min :: "decimal list \<Rightarrow> decimal option" where
  "list_min [] = None"
| "list_min (x # xs) = (case list_min xs of None \<Rightarrow> Some x | Some m \<Rightarrow> Some (min x m))"

definition calculate_clearing_price :: "env \<Rightarrow> order_book_entry list \<Rightarrow> order_book_entry list \<Rightarrow> clearing_price option" where
  "calculate_clearing_price e buy_orders sell_orders =
    (if buy_orders = [] \<or> sell_orders = [] then None
     else Option.bind (list_max (map b_price_per_kwh buy_orders)) (\<lambda>best_bid.
          Option.bind (list_min (map b_price_per_kwh sell_orders)) (\<lambda>best_ask.
          if best_bid < best_ask then None
          else Some
            (let buy_volume = sum_list (map b_energy_amount (filter (\<lambda>x. b_price_per_kwh x \<ge> best_ask) buy_orders));
                 sell_volume = sum_list (map b_energy_amount (filter (\<lambda>x. b_price_per_kwh x \<le> best_bid) sell_orders))
             in \<lparr> cp_price = ddiv e (best_bid + best_ask) 2, cp_volume = min buy_volume sell_volume,
                  cp_buy_orders_count = length buy_orders, cp_sell_orders_count = length sell_orders,
                  cp_best_bid = best_bid, cp_best_ask = best_ask \<rparr>))))"

subsection \<open>Choosing a seller\<close>

definition estimate_zonal_costs :: "env \<Rightarrow> i32 option \<Rightarrow> i32 option \<Rightarrow> decimal \<times> decimal" where
  "estimate_zonal_costs e buyer_zone seller_zone = (case (buyer_zone, seller_zone) of
      (Some b, Some s) \<Rightarrow> (case simulator e b s 1 1 of
          Some (wheeling, loss_factor, loss_cost, effective) \<Rightarrow> (wheeling, loss_factor)
        | None \<Rightarrow> (0, 0))
    | _ \<Rightarrow> (0, 0))"

definition landed_cost :: "env \<Rightarrow> order_book_entry \<Rightarrow> order_book_entry \<Rightarrow> decimal" where
  "landed_cost e b s = (case estimate_zonal_costs e (b_zone_id b) (b_zone_id s) of
     (wheeling, loss_factor) \<Rightarrow> b_price_per_kwh s + wheeling + dmul e loss_factor (b_price_per_kwh s))"

text \<open>The scan over the sellers: the index found so far, its surplus and its price.\<close>

fun best_seller ::
  "env \<Rightarrow> order_book_entry \<Rightarrow> order_book_entry list \<Rightarrow> nat \<Rightarrow> nat option \<times> decimal \<times> decimal \<Rightarrow> nat option \<times> decimal \<times> decimal" where
  "best_seller e b [] k acc = acc"
| "best_seller e b (s # ss) k (best, max_surplus, match_price) =
    (let cost = landed_cost e b s; surplus = b_price_per_kwh b - cost
     in best_seller e b ss (Suc k)
          (if b_price_per_kwh b \<ge> cost \<and> surplus > max_surplus
           then (Some k, surplus, ddiv e (b_price_per_kwh b + cost) 2)
           else (best, max_surplus, match_price)))"

subsection \<open>One round of matching\<close>

definition match_ok :: "match_row \<Rightarrow> db \<Rightarrow> bool" where
  "match_ok r d \<longleftrightarrow> 0 < m_matched_amount r \<and> m_status r \<in> {''pending'', ''settled'', ''failed''}
     \<and> list_ex (\<lambda>q. ep_id q = m_epoch_id r) (epochs d)
     \<and> order_exists (m_buy_order_id r) d \<and> order_exists (m_sell_order_id r) d
     \<and> list_all (\<lambda>q. m_id q \<noteq> m_id r) (order_matches d)"

definition add_match :: "match_row \<Rightarrow> db \<Rightarrow> db" where
  "add_match r d = d\<lparr>order_matches := order_matches d @ [r]\<rparr>"

definition match_row_of :: "order_match \<Rightarrow> match_row" where
  "match_row_of m = order_match.extend m \<lparr>m_settlement_id = None\<rparr>"

definition save_order_match :: "order_match \<Rightarrow> (world, unit) io" where
  "save_order_match m = exec_chk (match_ok (match_row_of m)) (add_match (match_row_of m))"

record book_state =
  bs_buys :: "order_book_entry list"
  bs_sells :: "order_book_entry list"
  bs_matches :: "order_match list"
  bs_volume :: decimal
  bs_count :: nat

definition remove_at :: "nat \<Rightarrow> 'a list \<Rightarrow> 'a list" where
  "remove_at k xs = take k xs @ drop (Suc k) xs"

definition take_energy :: "decimal \<Rightarrow> order_book_entry \<Rightarrow> order_book_entry" where
  "take_energy a x = x\<lparr>b_energy_amount := b_energy_amount x - a\<rparr>"

definition record_fill :: "order_book_entry \<Rightarrow> decimal \<Rightarrow> (world, unit) io" where
  "record_fill x a = (if b_energy_amount x \<le> 0 then update_order_status (b_order_id x) Filled
     else update_order_filled_amount (b_order_id x) a)"

definition match_step :: "env \<Rightarrow> uuid \<Rightarrow> book_state \<Rightarrow> (world, book_state) io" where
  "match_step e epoch_id st = (case bs_buys st of
      [] \<Rightarrow> ret st
    | buy # rest \<Rightarrow> (case best_seller e buy (bs_sells st) 0 (None, - 1, 0) of
          (None, _, _) \<Rightarrow> ret (st\<lparr>bs_buys := rest\<rparr>)
        | (Some k, _, match_price) \<Rightarrow>
            let sell = bs_sells st ! k; amount = min (b_energy_amount buy) (b_energy_amount sell)
            in if amount > 0 then
                bnd (fresh_uuid e) (\<lambda>i. bnd get_clock (\<lambda>now.
                let m = \<lparr> m_id = i, m_epoch_id = epoch_id, m_buy_order_id = b_order_id buy,
                          m_sell_order_id = b_order_id sell, m_matched_amount = amount,
                          m_match_price = match_price, m_match_time = now, m_status = ''pending'' \<rparr>;
                    buy' = take_energy amount buy; sell' = take_energy amount sell
                in sq (save_order_match m)
                  (sq (record_fill buy' amount)
                  (sq (record_fill sell' amount)
                  (ret (st\<lparr>bs_buys := (if b_energy_amount buy' \<le> 0 then rest else buy' # rest),
                           bs_sells := (if b_energy_amount sell' \<le> 0 then remove_at k (bs_sells st)
                                        else (bs_sells st)[k := sell']),
                           bs_matches := bs_matches st @ [m], bs_volume := bs_volume st + amount,
                           bs_count := Suc (bs_count st)\<rparr>))))))
               else ret st))"

partial_function (option) match_loop ::
  "env \<Rightarrow> uuid \<Rightarrow> book_state \<Rightarrow> world \<Rightarrow> (book_state outcome \<times> world) option" where
  "match_loop e epoch_id st w =
    (if bs_buys st = [] \<or> bs_sells st = [] then Some (Ok st, w)
     else (case match_step e epoch_id st w of
         (Ok st', w') \<Rightarrow> match_loop e epoch_id st' w'
       | (Err er, w') \<Rightarrow> Some (Err er, w')
       | (Panic, w') \<Rightarrow> Some (Panic, w')))"

subsection \<open>Settling a match\<close>

text \<open>
  \<open>create_settlement\<close> of the market clearing service.  The columns each query selects decide what
  \<open>row.get\<close> may read: \<open>order_pda\<close> is read but not selected.
\<close>

definition buy_columns :: "string list" where
  "buy_columns = [''user_id'', ''zone_id'', ''session_token'']"

definition sell_columns :: "string list" where
  "sell_columns = [''user_id'', ''zone_id'', ''meter_id'', ''session_token'']"

text \<open>Wheeling charge, loss factor, loss cost and effective energy of a match.\<close>

definition match_costs :: "env \<Rightarrow> i32 option \<Rightarrow> i32 option \<Rightarrow> order_match \<Rightarrow> decimal \<times> decimal \<times> decimal \<times> decimal" where
  "match_costs e buyer_zone seller_zone m = (case (buyer_zone, seller_zone) of
      (Some b, Some s) \<Rightarrow> (case simulator e b s (m_matched_amount m) (m_match_price m) of
          Some costs \<Rightarrow> costs
        | None \<Rightarrow> (0, 0, 0, m_matched_amount m))
    | _ \<Rightarrow> (0, 0, 0, m_matched_amount m))"

definition settlement_fk :: "settlement_row \<Rightarrow> db \<Rightarrow> bool" where
  "settlement_fk r d \<longleftrightarrow> users d (s_buyer_id r) \<noteq> None \<and> users d (s_seller_id r) \<noteq> None
     \<and> list_ex (\<lambda>q. ep_id q = s_epoch_id r) (epochs d) \<and> list_all (\<lambda>q. s_id q \<noteq> s_id r) (settlements d)
     \<and> s_status r \<in> {''pending'', ''processing'', ''completed'', ''failed''}"

definition add_settlement :: "settlement_row \<Rightarrow> db \<Rightarrow> db" where
  "add_settlement r d = d\<lparr>settlements := settlements d @ [r]\<rparr>"

definition link_settlement :: "uuid \<Rightarrow> uuid \<Rightarrow> db \<Rightarrow> db" where
  "link_settlement match_id i d = d\<lparr>order_matches := update_where (\<lambda>r. m_id r = match_id)
     (\<lambda>r. r\<lparr>m_settlement_id := Some i\<rparr>) (order_matches d)\<rparr>"

definition release_match :: "env \<Rightarrow> order_row \<Rightarrow> order_row \<Rightarrow> order_match \<Rightarrow> decimal \<Rightarrow> decimal \<Rightarrow> decimal \<Rightarrow> (world, unit) io" where
  "release_match e buy_order sell_order m wheeling net_amount effective_energy =
    bnd (row_get buy_columns ''order_pda'' (o_order_pda buy_order)) (\<lambda>buy_pda.
    bnd (row_get sell_columns ''order_pda'' (o_order_pda sell_order)) (\<lambda>sell_pda.
    case (buy_pda, sell_pda) of
      (Some b_pda, Some s_pda) \<Rightarrow>
        ignore (execute_atomic_swap e (o_user_id buy_order) (o_user_id sell_order) b_pda s_pda
          (m_matched_amount m) (m_match_price m) wheeling)
    | _ \<Rightarrow> sq (ignore (execute_escrow_release e (o_user_id sell_order) net_amount ''currency''))
              (ignore (execute_escrow_release e (o_user_id buy_order) effective_energy ''energy''))))"

definition issue_rec_for_match :: "env \<Rightarrow> order_row \<Rightarrow> string option \<Rightarrow> settlement_row \<Rightarrow> (world, unit) io" where
  "issue_rec_for_match e sell_order seller_wallet s = (case o_meter_id sell_order of
      None \<Rightarrow> ret ()
    | Some meter \<Rightarrow>
        sq (ignore (query (\<lambda>d. find_row mt_id meter (meters d))))
        (bnd get_clock (\<lambda>now. ignore (issue_certificate e (o_user_id sell_order) ''PlatformAuthority''
          \<lparr> rq_wallet_address = unwrap_or seller_wallet [], rq_kwh_amount = s_energy_amount s,
            rq_expiry_date = Some (now + 365 * 86400000000000), rq_renewable_source = Some ''Solar'',
            rq_validation_data = Some (''Settlement: '' @ uuid_str (s_id s)) \<rparr> (Some (s_id s))))))"

definition create_settlement_mc :: "env \<Rightarrow> order_match \<Rightarrow> (world, settlement_row) io" where
  "create_settlement_mc e m =
    bnd (fetch_one (\<lambda>d. find_row o_id (m_buy_order_id m) (orders d))) (\<lambda>buy_order.
    bnd (fetch_one (\<lambda>d. find_row o_id (m_sell_order_id m) (orders d))) (\<lambda>sell_order.
    case match_costs e (o_zone_id buy_order) (o_zone_id sell_order) m of
      (wheeling_charge, loss_factor, loss_cost, effective_energy) \<Rightarrow>
    let total_amount = dmul e (m_matched_amount m) (m_match_price m);
        fee_amount = dmul e total_amount (1 / 100);
        net_amount = total_amount - fee_amount - wheeling_charge
    in
    bnd (fetch_one (\<lambda>d. users d (o_user_id sell_order))) (\<lambda>seller.
    sq (release_match e buy_order sell_order m wheeling_charge net_amount effective_energy)
    (bnd (fresh_uuid e) (\<lambda>i. bnd get_clock (\<lambda>now.
    let s = \<lparr> s_id = i, s_epoch_id = m_epoch_id m, s_buyer_id = o_user_id buy_order,
          s_seller_id = o_user_id sell_order, s_buy_order_id = None, s_sell_order_id = None,
          s_energy_amount = m_matched_amount m, s_price = m_match_price m, s_total_value = total_amount,
          s_fee_amount = fee_amount, s_net_amount = net_amount, s_status = ''pending'',
          s_transaction_hash = None, s_created_at = now, s_processed_at = None,
          s_buyer_zone_id = o_zone_id buy_order, s_seller_zone_id = o_zone_id sell_order,
          s_wheeling_charge = Some wheeling_charge, s_loss_cost = Some loss_cost,
          s_loss_factor = Some loss_factor, s_effective_energy = Some effective_energy,
          s_buyer_session_token = o_session_token buy_order, s_seller_session_token = o_session_token sell_order,
          s_retry_count = Some 0, s_updated_at = now \<rparr>
    in sq (exec_chk (settlement_fk s) (add_settlement s))
       (sq (exec (link_settlement (m_id m) i))
       (sq (issue_rec_for_match e sell_order (wallet_address seller) s)
           (ret s)))))))))"

subsection \<open>The auction\<close>

definition total_match_value :: "env \<Rightarrow> order_match list \<Rightarrow> decimal" where
  "total_match_value e ms = fold (\<lambda>m acc. acc + dmul e (m_matched_amount m) (m_match_price m)) ms 0"

definition set_clearing_price :: "uuid \<Rightarrow> decimal \<Rightarrow> db \<Rightarrow> db" where
  "set_clearing_price i p d = d\<lparr>epochs := update_where (\<lambda>r. ep_id r = i)
     (\<lambda>r. r\<lparr>ep_clearing_price := Some p\<rparr>) (epochs d)\<rparr>"

definition finish_matching :: "env \<Rightarrow> uuid \<Rightarrow> book_state \<Rightarrow> (world, order_match list) io" where
  "finish_matching e epoch_id st =
    sq (update_epoch_statistics epoch_id (bs_volume st) (bs_count st))
    (sq (if bs_matches st \<noteq> []
         then exec (set_clearing_price epoch_id (ddiv e (total_match_value e (bs_matches st)) (bs_volume st)))
         else ret ())
    (sq (for_each (bs_matches st) (\<lambda>m. ignore (create_settlement_mc e m)))
        (ret (bs_matches st))))"

definition run_order_matching :: "env \<Rightarrow> uuid \<Rightarrow> world \<Rightarrow> (order_match list outcome \<times> world) option" where
  "run_order_matching e epoch_id w = (case get_order_book epoch_id w of
      (Ok (buys, sells), w1) \<Rightarrow>
        if buys = [] \<or> sells = [] then Some (Ok [], w1)
        else (case match_loop e epoch_id \<lparr>bs_buys = buys, bs_sells = sells, bs_matches = [], bs_volume = 0, bs_count = 0\<rparr> w1 of
            None \<Rightarrow> None
          | Some (Ok st, w2) \<Rightarrow> Some (finish_matching e epoch_id st w2)
          | Some (Err er, w2) \<Rightarrow> Some (Err er, w2)
          | Some (Panic, w2) \<Rightarrow> Some (Panic, w2))
    | (Err er, w1) \<Rightarrow> Some (Err er, w1)
    | (Panic, w1) \<Rightarrow> Some (Panic, w1))"

subsection \<open>Revenue\<close>

record revenue_summary =
  total_revenue :: decimal
  platform_fees :: decimal
  wheeling_charges :: decimal
  loss_costs :: decimal
  settlement_count :: nat

definition revenue_of :: "string \<Rightarrow> db \<Rightarrow> decimal" where
  "revenue_of ty d = sum_list (map r_amount (filter (\<lambda>r. r_revenue_type r = ty) (platform_revenue d)))"

definition get_platform_revenue_summary :: "(world, revenue_summary) io" where
  "get_platform_revenue_summary = query (\<lambda>d.
    \<lparr> total_revenue = sum_list (map r_amount (platform_revenue d)),
      platform_fees = revenue_of ''platform_fee'' d, wheeling_charges = revenue_of ''wheeling_charge'' d,
      loss_costs = revenue_of ''loss_cost'' d,
      settlement_count = length (remdups (map r_settlement_id (platform_revenue d))) \<rparr>)"

subsection \<open>The clearing price\<close>

lemma list_max_None [simp]: "list_max xs = None \<longleftrightarrow> xs = []"
  and list_min_None [simp]: "list_min xs = None \<longleftrightarrow> xs = []"
  by (cases xs; auto split: option.splits)+

lemma list_max_props: "list_max xs = Some m \<Longrightarrow> m \<in> set xs \<and> (\<forall>x \<in> set xs. x \<le> m)"
  by (induction xs arbitrary: m) (auto simp: max_def split: option.splits if_splits)

lemma list_min_props: "list_min xs = Some m \<Longrightarrow> m \<in> set xs \<and> (\<forall>x \<in> set xs. m \<le> x)"
  by (induction xs arbitrary: m) (auto simp: min_def split: option.splits if_splits)

lemma midpoint_between:
  assumes "decimal_rounding (rnd e)" and "rnd e a = a" and "rnd e b = b" and "a \<le> b"
  shows "a \<le> ddiv e (b + a) 2 \<and> ddiv e (b + a) 2 \<le> b"
  unfolding ddiv_def using assms(4)
  by (intro decimal_rounding.rnd_between [OF assms(1-3)]) (simp_all add: field_simps)

subsection \<open>The seller chosen\<close>

definition affordable :: "env \<Rightarrow> order_book_entry \<Rightarrow> order_book_entry \<Rightarrow> bool" where
  "affordable e b s \<longleftrightarrow> landed_cost e b s \<le> b_price_per_kwh b"

lemma best_seller_spec:
  assumes "best_seller e b ss k (best, mx, pr) = (best', mx', pr')"
  shows "mx \<le> mx' \<and> (\<forall>s \<in> set ss. affordable e b s \<longrightarrow> b_price_per_kwh b - landed_cost e b s \<le> mx')
    \<and> ((best', mx', pr') = (best, mx, pr) \<or> (\<exists>j < length ss. best' = Some (k + j) \<and> affordable e b (ss ! j)
         \<and> mx' = b_price_per_kwh b - landed_cost e b (ss ! j)
         \<and> pr' = ddiv e (b_price_per_kwh b + landed_cost e b (ss ! j)) 2))"
  using assms
proof (induction ss arbitrary: k best mx pr)
  case (Cons s ss)
  show ?case
  proof (cases "affordable e b s \<and> mx < b_price_per_kwh b - landed_cost e b s")
    case True
    then have "best_seller e b ss (Suc k) (Some k, b_price_per_kwh b - landed_cost e b s,
        ddiv e (b_price_per_kwh b + landed_cost e b s) 2) = (best', mx', pr')"
      using Cons.prems by (simp add: affordable_def Let_def)
    from Cons.IH [OF this] True show ?thesis by (fastforce simp: nth_Cons')
  next
    case False
    then have "best_seller e b ss (Suc k) (best, mx, pr) = (best', mx', pr')"
      using Cons.prems by (auto simp: affordable_def Let_def split: if_splits)
    from Cons.IH [OF this] False show ?thesis by (fastforce simp: nth_Cons')
  qed
qed auto

lemma best_seller_Some:
  assumes "best_seller e b ss 0 (None, - 1, 0) = (Some k, mx, pr)"
  shows "k < length ss" "affordable e b (ss ! k)" "pr = ddiv e (b_price_per_kwh b + landed_cost e b (ss ! k)) 2"
    and "\<And>s. s \<in> set ss \<Longrightarrow> landed_cost e b (ss ! k) \<le> landed_cost e b s"
proof -
  note sp = best_seller_spec [OF assms]
  then show k: "k < length ss" and a: "affordable e b (ss ! k)"
    and "pr = ddiv e (b_price_per_kwh b + landed_cost e b (ss ! k)) 2" by auto
  fix s assume "s \<in> set ss"
  with sp a show "landed_cost e b (ss ! k) \<le> landed_cost e b s"
    by (cases "affordable e b s") (auto simp: affordable_def)
qed

lemma best_seller_None:
  assumes "best_seller e b ss 0 (None, - 1, 0) = (None, mx, pr)" and "s \<in> set ss"
  shows "\<not> affordable e b s"
  using best_seller_spec [OF assms(1)] assms(2) by (auto simp: affordable_def)

subsection \<open>The loop ends\<close>

definition book_positive :: "book_state \<Rightarrow> bool" where
  "book_positive st \<longleftrightarrow> list_all (\<lambda>x. 0 < b_energy_amount x) (bs_buys st)
     \<and> list_all (\<lambda>x. 0 < b_energy_amount x) (bs_sells st)"

lemma take_energy_fields [simp]:
  "b_energy_amount (take_energy a x) = b_energy_amount x - a" "b_order_id (take_energy a x) = b_order_id x"
  "b_price_per_kwh (take_energy a x) = b_price_per_kwh x" "b_zone_id (take_energy a x) = b_zone_id x"
  by (simp_all add: take_energy_def)

lemma set_remove_at: "set (remove_at k xs) \<subseteq> set xs"
  by (auto simp: remove_at_def dest: in_set_takeD in_set_dropD)

lemma length_remove_at: "k < length xs \<Longrightarrow> length (remove_at k xs) = length xs - 1"
  by (simp add: remove_at_def)

text \<open>The book after a match of the best buyer with the seller at index \<open>k\<close>.\<close>

definition matched_state :: "order_match \<Rightarrow> nat \<Rightarrow> book_state \<Rightarrow> book_state" where
  "matched_state m k st = (let a = m_matched_amount m; buy' = take_energy a (hd (bs_buys st)); sell' = take_energy a (bs_sells st ! k)
     in st\<lparr>bs_buys := (if b_energy_amount buy' \<le> 0 then tl (bs_buys st) else buy' # tl (bs_buys st)),
           bs_sells := (if b_energy_amount sell' \<le> 0 then remove_at k (bs_sells st) else (bs_sells st)[k := sell']),
           bs_matches := bs_matches st @ [m], bs_volume := bs_volume st + a, bs_count := Suc (bs_count st)\<rparr>)"

definition good_match :: "env \<Rightarrow> uuid \<Rightarrow> book_state \<Rightarrow> nat \<Rightarrow> order_match \<Rightarrow> bool" where
  "good_match e ep st k m \<longleftrightarrow> bs_buys st \<noteq> [] \<and> k < length (bs_sells st)
     \<and> affordable e (hd (bs_buys st)) (bs_sells st ! k)
     \<and> m_matched_amount m = min (b_energy_amount (hd (bs_buys st))) (b_energy_amount (bs_sells st ! k))
     \<and> 0 < m_matched_amount m \<and> m_epoch_id m = ep \<and> m_status m = ''pending''
     \<and> m_buy_order_id m = b_order_id (hd (bs_buys st)) \<and> m_sell_order_id m = b_order_id (bs_sells st ! k)
     \<and> m_match_price m = ddiv e (b_price_per_kwh (hd (bs_buys st)) + landed_cost e (hd (bs_buys st)) (bs_sells st ! k)) 2"

lemma match_step_cases:
  assumes "match_step e ep st w = (Ok st', w')" and "bs_buys st \<noteq> []"
  shows "st' = st\<lparr>bs_buys := tl (bs_buys st)\<rparr> \<or> (\<exists>k m. good_match e ep st k m \<and> st' = matched_state m k st)
    \<or> st' = st \<and> w' = w \<and> (\<exists>k. k < length (bs_sells st) \<and>
        min (b_energy_amount (hd (bs_buys st))) (b_energy_amount (bs_sells st ! k)) \<le> 0)"
proof -
  from assms(2) obtain b bs where b: "bs_buys st = b # bs" by (cases "bs_buys st") auto
  obtain r mx pr where best: "best_seller e b (bs_sells st) 0 (None, - 1, 0) = (r, mx, pr)"
    by (cases "best_seller e b (bs_sells st) 0 (None, - 1, 0)")
  show ?thesis
  proof (cases r)
    case None
    with assms(1) b best show ?thesis by (simp add: match_step_def)
  next
    case (Some k)
    note k = best_seller_Some [OF best [unfolded Some]]
    let ?a = "min (b_energy_amount b) (b_energy_amount (bs_sells st ! k))"
    show ?thesis
    proof (cases "0 < ?a")
      case False
      with assms(1) b best Some k show ?thesis by (auto simp: match_step_def Let_def)
    next
      case True
      let ?m = "\<lparr> m_id = new_v4 e (uuids w), m_epoch_id = ep, m_buy_order_id = b_order_id b,
        m_sell_order_id = b_order_id (bs_sells st ! k), m_matched_amount = ?a, m_match_price = pr,
        m_match_time = clock w, m_status = ''pending'' \<rparr>"
      have "st' = matched_state ?m k st"
        using assms(1) b best Some True
        by (auto simp: match_step_def Let_def matched_state_def fresh_uuid_def get_clock_def elim!: bnd_OkE sq_OkE)
      moreover have "good_match e ep st k ?m" using True b k by (simp add: good_match_def)
      ultimately show ?thesis by blast
    qed
  qed
qed

lemma matched_state_smaller:
  assumes "book_positive st" and "good_match e ep st k m"
  shows "book_positive (matched_state m k st)"
    and "length (bs_buys (matched_state m k st)) + length (bs_sells (matched_state m k st))
      < length (bs_buys st) + length (bs_sells st)"
proof -
  from assms obtain b bs where b: "bs_buys st = b # bs" by (cases "bs_buys st") (auto simp: good_match_def)
  have k: "k < length (bs_sells st)" using assms by (simp add: good_match_def)
  let ?a = "min (b_energy_amount b) (b_energy_amount (bs_sells st ! k))"
  have a: "m_matched_amount m = ?a" using assms b by (simp add: good_match_def)
  have upd: "list_all P (xs[k := x])" if "list_all P xs" "P x" for P and x :: order_book_entry and xs
    using that set_update_subset_insert [of xs k x] by (auto simp: list_all_iff)
  show "book_positive (matched_state m k st)"
    using assms(1) b a set_remove_at [of k "bs_sells st"]
    by (auto simp: book_positive_def matched_state_def Let_def list_all_iff not_le
        dest!: set_update_subset_insert [THEN subsetD])
  have "b_energy_amount b - ?a \<le> 0 \<or> b_energy_amount (bs_sells st ! k) - ?a \<le> 0" by (simp add: min_def)
  then show "length (bs_buys (matched_state m k st)) + length (bs_sells (matched_state m k st))
      < length (bs_buys st) + length (bs_sells st)"
    using b k a by (auto simp: matched_state_def Let_def length_remove_at)
qed

lemma match_step_smaller:
  assumes "match_step e ep st w = (Ok st', w')" and "book_positive st" and "bs_buys st \<noteq> []"
  shows "book_positive st' \<and> length (bs_buys st') + length (bs_sells st') < length (bs_buys st) + length (bs_sells st)"
proof -
  from assms(2,3) have "\<not> min (b_energy_amount (hd (bs_buys st))) (b_energy_amount (bs_sells st ! k)) \<le> 0"
    if "k < length (bs_sells st)" for k
    using that by (auto simp: book_positive_def list_all_iff not_le hd_in_set)
  with match_step_cases [OF assms(1,3)] consider "st' = st\<lparr>bs_buys := tl (bs_buys st)\<rparr>"
    | k m where "good_match e ep st k m" "st' = matched_state m k st" by blast
  then show ?thesis
  proof cases
    case 1
    with assms(2,3) show ?thesis by (cases "bs_buys st") (auto simp: book_positive_def)
  next
    case 2
    with matched_state_smaller [OF assms(2)] show ?thesis by blast
  qed
qed

lemma match_loop_ends:
  "book_positive st \<Longrightarrow> \<exists>r. match_loop e ep st w = Some r"
proof (induction "length (bs_buys st) + length (bs_sells st)" arbitrary: st w rule: less_induct)
  case less
  show ?case
  proof (cases "bs_buys st = [] \<or> bs_sells st = []")
    case True
    then show ?thesis by (subst match_loop.simps) simp
  next
    case False
    obtain r w' where step: "match_step e ep st w = (r, w')" by (cases "match_step e ep st w")
    show ?thesis
    proof (cases r)
      case (Ok st')
      with step False less.prems have "\<exists>r. match_loop e ep st' w' = Some r"
        using match_step_smaller [of e ep st w st' w'] by (intro less.hyps) auto
      with False step Ok show ?thesis by (subst match_loop.simps) simp
    qed (use False step in \<open>subst match_loop.simps, simp\<close>)+
  qed
qed

text \<open>An invariant of the rounds holds when the loop ends normally.\<close>

lemma match_loop_invariant:
  assumes "match_loop e ep st w = Some (Ok st', w')" and "I st"
    and "\<And>st w st' w'. I st \<Longrightarrow> bs_buys st \<noteq> [] \<Longrightarrow> match_step e ep st w = (Ok st', w') \<Longrightarrow> I st'"
  shows "I st'"
proof -
  let ?P = "\<lambda>e' ep' st w r. e' = e \<longrightarrow> ep' = ep \<longrightarrow> (\<forall>st'. fst r = Ok st' \<longrightarrow> I st \<longrightarrow> I st')"
  have "?P e ep st w (Ok st', w')"
  proof (rule match_loop.raw_induct [where P = ?P, OF _ assms(1)])
    fix loop e' ep' st w r
    assume ih: "\<And>e' ep' st w r. loop e' ep' st w = Some r \<Longrightarrow> ?P e' ep' st w r"
      and run: "(if bs_buys st = [] \<or> bs_sells st = [] then Some (Ok st, w)
         else (case match_step e' ep' st w of (Ok st', w') \<Rightarrow> loop e' ep' st' w'
           | (Err er, w') \<Rightarrow> Some (Err er, w') | (Panic, w') \<Rightarrow> Some (Panic, w'))) = Some r"
    show "?P e' ep' st w r"
    proof (intro impI allI)
      fix st2 assume [simp]: "e' = e" "ep' = ep" and st2: "fst r = Ok st2" and I: "I st"
      show "I st2"
      proof (cases "bs_buys st = [] \<or> bs_sells st = []")
        case True
        with run st2 I show ?thesis by auto
      next
        case False
        obtain r1 w1 where r1: "match_step e ep st w = (r1, w1)" by (cases "match_step e ep st w")
        with False run st2 obtain st1 where "match_step e ep st w = (Ok st1, w1)" "loop e ep st1 w1 = Some r"
          by (cases r1) auto
        with ih [OF this(2)] assms(3) [OF I] False st2 show ?thesis by auto
      qed
    qed
  qed
  with assms(2) show ?thesis by simp
qed

subsection \<open>What the rounds add up to\<close>

definition matched_on :: "(order_match \<Rightarrow> uuid) \<Rightarrow> uuid \<Rightarrow> order_match list \<Rightarrow> decimal" where
  "matched_on key i ms = sum_list (map m_matched_amount (filter (\<lambda>m. key m = i) ms))"

lemma matched_on_snoc [simp]:
  "matched_on key i [] = 0"
  "matched_on key i (ms @ [m]) = matched_on key i ms + (if key m = i then m_matched_amount m else 0)"
  by (simp_all add: matched_on_def)

text \<open>One side of the book: what an order has traded and what it has left is what it started with.\<close>

definition fill_ok :: "(uuid \<Rightarrow> decimal) \<Rightarrow> (order_match \<Rightarrow> uuid) \<Rightarrow> order_book_entry list \<Rightarrow> order_match list \<Rightarrow> bool" where
  "fill_ok cap key xs ms \<longleftrightarrow> distinct (map b_order_id xs)
     \<and> (\<forall>x \<in> set xs. matched_on key (b_order_id x) ms + b_energy_amount x = cap (b_order_id x))
     \<and> (\<forall>i. matched_on key i ms = 0 \<or> matched_on key i ms \<le> cap i)"

definition shrink_at :: "nat \<Rightarrow> decimal \<Rightarrow> order_book_entry list \<Rightarrow> order_book_entry list" where
  "shrink_at k a xs = (if b_energy_amount (xs ! k) - a \<le> 0 then remove_at k xs else xs[k := take_energy a (xs ! k)])"

lemma shrink_at_split:
  assumes "k < length xs"
  shows "shrink_at k a xs = (if b_energy_amount (xs ! k) - a \<le> 0 then take k xs @ drop (Suc k) xs
     else take k xs @ take_energy a (xs ! k) # drop (Suc k) xs)"
  using assms by (simp add: shrink_at_def remove_at_def upd_conv_take_nth_drop)

lemma fill_ok_step:
  assumes "fill_ok cap key xs ms" and k: "k < length xs" and "key m = b_order_id (xs ! k)"
    and "m_matched_amount m \<le> b_energy_amount (xs ! k)"
  shows "fill_ok cap key (shrink_at k (m_matched_amount m) xs) (ms @ [m])"
proof -
  define ys zs x where "ys = take k xs" and "zs = drop (Suc k) xs" and "x = xs ! k"
  have xs: "xs = ys @ x # zs" using id_take_nth_drop [OF k] by (simp add: ys_def zs_def x_def)
  have sh: "shrink_at k (m_matched_amount m) xs = (if b_energy_amount x - m_matched_amount m \<le> 0 then ys @ zs
     else ys @ take_energy (m_matched_amount m) x # zs)"
    using shrink_at_split [OF k] by (simp add: ys_def zs_def x_def)
  have m: "key m = b_order_id x" "m_matched_amount m \<le> b_energy_amount x" using assms(3,4) by (simp_all add: x_def)
  from assms(1) have d: "distinct (map b_order_id (ys @ x # zs))"
    and cx: "matched_on key (b_order_id x) ms + b_energy_amount x = cap (b_order_id x)"
    and cy: "\<And>y. y \<in> set ys \<union> set zs \<Longrightarrow> matched_on key (b_order_id y) ms + b_energy_amount y = cap (b_order_id y)"
    and le: "\<And>i. matched_on key i ms = 0 \<or> matched_on key i ms \<le> cap i"
    unfolding fill_ok_def xs by auto
  have ne: "b_order_id y \<noteq> b_order_id x" if "y \<in> set ys \<union> set zs" for y
  proof
    assume "b_order_id y = b_order_id x"
    then have "b_order_id x \<in> b_order_id ` (set ys \<union> set zs)" using that by (metis imageI)
    then show False using d by auto
  qed
  have "matched_on key i (ms @ [m]) = 0 \<or> matched_on key i (ms @ [m]) \<le> cap i" for i
    using le [of i] cx m by (cases "i = b_order_id x") auto
  moreover have "matched_on key (b_order_id y) (ms @ [m]) + b_energy_amount y = cap (b_order_id y)"
    if "y \<in> set ys \<union> set zs" for y using cy [OF that] ne [OF that] m(1) by simp
  ultimately show ?thesis using d cx m(1) unfolding sh fill_ok_def by auto
qed

lemma matched_state_sides:
  assumes "good_match e ep st k m"
  shows "bs_buys (matched_state m k st) = shrink_at 0 (m_matched_amount m) (bs_buys st)"
    and "bs_sells (matched_state m k st) = shrink_at k (m_matched_amount m) (bs_sells st)"
    and "bs_matches (matched_state m k st) = bs_matches st @ [m]"
    and "bs_volume (matched_state m k st) = bs_volume st + m_matched_amount m"
    and "bs_count (matched_state m k st) = Suc (bs_count st)"
  using assms by (cases "bs_buys st"; simp add: good_match_def matched_state_def shrink_at_def remove_at_def Let_def)+

text \<open>A match as the order book started: which pair it is of, and at what price.\<close>

definition fair_match :: "env \<Rightarrow> order_book_entry list \<Rightarrow> order_book_entry list \<Rightarrow> order_match \<Rightarrow> bool" where
  "fair_match e buys sells m \<longleftrightarrow> 0 < m_matched_amount m \<and> (\<exists>b \<in> set buys. \<exists>s \<in> set sells.
     m_buy_order_id m = b_order_id b \<and> m_sell_order_id m = b_order_id s \<and> affordable e b s
     \<and> m_match_price m = ddiv e (b_price_per_kwh b + landed_cost e b s) 2)"

definition same_terms :: "order_book_entry \<Rightarrow> order_book_entry \<Rightarrow> bool" where
  "same_terms x y \<longleftrightarrow> b_order_id x = b_order_id y \<and> b_price_per_kwh x = b_price_per_kwh y \<and> b_zone_id x = b_zone_id y"

lemma landed_cost_terms: "same_terms b b' \<Longrightarrow> same_terms s s' \<Longrightarrow> landed_cost e b s = landed_cost e b' s'"
  by (simp add: landed_cost_def same_terms_def)

definition terms_from :: "order_book_entry list \<Rightarrow> order_book_entry list \<Rightarrow> bool" where
  "terms_from xs ys \<longleftrightarrow> (\<forall>x \<in> set xs. \<exists>y \<in> set ys. same_terms x y)"

lemma terms_from_shrink: "terms_from xs ys \<Longrightarrow> k < length xs \<Longrightarrow> terms_from (shrink_at k a xs) ys"
  unfolding terms_from_def
  by (auto simp: shrink_at_def same_terms_def dest!: set_update_subset_insert [THEN subsetD] set_remove_at [THEN subsetD]
      split: if_splits)

definition auction_inv :: "env \<Rightarrow> (uuid \<Rightarrow> decimal) \<Rightarrow> (uuid \<Rightarrow> decimal) \<Rightarrow> order_book_entry list \<Rightarrow> order_book_entry list \<Rightarrow> book_state \<Rightarrow> bool" where
  "auction_inv e bcap scap buys sells st \<longleftrightarrow>
     fill_ok bcap m_buy_order_id (bs_buys st) (bs_matches st) \<and> fill_ok scap m_sell_order_id (bs_sells st) (bs_matches st)
     \<and> terms_from (bs_buys st) buys \<and> terms_from (bs_sells st) sells
     \<and> list_all (fair_match e buys sells) (bs_matches st)
     \<and> bs_volume st = sum_list (map m_matched_amount (bs_matches st)) \<and> bs_count st = length (bs_matches st)"

lemma good_match_fair:
  assumes "good_match e ep st k m" and "terms_from (bs_buys st) buys" and "terms_from (bs_sells st) sells"
  shows "fair_match e buys sells m"
proof -
  have "hd (bs_buys st) \<in> set (bs_buys st)" "bs_sells st ! k \<in> set (bs_sells st)"
    using assms(1) by (auto simp: good_match_def hd_in_set)
  with assms(2,3) obtain b s where bs: "b \<in> set buys" "same_terms (hd (bs_buys st)) b" "s \<in> set sells"
    "same_terms (bs_sells st ! k) s" unfolding terms_from_def by blast
  have "m_buy_order_id m = b_order_id b \<and> m_sell_order_id m = b_order_id s \<and> affordable e b s
     \<and> m_match_price m = ddiv e (b_price_per_kwh b + landed_cost e b s) 2"
    using landed_cost_terms [OF bs(2,4), of e] bs(2,4) assms(1)
    by (simp add: good_match_def affordable_def same_terms_def)
  moreover have "0 < m_matched_amount m" using assms(1) unfolding good_match_def by blast
  ultimately show ?thesis using bs(1,3) unfolding fair_match_def by blast
qed

lemma auction_inv_step:
  assumes "auction_inv e bcap scap buys sells st" and "bs_buys st \<noteq> []" and "match_step e ep st w = (Ok st', w')"
  shows "auction_inv e bcap scap buys sells st'"
  using match_step_cases [OF assms(3,2)]
proof (elim disjE exE conjE)
  assume "st' = st\<lparr>bs_buys := tl (bs_buys st)\<rparr>"
  with assms(1,2) show ?thesis
    by (cases "bs_buys st") (auto simp: auction_inv_def fill_ok_def terms_from_def)
next
  fix k m assume g: "good_match e ep st k m" and st': "st' = matched_state m k st"
  have "0 < length (bs_buys st)" "k < length (bs_sells st)" using g by (auto simp: good_match_def)
  moreover have "fair_match e buys sells m" using good_match_fair [OF g] assms(1) by (simp add: auction_inv_def)
  moreover have "fill_ok bcap m_buy_order_id (shrink_at 0 (m_matched_amount m) (bs_buys st)) (bs_matches st @ [m])"
    using g assms(1) by (intro fill_ok_step) (auto simp: auction_inv_def good_match_def hd_conv_nth)
  moreover have "fill_ok scap m_sell_order_id (shrink_at k (m_matched_amount m) (bs_sells st)) (bs_matches st @ [m])"
    using g assms(1) by (intro fill_ok_step) (auto simp: auction_inv_def good_match_def)
  ultimately show ?thesis
    using assms(1) st' matched_state_sides [OF g] by (simp add: auction_inv_def terms_from_shrink)
qed (use assms(1) in simp)

definition amount_of :: "order_book_entry list \<Rightarrow> uuid \<Rightarrow> decimal" where
  "amount_of xs i = (case find_row b_order_id i xs of None \<Rightarrow> 0 | Some x \<Rightarrow> b_energy_amount x)"

lemma amount_of_entry: "distinct (map b_order_id xs) \<Longrightarrow> x \<in> set xs \<Longrightarrow> amount_of xs (b_order_id x) = b_energy_amount x"
  unfolding amount_of_def by (induction xs) (auto simp: image_iff)

lemma fill_ok_bound:
  assumes "fill_ok (amount_of xs0) key xs ms" and "distinct (map b_order_id xs0)" and "x \<in> set xs0"
    and "0 \<le> b_energy_amount x"
  shows "matched_on key (b_order_id x) ms \<le> b_energy_amount x"
proof -
  have "matched_on key (b_order_id x) ms = 0 \<or> matched_on key (b_order_id x) ms \<le> amount_of xs0 (b_order_id x)"
    using assms(1) by (simp add: fill_ok_def)
  then show ?thesis using amount_of_entry [OF assms(2,3)] assms(4) by auto
qed

lemma auction_inv_start:
  assumes "distinct (map b_order_id buys)" and "distinct (map b_order_id sells)"
  shows "auction_inv e (amount_of buys) (amount_of sells) buys sells
     \<lparr>bs_buys = buys, bs_sells = sells, bs_matches = [], bs_volume = 0, bs_count = 0\<rparr>"
  using assms by (auto simp: auction_inv_def fill_ok_def terms_from_def amount_of_entry same_terms_def)

subsection \<open>Properties\<close>

text \<open>C23. The clearing price of a book lies between the best ask and the best bid, which are the
  extremes of the two sides, and the volume does not exceed what either side offers at those
  prices.\<close>

theorem clearing_price_in_spread:
  assumes "decimal_rounding (rnd e)" and "calculate_clearing_price e buys sells = Some c"
    and "\<forall>o' \<in> set (buys @ sells). rnd e (b_price_per_kwh o') = b_price_per_kwh o'"
  shows "cp_best_ask c \<le> cp_price c \<and> cp_price c \<le> cp_best_bid c
    \<and> (\<forall>b \<in> set buys. b_price_per_kwh b \<le> cp_best_bid c) \<and> (\<forall>s \<in> set sells. cp_best_ask c \<le> b_price_per_kwh s)
    \<and> cp_volume c \<le> sum_list (map b_energy_amount (filter (\<lambda>b. cp_best_ask c \<le> b_price_per_kwh b) buys))
    \<and> cp_volume c \<le> sum_list (map b_energy_amount (filter (\<lambda>s. b_price_per_kwh s \<le> cp_best_bid c) sells))"
proof -
  from assms(2) obtain bid ask where b: "list_max (map b_price_per_kwh buys) = Some bid"
    and a: "list_min (map b_price_per_kwh sells) = Some ask" and le: "ask \<le> bid"
    and c: "cp_best_bid c = bid" "cp_best_ask c = ask" "cp_price c = ddiv e (bid + ask) 2"
      "cp_volume c = min (sum_list (map b_energy_amount (filter (\<lambda>x. b_price_per_kwh x \<ge> ask) buys)))
         (sum_list (map b_energy_amount (filter (\<lambda>x. b_price_per_kwh x \<le> bid) sells)))"
    by (auto simp: calculate_clearing_price_def Let_def bind_eq_Some_conv split: if_splits)
  have "rnd e bid = bid" "rnd e ask = ask"
    using list_max_props [OF b] list_min_props [OF a] assms(3) by auto
  then have "ask \<le> ddiv e (bid + ask) 2 \<and> ddiv e (bid + ask) 2 \<le> bid"
    using midpoint_between [OF assms(1)] le by auto
  then show ?thesis using list_max_props [OF b] list_min_props [OF a] c by auto
qed

definition entry :: "uuid \<Rightarrow> OrderSide \<Rightarrow> decimal \<Rightarrow> decimal \<Rightarrow> order_book_entry" where
  "entry i sd a p = \<lparr> b_order_id = i, b_user_id = 1, b_side = sd, b_energy_amount = a, b_original_amount = a,
     b_price_per_kwh = p, b_created_at = None, b_zone_id = None \<rparr>"

lemma entry_fields [simp]:
  "b_price_per_kwh (entry i sd a p) = p" "b_energy_amount (entry i sd a p) = a"
  "b_order_id (entry i sd a p) = i" "b_zone_id (entry i sd a p) = None"
  by (simp_all add: entry_def)

theorem clearing_price_in_spread_witness:
  "\<exists>c. calculate_clearing_price std_env [entry 1 Buy 10 5] [entry 2 Sell 4 3] = Some c
     \<and> 3 \<le> cp_price c \<and> cp_price c \<le> 5 \<and> cp_volume c \<le> 4"
proof -
  obtain c where c: "calculate_clearing_price std_env [entry 1 Buy 10 5] [entry 2 Sell 4 3] = Some c"
    and b: "cp_best_bid c = 5" "cp_best_ask c = 3"
    by (simp add: calculate_clearing_price_def Let_def)
  have "decimal_rounding (rnd std_env)" by (simp add: dp28.decimal_rounding_axioms)
  from clearing_price_in_spread [OF this c] b c show ?thesis by auto
qed

text \<open>The auction picks the best seller: the seller found for a buyer has the least landed cost
  of all sellers, that cost is within the bid, and the price of the match lies between the landed
  cost and the bid; when none is found no seller is affordable.\<close>

theorem best_seller_optimal:
  assumes "decimal_rounding (rnd e)" and "best_seller e b ss 0 (None, - 1, 0) = (r, mx, pr)"
    and "rnd e (b_price_per_kwh b) = b_price_per_kwh b" and "\<forall>s \<in> set ss. rnd e (landed_cost e b s) = landed_cost e b s"
  shows "case r of
      None \<Rightarrow> \<forall>s \<in> set ss. b_price_per_kwh b < landed_cost e b s
    | Some k \<Rightarrow> k < length ss \<and> (\<forall>s \<in> set ss. landed_cost e b (ss ! k) \<le> landed_cost e b s)
        \<and> landed_cost e b (ss ! k) \<le> pr \<and> pr \<le> b_price_per_kwh b"
proof (cases r)
  case None
  with best_seller_None [OF assms(2) [unfolded None]] show ?thesis by (auto simp: affordable_def not_le)
next
  case (Some k)
  note k = best_seller_Some [OF assms(2) [unfolded Some]]
  have "rnd e (landed_cost e b (ss ! k)) = landed_cost e b (ss ! k)" using assms(4) k(1) by simp
  with midpoint_between [OF assms(1) this assms(3)] k Some show ?thesis by (auto simp: affordable_def)
qed

lemma entry_landed: "landed_cost e (entry i sd a p) (entry i' sd' a' p') = p' + dmul e 0 p'"
  by (simp add: landed_cost_def estimate_zonal_costs_def)

theorem best_seller_optimal_witness:
  "case best_seller std_env (entry 1 Buy 10 5) [entry 2 Sell 4 4, entry 3 Sell 4 3] 0 (None, - 1, 0) of (r, mx, pr) \<Rightarrow>
     r = Some 1 \<and> 3 \<le> pr \<and> pr \<le> 5"
proof -
  let ?r = "best_seller std_env (entry 1 Buy 10 5) [entry 2 Sell 4 4, entry 3 Sell 4 3] 0 (None, - 1, 0)"
  obtain mx pr where r: "?r = (Some 1, mx, pr)"
    by (simp add: entry_landed dmul_def Let_def)
  have "decimal_rounding (rnd std_env)" by (simp add: dp28.decimal_rounding_axioms)
  from best_seller_optimal [OF this r] r show ?thesis
    by (simp add: entry_landed dmul_def)
qed

text \<open>C24. The auction ends: when every open order of the epoch has energy left,
  \<open>run_order_matching\<close> does not run forever.\<close>

theorem run_order_matching_ends:
  assumes "\<forall>r \<in> set (orders (db w)). in_book Buy ep r \<or> in_book Sell ep r \<longrightarrow> 0 < o_remaining r"
  shows "run_order_matching e ep w \<noteq> None"
proof -
  obtain r w1 where g: "get_order_book ep w = (r, w1)" by (cases "get_order_book ep w")
  show ?thesis
  proof (cases r)
    case (Ok bs)
    obtain buys sells where bs: "bs = (buys, sells)" by (cases bs)
    have "buys = map book_entry (buy_rows ep (db w))" "sells = map book_entry (sell_rows ep (db w))"
      using g Ok bs by (auto simp: get_order_book_def statement_Ok elim!: bnd_OkE)
    then have "book_positive \<lparr>bs_buys = buys, bs_sells = sells, bs_matches = [], bs_volume = 0, bs_count = 0\<rparr>"
      using assms by (auto simp: book_positive_def list_all_iff buy_rows_def sell_rows_def book_entry_def)
    from match_loop_ends [OF this, of e ep w1] show ?thesis
      using g Ok bs by (auto simp: run_order_matching_def split: outcome.splits)
  qed (simp_all add: run_order_matching_def g)
qed

theorem run_order_matching_ends_witness:
  "map o_remaining (orders book_db) = [10, 10] \<and> run_order_matching std_env 7 (calm_world book_db) \<noteq> None"
proof -
  have "\<forall>r \<in> set (orders book_db). in_book Buy 7 r \<or> in_book Sell 7 r \<longrightarrow> 0 < o_remaining r"
    by (simp add: book_db_def sample_order_def o_remaining_def)
  with run_order_matching_ends [of "calm_world book_db" 7 std_env] show ?thesis
    by (simp add: book_db_def sample_order_def o_remaining_def)
qed

text \<open>C4. The auction never overfills: when the matching loop ends on a book without repeated orders,
  no order traded more than the energy it brought, every match is of an affordable pair of that
  book at the midpoint of bid and landed cost, and the reported volume and count are those of the
  matches.\<close>

theorem auction_never_overfills:
  assumes "match_loop e ep \<lparr>bs_buys = buys, bs_sells = sells, bs_matches = [], bs_volume = 0, bs_count = 0\<rparr> w
      = Some (Ok st, w')"
    and "distinct (map b_order_id buys)" and "distinct (map b_order_id sells)"
    and "\<forall>x \<in> set (buys @ sells). 0 \<le> b_energy_amount x"
  shows "(\<forall>x \<in> set buys. matched_on m_buy_order_id (b_order_id x) (bs_matches st) \<le> b_energy_amount x)
    \<and> (\<forall>x \<in> set sells. matched_on m_sell_order_id (b_order_id x) (bs_matches st) \<le> b_energy_amount x)
    \<and> list_all (fair_match e buys sells) (bs_matches st)
    \<and> bs_volume st = sum_list (map m_matched_amount (bs_matches st)) \<and> bs_count st = length (bs_matches st)"
proof -
  have inv: "auction_inv e (amount_of buys) (amount_of sells) buys sells st"
    by (rule match_loop_invariant [OF assms(1)]) (auto intro: auction_inv_start [OF assms(2,3)] auction_inv_step)
  then have "matched_on m_buy_order_id (b_order_id x) (bs_matches st) \<le> b_energy_amount x" if "x \<in> set buys" for x
    using fill_ok_bound [OF _ assms(2) that] assms(4) that by (auto simp: auction_inv_def)
  moreover have "matched_on m_sell_order_id (b_order_id x) (bs_matches st) \<le> b_energy_amount x" if "x \<in> set sells" for x
    using inv fill_ok_bound [OF _ assms(3) that] assms(4) that by (auto simp: auction_inv_def)
  ultimately show ?thesis using inv by (simp add: auction_inv_def)
qed

definition auction_db :: db where
  "auction_db = empty_db\<lparr>users := [1 \<mapsto> sample_user 100 50 10],
     orders := [sample_order 1 1 Buy 10 5 0 Pending, sample_order 2 1 Sell 4 3 0 Pending],
     epochs := [settled_epoch]\<rparr>"

lemma sample_match:
  "\<exists>st w'. match_loop std_env 7 \<lparr>bs_buys = [entry 1 Buy 10 5], bs_sells = [entry 2 Sell 4 3], bs_matches = [],
        bs_volume = 0, bs_count = 0\<rparr> (calm_world auction_db) = Some (Ok st, w') \<and> bs_volume st = 4"
  by (subst match_loop.simps)
      (simp add: match_step_def entry_landed dmul_def Let_def io_simps save_order_match_def match_ok_def match_row_of_def
        order_match.defs auction_db_def settled_epoch_def order_exists_def sample_order_def record_fill_def
        update_order_filled_amount_def update_order_status_def add_match_def upd_order_def remove_at_def
        match_loop.simps)


theorem auction_never_overfills_witness:
  "\<exists>st w'. match_loop std_env 7 \<lparr>bs_buys = [entry 1 Buy 10 5], bs_sells = [entry 2 Sell 4 3], bs_matches = [],
        bs_volume = 0, bs_count = 0\<rparr> (calm_world auction_db) = Some (Ok st, w')
     \<and> bs_volume st = 4 \<and> matched_on m_sell_order_id 2 (bs_matches st) \<le> 4"
proof -
  from sample_match obtain st w' where r: "match_loop std_env 7 \<lparr>bs_buys = [entry 1 Buy 10 5], bs_sells = [entry 2 Sell 4 3],
      bs_matches = [], bs_volume = 0, bs_count = 0\<rparr> (calm_world auction_db) = Some (Ok st, w')" "bs_volume st = 4" by blast
  from auction_never_overfills [OF r(1)] r show ?thesis by auto
qed

text \<open>The auction can run forever: when the best buyer's best seller has no energy left (or the
  buyer has none), the loop repeats the same state and does not end.\<close>

theorem match_loop_diverges:
  assumes "bs_buys st = b # bs" and "best_seller e b (bs_sells st) 0 (None, - 1, 0) = (Some k, mx, pr)"
    and "min (b_energy_amount b) (b_energy_amount (bs_sells st ! k)) \<le> 0"
  shows "match_loop e ep st w = None"
proof (rule ccontr)
  assume "match_loop e ep st w \<noteq> None"
  then obtain r where r: "match_loop e ep st w = Some r" by auto
  have stay: "match_step e ep st w = (Ok st, w)" using assms by (simp add: match_step_def Let_def not_less [symmetric] del: min_less_iff_conj)
  have ne: "bs_buys st \<noteq> []" "bs_sells st \<noteq> []" using assms(1) best_seller_Some(1) [OF assms(2)] by auto
  let ?P = "\<lambda>e' ep' st' w' r. e' = e \<and> ep' = ep \<and> st' = st \<and> w' = w \<longrightarrow> False"
  have "?P e ep st w r"
    by (rule match_loop.raw_induct [where P = ?P, OF _ r]) (use stay ne in \<open>auto, blast\<close>)
  then show False by simp
qed

theorem match_loop_diverges_witness:
  "match_loop std_env 7 \<lparr>bs_buys = [entry 1 Buy 10 5], bs_sells = [entry 2 Sell 0 3], bs_matches = [], bs_volume = 0,
     bs_count = 0\<rparr> (calm_world empty_db) = None"
proof -
  obtain mx pr where "best_seller std_env (entry 1 Buy 10 5) [entry 2 Sell 0 3] 0 (None, - 1, 0) = (Some 0, mx, pr)"
    by (simp add: entry_landed dmul_def Let_def)
  then show ?thesis by (intro match_loop_diverges) auto
qed

text \<open>The auction's own settlements never happen: \<open>create_settlement\<close> of the market clearing
  service reads \<open>order_pda\<close> from rows that do not hold it, so it never returns a settlement, and
  when its orders and the seller are found it panics and takes \<open>run_order_matching\<close> with it.\<close>

theorem auction_settlement_panics:
  assumes "faults w = []" and "bs_matches st = m # ms"
    and "find_row o_id (m_buy_order_id m) (orders (db w)) = Some b"
    and "find_row o_id (m_sell_order_id m) (orders (db w)) = Some s"
    and "users (db w) (o_user_id s) = Some u"
  shows "fst (finish_matching e ep st w) = Panic \<and> (\<forall>w' x. fst (create_settlement_mc e m w') \<noteq> Ok x)"
proof
  have rel: "release_match e b' s' m' x y z w' = (Panic, w')" for b' s' m' x y z w'
    by (simp add: release_match_def row_get_def buy_columns_def bnd_app)
  have "fst (create_settlement_mc e m w') = Panic"
    if "faults w' = []" "orders (db w') = orders (db w)" "users (db w') = users (db w)" for w'
    using that assms(3-5)
    by (simp add: create_settlement_mc_def io_simps rel Let_def split: prod.split)
  then have p: "fst (ignore (create_settlement_mc e m) w') = Panic"
    if "faults w' = []" "orders (db w') = orders (db w)" "users (db w') = users (db w)" for w'
    using that by (intro panic_through(1))
  show "fst (finish_matching e ep st w) = Panic"
    using assms(1,2) unfolding finish_matching_def
    by (simp add: update_epoch_statistics_def exec_calm query_calm bnd_app sq_app [of "exec _"] sq_app [of "bnd _ _"]
        set_clearing_price_def p panic_through)
  show "\<forall>w' x. fst (create_settlement_mc e m w') \<noteq> Ok x"
    by (auto simp: create_settlement_mc_def bnd_app sq_app rel Let_def split: prod.splits outcome.splits)
qed

definition sample_state :: book_state where
  "sample_state = \<lparr>bs_buys = [], bs_sells = [], bs_matches = [\<lparr> m_id = 9, m_epoch_id = 7, m_buy_order_id = 1,
     m_sell_order_id = 2, m_matched_amount = 4, m_match_price = 4, m_match_time = 0, m_status = ''pending'' \<rparr>],
     bs_volume = 4, bs_count = 1\<rparr>"

theorem auction_settlement_panics_witness:
  "fst (finish_matching std_env 7 sample_state (calm_world auction_db)) = Panic"
  using auction_settlement_panics [of "calm_world auction_db" sample_state "hd (bs_matches sample_state)" "[]"
      "sample_order 1 1 Buy 10 5 0 Pending" "sample_order 2 1 Sell 4 3 0 Pending" "sample_user 100 50 10" std_env 7]
  by (simp add: sample_state_def auction_db_def sample_order_def)

end
