(* ===== verification/Settlement.thy ===== *)
theory Settlement
  imports Clearing
begin

text \<open>
  The settlement service (\<open>src/src/services/settlement/\<close>): creating a settlement from a trade,
  executing it on the blockchain and in the ledger, batches, the bridge and its relayer, and the
  retry of failed settlements.  Sleeping moves the clock.
\<close>

subsection \<open>Configuration, settlements and their status\<close>

record settlement_config =
  fee_rate :: decimal
  min_confirmation_blocks :: u64
  retry_attempts :: "32 word"
  retry_delay_secs :: u64
  real_blockchain :: bool

definition default_config :: settlement_config where
  "default_config = \<lparr> fee_rate = 1 / 100, min_confirmation_blocks = 32, retry_attempts = 3,
     retry_delay_secs = 5, real_blockchain = True \<rparr>"

record settlement =
  sv_id :: uuid
  sv_trade_id :: uuid
  sv_buyer_id :: uuid
  sv_seller_id :: uuid
  sv_buy_order_id :: uuid
  sv_sell_order_id :: uuid
  sv_energy_amount :: decimal
  sv_price :: decimal
  sv_total_value :: decimal
  sv_fee_amount :: decimal
  sv_net_amount :: decimal
  sv_status :: SettlementStatus
  sv_blockchain_tx :: "string option"
  sv_created_at :: time
  sv_confirmed_at :: "time option"
  sv_buyer_zone_id :: "i32 option"
  sv_seller_zone_id :: "i32 option"
  sv_wheeling_charge :: "decimal option"
  sv_loss_cost :: "decimal option"
  sv_loss_factor :: "decimal option"
  sv_effective_energy :: "decimal option"
  sv_buyer_session_token :: "string option"
  sv_seller_session_token :: "string option"

record settlement_transaction =
  stx_settlement_id :: uuid
  stx_signature :: string
  stx_slot :: u64
  stx_confirmation_status :: string

definition parse_status :: "string \<Rightarrow> SettlementStatus" where
  "parse_status text = (let s = to_lower text in
     if s = ''pending'' then StPending
     else if s = ''processing'' then StProcessing
     else if s = ''completed'' \<or> s = ''confirmed'' then StCompleted
     else if s = ''failed'' then StFailed
     else if s = ''pending_bridge'' then StPendingBridge
     else if s = ''bridging_initiated'' then StBridgingInitiated
     else StPending)"

definition status_ok :: "string \<Rightarrow> bool" where
  "status_ok s \<longleftrightarrow> s \<in> {''pending'', ''processing'', ''completed'', ''failed''}"

subsection \<open>Creating\<close>

definition settlement_status_for :: "uuid \<Rightarrow> SettlementStatus" where
  "settlement_status_for buyer_id =
     (if starts_with (uuid_str buyer_id) ''0000'' then StPendingBridge else StPending)"

definition settlement_row_of :: "settlement \<Rightarrow> uuid \<Rightarrow> settlement_row" where
  "settlement_row_of s epoch =
    \<lparr> s_id = sv_id s, s_epoch_id = epoch, s_buyer_id = sv_buyer_id s, s_seller_id = sv_seller_id s,
      s_buy_order_id = Some (sv_buy_order_id s), s_sell_order_id = Some (sv_sell_order_id s),
      s_energy_amount = sv_energy_amount s, s_price = sv_price s, s_total_value = sv_total_value s,
      s_fee_amount = sv_fee_amount s, s_net_amount = sv_net_amount s,
      s_status = settlement_status_fmt (sv_status s), s_transaction_hash = None,
      s_created_at = sv_created_at s, s_processed_at = None,
      s_buyer_zone_id = sv_buyer_zone_id s, s_seller_zone_id = sv_seller_zone_id s,
      s_wheeling_charge = sv_wheeling_charge s, s_loss_cost = sv_loss_cost s,
      s_loss_factor = sv_loss_factor s, s_effective_energy = sv_effective_energy s,
      s_buyer_session_token = sv_buyer_session_token s, s_seller_session_token = sv_seller_session_token s,
      s_retry_count = Some 0, s_updated_at = sv_created_at s \<rparr>"

definition create_settlement :: "env \<Rightarrow> settlement_config \<Rightarrow> trade_match \<Rightarrow> (world, settlement) io" where
  "create_settlement e cfg trade =
    (let total_value = tm_total_value trade;
         fee_amount = dmul e total_value (fee_rate cfg);
         wheeling_charge = tm_wheeling_charge trade;
         effective_energy = dmul e (tm_quantity trade) (1 - tm_loss_factor trade)
     in bnd (fresh_uuid e) (\<lambda>i. bnd get_clock (\<lambda>now.
        let s = \<lparr> sv_id = i, sv_trade_id = tm_id trade, sv_buyer_id = tm_buyer_id trade,
              sv_seller_id = tm_seller_id trade, sv_buy_order_id = tm_buy_order_id trade,
              sv_sell_order_id = tm_sell_order_id trade, sv_energy_amount = tm_quantity trade,
              sv_price = tm_price trade, sv_total_value = total_value, sv_fee_amount = fee_amount,
              sv_net_amount = total_value - fee_amount - wheeling_charge,
              sv_status = settlement_status_for (tm_buyer_id trade), sv_blockchain_tx = None,
              sv_created_at = now, sv_confirmed_at = None, sv_buyer_zone_id = tm_buyer_zone_id trade,
              sv_seller_zone_id = tm_seller_zone_id trade, sv_wheeling_charge = Some wheeling_charge,
              sv_loss_cost = Some (tm_loss_cost trade), sv_loss_factor = Some (tm_loss_factor trade),
              sv_effective_energy = Some effective_energy,
              sv_buyer_session_token = tm_buyer_session_token trade,
              sv_seller_session_token = tm_seller_session_token trade \<rparr>;
            row = settlement_row_of s (tm_epoch_id trade)
        in sq (exec_chk (settlement_fk row) (add_settlement row)) (ret s))))"

definition create_settlements_from_trades :: "env \<Rightarrow> settlement_config \<Rightarrow> trade_match list \<Rightarrow> (world, settlement list) io" where
  "create_settlements_from_trades e cfg trades = map_each trades (create_settlement e cfg)"

subsection \<open>Reading and updating\<close>

definition settlement_of :: "settlement_row \<Rightarrow> uuid \<Rightarrow> uuid \<Rightarrow> uuid \<Rightarrow> settlement" where
  "settlement_of row trade buy_order sell_order =
    \<lparr> sv_id = s_id row, sv_trade_id = trade, sv_buyer_id = s_buyer_id row, sv_seller_id = s_seller_id row,
        sv_buy_order_id = buy_order, sv_sell_order_id = sell_order,
        sv_energy_amount = s_energy_amount row, sv_price = s_price row,
        sv_total_value = s_total_value row, sv_fee_amount = s_fee_amount row,
        sv_net_amount = s_net_amount row, sv_status = parse_status (s_status row),
        sv_blockchain_tx = s_transaction_hash row, sv_created_at = s_created_at row,
        sv_confirmed_at = s_processed_at row, sv_buyer_zone_id = s_buyer_zone_id row,
        sv_seller_zone_id = s_seller_zone_id row, sv_wheeling_charge = s_wheeling_charge row,
        sv_loss_cost = s_loss_cost row, sv_loss_factor = s_loss_factor row,
        sv_effective_energy = s_effective_energy row, sv_buyer_session_token = s_buyer_session_token row,
        sv_seller_session_token = s_seller_session_token row \<rparr>"

definition get_settlement :: "env \<Rightarrow> uuid \<Rightarrow> (world, settlement) io" where
  "get_settlement e i =
    bnd (query (\<lambda>d. find_row s_id i (settlements d))) (\<lambda>found.
    bnd (ok_or found (NotFound ''Settlement not found'')) (\<lambda>row.
    bnd (fresh_uuid e) (\<lambda>trade.
    bnd (unwrap (s_buy_order_id row)) (\<lambda>buy_order.
    bnd (unwrap (s_sell_order_id row)) (\<lambda>sell_order.
    ret (settlement_of row trade buy_order sell_order))))))"

definition get_pending_settlements :: "(world, uuid list) io" where
  "get_pending_settlements = query (\<lambda>d. map s_id (take 100 (sort_key s_created_at
     (filter (\<lambda>r. s_status r = ''pending'') (settlements d)))))"

definition upd_settlement :: "uuid \<Rightarrow> (settlement_row \<Rightarrow> settlement_row) \<Rightarrow> db \<Rightarrow> db" where
  "upd_settlement i f d = d\<lparr>settlements := update_where (\<lambda>r. s_id r = i) f (settlements d)\<rparr>"

text \<open>The check constraint is evaluated on the rows that the statement rewrites.\<close>

definition touches :: "uuid \<Rightarrow> db \<Rightarrow> bool" where
  "touches i d = list_ex (\<lambda>r. s_id r = i) (settlements d)"

definition update_settlement_status :: "uuid \<Rightarrow> SettlementStatus \<Rightarrow> (world, unit) io" where
  "update_settlement_status i status = bnd get_clock (\<lambda>now.
     exec_chk (\<lambda>d. touches i d \<longrightarrow> status_ok (settlement_status_fmt status))
       (upd_settlement i (\<lambda>r. r\<lparr>s_status := settlement_status_fmt status, s_updated_at := now\<rparr>)))"

definition update_settlement_confirmed :: "uuid \<Rightarrow> string \<Rightarrow> SettlementStatus \<Rightarrow> (world, unit) io" where
  "update_settlement_confirmed i tx_signature status = bnd get_clock (\<lambda>now.
     exec_chk (\<lambda>d. touches i d \<longrightarrow> status_ok (settlement_status_fmt status))
       (upd_settlement i (\<lambda>r. r\<lparr>s_status := settlement_status_fmt status,
          s_transaction_hash := Some tx_signature, s_processed_at := Some now, s_updated_at := now\<rparr>)))"

definition update_bridge_completed :: "uuid \<Rightarrow> string \<Rightarrow> (world, unit) io" where
  "update_bridge_completed i tx_signature = update_settlement_confirmed i tx_signature StCompleted"

text \<open>The columns of \<open>settlements\<close>: there is no \<open>error_message\<close>.\<close>

definition settlement_columns :: "string list" where
  "settlement_columns = [''id'', ''epoch_id'', ''buyer_id'', ''seller_id'', ''energy_amount'', ''price_per_kwh'',
     ''total_amount'', ''fee_amount'', ''net_amount'', ''status'', ''transaction_hash'', ''processed_at'',
     ''created_at'', ''updated_at'', ''retry_count'', ''blockchain_tx_signature'', ''blockchain_tx_type'',
     ''blockchain_status'', ''blockchain_attempts'', ''blockchain_last_error'', ''blockchain_submitted_at'',
     ''blockchain_confirmed_at'', ''buy_order_id'', ''sell_order_id'', ''wheeling_charge'', ''loss_factor'',
     ''loss_cost'', ''effective_energy'', ''buyer_zone_id'', ''seller_zone_id'', ''seller_session_token'',
     ''buyer_session_token'']"

definition mark_settlement_permanent_failure :: "uuid \<Rightarrow> string \<Rightarrow> (world, unit) io" where
  "mark_settlement_permanent_failure i error_message = bnd get_clock (\<lambda>now.
     with_columns settlement_columns [''status'', ''error_message'', ''updated_at'']
       (exec_chk (\<lambda>d. touches i d \<longrightarrow> status_ok ''permanently_failed'')
          (upd_settlement i (\<lambda>r. r\<lparr>s_status := ''permanently_failed'', s_updated_at := now\<rparr>))))"

definition increment_retry_count :: "uuid \<Rightarrow> (world, unit) io" where
  "increment_retry_count i = bnd get_clock (\<lambda>now.
     exec (upd_settlement i (\<lambda>r. r\<lparr>s_retry_count := map_option Suc (s_retry_count r), s_updated_at := now\<rparr>)))"

record settlement_stats =
  pending_count :: nat
  processing_count :: nat
  confirmed_count :: nat
  failed_count :: nat
  total_settled_value :: decimal

definition get_settlement_stats :: "(world, settlement_stats) io" where
  "get_settlement_stats = bnd get_clock (\<lambda>now. query (\<lambda>d.
     let recent = filter (\<lambda>r. s_created_at r > now - 86400000000000) (settlements d);
         count = (\<lambda>st. length (filter (\<lambda>r. s_status r = st) recent))
     in \<lparr> pending_count = count ''pending'', processing_count = count ''processing'',
          confirmed_count = count ''completed'', failed_count = count ''failed'',
          total_settled_value = sum_list (map s_total_value (filter (\<lambda>r. s_status r = ''completed'') recent)) \<rparr>))"

subsection \<open>Wallets and keys\<close>

definition get_user_wallet :: "uuid \<Rightarrow> (world, string) io" where
  "get_user_wallet user_id =
    bnd (fetch_one (\<lambda>d. users d user_id)) (\<lambda>row.
    ok_or (wallet_address row) (Internal ''User has no wallet connected''))"

text \<open>
  The session query names columns that \<open>wallet_sessions\<close> does not have; the fields a session would
  be read from are the columns the migration did create.
\<close>

definition wallet_session_columns :: "string list" where
  "wallet_session_columns = [''id'', ''user_id'', ''session_token'', ''device_fingerprint'', ''device_name'',
     ''ip_address'', ''user_agent'', ''cached_key_encrypted'', ''key_salt'', ''key_iv'', ''created_at'', ''expires_at'',
     ''last_used_at'', ''is_active'', ''revoked_at'', ''revoked_reason'']"

definition session_keypair :: "env \<Rightarrow> uuid \<Rightarrow> string \<Rightarrow> (world, string option) io" where
  "session_keypair e user_id token = bnd get_clock (\<lambda>now.
    bnd (with_columns wallet_session_columns
          [''encrypted_private_key'', ''encryption_salt'', ''encryption_iv'', ''session_token'', ''user_id'',
           ''revoked_at'', ''expires_at'']
          (query (\<lambda>d. find (\<lambda>s. ws_session_token s = token \<and> ws_user_id s = user_id
             \<and> ws_revoked_at s = None \<and> ws_expires_at s > now) (wallet_sessions d)))) (\<lambda>session.
    case session of
      None \<Rightarrow> ret None
    | Some s \<Rightarrow>
        bnd (ok_or (decrypt_private_key e (encryption_secret e) (ws_cached_key_encrypted s) (ws_key_salt s) (ws_key_iv s))
               (Internal ''Failed to decrypt session key'')) (\<lambda>bytes.
        bnd (ok_or (keypair_pubkey e bytes) (Internal ''Invalid session key'')) (\<lambda>k. ret (Some k)))))"

definition wallet_keypair :: "env \<Rightarrow> user_row \<Rightarrow> (world, string) io" where
  "wallet_keypair e row =
    bnd (ok_or (encrypted_private_key row) (Internal ''User has no private key stored'')) (\<lambda>encrypted_pk.
    case (wallet_salt row, encryption_iv row) of
      (Some salt, Some iv) \<Rightarrow>
        bnd (ok_or (decrypt_private_key e (encryption_secret e) encrypted_pk salt iv)
               (Internal ''Failed to decrypt wallet'')) (\<lambda>decrypted.
        if length decrypted = 64 then ok_or (keypair_pubkey e decrypted) (Internal ''Invalid 64-byte keypair'')
        else if length decrypted = 32 then ret (seed_pubkey e decrypted)
        else fail (Internal ''Invalid key length''))
    | _ \<Rightarrow>
        let decoded = unwrap_or (base64_decode e encrypted_pk) encrypted_pk in
        if length decoded = 64 \<or> length decoded = 32 then ret (seed_pubkey e (take 32 decoded))
        else fail (Internal ''Invalid key length''))"

definition get_user_keypair :: "env \<Rightarrow> uuid \<Rightarrow> string option \<Rightarrow> (world, string) io" where
  "get_user_keypair e user_id session_token =
    bnd (case session_token of None \<Rightarrow> ret None | Some token \<Rightarrow> session_keypair e user_id token) (\<lambda>cached.
    case cached of
      Some k \<Rightarrow> ret k
    | None \<Rightarrow> bnd (fetch_one (\<lambda>d. users d user_id)) (wallet_keypair e))"

subsection \<open>The blockchain transfer\<close>

text \<open>\<open>x.trunc().to_string().parse::<u64>().unwrap_or(0)\<close>.\<close>

definition trunc_u64 :: "decimal \<Rightarrow> u64" where
  "trunc_u64 x = (if 0 \<le> x \<and> x < 2 ^ 64 then of_int \<lfloor>x\<rfloor> else 0)"

definition atomic_units :: "env \<Rightarrow> decimal \<Rightarrow> u64" where
  "atomic_units e x = trunc_u64 (dmul e x 1000000000)"

definition internal :: "string \<Rightarrow> (world, 'a) io \<Rightarrow> (world, 'a) io" where
  "internal msg m = map_err (\<lambda>er. Internal (msg @ api_display er)) m"

definition parse_pubkey_internal :: "env \<Rightarrow> string \<Rightarrow> string \<Rightarrow> (world, string) io" where
  "parse_pubkey_internal e s msg = ok_or (parse_pubkey e s) (Internal msg)"

text \<open>The tokens that stand for the energy lost on the way go to a sink; every failure is dropped.\<close>

definition sink_loss :: "env \<Rightarrow> settlement \<Rightarrow> decimal \<Rightarrow> string \<Rightarrow> string \<Rightarrow> string \<Rightarrow> string \<Rightarrow> (world, unit) io" where
  "sink_loss e s effective_energy authority seller_key seller_account mint =
    (let loss_energy = sv_energy_amount s - effective_energy; loss_atomic = atomic_units e loss_energy
     in if loss_energy > 0 \<and> loss_atomic > 0 then
          (case parse_pubkey e (unwrap_or (env_var e ''GRID_LOSS_SINK_WALLET'')
                  ''LoSsSiNk1111111111111111111111111111111111'') of
             None \<Rightarrow> ret ()
           | Some sink \<Rightarrow>
               bnd (attempt (call_str e (EnsureTokenAccount authority sink mint))) (\<lambda>res. case res of
                 Inl _ \<Rightarrow> ret ()
               | Inr sink_account \<Rightarrow>
                   ignore (call_str e (TransferTokens seller_key seller_account sink_account mint loss_atomic 9))))
        else ret ())"

definition execute_blockchain_transfer :: "env \<Rightarrow> settlement_config \<Rightarrow> settlement \<Rightarrow> (world, settlement_transaction) io" where
  "execute_blockchain_transfer e cfg s =
    (if \<not> real_blockchain cfg then
       bnd (fresh_uuid e) (\<lambda>u. ret \<lparr> stx_settlement_id = sv_id s,
          stx_signature = ''mock_settlement_sig_'' @ uuid_str u, stx_slot = 12345678,
          stx_confirmation_status = ''confirmed'' \<rparr>)
     else
      bnd (get_user_wallet (sv_buyer_id s)) (\<lambda>buyer_wallet.
      bnd (get_user_wallet (sv_seller_id s)) (\<lambda>seller_wallet.
      bnd (parse_pubkey_internal e buyer_wallet ''Invalid buyer wallet'') (\<lambda>buyer_pubkey.
      bnd (parse_pubkey_internal e seller_wallet ''Invalid seller wallet'') (\<lambda>_.
      bnd (ok_or (env_var e ''ENERGY_TOKEN_MINT'') (Internal ''ENERGY_TOKEN_MINT not set'')) (\<lambda>mint_str.
      bnd (parse_pubkey_internal e mint_str ''Invalid mint config'') (\<lambda>mint.
      bnd (internal ''Failed to get authority: '' (call_str e GetAuthority)) (\<lambda>authority.
      bnd (get_user_keypair e (sv_seller_id s) (sv_seller_session_token s)) (\<lambda>seller_key.
      if seller_key \<noteq> seller_wallet then fail (Internal ''Wallet identity mismatch'')
      else
        bnd (internal ''Failed to create buyer token account: ''
               (call_str e (EnsureTokenAccount authority buyer_pubkey mint))) (\<lambda>buyer_account.
        bnd (internal ''Failed to create seller token account: ''
               (call_str e (EnsureTokenAccount authority seller_key mint))) (\<lambda>seller_account.
        let effective_energy = unwrap_or (sv_effective_energy s) (sv_energy_amount s) in
        bnd (internal ''Token transfer failed: ''
               (call_str e (TransferTokens seller_key seller_account buyer_account mint
                 (atomic_units e effective_energy) 9))) (\<lambda>signature.
        sq (sink_loss e s effective_energy authority seller_key seller_account mint)
        (bnd (internal ''Failed to get slot: '' (call_u64 e GetSlot)) (\<lambda>slot.
         ret \<lparr> stx_settlement_id = sv_id s, stx_signature = signature, stx_slot = slot,
               stx_confirmation_status = ''confirmed'' \<rparr>))))))))))))))"

definition market_address :: "env \<Rightarrow> string" where
  "market_address e = unwrap_or (env_var e ''TRADING_MARKET_ADDRESS'') ''Fmk6vb74MjZpXVE9kAS5q4U5L8hr2AEJcDikfRSFTiyY''"

definition execute_bridge_initiation :: "env \<Rightarrow> settlement \<Rightarrow> (world, string) io" where
  "execute_bridge_initiation e s =
    bnd (internal ''Failed to get authority: '' (call_str e GetAuthority)) (\<lambda>authority.
    bnd (parse_pubkey_internal e (market_address e) ''Invalid market address'') (\<lambda>market.
    bnd (unwrap (parse_pubkey e ''Fmk6vb74MjZpXVE9kAS5q4U5L8hr2AEJcDikfRSFTiyY'')) (\<lambda>sell_order.
    internal ''Bridge initiation failed: ''
      (call_str e (InitiateBridge authority market sell_order (atomic_units e (sv_energy_amount s)) 1)))))"

subsection \<open>The ledger\<close>

definition add_revenue :: "uuid \<Rightarrow> decimal \<Rightarrow> string \<Rightarrow> (world, unit) io" where
  "add_revenue i amount ty = exec_chk (touches i)
     (\<lambda>d. d\<lparr>platform_revenue := platform_revenue d @ [\<lparr> r_settlement_id = i, r_amount = amount, r_revenue_type = ty \<rparr>]\<rparr>)"

definition add_locked :: "decimal \<Rightarrow> user_row \<Rightarrow> user_row" where
  "add_locked a r = r\<lparr>locked_amount := sql_add (locked_amount r) a\<rparr>"

definition add_balance :: "decimal \<Rightarrow> user_row \<Rightarrow> user_row" where
  "add_balance a r = r\<lparr>balance := sql_add (balance r) a\<rparr>"

definition revenue_if_positive :: "uuid \<Rightarrow> decimal option \<Rightarrow> string \<Rightarrow> (world, unit) io" where
  "revenue_if_positive i amount ty = (case amount of
      None \<Rightarrow> ret ()
    | Some a \<Rightarrow> if a > 0 then add_revenue i a ty else ret ())"

definition finalize_escrow :: "env \<Rightarrow> settlement \<Rightarrow> (world, unit) io" where
  "finalize_escrow e s = transaction (
     sq (exec (upd_user (sv_seller_id s) (add_locked_energy (- sv_energy_amount s))))
    (sq (exec (upd_user (sv_buyer_id s) (add_locked (- dmul e (sv_energy_amount s) (sv_price s)))))
    (sq (exec (upd_user (sv_seller_id s) (add_balance (sv_net_amount s))))
    (sq (revenue_if_positive (sv_id s) (Some (sv_fee_amount s)) ''platform_fee'')
    (sq (revenue_if_positive (sv_id s) (sv_wheeling_charge s) ''wheeling_charge'')
    (sq (revenue_if_positive (sv_id s) (sv_loss_cost s) ''loss_cost'')
        (exec (release_escrow (\<lambda>r. (e_order_id r = Some (sv_buy_order_id s) \<or> e_order_id r = Some (sv_sell_order_id s))
           \<and> e_status r = ''locked'') (\<lambda>r. r)))))))))"

subsection \<open>After the transfer\<close>

definition send_settlement_notifications :: "settlement \<Rightarrow> (world, unit) io" where
  "send_settlement_notifications s =
    sq (ignore (query (\<lambda>d. users d (sv_buyer_id s)))) (ignore (query (\<lambda>d. users d (sv_seller_id s))))"

definition get_meter_renewable_source :: "uuid \<Rightarrow> (world, string) io" where
  "get_meter_renewable_source order_id =
    bnd (query (\<lambda>d. Option.bind (find_row o_id order_id (orders d)) (\<lambda>r. find_row mt_user_id (o_user_id r) (meters d))))
      (\<lambda>m. case m of
         None \<Rightarrow> ret ''Solar''
       | Some row \<Rightarrow> ok_or (mt_meter_type row) (Database ''unexpected null''))"

definition issue_rec_for_settlement :: "env \<Rightarrow> settlement \<Rightarrow> (world, unit) io" where
  "issue_rec_for_settlement e s =
    bnd (get_user_wallet (sv_seller_id s)) (\<lambda>seller_wallet.
    bnd (attempt (get_meter_renewable_source (sv_sell_order_id s))) (\<lambda>res.
    bnd (internal ''REC issuance failed: '' (issue_certificate e (sv_seller_id s) seller_wallet
          \<lparr> rq_wallet_address = seller_wallet, rq_kwh_amount = sv_energy_amount s, rq_expiry_date = None,
            rq_renewable_source = Some (case res of Inr src \<Rightarrow> src | Inl _ \<Rightarrow> ''Solar''),
            rq_validation_data = Some (''Settlement:'' @ uuid_str (sv_id s)) \<rparr> (Some (sv_id s))))
        (\<lambda>_. ret ())))"

definition settle_and_record :: "env \<Rightarrow> settlement_config \<Rightarrow> uuid \<Rightarrow> settlement \<Rightarrow> (world, settlement_transaction) io" where
  "settle_and_record e cfg settlement_id s =
    bnd (attempt (execute_blockchain_transfer e cfg s)) (\<lambda>res. case res of
      Inr tx_result \<Rightarrow>
        sq (update_settlement_confirmed settlement_id (stx_signature tx_result) StCompleted)
       (sq (ignore (finalize_escrow e s))
       (sq (send_settlement_notifications s)
       (sq (ignore (issue_rec_for_settlement e s))
           (ret tx_result))))
    | Inl er \<Rightarrow>
        sq (update_settlement_status settlement_id StFailed)
           (fail (Internal (''Settlement execution failed: '' @ api_display er))))"

definition execute_settlement :: "env \<Rightarrow> settlement_config \<Rightarrow> uuid \<Rightarrow> (world, settlement_transaction) io" where
  "execute_settlement e cfg settlement_id =
    sq (update_settlement_status settlement_id StProcessing)
    (bnd (get_settlement e settlement_id) (\<lambda>s.
     if sv_status s = StPendingBridge then
       bnd (attempt (execute_bridge_initiation e s)) (\<lambda>res. case res of
         Inr sig \<Rightarrow>
           sq (update_settlement_confirmed settlement_id sig StBridgingInitiated)
              (ret \<lparr> stx_settlement_id = settlement_id, stx_signature = sig, stx_slot = 0,
                     stx_confirmation_status = ''bridging_initiated'' \<rparr>)
       | Inl er \<Rightarrow> sq (update_settlement_status settlement_id StFailed) (fail er))
     else settle_and_record e cfg settlement_id s))"

subsection \<open>Batches, the relayer and retries\<close>

definition batch_accounts :: "env \<Rightarrow> settlement \<Rightarrow> (world, string list) io" where
  "batch_accounts e s =
    bnd (get_user_wallet (sv_buyer_id s)) (\<lambda>buyer_wallet.
    bnd (get_user_wallet (sv_seller_id s)) (\<lambda>seller_wallet.
    bnd (unwrap (parse_pubkey e buyer_wallet)) (\<lambda>buyer_currency.
    bnd (unwrap (parse_pubkey e seller_wallet)) (\<lambda>seller_energy.
    bnd (unwrap (parse_pubkey e seller_wallet)) (\<lambda>seller_currency.
    bnd (unwrap (parse_pubkey e buyer_wallet)) (\<lambda>buyer_energy.
    bnd (unwrap (parse_pubkey e ''GTuRUUwCfvmqW7knqQtzQLMCy61p4UKUrdT5ssVgZbat'')) (\<lambda>fee_collector.
    bnd (unwrap (parse_pubkey e ''GTuRUUwCfvmqW7knqQtzQLMCy61p4UKUrdT5ssVgZbat'')) (\<lambda>wheeling_collector.
    ret [buyer_currency, seller_energy, seller_currency, buyer_energy, fee_collector, wheeling_collector]))))))))"

definition execute_batch_settlement :: "env \<Rightarrow> uuid list \<Rightarrow> (world, string) io" where
  "execute_batch_settlement e settlement_ids =
    bnd (map_each settlement_ids (get_settlement e)) (\<lambda>ss.
    bnd (map_each ss (batch_accounts e)) (\<lambda>accounts.
    bnd (internal ''Failed to get authority: '' (call_str e GetAuthority)) (\<lambda>authority.
    bnd (parse_pubkey_internal e (market_address e) ''Invalid market address'') (\<lambda>market.
    bnd (internal ''Batch settlement failed: '' (call_str e (BatchSettlement authority market
          (map (\<lambda>s. atomic_units e (sv_energy_amount s)) ss) (map (\<lambda>s. atomic_units e (sv_price s)) ss)
          (map (\<lambda>s. atomic_units e (unwrap_or (sv_wheeling_charge s) 0)) ss) (concat accounts)))) (\<lambda>signature.
    sq (for_each ss (\<lambda>s. sq (update_settlement_confirmed (sv_id s) signature StCompleted)
                              (ignore (finalize_escrow e s))))
       (ret signature))))))"

definition relay_one :: "env \<Rightarrow> settlement_row \<Rightarrow> (world, unit) io" where
  "relay_one e bridge =
    bnd (call_str e GetAuthority) (\<lambda>authority.
    bnd (attempt (call_str e (CompleteBridge authority))) (\<lambda>res. case res of
      Inr sig \<Rightarrow> update_bridge_completed (s_id bridge) sig
    | Inl _ \<Rightarrow> ret ()))"

definition process_relayer_queue :: "env \<Rightarrow> (world, unit) io" where
  "process_relayer_queue e =
    bnd (query (\<lambda>d. filter (\<lambda>r. s_status r = ''BridgingInitiated'') (settlements d))) (\<lambda>pending_bridges.
    for_each pending_bridges (relay_one e))"

definition retryable_patterns :: "string list" where
  "retryable_patterns = [''timeout'', ''connection refused'', ''network'', ''rate limit'', ''429'', ''503'',
     ''temporary'', ''try again'', ''blockhash'', ''not found'']"

definition non_retryable_patterns :: "string list" where
  "non_retryable_patterns = [''insufficient'', ''invalid signature'', ''invalid account'', ''unauthorized'',
     ''forbidden'', ''already processed'', ''account not found'', ''program failed'']"

definition is_retryable_error :: "string \<Rightarrow> bool" where
  "is_retryable_error err =
    (let error_lower = to_lower err in
     if list_ex (contains error_lower) non_retryable_patterns then False
     else if list_ex (contains error_lower) retryable_patterns then True
     else True)"

text \<open>\<open>base * 2^retry_count\<close> in \<open>u64\<close>, capped at five minutes.\<close>

definition backoff_delay :: "u64 \<Rightarrow> nat \<Rightarrow> u64" where
  "backoff_delay base_delay_secs retry_count = min (base_delay_secs * 2 ^ retry_count) 300"

definition failed_rows :: "32 word \<Rightarrow> db \<Rightarrow> settlement_row list" where
  "failed_rows max_retries d = sort_key (\<lambda>r. unwrap_or (s_retry_count r) 0) (sort_key s_updated_at
     (filter (\<lambda>r. s_status r = ''failed'' \<and> (case s_retry_count r of None \<Rightarrow> False
        | Some n \<Rightarrow> int n < sint max_retries)) (settlements d)))"

definition retry_one :: "env \<Rightarrow> settlement_config \<Rightarrow> settlement_row \<Rightarrow> (world, nat) io" where
  "retry_one e cfg row =
    sq (sleep (backoff_delay (retry_delay_secs cfg) (unwrap_or (s_retry_count row) 0)))
    (bnd (attempt (execute_settlement e cfg (s_id row))) (\<lambda>res. case res of
       Inr _ \<Rightarrow> ret 1
     | Inl er \<Rightarrow>
         let error_str = api_display er in
         if is_retryable_error error_str then sq (increment_retry_count (s_id row)) (ret 0)
         else sq (mark_settlement_permanent_failure (s_id row) error_str) (ret 0)))"

definition retry_failed_settlements :: "env \<Rightarrow> settlement_config \<Rightarrow> 32 word \<Rightarrow> (world, nat) io" where
  "retry_failed_settlements e cfg max_retries =
    bnd (query (failed_rows max_retries)) (\<lambda>failed.
    bnd (map_each failed (retry_one e cfg)) (\<lambda>counts. ret (sum_list counts)))"

subsection \<open>Status text\<close>

text \<open>An enum stored as text: what is printed is read back.\<close>

locale text_codec =
  fixes show_enum :: "'a \<Rightarrow> string" and read_enum :: "string \<Rightarrow> 'a"
  assumes read_show: "read_enum (show_enum x) = x"
begin

lemma show_inj: "show_enum x = show_enum y \<longleftrightarrow> x = y"
  using read_show by metis

lemma show_read_stable: "read_enum (show_enum (read_enum s)) = read_enum s"
  by (rule read_show)

end

lemma parse_status_values:
  "parse_status ''pending'' = StPending" "parse_status ''processing'' = StProcessing"
  "parse_status ''completed'' = StCompleted" "parse_status ''failed'' = StFailed"
  "parse_status ''pending_bridge'' = StPendingBridge"
  "parse_status ''bridging_initiated'' = StBridgingInitiated"
  by code_simp+

interpretation status_text: text_codec settlement_status_fmt parse_status
proof
  show "parse_status (settlement_status_fmt x) = x" for x
    by (cases x) (simp_all add: parse_status_values)
qed

subsection \<open>The table of settlements\<close>

definition settlements_ok :: "db \<Rightarrow> bool" where
  "settlements_ok d \<longleftrightarrow> distinct (map s_id (settlements d)) \<and> list_all (\<lambda>r. status_ok (s_status r)) (settlements d)"

lemma settlements_ok_frame [simp]:
  "settlements_ok (upd_user u f d) = settlements_ok d" "settlements_ok (release_escrow p g d) = settlements_ok d"
  "settlements_ok (d\<lparr>platform_revenue := rs\<rparr>) = settlements_ok d"
  "settlements_ok (d\<lparr>erc_certificates := cs\<rparr>) = settlements_ok d"
  by (simp_all add: settlements_ok_def)

lemma status_all_update:
  assumes "list_all (\<lambda>r. status_ok (s_status r)) rs" and "\<And>r. r \<in> set rs \<Longrightarrow> p r \<Longrightarrow> status_ok (s_status (f r))"
  shows "list_all (\<lambda>r. status_ok (s_status r)) (update_where p f rs)"
  using assms by (induction rs) auto

lemma settlements_ok_upd:
  assumes "settlements_ok d" and "\<And>r. s_id (f r) = s_id r"
    and "\<And>r. r \<in> set (settlements d) \<Longrightarrow> s_id r = i \<Longrightarrow> status_ok (s_status r) \<Longrightarrow> status_ok (s_status (f r))"
  shows "settlements_ok (upd_settlement i f d)"
proof -
  have "map s_id (update_where (\<lambda>r. s_id r = i) f rs) = map s_id rs" for rs
    by (rule map_update_where_same) (simp add: assms(2))
  moreover have "list_all (\<lambda>r. status_ok (s_status r)) (update_where (\<lambda>r. s_id r = i) f (settlements d))"
    using assms(1,3) by (intro status_all_update) (auto simp: settlements_ok_def list_all_iff)
  ultimately show ?thesis using assms(1) by (simp add: settlements_ok_def upd_settlement_def)
qed

lemma touches_iff: "touches i d \<longleftrightarrow> (\<exists>r \<in> set (settlements d). s_id r = i)"
  by (auto simp: touches_def list_ex_iff)

lemma settlements_ok_add:
  "settlements_ok d \<Longrightarrow> settlement_fk r d \<Longrightarrow> settlements_ok (add_settlement r d)"
  by (auto simp: settlements_ok_def settlement_fk_def add_settlement_def status_ok_def list_all_iff)

lemma update_settlement_keeps [keeps_db_intros]:
  "keeps_db settlements_ok (update_settlement_status i st)"
  "keeps_db settlements_ok (update_settlement_confirmed i sig st)"
  "keeps_db settlements_ok (increment_retry_count i)"
  "keeps_db settlements_ok (mark_settlement_permanent_failure i msg)"
  unfolding update_settlement_status_def update_settlement_confirmed_def increment_retry_count_def
    mark_settlement_permanent_failure_def
  by (intro keeps_db_intros settlements_ok_upd; simp add: touches_iff; blast)+

text \<open>What reads only, and what the ledger and the certificates change.\<close>

lemma internal_keeps [keeps_db_intros]: "keeps_db I m \<Longrightarrow> keeps_db I (internal msg m)"
  unfolding internal_def by (intro keeps_db_intros)

lemma keeps_db_pair [keeps_db_intros]:
  "(\<And>a b. x = (Some a, Some b) \<Longrightarrow> keeps_db I (k a b)) \<Longrightarrow> keeps_db I m \<Longrightarrow>
   keeps_db I (case x of (Some a, Some b) \<Rightarrow> k a b | _ \<Rightarrow> m)"
  by (cases x) (auto split: option.split)

lemma settlement_reads_keep [keeps_db_intros]:
  "keeps_db I (get_settlement e i)" "keeps_db I (get_user_wallet u)" "keeps_db I (get_user_keypair e u tok)"
  "keeps_db I (send_settlement_notifications s)" "keeps_db I (get_meter_renewable_source o')"
  "keeps_db I (execute_bridge_initiation e s)" "keeps_db I (batch_accounts e s)" "keeps_db I get_settlement_stats"
  "keeps_db I get_pending_settlements"
  unfolding get_settlement_def get_user_wallet_def get_user_keypair_def session_keypair_def wallet_keypair_def
    send_settlement_notifications_def get_meter_renewable_source_def execute_bridge_initiation_def
    parse_pubkey_internal_def batch_accounts_def get_settlement_stats_def get_pending_settlements_def Let_def
  by (intro keeps_db_intros)+

lemma execute_blockchain_transfer_keeps [keeps_db_intros]: "keeps_db I (execute_blockchain_transfer e cfg s)"
  unfolding execute_blockchain_transfer_def parse_pubkey_internal_def sink_loss_def Let_def
  by (intro keeps_db_intros)

lemma finalize_escrow_keeps:
  assumes "\<And>u f d. I d \<Longrightarrow> I (upd_user u f d)" and "\<And>rs d. I d \<Longrightarrow> I (d\<lparr>platform_revenue := rs\<rparr>)"
    and "\<And>p f d. I d \<Longrightarrow> I (release_escrow p f d)"
  shows "keeps_db I (finalize_escrow e s)"
  unfolding finalize_escrow_def revenue_if_positive_def add_revenue_def
  by (intro keeps_db_intros assms)

lemma issue_rec_keeps:
  assumes "\<And>cs d. I d \<Longrightarrow> I (d\<lparr>erc_certificates := cs\<rparr>)"
  shows "keeps_db I (issue_rec_for_settlement e s)"
  unfolding issue_rec_for_settlement_def issue_certificate_def generate_certificate_id_def Let_def
  by (intro keeps_db_intros assms)

lemma execute_settlement_keeps:
  assumes "\<And>u f d. I d \<Longrightarrow> I (upd_user u f d)" and "\<And>rs d. I d \<Longrightarrow> I (d\<lparr>platform_revenue := rs\<rparr>)"
    and "\<And>p f d. I d \<Longrightarrow> I (release_escrow p f d)" and "\<And>cs d. I d \<Longrightarrow> I (d\<lparr>erc_certificates := cs\<rparr>)"
    and "\<And>i st. keeps_db I (update_settlement_status i st)"
    and "\<And>i sig st. keeps_db I (update_settlement_confirmed i sig st)"
  shows "keeps_db I (execute_settlement e cfg i)"
  unfolding execute_settlement_def settle_and_record_def
  by (intro keeps_db_intros assms finalize_escrow_keeps issue_rec_keeps)

lemma settlement_ops_keep:
  "keeps_db settlements_ok (create_settlement e cfg t)" "keeps_db settlements_ok (execute_settlement e cfg i)"
  "keeps_db settlements_ok (execute_batch_settlement e is)" "keeps_db settlements_ok (process_relayer_queue e)"
  "keeps_db settlements_ok (retry_failed_settlements e cfg n)"
proof -
  show "keeps_db settlements_ok (create_settlement e cfg t)"
    unfolding create_settlement_def Let_def by (intro keeps_db_intros settlements_ok_add)
  show ex: "keeps_db settlements_ok (execute_settlement e cfg i)" for i
    by (intro execute_settlement_keeps update_settlement_keeps) simp_all
  show "keeps_db settlements_ok (execute_batch_settlement e is)"
    unfolding execute_batch_settlement_def parse_pubkey_internal_def
    by (intro keeps_db_intros finalize_escrow_keeps) simp_all
  show "keeps_db settlements_ok (process_relayer_queue e)"
    unfolding process_relayer_queue_def relay_one_def update_bridge_completed_def by (intro keeps_db_intros)
  show "keeps_db settlements_ok (retry_failed_settlements e cfg n)"
    unfolding retry_failed_settlements_def retry_one_def Let_def by (intro keeps_db_intros ex)
qed

subsection \<open>Money\<close>

text \<open>What a user owns, and what the platform has booked.\<close>

definition owned :: "db \<Rightarrow> uuid \<Rightarrow> decimal option" where
  "owned d u = Option.bind (users d u) money_worth"

definition revenue_total :: "db \<Rightarrow> decimal" where
  "revenue_total d = sum_list (map r_amount (platform_revenue d))"

definition charges :: "settlement \<Rightarrow> decimal" where
  "charges s = sv_fee_amount s + unwrap_or (sv_wheeling_charge s) 0 + unwrap_or (sv_loss_cost s) 0"

lemma money_fields [simp]:
  "money_worth (add_locked a r) = map_option (\<lambda>x. x + a) (money_worth r)"
  "money_worth (add_balance a r) = map_option (\<lambda>x. x + a) (money_worth r)"
  by (auto simp: money_worth_def add_locked_def add_balance_def split: option.split)

lemma revenue_if_positive_Ok:
  assumes "revenue_if_positive i a ty w = (Ok x, w')"
  shows "users (db w') = users (db w)"
    and "0 \<le> unwrap_or a 0 \<Longrightarrow> revenue_total (db w') = revenue_total (db w) + unwrap_or a 0"
proof -
  show "users (db w') = users (db w)"
    using assms by (auto simp: revenue_if_positive_def add_revenue_def statement_Ok split: option.splits if_splits)
  show "revenue_total (db w') = revenue_total (db w) + unwrap_or a 0" if pos: "0 \<le> unwrap_or a 0"
  proof (cases a)
    case (Some v)
    with pos assms show ?thesis
      by (cases "v = 0") (auto simp: revenue_if_positive_def add_revenue_def statement_Ok revenue_total_def split: if_splits)
  qed (use assms in \<open>simp add: revenue_if_positive_def\<close>)
qed

lemma revenue_total_frame [simp]:
  "revenue_total (upd_user u f d) = revenue_total d" "revenue_total (release_escrow p g d) = revenue_total d"
  by (simp_all add: revenue_total_def)

lemma owned_upd_user:
  "owned (upd_user u f d) v = (if v = u then Option.bind (users d u) (\<lambda>r. money_worth (f r)) else owned d v)"
  by (cases "users d u") (auto simp: owned_def)

lemma finalize_escrow_ledger:
  assumes "finalize_escrow e s w = (Ok x, w')"
  shows "users (db w') = users (upd_user (sv_seller_id s) (add_balance (sv_net_amount s))
      (upd_user (sv_buyer_id s) (add_locked (- dmul e (sv_energy_amount s) (sv_price s)))
      (upd_user (sv_seller_id s) (add_locked_energy (- sv_energy_amount s)) (db w))))" (is "_ = users ?d")
    and "0 \<le> sv_fee_amount s \<Longrightarrow> 0 \<le> unwrap_or (sv_wheeling_charge s) 0 \<Longrightarrow> 0 \<le> unwrap_or (sv_loss_cost s) 0
      \<Longrightarrow> revenue_total (db w') = revenue_total (db w) + charges s"
proof -
  from assms obtain w1 w2 w3 w4 where w1: "db w1 = ?d"
    and r1: "revenue_if_positive (sv_id s) (Some (sv_fee_amount s)) ''platform_fee'' w1 = (Ok (), w2)"
    and r2: "revenue_if_positive (sv_id s) (sv_wheeling_charge s) ''wheeling_charge'' w2 = (Ok (), w3)"
    and r3: "revenue_if_positive (sv_id s) (sv_loss_cost s) ''loss_cost'' w3 = (Ok (), w4)"
    and w': "users (db w') = users (db w4)" "revenue_total (db w') = revenue_total (db w4)"
    unfolding finalize_escrow_def
    by (elim transaction_OkE sq_OkE) (force simp: statement_Ok)
  show "users (db w') = users ?d"
    using revenue_if_positive_Ok(1) [OF r1] revenue_if_positive_Ok(1) [OF r2] revenue_if_positive_Ok(1) [OF r3] w'(1) w1 by simp
  show "revenue_total (db w') = revenue_total (db w) + charges s"
    if "0 \<le> sv_fee_amount s" "0 \<le> unwrap_or (sv_wheeling_charge s) 0" "0 \<le> unwrap_or (sv_loss_cost s) 0"
    using that revenue_if_positive_Ok(2) [OF r1] revenue_if_positive_Ok(2) [OF r2] revenue_if_positive_Ok(2) [OF r3] w'(2) w1
    by (simp add: charges_def)
qed

lemma finalize_escrow_Ok:
  assumes "finalize_escrow e s w = (Ok x, w')" and "sv_buyer_id s \<noteq> sv_seller_id s"
  shows "owned (db w') (sv_buyer_id s)
      = map_option (\<lambda>m. m - dmul e (sv_energy_amount s) (sv_price s)) (owned (db w) (sv_buyer_id s))"
    and "owned (db w') (sv_seller_id s) = map_option (\<lambda>m. m + sv_net_amount s) (owned (db w) (sv_seller_id s))"
    and "\<And>u. u \<noteq> sv_buyer_id s \<Longrightarrow> u \<noteq> sv_seller_id s \<Longrightarrow> users (db w') u = users (db w) u"
    and "0 \<le> sv_fee_amount s \<Longrightarrow> 0 \<le> unwrap_or (sv_wheeling_charge s) 0 \<Longrightarrow> 0 \<le> unwrap_or (sv_loss_cost s) 0
      \<Longrightarrow> revenue_total (db w') = revenue_total (db w) + charges s"
proof -
  note u = finalize_escrow_ledger(1) [OF assms(1)]
  then have o: "owned (db w') v = Option.bind (users (db w') v) money_worth" for v by (simp add: owned_def)
  show "owned (db w') (sv_buyer_id s)
      = map_option (\<lambda>m. m - dmul e (sv_energy_amount s) (sv_price s)) (owned (db w) (sv_buyer_id s))"
    using assms(2) unfolding o u by (cases "users (db w) (sv_buyer_id s)") (auto simp: owned_def)
  show "owned (db w') (sv_seller_id s) = map_option (\<lambda>m. m + sv_net_amount s) (owned (db w) (sv_seller_id s))"
    using assms(2) unfolding o u by (cases "users (db w) (sv_seller_id s)") (auto simp: owned_def)
  show "users (db w') v = users (db w) v" if "v \<noteq> sv_buyer_id s" "v \<noteq> sv_seller_id s" for v
    using that u by simp
qed (rule finalize_escrow_ledger(2) [OF assms(1)])

subsection \<open>Identifiers that start with zeros\<close>

lemma hex_digit_zero:
  assumes "n < 16"
  shows "hex_digit n = CHR ''0'' \<longleftrightarrow> n = 0"
proof (cases n)
  case (Suc k)
  have "''123456789abcdef'' ! k \<in> set ''123456789abcdef''"
    using assms Suc by (intro nth_mem) simp
  then have "hex_digit n \<noteq> CHR ''0''" using Suc by (auto simp: hex_digit_def)
  with Suc show ?thesis by simp
qed (simp add: hex_digit_def)

lemma uuid_str_head: "\<exists>rest. uuid_str u = map (\<lambda>i. hex_digit (unat u div 16 ^ i mod 16)) [31, 30, 29, 28] @ rest"
proof -
  have up: "[0..<32] = [0..<28] @ [28, 29, 30, 31 :: nat]"
    using upt_add_eq_append [of 0 28 4] by (simp add: upt_rec_numeral)
  have "uuid_simple u = map (\<lambda>i. hex_digit (unat u div 16 ^ i mod 16)) [31, 30, 29, 28]
      @ map (\<lambda>i. hex_digit (unat u div 16 ^ i mod 16)) (rev [0..<28])"
    unfolding uuid_simple_def up by simp
  then show ?thesis unfolding uuid_str_def Let_def by simp
qed

lemma uuid_str_zeros:
  "starts_with (uuid_str u) ''0000'' \<longleftrightarrow> unat u div 16 ^ 31 mod 16 = 0 \<and> unat u div 16 ^ 30 mod 16 = 0
     \<and> unat u div 16 ^ 29 mod 16 = 0 \<and> unat u div 16 ^ 28 mod 16 = 0"
proof -
  obtain rest where "uuid_str u = map (\<lambda>i. hex_digit (unat u div 16 ^ i mod 16)) [31, 30, 29, 28] @ rest"
    using uuid_str_head by blast
  then show ?thesis by (simp add: hex_digit_zero eq_commute [of "CHR ''0''"] del: One_nat_def)
qed

subsection \<open>Properties\<close>

text \<open>The stored status of a settlement is read back as the status that was written.\<close>

theorem settlement_status_roundtrip:
  "parse_status (settlement_status_fmt st) = st
    \<and> (settlement_status_fmt st = settlement_status_fmt st' \<longleftrightarrow> st = st')"
  using status_text.read_show status_text.show_inj by blast

text \<open>Settlement identifiers stay unique and every stored status stays one that the schema
  allows, under creating, executing, batching, relaying and retrying, whatever the outcome.\<close>

lemma settlements_well_formed:
  assumes "settlements_ok (db w)"
  shows "settlements_ok (db (snd (create_settlement e cfg t w))) \<and> settlements_ok (db (snd (execute_settlement e cfg i w)))
    \<and> settlements_ok (db (snd (execute_batch_settlement e is w))) \<and> settlements_ok (db (snd (process_relayer_queue e w)))
    \<and> settlements_ok (db (snd (retry_failed_settlements e cfg n w)))"
  using assms by (intro conjI settlement_ops_keep [THEN keeps_dbD])


definition sample_trade :: trade_match where
  "sample_trade = \<lparr> tm_id = 20, tm_match_id = 9, tm_epoch_id = 7, tm_buyer_id = 2 ^ 127, tm_seller_id = 1,
     tm_buy_order_id = 1, tm_sell_order_id = 2, tm_quantity = 4, tm_price = 3, tm_total_value = 12, tm_wheeling_charge = 2,
     tm_loss_factor = 0, tm_loss_cost = 0, tm_buyer_zone_id = None, tm_seller_zone_id = None, tm_matched_at = 0,
     tm_buyer_session_token = None, tm_seller_session_token = None \<rparr>"

definition trade_db :: db where
  "trade_db = auction_db\<lparr>users := [1 \<mapsto> sample_user 100 50 10, 2 ^ 127 \<mapsto> sample_user 100 50 10]\<rparr>"

lemma sample_buyer: "settlement_status_for (2 ^ 127) = StPending"
  by (simp add: settlement_status_for_def uuid_str_zeros)

lemma sample_settlement:
  "\<exists>s w'. create_settlement std_env default_config sample_trade (calm_world trade_db) = (Ok s, w')"
  using sample_buyer
  by (simp add: create_settlement_def io_simps Let_def sample_trade_def settlement_fk_def settlement_row_of_def
      trade_db_def auction_db_def settled_epoch_def)


text \<open>Cross-chain trades cannot be settled: for a buyer whose identifier starts with four zeros
  the settlement is created in the status \<open>pending_bridge\<close>, which the check constraint refuses, so
  the call never returns a settlement.\<close>

theorem cross_chain_settlement_refused:
  assumes "starts_with (uuid_str (tm_buyer_id t)) ''0000''"
  shows "fst (create_settlement e cfg t w) \<noteq> Ok s \<and> db (snd (create_settlement e cfg t w)) = db w"
  using assms
  by (auto simp: create_settlement_def Let_def fresh_uuid_def get_clock_def bnd_app sq_app exec_chk_def settlement_fk_def
      settlement_row_of_def settlement_status_for_def split: option.splits)

theorem cross_chain_settlement_refused_witness:
  "starts_with (uuid_str 1) ''0000''
    \<and> \<not> is_ok (create_settlement std_env default_config (sample_trade\<lparr>tm_buyer_id := 1\<rparr>) (calm_world trade_db))"
proof -
  have "starts_with (uuid_str 1) ''0000''" by (simp add: uuid_str_zeros)
  with cross_chain_settlement_refused [of "sample_trade\<lparr>tm_buyer_id := 1\<rparr>"] show ?thesis
    by (auto simp: is_ok_def split: outcome.split)
qed

lemma get_settlement_Ok:
  "get_settlement e i w = (Ok s, w') \<Longrightarrow> \<exists>row trade bo so. find_row s_id i (settlements (db w)) = Some row
     \<and> s_buy_order_id row = Some bo \<and> s_sell_order_id row = Some so \<and> s = settlement_of row trade bo so"
  by (auto simp: get_settlement_def statement_Ok fresh_uuid_def elim!: bnd_OkE)

lemma execute_settlement_plain:
  "execute_settlement e cfg i = sq (update_settlement_status i StProcessing)
     (bnd (get_settlement e i) (settle_and_record e cfg i))"
proof
  fix w :: world
  obtain r w1 where u: "update_settlement_status i StProcessing w = (r, w1)" by (cases "update_settlement_status i StProcessing w")
  obtain q w2 where g: "get_settlement e i w1 = (q, w2)" by (cases "get_settlement e i w1")
  have "sv_status s \<noteq> StPendingBridge" if "r = Ok ()" "q = Ok s" for s
  proof -
    have d: "db w1 = upd_settlement i (\<lambda>r. r\<lparr>s_status := ''processing'', s_updated_at := clock w\<rparr>) (db w)"
      using u that by (auto simp: update_settlement_status_def get_clock_def statement_Ok elim!: bnd_OkE)
    have "get_settlement e i w1 = (Ok s, w2)" using g that(2) by simp
    then obtain row where row: "find_row s_id i (settlements (db w1)) = Some row" "sv_status s = parse_status (s_status row)"
      by (auto dest!: get_settlement_Ok simp: settlement_of_def)
    from row(1) have "s_status row = ''processing''"
      unfolding d upd_settlement_def by (auto simp: find_row_update_same)
    with row(2) show ?thesis by (simp add: parse_status_values)
  qed
  with u g show "execute_settlement e cfg i w = sq (update_settlement_status i StProcessing)
     (bnd (get_settlement e i) (settle_and_record e cfg i)) w"
    by (cases r; cases q) (auto simp: execute_settlement_def sq_app bnd_app)
qed

text \<open>The bridge is never used: \<open>execute_settlement\<close> writes the status \<open>processing\<close> before it
  reads the settlement, so the branch for \<open>pending_bridge\<close> cannot be taken and the call is the
  plain transfer.\<close>

theorem execute_settlement_never_bridges:
  "execute_settlement e cfg i = sq (update_settlement_status i StProcessing)
     (bnd (get_settlement e i) (settle_and_record e cfg i))"
  by (rule execute_settlement_plain)


definition payable :: settlement where
  "payable = \<lparr> sv_id = 30, sv_trade_id = 20, sv_buyer_id = 2, sv_seller_id = 1, sv_buy_order_id = 1, sv_sell_order_id = 2,
     sv_energy_amount = 4, sv_price = 3, sv_total_value = 12, sv_fee_amount = 1, sv_net_amount = 9, sv_status = StProcessing,
     sv_blockchain_tx = None, sv_created_at = 0, sv_confirmed_at = None, sv_buyer_zone_id = None, sv_seller_zone_id = None,
     sv_wheeling_charge = Some 2, sv_loss_cost = Some 5, sv_loss_factor = Some 0, sv_effective_energy = Some 4,
     sv_buyer_session_token = None, sv_seller_session_token = None \<rparr>"

definition ledger_db :: db where
  "ledger_db = auction_db\<lparr>users := [1 \<mapsto> sample_user 100 0 10, 2 \<mapsto> sample_user 80 20 0],
     settlements := [settlement_row_of payable 7]\<rparr>"

lemma sample_finalize: "\<exists>w'. finalize_escrow std_env payable (calm_world ledger_db) = (Ok (), w')"
  by (simp add: finalize_escrow_def revenue_if_positive_def add_revenue_def io_simps payable_def touches_def ledger_db_def
      settlement_row_of_def upd_user_def)


lemma update_settlement_calm:
  assumes "faults w = []" and "status_ok (settlement_status_fmt st)"
  shows "update_settlement_status i st w = (Ok (), w\<lparr>db := upd_settlement i
      (\<lambda>r. r\<lparr>s_status := settlement_status_fmt st, s_updated_at := clock w\<rparr>) (db w)\<rparr>)"
    and "update_settlement_confirmed i sig st w = (Ok (), w\<lparr>db := upd_settlement i
      (\<lambda>r. r\<lparr>s_status := settlement_status_fmt st, s_transaction_hash := Some sig, s_processed_at := Some (clock w),
             s_updated_at := clock w\<rparr>) (db w)\<rparr>)"
  using assms by (simp_all add: update_settlement_status_def update_settlement_confirmed_def io_simps)

lemma touches_upd: "(\<And>r. s_id (f r) = s_id r) \<Longrightarrow> touches i (upd_settlement j f d) = touches i d"
  by (auto simp: touches_iff upd_settlement_def set_update_where)

lemma touches_frame [simp]:
  "touches i (upd_user u f d) = touches i d" "touches i (d\<lparr>platform_revenue := rs\<rparr>) = touches i d"
  "touches i (release_escrow p g d) = touches i d"
  by (simp_all add: touches_def)

lemma finalize_escrow_commits: "commits (touches (sv_id s)) (finalize_escrow e s)"
  unfolding finalize_escrow_def revenue_if_positive_def add_revenue_def
  by (intro commits_intros; simp)

text \<open>Notifications and the certificate never stop a settlement and leave the money alone.\<close>

definition after_settlement :: "env \<Rightarrow> settlement \<Rightarrow> 'a \<Rightarrow> (world, 'a) io" where
  "after_settlement e s tx = sq (send_settlement_notifications s) (sq (ignore (issue_rec_for_settlement e s)) (ret tx))"

lemma issue_rec_no_panic: "no_panic (issue_rec_for_settlement e s)"
  unfolding issue_rec_for_settlement_def get_user_wallet_def get_meter_renewable_source_def internal_def
    issue_certificate_def generate_certificate_id_def Let_def
  by (intro no_panic_intros)

lemma after_settlement_Ok: "\<exists>w'. after_settlement e s tx w = (Ok tx, w') \<and> owned (db w') = owned (db w)"
proof -
  have n: "\<exists>w1. send_settlement_notifications s w = (Ok (), w1)"
    unfolding send_settlement_notifications_def by (simp add: sq_app ignore_no_panic no_panic_basic)
  have "keeps_db (\<lambda>d. owned d = owned (db w)) (after_settlement e s tx)"
    unfolding after_settlement_def
    by (intro keeps_db_intros issue_rec_keeps) (simp add: owned_def fun_eq_iff)
  from keeps_dbD [OF this, of w] n show ?thesis
    by (auto simp: after_settlement_def sq_app ignore_no_panic [OF issue_rec_no_panic])
qed

text \<open>Executing a settlement twice pays twice: in mock mode, whatever the status of the
  settlement (also \<open>completed\<close>), \<open>execute_settlement\<close> succeeds and the seller's wealth grows by the
  net amount again.\<close>

theorem execute_settlement_pays_again:
  assumes "faults w = []" and "\<not> real_blockchain cfg" and "find_row s_id i (settlements (db w)) = Some row"
    and "s_buy_order_id row = Some bo" and "s_sell_order_id row = Some so" and "s_buyer_id row \<noteq> s_seller_id row"
    and "owned (db w) (s_seller_id row) = Some v"
  shows "\<exists>tx w'. execute_settlement e cfg i w = (Ok tx, w')
    \<and> owned (db w') (s_seller_id row) = Some (v + s_net_amount row)"
proof -
  let ?f = "\<lambda>r. r\<lparr>s_status := ''processing'', s_updated_at := clock w\<rparr>"
  let ?w1 = "w\<lparr>db := upd_settlement i ?f (db w)\<rparr>"
  let ?s = "settlement_of (?f row) (new_v4 e (uuids w)) bo so"
  let ?w2 = "?w1\<lparr>uuids := Suc (uuids w)\<rparr>"
  have id: "s_id row = i" using find_row_Some [OF assms(3)] by simp
  have ok: "status_ok ''processing''" "status_ok ''completed''" by (simp_all add: status_ok_def)
  have found: "find_row s_id i (settlements (db ?w1)) = Some (?f row)"
    using assms(3) by (simp add: upd_settlement_def find_row_update_same)
  have get: "get_settlement e i ?w1 = (Ok ?s, ?w2)"
    using assms(1,4,5) found by (simp add: get_settlement_def io_simps)
  let ?sig = "''mock_settlement_sig_'' @ uuid_str (new_v4 e (Suc (uuids w)))"
  let ?tx = "\<lparr> stx_settlement_id = i, stx_signature = ?sig, stx_slot = 12345678, stx_confirmation_status = ''confirmed'' \<rparr>"
  let ?w3 = "?w2\<lparr>uuids := Suc (Suc (uuids w))\<rparr>"
  have tx: "attempt (execute_blockchain_transfer e cfg ?s) ?w2 = (Ok (Inr ?tx), ?w3)"
    using assms(2) id by (simp add: execute_blockchain_transfer_def io_simps settlement_of_def)
  let ?w4 = "?w3\<lparr>db := upd_settlement i (\<lambda>r. r\<lparr>s_status := ''completed'', s_transaction_hash := Some ?sig,
     s_processed_at := Some (clock w), s_updated_at := clock w\<rparr>) (db ?w1)\<rparr>"
  have conf: "update_settlement_confirmed i ?sig StCompleted ?w3 = (Ok (), ?w4)"
    using update_settlement_calm(2) [of ?w3 StCompleted i ?sig] assms(1) ok(2) by simp
  have "touches i (db w)" using find_row_Some [OF assms(3)] by (auto simp: touches_iff)
  then have "touches (sv_id ?s) (db ?w4)" using id by (simp add: touches_upd settlement_of_def)
  then obtain d where fin: "finalize_escrow e ?s ?w4 = (Ok (), ?w4\<lparr>db := d\<rparr>)"
    using commitsD [OF finalize_escrow_commits, of ?w4 ?s e] assms(1) by auto
  have "owned (db ?w4) (s_seller_id row) = Some v"
    using assms(7) by (simp add: owned_def upd_settlement_def)
  then have own: "owned d (s_seller_id row) = Some (v + s_net_amount row)"
    using finalize_escrow_Ok(2) [OF fin] assms(6) by (simp add: settlement_of_def)
  obtain w' where aft: "after_settlement e ?s ?tx (?w4\<lparr>db := d\<rparr>) = (Ok ?tx, w')" "owned (db w') = owned d"
    using after_settlement_Ok [of e ?s ?tx "?w4\<lparr>db := d\<rparr>"] by auto
  have "settle_and_record e cfg i ?s ?w2 = (Ok ?tx, w')"
    using tx conf fin aft(1) unfolding settle_and_record_def after_settlement_def
    by (simp add: bnd_app sq_app [of "update_settlement_confirmed _ _ _"] sq_app [of "ignore (finalize_escrow _ _)"] ignore_app [of "finalize_escrow _ _"])
  then have "execute_settlement e cfg i w = (Ok ?tx, w')"
    using get update_settlement_calm(1) [of w StProcessing i] assms(1) ok(1)
    by (simp add: execute_settlement_def sq_app bnd_app settlement_of_def parse_status_values)
  with aft(2) own show ?thesis by auto
qed

definition paid_db :: db where
  "paid_db = ledger_db\<lparr>settlements := [(settlement_row_of payable 7)\<lparr>s_status := ''completed''\<rparr>]\<rparr>"

theorem execute_settlement_pays_again_witness:
  "\<exists>tx w'. execute_settlement std_env (default_config\<lparr>real_blockchain := False\<rparr>) 30 (calm_world paid_db) = (Ok tx, w')
     \<and> owned (db w') 1 = Some 109"
proof -
  let ?r = "(settlement_row_of payable 7)\<lparr>s_status := ''completed''\<rparr>"
  have "find_row s_id 30 (settlements paid_db) = Some ?r" "owned paid_db 1 = Some 100"
    by (simp_all add: paid_db_def ledger_db_def settlement_row_of_def payable_def owned_def money_worth_def sample_user_def)
  with execute_settlement_pays_again [of "calm_world paid_db" "default_config\<lparr>real_blockchain := False\<rparr>" 30 ?r 1 2 100 std_env]
  show ?thesis by (simp add: settlement_row_of_def payable_def)
qed

subsection \<open>Retries and the relayer\<close>

lemma backoff_value:
  fixes base :: u64
  assumes "unat base * 2 ^ n < 2 ^ 64"
  shows "unat (base * 2 ^ n) = unat base * 2 ^ n"
proof (cases "base = 0")
  case False
  then have "(1::nat) \<le> unat base" by (simp add: Suc_le_eq unat_gt_0)
  then have "(2::nat) ^ n \<le> unat base * 2 ^ n" by simp
  with assms have "(2::nat) ^ n < 2 ^ 64" by linarith
  moreover have "(2::u64) ^ n = word_of_nat (2 ^ n)" by simp
  ultimately have "unat ((2::u64) ^ n) = 2 ^ n" by (simp only: unat_of_nat) simp
  with assms show ?thesis by (simp add: unat_word_ariths)
qed simp

text \<open>The wait before a retry is never more than five minutes; it is the base delay doubled per
  retry as long as that fits in 64 bits, and from the 64th retry on the product wraps to zero and
  the retry is immediate.\<close>

theorem backoff_delay_bounds:
  "unat (backoff_delay base n) \<le> 300
    \<and> (unat base * 2 ^ n < 2 ^ 64 \<longrightarrow> unat (backoff_delay base n) = min (unat base * 2 ^ n) 300)
    \<and> (64 \<le> n \<longrightarrow> backoff_delay base n = 0)"
proof (intro conjI impI)
  have m: "unat (min a (300::u64)) = min (unat a) 300" for a
    by (simp add: min_def word_le_nat_alt)
  show "unat (backoff_delay base n) \<le> 300" by (simp add: backoff_delay_def m)
  show "unat (backoff_delay base n) = min (unat base * 2 ^ n) 300" if "unat base * 2 ^ n < 2 ^ 64"
    using backoff_value [OF that] by (simp add: backoff_delay_def m)
  show "backoff_delay base n = 0" if "64 \<le> n"
  proof -
    have "(2::u64) ^ n = 0" using that by (simp add: exp_eq_zero_iff)
    then show ?thesis by (simp only: backoff_delay_def) simp
  qed
qed

theorem backoff_delay_bounds_witness: "unat (backoff_delay 5 3) = 40 \<and> unat (backoff_delay 5 8) = 300 \<and> backoff_delay 5 70 = 0"
  using backoff_delay_bounds [of 5 3] backoff_delay_bounds [of 5 8] backoff_delay_bounds [of 5 70] by simp

text \<open>The relayer has nothing to relay: it asks for settlements whose status is
  \<open>BridgingInitiated\<close>, which is not a text the schema allows, so it changes no table and makes no
  call to the blockchain.\<close>

theorem process_relayer_queue_idle:
  assumes "settlements_ok (db w)"
  shows "db (snd (process_relayer_queue e w)) = db w \<and> chain_log (snd (process_relayer_queue e w)) = chain_log w"
proof -
  have "status_ok st \<Longrightarrow> st \<noteq> ''BridgingInitiated''" for st by (auto simp: status_ok_def)
  then have "filter (\<lambda>r. s_status r = ''BridgingInitiated'') (settlements (db w)) = []"
    using assms by (auto simp: settlements_ok_def list_all_iff filter_empty_conv)
  then show ?thesis by (auto simp: process_relayer_queue_def bnd_app query_def split: option.split)
qed

theorem process_relayer_queue_idle_witness:
  "settlements_ok paid_db \<and> db (snd (process_relayer_queue std_env (calm_world paid_db))) = paid_db"
proof -
  have "settlements_ok paid_db" by (simp add: settlements_ok_def paid_db_def status_ok_def)
  with process_relayer_queue_idle [of "calm_world paid_db" std_env] show ?thesis by simp
qed

text \<open>A failed execution leaves the settlement \<open>failed\<close>, and executing never counts a retry.\<close>

abbreviation retry_counts :: "db \<Rightarrow> (uuid \<times> nat option) list" where
  "retry_counts d \<equiv> map (\<lambda>r. (s_id r, s_retry_count r)) (settlements d)"

lemma retry_counts_upd:
  "(\<And>r. s_id (f r) = s_id r \<and> s_retry_count (f r) = s_retry_count r) \<Longrightarrow> retry_counts (upd_settlement i f d) = retry_counts d"
  by (simp add: upd_settlement_def update_where_def)

lemma execute_settlement_counts: "keeps_db (\<lambda>d. retry_counts d = c) (execute_settlement e cfg i)"
  by (rule execute_settlement_keeps)
    (auto simp: update_settlement_status_def update_settlement_confirmed_def retry_counts_upd intro!: keeps_db_intros)

lemma settlement_Err:
  "update_settlement_status i st w \<noteq> (Err (Internal m), w')"
  "update_settlement_confirmed i sig st w \<noteq> (Err (Internal m), w')"
  "get_settlement e i w \<noteq> (Err (Internal m), w')" "send_settlement_notifications s w \<noteq> (Err er, w')"
  unfolding update_settlement_status_def update_settlement_confirmed_def get_settlement_def send_settlement_notifications_def
  by (auto simp: get_clock_def fresh_uuid_def ok_or_def unwrap_def statement_Err split: option.splits
      elim!: bnd_ErrE sq_ErrE)

lemma update_status_Ok:
  "update_settlement_status i st w = (Ok u, w') \<Longrightarrow>
     db w' = upd_settlement i (\<lambda>r. r\<lparr>s_status := settlement_status_fmt st, s_updated_at := clock w\<rparr>) (db w)"
  by (auto simp: update_settlement_status_def get_clock_def statement_Ok elim!: bnd_OkE)

lemma execute_settlement_failed:
  assumes "execute_settlement e cfg i w = (Err (Internal m), w')"
  shows "\<exists>d t. db w' = upd_settlement i (\<lambda>r. r\<lparr>s_status := ''failed'', s_updated_at := t\<rparr>) d"
  using assms unfolding execute_settlement_plain settle_and_record_def
  by (auto simp: settlement_Err statement_Err elim!: bnd_ErrE sq_ErrE split: sum.splits)
    (metis update_status_Ok settlement_status_fmt.simps(4))

lemma mark_permanent_failure_refused:
  "\<exists>m. mark_settlement_permanent_failure i msg w = (Err (Database m), tick w)"
  by (simp add: mark_settlement_permanent_failure_def with_columns_def settlement_columns_def io_simps)

lemma in_failed_rows:
  "r \<in> set (failed_rows n d) \<longleftrightarrow> r \<in> set (settlements d) \<and> s_status r = ''failed''
     \<and> (\<exists>k. s_retry_count r = Some k \<and> int k < sint n)"
  by (auto simp: failed_rows_def split: option.splits)

text \<open>A failure that is not worth retrying stops the whole retry run: marking the settlement as
  permanently failed names a column that the table does not have, so \<open>retry_failed_settlements\<close>
  returns the database error, none of the other failed settlements is tried, and the settlement is
  still \<open>failed\<close> with its retry count unchanged, so it is due again in every later run.\<close>

theorem permanent_failure_stops_retries:
  assumes "faults w = []" and "failed_rows n (db w) = row # rest"
    and "execute_settlement e cfg (s_id row) (snd (sleep (backoff_delay (retry_delay_secs cfg) (unwrap_or (s_retry_count row) 0)) w))
      = (Err (Internal m), w1)"
    and "\<not> is_retryable_error (api_display (Internal m))"
  shows "\<exists>er w'. retry_failed_settlements e cfg n w = (Err (Database er), w') \<and> db w' = db w1
    \<and> (\<exists>row' \<in> set (failed_rows n (db w')). s_id row' = s_id row \<and> s_retry_count row' = s_retry_count row)"
proof -
  let ?w0 = "snd (sleep (backoff_delay (retry_delay_secs cfg) (unwrap_or (s_retry_count row) 0)) w)"
  obtain er where mark: "mark_settlement_permanent_failure (s_id row) (api_display (Internal m)) w1 = (Err (Database er), tick w1)"
    using mark_permanent_failure_refused by blast
  have "retry_one e cfg row w = (Err (Database er), tick w1)"
    using assms(3,4) mark by (simp add: retry_one_def sq_app bnd_app attempt_app sleep_def Let_def del: api_display.simps)
  then have run: "retry_failed_settlements e cfg n w = (Err (Database er), tick w1)"
    using assms(1,2) by (simp add: retry_failed_settlements_def bnd_app query_calm)
  have row: "row \<in> set (failed_rows n (db w))" using assms(2) by simp
  have counts: "retry_counts (db w1) = retry_counts (db w)"
    using keeps_dbD [OF execute_settlement_counts [of "retry_counts (db w)" e cfg "s_id row"], of ?w0] assms(3) by (simp add: sleep_def)
  moreover have "(s_id row, s_retry_count row) \<in> set (retry_counts (db w))"
    using row by (auto simp: in_failed_rows)
  ultimately obtain r where r: "r \<in> set (settlements (db w1))" "s_id r = s_id row" "s_retry_count r = s_retry_count row"
    by (metis (mono_tags, lifting) imageE image_set prod.inject)
  moreover obtain d t where "db w1 = upd_settlement (s_id row) (\<lambda>r. r\<lparr>s_status := ''failed'', s_updated_at := t\<rparr>) d"
    using execute_settlement_failed [OF assms(3)] by blast
  then have "s_status r = ''failed''"
    using r(1,2) by (auto simp: upd_settlement_def set_update_where)
  ultimately have "r \<in> set (failed_rows n (db w1))" using row by (simp add: in_failed_rows)
  with run r show ?thesis by auto
qed

definition broke_env :: env where
  "broke_env = std_env\<lparr>env_var := (\<lambda>_. Some ''mint''), chain_str := (\<lambda>_ _. Inl ''insufficient funds'')\<rparr>"

definition failed_db :: db where
  "failed_db = ledger_db\<lparr>settlements := [(settlement_row_of payable 7)\<lparr>s_status := ''failed''\<rparr>]\<rparr>"

abbreviation broke_text :: string where
  "broke_text \<equiv> ''Settlement execution failed: Internal server error: Failed to get authority: insufficient funds''"

lemma broke_execution:
  "\<exists>w1. execute_settlement broke_env default_config 30 ((calm_world failed_db)\<lparr>clock := t\<rparr>) = (Err (Internal broke_text), w1)"
  by (simp add: execute_settlement_plain settle_and_record_def update_settlement_status_def get_settlement_def
      execute_blockchain_transfer_def get_user_wallet_def parse_pubkey_internal_def internal_def io_simps
      status_ok_def failed_db_def ledger_db_def upd_settlement_def settlement_row_of_def payable_def settlement_of_def
      broke_env_def sample_user_def default_config_def)

lemma broke_text_not_retryable: "\<not> is_retryable_error (api_display (Internal broke_text))"
  by code_simp

lemma failed_db_rows: "failed_rows 3 failed_db = [(settlement_row_of payable 7)\<lparr>s_status := ''failed''\<rparr>]"
  by (simp add: failed_rows_def failed_db_def settlement_row_of_def)

theorem permanent_failure_stops_retries_witness:
  "\<exists>er w'. retry_failed_settlements broke_env default_config 3 (calm_world failed_db) = (Err (Database er), w')
     \<and> (\<exists>row' \<in> set (failed_rows 3 (db w')). s_id row' = 30)"
proof -
  let ?r = "(settlement_row_of payable 7)\<lparr>s_status := ''failed''\<rparr>"
  have id: "s_id ?r = 30" by (simp add: settlement_row_of_def payable_def)
  from broke_execution obtain w1 where
    "execute_settlement broke_env default_config (s_id ?r) (snd (sleep (backoff_delay (retry_delay_secs default_config)
       (unwrap_or (s_retry_count ?r) 0)) (calm_world failed_db))) = (Err (Internal broke_text), w1)"
    unfolding sleep_def id by auto
  from permanent_failure_stops_retries [OF _ _ this broke_text_not_retryable, of 3 "[]"] failed_db_rows id
  show ?thesis by auto
qed

end
