(* ===== verification/Floats.thy ===== *)
theory Floats
  imports Prelude "HOL-Library.Log_Nat"
begin

text \<open>
  Double-precision numbers, as far as the program computes with them: the value of an operation is
  the exact result rounded to 53 significant bits, ties to even.  \<open>f64\<close> is that rounding for values far from
  the subnormal and the overflow range, such as tariffs and counts; \<open>f64_value\<close> are all values, with the
  infinities and the not-a-number, and \<open>f64_round\<close> rounds over the whole range.  The sign of a zero is
  not kept.
\<close>

subsection \<open>Rounding\<close>

definition round_half_even :: "rat \<Rightarrow> int" where
  "round_half_even m = (let f = \<lfloor>m\<rfloor>; r = m - of_int f in
     if r < 1 / 2 then f else if r > 1 / 2 then f + 1 else if even f then f else f + 1)"

definition f64_exponent :: "rat \<Rightarrow> int" where
  "f64_exponent x = (let (n, d) = quotient_of x; e0 = bitlen n - bitlen d in
     if 2 powi e0 \<le> x then e0 else e0 - 1)"

definition f64_pos :: "rat \<Rightarrow> rat" where
  "f64_pos x = (let u = 2 powi (f64_exponent x - 52) in of_int (round_half_even (x / u)) * u)"

definition f64 :: "rat \<Rightarrow> rat" where
  "f64 x = (if x = 0 then 0 else if x < 0 then - f64_pos (- x) else f64_pos x)"

lemma f64_0 [simp]: "f64 0 = 0"
  by (simp add: f64_def)

lemma f64_nonneg: "0 \<le> x \<Longrightarrow> 0 \<le> f64 x"
  by (auto simp: f64_def f64_pos_def round_half_even_def Let_def intro!: mult_nonneg_nonneg)

lemma round_half_even_int [simp]: "round_half_even (of_int n) = n"
  by (simp add: round_half_even_def Let_def)

lemma round_half_even_err: "\<bar>of_int (round_half_even m) - m\<bar> \<le> 1 / 2"
proof -
  have "of_int \<lfloor>m\<rfloor> \<le> m" "m < of_int \<lfloor>m\<rfloor> + 1" by linarith+
  then show ?thesis unfolding round_half_even_def Let_def abs_le_iff by (simp split: if_split) linarith
qed

lemma f64_err:
  assumes "0 < x" and "f64_exponent x = k"
  shows "\<bar>f64 x - x\<bar> \<le> 2 powi (k - 53)"
proof -
  let ?u = "2 powi (k - 52) :: rat"
  have u: "0 < ?u" by simp
  have "f64 x - x = (of_int (round_half_even (x / ?u)) - x / ?u) * ?u"
    using assms u by (simp add: f64_def f64_pos_def Let_def left_diff_distrib)
  then have "\<bar>f64 x - x\<bar> = \<bar>of_int (round_half_even (x / ?u)) - x / ?u\<bar> * ?u"
    using u by (simp add: abs_mult)
  also have "\<dots> \<le> 1 / 2 * ?u"
    using u round_half_even_err by (intro mult_right_mono) simp_all
  also have "\<dots> = 2 powi (k - 53)"
    using power_int_add [of "2::rat" "k - 53" 1] by simp
  finally show ?thesis .
qed

text \<open>The exponent is right: the value lies in its binade.\<close>

lemma bitlen_pow:
  assumes "0 < n"
  shows "2 powi (bitlen n - 1) \<le> (of_int n :: rat)" and "(of_int n :: rat) < 2 powi bitlen n"
proof -
  have "0 < bitlen n" using bitlen_eq_zero_iff [of n] bitlen_nonneg [of n] assms by linarith
  then have e: "2 powi (bitlen n - 1) = (of_int (2 ^ nat (bitlen n - 1)) :: rat)"
    "2 powi bitlen n = (of_int (2 ^ nat (bitlen n)) :: rat)"
    by (simp_all add: power_int_def)
  from bitlen_bounds [OF assms] show "2 powi (bitlen n - 1) \<le> (of_int n :: rat)" "(of_int n :: rat) < 2 powi bitlen n"
    unfolding e of_int_le_iff of_int_less_iff by auto
qed

lemma f64_exponent_le:
  assumes "0 < x"
  shows "2 powi f64_exponent x \<le> x"
proof -
  obtain n d where q: "quotient_of x = (n, d)" by fastforce
  then have d: "0 < d" and x: "x = of_int n / of_int d"
    by (auto dest: quotient_of_denom_pos quotient_of_div)
  with assms have n: "0 < n" by (simp add: zero_less_divide_iff)
  let ?e = "bitlen n - bitlen d"
  have "(2 :: rat) powi (?e - 1) * of_int d \<le> 2 powi (?e - 1) * 2 powi bitlen d"
    using bitlen_pow(2) [OF d] by (intro mult_left_mono) simp_all
  also have "\<dots> = 2 powi (bitlen n - 1)" by (simp flip: power_int_add)
  also have "\<dots> \<le> of_int n" by (rule bitlen_pow(1) [OF n])
  finally have "2 powi (?e - 1) \<le> x" using d by (simp add: x field_simps)
  then show ?thesis by (simp add: f64_exponent_def q Let_def)
qed

lemma f64_exponent_gt:
  assumes "0 < x"
  shows "x < 2 powi (f64_exponent x + 1)"
proof -
  obtain n d where q: "quotient_of x = (n, d)" by fastforce
  then have d: "0 < d" and x: "x = of_int n / of_int d"
    by (auto dest: quotient_of_denom_pos quotient_of_div)
  with assms have n: "0 < n" by (simp add: zero_less_divide_iff)
  let ?e = "bitlen n - bitlen d"
  have "of_int n < (2 :: rat) powi bitlen n" by (rule bitlen_pow(2) [OF n])
  also have "\<dots> = 2 powi (?e + 1) * 2 powi (bitlen d - 1)" by (simp flip: power_int_add)
  also have "\<dots> \<le> 2 powi (?e + 1) * of_int d"
    using bitlen_pow(1) [OF d] by (intro mult_left_mono) simp_all
  finally have "x < 2 powi (?e + 1)" using d by (simp add: x field_simps)
  then show ?thesis by (simp add: f64_exponent_def q Let_def)
qed

text \<open>Rounding never leaves the binade downwards.\<close>

lemma f64_ge_pow:
  assumes "2 powi k \<le> x"
  shows "2 powi k \<le> f64 x"
proof -
  have pos: "0 < x" using assms less_le_trans [of 0 "2 powi k" x] by simp
  let ?e = "f64_exponent x"
  have "(2 :: rat) powi k < 2 powi (?e + 1)" using assms f64_exponent_gt [OF pos] by linarith
  then have "k < ?e + 1" using power_int_increasing [of "?e + 1" k "2 :: rat"] by (auto simp: not_less [symmetric])
  then have "(2 :: rat) powi k \<le> 2 powi ?e" by (intro power_int_increasing) simp_all
  also have "\<dots> \<le> f64 x"
  proof -
    let ?u = "2 powi (?e - 52) :: rat"
    have "2 powi ?e = (2 ^ 52 :: rat) * ?u" by (simp add: power_int_diff)
    moreover have "2 powi ?e \<le> x" by (rule f64_exponent_le [OF pos])
    ultimately have "of_int (2 ^ 52) \<le> x / ?u" by (simp add: pos_le_divide_eq)
    then have "2 ^ 52 \<le> \<lfloor>x / ?u\<rfloor>" by (simp only: le_floor_iff)
    then have "2 ^ 52 \<le> round_half_even (x / ?u)" by (simp add: round_half_even_def Let_def)
    then have "rat_of_int (2 ^ 52) * ?u \<le> of_int (round_half_even (x / ?u)) * ?u"
      by (intro mult_right_mono) (simp_all only: of_int_le_iff zero_le_power_int zero_le_numeral)
    then show ?thesis using pos by (simp add: f64_def f64_pos_def Let_def power_int_diff)
  qed
  finally show ?thesis .
qed

text \<open>The relative error is at most one unit in the 53rd place, and small integers are exact.\<close>

lemma f64_rel_err:
  assumes "0 < x"
  shows "\<bar>f64 x - x\<bar> \<le> x / 2 ^ 53"
proof -
  have "\<bar>f64 x - x\<bar> \<le> 2 powi (f64_exponent x - 53)" using assms by (rule f64_err) simp
  also have "\<dots> = 2 powi f64_exponent x / 2 ^ 53" by (simp add: power_int_diff)
  also have "\<dots> \<le> x / 2 ^ 53" using f64_exponent_le [OF assms] by (intro divide_right_mono) simp_all
  finally show ?thesis .
qed

lemma f64_int:
  assumes "0 \<le> n" and "n < 2 ^ 53"
  shows "f64 (of_int n) = of_int n"
proof (cases "n = 0")
  case False
  with assms have pos: "(0 :: rat) < of_int n" by simp
  let ?k = "f64_exponent (of_int n)"
  have "(2 :: rat) powi ?k \<le> of_int n" by (rule f64_exponent_le [OF pos])
  also have "(of_int n :: rat) < of_int (2 ^ 53)" using assms(2) by (simp only: of_int_less_iff)
  also have "\<dots> = 2 powi 53" by (simp add: power_int_def)
  finally have k: "?k \<le> 52" using power_int_le_imp_less_exp [of "2::rat" ?k 53] by simp
  have "(of_int n :: rat) / 2 powi (?k - 52) = of_int n * 2 powi (52 - ?k)"
    by (simp add: power_int_diff)
  also have "\<dots> = of_int (n * 2 ^ nat (52 - ?k))" using k by (simp add: power_int_def)
  finally have r: "round_half_even (of_int n / 2 powi (?k - 52)) = n * 2 ^ nat (52 - ?k)"
    by (simp only: round_half_even_int)
  have "f64 (of_int n) = of_int (n * 2 ^ nat (52 - ?k)) * 2 powi (?k - 52)"
    using pos by (simp only: f64_def f64_pos_def Let_def r) simp
  also have "\<dots> = of_int n * (2 powi (52 - ?k) * 2 powi (?k - 52))" using k by (simp add: power_int_def)
  also have "\<dots> = of_int n" by (simp flip: power_int_add)
  finally show ?thesis .
qed simp

subsection \<open>Values from outside\<close>

datatype f64_value = Finite rat | PosInf | NegInf | NaN

fun f64_less :: "f64_value \<Rightarrow> f64_value \<Rightarrow> bool" where
  "f64_less (Finite x) (Finite y) \<longleftrightarrow> x < y"
| "f64_less NegInf (Finite _) \<longleftrightarrow> True"
| "f64_less NegInf PosInf \<longleftrightarrow> True"
| "f64_less (Finite _) PosInf \<longleftrightarrow> True"
| "f64_less _ _ \<longleftrightarrow> False"

fun f64_le :: "f64_value \<Rightarrow> f64_value \<Rightarrow> bool" where
  "f64_le (Finite x) (Finite y) \<longleftrightarrow> x \<le> y"
| "f64_le NegInf y \<longleftrightarrow> y \<noteq> NaN"
| "f64_le x PosInf \<longleftrightarrow> x \<noteq> NaN"
| "f64_le _ _ \<longleftrightarrow> False"

text \<open>
  Rounding over the whole range: below \<open>2 ^ (-1022)\<close> the values are the multiples of \<open>2 ^ (-1074)\<close>, and
  a rounded value of \<open>2 ^ 1024\<close> or more is an infinity.
\<close>

definition f64_round :: "rat \<Rightarrow> f64_value" where
  "f64_round x = (let y = if \<bar>x\<bar> < 2 powi (- 1022) then of_int (round_half_even (x * 2 ^ 1074)) / 2 ^ 1074 else f64 x in
     if y \<ge> 2 ^ 1024 then PosInf else if y \<le> - (2 ^ 1024) then NegInf else Finite y)"

lemma f64_round_over:
  assumes "2 ^ 1024 \<le> x"
  shows "f64_round x = PosInf"
proof -
  have p: "(2 :: rat) powi 1024 = 2 ^ 1024" by (simp only: power_int_numeral)
  then have "2 ^ 1024 \<le> f64 x" using f64_ge_pow [of 1024 x] assms by simp
  moreover have "\<not> \<bar>x\<bar> < 2 powi (- 1022)"
  proof -
    have "(2 :: rat) powi (- 1022) \<le> 2 powi 1024" by (intro power_int_increasing) simp_all
    with assms p have "(2 :: rat) powi (- 1022) \<le> x" by linarith
    then show ?thesis by linarith
  qed
  ultimately show ?thesis by (simp only: f64_round_def Let_def if_False if_True)
qed

lemma f64_round_under:
  assumes "x \<le> - (2 ^ 1024)"
  shows "f64_round x = NegInf"
proof -
  have "f64_round (- x) = PosInf" using assms by (intro f64_round_over) linarith
  moreover have n: "x < 0" using assms zero_less_power [of "2 :: rat" 1024] by linarith
  moreover have "\<not> \<bar>x\<bar> < 2 powi (- 1022)"
  proof -
    have "(2 :: rat) powi (- 1022) \<le> 2 powi 1024" by (intro power_int_increasing) simp_all
    then have "(2 :: rat) powi (- 1022) \<le> 2 ^ 1024" by (simp only: power_int_numeral)
    with assms show ?thesis by linarith
  qed
  moreover have "f64 x = - f64 (- x)" using n by (simp add: f64_def)
  ultimately have "2 ^ 1024 \<le> - f64 x" by (simp add: f64_round_def Let_def split: if_splits)
  with zero_less_power [of "2 :: rat" 1024] have "\<not> 2 ^ 1024 \<le> f64 x" "f64 x \<le> - (2 ^ 1024)" by linarith+
  with \<open>\<not> \<bar>x\<bar> < 2 powi (- 1022)\<close> show ?thesis by (simp only: f64_round_def Let_def if_False if_True)
qed

lemma f64_round_pos:
  assumes "1 / 8 \<le> x"
  shows "f64_less (Finite 0) (f64_round x)"
proof -
  have p: "(2 :: rat) powi (- 3) = 1 / 8" by (simp add: power_int_minus)
  then have "1 / 8 \<le> f64 x" using f64_ge_pow [of "- 3" x] assms by simp
  moreover have "\<not> \<bar>x\<bar> < 2 powi (- 1022)"
  proof -
    have "(2 :: rat) powi (- 1022) \<le> 2 powi (- 3)" by (intro power_int_increasing) simp_all
    with assms p show ?thesis by linarith
  qed
  moreover have "\<not> f64 x \<le> - (2 ^ 1024)" using calculation(1) zero_less_power [of "2 :: rat" 1024] by linarith
  ultimately show ?thesis by (simp add: f64_round_def Let_def)
qed

text \<open>Integers of at most 53 bits are exact.\<close>

lemma f64_round_nat:
  assumes "0 < n" and "n < 2 ^ 53"
  shows "f64_round (of_int n) = Finite (of_int n)" and "f64_round (- of_int n) = Finite (- of_int n)"
proof -
  have e: "f64 (of_int n) = of_int n" using assms by (intro f64_int) simp_all
  moreover have "f64 (- of_int n) = - f64 (of_int n)" using assms by (simp add: f64_def)
  moreover have "\<not> \<bar>rat_of_int n\<bar> < 2 powi (- 1022)"
  proof -
    have "(2 :: rat) powi (- 1022) \<le> 2 powi 0" by (intro power_int_increasing) simp_all
    moreover have "1 \<le> rat_of_int n" using assms by simp
    ultimately show ?thesis by simp
  qed
  moreover have "(of_int n :: rat) < 2 ^ 1024"
  proof -
    have "(of_int n :: rat) < of_int (2 ^ 53)" using assms(2) by (simp only: of_int_less_iff)
    also have "\<dots> = 2 ^ 53" by simp
    also have "\<dots> \<le> 2 ^ 1024" by (intro power_increasing) simp_all
    finally show ?thesis .
  qed
  moreover have "(0 :: rat) < of_int n" using assms by simp
  ultimately show "f64_round (of_int n) = Finite (of_int n)" "f64_round (- of_int n) = Finite (- of_int n)"
    unfolding f64_round_def Let_def by (simp_all add: not_le)
qed

lemma f64_round_0 [simp]: "f64_round 0 = Finite 0"
proof -
  have "(0 :: rat) < 2 ^ 1024" by simp
  then show ?thesis unfolding f64_round_def Let_def using round_half_even_int [of 0] by (simp add: not_le)
qed

lemma f64_round_int:
  assumes "\<bar>n\<bar> < 2 ^ 53"
  shows "f64_round (of_int n) = Finite (of_int n)"
proof (cases n "0 :: int" rule: linorder_cases)
  case less
  then show ?thesis using f64_round_nat(2) [of "- n"] assms by simp
next
  case greater
  then show ?thesis using f64_round_nat(1) [of n] assms by simp
qed simp

fun f64_neg :: "f64_value \<Rightarrow> f64_value" where
  "f64_neg (Finite x) = Finite (- x)"
| "f64_neg PosInf = NegInf"
| "f64_neg NegInf = PosInf"
| "f64_neg NaN = NaN"

fun f64_add :: "f64_value \<Rightarrow> f64_value \<Rightarrow> f64_value" where
  "f64_add (Finite x) (Finite y) = f64_round (x + y)"
| "f64_add NaN _ = NaN"
| "f64_add _ NaN = NaN"
| "f64_add PosInf NegInf = NaN"
| "f64_add NegInf PosInf = NaN"
| "f64_add PosInf _ = PosInf"
| "f64_add NegInf _ = NegInf"
| "f64_add (Finite _) y = y"

definition f64_sub :: "f64_value \<Rightarrow> f64_value \<Rightarrow> f64_value" where
  "f64_sub x y = f64_add x (f64_neg y)"

fun f64_sign :: "f64_value \<Rightarrow> int" where
  "f64_sign (Finite x) = (if x > 0 then 1 else if x < 0 then - 1 else 0)"
| "f64_sign PosInf = 1"
| "f64_sign NegInf = - 1"
| "f64_sign NaN = 0"

definition f64_inf :: "int \<Rightarrow> f64_value" where
  "f64_inf s = (if s > 0 then PosInf else if s < 0 then NegInf else NaN)"

fun f64_mul :: "f64_value \<Rightarrow> f64_value \<Rightarrow> f64_value" where
  "f64_mul (Finite x) (Finite y) = f64_round (x * y)"
| "f64_mul NaN _ = NaN"
| "f64_mul _ NaN = NaN"
| "f64_mul x y = f64_inf (f64_sign x * f64_sign y)"

text \<open>A quotient by zero takes the sign of the dividend, as for a positive zero.\<close>

fun f64_div :: "f64_value \<Rightarrow> f64_value \<Rightarrow> f64_value" where
  "f64_div (Finite x) (Finite y) = (if y = 0 then f64_inf (f64_sign (Finite x)) else f64_round (x / y))"
| "f64_div NaN _ = NaN"
| "f64_div _ NaN = NaN"
| "f64_div (Finite _) _ = Finite 0"
| "f64_div x (Finite y) = f64_inf (f64_sign x * (if y < 0 then - 1 else 1))"
| "f64_div _ _ = NaN"

definition f64_abs :: "f64_value \<Rightarrow> f64_value" where
  "f64_abs x = (if f64_less x (Finite 0) then f64_neg x else x)"

text \<open>\<open>f64::min\<close> and \<open>f64::max\<close>: a not-a-number loses against every other value.\<close>

definition f64_min :: "f64_value \<Rightarrow> f64_value \<Rightarrow> f64_value" where
  "f64_min x y = (if x = NaN then y else if y = NaN then x else if f64_le x y then x else y)"

definition f64_max :: "f64_value \<Rightarrow> f64_value \<Rightarrow> f64_value" where
  "f64_max x y = (if x = NaN then y else if y = NaN then x else if f64_le x y then y else x)"

text \<open>Clamping ends in the interval whatever came before, even not a number.\<close>

lemma f64_clamp:
  assumes "lo \<le> hi"
  shows "\<exists>r. f64_max (f64_min x (Finite hi)) (Finite lo) = Finite r \<and> lo \<le> r \<and> r \<le> hi"
  using assms by (cases x) (auto simp: f64_min_def f64_max_def)

end
