(* ===== verification/Grid_Topology.thy ===== *)
theory Grid_Topology
  imports Sample Floats
begin

text \<open>
  The transmission costs between zones (\<open>src/src/services/grid_topology.rs\<close>): the service with
  its cache of zone rates, the default tariff, the asynchronous lookups that consult the cache
  first, and the refresh of the cache from the database.  The interface the matching engine uses
  is the locale \<open>grid_costs\<close>.
\<close>

subsection \<open>The service\<close>

record grid_topology =
  rates_cache :: "(i32 \<times> i32) \<rightharpoonup> zone_rate"
  has_pool :: bool
  last_refresh :: "time option"

definition grid_new :: grid_topology where
  "grid_new = \<lparr>rates_cache = Map.empty, has_pool = False, last_refresh = None\<rparr>"

definition grid_with_pool :: grid_topology where
  "grid_with_pool = \<lparr>rates_cache = Map.empty, has_pool = True, last_refresh = None\<rparr>"

definition live_rate :: "time \<Rightarrow> zone_rate_row \<Rightarrow> bool" where
  "live_rate t r \<longleftrightarrow> zr_is_active r
     \<and> (case zr_effective_until r of None \<Rightarrow> True | Some u \<Rightarrow> u > t)
     \<and> zr_effective_from r \<le> t"

fun cache_insert_all :: "((i32 \<times> i32) \<rightharpoonup> zone_rate) \<Rightarrow> zone_rate_row list \<Rightarrow> ((i32 \<times> i32) \<rightharpoonup> zone_rate)" where
  "cache_insert_all c [] = c"
| "cache_insert_all c (r # rs) =
     cache_insert_all (c((from_zone_id r, to_zone_id r) \<mapsto> zone_rate.truncate r)) rs"

definition load_rates :: "grid_topology \<Rightarrow> (world, nat \<times> grid_topology) io" where
  "load_rates g =
    (if \<not> has_pool g then ret (0, g)
     else bnd get_clock (\<lambda>t.
       bnd (query (\<lambda>d. filter (live_rate t) (zone_rates d))) (\<lambda>rows.
       ret (length rows, g\<lparr>rates_cache := cache_insert_all Map.empty rows,
                            last_refresh := Some t\<rparr>))))"

text \<open>\<open>Instant::elapsed().as_secs()\<close>: whole seconds, and zero when the clock is behind.\<close>

definition cache_age_secs :: "grid_topology \<Rightarrow> time \<Rightarrow> nat option" where
  "cache_age_secs g now = map_option (\<lambda>t. nat ((now - t) div 1000000000)) (last_refresh g)"

definition get_rate :: "grid_topology \<Rightarrow> i32 \<Rightarrow> i32 \<Rightarrow> zone_rate option" where
  "get_rate g f t = rates_cache g (f, t)"

subsection \<open>The tariff\<close>

definition zone_distance :: "i32 \<Rightarrow> i32 \<Rightarrow> i32" where
  "zone_distance mz bz = i32_abs (mz - bz)"

definition calculate_wheeling_charge_default :: "env \<Rightarrow> i32 option \<Rightarrow> i32 option \<Rightarrow> decimal" where
  "calculate_wheeling_charge_default e from_zone to_zone =
    (case (from_zone, to_zone) of
       (Some mz, Some bz) \<Rightarrow>
         (if mz = bz then dec_from_f64 e (f64 (1 / 2))
          else let distance = zone_distance mz bz in
            if distance = 1 then dec_from_f64 e (f64 1)
            else dec_from_f64 e (f64 (3 / 2))
              + dmul e (of_int (sint distance)) (dec_from_f64 e (f64 (1 / 10))))
     | _ \<Rightarrow> dec_from_f64 e (f64 2))"

definition calculate_loss_factor_default :: "env \<Rightarrow> i32 option \<Rightarrow> i32 option \<Rightarrow> decimal" where
  "calculate_loss_factor_default e from_zone to_zone =
    (case (from_zone, to_zone) of
       (Some mz, Some bz) \<Rightarrow>
         (if mz = bz then dec_from_f64 e (f64 (1 / 100))
          else let distance = zone_distance mz bz in
            if distance = 1 then dec_from_f64 e (f64 (3 / 100))
            else let loss = f64 (f64 (3 / 100) + f64 (f64 (of_int (sint distance)) * f64 (1 / 100)))
              in dec_from_f64 e (min loss (f64 (3 / 20))))
     | _ \<Rightarrow> dec_from_f64 e (f64 (1 / 20)))"

definition calculate_wheeling_charge :: "env \<Rightarrow> grid_topology \<Rightarrow> i32 option \<Rightarrow> i32 option \<Rightarrow> decimal" where
  "calculate_wheeling_charge e g from_zone to_zone = calculate_wheeling_charge_default e from_zone to_zone"

definition calculate_loss_factor :: "env \<Rightarrow> grid_topology \<Rightarrow> i32 option \<Rightarrow> i32 option \<Rightarrow> decimal" where
  "calculate_loss_factor e g from_zone to_zone = calculate_loss_factor_default e from_zone to_zone"

definition calculate_wheeling_charge_async :: "env \<Rightarrow> grid_topology \<Rightarrow> i32 option \<Rightarrow> i32 option \<Rightarrow> decimal" where
  "calculate_wheeling_charge_async e g from_zone to_zone =
    (case (from_zone, to_zone) of
       (Some fz, Some tz) \<Rightarrow>
         (case get_rate g fz tz of
            Some rate \<Rightarrow> zr_wheeling_charge rate
          | None \<Rightarrow> calculate_wheeling_charge_default e from_zone to_zone)
     | _ \<Rightarrow> calculate_wheeling_charge_default e from_zone to_zone)"

definition calculate_loss_factor_async :: "env \<Rightarrow> grid_topology \<Rightarrow> i32 option \<Rightarrow> i32 option \<Rightarrow> decimal" where
  "calculate_loss_factor_async e g from_zone to_zone =
    (case (from_zone, to_zone) of
       (Some fz, Some tz) \<Rightarrow>
         (case get_rate g fz tz of
            Some rate \<Rightarrow> zr_loss_factor rate
          | None \<Rightarrow> calculate_loss_factor_default e from_zone to_zone)
     | _ \<Rightarrow> calculate_loss_factor_default e from_zone to_zone)"

definition calculate_loss_cost :: "env \<Rightarrow> decimal \<Rightarrow> decimal \<Rightarrow> decimal \<Rightarrow> decimal" where
  "calculate_loss_cost e energy_amount price loss_factor =
     dmul e (dmul e energy_amount price) loss_factor"

subsection \<open>What the tariff relies on of the decimal crate\<close>

text \<open>
  Beyond rounding: \<open>from_f64\<close> keeps the order and reads the literals of the tariff as the decimals
  they are written as; \<open>to_u64\<close> gives the integer part of a nonnegative value that fits.
\<close>

definition tariff_literals :: "rat list" where
  "tariff_literals = [0, 1/2, 1, 3/2, 1/10, 2, 1/100, 3/100, 3/20, 1/20]"

locale decimal_crate = decimal_rounding "rnd e" for e :: env +
  assumes from_f64_mono: "x \<le> y \<Longrightarrow> dec_from_f64 e x \<le> dec_from_f64 e y"
    and from_f64_literal: "c \<in> set tariff_literals \<Longrightarrow> dec_from_f64 e (f64 c) = c"
    and to_u64_value: "dec_to_u64 e x = (if 0 \<le> x \<and> x < 2 ^ 64 then Some (of_int \<lfloor>x\<rfloor>) else None)"
begin

lemma tariff_values:
  "dec_from_f64 e (f64 (1/2)) = 1/2" "dec_from_f64 e (f64 1) = 1" "dec_from_f64 e (f64 (3/2)) = 3/2"
  "dec_from_f64 e (f64 (1/10)) = 1/10" "dec_from_f64 e (f64 2) = 2"
  "dec_from_f64 e (f64 (1/100)) = 1/100" "dec_from_f64 e (f64 (3/100)) = 3/100"
  "dec_from_f64 e (f64 (3/20)) = 3/20" "dec_from_f64 e (f64 (1/20)) = 1/20"
  by (rule from_f64_literal, simp add: tariff_literals_def)+

lemma from_f64_nonneg: "0 \<le> x \<Longrightarrow> 0 \<le> dec_from_f64 e x"
  using from_f64_mono [of 0 x] from_f64_literal [of 0]
  by (simp add: tariff_literals_def f64_def)

lemma dmul_nonneg: "0 \<le> x \<Longrightarrow> 0 \<le> y \<Longrightarrow> 0 \<le> dmul e x y"
  unfolding dmul_def by (rule rnd_nonneg) simp

lemma wheeling_default_nonneg:
  assumes "\<And>a b. f = Some a \<Longrightarrow> t = Some b \<Longrightarrow> 0 \<le> sint (zone_distance a b)"
  shows "1 / 2 \<le> calculate_wheeling_charge_default e f t"
proof (cases "\<exists>a b. f = Some a \<and> t = Some b \<and> a \<noteq> b \<and> zone_distance a b \<noteq> 1")
  case True
  then obtain a b where ab: "f = Some a" "t = Some b" "a \<noteq> b" "zone_distance a b \<noteq> 1" by blast
  have "0 \<le> dmul e (of_int (sint (zone_distance a b))) (1 / 10)"
    using assms [OF ab(1,2)] by (intro dmul_nonneg of_int_nonneg) simp_all
  with ab show ?thesis
    by (simp add: calculate_wheeling_charge_default_def tariff_values Let_def)
next
  case False
  then show ?thesis
    by (auto simp: calculate_wheeling_charge_default_def tariff_values split: option.split)
qed

lemma loss_default_bounds:
  assumes "\<And>a b. f = Some a \<Longrightarrow> t = Some b \<Longrightarrow> 0 \<le> sint (zone_distance a b)"
  shows "0 \<le> calculate_loss_factor_default e f t"
    and "calculate_loss_factor_default e f t \<le> 3 / 20"
proof -
  have cap: "0 \<le> dec_from_f64 e (min l (f64 (3 / 20))) \<and> dec_from_f64 e (min l (f64 (3 / 20))) \<le> 3 / 20"
    if "0 \<le> l" for l
    using that from_f64_mono [of "min l (f64 (3/20))" "f64 (3/20)"]
    by (simp add: tariff_values from_f64_nonneg f64_nonneg)
  have cap20: "dec_from_f64 e (min l (f64 (3 / 20))) * 20 \<le> 3" if "0 \<le> l" for l
    using cap [OF that] by simp
  have sum: "0 \<le> f64 (f64 (3/100) + f64 (f64 (of_int (sint (zone_distance a b))) * f64 (1/100)))"
    if "f = Some a" "t = Some b" for a b
    using assms [OF that] by (intro f64_nonneg add_nonneg_nonneg mult_nonneg_nonneg of_int_nonneg) simp_all
  show "0 \<le> calculate_loss_factor_default e f t"
    by (auto simp: calculate_loss_factor_default_def tariff_values Let_def cap cap20 sum
        simp del: of_int_sint split: option.split)
  show "calculate_loss_factor_default e f t \<le> 3 / 20"
    by (auto simp: calculate_loss_factor_default_def tariff_values Let_def cap cap20 sum
        simp del: of_int_sint split: option.split)
qed

end

text \<open>The sample environment has these laws.\<close>

lemma round_dp_mono: "x \<le> y \<Longrightarrow> round_dp n x \<le> round_dp n y"
  unfolding round_dp_def by (intro divide_right_mono of_int_le_iff [THEN iffD2] round_mono mult_right_mono) simp_all

lemma round_dp_f64:
  assumes "0 < x" and "f64_exponent x = k" and "k \<le> 2" and "x * 10 ^ 12 = of_int n"
  shows "round_dp 12 (f64 x) = x"
proof -
  have "\<bar>f64 x - x\<bar> \<le> 2 powi (k - 53)" using assms(1,2) by (rule f64_err)
  also have "\<dots> \<le> 2 powi (- 51)" using assms(3) by (intro power_int_increasing) simp_all
  also have "\<dots> < 1 / (2 * 10 ^ 12)" by (simp add: power_int_def power_one_over)
  finally have "\<bar>f64 x * 10 ^ 12 - of_int n\<bar> < 1 / 2"
    using assms(4) by (simp add: abs_if field_simps split: if_splits)
  then have "round (f64 x * 10 ^ 12) = n" by (rule round_unique')
  then show ?thesis using assms(4) by (simp add: round_dp_def field_simps)
qed

lemma sample_exponents:
  "f64_exponent (1/2) = -1" "f64_exponent 1 = 0" "f64_exponent (3/2) = 0" "f64_exponent (1/10) = -4"
  "f64_exponent 2 = 1" "f64_exponent (1/100) = -7" "f64_exponent (3/100) = -6"
  "f64_exponent (3/20) = -3" "f64_exponent (1/20) = -5"
  by code_simp+

lemma sample_literal_values:
  "round_dp 12 (f64 0) = 0" "round_dp 12 (f64 (1/2)) = 1/2" "round_dp 12 (f64 1) = 1"
  "round_dp 12 (f64 (3/2)) = 3/2" "round_dp 12 (f64 (1/10)) = 1/10" "round_dp 12 (f64 2) = 2"
  "round_dp 12 (f64 (1/100)) = 1/100" "round_dp 12 (f64 (3/100)) = 3/100"
  "round_dp 12 (f64 (3/20)) = 3/20" "round_dp 12 (f64 (1/20)) = 1/20"
  by (rule sample_exponents [THEN round_dp_f64 [rotated]]
      | simp add: round_dp_def f64_def; fail | simp; rule of_int_numeral [symmetric])+

interpretation std: decimal_crate std_env
proof
  fix x y :: rat
  assume "x \<le> y"
  then show "dec_from_f64 std_env x \<le> dec_from_f64 std_env y" by (simp add: round_dp_mono)
next
  fix c assume "c \<in> set tariff_literals"
  then show "dec_from_f64 std_env (f64 c) = c"
    unfolding tariff_literals_def list.set std_env_simps
    by (elim insertE emptyE) (simp_all only: sample_literal_values)
qed (simp_all add: dp28.rnd_mono dp28.rnd_idem dp28.rnd_int std_to_u64_def)

subsection \<open>The interface the matching engine uses\<close>

text \<open>Zone numbers whose distance fits an \<open>i32\<close>; every pair of nonnegative numbers does.\<close>

definition zones_ok :: "i32 option \<Rightarrow> i32 option \<Rightarrow> bool" where
  "zones_ok f t = (case (f, t) of (Some a, Some b) \<Rightarrow> 0 \<le> sint (zone_distance a b) | _ \<Rightarrow> True)"

lemma sint_diff_nonneg:
  fixes a b :: i32
  assumes "0 \<le> sint a" and "0 \<le> sint b"
  shows "sint (a - b) = sint a - sint b"
proof -
  have "sint a < 2 ^ 31" and "sint b < 2 ^ 31"
    using sint_range_size [of a] sint_range_size [of b] by (simp_all add: word_size)
  with assms show ?thesis
    by (simp add: sint_word_ariths(2) signed_take_bit_int_eq_self)
qed

lemma zone_distance_nonneg:
  assumes "0 \<le> sint a" and "0 \<le> sint b"
  shows "sint (zone_distance a b) = \<bar>sint a - sint b\<bar>"
proof -
  have "sint a < 2 ^ 31" and "sint b < 2 ^ 31"
    using sint_range_size [of a] sint_range_size [of b] by (simp_all add: word_size)
  with assms have "sint (a - b) \<noteq> - (2 ^ 31)"
    by (simp add: sint_diff_nonneg)
  then show ?thesis
    by (simp add: zone_distance_def sint_i32_abs sint_diff_nonneg assms)
qed

lemma zones_ok_nonneg:
  assumes "\<And>a. f = Some a \<Longrightarrow> 0 \<le> sint a" and "\<And>b. t = Some b \<Longrightarrow> 0 \<le> sint b"
  shows "zones_ok f t"
  using assms by (auto simp: zones_ok_def zone_distance_nonneg split: option.split)

locale grid_costs = decimal_rounding rnd' for rnd' :: "rat \<Rightarrow> rat" +
  fixes wheel loss :: "i32 option \<Rightarrow> i32 option \<Rightarrow> decimal"
    and ok :: "i32 option \<Rightarrow> i32 option \<Rightarrow> bool"
  assumes wheel_pos: "ok f t \<Longrightarrow> 0 < wheel f t"
    and loss_nonneg: "ok f t \<Longrightarrow> 0 \<le> loss f t"
    and loss_small: "ok f t \<Longrightarrow> loss f t < 1"
begin

text \<open>What a buyer pays for a unit is more than what the seller asks.\<close>

lemma landed_gt_ask:
  assumes "ok f t" and "0 \<le> p"
  shows "p < p + wheel f t + rnd' (p * loss f t)"
proof -
  have "0 \<le> rnd' (p * loss f t)"
    using assms loss_nonneg by (intro rnd_nonneg mult_nonneg_nonneg) auto
  with wheel_pos [OF assms(1)] show ?thesis by linarith
qed

end

sublocale decimal_crate \<subseteq> grid: grid_costs "rnd e" "calculate_wheeling_charge e g"
    "calculate_loss_factor e g" zones_ok for g
proof
  fix f t assume ok: "zones_ok f t"
  then have d: "0 \<le> sint (zone_distance a b)" if "f = Some a" "t = Some b" for a b
    using that by (simp add: zones_ok_def)
  show "0 < calculate_wheeling_charge e g f t"
    using wheeling_default_nonneg [of f t, OF d] by (simp add: calculate_wheeling_charge_def)
  show "0 \<le> calculate_loss_factor e g f t" "calculate_loss_factor e g f t < 1"
    using loss_default_bounds [of f t, OF d] by (simp_all add: calculate_loss_factor_def)
qed

subsection \<open>The cache\<close>

lemma cache_insert_all_notin:
  "k \<notin> (\<lambda>r. (from_zone_id r, to_zone_id r)) ` set rs \<Longrightarrow> cache_insert_all c rs k = c k"
  by (induction c rs rule: cache_insert_all.induct) auto

lemma cache_insert_all_in:
  "k \<in> (\<lambda>r. (from_zone_id r, to_zone_id r)) ` set rs \<Longrightarrow>
   \<exists>r \<in> set rs. (from_zone_id r, to_zone_id r) = k \<and> cache_insert_all c rs k = Some (zone_rate.truncate r)"
proof (induction c rs rule: cache_insert_all.induct)
  case (2 c r rs)
  show ?case
  proof (cases "k \<in> (\<lambda>r. (from_zone_id r, to_zone_id r)) ` set rs")
    case True
    from "2.IH" [OF this] show ?thesis
      by (simp only: cache_insert_all.simps list.set) blast
  next
    case False
    with "2.prems" have "k = (from_zone_id r, to_zone_id r)" by auto
    with False show ?thesis by (auto simp: cache_insert_all_notin)
  qed
qed simp

lemma rate_in_cache_iff:
  "cache_insert_all Map.empty rs (a, b) = None \<longleftrightarrow> (\<forall>r \<in> set rs. (from_zone_id r, to_zone_id r) \<noteq> (a, b))"
proof (cases "(a, b) \<in> (\<lambda>r. (from_zone_id r, to_zone_id r)) ` set rs")
  case True
  then show ?thesis using cache_insert_all_in [OF True, of Map.empty] by fastforce
next
  case False
  then show ?thesis using cache_insert_all_notin [OF False, of Map.empty] by fastforce
qed

subsection \<open>Properties\<close>

text \<open>The default tariff: with nonnegative zone numbers (or unknown zones) the wheeling charge
  is at least 0.50 THB per kWh and the loss factor lies between 0 and the cap of 15 percent, so
  the energy a buyer receives never exceeds the energy sold.\<close>

theorem default_tariff_bounds:
  assumes "decimal_crate e"
    and "\<And>a. f = Some a \<Longrightarrow> 0 \<le> sint a" and "\<And>b. t = Some b \<Longrightarrow> 0 \<le> sint b"
  shows "1 / 2 \<le> calculate_wheeling_charge e g f t
    \<and> 0 \<le> calculate_loss_factor e g f t \<and> calculate_loss_factor e g f t \<le> 3 / 20"
proof -
  have "0 \<le> sint (zone_distance a b)" if "f = Some a" "t = Some b" for a b
    using that assms(2,3) by (simp add: zone_distance_nonneg)
  then show ?thesis
    using decimal_crate.wheeling_default_nonneg [OF assms(1), of f t]
      decimal_crate.loss_default_bounds [OF assms(1), of f t]
    by (auto simp: calculate_wheeling_charge_def calculate_loss_factor_def)
qed

theorem default_tariff_bounds_witness:
  "1 / 2 \<le> calculate_wheeling_charge std_env grid_new (Some 3) (Some 7)
    \<and> 0 \<le> calculate_loss_factor std_env grid_new (Some 3) (Some 7)
    \<and> calculate_loss_factor std_env grid_new (Some 3) (Some 7) \<le> 3 / 20"
  by (rule default_tariff_bounds [OF std.decimal_crate_axioms]) auto

text \<open>The tariff subtracts zone numbers as \<open>i32\<close>: for the least zone number and zone 0 the
  distance wraps to a negative number, and the wheeling charge of a release build is negative.\<close>

theorem wheeling_charge_wraps:
  assumes "decimal_crate e"
  shows "calculate_wheeling_charge e g (Some (- 2147483648)) (Some 0) < 0"
proof -
  have d: "sint (zone_distance (- 2147483648) 0) = - 2147483648"
    by (simp add: zone_distance_def i32_abs_def)
  have ne: "zone_distance (- 2147483648) 0 \<noteq> 1" "(- 2147483648 :: i32) \<noteq> 0"
    using d by (auto simp: zone_distance_def)
  note rounding = decimal_crate.axioms(1) [OF assms]
  have "dmul e (of_int (sint (zone_distance (- 2147483648) 0))) (1 / 10) \<le> - 2"
    unfolding dmul_def d using decimal_rounding.rnd_mono [OF rounding, of _ "of_int (- 2)"]
      decimal_rounding.rnd_int [OF rounding, of "- 2"] by simp
  then show ?thesis
    using ne by (simp add: calculate_wheeling_charge_def calculate_wheeling_charge_default_def Let_def
        decimal_crate.tariff_values [OF assms] del: of_int_sint)
qed

theorem wheeling_charge_wraps_witness:
  "calculate_wheeling_charge std_env grid_new (Some (- 2147483648)) (Some 0) < 0"
  by (rule wheeling_charge_wraps [OF std.decimal_crate_axioms])

text \<open>Refreshing the cache: after \<open>load_rates\<close> of a service with a database pool succeeds, the
  asynchronous wheeling charge between two known zones is that of a live row of \<open>zone_rates\<close> for
  the pair when there is one, and the default tariff otherwise; the number returned is the number
  of live rows.\<close>

theorem load_rates_lookup:
  assumes "has_pool g" and "load_rates g w = (Ok (n, g'), w')"
  shows "n = length (filter (live_rate (clock w)) (zone_rates (db w)))
    \<and> (if \<exists>r \<in> set (zone_rates (db w)). live_rate (clock w) r \<and> from_zone_id r = a \<and> to_zone_id r = b
       then \<exists>r \<in> set (zone_rates (db w)). live_rate (clock w) r \<and> from_zone_id r = a \<and> to_zone_id r = b
         \<and> calculate_wheeling_charge_async e g' (Some a) (Some b) = zr_wheeling_charge r
       else calculate_wheeling_charge_async e g' (Some a) (Some b)
         = calculate_wheeling_charge e g' (Some a) (Some b))"
proof -
  let ?rs = "filter (live_rate (clock w)) (zone_rates (db w))"
  from assms have n: "n = length ?rs" and g': "rates_cache g' = cache_insert_all Map.empty ?rs"
    by (auto simp: load_rates_def get_clock_app query_Ok bnd_app split: prod.splits outcome.splits)
  show ?thesis
  proof (cases "(a, b) \<in> (\<lambda>r. (from_zone_id r, to_zone_id r)) ` set ?rs")
    case True
    from cache_insert_all_in [OF this, of Map.empty] obtain r where r: "r \<in> set ?rs"
      "(from_zone_id r, to_zone_id r) = (a, b)"
      "cache_insert_all Map.empty ?rs (a, b) = Some (zone_rate.truncate r)" by blast
    then have "calculate_wheeling_charge_async e g' (Some a) (Some b) = zr_wheeling_charge r"
      by (simp add: calculate_wheeling_charge_async_def get_rate_def g' zone_rate.truncate_def)
    with r n show ?thesis by auto
  next
    case False
    then have "rates_cache g' (a, b) = None"
      using g' cache_insert_all_notin [of "(a, b)" ?rs Map.empty] by simp
    with False n show ?thesis
      by (auto simp: calculate_wheeling_charge_async_def get_rate_def calculate_wheeling_charge_def)
  qed
qed

definition sample_rates :: db where
  "sample_rates = empty_db\<lparr>zone_rates :=
     [\<lparr>from_zone_id = 1, to_zone_id = 2, zr_wheeling_charge = 3, zr_loss_factor = 1 / 50,
       zr_is_active = True, zr_effective_from = 0, zr_effective_until = None\<rparr>]\<rparr>"

theorem load_rates_lookup_witness:
  "\<exists>n g' w'. load_rates grid_with_pool (calm_world sample_rates) = (Ok (n, g'), w') \<and> n = 1
     \<and> (\<exists>r \<in> set (zone_rates sample_rates).
          calculate_wheeling_charge_async std_env g' (Some 1) (Some 2) = zr_wheeling_charge r)"
proof -
  have pool: "has_pool grid_with_pool" by (simp add: grid_with_pool_def)
  obtain n g' w' where r: "load_rates grid_with_pool (calm_world sample_rates) = (Ok (n, g'), w')"
    using pool by (simp add: load_rates_def io_simps)
  from load_rates_lookup [OF pool r, of 1 2 std_env] show ?thesis
    using r by (auto simp: sample_rates_def live_rate_def)
qed

end
