(* ===== verification/Engine.thy ===== *)
theory Engine
  imports Settlement Grid_Topology
begin

text \<open>
  The background matching engine (\<open>src/src/services/order_matching_engine/mod.rs\<close>): expiring stale
  orders, a matching cycle by landed cost with its matches and settlements, the fallback to the
  automated market maker, and the loop around them.  The order rows that the engine loads carry the
  two fields \<open>is_confidential\<close> and \<open>energy_source\<close> that its struct literals leave out.  A query
  without \<open>ORDER BY\<close> answers in the order of insertion.
\<close>

subsection \<open>The engine\<close>

record matching_engine =
  eng_running :: bool
  match_interval_secs :: u64
  eng_settlement :: "settlement_config option"
  eng_market_clearing :: bool
  eng_blockchain :: bool
  eng_grid :: grid_topology

text \<open>\<open>str::parse::<u64>()\<close>: an optional plus sign and at least one digit, no overflow.\<close>

definition digit_value :: "char \<Rightarrow> nat option" where
  "digit_value c = (let n = (of_char c :: nat) in if 48 \<le> n \<and> n \<le> 57 then Some (n - 48) else None)"

fun digits_value :: "nat \<Rightarrow> string \<Rightarrow> nat option" where
  "digits_value acc [] = Some acc"
| "digits_value acc (c # cs) = Option.bind (digit_value c) (\<lambda>n. digits_value (10 * acc + n) cs)"

definition parse_u64 :: "string \<Rightarrow> u64 option" where
  "parse_u64 s = (let ds = (case s of CHR ''+'' # cs \<Rightarrow> cs | _ \<Rightarrow> s) in
     if ds = [] then None
     else Option.bind (digits_value 0 ds) (\<lambda>n. if n < 2 ^ 64 then Some (word_of_nat n) else None))"

definition engine_new :: "env \<Rightarrow> matching_engine" where
  "engine_new e = \<lparr> eng_running = False,
     match_interval_secs = unwrap_or (Option.bind (env_var e ''MATCHING_INTERVAL_SECS'') parse_u64) 5,
     eng_settlement = None, eng_market_clearing = False, eng_blockchain = False, eng_grid = grid_new \<rparr>"

definition with_market_clearing :: "matching_engine \<Rightarrow> matching_engine" where
  "with_market_clearing g = g\<lparr>eng_market_clearing := True\<rparr>"

definition with_settlement :: "settlement_config \<Rightarrow> matching_engine \<Rightarrow> matching_engine" where
  "with_settlement cfg g = g\<lparr>eng_settlement := Some cfg\<rparr>"

definition with_blockchain :: "matching_engine \<Rightarrow> matching_engine" where
  "with_blockchain g = g\<lparr>eng_blockchain := True\<rparr>"

text \<open>\<open>start\<close> says whether it spawned the loop; \<open>stop\<close> only clears the flag.\<close>

definition engine_start :: "matching_engine \<Rightarrow> bool \<times> matching_engine" where
  "engine_start g = (if eng_running g then (False, g) else (True, g\<lparr>eng_running := True\<rparr>))"

definition engine_stop :: "matching_engine \<Rightarrow> matching_engine" where
  "engine_stop g = g\<lparr>eng_running := False\<rparr>"

definition min_trade_amount :: decimal where
  "min_trade_amount = 1 / 10"

subsection \<open>Expiry\<close>

definition open_order :: "order_row \<Rightarrow> bool" where
  "open_order r \<longleftrightarrow> o_status r \<in> {Active, Pending, PartiallyFilled}"

definition stale :: "time \<Rightarrow> order_row \<Rightarrow> bool" where
  "stale now r \<longleftrightarrow> open_order r \<and> (case o_expires_at r of None \<Rightarrow> False | Some t \<Rightarrow> t < now)"

definition expire_one :: "env \<Rightarrow> matching_engine \<Rightarrow> order_row \<Rightarrow> (world, unit) io" where
  "expire_one e g order =
    sq (exec (upd_order (o_id order) (\<lambda>r. r\<lparr>o_status := Expired\<rparr>)))
    (if eng_market_clearing g \<and> o_remaining order > 0 then
       (case o_side order of
          Buy \<Rightarrow> ignore (unlock_funds (o_user_id order) (o_id order)
                   (dmul e (o_remaining order) (o_price_per_kwh order)) ''Order Expired'')
        | Sell \<Rightarrow> ignore (unlock_energy (o_user_id order) (o_id order) (o_remaining order) ''Order Expired''))
     else ret ())"

definition expire_stale_orders :: "env \<Rightarrow> matching_engine \<Rightarrow> (world, nat) io" where
  "expire_stale_orders e g =
    bnd get_clock (\<lambda>now.
    bnd (query (\<lambda>d. filter (stale now) (orders d))) (\<lambda>stale_orders.
    sq (for_each stale_orders (expire_one e g)) (ret (length stale_orders))))"

subsection \<open>Candidates\<close>

record candidate =
  cd_index :: nat
  cd_landed_cost :: decimal
  cd_match_price :: decimal
  cd_wheeling_per_kwh :: decimal
  cd_loss_factor :: decimal
  cd_loss_cost_per_kwh :: decimal

definition engine_landed :: "env \<Rightarrow> grid_topology \<Rightarrow> order_row \<Rightarrow> order_row \<Rightarrow> decimal" where
  "engine_landed e grid buy sell =
     o_price_per_kwh sell + calculate_wheeling_charge e grid (o_zone_id sell) (o_zone_id buy)
     + dmul e (o_price_per_kwh sell) (calculate_loss_factor e grid (o_zone_id sell) (o_zone_id buy))"

definition candidate_of :: "env \<Rightarrow> grid_topology \<Rightarrow> order_row \<Rightarrow> nat \<times> order_row \<Rightarrow> candidate option" where
  "candidate_of e grid buy = (\<lambda>(idx, sell).
    if o_remaining sell < min_trade_amount then None
    else
      let wheeling_charge = calculate_wheeling_charge e grid (o_zone_id sell) (o_zone_id buy);
          loss_factor = calculate_loss_factor e grid (o_zone_id sell) (o_zone_id buy);
          sell_price = o_price_per_kwh sell;
          loss_cost_unit = dmul e sell_price loss_factor;
          landed_price = sell_price + wheeling_charge + loss_cost_unit
      in if landed_price \<le> o_price_per_kwh buy then
           Some \<lparr> cd_index = idx, cd_landed_cost = landed_price, cd_match_price = sell_price,
                  cd_wheeling_per_kwh = wheeling_charge, cd_loss_factor = loss_factor,
                  cd_loss_cost_per_kwh = loss_cost_unit \<rparr>
         else None)"

definition candidates_for :: "env \<Rightarrow> grid_topology \<Rightarrow> order_row \<Rightarrow> order_row list \<Rightarrow> candidate list" where
  "candidates_for e grid buy sells =
     sort_key cd_landed_cost (List.map_filter (candidate_of e grid buy) (enumerate 0 sells))"

subsection \<open>A match\<close>

text \<open>The match on the chain: every failure is logged and dropped.\<close>

definition onchain_match :: "env \<Rightarrow> decimal \<Rightarrow> string option \<Rightarrow> string option \<Rightarrow> (world, unit) io" where
  "onchain_match e energy_amount buy_order_pda sell_order_pda =
    bnd (attempt (call_str e GetAuthority)) (\<lambda>res. case res of
      Inl _ \<Rightarrow> ret ()
    | Inr authority \<Rightarrow>
        bnd (attempt (call_str e TradingProgramId)) (\<lambda>prog.
        let market = (case prog of Inr p \<Rightarrow> p | Inl _ \<Rightarrow> replicate 32 (CHR ''1'')) in
        case (buy_order_pda, sell_order_pda) of
          (Some b_pda, Some s_pda) \<Rightarrow>
            ignore (call_str e (MatchOrders authority market b_pda s_pda (to_raw e energy_amount 9)))
        | _ \<Rightarrow> ret ()))"

definition create_order_match ::
  "env \<Rightarrow> matching_engine \<Rightarrow> uuid \<Rightarrow> uuid \<Rightarrow> uuid \<Rightarrow> decimal \<Rightarrow> decimal \<Rightarrow> string option \<Rightarrow> string option \<Rightarrow> (world, uuid) io" where
  "create_order_match e g epoch_id buy_order_id sell_order_id energy_amount price_per_kwh buy_order_pda sell_order_pda =
    bnd (fresh_uuid e) (\<lambda>match_id.
    bnd get_clock (\<lambda>now.
    sq (save_order_match
         \<lparr> m_id = match_id, m_epoch_id = epoch_id, m_buy_order_id = buy_order_id, m_sell_order_id = sell_order_id,
           m_matched_amount = energy_amount, m_match_price = price_per_kwh, m_match_time = now,
           m_status = order_status_as_str Pending \<rparr>)
    (sq (if eng_blockchain g then onchain_match e energy_amount buy_order_pda sell_order_pda else ret ())
        (ret match_id))))"

definition trigger_settlement :: "env \<Rightarrow> matching_engine \<Rightarrow> trade_match \<Rightarrow> (world, unit) io" where
  "trigger_settlement e g trade = (case eng_settlement g of
      None \<Rightarrow> ret ()
    | Some cfg \<Rightarrow>
        bnd (fresh_uuid e) (\<lambda>i. bnd get_clock (\<lambda>now.
        bnd (attempt (create_settlement e cfg (trade\<lparr>tm_id := i, tm_matched_at := now\<rparr>))) (\<lambda>res. case res of
          Inr s \<Rightarrow> ignore (exec (link_settlement (tm_match_id trade) (sv_id s)))
        | Inl _ \<Rightarrow> ret ()))))"

definition set_fill :: "uuid \<Rightarrow> decimal \<Rightarrow> OrderStatus \<Rightarrow> (world, unit) io" where
  "set_fill i filled status =
     ignore (exec (upd_order i (\<lambda>r. r\<lparr>o_filled_amount := Some filled, o_status := status\<rparr>)))"

text \<open>
  The state of a cycle: the sell orders with the fills of this cycle, the fill and the rest of the
  buy order at hand, and the two counters.
\<close>

record cycle_state =
  cy_sells :: "order_row list"
  cy_buy_filled :: decimal
  cy_remaining :: decimal
  cy_matches :: nat
  cy_volume :: decimal

text \<open>The trade handed to the settlement service; its identifier and time are set there.\<close>

definition trade_of :: "env \<Rightarrow> order_row \<Rightarrow> order_row \<Rightarrow> candidate \<Rightarrow> decimal \<Rightarrow> uuid \<Rightarrow> uuid \<Rightarrow> trade_match" where
  "trade_of e buy sell c match_amount match_id epoch_id =
    \<lparr> tm_id = 0, tm_match_id = match_id, tm_epoch_id = epoch_id, tm_buyer_id = o_user_id buy, tm_seller_id = o_user_id sell,
      tm_buy_order_id = o_id buy, tm_sell_order_id = o_id sell, tm_quantity = match_amount, tm_price = cd_match_price c,
      tm_total_value = dmul e match_amount (cd_match_price c),
      tm_wheeling_charge = dmul e match_amount (cd_wheeling_per_kwh c), tm_loss_factor = cd_loss_factor c,
      tm_loss_cost = dmul e match_amount (cd_loss_cost_per_kwh c), tm_buyer_zone_id = o_zone_id buy,
      tm_seller_zone_id = o_zone_id sell, tm_matched_at = 0, tm_buyer_session_token = o_session_token buy,
      tm_seller_session_token = o_session_token sell \<rparr>"

definition match_candidate :: "env \<Rightarrow> matching_engine \<Rightarrow> order_row \<Rightarrow> candidate \<Rightarrow> cycle_state \<Rightarrow> (world, cycle_state) io" where
  "match_candidate e g buy c st =
    (let sell = cy_sells st ! cd_index c; sell_filled = unwrap_or (o_filled_amount sell) 0;
         remaining_sell = o_energy_amount sell - sell_filled in
     if remaining_sell \<le> 0 then ret st
     else
      let match_amount = (if cy_remaining st < remaining_sell then cy_remaining st else remaining_sell) in
      bnd (ok_or (case o_epoch_id buy of Some i \<Rightarrow> Some i | None \<Rightarrow> o_epoch_id sell) (Anyhow ''Epoch ID required'')) (\<lambda>epoch_id.
      bnd (attempt (create_order_match e g epoch_id (o_id buy) (o_id sell) match_amount (cd_match_price c)
             (o_order_pda buy) (o_order_pda sell))) (\<lambda>res. case res of
        Inl _ \<Rightarrow> ret st
      | Inr match_id \<Rightarrow>
          sq (trigger_settlement e g (trade_of e buy sell c match_amount match_id epoch_id))
          (let sell' = sell\<lparr>o_filled_amount := Some (sell_filled + match_amount)\<rparr>;
               new_sell_status = (if sell_filled + match_amount \<ge> o_energy_amount sell then Filled else PartiallyFilled)
           in sq (set_fill (o_id sell) (sell_filled + match_amount) new_sell_status)
             (ret (st\<lparr>cy_sells := (cy_sells st)[cd_index c := sell'],
                      cy_buy_filled := cy_buy_filled st + match_amount,
                      cy_remaining := cy_remaining st - match_amount,
                      cy_matches := Suc (cy_matches st), cy_volume := cy_volume st + match_amount\<rparr>))))))"

primrec match_candidates :: "env \<Rightarrow> matching_engine \<Rightarrow> order_row \<Rightarrow> candidate list \<Rightarrow> cycle_state \<Rightarrow> (world, cycle_state) io" where
  "match_candidates e g buy [] st = ret st"
| "match_candidates e g buy (c # cs) st =
    (if cy_remaining st \<le> 0 then ret st
     else bnd (match_candidate e g buy c st) (match_candidates e g buy cs))"

subsection \<open>The automated market maker\<close>

definition curve_type_idx :: "string option \<Rightarrow> nat" where
  "curve_type_idx src = (if src = Some ''wind'' then 1 else if src = Some ''battery'' then 2 else 0)"

definition attempt_amm_match :: "env \<Rightarrow> matching_engine \<Rightarrow> order_row \<Rightarrow> decimal \<Rightarrow> (world, decimal) io" where
  "attempt_amm_match e g order remaining_amount =
    (if \<not> eng_blockchain g then fail (Anyhow ''Blockchain service not available for AMM'')
     else if o_is_confidential order then ret 0
     else
      bnd (call_str e TradingProgramId) (\<lambda>program_id.
      bnd (pubkey_from_str e (unwrap_or (env_var e ''ENERGY_TOKEN_MINT'') ''Geq98m3Vw63AqrMEVoZsiW5DbNkScteZAdWDmm95ykYF'')) (\<lambda>energy_mint.
      bnd (pubkey_from_str e (unwrap_or (env_var e ''PAYMENT_TOKEN_MINT'') ''TokenkegQfeZyiNwAJbNbGKPFXCWuBvf9Ss623VQ5DA'')) (\<lambda>currency_mint.
      bnd (fetch_one (\<lambda>d. users d (o_user_id order))) (\<lambda>user.
      bnd (ok_or (wallet_address user) (Anyhow ''User has no wallet'')) (\<lambda>user_wallet_str.
      bnd (pubkey_from_str e user_wallet_str) (\<lambda>user_wallet.
      bnd (call_str e GetAuthority) (\<lambda>authority.
      bnd (call_str e (EnsureTokenAccount authority user_wallet energy_mint)) (\<lambda>user_energy_ata.
      bnd (call_str e (EnsureTokenAccount authority user_wallet currency_mint)) (\<lambda>user_currency_ata.
      let amount_milli_kwh = to_raw e remaining_amount 3;
          max_currency = to_raw e (dmul e remaining_amount (o_price_per_kwh order)) 6
      in if amount_milli_kwh = 0 then ret 0
         else bnd (call_str e (SwapBuyEnergy authority program_id (curve_type_idx (o_energy_source order))
                     user_energy_ata user_currency_ata energy_mint currency_mint amount_milli_kwh max_currency))
                (\<lambda>_. ret remaining_amount)))))))))))"

subsection \<open>The cycle\<close>

text \<open>What happens to a buy order after its candidates.\<close>

definition finish_buy :: "env \<Rightarrow> matching_engine \<Rightarrow> order_row \<Rightarrow> cycle_state \<Rightarrow> (world, unit) io" where
  "finish_buy e g buy st =
    (let new_buy_status = (if cy_buy_filled st \<ge> o_energy_amount buy then Filled
           else if cy_buy_filled st > 0 then PartiallyFilled else Active) in
     sq (set_fill (o_id buy) (cy_buy_filled st) new_buy_status)
     (if cy_remaining st > min_trade_amount \<and> new_buy_status \<noteq> Filled then
        bnd (attempt (attempt_amm_match e g buy (cy_remaining st))) (\<lambda>res. case res of
          Inr filled \<Rightarrow>
            set_fill (o_id buy) (cy_buy_filled st + filled)
              (if cy_buy_filled st + filled \<ge> o_energy_amount buy then Filled else PartiallyFilled)
        | Inl _ \<Rightarrow> ret ())
      else ret ()))"

definition match_buy :: "env \<Rightarrow> matching_engine \<Rightarrow> order_row \<Rightarrow> cycle_state \<Rightarrow> (world, cycle_state) io" where
  "match_buy e g buy st =
    (let buy_filled = unwrap_or (o_filled_amount buy) 0; remaining = o_energy_amount buy - buy_filled in
     if remaining < min_trade_amount then
       sq (if remaining > 0 then ignore (exec (upd_order (o_id buy) (\<lambda>r. r\<lparr>o_status := Cancelled\<rparr>))) else ret ())
          (ret st)
     else
       bnd (match_candidates e g buy (candidates_for e (eng_grid g) buy (cy_sells st))
              (st\<lparr>cy_buy_filled := buy_filled, cy_remaining := remaining\<rparr>)) (\<lambda>st'.
       sq (finish_buy e g buy st') (ret st')))"

primrec match_buys :: "env \<Rightarrow> matching_engine \<Rightarrow> order_row list \<Rightarrow> cycle_state \<Rightarrow> (world, cycle_state) io" where
  "match_buys e g [] st = ret st"
| "match_buys e g (b # bs) st = bnd (match_buy e g b st) (match_buys e g bs)"

definition engine_buys :: "db \<Rightarrow> order_row list" where
  "engine_buys d = sort_key created_key (filter (\<lambda>r. o_side r = Buy \<and> open_order r) (orders d))"

definition engine_sells :: "db \<Rightarrow> order_row list" where
  "engine_sells d = sort_key o_price_per_kwh (sort_key created_key (filter (\<lambda>r. o_side r = Sell \<and> open_order r) (orders d)))"

definition match_orders_cycle :: "env \<Rightarrow> matching_engine \<Rightarrow> (world, nat \<times> decimal) io" where
  "match_orders_cycle e g =
    bnd (query engine_buys) (\<lambda>buy_orders.
    bnd (query engine_sells) (\<lambda>sell_orders.
    if buy_orders = [] \<or> sell_orders = [] then ret (0, 0)
    else bnd (match_buys e g buy_orders
           \<lparr>cy_sells = sell_orders, cy_buy_filled = 0, cy_remaining = 0, cy_matches = 0, cy_volume = 0\<rparr>) (\<lambda>st.
      ret (cy_matches st, cy_volume st))))"

definition trigger_matching :: "env \<Rightarrow> matching_engine \<Rightarrow> (world, nat \<times> decimal) io" where
  "trigger_matching e g = match_orders_cycle e g"

text \<open>
  The loop, along the values of the running flag that its rounds read: \<open>True\<close> when it has seen the
  flag cleared and ended, \<open>False\<close> when it is still running after these rounds.
\<close>

primrec run_matching_loop :: "env \<Rightarrow> matching_engine \<Rightarrow> bool list \<Rightarrow> (world, bool) io" where
  "run_matching_loop e g [] = ret False"
| "run_matching_loop e g (running # rest) =
    (if \<not> running then ret True
     else sq (ignore (expire_stale_orders e g))
         (sq (ignore (match_orders_cycle e g))
         (sq (sleep (match_interval_secs g)) (run_matching_loop e g rest))))"

subsection \<open>The trades of a run\<close>

text \<open>The rows of \<open>order_matches\<close> without the link to a settlement, and what keeps them.\<close>

definition trades :: "db \<Rightarrow> order_match list" where
  "trades d = map order_match.truncate (order_matches d)"

lemma trades_frame [simp]:
  "trades (upd_order i f d) = trades d" "trades (add_settlement r d) = trades d" "trades (link_settlement j i d) = trades d"
  "trades (add_match (match_row_of m) d) = trades d @ [m]"
  by (simp_all add: trades_def upd_order_def add_settlement_def link_settlement_def map_update_where_same add_match_def
      match_row_of_def order_match.defs)

lemma engine_calls_keep [keeps_db_intros]:
  "keeps_db I (onchain_match e a b s)" "keeps_db I (attempt_amm_match e g r a)"
  unfolding onchain_match_def attempt_amm_match_def pubkey_from_str_def Let_def
  by (intro keeps_db_intros)+

lemma set_fill_keeps: "(\<And>i f d. I d \<Longrightarrow> I (upd_order i f d)) \<Longrightarrow> keeps_db I (set_fill i a st)"
  unfolding set_fill_def by (intro keeps_db_intros)

lemma trigger_settlement_keeps:
  assumes "\<And>r d. I d \<Longrightarrow> settlement_fk r d \<Longrightarrow> I (add_settlement r d)" and "\<And>m i d. I d \<Longrightarrow> I (link_settlement m i d)"
  shows "keeps_db I (trigger_settlement e g t)"
  unfolding trigger_settlement_def create_settlement_def Let_def
  by (intro keeps_db_intros assms)

lemma finish_buy_keeps: "(\<And>i f d. I d \<Longrightarrow> I (upd_order i f d)) \<Longrightarrow> keeps_db I (finish_buy e g b st)"
  unfolding finish_buy_def Let_def by (intro keeps_db_intros set_fill_keeps)

lemma trades_kept:
  "keeps_db (\<lambda>d. trades d = ms) (set_fill i a st)" "keeps_db (\<lambda>d. trades d = ms) (trigger_settlement e g t)"
  "keeps_db (\<lambda>d. trades d = ms) (finish_buy e g b cs)"
  by (intro set_fill_keeps trigger_settlement_keeps finish_buy_keeps; simp)+

lemma onchain_match_Ok: "\<exists>w'. onchain_match e a b s w = (Ok (), w') \<and> db w' = db w"
  by (auto simp: onchain_match_def bnd_app attempt_app ignore_app call_str_def Let_def split: sum.splits option.splits)

lemma create_order_match_run:
  assumes "create_order_match e g ep b s a p bp sp w = (r, w')"
  shows "(\<exists>m i. r = Ok i \<and> trades (db w') = trades (db w) @ [m] \<and> m_buy_order_id m = b \<and> m_sell_order_id m = s
      \<and> m_matched_amount m = a \<and> m_match_price m = p) \<or> (\<exists>er. r = Err er \<and> db w' = db w)"
proof -
  have "\<exists>w2. (if eng_blockchain g then onchain_match e a bp sp else ret ()) w1 = (Ok (), w2) \<and> db w2 = db w1" for w1
    using onchain_match_Ok [of e a bp sp w1] by auto
  then obtain W where "(if eng_blockchain g then onchain_match e a bp sp else ret ()) w1 = (Ok (), W w1) \<and> db (W w1) = db w1" for w1
    by metis
  with assms show ?thesis
    by (auto simp: create_order_match_def bnd_app sq_app fresh_uuid_def get_clock_def save_order_match_def exec_chk_def
        split: option.splits if_splits)
qed

subsection \<open>Fills\<close>

text \<open>The sell orders in memory: what was matched on each is what it lost of its rest.\<close>

definition sells_inv :: "order_row list \<Rightarrow> order_match list \<Rightarrow> order_row list \<Rightarrow> bool" where
  "sells_inv ss ms now \<longleftrightarrow> length now = length ss \<and> (\<forall>k < length ss.
     (\<exists>f. now ! k = (ss ! k)\<lparr>o_filled_amount := f\<rparr>)
     \<and> matched_on m_sell_order_id (o_id (ss ! k)) ms = o_remaining (ss ! k) - o_remaining (now ! k)
     \<and> (matched_on m_sell_order_id (o_id (ss ! k)) ms = 0 \<or> 0 \<le> o_remaining (now ! k)))"

lemma sells_inv_nth:
  assumes "sells_inv ss ms now" and "k < length ss"
  shows "o_id (now ! k) = o_id (ss ! k)" "o_price_per_kwh (now ! k) = o_price_per_kwh (ss ! k)"
    "o_zone_id (now ! k) = o_zone_id (ss ! k)"
proof -
  obtain f where "now ! k = (ss ! k)\<lparr>o_filled_amount := f\<rparr>" using assms by (auto simp: sells_inv_def)
  then show "o_id (now ! k) = o_id (ss ! k)" "o_price_per_kwh (now ! k) = o_price_per_kwh (ss ! k)"
    "o_zone_id (now ! k) = o_zone_id (ss ! k)" by simp_all
qed

lemma sells_inv_start: "sells_inv ss [] ss"
proof -
  have "\<exists>f. r = r\<lparr>o_filled_amount := f\<rparr>" for r :: order_row by (rule exI [of _ "o_filled_amount r"]) simp
  then show ?thesis unfolding sells_inv_def by (auto simp: matched_on_def)
qed

lemma sells_inv_step:
  assumes "sells_inv ss ms now" and "distinct (map o_id ss)" and "k < length ss" and "m_sell_order_id m = o_id (ss ! k)"
    and "m_matched_amount m \<le> o_remaining (now ! k)"
  shows "sells_inv ss (ms @ [m])
    (now[k := (now ! k)\<lparr>o_filled_amount := Some (unwrap_or (o_filled_amount (now ! k)) 0 + m_matched_amount m)\<rparr>])"
  unfolding sells_inv_def
proof (intro conjI allI impI)
  let ?now = "now[k := (now ! k)\<lparr>o_filled_amount := Some (unwrap_or (o_filled_amount (now ! k)) 0 + m_matched_amount m)\<rparr>]"
  show "length ?now = length ss" using assms(1) by (simp add: sells_inv_def)
  fix j assume j: "j < length ss"
  have len: "length now = length ss" using assms(1) by (simp add: sells_inv_def)
  have id: "m_sell_order_id m = o_id (ss ! j) \<longleftrightarrow> k = j"
    using assms(2,3,4) j by (auto simp: nth_eq_iff_index_eq distinct_conv_nth)
  show "\<exists>f. ?now ! j = (ss ! j)\<lparr>o_filled_amount := f\<rparr>"
  proof (cases "k = j")
    case True
    then obtain f where "now ! k = (ss ! k)\<lparr>o_filled_amount := f\<rparr>" using assms(1) j by (auto simp: sells_inv_def)
    with True len j show ?thesis by auto
  qed (use assms(1) j in \<open>auto simp: sells_inv_def\<close>)
  show "matched_on m_sell_order_id (o_id (ss ! j)) (ms @ [m]) = o_remaining (ss ! j) - o_remaining (?now ! j)"
    using assms(1) j len by (simp add: sells_inv_def o_remaining_def id nth_list_update)
  show "matched_on m_sell_order_id (o_id (ss ! j)) (ms @ [m]) = 0 \<or> 0 \<le> o_remaining (?now ! j)"
    using assms(1,5) j len by (auto simp: sells_inv_def o_remaining_def id nth_list_update)
qed

text \<open>A trade of the engine: at the ask, for an amount, between orders whose landed cost is covered.\<close>

definition fair_trade :: "env \<Rightarrow> grid_topology \<Rightarrow> order_row list \<Rightarrow> order_row list \<Rightarrow> order_match \<Rightarrow> bool" where
  "fair_trade e grid bs ss m \<longleftrightarrow> (\<exists>b \<in> set bs. \<exists>s \<in> set ss. m_buy_order_id m = o_id b \<and> m_sell_order_id m = o_id s
     \<and> m_match_price m = o_price_per_kwh s \<and> engine_landed e grid b s \<le> o_price_per_kwh b \<and> 0 < m_matched_amount m)"

definition cand_ok :: "env \<Rightarrow> grid_topology \<Rightarrow> order_row \<Rightarrow> order_row list \<Rightarrow> candidate \<Rightarrow> bool" where
  "cand_ok e grid b ss c \<longleftrightarrow> cd_index c < length ss \<and> cd_match_price c = o_price_per_kwh (ss ! cd_index c)
     \<and> cd_landed_cost c = engine_landed e grid b (ss ! cd_index c) \<and> cd_landed_cost c \<le> o_price_per_kwh b"

lemma candidates_ok:
  assumes "c \<in> set (candidates_for e grid b now)"
  shows "cand_ok e grid b now c"
  using assms
  by (auto simp: candidates_for_def List.map_filter_def in_set_enumerate_eq candidate_of_def Let_def cand_ok_def engine_landed_def
      split: if_splits)

lemma candidates_ok_start:
  assumes "sells_inv ss ms now" and "c \<in> set (candidates_for e grid b now)"
  shows "cand_ok e grid b ss c"
proof -
  have c: "cand_ok e grid b now c" by (rule candidates_ok [OF assms(2)])
  then have "cd_index c < length ss" using assms(1) by (simp add: cand_ok_def sells_inv_def)
  with c sells_inv_nth [OF assms(1) this] assms(1) show ?thesis
    by (simp add: cand_ok_def engine_landed_def sells_inv_def)
qed

text \<open>While the candidates of one buy order are tried.\<close>

definition buy_inv :: "env \<Rightarrow> grid_topology \<Rightarrow> order_row list \<Rightarrow> order_row list \<Rightarrow> order_row \<Rightarrow> order_match list \<Rightarrow> cycle_state \<Rightarrow> bool" where
  "buy_inv e grid bs ss b ms st \<longleftrightarrow> sells_inv ss ms (cy_sells st)
     \<and> matched_on m_buy_order_id (o_id b) ms + cy_remaining st = o_remaining b \<and> 0 \<le> cy_remaining st
     \<and> list_all (fair_trade e grid bs ss) ms"

text \<open>A run from trades \<open>ms\<close> in a state \<open>st\<close>: however it ends, the trades it leaves are accounted for,
  and only those of the buy order at hand have grown.\<close>

definition buy_run :: "env \<Rightarrow> grid_topology \<Rightarrow> order_row list \<Rightarrow> order_row list \<Rightarrow> order_row \<Rightarrow> order_match list \<Rightarrow> order_match list
    \<Rightarrow> cycle_state outcome \<times> world \<Rightarrow> bool" where
  "buy_run e grid bs ss b old ms res \<longleftrightarrow> (\<exists>ms' st'. trades (db (snd res)) = old @ ms' \<and> buy_inv e grid bs ss b ms' st'
     \<and> (\<forall>j. j \<noteq> o_id b \<longrightarrow> matched_on m_buy_order_id j ms' = matched_on m_buy_order_id j ms)
     \<and> (\<forall>x. fst res = Ok x \<longrightarrow> x = st'))"

lemma buy_run_same:
  assumes "trades (db w') = old @ ms" and "buy_inv e grid bs ss b ms st"
  shows "buy_run e grid bs ss b old ms (Ok st, w')" "buy_run e grid bs ss b old ms (Err er, w')"
    "buy_run e grid bs ss b old ms (Panic, w')"
  using assms unfolding buy_run_def by auto

lemma buy_inv_step:
  assumes "buy_inv e grid bs ss b ms st" and "cand_ok e grid b ss c" and "b \<in> set bs" and "distinct (map o_id ss)"
    and "m_buy_order_id m = o_id b" "m_sell_order_id m = o_id (cy_sells st ! cd_index c)" "m_match_price m = cd_match_price c"
    and "0 < m_matched_amount m" "m_matched_amount m \<le> cy_remaining st" "m_matched_amount m \<le> o_remaining (cy_sells st ! cd_index c)"
    and "cy_sells st' = (cy_sells st)[cd_index c := (cy_sells st ! cd_index c)\<lparr>o_filled_amount :=
      Some (unwrap_or (o_filled_amount (cy_sells st ! cd_index c)) 0 + m_matched_amount m)\<rparr>]"
    and "cy_remaining st' = cy_remaining st - m_matched_amount m"
  shows "buy_inv e grid bs ss b (ms @ [m]) st'"
proof -
  have k: "cd_index c < length ss" using assms(2) by (simp add: cand_ok_def)
  have si: "sells_inv ss ms (cy_sells st)" using assms(1) by (simp add: buy_inv_def)
  have id: "m_sell_order_id m = o_id (ss ! cd_index c)" using sells_inv_nth(1) [OF si k] assms(6) by simp
  have "fair_trade e grid bs ss m"
    unfolding fair_trade_def using assms(2,3,5,7,8) id k by (intro bexI [of _ b] bexI [of _ "ss ! cd_index c"]) (auto simp: cand_ok_def)
  moreover have "sells_inv ss (ms @ [m]) (cy_sells st')"
    unfolding assms(11) using sells_inv_step [OF si assms(4) k id assms(10)] .
  ultimately show ?thesis using assms(1,5,9,12) by (simp add: buy_inv_def)
qed

lemma match_candidate_run:
  assumes "trades (db w) = old @ ms" and "buy_inv e (eng_grid g) bs ss b ms st" and "cand_ok e (eng_grid g) b ss c"
    and "b \<in> set bs" and "distinct (map o_id ss)" and "0 < cy_remaining st"
  shows "buy_run e (eng_grid g) bs ss b old ms (match_candidate e g b c st w)"
proof -
  let ?s = "cy_sells st ! cd_index c"
  define a where "a = (if cy_remaining st < o_remaining ?s then cy_remaining st else o_remaining ?s)"
  let ?f = "unwrap_or (o_filled_amount ?s) 0"
  let ?ep = "case o_epoch_id b of Some i \<Rightarrow> Some i | None \<Rightarrow> o_epoch_id ?s"
  let ?st = "st\<lparr>cy_sells := (cy_sells st)[cd_index c := ?s\<lparr>o_filled_amount := Some (?f + a)\<rparr>],
     cy_buy_filled := cy_buy_filled st + a, cy_remaining := cy_remaining st - a,
     cy_matches := Suc (cy_matches st), cy_volume := cy_volume st + a\<rparr>"
  let ?after = "\<lambda>i ep. sq (trigger_settlement e g (trade_of e b ?s c a i ep))
     (sq (set_fill (o_id ?s) (?f + a) (if o_energy_amount ?s \<le> ?f + a then Filled else PartiallyFilled)) (ret ?st))"
  note same = buy_run_same [OF assms(1,2)]
  consider "o_remaining ?s \<le> 0" | "?ep = None" "0 < o_remaining ?s" | ep where "?ep = Some ep" "0 < o_remaining ?s"
    by (cases ?ep; force)
  then show ?thesis
  proof cases
    case 1
    then show ?thesis using same by (simp add: match_candidate_def Let_def o_remaining_def)
  next
    case 2
    then show ?thesis using same by (simp add: match_candidate_def Let_def o_remaining_def bnd_app)
  next
    case 3
    obtain q w1 where q: "create_order_match e g ep (o_id b) (o_id ?s) a (cd_match_price c) (o_order_pda b) (o_order_pda ?s) w = (q, w1)"
      by (cases "create_order_match e g ep (o_id b) (o_id ?s) a (cd_match_price c) (o_order_pda b) (o_order_pda ?s) w")
    have run: "match_candidate e g b c st w = (case q of Ok i \<Rightarrow> ?after i ep w1 | Err er \<Rightarrow> (Ok st, w1) | Panic \<Rightarrow> (Panic, w1))"
      using 3 q unfolding match_candidate_def Let_def o_remaining_def [symmetric] a_def [symmetric]
      by (simp add: bnd_app attempt_app split: outcome.split)
    from create_order_match_run [OF q] show ?thesis
    proof (elim disjE exE conjE)
      fix m i
      assume ok: "q = Ok i" and tr: "trades (db w1) = trades (db w) @ [m]"
        and m: "m_buy_order_id m = o_id b" "m_sell_order_id m = o_id ?s" "m_matched_amount m = a" "m_match_price m = cd_match_price c"
      have inv: "buy_inv e (eng_grid g) bs ss b (ms @ [m]) ?st"
        using assms(6) 3 m by (intro buy_inv_step [OF assms(2-5)]) (auto simp: a_def)
      have "keeps_db (\<lambda>d. trades d = old @ ms @ [m]) (?after i ep)" by (intro keeps_db_intros trades_kept)
      then have "trades (db (snd (?after i ep w1))) = old @ ms @ [m]" using tr assms(1) by (auto dest: keeps_dbD)
      moreover have "x = ?st" if "fst (?after i ep w1) = Ok x" for x
        using that by (auto simp: sq_app split: prod.splits outcome.splits)
      ultimately show ?thesis using run ok inv m(1) unfolding buy_run_def by (auto intro!: exI [of _ "ms @ [m]"] exI [of _ ?st])
    next
      fix er assume "q = Err er" "db w1 = db w"
      with run show ?thesis using assms(1) by (simp add: buy_run_same [OF _ assms(2)])
    qed
  qed
qed

lemma match_candidates_run:
  assumes "trades (db w) = old @ ms" and "buy_inv e (eng_grid g) bs ss b ms st" and "\<forall>c \<in> set cs. cand_ok e (eng_grid g) b ss c"
    and "b \<in> set bs" and "distinct (map o_id ss)"
  shows "buy_run e (eng_grid g) bs ss b old ms (match_candidates e g b cs st w)"
  using assms(1-3)
proof (induction cs arbitrary: st w ms)
  case Nil
  then show ?case by (simp add: buy_run_same)
next
  case (Cons c cs)
  show ?case
  proof (cases "cy_remaining st \<le> 0")
    case True
    with Cons.prems show ?thesis by (simp add: buy_run_same)
  next
    case False
    obtain q w1 where q: "match_candidate e g b c st w = (q, w1)" by (cases "match_candidate e g b c st w")
    from match_candidate_run [OF Cons.prems(1,2) _ assms(4,5), of c] Cons.prems(3) False q
    obtain ms1 st1 where 1: "trades (db w1) = old @ ms1" "buy_inv e (eng_grid g) bs ss b ms1 st1"
      "\<And>j. j \<noteq> o_id b \<Longrightarrow> matched_on m_buy_order_id j ms1 = matched_on m_buy_order_id j ms" "\<And>x. q = Ok x \<Longrightarrow> x = st1"
      by (auto simp: buy_run_def)
    show ?thesis
    proof (cases q)
      case (Ok x)
      with 1(4) have x: "x = st1" by simp
      have "buy_run e (eng_grid g) bs ss b old ms1 (match_candidates e g b cs st1 w1)"
        using Cons.prems(3) by (intro Cons.IH 1(1,2)) simp
      with 1(3) have "buy_run e (eng_grid g) bs ss b old ms (match_candidates e g b cs st1 w1)"
        unfolding buy_run_def by auto
      with Ok x q False show ?thesis by (simp add: bnd_app)
    qed (use q False 1 in \<open>auto simp: bnd_app buy_run_def\<close>)
  qed
qed

text \<open>Between buy orders: those done are within their rest, those to come have no trade yet.\<close>

definition cycle_inv :: "env \<Rightarrow> grid_topology \<Rightarrow> order_row list \<Rightarrow> order_row list \<Rightarrow> order_row list \<Rightarrow> order_match list \<Rightarrow> order_row list \<Rightarrow> bool" where
  "cycle_inv e grid bs ss todo ms now \<longleftrightarrow> sells_inv ss ms now \<and> list_all (fair_trade e grid bs ss) ms
     \<and> (\<forall>b \<in> set bs. matched_on m_buy_order_id (o_id b) ms \<le> max 0 (o_remaining b))
     \<and> (\<forall>b \<in> set todo. matched_on m_buy_order_id (o_id b) ms = 0)"

lemma match_buy_run:
  assumes "trades (db w) = old @ ms" and "cycle_inv e (eng_grid g) bs ss (b # todo) ms (cy_sells st)"
    and "distinct (map o_id bs)" "distinct (map o_id ss)" "set (b # todo) \<subseteq> set bs" "distinct (map o_id (b # todo))"
    and "match_buy e g b st w = (r, w')"
  shows "\<exists>ms' now. trades (db w') = old @ ms' \<and> cycle_inv e (eng_grid g) bs ss todo ms' now \<and> (\<forall>x. r = Ok x \<longrightarrow> cy_sells x = now)"
proof (cases "o_remaining b < min_trade_amount")
  case True
  have "keeps_db (\<lambda>d. trades d = old @ ms) (match_buy e g b st)"
    using True unfolding match_buy_def Let_def o_remaining_def by (auto intro!: keeps_db_intros)
  from keeps_dbD [OF this, of w] assms(1,7) have "trades (db w') = old @ ms" by simp
  moreover have "\<forall>x. r = Ok x \<longrightarrow> cy_sells x = cy_sells st"
    using assms(7) True by (auto simp: match_buy_def Let_def o_remaining_def sq_app split: prod.splits outcome.splits)
  moreover have "cycle_inv e (eng_grid g) bs ss todo ms (cy_sells st)" using assms(2) by (simp add: cycle_inv_def)
  ultimately show ?thesis by blast
next
  case False
  let ?st = "st\<lparr>cy_buy_filled := unwrap_or (o_filled_amount b) 0, cy_remaining := o_remaining b\<rparr>"
  let ?cs = "candidates_for e (eng_grid g) b (cy_sells st)"
  have si: "sells_inv ss ms (cy_sells st)" using assms(2) by (simp add: cycle_inv_def)
  have "buy_inv e (eng_grid g) bs ss b ms ?st"
    using assms(2) False by (simp add: cycle_inv_def buy_inv_def min_trade_amount_def)
  moreover have "\<forall>c \<in> set ?cs. cand_ok e (eng_grid g) b ss c" using candidates_ok_start [OF si] by blast
  ultimately have run: "buy_run e (eng_grid g) bs ss b old ms (match_candidates e g b ?cs ?st w)"
    using assms by (intro match_candidates_run) auto
  obtain q w1 where q: "match_candidates e g b ?cs ?st w = (q, w1)" by (cases "match_candidates e g b ?cs ?st w")
  from run q obtain ms1 st1 where 1: "trades (db w1) = old @ ms1" "buy_inv e (eng_grid g) bs ss b ms1 st1"
    "\<And>j. j \<noteq> o_id b \<Longrightarrow> matched_on m_buy_order_id j ms1 = matched_on m_buy_order_id j ms" "\<And>x. q = Ok x \<Longrightarrow> x = st1"
    by (auto simp: buy_run_def)
  have other: "o_id x \<noteq> o_id b" if "x \<in> set bs" "x \<noteq> b" for x
    using assms(3,5) that by (auto simp: distinct_map inj_on_def)
  have "cycle_inv e (eng_grid g) bs ss todo ms1 (cy_sells st1)"
    unfolding cycle_inv_def
  proof (intro conjI ballI)
    fix x assume x: "x \<in> set bs"
    show "matched_on m_buy_order_id (o_id x) ms1 \<le> max 0 (o_remaining x)"
    proof (cases "x = b")
      case True
      have "matched_on m_buy_order_id (o_id b) ms1 \<le> o_remaining b" using 1(2) unfolding buy_inv_def by linarith
      with True show ?thesis by simp
    next
      case xb: False
      with x assms(2) 1(3) [OF other [OF x xb]] show ?thesis by (simp add: cycle_inv_def)
    qed
  next
    fix x assume x: "x \<in> set todo"
    have "o_id x \<noteq> o_id b"
    proof
      assume "o_id x = o_id b"
      then have "o_id b \<in> o_id ` set todo" using imageI [OF x, of o_id] by simp
      with assms(6) show False by simp
    qed
    with x assms(2) 1(3) show "matched_on m_buy_order_id (o_id x) ms1 = 0" by (simp add: cycle_inv_def)
  qed (use 1(2) in \<open>auto simp: buy_inv_def\<close>)
  moreover have fin: "keeps_db (\<lambda>d. trades d = old @ ms1) (sq (finish_buy e g b x) (ret x))" for x
    by (intro keeps_db_intros trades_kept)
  have "trades (db w') = old @ ms1 \<and> (\<forall>x. r = Ok x \<longrightarrow> cy_sells x = cy_sells st1)"
  proof (cases q)
    case (Ok x)
    with 1(4) have x: "x = st1" by simp
    have w': "sq (finish_buy e g b st1) (ret st1) w1 = (r, w')"
      using assms(7) q Ok x False by (simp add: match_buy_def Let_def o_remaining_def bnd_app)
    with keeps_dbD [OF fin, of w1 st1] 1(1) show ?thesis
      by (auto simp: sq_app split: prod.splits outcome.splits)
  qed (use assms(7) q False 1(1) in \<open>auto simp: match_buy_def Let_def o_remaining_def bnd_app\<close>)
  ultimately show ?thesis by blast
qed

lemma match_buys_run:
  assumes "trades (db w) = old @ ms" and "cycle_inv e (eng_grid g) bs ss todo ms (cy_sells st)"
    and "distinct (map o_id bs)" "distinct (map o_id ss)" "set todo \<subseteq> set bs" "distinct (map o_id todo)"
  shows "\<exists>ms' now. trades (db (snd (match_buys e g todo st w))) = old @ ms' \<and> cycle_inv e (eng_grid g) bs ss [] ms' now"
  using assms
proof (induction todo arbitrary: st w ms)
  case Nil
  then show ?case by auto
next
  case (Cons b todo)
  obtain r w1 where r: "match_buy e g b st w = (r, w1)" by (cases "match_buy e g b st w")
  from match_buy_run [OF Cons.prems r] obtain ms1 now where
    1: "trades (db w1) = old @ ms1" "cycle_inv e (eng_grid g) bs ss todo ms1 now" "\<And>x. r = Ok x \<Longrightarrow> cy_sells x = now" by auto
  show ?case
  proof (cases r)
    case (Ok x)
    with 1(2,3) have "cycle_inv e (eng_grid g) bs ss todo ms1 (cy_sells x)" by simp
    from Cons.IH [OF 1(1) this Cons.prems(3,4)] Cons.prems(5,6) r Ok show ?thesis by (simp add: bnd_app)
  qed (use 1 r in \<open>auto simp: bnd_app cycle_inv_def\<close>)
qed

lemma engine_rows_distinct:
  assumes "distinct (map o_id (orders d))"
  shows "distinct (map o_id (engine_buys d))" "distinct (map o_id (engine_sells d))"
  unfolding engine_buys_def engine_sells_def
  using distinct_sort_filter [OF assms] distinct_sort_filter [OF distinct_sort_filter [OF assms], of _ "\<lambda>_. True"] by simp_all

lemma engine_rows_set:
  "set (engine_buys d) = {r \<in> set (orders d). o_side r = Buy \<and> open_order r}"
  "set (engine_sells d) = {r \<in> set (orders d). o_side r = Sell \<and> open_order r}"
  by (auto simp: engine_buys_def engine_sells_def)

lemma match_orders_cycle_run:
  assumes "distinct (map o_id (orders (db w)))"
  shows "\<exists>ms now. trades (db (snd (match_orders_cycle e g w))) = trades (db w) @ ms
    \<and> cycle_inv e (eng_grid g) (engine_buys (db w)) (engine_sells (db w)) [] ms now"
proof -
  let ?bs = "engine_buys (db w)" and ?ss = "engine_sells (db w)"
  let ?st = "\<lparr>cy_sells = ?ss, cy_buy_filled = 0, cy_remaining = 0, cy_matches = 0, cy_volume = 0\<rparr>"
  let ?P = "\<lambda>d. \<exists>ms now. trades d = trades (db w) @ ms \<and> cycle_inv e (eng_grid g) ?bs ?ss [] ms now"
  have inv: "cycle_inv e (eng_grid g) ?bs ?ss todo [] ?ss" for todo
    using sells_inv_start by (simp add: cycle_inv_def)
  then have here: "?P (db w)" by (intro exI [of _ "[]"] exI [of _ ?ss]) simp
  have loop: "?P (db (snd (match_buys e g ?bs ?st w1)))" if "db w1 = db w" for w1
    using match_buys_run [of w1 "trades (db w)" "[]" e g ?bs ?ss ?bs ?st] that inv engine_rows_distinct [OF assms] by simp
  have "db (snd (match_orders_cycle e g w)) = db w
      \<or> db (snd (match_orders_cycle e g w)) = db (snd (match_buys e g ?bs ?st (tick (tick w))))"
    by (auto simp: match_orders_cycle_def bnd_app query_def split: option.split prod.split outcome.split)
  then show ?thesis using here loop [of "tick (tick w)"] by (elim disjE) simp_all
qed

lemma matched_on_other:
  assumes "distinct (map o_id xs)" and "r \<in> set xs" and "r \<notin> rs" and "rs \<subseteq> set xs"
    and "\<And>m. m \<in> set ms \<Longrightarrow> \<exists>x \<in> rs. key m = o_id x"
  shows "matched_on key (o_id r) ms = 0"
proof -
  have "key m \<noteq> o_id r" if m: "m \<in> set ms" for m
  proof
    assume k: "key m = o_id r"
    from assms(5) [OF m] obtain x where x: "x \<in> rs" "key m = o_id x" by blast
    have "inj_on o_id (set xs)" using assms(1) by (simp add: distinct_map)
    from inj_onD [OF this, of x r] x k assms(2-4) show False by auto
  qed
  then have "filter (\<lambda>m. key m = o_id r) ms = []" by (simp add: filter_empty_conv)
  then show ?thesis by (simp only: matched_on_def list.map sum_list.Nil)
qed

subsection \<open>Refunds at expiry\<close>

definition held_money :: "db \<Rightarrow> uuid \<Rightarrow> decimal option" where
  "held_money d u = Option.bind (users d u) locked_amount"

definition held_energy :: "db \<Rightarrow> uuid \<Rightarrow> decimal option" where
  "held_energy d u = Option.bind (users d u) locked_energy"

text \<open>What the orders of a list owe a user: money for what a buy order has not bought, energy for
  what a sell order has not sold.\<close>

definition due_money :: "env \<Rightarrow> order_row list \<Rightarrow> uuid \<Rightarrow> decimal" where
  "due_money e rs u = sum_list (map (\<lambda>r. if o_user_id r = u \<and> o_side r = Buy \<and> 0 < o_remaining r
     then dmul e (o_remaining r) (o_price_per_kwh r) else 0) rs)"

definition due_energy :: "order_row list \<Rightarrow> uuid \<Rightarrow> decimal" where
  "due_energy rs u = sum_list (map (\<lambda>r. if o_user_id r = u \<and> o_side r = Sell \<and> 0 < o_remaining r
     then o_remaining r else 0) rs)"

lemma unlock_commits: "commits (\<lambda>_. True) (unlock_funds u i a s)" "commits (\<lambda>_. True) (unlock_energy u i a s)"
  unfolding unlock_funds_def unlock_energy_def by (intro commits_intros TrueI)+

lemma held_upd_user:
  "held_money (upd_user u f d) v = (if v = u then Option.bind (users d u) (\<lambda>r. locked_amount (f r)) else held_money d v)"
  "held_energy (upd_user u f d) v = (if v = u then Option.bind (users d u) (\<lambda>r. locked_energy (f r)) else held_energy d v)"
  by (cases "users d u"; auto simp: held_money_def held_energy_def)+

lemma held_frame [simp]:
  "held_money (release_escrow p f d) = held_money d" "held_energy (release_escrow p f d) = held_energy d"
  "held_money (upd_order i h d) = held_money d" "held_energy (upd_order i h d) = held_energy d"
  "owned (release_escrow p f d) = owned d" "owned (upd_order i h d) = owned d"
  by (auto simp: held_money_def held_energy_def owned_def)

lemma unlock_effect:
  assumes "faults w = []"
  shows "\<exists>d. unlock_funds u i a s w = (Ok (), w\<lparr>db := d\<rparr>) \<and> orders d = orders (db w) \<and> owned d = owned (db w)
      \<and> held_energy d = held_energy (db w)
      \<and> held_money d = (held_money (db w))(u := sql_add (held_money (db w) u) (- a))"
    and "\<exists>d. unlock_energy u i a s w = (Ok (), w\<lparr>db := d\<rparr>) \<and> orders d = orders (db w) \<and> owned d = owned (db w)
      \<and> held_money d = held_money (db w)
      \<and> held_energy d = (held_energy (db w))(u := sql_add (held_energy (db w) u) (- a))"
proof -
  obtain d where d: "unlock_funds u i a s w = (Ok (), w\<lparr>db := d\<rparr>)"
    using commitsD [OF unlock_commits(1) assms] by blast
  from unlock_funds_Ok [OF d] d show "\<exists>d. unlock_funds u i a s w = (Ok (), w\<lparr>db := d\<rparr>) \<and> orders d = orders (db w)
      \<and> owned d = owned (db w) \<and> held_energy d = held_energy (db w)
      \<and> held_money d = (held_money (db w))(u := sql_add (held_money (db w) u) (- a))"
    by (cases "users (db w) u") (auto simp: fun_eq_iff held_upd_user owned_upd_user owned_def held_money_def held_energy_def)
  obtain d' where d': "unlock_energy u i a s w = (Ok (), w\<lparr>db := d'\<rparr>)"
    using commitsD [OF unlock_commits(2) assms] by blast
  from unlock_energy_Ok [OF d'] d' show "\<exists>d. unlock_energy u i a s w = (Ok (), w\<lparr>db := d\<rparr>) \<and> orders d = orders (db w)
      \<and> owned d = owned (db w) \<and> held_money d = held_money (db w)
      \<and> held_energy d = (held_energy (db w))(u := sql_add (held_energy (db w) u) (- a))"
    by (cases "users (db w) u") (auto simp: fun_eq_iff held_upd_user owned_upd_user owned_def held_money_def held_energy_def)
qed

text \<open>What expiring the orders of a list has done to the tables.\<close>

definition expired :: "env \<Rightarrow> order_row list \<Rightarrow> db \<Rightarrow> db \<Rightarrow> bool" where
  "expired e rs d d' \<longleftrightarrow> orders d' = update_where (\<lambda>r. o_id r \<in> o_id ` set rs) (\<lambda>r. r\<lparr>o_status := Expired\<rparr>) (orders d)
     \<and> owned d' = owned d \<and> (\<forall>u. held_money d' u = sql_add (held_money d u) (- due_money e rs u)
     \<and> held_energy d' u = sql_add (held_energy d u) (- due_energy rs u))"

lemma expire_one_run:
  assumes "faults w = []" and "eng_market_clearing g"
  shows "\<exists>d. expire_one e g r w = (Ok (), w\<lparr>db := d\<rparr>) \<and> expired e [r] (db w) d"
proof -
  let ?d = "upd_order (o_id r) (\<lambda>r. r\<lparr>o_status := Expired\<rparr>) (db w)"
  have w1: "exec (upd_order (o_id r) (\<lambda>r. r\<lparr>o_status := Expired\<rparr>)) w = (Ok (), w\<lparr>db := ?d\<rparr>)"
    using assms(1) by (rule exec_calm)
  have calm: "faults (w\<lparr>db := ?d\<rparr>) = []" using assms(1) by simp
  show ?thesis
  proof (cases "0 < o_remaining r")
    case True
    show ?thesis
    proof (cases "o_side r")
      case Buy
      obtain d where "unlock_funds (o_user_id r) (o_id r) (dmul e (o_remaining r) (o_price_per_kwh r)) ''Order Expired'' (w\<lparr>db := ?d\<rparr>)
          = (Ok (), w\<lparr>db := d\<rparr>)" "orders d = orders ?d" "owned d = owned ?d" "held_energy d = held_energy ?d"
        "held_money d = (held_money ?d)(o_user_id r := sql_add (held_money ?d (o_user_id r)) (- dmul e (o_remaining r) (o_price_per_kwh r)))"
        using unlock_effect(1) [OF calm] by fastforce
      with True Buy assms(2) w1 show ?thesis
        by (auto simp: expire_one_def sq_app ignore_app expired_def due_money_def due_energy_def)
    next
      case Sell
      obtain d where "unlock_energy (o_user_id r) (o_id r) (o_remaining r) ''Order Expired'' (w\<lparr>db := ?d\<rparr>)
          = (Ok (), w\<lparr>db := d\<rparr>)" "orders d = orders ?d" "owned d = owned ?d" "held_money d = held_money ?d"
        "held_energy d = (held_energy ?d)(o_user_id r := sql_add (held_energy ?d (o_user_id r)) (- o_remaining r))"
        using unlock_effect(2) [OF calm] by fastforce
      with True Sell assms(2) w1 show ?thesis
        by (auto simp: expire_one_def sq_app ignore_app expired_def due_money_def due_energy_def)
    qed
  next
    case False
    with w1 show ?thesis
      by (auto simp: expire_one_def sq_app expired_def due_money_def due_energy_def)
  qed
qed

lemma expired_trans:
  assumes "expired e [r] d d1" and "expired e rs d1 d2"
  shows "expired e (r # rs) d d2"
proof -
  have "orders d2 = update_where (\<lambda>x. o_id x \<in> o_id ` set (r # rs)) (\<lambda>r. r\<lparr>o_status := Expired\<rparr>) (orders d)"
    using assms by (auto simp: expired_def update_where_def)
  moreover have "due_money e (r # rs) u = due_money e [r] u + due_money e rs u" "due_energy (r # rs) u = due_energy [r] u + due_energy rs u" for u
    by (simp_all add: due_money_def due_energy_def)
  ultimately show ?thesis using assms by (simp add: expired_def add.commute)
qed

lemma expire_each_run:
  assumes "faults w = []" and "eng_market_clearing g"
  shows "\<exists>d. for_each rs (expire_one e g) w = (Ok (), w\<lparr>db := d\<rparr>) \<and> expired e rs (db w) d"
  using assms(1)
proof (induction rs arbitrary: w)
  case Nil
  have "expired e [] (db w) (db w)" by (simp add: expired_def due_money_def due_energy_def update_where_none)
  then show ?case by (auto intro!: exI [of _ "db w"])
next
  case (Cons r rs)
  obtain d1 where d1: "expire_one e g r w = (Ok (), w\<lparr>db := d1\<rparr>)" "expired e [r] (db w) d1"
    using expire_one_run [OF Cons.prems assms(2)] by blast
  obtain d2 where "for_each rs (expire_one e g) (w\<lparr>db := d1\<rparr>) = (Ok (), w\<lparr>db := d2\<rparr>)" "expired e rs d1 d2"
    using Cons.IH [of "w\<lparr>db := d1\<rparr>"] Cons.prems by auto
  with d1 show ?case by (auto simp: sq_app dest: expired_trans)
qed

subsection \<open>Properties\<close>

text \<open>C3. A matching cycle never sells more than there is: however it ends, the matches it has written
  are each between an open buy and an open sell order, at the price the seller asks, with a landed
  cost (ask, wheeling and losses) that the buyer's price covers, and for every order the matched
  amounts of the cycle add up to at most what the order had left when the cycle began.\<close>

theorem engine_never_overfills:
  assumes "distinct (map o_id (orders (db w)))"
  shows "\<exists>ms. trades (db (snd (match_orders_cycle e g w))) = trades (db w) @ ms
    \<and> (\<forall>m \<in> set ms. \<exists>b \<in> set (orders (db w)). \<exists>s \<in> set (orders (db w)). o_side b = Buy \<and> open_order b \<and> o_side s = Sell \<and> open_order s
        \<and> m_buy_order_id m = o_id b \<and> m_sell_order_id m = o_id s \<and> 0 < m_matched_amount m
        \<and> m_match_price m = o_price_per_kwh s \<and> engine_landed e (eng_grid g) b s \<le> o_price_per_kwh b)
    \<and> (\<forall>r \<in> set (orders (db w)). matched_on m_buy_order_id (o_id r) ms \<le> max 0 (o_remaining r)
        \<and> matched_on m_sell_order_id (o_id r) ms \<le> max 0 (o_remaining r))"
proof -
  let ?bs = "engine_buys (db w)" and ?ss = "engine_sells (db w)"
  obtain ms now where tr: "trades (db (snd (match_orders_cycle e g w))) = trades (db w) @ ms"
    and inv: "cycle_inv e (eng_grid g) ?bs ?ss [] ms now"
    using match_orders_cycle_run [OF assms] by blast
  have fair: "fair_trade e (eng_grid g) ?bs ?ss m" if "m \<in> set ms" for m
    using inv that by (auto simp: cycle_inv_def list_all_iff)
  have sub: "set ?bs \<subseteq> set (orders (db w))" "set ?ss \<subseteq> set (orders (db w))" by (auto simp: engine_rows_set)
  have parties: "\<exists>x \<in> set ?bs. m_buy_order_id m = o_id x" "\<exists>x \<in> set ?ss. m_sell_order_id m = o_id x" if "m \<in> set ms" for m
    using fair [OF that] by (auto simp: fair_trade_def)
  have "matched_on m_buy_order_id (o_id r) ms \<le> max 0 (o_remaining r)" if "r \<in> set (orders (db w))" for r
  proof (cases "r \<in> set ?bs")
    case True
    with inv show ?thesis by (simp add: cycle_inv_def)
  next
    case False
    from matched_on_other [OF assms that this sub(1) parties(1)] show ?thesis by simp
  qed
  moreover have "matched_on m_sell_order_id (o_id r) ms \<le> max 0 (o_remaining r)" if "r \<in> set (orders (db w))" for r
  proof (cases "r \<in> set ?ss")
    case True
    then obtain k where "k < length ?ss" "?ss ! k = r" by (auto simp: in_set_conv_nth)
    with inv show ?thesis by (fastforce simp: cycle_inv_def sells_inv_def)
  next
    case False
    from matched_on_other [OF assms that this sub(2) parties(2)] show ?thesis by simp
  qed
  moreover have "\<exists>b \<in> set (orders (db w)). \<exists>s \<in> set (orders (db w)). o_side b = Buy \<and> open_order b \<and> o_side s = Sell \<and> open_order s
      \<and> m_buy_order_id m = o_id b \<and> m_sell_order_id m = o_id s \<and> 0 < m_matched_amount m
      \<and> m_match_price m = o_price_per_kwh s \<and> engine_landed e (eng_grid g) b s \<le> o_price_per_kwh b" if "m \<in> set ms" for m
    using fair [OF that] unfolding fair_trade_def engine_rows_set by blast
  ultimately show ?thesis using tr by blast
qed

definition engine_db :: db where
  "engine_db = sample_escrow\<lparr>orders := [sample_order 11 1 Buy 10 9 0 Pending, sample_order 12 2 Sell 4 1 0 Active]\<rparr>"

theorem engine_never_overfills_witness:
  "\<exists>ms. trades (db (snd (match_orders_cycle std_env (engine_new std_env) (calm_world engine_db)))) = trades engine_db @ ms
     \<and> matched_on m_sell_order_id 12 ms \<le> 4 \<and> matched_on m_buy_order_id 11 ms \<le> 10"
proof -
  have "distinct (map o_id (orders (db (calm_world engine_db))))" by (simp add: engine_db_def)
  from engine_never_overfills [OF this, of std_env "engine_new std_env"] show ?thesis
    by (auto simp: engine_db_def o_remaining_def)
qed


definition expiry_db :: db where
  "expiry_db = sample_escrow\<lparr>users := [1 \<mapsto> sample_user 80 20 0, 2 \<mapsto> sample_user 5 0 40],
     orders := [sample_order 11 1 Buy 10 2 4 PartiallyFilled, sample_order 12 2 Sell 10 1 0 Filled]\<rparr>"

lemma expiry_db_stale: "filter (stale 1000) (orders expiry_db) = [sample_order 11 1 Buy 10 2 4 PartiallyFilled]"
  by (simp add: expiry_db_def stale_def open_order_def sample_order_def)


text \<open>The candidates of a buy order are exactly the sell orders with at least 0.1 kWh left whose
  landed cost the buyer's price covers, each once, and they are tried cheapest landed cost first.\<close>

theorem candidates_complete_and_sorted:
  "sorted (map cd_landed_cost (candidates_for e grid b ss))
    \<and> distinct (map cd_index (candidates_for e grid b ss))
    \<and> cd_index ` set (candidates_for e grid b ss)
      = {k. k < length ss \<and> min_trade_amount \<le> o_remaining (ss ! k) \<and> engine_landed e grid b (ss ! k) \<le> o_price_per_kwh b}
    \<and> map cd_landed_cost (candidates_for e grid b ss) = map (\<lambda>c. engine_landed e grid b (ss ! cd_index c)) (candidates_for e grid b ss)"
proof (intro conjI)
  let ?f = "candidate_of e grid b"
  have some: "?f (k, s) = Some c \<longleftrightarrow> min_trade_amount \<le> o_remaining s \<and> engine_landed e grid b s \<le> o_price_per_kwh b
      \<and> c = \<lparr> cd_index = k, cd_landed_cost = engine_landed e grid b s, cd_match_price = o_price_per_kwh s,
        cd_wheeling_per_kwh = calculate_wheeling_charge e grid (o_zone_id s) (o_zone_id b),
        cd_loss_factor = calculate_loss_factor e grid (o_zone_id s) (o_zone_id b),
        cd_loss_cost_per_kwh = dmul e (o_price_per_kwh s) (calculate_loss_factor e grid (o_zone_id s) (o_zone_id b)) \<rparr>" for k s c
    by (auto simp: candidate_of_def Let_def engine_landed_def not_less)
  have mem: "c \<in> set (candidates_for e grid b ss) \<longleftrightarrow> (\<exists>k < length ss. ?f (k, ss ! k) = Some c)" for c
    unfolding candidates_for_def set_sort by (force simp: List.map_filter_def in_set_enumerate_eq)
  show "sorted (map cd_landed_cost (candidates_for e grid b ss))" by (simp add: candidates_for_def)
  show "cd_index ` set (candidates_for e grid b ss)
      = {k. k < length ss \<and> min_trade_amount \<le> o_remaining (ss ! k) \<and> engine_landed e grid b (ss ! k) \<le> o_price_per_kwh b}"
    unfolding set_eq_iff image_iff Bex_def mem some by auto
  show "map cd_landed_cost (candidates_for e grid b ss) = map (\<lambda>c. engine_landed e grid b (ss ! cd_index c)) (candidates_for e grid b ss)"
    unfolding map_eq_conv Ball_def mem some by auto
  have "distinct (map cd_index (List.map_filter ?f (enumerate n xs))) \<and> (\<forall>c \<in> set (List.map_filter ?f (enumerate n xs)). n \<le> cd_index c)" for n xs
  proof (induction xs arbitrary: n)
    case (Cons x xs)
    show ?case
    proof (cases "?f (n, x)")
      case (Some c)
      with some [of n x c] have "cd_index c = n" by auto
      with Some Cons.IH [of "Suc n"] show ?thesis by (force simp: map_filter_simps)
    qed (use Cons.IH [of "Suc n"] in \<open>force simp: map_filter_simps\<close>)
  qed (simp add: map_filter_simps)
  then show "distinct (map cd_index (candidates_for e grid b ss))"
    unfolding candidates_for_def by (simp add: distinct_map)
qed

text \<open>The rest of a dust order stays locked: a buy order with something, but less than 0.1 kWh,
  left is cancelled by the cycle without a refund (no user and no escrow record changes), the expiry
  run no longer sees it, and \<open>cancel_order\<close> refuses it from then on.\<close>

theorem dust_order_strands_escrow:
  assumes "faults w = []" and "find_row o_id (o_id b) (orders (db w)) = Some b"
    and "0 < o_remaining b" and "o_remaining b < 1 / 10"
  shows "\<exists>w' b'. match_buy e g b st w = (Ok st, w') \<and> users (db w') = users (db w) \<and> escrow_records (db w') = escrow_records (db w)
    \<and> find_row o_id (o_id b) (orders (db w')) = Some b' \<and> o_remaining b' = o_remaining b \<and> \<not> stale t b'
    \<and> fst (cancel_order e' (o_id b) (o_user_id b) w') = Err (BadRequest ''Order cannot be cancelled'')"
proof -
  let ?d = "upd_order (o_id b) (\<lambda>r. r\<lparr>o_status := Cancelled\<rparr>) (db w)"
  let ?b = "b\<lparr>o_status := Cancelled\<rparr>"
  have run: "match_buy e g b st w = (Ok st, w\<lparr>db := ?d\<rparr>)"
    using assms by (simp add: match_buy_def Let_def o_remaining_def min_trade_amount_def sq_app ignore_app exec_calm)
  have row: "find_row o_id (o_id b) (orders ?d) = Some ?b"
    using assms(2) by (simp add: find_row_update_same)
  have "fst (cancel_order e' (o_id b) (o_user_id b) (w\<lparr>db := ?d\<rparr>)) = Err (BadRequest ''Order cannot be cancelled'')"
    using assms(1) row by (simp add: cancel_order_def bnd_app query_calm)
  with run row show ?thesis
    by (intro exI [of _ "w\<lparr>db := ?d\<rparr>"] exI [of _ ?b]) (simp add: o_remaining_def stale_def open_order_def)
qed

definition dust_db :: db where
  "dust_db = sample_escrow\<lparr>orders := [sample_order 11 1 Buy 10 2 (199 / 20) PartiallyFilled]\<rparr>"

theorem dust_order_strands_escrow_witness:
  "\<exists>w' b'. match_buy std_env (engine_new std_env) (sample_order 11 1 Buy 10 2 (199 / 20) PartiallyFilled)
       \<lparr>cy_sells = [], cy_buy_filled = 0, cy_remaining = 0, cy_matches = 0, cy_volume = 0\<rparr> (calm_world dust_db) = (Ok
       \<lparr>cy_sells = [], cy_buy_filled = 0, cy_remaining = 0, cy_matches = 0, cy_volume = 0\<rparr>, w')
     \<and> users (db w') = users dust_db \<and> find_row o_id 11 (orders (db w')) = Some b' \<and> o_remaining b' = 1 / 20"
proof -
  let ?b = "sample_order 11 1 Buy 10 2 (199 / 20) PartiallyFilled"
  let ?st = "\<lparr>cy_sells = [], cy_buy_filled = 0, cy_remaining = 0, cy_matches = 0, cy_volume = 0\<rparr>"
  have "find_row o_id (o_id ?b) (orders dust_db) = Some ?b" "o_remaining ?b = 1 / 20"
    by (simp_all add: dust_db_def o_remaining_def)
  with dust_order_strands_escrow [of "calm_world dust_db" ?b std_env "engine_new std_env" ?st 0 std_env]
  show ?thesis by auto
qed

end
