(* ===== verification/Tasks.thy ===== *)
theory Tasks
  imports Orders
begin

text \<open>
  The retry queue of on-chain work (\<open>src/src/services/blockchain_task/mod.rs\<close>): cancelling an order
  queues the token refund that the chain refused, a background worker takes the due tasks in batches
  of ten, and a failed task waits with a growing delay until its retries are used up.  The rows are
  read without a surrounding transaction, so \<open>FOR UPDATE SKIP LOCKED\<close> holds no lock across the batch;
  one worker runs.
\<close>

subsection \<open>Retry policies\<close>

text \<open>
  A record that is picked while a counter is below a limit, and whose counter a failure advances:
  the contract of a retry queue, and what it gives.
\<close>

locale retry_policy =
  fixes eligible :: "'r \<Rightarrow> bool" and tries :: "'r \<Rightarrow> int" and max_tries :: "'r \<Rightarrow> int"
    and after_failure :: "'i \<Rightarrow> 'r \<Rightarrow> 'r"
  assumes eligible_below: "eligible r \<Longrightarrow> tries r < max_tries r"
    and failure_counts: "tries (after_failure i r) = tries r + 1"
    and failure_limit: "max_tries (after_failure i r) = max_tries r"
begin

lemma fold_failures:
  "tries (fold after_failure is r) = tries r + int (length is) \<and> max_tries (fold after_failure is r) = max_tries r"
  by (induction "is" arbitrary: r) (simp_all add: failure_counts failure_limit)

lemma exhausted: "max_tries r - tries r \<le> int (length is) \<Longrightarrow> \<not> eligible (fold after_failure is r)"
  using fold_failures [of "is" r] eligible_below [of "fold after_failure is r"] by auto

end

subsection \<open>The service\<close>

text \<open>
  The text of an error that \<open>anyhow\<close> carries: a database error prints the text of the driver.
\<close>

fun anyhow_text :: "api_error \<Rightarrow> string" where
  "anyhow_text (Database m) = m"
| "anyhow_text er = api_display er"

definition queue_task :: "env \<Rightarrow> BlockchainTaskType \<Rightarrow> TaskPayload \<Rightarrow> (world, uuid) io" where
  "queue_task e task_type payload =
    bnd get_clock (\<lambda>now. bnd (fresh_uuid e) (\<lambda>i.
    sq (exec_chk (task_fresh i) (add_task (new_task i task_type (Inr payload) now))) (ret i)))"

definition task_due :: "time \<Rightarrow> task_row \<Rightarrow> bool" where
  "task_due now t \<longleftrightarrow> k_status t \<in> {TkPending, TkFailed} \<and> k_next_retry_at t \<le> now \<and> k_retry_count t < k_max_retries t"

definition due_tasks :: "time \<Rightarrow> db \<Rightarrow> task_row list" where
  "due_tasks now d = take 10 (sort_key k_next_retry_at (filter (task_due now) (blockchain_tasks d)))"

definition upd_task :: "uuid \<Rightarrow> (task_row \<Rightarrow> task_row) \<Rightarrow> db \<Rightarrow> db" where
  "upd_task i f d = d\<lparr>blockchain_tasks := update_where (\<lambda>t. k_id t = i) f (blockchain_tasks d)\<rparr>"

definition complete_task :: "task_row \<Rightarrow> task_row" where
  "complete_task t = t\<lparr>k_status := TkCompleted\<rparr>"

definition mark_as_completed :: "uuid \<Rightarrow> (world, unit) io" where
  "mark_as_completed task_id = exec (upd_task task_id complete_task)"

text \<open>The delay is a power of five seconds; the counter stays below \<open>max_retries\<close>, so it is exact.\<close>

definition fail_task :: "time \<Rightarrow> string \<Rightarrow> task_row \<Rightarrow> task_row" where
  "fail_task now msg t = t\<lparr>
     k_status := (if k_retry_count t + 1 \<ge> k_max_retries t then TkMaxRetries else TkFailed),
     k_retry_count := k_retry_count t + 1, k_last_error := Some msg,
     k_next_retry_at := now + 5 ^ nat (k_retry_count t) * 1000000000\<rparr>"

definition give_up :: "string \<Rightarrow> task_row \<Rightarrow> task_row" where
  "give_up msg t = t\<lparr>k_status := TkMaxRetries, k_last_error := Some msg\<rparr>"

definition mark_as_failed :: "uuid \<Rightarrow> string \<Rightarrow> bool \<Rightarrow> (world, unit) io" where
  "mark_as_failed task_id msg valid_for_retry =
    (if valid_for_retry then bnd get_clock (\<lambda>now. exec (upd_task task_id (fail_task now msg)))
     else exec (upd_task task_id (give_up msg)))"

definition execute_task :: "env \<Rightarrow> BlockchainTaskType \<Rightarrow> TaskPayload \<Rightarrow> (world, unit) io" where
  "execute_task e task_type payload = (case (task_type, payload) of
      (TkEscrowRefund, EscrowRefund p) \<Rightarrow>
        bnd (execute_escrow_refund e (p_user_id p) (p_amount p) (p_asset_type p)) (\<lambda>sig. ret ())
    | _ \<Rightarrow> fail (Anyhow ''Unsupported task type or payload mismatch''))"

definition process_task :: "env \<Rightarrow> task_row \<Rightarrow> (world, unit) io" where
  "process_task e t = (case k_payload t of
      Inl msg \<Rightarrow> mark_as_failed (k_id t) msg False
    | Inr payload \<Rightarrow> bnd (attempt (execute_task e (k_task_type t) payload)) (\<lambda>res. case res of
          Inr _ \<Rightarrow> mark_as_completed (k_id t)
        | Inl er \<Rightarrow> mark_as_failed (k_id t) (anyhow_text er) True))"

definition process_pending_tasks :: "env \<Rightarrow> (world, unit) io" where
  "process_pending_tasks e =
    bnd get_clock (\<lambda>now. bnd (query (due_tasks now)) (\<lambda>tasks. for_each tasks (process_task e)))"

subsection \<open>One task\<close>

lemma task_row_ids [simp]:
  "k_id (complete_task t) = k_id t" "k_id (fail_task now m t) = k_id t" "k_id (give_up m t) = k_id t"
  "k_id (new_task i ty p now) = i"
  by (simp_all add: complete_task_def fail_task_def give_up_def new_task_def)

lemma upd_task_tasks [simp]:
  "blockchain_tasks (upd_task i f d) = update_where (\<lambda>t. k_id t = i) f (blockchain_tasks d)"
  by (simp add: upd_task_def)

interpretation task_retry: retry_policy "task_due now" k_retry_count k_max_retries "\<lambda>(t, m). fail_task t m"
  by unfold_locales (auto simp: task_due_def fail_task_def)

text \<open>What a round may do to a task: nothing, complete it, count a failure, or give up on it.\<close>

definition task_moved :: "task_row \<Rightarrow> task_row \<Rightarrow> bool" where
  "task_moved t t' \<longleftrightarrow> t' = t \<or> t' = complete_task t \<or> (\<exists>now m. t' = fail_task now m t) \<or> (\<exists>m. t' = give_up m t)"

lemma task_moved_refl [simp]: "task_moved t t"
  by (simp add: task_moved_def)

lemma task_moved_id: "task_moved t t' \<Longrightarrow> k_id t' = k_id t"
  by (auto simp: task_moved_def)

lemma refund_frame: "keeps_db (\<lambda>d. d = d0) (execute_escrow_refund e u a k)"
  and refund_quiet: "keeps (quiet_at c n) (execute_escrow_refund e u a k)"
  and refund_no_panic: "no_panic (execute_escrow_refund e u a k)"
  unfolding execute_escrow_refund_def receiver_wallet_def pubkey_from_str_def
  by (intro keeps_db_intros keeps_intros no_panic_intros)+

lemma execute_task_frame: "keeps_db (\<lambda>d. d = d0) (execute_task e ty p)"
  and execute_task_quiet: "keeps (quiet_at c n) (execute_task e ty p)"
  and execute_task_no_panic: "no_panic (execute_task e ty p)"
  unfolding execute_task_def
  by (cases p; cases ty; simp del: ret_app;
      intro keeps_db_intros keeps_intros no_panic_intros refund_frame refund_quiet refund_no_panic)+

lemma execute_task_db: "db (snd (execute_task e ty p w)) = db w"
  using keeps_dbD [OF execute_task_frame [of "db w"], of w] by simp


text \<open>
  Processing one task rewrites its row and no other, whatever the outcome; when no statement is lost
  the task is completed, has failed once more, or is given up.
\<close>

definition task_result :: "env \<Rightarrow> task_row \<Rightarrow> world \<Rightarrow> task_row \<Rightarrow> task_row" where
  "task_result e t w = (case k_payload t of
      Inl m \<Rightarrow> give_up m
    | Inr p \<Rightarrow> (case execute_task e (k_task_type t) p w of
          (Err er, w') \<Rightarrow> fail_task (clock w') (anyhow_text er)
        | _ \<Rightarrow> complete_task))"

lemma task_result_moved: "task_moved r (task_result e t w r)"
  by (auto simp: task_result_def task_moved_def split: sum.split prod.split outcome.split)

lemma process_task_row:
  "blockchain_tasks (db (snd (process_task e t w))) \<in>
     {blockchain_tasks (db w), update_where (\<lambda>r. k_id r = k_id t) (task_result e t w) (blockchain_tasks (db w))}"
proof (cases "k_payload t")
  case (Inl m)
  then show ?thesis
    by (auto simp: process_task_def task_result_def mark_as_failed_def exec_def exec_chk_def split: option.splits)
next
  case (Inr p)
  obtain r w1 where x: "execute_task e (k_task_type t) p w = (r, w1)" by (cases "execute_task e (k_task_type t) p w")
  have "db w1 = db w" using execute_task_db [of e "k_task_type t" p w] x by simp
  moreover have "r \<noteq> Panic" using no_panicD [OF execute_task_no_panic, of e "k_task_type t" p w] x by simp
  ultimately show ?thesis using x Inr
    by (cases r) (auto simp: process_task_def task_result_def mark_as_failed_def mark_as_completed_def exec_def exec_chk_def
        bnd_app attempt_app get_clock_app split: option.splits)
qed

lemma process_task_moves:
  "\<exists>g. (\<forall>r. task_moved r (g r)) \<and> blockchain_tasks (db (snd (process_task e t w)))
     = update_where (\<lambda>r. k_id r = k_id t) g (blockchain_tasks (db w))"
proof (cases "blockchain_tasks (db (snd (process_task e t w))) = blockchain_tasks (db w)")
  case True
  moreover have "update_where (\<lambda>r. k_id r = k_id t) id rs = rs" for rs :: "task_row list" by (induction rs) auto
  ultimately show ?thesis by (auto simp: task_moved_def intro!: exI [of _ id])
next
  case False
  with process_task_row [of e t w] show ?thesis
    by (auto intro!: exI [of _ "task_result e t w"] task_result_moved)
qed

interpretation task_batch: row_batch "\<lambda>w. blockchain_tasks (db w)" k_id "process_task e" "\<lambda>_. task_moved" for e
  by unfold_locales (simp_all add: task_moved_id process_task_moves)

subsection \<open>The queue stays sound\<close>

text \<open>Identifiers are unique, no task has more failures than its limit, and one that has used them up is closed.\<close>

definition task_ok :: "task_row \<Rightarrow> bool" where
  "task_ok t \<longleftrightarrow> 0 \<le> k_retry_count t \<and> k_retry_count t \<le> k_max_retries t
     \<and> (k_retry_count t = k_max_retries t \<longrightarrow> k_status t = TkMaxRetries)"

definition tasks_ok :: "db \<Rightarrow> bool" where
  "tasks_ok d \<longleftrightarrow> distinct (map k_id (blockchain_tasks d)) \<and> (\<forall>t \<in> set (blockchain_tasks d). task_ok t)"

lemma task_moved_ok: "task_ok t \<Longrightarrow> k_retry_count t < k_max_retries t \<Longrightarrow> task_moved t t' \<Longrightarrow> task_ok t'"
  by (auto simp: task_moved_def task_ok_def complete_task_def fail_task_def give_up_def)

lemma due_tasks_set: "t \<in> set (due_tasks now d) \<Longrightarrow> t \<in> set (blockchain_tasks d) \<and> task_due now t"
  unfolding due_tasks_def by (drule in_set_takeD) auto

lemma due_tasks_distinct: "distinct (map k_id (blockchain_tasks d)) \<Longrightarrow> distinct (map k_id (due_tasks now d))"
  unfolding due_tasks_def take_map [symmetric] by (intro distinct_take distinct_sort_filter)

lemma process_pending_tasks_keeps: "keeps_db tasks_ok (process_pending_tasks e)"
  unfolding keeps_db_def keeps_def
proof (intro allI impI)
  fix w :: world assume ok: "tasks_ok (db w)"
  let ?ts = "due_tasks (clock w) (db w)"
  have ids: "distinct (map k_id (blockchain_tasks (db w)))" using ok by (simp add: tasks_ok_def)
  have "set ?ts \<subseteq> set (blockchain_tasks (db w))" using due_tasks_set by blast
  with ok have "tasks_ok (db (snd (for_each ?ts (process_task e) (tick w))))"
    unfolding tasks_ok_def
    by (intro task_batch.batch_invariant) (auto simp: due_tasks_distinct task_due_def dest!: due_tasks_set intro: task_moved_ok)
  with ok show "tasks_ok (db (snd (process_pending_tasks e w)))"
    by (auto simp: process_pending_tasks_def bnd_app get_clock_app query_def split: option.splits)
qed

lemma tasks_ok_add: "tasks_ok d \<Longrightarrow> task_fresh i d \<Longrightarrow> tasks_ok (add_task (new_task i ty p now) d)"
  by (auto simp: tasks_ok_def add_task_def task_fresh_def list_all_iff new_task_def task_ok_def)

lemma queue_keeps:
  "keeps_db tasks_ok (queue_task e ty p)" "keeps_db tasks_ok (queue_blockchain_task e s p)"
  unfolding queue_task_def queue_blockchain_task_def by (intro keeps_db_intros tasks_ok_add | assumption)+


subsection \<open>A round when no statement is lost\<close>

lemma process_task_calm:
  assumes "faults w = []" and "process_task e t w = (r, w')"
  shows "r = Ok () \<and> faults w' = [] \<and> clock w' = clock w
    \<and> blockchain_tasks (db w') = update_where (\<lambda>x. k_id x = k_id t) (task_result e t w) (blockchain_tasks (db w))"
proof (cases "k_payload t")
  case (Inl m)
  then show ?thesis using assms by (auto simp: process_task_def task_result_def mark_as_failed_def exec_calm)
next
  case (Inr p)
  obtain r1 w1 where x: "execute_task e (k_task_type t) p w = (r1, w1)" by (cases "execute_task e (k_task_type t) p w")
  have "db w1 = db w" "faults w1 = []" "clock w1 = clock w" "r1 \<noteq> Panic"
    using execute_task_db [of e "k_task_type t" p w] no_panicD [OF execute_task_no_panic, of e "k_task_type t" p w]
      quiet_atD [OF execute_task_quiet assms(1), of e "k_task_type t" p] x by simp_all
  with x Inr assms(2) show ?thesis
    by (cases r1) (auto simp: process_task_def task_result_def mark_as_failed_def mark_as_completed_def exec_calm
        bnd_app attempt_app get_clock_app)
qed

text \<open>What a round does to a due task: it completes it, counts one failure, or gives up on an unreadable payload.\<close>

definition task_settled :: "time \<Rightarrow> task_row \<Rightarrow> task_row \<Rightarrow> bool" where
  "task_settled now t t' \<longleftrightarrow> t' = complete_task t \<and> \<not> isl (k_payload t)
     \<or> (\<exists>m. t' = fail_task now m t \<and> \<not> isl (k_payload t)) \<or> (\<exists>m. k_payload t = Inl m \<and> t' = give_up m t)"

lemma task_result_settled:
  assumes "faults w = []" shows "task_settled (clock w) t (task_result e t w t)"
proof (cases "k_payload t")
  case (Inr p)
  then show ?thesis using quiet_atD [OF execute_task_quiet assms, of e "k_task_type t" p]
    by (auto simp: task_result_def task_settled_def split: prod.split outcome.split)
qed (simp add: task_result_def task_settled_def)

lemma process_tasks_calm:
  assumes "faults w = []" and "distinct (map k_id ts)"
    and "\<And>t. t \<in> set ts \<Longrightarrow> find_row k_id (k_id t) (blockchain_tasks (db w)) = Some t"
    and "for_each ts (process_task e) w = (r, w')"
  shows "r = Ok () \<and> faults w' = [] \<and> clock w' = clock w
    \<and> (\<forall>t \<in> set ts. \<exists>t'. find_row k_id (k_id t) (blockchain_tasks (db w')) = Some t' \<and> task_settled (clock w) t t')
    \<and> (\<forall>i. i \<notin> k_id ` set ts \<longrightarrow> find_row k_id i (blockchain_tasks (db w')) = find_row k_id i (blockchain_tasks (db w)))"
  using assms
proof (induction ts arbitrary: w)
  case (Cons t ts)
  obtain r1 w1 where x: "process_task e t w = (r1, w1)" by (cases "process_task e t w")
  note step = process_task_calm [OF Cons.prems(1) x]
  have other: "find_row k_id i (blockchain_tasks (db w1)) = find_row k_id i (blockchain_tasks (db w))" if "i \<noteq> k_id t" for i
    using step that task_moved_id [OF task_result_moved] by (simp add: find_row_update_other)
  have self: "find_row k_id (k_id t) (blockchain_tasks (db w1)) = Some (task_result e t w t)"
    using step Cons.prems(3) [of t] task_moved_id [OF task_result_moved] by (simp add: find_row_update_same)
  have keep: "find_row k_id (k_id x) (blockchain_tasks (db w1)) = Some x" if "x \<in> set ts" for x
  proof -
    have "k_id x \<noteq> k_id t" using Cons.prems(2) that by (auto simp: image_iff)
    with other Cons.prems(3) [of x] that show ?thesis by simp
  qed
  have "for_each ts (process_task e) w1 = (r, w')" using Cons.prems(4) x step by (simp add: sq_app)
  from Cons.IH [OF _ _ keep this] step Cons.prems(2)
  have ih: "r = Ok ()" "faults w' = []" "clock w' = clock w"
    "\<forall>x \<in> set ts. \<exists>t'. find_row k_id (k_id x) (blockchain_tasks (db w')) = Some t' \<and> task_settled (clock w) x t'"
    "\<forall>i. i \<notin> k_id ` set ts \<longrightarrow> find_row k_id i (blockchain_tasks (db w')) = find_row k_id i (blockchain_tasks (db w1))"
    by auto
  moreover have "k_id t \<notin> k_id ` set ts" using Cons.prems(2) by simp
  ultimately show ?case using other self task_result_settled [OF Cons.prems(1), of t e] by auto
qed simp


subsection \<open>Properties\<close>

text \<open>
  One operation on the queue, with any outcome: a task is queued directly or by cancelling an order,
  the worker runs a round, or something happens that leaves the queue alone.
\<close>

inductive queue_step :: "env \<Rightarrow> world \<Rightarrow> world \<Rightarrow> bool" for e where
  queue: "queue_task e ty p w = (r, w') \<Longrightarrow> queue_step e w w'"
| cancel: "cancel_order e i u w = (r, w') \<Longrightarrow> queue_step e w w'"
| work: "process_pending_tasks e w = (r, w') \<Longrightarrow> queue_step e w w'"
| elsewhere: "blockchain_tasks (db w') = blockchain_tasks (db w) \<Longrightarrow> queue_step e w w'"

lemma tasks_ok_cong: "blockchain_tasks d' = blockchain_tasks d \<Longrightarrow> tasks_ok d' = tasks_ok d"
  by (simp add: tasks_ok_def)

lemma tasks_frame [simp]:
  "tasks_ok (upd_user u f d) = tasks_ok d" "tasks_ok (release_escrow p g d) = tasks_ok d"
  "tasks_ok (upd_order i h d) = tasks_ok d"
  by (rule tasks_ok_cong; simp add: upd_order_def)+

lemma cancel_order_keeps_tasks: "keeps_db tasks_ok (cancel_order e i u)"
  unfolding cancel_order_def Let_def
  by (intro keeps_db_intros queue_keeps) (auto split: OrderSide.split)

lemma queue_step_keeps:
  assumes "queue_step e w w'" and "tasks_ok (db w)"
  shows "tasks_ok (db w')"
  using assms(1)
proof cases
  case queue
  show ?thesis by (rule keeps_dbE [OF queue_keeps(1) queue assms(2)])
next
  case cancel
  show ?thesis by (rule keeps_dbE [OF cancel_order_keeps_tasks cancel assms(2)])
next
  case work
  show ?thesis by (rule keeps_dbE [OF process_pending_tasks_keeps work assms(2)])
next
  case elsewhere
  with assms(2) show ?thesis by (simp add: tasks_ok_def)
qed

text \<open>
  C30. The retry queue stays sound.  Along any sequence of queueing, cancelling orders, worker rounds
  and other activity, with any statements lost and any answers of the blockchain: task identifiers
  stay unique, the failure count of a task stays between zero and its limit, and a task that has
  used up its retries is closed as \<open>max_retries\<close>.
\<close>

theorem task_queue_sound:
  assumes "(queue_step e)\<^sup>*\<^sup>* w w'" and "tasks_ok (db w)"
  shows "tasks_ok (db w')"
  using assms by (induction rule: rtranclp_induct) (auto dest: queue_step_keeps)

text \<open>
  A worker round when no statement is lost.  The round returns; every due task of the batch is
  completed, or has one more failure and waits for a power of five seconds, or, when its payload
  cannot be read, is closed; every other task is as it was.
\<close>

theorem worker_round:
  assumes "faults w = []" and "tasks_ok (db w)" and "process_pending_tasks e w = (r, w')"
  shows "r = Ok ()
    \<and> (\<forall>t \<in> set (due_tasks (clock w) (db w)). \<exists>t'.
          find_row k_id (k_id t) (blockchain_tasks (db w')) = Some t' \<and> task_settled (clock w) t t')
    \<and> (\<forall>i. i \<notin> k_id ` set (due_tasks (clock w) (db w)) \<longrightarrow>
          find_row k_id i (blockchain_tasks (db w')) = find_row k_id i (blockchain_tasks (db w)))"
proof -
  let ?ts = "due_tasks (clock w) (db w)"
  have run: "for_each ?ts (process_task e) w = (r, w')"
    using assms(1,3) by (simp add: process_pending_tasks_def bnd_app get_clock_app query_calm)
  have ids: "distinct (map k_id (blockchain_tasks (db w)))" using assms(2) by (simp add: tasks_ok_def)
  show ?thesis
    using process_tasks_calm [OF assms(1) due_tasks_distinct [OF ids] find_row_distinct [OF ids] run]
    by (auto dest: due_tasks_set)
qed


definition sample_task :: task_row where
  "sample_task = new_task 5 TkEscrowRefund (Inr (refund_payload 1 20 ''currency'' 9)) 500"

definition task_db :: db where
  "task_db = empty_db\<lparr>users := [1 \<mapsto> sample_user 100 0 0], blockchain_tasks := [sample_task]\<rparr>"

lemma sample_task_fields [simp]:
  "k_id sample_task = 5" "k_payload sample_task = Inr (refund_payload 1 20 ''currency'' 9)"
  "k_task_type sample_task = TkEscrowRefund" "k_next_retry_at sample_task = 500" "k_status sample_task = TkPending"
  "k_retry_count sample_task = 0" "k_max_retries sample_task = 5"
  by (simp_all add: sample_task_def new_task_def)

lemma task_db_tasks [simp]:
  "blockchain_tasks task_db = [sample_task]" "users task_db = [1 \<mapsto> sample_user 100 0 0]" "tasks_ok task_db"
  by (simp_all add: task_db_def tasks_ok_def task_ok_def)

lemma task_db_due [simp]: "due_tasks 1000 task_db = [sample_task]"
  by (simp add: due_tasks_def task_due_def)

theorem task_queue_sound_witness: "tasks_ok (db (snd (process_pending_tasks std_env (calm_world task_db))))"
proof -
  have "queue_step std_env (calm_world task_db) (snd (process_pending_tasks std_env (calm_world task_db)))"
    by (rule queue_step.work [of _ _ "fst (process_pending_tasks std_env (calm_world task_db))"]) simp
  from task_queue_sound [OF r_into_rtranclp [of "queue_step std_env", OF this]] show ?thesis by simp
qed

theorem worker_round_witness:
  "\<exists>w' t'. process_pending_tasks std_env (calm_world task_db) = (Ok (), w')
     \<and> find_row k_id 5 (blockchain_tasks (db w')) = Some t' \<and> task_settled 1000 sample_task t'"
proof -
  obtain r w' where run: "process_pending_tasks std_env (calm_world task_db) = (r, w')"
    by (cases "process_pending_tasks std_env (calm_world task_db)")
  from worker_round [OF _ _ run] run show ?thesis by auto
qed

text \<open>
  Cancelling hands a refused refund to the worker.  When the tables accept a cancellation and the
  blockchain refuses its refund, the cancellation still succeeds and the queue gains one task: due at
  once, carrying exactly the owner, the amount and the asset of the refund.  Whenever the worker
  processes that task at a moment the blockchain accepts the refund, the task is completed.
\<close>

theorem refused_refund_is_queued:
  assumes "faults w = []" and "find_row o_id i (orders (db w)) = Some row" and "cancellable u row"
    and "refund_of e row = (k, a)" and "0 < a" and "task_fresh (new_v4 e (uuids w)) (db w)"
    and "execute_escrow_refund e u a k (w\<lparr>db := unplace e row (db w)\<rparr>) = (Err er, w1)"
  shows "\<exists>t w'. cancel_order e i u w = (Ok (), w') \<and> blockchain_tasks (db w') = blockchain_tasks (db w) @ [t]
    \<and> task_due (clock w') t \<and> k_payload t = Inr (refund_payload u a k i)
    \<and> (\<forall>v sig v'. faults v = [] \<longrightarrow> execute_escrow_refund e u a k v = (Ok sig, v') \<longrightarrow>
         process_task e t v = (Ok (), v'\<lparr>db := upd_task (k_id t) complete_task (db v')\<rparr>))"
proof -
  let ?w0 = "w\<lparr>db := unplace e row (db w)\<rparr>" and ?id = "new_v4 e (uuids w)"
  let ?t = "new_task ?id TkEscrowRefund (Inr (refund_payload u a k i)) (clock w)"
  have ids: "o_id row = i" "o_user_id row = u" using find_row_Some [OF assms(2)] assms(3) by (auto simp: cancellable_def)
  have q: "faults w1 = []" "clock w1 = clock w" "uuids w1 = uuids w" "db w1 = unplace e row (db w)"
    using quiet_atD [OF refund_quiet, of ?w0 e u a k] keeps_dbD [OF refund_frame [of "db ?w0" e u a k], of ?w0] assms(1,7)
    by simp_all
  have tx: "transaction (sq (exec (case o_side row of
                  Buy \<Rightarrow> upd_user u (move_to_locked (- a))
                | Sell \<Rightarrow> upd_user u (add_locked_energy (- a))))
            (sq (exec (release_escrow (\<lambda>r. e_order_id r = Some i \<and> e_status r = ''locked'')
                  (\<lambda>r. r\<lparr>e_description := Some ''Order cancelled - refunded unfilled portion''\<rparr>)))
                (exec (upd_order i (\<lambda>r. r\<lparr>o_status := Cancelled\<rparr>))))) w = (Ok (), ?w0)"
    using assms(1,4) ids by (cases "o_side row") (simp_all add: io_simps unplace_def lock_user_def)
  have fresh: "task_fresh ?id (db w1)" using assms(6) q(4) by (simp add: task_fresh_def unplace_def upd_order_def)
  have "cancel_order e i u w = (Ok (), (w1\<lparr>uuids := Suc (uuids w)\<rparr>)\<lparr>db := add_task ?t (db w1)\<rparr>)"
    using assms(1-5,7) tx q(1-3) fresh
    by (simp add: cancel_order_def bnd_app query_calm cancellable_def not_le sq_app attempt_app ignore_app
        queue_blockchain_task_def get_clock_app fresh_uuid_app task_type_of_def exec_chk_calm)
  moreover have "blockchain_tasks (add_task ?t (db w1)) = blockchain_tasks (db w) @ [?t]"
    using q(4) by (simp add: add_task_def unplace_def upd_order_def)
  moreover have "process_task e ?t v = (Ok (), v'\<lparr>db := upd_task ?id complete_task (db v')\<rparr>)"
    if "faults v = []" "execute_escrow_refund e u a k v = (Ok sig, v')" for v sig v'
    using that quiet_atD [OF refund_quiet that(1), of e u a k]
    by (simp add: process_task_def new_task_def execute_task_def refund_payload_def bnd_app attempt_app mark_as_completed_def exec_calm)
  ultimately show ?thesis
    using q(2) by (intro exI [of _ ?t] exI conjI) (auto simp: task_due_def new_task_def)
qed


definition refusing_env :: env where
  "refusing_env = std_env\<lparr>enable_real_blockchain := True,
     chain_str := (\<lambda>_ c. case c of RefundEscrow _ _ _ _ _ _ \<Rightarrow> Inl ''rejected'' | _ \<Rightarrow> Inr ''sig'')\<rparr>"

definition cancel_db :: db where
  "cancel_db = empty_db\<lparr>users := [1 \<mapsto> sample_user 80 20 0], orders := [sample_order 9 1 Buy 10 2 0 Pending]\<rparr>"

lemma cancel_db_rows [simp]:
  "users cancel_db = [1 \<mapsto> sample_user 80 20 0]" "orders cancel_db = [sample_order 9 1 Buy 10 2 0 Pending]"
  "blockchain_tasks cancel_db = []"
  by (simp_all add: cancel_db_def)

lemma refusing_refund:
  "\<exists>w1. execute_escrow_refund refusing_env 1 20 ''currency'' (calm_world cancel_db
     \<lparr>db := unplace refusing_env (sample_order 9 1 Buy 10 2 0 Pending) (db (calm_world cancel_db))\<rparr>) = (Err (Anyhow ''rejected''), w1)"
  by (simp add: execute_escrow_refund_def receiver_wallet_def pubkey_from_str_def refusing_env_def io_simps
      unplace_def upd_order_def release_escrow_def upd_user_def sample_user_def sample_order_def lock_user_def
      move_to_locked_def mint_for_def currency_mint_default_def)

theorem refused_refund_is_queued_witness:
  "\<exists>t w'. cancel_order refusing_env 9 1 (calm_world cancel_db) = (Ok (), w') \<and> blockchain_tasks (db w') = [t]
     \<and> task_due (clock w') t \<and> k_payload t = Inr (refund_payload 1 20 ''currency'' 9)"
proof -
  obtain w1 where "execute_escrow_refund refusing_env 1 20 ''currency'' (calm_world cancel_db
     \<lparr>db := unplace refusing_env (sample_order 9 1 Buy 10 2 0 Pending) (db (calm_world cancel_db))\<rparr>) = (Err (Anyhow ''rejected''), w1)"
    using refusing_refund by blast
  from refused_refund_is_queued [of "calm_world cancel_db" 9 "sample_order 9 1 Buy 10 2 0 Pending" 1 refusing_env "''currency''" 20, OF _ _ _ _ _ _ this]
  show ?thesis
    by (auto simp: sample_order_def cancellable_def o_remaining_def refund_of_def refusing_env_def dmul_def task_fresh_def)
qed

text \<open>
  The schedule of a task: after its \<open>n\<close>-th failure a queued task waits \<open>5 ^ (n - 1)\<close> seconds (one
  second after the first, where the comment of the service says five), and the fifth failure closes it.
\<close>

theorem task_retry_schedule:
  assumes "fs \<noteq> []" and "length fs \<le> 5"
  shows "fold (\<lambda>(now, m). fail_task now m) fs (new_task i ty p t0) = (new_task i ty p t0)\<lparr>
      k_status := (if length fs = 5 then TkMaxRetries else TkFailed), k_retry_count := int (length fs),
      k_last_error := Some (snd (last fs)),
      k_next_retry_at := fst (last fs) + 5 ^ (length fs - 1) * 1000000000\<rparr>"
  using assms
proof (induction fs rule: rev_induct)
  case (snoc f fs)
  then show ?case by (cases "fs = []") (auto simp: fail_task_def new_task_def split: prod.splits)
qed simp

text \<open>
  A refund that the blockchain made, but whose completion the database lost, stays due: the next round
  makes it again.
\<close>

theorem lost_completion_stays_due:
  assumes "k_payload t = Inr p" and "execute_task e (k_task_type t) p w = (Ok (), w1)" and "faulty w1 = Some m"
  shows "process_task e t w = (Err (Database m), tick w1) \<and> due_tasks now (db (tick w1)) = due_tasks now (db w)"
  using assms execute_task_db [of e "k_task_type t" p w]
  by (simp add: process_task_def bnd_app attempt_app mark_as_completed_def exec_def exec_chk_def)

end
