(* ===== verification/Recurring.thy ===== *)
theory Recurring
  imports Tasks
begin

text \<open>
  Recurring orders: the handlers of \<open>src/src/handlers/trading/recurring.rs\<close> that create, list, pause,
  resume and cancel them, and the scheduler of \<open>src/src/services/recurring_scheduler.rs\<close> that places
  a trading order for each one that is due.  The texts of responses are left out.
\<close>

subsection \<open>Schedules\<close>

text \<open>
  \<open>now + Duration::hours(n)\<close> and its kin: chrono panics when the result is no longer a date.  The
  interval value is sign-extended to 64 bits before it is scaled.
\<close>

definition interval_hours :: "IntervalType \<Rightarrow> i32 \<Rightarrow> int" where
  "interval_hours ty v = (case ty of
      Hourly \<Rightarrow> sint v | Daily \<Rightarrow> 24 * sint v | Weekly \<Rightarrow> 168 * sint v | Monthly \<Rightarrow> 24 * (30 * sint v))"

definition next_execution :: "time \<Rightarrow> IntervalType \<Rightarrow> i32 \<Rightarrow> time" where
  "next_execution now ty v = now + interval_hours ty v * 3600000000000"

definition checked_date :: "env \<Rightarrow> time \<Rightarrow> (world, time) io" where
  "checked_date e t = (if date_in_range e t then ret t else panic)"

definition calculate_next_execution :: "env \<Rightarrow> IntervalType \<Rightarrow> i32 \<Rightarrow> (world, time) io" where
  "calculate_next_execution e interval_type interval_value =
    bnd get_clock (\<lambda>now. checked_date e (next_execution now interval_type interval_value))"

subsection \<open>Handlers\<close>

record create_recurring_order_request =
  rq_side :: OrderSide
  rq_energy_amount :: decimal
  rq_max_price_per_kwh :: "decimal option"
  rq_min_price_per_kwh :: "decimal option"
  rq_interval_type :: IntervalType
  rq_interval_value :: "i32 option"
  rq_max_executions :: "i32 option"
  rq_name :: "string option"
  rq_description :: "string option"
  rq_session_token :: "string option"

record recurring_order_response =
  rr_id :: uuid
  rr_status :: RecurringStatus
  rr_next_execution_at :: time
  rr_created_at :: time

text \<open>The keys and checks of \<open>recurring_orders\<close>.\<close>

definition recurring_ok :: "recurring_row \<Rightarrow> db \<Rightarrow> bool" where
  "recurring_ok r d \<longleftrightarrow> 0 < sint (rc_interval_value r) \<and> users d (rc_user_id r) \<noteq> None
     \<and> list_all (\<lambda>q. rc_id q \<noteq> rc_id r) (recurring_orders d)
     \<and> at_most 100 (rc_name r) \<and> at_most 128 (rc_session_token r)"

definition add_recurring :: "recurring_row \<Rightarrow> db \<Rightarrow> db" where
  "add_recurring r d = d\<lparr>recurring_orders := recurring_orders d @ [r]\<rparr>"

definition create_recurring_order ::
  "env \<Rightarrow> uuid \<Rightarrow> create_recurring_order_request \<Rightarrow> (world, recurring_order_response) io" where
  "create_recurring_order e user payload =
    (if rq_energy_amount payload \<le> 0 then fail (BadRequest ''Energy amount must be positive'')
     else
      bnd (fresh_uuid e) (\<lambda>order_id.
      bnd get_clock (\<lambda>now.
      let interval_value = unwrap_or (rq_interval_value payload) 1 in
      bnd (calculate_next_execution e (rq_interval_type payload) interval_value) (\<lambda>next_execution_at.
      let row = \<lparr> rc_id = order_id, rc_user_id = user, rc_side = rq_side payload,
            rc_energy_amount = rq_energy_amount payload, rc_max_price_per_kwh = rq_max_price_per_kwh payload,
            rc_min_price_per_kwh = rq_min_price_per_kwh payload, rc_interval_type = rq_interval_type payload,
            rc_interval_value = interval_value, rc_next_execution_at = next_execution_at,
            rc_last_executed_at = None, rc_status = RcActive, rc_total_executions = 0,
            rc_max_executions = rq_max_executions payload, rc_name = rq_name payload,
            rc_description = rq_description payload, rc_created_at = now, rc_updated_at = now,
            rc_session_token = rq_session_token payload \<rparr>
      in sq (internal_err ''Failed to create order: '' (exec_chk (recurring_ok row) (add_recurring row)))
           (ret \<lparr> rr_id = order_id, rr_status = RcActive, rr_next_execution_at = next_execution_at,
                  rr_created_at = now \<rparr>)))))"

definition list_recurring_orders :: "uuid \<Rightarrow> (world, recurring_order list) io" where
  "list_recurring_orders user = internal_err ''Failed to list orders: ''
    (query (\<lambda>d. map recurring_order.truncate (take 100 (sort_key (\<lambda>r. - rc_created_at r)
       (filter (\<lambda>r. rc_user_id r = user) (recurring_orders d))))))"

definition own_recurring :: "uuid \<Rightarrow> uuid \<Rightarrow> recurring_row \<Rightarrow> bool" where
  "own_recurring order_id user r \<longleftrightarrow> rc_id r = order_id \<and> rc_user_id r = user"

definition get_recurring_order :: "uuid \<Rightarrow> uuid \<Rightarrow> (world, recurring_order) io" where
  "get_recurring_order user order_id =
    bnd (internal_err ''Failed to get order: '' (query (\<lambda>d. find (own_recurring order_id user) (recurring_orders d)))) (\<lambda>r.
    bnd (ok_or r (NotFound ''Recurring order not found'')) (\<lambda>row. ret (recurring_order.truncate row)))"

definition upd_recurring :: "(recurring_row \<Rightarrow> bool) \<Rightarrow> (recurring_row \<Rightarrow> recurring_row) \<Rightarrow> db \<Rightarrow> db" where
  "upd_recurring p f d = d\<lparr>recurring_orders := update_where p f (recurring_orders d)\<rparr>"

definition update_recurring :: "(recurring_row \<Rightarrow> bool) \<Rightarrow> (recurring_row \<Rightarrow> recurring_row) \<Rightarrow> (world, nat) io" where
  "update_recurring p f = exec_count (\<lambda>d. length (filter p (recurring_orders d))) (upd_recurring p f)"

definition cancel_recurring_order :: "uuid \<Rightarrow> uuid \<Rightarrow> (world, unit) io" where
  "cancel_recurring_order user order_id =
    bnd get_clock (\<lambda>now.
    bnd (internal_err ''Failed to cancel order: '' (update_recurring
          (\<lambda>r. own_recurring order_id user r \<and> rc_status r \<notin> {RcCancelled, RcCompleted})
          (\<lambda>r. r\<lparr>rc_status := RcCancelled, rc_updated_at := now\<rparr>))) (\<lambda>rows_affected.
    if rows_affected = 0 then fail (NotFound ''Order not found or already cancelled/completed'') else ret ()))"

definition pause_recurring_order :: "uuid \<Rightarrow> uuid \<Rightarrow> (world, unit) io" where
  "pause_recurring_order user order_id =
    bnd get_clock (\<lambda>now.
    bnd (internal_err ''Failed to pause order: '' (update_recurring
          (\<lambda>r. own_recurring order_id user r \<and> rc_status r = RcActive)
          (\<lambda>r. r\<lparr>rc_status := RcPaused, rc_updated_at := now\<rparr>))) (\<lambda>rows_affected.
    if rows_affected = 0 then fail (NotFound ''Order not found or not active'') else ret ()))"

definition resume_recurring_order :: "env \<Rightarrow> uuid \<Rightarrow> uuid \<Rightarrow> (world, time) io" where
  "resume_recurring_order e user order_id =
    bnd (internal_err ''Failed to get order: '' (query (\<lambda>d. find (own_recurring order_id user) (recurring_orders d)))) (\<lambda>found.
    bnd (ok_or found (NotFound ''Order not found'')) (\<lambda>order.
    bnd (calculate_next_execution e (rc_interval_type order) (rc_interval_value order)) (\<lambda>next_exec.
    bnd get_clock (\<lambda>now.
    bnd (internal_err ''Failed to resume order: '' (update_recurring
          (\<lambda>r. own_recurring order_id user r \<and> rc_status r = RcPaused)
          (\<lambda>r. r\<lparr>rc_status := RcActive, rc_next_execution_at := next_exec, rc_updated_at := now\<rparr>))) (\<lambda>rows_affected.
    if rows_affected = 0 then fail (NotFound ''Order not found or not paused'') else ret next_exec)))))"

subsection \<open>The scheduler\<close>

text \<open>The order a background service inserts: no epoch, no zone, no meter, and a life of one day.\<close>

definition service_order ::
  "uuid \<Rightarrow> uuid \<Rightarrow> OrderType \<Rightarrow> OrderSide \<Rightarrow> decimal \<Rightarrow> decimal \<Rightarrow> time \<Rightarrow> string option \<Rightarrow> order_row" where
  "service_order i u ty sd en pr now token =
     (new_order i u ty sd en pr (default_expiry now) now 0 None None)\<lparr>o_epoch_id := None, o_session_token := token\<rparr>"

definition execution_price :: "recurring_row \<Rightarrow> decimal" where
  "execution_price r = (case rc_side r of
      Buy \<Rightarrow> unwrap_or (rc_max_price_per_kwh r) 0 | Sell \<Rightarrow> unwrap_or (rc_min_price_per_kwh r) 0)"

definition status_after :: "recurring_row \<Rightarrow> RecurringStatus" where
  "status_after r = (case rc_max_executions r of
      None \<Rightarrow> RcActive
    | Some m \<Rightarrow> if sint (rc_total_executions r + 1) \<ge> sint m then RcCompleted else RcActive)"

definition execution_ok :: "execution_row \<Rightarrow> db \<Rightarrow> bool" where
  "execution_ok x d \<longleftrightarrow> list_ex (\<lambda>r. rc_id r = x_recurring_order_id x) (recurring_orders d)
     \<and> (case x_trading_order_id x of None \<Rightarrow> True | Some i \<Rightarrow> order_exists i d) \<and> length (x_status x) \<le> 20"

definition add_execution :: "execution_row \<Rightarrow> db \<Rightarrow> db" where
  "add_execution x d = d\<lparr>recurring_order_executions := recurring_order_executions d @ [x]\<rparr>"

definition advance :: "time \<Rightarrow> time \<Rightarrow> recurring_row \<Rightarrow> recurring_row \<Rightarrow> recurring_row" where
  "advance now next_t seen r = r\<lparr>rc_next_execution_at := next_t, rc_last_executed_at := Some now,
     rc_total_executions := rc_total_executions seen + 1, rc_status := status_after seen, rc_updated_at := now\<rparr>"

text \<open>The row is the one the scheduler read; the update goes by its identifier only.\<close>

definition execute_order :: "env \<Rightarrow> recurring_row \<Rightarrow> (world, unit) io" where
  "execute_order e r =
    bnd get_clock (\<lambda>now.
    transaction (
      bnd (fresh_uuid e) (\<lambda>order_id.
      let price = execution_price r;
          order_type = (if price > 0 then Limit else Market);
          row = service_order order_id (rc_user_id r) order_type (rc_side r) (rc_energy_amount r) price now (rc_session_token r)
      in sq (exec_chk (order_ok row) (add_order row))
        (bnd (checked_date e (next_execution now (rc_interval_type r) (rc_interval_value r))) (\<lambda>next_exec.
         sq (exec (upd_recurring (\<lambda>q. rc_id q = rc_id r) (advance now next_exec r)))
           (let x = \<lparr> x_recurring_order_id = rc_id r, x_trading_order_id = Some order_id, x_status = ''success'',
                      x_error_message = None, x_energy_amount = Some (rc_energy_amount r), x_price_per_kwh = Some price \<rparr>
            in exec_chk (execution_ok x) (add_execution x)))))))"

definition record_execution :: "uuid \<Rightarrow> uuid option \<Rightarrow> string \<Rightarrow> string option \<Rightarrow> (world, unit) io" where
  "record_execution recurring_id trading_order_id status err =
    (let x = \<lparr> x_recurring_order_id = recurring_id, x_trading_order_id = trading_order_id, x_status = status,
               x_error_message = err, x_energy_amount = None, x_price_per_kwh = None \<rparr>
     in exec_chk (execution_ok x) (add_execution x))"

definition recurring_due :: "time \<Rightarrow> recurring_row \<Rightarrow> bool" where
  "recurring_due now r \<longleftrightarrow> rc_status r = RcActive \<and> rc_next_execution_at r \<le> now"

definition due_recurring :: "time \<Rightarrow> db \<Rightarrow> recurring_row list" where
  "due_recurring now d = take 50 (sort_key rc_next_execution_at (filter (recurring_due now) (recurring_orders d)))"

definition run_due :: "env \<Rightarrow> recurring_row \<Rightarrow> (world, unit) io" where
  "run_due e r = bnd (attempt (execute_order e r)) (\<lambda>res. case res of
      Inr _ \<Rightarrow> ret ()
    | Inl er \<Rightarrow> ignore (record_execution (rc_id r) None ''failed'' (Some (anyhow_text er))))"

definition process_due_orders :: "env \<Rightarrow> (world, unit) io" where
  "process_due_orders e =
    bnd get_clock (\<lambda>now. bnd (query (due_recurring now)) (\<lambda>due_rows. for_each due_rows (run_due e)))"


subsection \<open>One execution\<close>

lemma recurring_frame [simp]:
  "recurring_orders (add_order o1 d) = recurring_orders d" "recurring_orders (add_execution x d) = recurring_orders d"
  "recurring_orders (upd_recurring p f d) = update_where p f (recurring_orders d)"
  "recurring_orders (add_recurring r d) = recurring_orders d @ [r]"
  "users (upd_recurring p f d) = users d" "orders (upd_recurring p f d) = orders d"
  "escrow_records (upd_recurring p f d) = escrow_records d"
  "users (add_execution x d) = users d" "orders (add_execution x d) = orders d"
  "escrow_records (add_execution x d) = escrow_records d"
  "recurring_order_executions (add_order o1 d) = recurring_order_executions d"
  "recurring_order_executions (upd_recurring p f d) = recurring_order_executions d"
  by (simp_all add: add_order_def add_execution_def upd_recurring_def add_recurring_def)

lemma advance_fields [simp]:
  "rc_id (advance now t s r) = rc_id r" "rc_status (advance now t s r) = status_after s"
  "rc_total_executions (advance now t s r) = rc_total_executions s + 1"
  "rc_max_executions (advance now t s r) = rc_max_executions r"
  "rc_next_execution_at (advance now t s r) = t"
  by (simp_all add: advance_def)

definition execution_row_of :: "recurring_row \<Rightarrow> uuid \<Rightarrow> execution_row" where
  "execution_row_of r i = \<lparr> x_recurring_order_id = rc_id r, x_trading_order_id = Some i, x_status = ''success'',
     x_error_message = None, x_energy_amount = Some (rc_energy_amount r), x_price_per_kwh = Some (execution_price r) \<rparr>"

definition scheduled_order :: "env \<Rightarrow> recurring_row \<Rightarrow> world \<Rightarrow> order_row" where
  "scheduled_order e r w = service_order (new_v4 e (uuids w)) (rc_user_id r)
     (if execution_price r > 0 then Limit else Market) (rc_side r) (rc_energy_amount r) (execution_price r)
     (clock w) (rc_session_token r)"

text \<open>The specification of an execution that commits: the order, the schedule and the record, together.\<close>

definition executed :: "env \<Rightarrow> recurring_row \<Rightarrow> world \<Rightarrow> db \<Rightarrow> db" where
  "executed e r w d = add_execution (execution_row_of r (new_v4 e (uuids w)))
     (upd_recurring (\<lambda>q. rc_id q = rc_id r)
        (advance (clock w) (next_execution (clock w) (rc_interval_type r) (rc_interval_value r)) r)
        (add_order (scheduled_order e r w) d))"

lemma execute_order_cases:
  assumes "execute_order e r w = (q, w')"
  shows "(\<exists>u. q = Ok u) \<and> order_ok (scheduled_order e r w) (db w) \<and> db w' = executed e r w (db w)
    \<or> (\<forall>u. q \<noteq> Ok u) \<and> db w' = db w"
proof (cases "\<exists>u. q = Ok u")
  case True
  with assms have "execute_order e r w = (Ok (), w')" by auto
  then have "order_ok (scheduled_order e r w) (db w) \<and> db w' = executed e r w (db w)"
    unfolding execute_order_def
    by (auto elim!: bnd_OkE transaction_OkE sq_OkE
        simp: get_clock_app fresh_uuid_app Let_def statement_Ok checked_date_def executed_def scheduled_order_def execution_row_of_def split: if_splits)
  with True show ?thesis by simp
next
  case False
  with assms have "db w' = db w"
    by (auto simp: execute_order_def bnd_app get_clock_app dest!: transaction_atomic)
  with False show ?thesis by simp
qed

definition recurring_moved :: "recurring_row \<Rightarrow> recurring_row \<Rightarrow> recurring_row \<Rightarrow> bool" where
  "recurring_moved s r r' \<longleftrightarrow> r' = r \<or> (\<exists>now t. r' = advance now t s r)"

lemma recurring_moved_refl: "recurring_moved s r r"
  and recurring_moved_key: "recurring_moved s r r' \<Longrightarrow> rc_id r' = rc_id r"
  by (auto simp: recurring_moved_def)

lemma record_execution_frame: "keeps_db (\<lambda>d. recurring_orders d = rs) (record_execution i o1 s er)"
  unfolding record_execution_def Let_def by (intro keeps_db_intros) simp

lemma run_due_rows:
  "\<exists>h. (\<forall>q. recurring_moved r q (h q)) \<and>
     recurring_orders (db (snd (run_due e r w))) = update_where (\<lambda>q. rc_id q = rc_id r) h (recurring_orders (db w))"
proof -
  obtain x w1 where x: "execute_order e r w = (x, w1)" by (cases "execute_order e r w")
  have same: "update_where p id rs = rs" for p and rs :: "recurring_row list" by (induction rs) auto
  have rec: "recurring_orders (db (snd (ignore (record_execution i o1 s er) w1))) = recurring_orders (db w1)" for i o1 s er
    using keeps_dbD [OF keeps_db_ignore [OF record_execution_frame [of "recurring_orders (db w1)"]], of w1] by simp
  show ?thesis
  proof (cases "db w1 = db w \<and> (\<forall>u. x \<noteq> Ok u)")
    case True
    then have "recurring_orders (db (snd (run_due e r w))) = recurring_orders (db w)"
      using x rec by (cases x) (simp_all add: run_due_def bnd_app attempt_app)
    then show ?thesis by (intro exI [of _ id]) (simp add: same recurring_moved_def)
  next
    case False
    with execute_order_cases [OF x] obtain u where "x = Ok u" "db w1 = executed e r w (db w)" by blast
    with x show ?thesis
      by (intro exI [of _ "advance (clock w) (next_execution (clock w) (rc_interval_type r) (rc_interval_value r)) r"])
        (auto simp: run_due_def bnd_app attempt_app executed_def recurring_moved_def)
  qed
qed

interpretation recurring_batch: row_batch "\<lambda>w. recurring_orders (db w)" rc_id "run_due e" recurring_moved for e
  by unfold_locales (rule recurring_moved_refl, erule recurring_moved_key, rule run_due_rows)


subsection \<open>The life of a recurring order\<close>

text \<open>
  A limit below one still allows one execution.  A row whose limit is reached is closed; one that is
  active or paused has an execution left.
\<close>

definition run_limit :: "i32 \<Rightarrow> int" where
  "run_limit m = max 1 (sint m)"

definition recurring_row_ok :: "recurring_row \<Rightarrow> bool" where
  "recurring_row_ok r \<longleftrightarrow> (case rc_max_executions r of None \<Rightarrow> True | Some m \<Rightarrow>
     0 \<le> sint (rc_total_executions r) \<and> sint (rc_total_executions r) \<le> run_limit m
     \<and> (rc_status r \<in> {RcActive, RcPaused} \<longrightarrow> sint (rc_total_executions r) < run_limit m))"

definition recurring_sound :: "db \<Rightarrow> bool" where
  "recurring_sound d \<longleftrightarrow> distinct (map rc_id (recurring_orders d)) \<and> (\<forall>r \<in> set (recurring_orders d). recurring_row_ok r)"

lemma sint_succ:
  fixes x y :: i32 assumes "sint x < sint y" shows "sint (x + 1) = sint x + 1"
proof -
  have "- (2 ^ 31) \<le> sint x" "sint y < 2 ^ 31" using sint_range_size [of x] sint_range_size [of y] by (simp_all add: word_size)
  with assms show ?thesis by (simp add: sint_word_ariths(1) signed_take_bit_int_eq_self)
qed

lemma run_limit_succ:
  assumes "sint t < run_limit m" shows "sint (t + 1 :: i32) = sint t + 1"
proof (cases "sint t < sint m")
  case False
  with assms have "sint t < sint (1 :: i32)" by (auto simp: run_limit_def max_def split: if_splits)
  then show ?thesis by (rule sint_succ)
qed (rule sint_succ)

lemma recurring_moved_ok:
  assumes "recurring_row_ok r" and "rc_status r = RcActive" and "recurring_moved r r r'"
  shows "recurring_row_ok r'"
proof (cases "rc_max_executions r")
  case (Some m)
  with assms(1,2) have "sint (rc_total_executions r) < run_limit m" "0 \<le> sint (rc_total_executions r)"
    by (simp_all add: recurring_row_ok_def)
  with run_limit_succ [OF this(1)] Some assms show ?thesis
    by (auto simp: recurring_moved_def recurring_row_ok_def status_after_def run_limit_def)
qed (use assms(3) in \<open>auto simp: recurring_moved_def recurring_row_ok_def\<close>)

lemma due_recurring_set: "r \<in> set (due_recurring now d) \<Longrightarrow> r \<in> set (recurring_orders d) \<and> recurring_due now r"
  unfolding due_recurring_def by (drule in_set_takeD) auto

lemma due_recurring_distinct: "distinct (map rc_id (recurring_orders d)) \<Longrightarrow> distinct (map rc_id (due_recurring now d))"
  unfolding due_recurring_def take_map [symmetric] by (intro distinct_take distinct_sort_filter)

lemma process_due_orders_keeps: "keeps_db recurring_sound (process_due_orders e)"
  unfolding keeps_db_def keeps_def
proof (intro allI impI)
  fix w :: world assume ok: "recurring_sound (db w)"
  let ?ts = "due_recurring (clock w) (db w)"
  have "set ?ts \<subseteq> set (recurring_orders (db w))" using due_recurring_set by blast
  with ok have "recurring_sound (db (snd (for_each ?ts (run_due e) (tick w))))"
    unfolding recurring_sound_def
    by (intro recurring_batch.batch_invariant)
      (auto simp: due_recurring_distinct recurring_due_def dest!: due_recurring_set intro: recurring_moved_ok)
  with ok show "recurring_sound (db (snd (process_due_orders e w)))"
    by (auto simp: process_due_orders_def bnd_app get_clock_app query_def split: option.splits)
qed

lemma recurring_sound_add:
  assumes "recurring_sound d" and "recurring_ok r d" and "rc_total_executions r = 0"
  shows "recurring_sound (add_recurring r d)"
  using assms by (auto simp: recurring_sound_def recurring_ok_def list_all_iff recurring_row_ok_def run_limit_def split: option.splits)

lemma recurring_sound_upd:
  assumes "recurring_sound d" and "\<And>r. rc_id (f r) = rc_id r"
    and "\<And>r. p r \<Longrightarrow> recurring_row_ok r \<Longrightarrow> recurring_row_ok (f r)"
  shows "recurring_sound (upd_recurring p f d)"
  using assms by (auto simp: recurring_sound_def map_update_where_same set_update_where)

lemma recurring_handlers_keep:
  "keeps_db recurring_sound (create_recurring_order e u q)" "keeps_db recurring_sound (cancel_recurring_order u i)"
  "keeps_db recurring_sound (pause_recurring_order u i)" "keeps_db recurring_sound (resume_recurring_order e u i)"
  unfolding create_recurring_order_def calculate_next_execution_def checked_date_def cancel_recurring_order_def
    pause_recurring_order_def resume_recurring_order_def update_recurring_def Let_def
  by (intro keeps_db_intros recurring_sound_add recurring_sound_upd; auto simp: recurring_row_ok_def split: option.splits)+


text \<open>One operation on recurring orders, with any outcome, or one that leaves their table alone.\<close>

inductive recurring_step :: "env \<Rightarrow> world \<Rightarrow> world \<Rightarrow> bool" for e where
  create: "create_recurring_order e u q w = (r, w') \<Longrightarrow> recurring_step e w w'"
| cancel: "cancel_recurring_order u i w = (r, w') \<Longrightarrow> recurring_step e w w'"
| pause: "pause_recurring_order u i w = (r, w') \<Longrightarrow> recurring_step e w w'"
| resume: "resume_recurring_order e u i w = (t, w') \<Longrightarrow> recurring_step e w w'"
| schedule: "process_due_orders e w = (r, w') \<Longrightarrow> recurring_step e w w'"
| elsewhere: "recurring_orders (db w') = recurring_orders (db w) \<Longrightarrow> recurring_step e w w'"

lemma recurring_step_sound:
  assumes "recurring_step e w w'" and "recurring_sound (db w)"
  shows "recurring_sound (db w')"
  using assms(1)
proof cases
  case create
  show ?thesis by (rule keeps_dbE [OF recurring_handlers_keep(1) create assms(2)])
next
  case cancel
  show ?thesis by (rule keeps_dbE [OF recurring_handlers_keep(2) cancel assms(2)])
next
  case pause
  show ?thesis by (rule keeps_dbE [OF recurring_handlers_keep(3) pause assms(2)])
next
  case resume
  show ?thesis by (rule keeps_dbE [OF recurring_handlers_keep(4) resume assms(2)])
next
  case schedule
  show ?thesis by (rule keeps_dbE [OF process_due_orders_keeps schedule assms(2)])
next
  case elsewhere
  with assms(2) show ?thesis by (simp add: recurring_sound_def)
qed

text \<open>A row in a final state is not touched again.\<close>

definition closed_row :: "recurring_row \<Rightarrow> db \<Rightarrow> bool" where
  "closed_row r d \<longleftrightarrow> find_row rc_id (rc_id r) (recurring_orders d) = Some r"

lemma closed_row_upd:
  assumes "closed_row r d" and "\<And>x. rc_id (f x) = rc_id x" and "\<not> p r"
  shows "closed_row r (upd_recurring p f d)"
  using assms find_row_map [of _ rc_id "\<lambda>x. if p x then f x else x" "rc_id r"]
  by (simp add: closed_row_def update_where_def)

lemma closed_row_add: "closed_row r d \<Longrightarrow> closed_row r (add_recurring x d)"
  by (simp add: closed_row_def find_row_append)

lemma closed_row_handlers:
  assumes "rc_status r \<in> {RcCompleted, RcCancelled}"
  shows "keeps_db (closed_row r) (create_recurring_order e u q)" "keeps_db (closed_row r) (cancel_recurring_order u i)"
    "keeps_db (closed_row r) (pause_recurring_order u i)" "keeps_db (closed_row r) (resume_recurring_order e u i)"
  using assms
  unfolding create_recurring_order_def calculate_next_execution_def checked_date_def cancel_recurring_order_def
    pause_recurring_order_def resume_recurring_order_def update_recurring_def Let_def
  by (intro keeps_db_intros closed_row_add closed_row_upd; auto)+

lemma closed_row_schedule:
  assumes "rc_status r \<in> {RcCompleted, RcCancelled}" and "recurring_sound (db w)" and "closed_row r (db w)"
  shows "closed_row r (db (snd (process_due_orders e w)))"
proof -
  let ?ts = "due_recurring (clock w) (db w)"
  have "set ?ts \<subseteq> set (recurring_orders (db w))" using due_recurring_set by blast
  with assms(2) obtain g where g: "\<forall>x \<in> set ?ts. recurring_moved x x (g x)"
    "recurring_orders (db (snd (for_each ?ts (run_due e) (tick w))))
       = map (\<lambda>x. if x \<in> set ?ts then g x else x) (recurring_orders (db w))"
    using recurring_batch.batch_of_rows [of "tick w" ?ts e] by (auto simp: recurring_sound_def due_recurring_distinct)
  have "r \<notin> set ?ts" using assms(1) due_recurring_set by (auto simp: recurring_due_def)
  with assms(3) g have "closed_row r (db (snd (for_each ?ts (run_due e) (tick w))))"
    by (simp add: closed_row_def) (subst find_row_map, auto dest: recurring_moved_key)
  with assms(3) show ?thesis
    by (auto simp: process_due_orders_def bnd_app get_clock_app query_def split: option.splits)
qed

lemma recurring_step_closed:
  assumes "recurring_step e w w'" and "recurring_sound (db w)" and "closed_row r (db w)"
    and "rc_status r \<in> {RcCompleted, RcCancelled}"
  shows "closed_row r (db w')"
  using assms(1)
proof cases
  case create
  show ?thesis by (rule keeps_dbE [OF closed_row_handlers(1) [OF assms(4)] create assms(3)])
next
  case cancel
  show ?thesis by (rule keeps_dbE [OF closed_row_handlers(2) [OF assms(4)] cancel assms(3)])
next
  case pause
  show ?thesis by (rule keeps_dbE [OF closed_row_handlers(3) [OF assms(4)] pause assms(3)])
next
  case resume
  show ?thesis by (rule keeps_dbE [OF closed_row_handlers(4) [OF assms(4)] resume assms(3)])
next
  case schedule
  with closed_row_schedule [OF assms(4,2,3), of e] show ?thesis by simp
next
  case elsewhere
  with assms(3) show ?thesis by (simp add: closed_row_def)
qed


subsection \<open>Properties\<close>

text \<open>
  C31. A recurring order stays within its limit.  Along any sequence of handler calls and scheduler
  runs, with any statements lost: identifiers stay unique; an order with a limit never counts more
  executions than the limit (a limit below one allows one execution); while it is active or paused
  it has an execution left; and an order that is completed or cancelled never changes again.
\<close>

theorem recurring_lifecycle:
  assumes "(recurring_step e)\<^sup>*\<^sup>* w w'" and "recurring_sound (db w)"
  shows "recurring_sound (db w') \<and> (\<forall>r. rc_status r \<in> {RcCompleted, RcCancelled} \<longrightarrow>
     closed_row r (db w) \<longrightarrow> closed_row r (db w'))"
  using assms
  by (induction rule: rtranclp_induct) (auto dest: recurring_step_sound recurring_step_closed)

definition sample_recurring :: "decimal option \<Rightarrow> recurring_row" where
  "sample_recurring p =
    \<lparr> rc_id = 3, rc_user_id = 1, rc_side = Buy, rc_energy_amount = 10, rc_max_price_per_kwh = p,
      rc_min_price_per_kwh = None, rc_interval_type = Daily, rc_interval_value = 1, rc_next_execution_at = 900,
      rc_last_executed_at = None, rc_status = RcActive, rc_total_executions = 0, rc_max_executions = Some 1,
      rc_name = None, rc_description = None, rc_created_at = 0, rc_updated_at = 0, rc_session_token = None \<rparr>"

definition recurring_db :: "decimal option \<Rightarrow> db" where
  "recurring_db p = empty_db\<lparr>users := [1 \<mapsto> sample_user 5 0 0], recurring_orders := [sample_recurring p]\<rparr>"

lemma recurring_db_rows [simp]:
  "users (recurring_db p) = [1 \<mapsto> sample_user 5 0 0]" "recurring_orders (recurring_db p) = [sample_recurring p]"
  "orders (recurring_db p) = []" "recurring_sound (recurring_db p)"
  by (simp_all add: recurring_db_def recurring_sound_def recurring_row_ok_def sample_recurring_def run_limit_def)

lemma sample_recurring_fields [simp]:
  "rc_id (sample_recurring p) = 3" "rc_user_id (sample_recurring p) = 1" "rc_side (sample_recurring p) = Buy"
  "rc_energy_amount (sample_recurring p) = 10" "rc_interval_type (sample_recurring p) = Daily"
  "rc_interval_value (sample_recurring p) = 1" "rc_session_token (sample_recurring p) = None"
  "execution_price (sample_recurring p) = unwrap_or p 0"
  by (simp_all add: sample_recurring_def execution_price_def)

theorem recurring_lifecycle_witness:
  "recurring_sound (db (snd (process_due_orders std_env (calm_world (recurring_db (Some 2))))))"
proof -
  have "recurring_step std_env (calm_world (recurring_db (Some 2)))
      (snd (process_due_orders std_env (calm_world (recurring_db (Some 2)))))"
    by (rule recurring_step.schedule [of _ _ "fst (process_due_orders std_env (calm_world (recurring_db (Some 2))))"]) simp
  from recurring_lifecycle [OF r_into_rtranclp [of "recurring_step std_env", OF this]] show ?thesis by simp
qed

text \<open>
  The scheduler places orders without escrow.  An execution that commits adds a pending order and
  leaves the accounts and the escrow records as they were.  Cancelling that buy order still pays its
  full price into the owner's balance and takes it from the locked amount: money that was never
  locked becomes spendable, and the locked amount falls below what was locked.
\<close>

theorem recurring_order_refund_unfunded:
  assumes "execute_order e r w = (Ok q, w1)" and "rc_side r = Buy"
    and "cancel_order e (new_v4 e (uuids w)) (rc_user_id r) w1 = (Ok x, w2)"
  shows "users (db w1) = users (db w) \<and> escrow_records (db w1) = escrow_records (db w)
    \<and> orders (db w1) = orders (db w) @ [scheduled_order e r w]
    \<and> users (db w2) = (users (db w))(rc_user_id r := map_option
         (move_to_locked (- dmul e (rc_energy_amount r) (execution_price r))) (users (db w) (rc_user_id r)))"
proof -
  let ?i = "new_v4 e (uuids w)" and ?o = "scheduled_order e r w"
  from execute_order_cases [OF assms(1)] have ok: "order_ok ?o (db w)" and d: "db w1 = executed e r w (db w)" by auto
  have o: "o_id ?o = ?i" "o_user_id ?o = rc_user_id r" "o_side ?o = Buy" "o_remaining ?o = rc_energy_amount r"
    "o_price_per_kwh ?o = execution_price r"
    using assms(2) by (simp_all add: scheduled_order_def service_order_def new_order_def o_remaining_def)
  have "find_row o_id ?i (orders (db w)) = None"
    using ok o(1) by (intro find_row_none) (auto simp: order_ok_def order_exists_def list_ex_iff)
  then have "find_row o_id ?i (orders (db w1)) = Some ?o"
    using o(1) by (simp add: d executed_def add_order_def find_row_append)
  with cancel_order_cases [OF assms(3)] have "same_tables (unplace e ?o (db w1)) (db w2)" by auto
  then have "users (db w2) = users (upd_user (rc_user_id r) (move_to_locked (- dmul e (rc_energy_amount r) (execution_price r))) (db w1))"
    using o by (simp add: same_tables_def unplace_def upd_order_def release_escrow_def refund_of_def lock_user_def)
  then show ?thesis by (simp add: d executed_def upd_user_def add_order_def)
qed


lemma execute_order_succeeds:
  assumes "faults w = []" and "order_ok (scheduled_order e r w) (db w)"
    and "date_in_range e (next_execution (clock w) (rc_interval_type r) (rc_interval_value r))"
    and "find_row rc_id (rc_id r) (recurring_orders (db w)) = Some r'"
  shows "execute_order e r w = (Ok (), w\<lparr>db := executed e r w (db w), uuids := Suc (uuids w)\<rparr>)"
proof -
  have "execution_ok (execution_row_of r (new_v4 e (uuids w)))
     (upd_recurring p f (add_order (scheduled_order e r w) (db w)))" if "\<And>x. rc_id (f x) = rc_id x" for p f
  proof -
    have "map rc_id (update_where p f (recurring_orders (db w))) = map rc_id (recurring_orders (db w))"
      using that by (rule map_update_where_same)
    moreover have "rc_id r \<in> set (map rc_id (recurring_orders (db w)))" using find_row_Some [OF assms(4)] by (auto intro!: image_eqI [of _ _ r'])
    ultimately have "rc_id r \<in> set (map rc_id (update_where p f (recurring_orders (db w))))" by (simp only:)
    then show ?thesis
      by (auto simp: execution_ok_def execution_row_of_def list_ex_iff order_exists_def add_order_def upd_recurring_def
          scheduled_order_def service_order_def new_order_def)
  qed
  with assms(1-3) show ?thesis
    by (simp add: execute_order_def io_simps Let_def checked_date_def executed_def
        scheduled_order_def [symmetric] execution_row_of_def [symmetric])
qed

lemma sample_execution:
  "execute_order std_env (sample_recurring (Some 2)) (calm_world (recurring_db (Some 2))) = (Ok (),
     (calm_world (recurring_db (Some 2)))\<lparr>db := executed std_env (sample_recurring (Some 2)) (calm_world (recurring_db (Some 2)))
        (recurring_db (Some 2)), uuids := 1\<rparr>)"
  using execute_order_succeeds [of "calm_world (recurring_db (Some 2))" std_env "sample_recurring (Some 2)"]
  by (simp add: order_ok_def scheduled_order_def service_order_def new_order_def order_exists_def next_execution_def interval_hours_def)

theorem recurring_order_refund_unfunded_witness:
  "\<exists>w1 w2. execute_order std_env (sample_recurring (Some 2)) (calm_world (recurring_db (Some 2))) = (Ok (), w1)
     \<and> cancel_order std_env 1000 1 w1 = (Ok (), w2) \<and> users (db w2) 1 = Some (sample_user 25 (-20) 0)"
proof -
  let ?w = "calm_world (recurring_db (Some 2))" and ?r = "sample_recurring (Some 2)"
  let ?w1 = "?w\<lparr>db := executed std_env ?r ?w (recurring_db (Some 2)), uuids := 1\<rparr>"
  have "find_row o_id 1000 (orders (db ?w1)) = Some (scheduled_order std_env ?r ?w)"
    by (simp add: executed_def add_order_def scheduled_order_def service_order_def new_order_def)
  then obtain w2 where "cancel_order std_env 1000 1 ?w1 = (Ok (), w2)"
    using cancel_order_succeeds [of ?w1 1000 "scheduled_order std_env ?r ?w" 1 std_env]
    by (auto simp: cancellable_def scheduled_order_def service_order_def new_order_def o_remaining_def)
  moreover have "users (db w2) 1 = Some (sample_user 25 (-20) 0)"
    using recurring_order_refund_unfunded [OF sample_execution, of "()" w2] calculation
    by (simp add: move_to_locked_def sample_user_def dmul_def sql_add_def)
  ultimately show ?thesis using sample_execution by blast
qed


text \<open>
  A recurring order without a price never runs.  Its order would have price zero, which the tables
  refuse: each scheduler run records one failed execution and changes neither the orders nor the
  recurring order, which therefore stays due and is retried at every tick without end.
\<close>

theorem unpriced_recurring_retried_forever:
  assumes "faults w = []" and "find_row rc_id (rc_id r) (recurring_orders (db w)) = Some r" and "recurring_due now r"
    and "execution_price r \<le> 0"
  shows "\<exists>w' x. run_due e r w = (Ok (), w') \<and> orders (db w') = orders (db w)
    \<and> recurring_order_executions (db w') = recurring_order_executions (db w) @ [x]
    \<and> x_status x = ''failed'' \<and> x_recurring_order_id x = rc_id r
    \<and> find_row rc_id (rc_id r) (recurring_orders (db w')) = Some r \<and> recurring_due now r"
proof -
  let ?w = "w\<lparr>uuids := Suc (uuids w)\<rparr>"
  have run: "execute_order e r w = (Err (Database ''violates constraint''), ?w)"
    using assms(1,4) by (simp add: execute_order_def io_simps Let_def order_ok_def service_order_def new_order_def)
  have "rc_id r \<in> rc_id ` set (recurring_orders (db w))" using find_row_Some [OF assms(2)] by force
  then have "list_ex (\<lambda>q. rc_id q = rc_id r) (recurring_orders (db w))" by (auto simp: list_ex_iff)
  with run assms show ?thesis
    by (simp add: run_due_def bnd_app attempt_app ignore_app record_execution_def Let_def exec_chk_calm execution_ok_def add_execution_def)
qed

theorem unpriced_recurring_retried_forever_witness:
  "\<exists>w'. run_due std_env (sample_recurring None) (calm_world (recurring_db None)) = (Ok (), w')
     \<and> orders (db w') = [] \<and> find_row rc_id 3 (recurring_orders (db w')) = Some (sample_recurring None)"
  using unpriced_recurring_retried_forever [of "calm_world (recurring_db None)" "sample_recurring None" 1000 std_env]
  by (auto simp: recurring_due_def) (auto simp: sample_recurring_def)

text \<open>
  The scheduler writes the status it computed from the row it read.  When the owner cancels between
  the read and the write, the commit makes the order active again.
\<close>

theorem stale_execution_revives_order:
  assumes "execute_order e r w = (Ok u, w')" and "find_row rc_id (rc_id r) (recurring_orders (db w)) = Some r'"
    and "rc_status r' = RcCancelled" and "rc_max_executions r = None"
  shows "\<exists>r''. find_row rc_id (rc_id r) (recurring_orders (db w')) = Some r'' \<and> rc_status r'' = RcActive"
proof -
  from execute_order_cases [OF assms(1)] have "db w' = executed e r w (db w)" by auto
  then have "find_row rc_id (rc_id r) (recurring_orders (db w'))
     = Some (advance (clock w) (next_execution (clock w) (rc_interval_type r) (rc_interval_value r)) r r')"
    using assms(2) by (simp add: executed_def find_row_update_same)
  then show ?thesis using assms(4) by (simp add: status_after_def)
qed

end
