(* ===== verification/Conditional.thy ===== *)
theory Conditional
  imports Recurring
begin

text \<open>
  Conditional orders: the handlers of \<open>src/src/handlers/trading/conditional.rs\<close> (stop-loss,
  take-profit and trailing stop) and the price monitor of \<open>src/src/services/price_monitor.rs\<close> that
  turns one into a trading order when the market price crosses its trigger; and the price alerts of
  \<open>src/src/handlers/trading/price_alerts.rs\<close>.  The texts of responses are left out.
\<close>

subsection \<open>Handlers\<close>

record create_conditional_order_request =
  cq_side :: OrderSide
  cq_energy_amount :: decimal
  cq_trigger_price :: decimal
  cq_trigger_type :: TriggerType
  cq_limit_price :: "decimal option"
  cq_trailing_offset :: "decimal option"
  cq_expiry_time :: "time option"
  cq_session_token :: "string option"

record conditional_order_response =
  cr_id :: uuid
  cr_trigger_type :: TriggerType
  cr_trigger_status :: TriggerStatus
  cr_trigger_price :: decimal
  cr_created_at :: time

record conditional_order =
  co_id :: uuid
  co_user_id :: uuid
  co_side :: OrderSide
  co_energy_amount :: decimal
  co_trigger_price :: decimal
  co_trigger_type :: TriggerType
  co_trigger_status :: TriggerStatus
  co_limit_price :: "decimal option"
  co_trailing_offset :: "decimal option"
  co_expires_at :: "time option"
  co_created_at :: time
  co_triggered_at :: "time option"

definition conditional_row :: "uuid \<Rightarrow> uuid \<Rightarrow> create_conditional_order_request \<Rightarrow> time \<Rightarrow> order_row" where
  "conditional_row i u q now =
     (new_order i u (case cq_limit_price q of Some _ \<Rightarrow> Limit | None \<Rightarrow> Market) (cq_side q) (cq_energy_amount q)
        (unwrap_or (cq_limit_price q) 0) (unwrap_or (cq_expiry_time q) (now + 604800000000000)) now 0 None None)
     \<lparr>o_epoch_id := None, o_trigger_price := Some (cq_trigger_price q), o_trigger_type := Some (cq_trigger_type q),
      o_trigger_status := Some TrPending, o_trailing_offset := cq_trailing_offset q, o_session_token := cq_session_token q\<rparr>"

definition create_conditional_order ::
  "env \<Rightarrow> uuid \<Rightarrow> create_conditional_order_request \<Rightarrow> (world, conditional_order_response) io" where
  "create_conditional_order e user payload =
    (if cq_trigger_price payload \<le> 0 then fail (BadRequest ''Trigger price must be positive'')
     else if cq_energy_amount payload \<le> 0 then fail (BadRequest ''Energy amount must be positive'')
     else if cq_trigger_type payload = TrailingStop \<and> cq_trailing_offset payload = None
       then fail (BadRequest ''Trailing offset is required for trailing stop orders'')
     else
      bnd (fresh_uuid e) (\<lambda>order_id.
      bnd get_clock (\<lambda>now.
      let row = conditional_row order_id user payload now
      in sq (internal_err ''Failed to create order: '' (exec_chk (order_ok row) (add_order row)))
         (ret \<lparr> cr_id = order_id, cr_trigger_type = cq_trigger_type payload, cr_trigger_status = TrPending,
                cr_trigger_price = cq_trigger_price payload, cr_created_at = now \<rparr>))))"

text \<open>A row of the listing; a \<open>NULL\<close> in a column that the query declares not null is an error.\<close>

definition conditional_of :: "order_row \<Rightarrow> conditional_order option" where
  "conditional_of r = (case (o_trigger_price r, o_trigger_type r, o_trigger_status r, o_created_at r) of
      (Some tp, Some tt, Some ts, Some t) \<Rightarrow> Some
        \<lparr> co_id = o_id r, co_user_id = o_user_id r, co_side = o_side r, co_energy_amount = o_energy_amount r,
          co_trigger_price = tp, co_trigger_type = tt, co_trigger_status = ts, co_limit_price = Some (o_price_per_kwh r),
          co_trailing_offset = o_trailing_offset r, co_expires_at = o_expires_at r, co_created_at = t,
          co_triggered_at = o_triggered_at r \<rparr>
    | _ \<Rightarrow> None)"

definition list_conditional_orders :: "uuid \<Rightarrow> (world, conditional_order list) io" where
  "list_conditional_orders user = internal_err ''Failed to list orders: ''
    (bnd (query (\<lambda>d. map conditional_of (take 100 (sort_key (\<lambda>r. - created_key r)
        (filter (\<lambda>r. o_user_id r = user \<and> o_trigger_type r \<noteq> None) (orders d)))))) (\<lambda>rows.
     if list_all (\<lambda>x. x \<noteq> None) rows then ret (map the rows)
     else fail (Database ''unexpected null'')))"

definition upd_orders :: "(order_row \<Rightarrow> bool) \<Rightarrow> (order_row \<Rightarrow> order_row) \<Rightarrow> db \<Rightarrow> db" where
  "upd_orders p f d = d\<lparr>orders := update_where p f (orders d)\<rparr>"

definition cancellable_conditional :: "uuid \<Rightarrow> uuid \<Rightarrow> order_row \<Rightarrow> bool" where
  "cancellable_conditional order_id user r \<longleftrightarrow>
     o_id r = order_id \<and> o_user_id r = user \<and> o_trigger_status r = Some TrPending"

definition cancel_conditional_order :: "uuid \<Rightarrow> uuid \<Rightarrow> (world, unit) io" where
  "cancel_conditional_order user order_id =
    bnd (internal_err ''Failed to cancel order: '' (exec_count
          (\<lambda>d. length (filter (cancellable_conditional order_id user) (orders d)))
          (upd_orders (cancellable_conditional order_id user)
             (\<lambda>r. r\<lparr>o_trigger_status := Some TrCancelled, o_status := Cancelled\<rparr>)))) (\<lambda>rows_affected.
    if rows_affected = 0 then fail (NotFound ''Order not found or already triggered/cancelled'') else ret ())"

subsection \<open>The price monitor\<close>

definition recent_prices :: "time \<Rightarrow> db \<Rightarrow> decimal list" where
  "recent_prices now d = map o_price_per_kwh (filter (\<lambda>r. o_status r = Filled
     \<and> (case o_filled_at r of None \<Rightarrow> False | Some t \<Rightarrow> t > now - 3600000000000)) (orders d))"

definition get_current_market_price :: "env \<Rightarrow> (world, decimal) io" where
  "get_current_market_price e =
    bnd get_clock (\<lambda>now. query (\<lambda>d. let ps = recent_prices now d in if ps = [] then 0 else sql_avg e ps))"

definition pending_conditional :: "time \<Rightarrow> db \<Rightarrow> order_row list" where
  "pending_conditional now d = take 100 (sort_key created_key (filter (\<lambda>r. o_trigger_type r \<noteq> None
     \<and> o_trigger_status r = Some TrPending \<and> (case o_expires_at r of None \<Rightarrow> True | Some t \<Rightarrow> t > now)) (orders d)))"

fun check_trigger_condition :: "TriggerType \<Rightarrow> OrderSide \<Rightarrow> decimal \<Rightarrow> decimal \<Rightarrow> decimal option \<Rightarrow> bool" where
  "check_trigger_condition StopLoss Sell trigger_price current_price trailing_offset = (current_price \<le> trigger_price)"
| "check_trigger_condition StopLoss Buy trigger_price current_price trailing_offset = (current_price \<ge> trigger_price)"
| "check_trigger_condition TakeProfit Sell trigger_price current_price trailing_offset = (current_price \<ge> trigger_price)"
| "check_trigger_condition TakeProfit Buy trigger_price current_price trailing_offset = (current_price \<le> trigger_price)"
| "check_trigger_condition TrailingStop sd trigger_price current_price trailing_offset = False"

definition mark_triggered :: "time \<Rightarrow> order_row \<Rightarrow> order_row" where
  "mark_triggered now r = r\<lparr>o_trigger_status := Some TrTriggered, o_triggered_at := Some now\<rparr>"

definition trigger_order ::
  "env \<Rightarrow> uuid \<Rightarrow> uuid \<Rightarrow> OrderSide \<Rightarrow> decimal \<Rightarrow> decimal option \<Rightarrow> string option \<Rightarrow> (world, unit) io" where
  "trigger_order e order_id user_id side energy_amount limit_pr session_token =
    bnd get_clock (\<lambda>now.
    transaction (
      sq (exec (upd_order order_id (mark_triggered now)))
      (bnd (fresh_uuid e) (\<lambda>new_order_id.
       let price = unwrap_or limit_pr 0;
           order_type = (if limit_pr \<noteq> None \<and> price > 0 then Limit else Market);
           row = service_order new_order_id user_id order_type side energy_amount price now session_token
       in exec_chk (order_ok row) (add_order row)))))"

definition check_order :: "env \<Rightarrow> decimal \<Rightarrow> order_row \<Rightarrow> (world, unit) io" where
  "check_order e current_price order = (case o_trigger_type order of
      None \<Rightarrow> ret ()
    | Some trigger_type \<Rightarrow>
        if check_trigger_condition trigger_type (o_side order) (unwrap_or (o_trigger_price order) 0)
             current_price (o_trailing_offset order)
        then ignore (trigger_order e (o_id order) (o_user_id order) (o_side order) (o_energy_amount order)
               (Some (o_price_per_kwh order)) (o_session_token order))
        else ret ())"

definition check_and_trigger_orders :: "env \<Rightarrow> (world, unit) io" where
  "check_and_trigger_orders e =
    bnd (get_current_market_price e) (\<lambda>current_price.
    if current_price \<le> 0 then ret ()
    else bnd get_clock (\<lambda>now. bnd (query (pending_conditional now)) (\<lambda>pending_orders.
      for_each pending_orders (check_order e current_price))))"

subsection \<open>Price alerts\<close>

definition alert_ok :: "price_alert \<Rightarrow> db \<Rightarrow> bool" where
  "alert_ok a d \<longleftrightarrow> users d (a_user_id a) \<noteq> None \<and> list_all (\<lambda>q. a_id q \<noteq> a_id a) (price_alerts d) \<and> at_most 200 (a_note a)"

definition create_price_alert ::
  "env \<Rightarrow> uuid \<Rightarrow> decimal \<Rightarrow> AlertCondition \<Rightarrow> bool option \<Rightarrow> string option \<Rightarrow> (world, price_alert) io" where
  "create_price_alert e user target_price condition rep note =
    (if target_price \<le> 0 then fail (BadRequest ''Target price must be positive'')
     else
      bnd (fresh_uuid e) (\<lambda>alert_id.
      bnd get_clock (\<lambda>now.
      let a = \<lparr> a_id = alert_id, a_user_id = user, a_target_price = target_price, a_condition = condition,
                a_status = AlActive, a_triggered_at = None, a_triggered_price = None,
                a_repeat = unwrap_or rep False, a_note = note, a_created_at = now \<rparr>
      in sq (internal_err ''Failed to create alert: ''
               (exec_chk (alert_ok a) (\<lambda>d. d\<lparr>price_alerts := price_alerts d @ [a]\<rparr>))) (ret a))))"

definition list_price_alerts :: "uuid \<Rightarrow> (world, price_alert list) io" where
  "list_price_alerts user = internal_err ''Failed to list alerts: ''
    (query (\<lambda>d. take 100 (sort_key (\<lambda>a. - a_created_at a) (filter (\<lambda>a. a_user_id a = user) (price_alerts d)))))"

definition own_alert :: "uuid \<Rightarrow> uuid \<Rightarrow> price_alert \<Rightarrow> bool" where
  "own_alert alert_id user a \<longleftrightarrow> a_id a = alert_id \<and> a_user_id a = user"

definition delete_price_alert :: "uuid \<Rightarrow> uuid \<Rightarrow> (world, unit) io" where
  "delete_price_alert user alert_id =
    bnd (internal_err ''Failed to delete alert: '' (exec_count
          (\<lambda>d. length (filter (own_alert alert_id user) (price_alerts d)))
          (\<lambda>d. d\<lparr>price_alerts := filter (\<lambda>a. \<not> own_alert alert_id user a) (price_alerts d)\<rparr>))) (\<lambda>rows_affected.
    if rows_affected = 0 then fail (NotFound ''Alert not found'') else ret ())"


subsection \<open>Triggering\<close>

lemma trigger_order_cases:
  assumes "trigger_order e i u sd en lp tok w = (q, w')"
  shows "(\<exists>x. q = Ok x) \<and> db w' = add_order (service_order (new_v4 e (uuids w)) u
        (if lp \<noteq> None \<and> unwrap_or lp 0 > 0 then Limit else Market) sd en (unwrap_or lp 0) (clock w) tok)
        (upd_order i (mark_triggered (clock w)) (db w))
    \<or> (\<forall>x. q \<noteq> Ok x) \<and> db w' = db w"
proof (cases "\<exists>x. q = Ok x")
  case True
  with assms have "trigger_order e i u sd en lp tok w = (Ok (), w')" by auto
  then show ?thesis using True
    by (auto simp: trigger_order_def get_clock_app fresh_uuid_app Let_def statement_Ok
        elim!: bnd_OkE transaction_OkE sq_OkE)
next
  case False
  with assms have "db w' = db w"
    by (auto simp: trigger_order_def bnd_app get_clock_app dest!: transaction_atomic)
  with False show ?thesis by simp
qed

lemma service_order_fields [simp]:
  "o_id (service_order i u ty sd en pr now tok) = i" "o_user_id (service_order i u ty sd en pr now tok) = u"
  "o_side (service_order i u ty sd en pr now tok) = sd" "o_energy_amount (service_order i u ty sd en pr now tok) = en"
  "o_price_per_kwh (service_order i u ty sd en pr now tok) = pr" "o_status (service_order i u ty sd en pr now tok) = Pending"
  "o_filled_at (service_order i u ty sd en pr now tok) = None" "o_epoch_id (service_order i u ty sd en pr now tok) = None"
  "o_filled_amount (service_order i u ty sd en pr now tok) = Some 0" "o_trigger_type (service_order i u ty sd en pr now tok) = None"
  by (simp_all add: service_order_def)

lemma mark_triggered_fields [simp]:
  "o_id (mark_triggered t r) = o_id r" "o_status (mark_triggered t r) = o_status r" "o_filled_at (mark_triggered t r) = o_filled_at r"
  "o_trigger_status (mark_triggered t r) = Some TrTriggered"
  by (simp_all add: mark_triggered_def)

subsection \<open>Properties\<close>

text \<open>
  Triggering is all or nothing, and duplicates the order.  A conditional order that is triggered
  either leaves every table as it was, or is marked as triggered together with the insertion of one
  pending order of the same owner, side, amount and price.  Nothing is escrowed, and the conditional
  order itself keeps its status, so that a pending one stays open beside the order made from it.
\<close>

theorem trigger_order_all_or_nothing:
  assumes "find_row o_id i (orders (db w)) = Some r"
    and "trigger_order e i (o_user_id r) (o_side r) (o_energy_amount r) (Some (o_price_per_kwh r)) tok w = (q, w')"
  shows "db w' = db w \<or> (\<exists>n. o_user_id n = o_user_id r \<and> o_side n = o_side r \<and> o_energy_amount n = o_energy_amount r
      \<and> o_price_per_kwh n = o_price_per_kwh r \<and> o_status n = Pending
      \<and> orders (db w') = update_where (\<lambda>x. o_id x = i) (mark_triggered (clock w)) (orders (db w)) @ [n]
      \<and> users (db w') = users (db w) \<and> escrow_records (db w') = escrow_records (db w)
      \<and> (\<exists>r'. find_row o_id i (orders (db w')) = Some r' \<and> o_status r' = o_status r \<and> o_trigger_status r' = Some TrTriggered))"
proof -
  let ?n = "service_order (new_v4 e (uuids w)) (o_user_id r) (if o_price_per_kwh r > 0 then Limit else Market)
    (o_side r) (o_energy_amount r) (o_price_per_kwh r) (clock w) tok"
  from trigger_order_cases [OF assms(2)] consider "db w' = db w"
    | "db w' = add_order ?n (upd_order i (mark_triggered (clock w)) (db w))" by auto
  then show ?thesis
  proof cases
    case 2
    then show ?thesis using assms(1)
      by (intro disjI2 exI [of _ ?n]) (simp add: add_order_def upd_order_def find_row_append find_row_update_same)
  qed simp
qed


definition stop_row :: order_row where
  "stop_row = (sample_order 4 1 Sell 10 2 0 Pending)\<lparr>o_trigger_price := Some 3, o_trigger_type := Some StopLoss, o_expires_at := None\<rparr>"

definition conditional_db :: db where
  "conditional_db = empty_db\<lparr>users := [1 \<mapsto> sample_user 5 0 0], orders := [stop_row]\<rparr>"

lemma stop_row_fields [simp]:
  "o_id stop_row = 4" "o_user_id stop_row = 1" "o_side stop_row = Sell" "o_energy_amount stop_row = 10"
  "o_price_per_kwh stop_row = 2" "o_status stop_row = Pending" "o_trigger_status stop_row = Some TrPending"
  "users conditional_db = [1 \<mapsto> sample_user 5 0 0]" "orders conditional_db = [stop_row]"
  by (simp_all add: stop_row_def sample_order_def conditional_db_def)

lemma sample_trigger:
  "trigger_order std_env 4 1 Sell 10 (Some 2) None (calm_world conditional_db) = (Ok (),
     (calm_world conditional_db)\<lparr>db := add_order (service_order 1000 1 Limit Sell 10 2 1000 None)
        (upd_order 4 (mark_triggered 1000) conditional_db), uuids := 1\<rparr>)"
  by (simp add: trigger_order_def io_simps Let_def order_ok_def service_order_def order_exists_def upd_order_def)

theorem trigger_order_all_or_nothing_witness:
  "\<exists>w'. trigger_order std_env 4 1 Sell 10 (Some 2) None (calm_world conditional_db) = (Ok (), w')
     \<and> length (orders (db w')) = 2 \<and> users (db w') = users conditional_db"
  using trigger_order_all_or_nothing [of 4 "calm_world conditional_db" stop_row std_env None, unfolded stop_row_fields, OF _ sample_trigger]
    sample_trigger by (auto simp: add_order_def)

text \<open>
  Cancelling an ordinary order through the conditional endpoint strands its escrow.  Every order
  row has the trigger status \<open>pending\<close> by default, so \<open>cancel_conditional_order\<close> accepts any order of
  the caller whose trigger has not fired: it becomes cancelled, whatever its status was, while the
  accounts and the escrow records stay as they are; and the ordinary cancellation, which would refund
  it, then refuses the order.
\<close>

theorem conditional_cancel_strands_escrow:
  assumes "faults w = []" and "find_row o_id i (orders (db w)) = Some r" and "o_user_id r = u"
    and "o_trigger_status r = Some TrPending"
  shows "\<exists>w'. cancel_conditional_order u i w = (Ok (), w') \<and> users (db w') = users (db w)
    \<and> escrow_records (db w') = escrow_records (db w)
    \<and> find_row o_id i (orders (db w')) = Some (r\<lparr>o_trigger_status := Some TrCancelled, o_status := Cancelled\<rparr>)
    \<and> cancel_order e i u w' = (Err (BadRequest ''Order cannot be cancelled''), w')"
proof -
  let ?p = "cancellable_conditional i u" and ?f = "\<lambda>r :: order_row. r\<lparr>o_trigger_status := Some TrCancelled, o_status := Cancelled\<rparr>"
  let ?w' = "w\<lparr>db := upd_orders ?p ?f (db w)\<rparr>"
  have r: "r \<in> set (orders (db w))" "o_id r = i" using find_row_Some [OF assms(2)] by auto
  then have "filter ?p (orders (db w)) \<noteq> []" using assms(3,4) by (auto simp: filter_empty_conv cancellable_conditional_def)
  then have run: "cancel_conditional_order u i w = (Ok (), ?w')"
    using assms(1) by (simp add: cancel_conditional_order_def io_simps)
  have found: "find_row o_id i (orders (db ?w')) = Some (?f r)"
    using find_row_map [of "orders (db w)" o_id "\<lambda>x. if ?p x then ?f x else x" i] assms(2-4) r(2)
    by (simp add: upd_orders_def update_where_def cancellable_conditional_def)
  then have "cancel_order e i u ?w' = (Err (BadRequest ''Order cannot be cancelled''), ?w')"
    using assms(1,3) by (simp add: cancel_order_def io_simps)
  with run found show ?thesis by (auto simp: upd_orders_def)
qed

theorem conditional_cancel_strands_escrow_witness:
  "\<exists>w1 w2 r. create_order std_env 1 Buy Limit 10 (Some 2) None None None (calm_world trader_db) = (Ok 1000, w1)
     \<and> cancel_conditional_order 1 1000 w1 = (Ok (), w2) \<and> money_view (db w2) = money_view (db w1)
     \<and> find_row o_id 1000 (orders (db w2)) = Some r \<and> o_status r = Cancelled
     \<and> fst (cancel_order std_env 1000 1 w2) = Err (BadRequest ''Order cannot be cancelled'')"
proof -
  from sample_create obtain w1 where w1:
    "create_order std_env 1 Buy Limit 10 (Some 2) None None None (calm_world trader_db) = (Ok 1000, w1)"
    "faults w1 = []" by blast
  from create_order_cases [OF w1(1)] obtain ep where
    "order_placed std_env (new_order 1000 1 Limit Buy 10 2 (default_expiry 1000) 1000 ep None None) trader_db (db w1)"
    by auto
  from order_placed_found [OF this] obtain q where q: "find_row o_id 1000 (orders (db w1)) = Some q"
    "order_view q = order_view (new_order 1000 1 Limit Buy 10 2 (default_expiry 1000) 1000 ep None None)" by auto
  have "o_user_id q = 1" "o_trigger_status q = Some TrPending"
    using arg_cong [OF q(2), of o_user_id] arg_cong [OF q(2), of o_trigger_status] by (simp_all add: order_view_def)
  from conditional_cancel_strands_escrow [OF w1(2) q(1) this, of std_env] w1(1) show ?thesis
    by (auto simp: money_view_def fun_eq_iff)
qed

text \<open>The trigger conditions: a stop-loss sells and a take-profit buys on a fall, the others on a rise.\<close>

theorem trigger_condition_meaning:
  "check_trigger_condition tt sd tp cp ofs \<longleftrightarrow>
     tt \<noteq> TrailingStop \<and> (if (tt = StopLoss) = (sd = Sell) then cp \<le> tp else tp \<le> cp)"
  by (cases tt; cases sd) auto

text \<open>Without an order that records when it was filled there is no market price, and the monitor does nothing.\<close>

lemma check_and_trigger_idle:
  assumes "\<forall>r \<in> set (orders (db w)). o_filled_at r = None"
  shows "db (snd (check_and_trigger_orders e w)) = db w \<and> fst (check_and_trigger_orders e w) \<noteq> Panic"
proof -
  have "recent_prices now (db w) = []" for now using assms by (auto simp: recent_prices_def filter_empty_conv)
  then show ?thesis
    by (simp add: check_and_trigger_orders_def get_current_market_price_def bnd_app get_clock_app query_def Let_def split: option.split)
qed

end
