(* ===== verification/Market.thy ===== *)
theory Market
  imports Engine Conditional
begin

text \<open>
  The market as a whole: which invariants of the tables every operation keeps.  The locale
  \<open>trading_tables\<close> lists the table updates that placing, matching, expiring and cancelling orders
  make; \<open>market_tables\<close> adds those of settlements and certificates.  The operations are proved once
  against these interfaces, and the step relations at the end are the operations in any order.
\<close>

subsection \<open>Invariants of the trading side\<close>

lemma money_worth_wallet: "money_worth (set_wallet pk enc salt iv r) = money_worth r"
  by (simp add: money_worth_def set_wallet_def)

locale trading_tables =
  fixes I :: "db \<Rightarrow> bool"
  assumes user_step: "I d \<Longrightarrow> (\<And>r. money_worth (f r) = money_worth r) \<Longrightarrow> I (upd_user u f d)"
    and add_order_step: "I d \<Longrightarrow> order_ok row d \<Longrightarrow> o_filled_at row = None \<Longrightarrow> I (add_order row d)"
    and orders_step: "I d \<Longrightarrow> (\<And>r. o_id (h r) = o_id r) \<Longrightarrow> (\<And>r. o_filled_at (h r) = o_filled_at r) \<Longrightarrow>
      I (d\<lparr>orders := update_where q h (orders d)\<rparr>)"
    and escrow_step: "I d \<Longrightarrow> I (d\<lparr>escrow_records := es\<rparr>)"
    and add_epoch_step: "I d \<Longrightarrow> epoch_unique ep d \<Longrightarrow> I (add_epoch (epoch_defaults ep) d)"
    and epoch_step: "I d \<Longrightarrow> (\<And>r. ep_id (k r) = ep_id r \<and> ep_number (k r) = ep_number r) \<Longrightarrow>
      I (d\<lparr>epochs := update_where p k (epochs d)\<rparr>)"
    and match_step_ok: "I d \<Longrightarrow> I (d\<lparr>order_matches := ms\<rparr>)"
    and settle_step: "I d \<Longrightarrow> settlement_fk s d \<Longrightarrow> I (add_settlement s d)"
    and task_step: "I d \<Longrightarrow> I (d\<lparr>blockchain_tasks := ts\<rparr>)"
    and recurring_table: "I d \<Longrightarrow> I (d\<lparr>recurring_orders := cs\<rparr>)"
    and execution_table: "I d \<Longrightarrow> I (d\<lparr>recurring_order_executions := xs\<rparr>)"
    and alert_table: "I d \<Longrightarrow> I (d\<lparr>price_alerts := as\<rparr>)"
    and cert_step: "I d \<Longrightarrow> cert_ok c d \<Longrightarrow> c_status c = ''active'' \<Longrightarrow> I (d\<lparr>erc_certificates := erc_certificates d @ [c]\<rparr>)"
begin

lemma order_step:
  "I d \<Longrightarrow> (\<And>r. o_id (h r) = o_id r) \<Longrightarrow> (\<And>r. o_filled_at (h r) = o_filled_at r) \<Longrightarrow> I (upd_order i h d)"
  unfolding upd_order_def by (rule orders_step)

lemma table_steps:
  "I d \<Longrightarrow> I (add_escrow r d)" "I d \<Longrightarrow> I (release_escrow q f' d)" "I d \<Longrightarrow> I (set_epoch_status i st d)"
  "I d \<Longrightarrow> I (add_match m d)" "I d \<Longrightarrow> I (link_settlement mi i d)" "I d \<Longrightarrow> I (set_clearing_price i pr d)"
  unfolding add_escrow_def release_escrow_def set_epoch_status_def add_match_def link_settlement_def set_clearing_price_def
  by (simp_all add: escrow_step epoch_step match_step_ok)

lemma order_tx_step: "I d \<Longrightarrow> I (set_order_tx i sig pda d)"
  using order_step [of d "\<lambda>r. case pda of Some p \<Rightarrow> r\<lparr>o_order_pda := Some p, o_blockchain_tx_signature := Some sig\<rparr>
       | None \<Rightarrow> r\<lparr>o_blockchain_tx_signature := Some sig\<rparr>" i]
  by (simp add: set_order_tx_def upd_order_def split: option.splits)

lemma money_steps:
  "I d \<Longrightarrow> I (upd_user u (move_to_locked a) d)" "I d \<Longrightarrow> I (upd_user u (add_locked_energy a) d)"
  "I d \<Longrightarrow> I (upd_user u (set_wallet pk enc salt iv) d)"
  by (simp_all add: user_step money_worth_wallet)

lemma escrow_keeps:
  "keeps_db I (lock_funds u i a)" "keeps_db I (lock_energy u i a)"
  "keeps_db I (unlock_funds u i a r)" "keeps_db I (unlock_energy u i a r)"
  unfolding escrow_ops by (intro keeps_db_intros table_steps money_steps | assumption)+

lemma epoch_keeps: "keeps_db I (get_or_create_epoch e t)" "keeps_db I (update_epoch_statistics i v n)"
  unfolding get_or_create_epoch_def get_epoch_by_number_def update_epoch_statistics_def Let_def
  by (intro keeps_db_intros table_steps add_epoch_step epoch_step; simp)+

lemma create_order_keeps: "keeps_db I (create_order e u sd ty en pr t z m)"
  unfolding create_order_def place_tx_def limit_price_def escrow_buy_def escrow_sell_def onchain_balance_check_def Let_def
  by (auto intro!: keeps_db_intros table_steps money_steps add_order_step epoch_keeps order_creation_keeps order_tx_step
      split: OrderType.split)

lemma cancel_order_keeps: "keeps_db I (cancel_order e i u)"
proof -
  have side: "I d \<Longrightarrow> I ((case sd of Buy \<Rightarrow> upd_user u (move_to_locked a) | Sell \<Rightarrow> upd_user u (add_locked_energy a)) d)" for d sd a
    by (cases sd) (simp_all add: money_steps)
  show ?thesis
    unfolding cancel_order_def queue_blockchain_task_def add_task_def Let_def
    by (intro keeps_db_intros table_steps side order_step task_step) simp_all
qed

lemma expire_keeps: "keeps_db I (expire_stale_orders e g)"
  unfolding expire_stale_orders_def expire_one_def
  by (intro keeps_db_intros escrow_keeps order_step) simp_all

lemma settle_keeps: "keeps_db I (create_settlement e cfg t)"
  unfolding create_settlement_def Let_def by (intro keeps_db_intros settle_step)

lemma save_match_keeps: "keeps_db I (save_order_match m)"
  unfolding save_order_match_def by (intro keeps_db_intros table_steps)

lemma set_fill_step: "keeps_db I (set_fill i a st)"
  unfolding set_fill_def by (intro keeps_db_intros order_step) simp_all

lemma match_candidate_keeps: "keeps_db I (match_candidate e g b c st)"
  unfolding match_candidate_def create_order_match_def trigger_settlement_def Let_def
  by (intro keeps_db_intros table_steps save_match_keeps settle_keeps set_fill_step)

lemma match_candidates_keeps: "keeps_db I (match_candidates e g b cs st)"
  by (induction cs arbitrary: st) (auto intro!: keeps_db_intros match_candidate_keeps)

lemma match_buy_keeps: "keeps_db I (match_buy e g b st)"
  unfolding match_buy_def finish_buy_def Let_def
  by (intro keeps_db_intros match_candidates_keeps set_fill_step order_step) simp_all

lemma match_buys_keeps: "keeps_db I (match_buys e g bs st)"
  by (induction bs arbitrary: st) (auto intro!: keeps_db_intros match_buy_keeps)

lemma cycle_keeps: "keeps_db I (match_orders_cycle e g)"
  unfolding match_orders_cycle_def by (intro keeps_db_intros match_buys_keeps)

lemma matching_loop_keeps: "keeps_db I (run_matching_loop e g flags)"
  by (induction flags) (auto intro!: keeps_db_intros expire_keeps cycle_keeps simp del: ret_app)

text \<open>The background services: the retry queue, recurring and conditional orders, and price alerts.\<close>

lemma service_steps:
  "I d \<Longrightarrow> I (upd_task i f' d)" "I d \<Longrightarrow> I (add_task t d)" "I d \<Longrightarrow> I (add_recurring c d)"
  "I d \<Longrightarrow> I (upd_recurring p f'' d)" "I d \<Longrightarrow> I (add_execution x d)"
  unfolding upd_task_def add_task_def add_recurring_def upd_recurring_def add_execution_def
  by (simp_all add: task_step recurring_table execution_table)

lemma worker_keeps: "keeps_db I (queue_task e ty p)" "keeps_db I (process_pending_tasks e)"
proof -
  have "keeps_db I (execute_task e ty p)" for ty p
    unfolding execute_task_def by (cases p; cases ty; simp del: ret_app) (intro keeps_db_intros)+
  then show "keeps_db I (queue_task e ty p)" "keeps_db I (process_pending_tasks e)"
    unfolding queue_task_def process_pending_tasks_def process_task_def mark_as_failed_def mark_as_completed_def
    by (intro keeps_db_intros service_steps; simp)+
qed

lemma recurring_keeps:
  "keeps_db I (create_recurring_order e u rq)" "keeps_db I (cancel_recurring_order u i)"
  "keeps_db I (pause_recurring_order u i)" "keeps_db I (resume_recurring_order e u i)" "keeps_db I (process_due_orders e)"
  unfolding create_recurring_order_def cancel_recurring_order_def pause_recurring_order_def resume_recurring_order_def
    calculate_next_execution_def checked_date_def update_recurring_def process_due_orders_def run_due_def execute_order_def
    record_execution_def Let_def
  by (intro keeps_db_intros service_steps add_order_step; simp)+

lemma conditional_keeps:
  "keeps_db I (create_conditional_order e u cq)" "keeps_db I (cancel_conditional_order u i)"
  "keeps_db I (check_and_trigger_orders e)"
  unfolding create_conditional_order_def cancel_conditional_order_def upd_orders_def check_and_trigger_orders_def
    get_current_market_price_def check_order_def trigger_order_def Let_def
  by (intro keeps_db_intros add_order_step orders_step order_step; simp add: conditional_row_def)+

lemma alert_keeps: "keeps_db I (create_price_alert e u p c rep n)" "keeps_db I (delete_price_alert u i)"
  unfolding create_price_alert_def delete_price_alert_def Let_def by (intro keeps_db_intros alert_table; simp)+

text \<open>The epoch auction.\<close>

lemma record_fill_keeps: "keeps_db I (record_fill x a)"
  unfolding record_fill_def update_order_status_def update_order_filled_amount_def
  by (intro keeps_db_intros order_step) simp_all

lemma match_step_keeps: "keeps_db I (match_step e ep st)"
  unfolding match_step_def Let_def
  by (auto intro!: keeps_db_intros save_match_keeps record_fill_keeps split: list.split option.split)

lemma match_loop_keeps:
  assumes "match_loop e ep st w = Some (r, w')" and "I (db w)"
  shows "I (db w')"
proof -
  let ?P = "\<lambda>e ep st w r. I (db w) \<longrightarrow> I (db (snd r))"
  have "?P e ep st w (r, w')"
  proof (rule match_loop.raw_induct [where P = ?P, OF _ assms(1)])
    fix loop e' ep' st w r
    assume ih: "\<And>e' ep' st w r. loop e' ep' st w = Some r \<Longrightarrow> ?P e' ep' st w r"
      and run: "(if bs_buys st = [] \<or> bs_sells st = [] then Some (Ok st, w)
         else (case match_step e' ep' st w of (Ok st', w') \<Rightarrow> loop e' ep' st' w'
           | (Err er, w') \<Rightarrow> Some (Err er, w') | (Panic, w') \<Rightarrow> Some (Panic, w'))) = Some r"
    obtain r1 w1 where r1: "match_step e' ep' st w = (r1, w1)" by (cases "match_step e' ep' st w")
    have "I (db w) \<Longrightarrow> I (db w1)" using keeps_dbD [OF match_step_keeps, of w e' ep' st] r1 by simp
    then show "?P e' ep' st w r" using run [unfolded r1] ih by (cases r1) (auto split: if_splits)
  qed
  with assms(2) show ?thesis by simp
qed

lemma issue_keeps: "keeps_db I (issue_certificate e u iss rq sid)"
  unfolding issue_certificate_def generate_certificate_id_def Let_def
  by (intro keeps_db_intros cert_step) simp_all

lemma auction_settlement_keeps: "keeps_db I (create_settlement_mc e m)"
  unfolding create_settlement_mc_def release_match_def issue_rec_for_match_def Let_def
  by (intro keeps_db_intros settle_step table_steps issue_keeps)

lemma finish_matching_keeps: "keeps_db I (finish_matching e ep st)"
  unfolding finish_matching_def
  by (intro keeps_db_intros epoch_keeps table_steps auction_settlement_keeps)

lemma auction_keeps:
  assumes "run_order_matching e ep w = Some (r, w')" and "I (db w)"
  shows "I (db w')"
proof -
  obtain q w1 where q: "get_order_book ep w = (q, w1)" by (cases "get_order_book ep w")
  have "keeps_db I (get_order_book ep)" unfolding get_order_book_def by (intro keeps_db_intros)
  from keeps_dbD [OF this assms(2)] q have w1: "I (db w1)" by simp
  show ?thesis
    using assms(1) q w1
    by (auto simp: run_order_matching_def split: outcome.splits option.splits if_splits prod.splits
        dest: match_loop_keeps keeps_dbD [OF finish_matching_keeps, of _ e ep])
      (metis finish_matching_keeps keeps_dbD match_loop_keeps snd_conv)+
qed

end

subsection \<open>Invariants of all tables\<close>

locale market_tables = trading_tables I for I :: "db \<Rightarrow> bool" +
  assumes pay_step: "I d \<Longrightarrow> I (upd_user u g d)"
    and revenue_step: "I d \<Longrightarrow> I (d\<lparr>platform_revenue := rs\<rparr>)"
    and settlement_step: "I d \<Longrightarrow> (\<And>r. s_id (v r) = s_id r) \<Longrightarrow>
      (\<And>r. r \<in> set (settlements d) \<Longrightarrow> s_id r = i \<Longrightarrow> status_ok (s_status r) \<Longrightarrow> status_ok (s_status (v r))) \<Longrightarrow> I (upd_settlement i v d)"
    and certificate_step: "I d \<Longrightarrow> (\<And>c. c_id (y c) = c_id c) \<Longrightarrow> (\<And>c. c_certificate_id (y c) = c_certificate_id c) \<Longrightarrow>
      (\<And>c. c_status c \<in> {''active'', ''retired'', ''expired'', ''transferred''} \<Longrightarrow>
        c_status (y c) \<in> {''active'', ''retired'', ''expired'', ''transferred''}) \<Longrightarrow> I (upd_cert q y d)"
    and transfer_step: "I d \<Longrightarrow> I (d\<lparr>erc_transfers := fs\<rparr>)"
begin

lemma certificate_keeps:
  "keeps_db I (update_certificate_signature i sig)" "keeps_db I (retire_certificate i)"
  "keeps_db I (transfer_certificate e scan i fw tw sig)"
  unfolding update_certificate_signature_def retire_certificate_def transfer_certificate_def Let_def
  by (intro keeps_db_intros db_context_keeps update_cert_returning_keeps certificate_step transfer_step; simp)+

lemma status_keeps:
  "keeps_db I (update_settlement_status i st)" "keeps_db I (update_settlement_confirmed i sig st)"
  "keeps_db I (increment_retry_count i)" "keeps_db I (mark_settlement_permanent_failure i msg)"
  unfolding update_settlement_status_def update_settlement_confirmed_def increment_retry_count_def
    mark_settlement_permanent_failure_def
  by (intro keeps_db_intros settlement_step; simp add: touches_iff; blast)+

lemma finalize_keeps: "keeps_db I (finalize_escrow e s)"
  by (intro finalize_escrow_keeps pay_step revenue_step table_steps)

lemma rec_keeps: "keeps_db I (issue_rec_for_settlement e s)"
  unfolding issue_rec_for_settlement_def by (intro keeps_db_intros issue_keeps)

lemma execute_keeps: "keeps_db I (execute_settlement e cfg i)"
  unfolding execute_settlement_def settle_and_record_def
  by (intro keeps_db_intros status_keeps finalize_keeps rec_keeps)

lemma batch_keeps: "keeps_db I (execute_batch_settlement e ids)" "keeps_db I (process_relayer_queue e)"
  "keeps_db I (retry_failed_settlements e cfg n)"
  unfolding execute_batch_settlement_def parse_pubkey_internal_def process_relayer_queue_def relay_one_def
    update_bridge_completed_def retry_failed_settlements_def retry_one_def Let_def
  by (intro keeps_db_intros status_keeps finalize_keeps execute_keeps)+

end

subsection \<open>The well-formed market\<close>

definition orders_ok :: "db \<Rightarrow> bool" where
  "orders_ok d \<longleftrightarrow> distinct (map o_id (orders d))"

definition market_ok :: "db \<Rightarrow> bool" where
  "market_ok d \<longleftrightarrow> orders_ok d \<and> epochs_ok d \<and> settlements_ok d \<and> certs_ok d"

lemma market_ok_same:
  assumes "market_ok d" and "orders d' = orders d" "epochs d' = epochs d" "settlements d' = settlements d"
    "erc_certificates d' = erc_certificates d"
  shows "market_ok d'"
  using assms by (simp add: market_ok_def orders_ok_def epochs_ok_def settlements_ok_def certs_ok_def)

lemma market_ok_orders:
  assumes "market_ok d" and "distinct (map o_id rs)"
  shows "market_ok (d\<lparr>orders := rs\<rparr>)"
  using assms by (simp add: market_ok_def orders_ok_def epochs_ok_def settlements_ok_def certs_ok_def)

lemma market_ok_epochs:
  assumes "market_ok d" and "distinct (map ep_number rs)" "distinct (map ep_id rs)"
  shows "market_ok (d\<lparr>epochs := rs\<rparr>)"
  using assms by (simp add: market_ok_def orders_ok_def epochs_ok_def settlements_ok_def certs_ok_def)

interpretation sound: market_tables market_ok
proof
  fix d assume d: "market_ok d"
  show "market_ok (upd_user u f d)" for u f by (rule market_ok_same [OF d]) (simp_all add: upd_user_def)
  show "market_ok (upd_user u f d)" for u f by (rule market_ok_same [OF d]) (simp_all add: upd_user_def)
  show "market_ok (d\<lparr>escrow_records := es\<rparr>)" "market_ok (d\<lparr>order_matches := ms\<rparr>)" "market_ok (d\<lparr>blockchain_tasks := ts\<rparr>)"
    "market_ok (d\<lparr>recurring_orders := cs\<rparr>)" "market_ok (d\<lparr>recurring_order_executions := xs\<rparr>)" "market_ok (d\<lparr>price_alerts := as\<rparr>)"
    "market_ok (d\<lparr>platform_revenue := rs\<rparr>)" "market_ok (d\<lparr>erc_transfers := fs\<rparr>)" for es ms ts rs fs cs xs as
    by (rule market_ok_same [OF d]; simp)+
  show "market_ok (add_order row d)" if "order_ok row d" for row
    using that d unfolding add_order_def
    by (intro market_ok_orders) (auto simp: market_ok_def orders_ok_def order_ok_def order_exists_def list_ex_iff)
  show "market_ok (d\<lparr>orders := update_where q h (orders d)\<rparr>)" if "\<And>r. o_id (h r) = o_id r" for q h
    using that d
    by (intro market_ok_orders) (auto simp: market_ok_def orders_ok_def map_update_where_same)
  show "market_ok (add_epoch (epoch_defaults ep) d)" if "epoch_unique ep d" for ep
    using that d unfolding add_epoch_def
    by (intro market_ok_epochs) (auto simp: market_ok_def epochs_ok_def epoch_unique_def list_all_iff)
  show "market_ok (d\<lparr>epochs := update_where p k (epochs d)\<rparr>)" if "\<And>r. ep_id (k r) = ep_id r \<and> ep_number (k r) = ep_number r" for p k
    using that d by (intro market_ok_epochs) (auto simp: market_ok_def epochs_ok_def map_update_where_same)
  show "market_ok (add_settlement s d)" if "settlement_fk s d" for s
    using settlements_ok_add [of d s] that d by (simp add: market_ok_def orders_ok_def epochs_ok_def certs_ok_def add_settlement_def)
  show "market_ok (upd_settlement i v d)" if "\<And>r. s_id (v r) = s_id r"
    "\<And>r. r \<in> set (settlements d) \<Longrightarrow> s_id r = i \<Longrightarrow> status_ok (s_status r) \<Longrightarrow> status_ok (s_status (v r))" for i v
    using settlements_ok_upd [of d v i, OF _ that] d by (simp add: market_ok_def orders_ok_def epochs_ok_def certs_ok_def upd_settlement_def)
  show "market_ok (d\<lparr>erc_certificates := erc_certificates d @ [c]\<rparr>)" if "cert_ok c d" "c_status c = ''active''" for c
    using certs_ok_add [OF _ that] d by (simp add: market_ok_def orders_ok_def epochs_ok_def settlements_ok_def)
  show "market_ok (upd_cert q y d)" if "\<And>c. c_id (y c) = c_id c" "\<And>c. c_certificate_id (y c) = c_certificate_id c"
    "\<And>c. c_status c \<in> {''active'', ''retired'', ''expired'', ''transferred''} \<Longrightarrow>
        c_status (y c) \<in> {''active'', ''retired'', ''expired'', ''transferred''}" for q y
    using certs_ok_update [OF _ that, of d q] d
    by (simp add: market_ok_def orders_ok_def epochs_ok_def settlements_ok_def upd_cert_def)
qed

interpretation wealth: trading_tables "\<lambda>d. owned d = c" for c
proof
  fix d f u assume "owned d = c" and "\<And>r. money_worth (f r) = money_worth r"
  then show "owned (upd_user u f d) = c"
    by (cases "users d u") (auto simp: owned_upd_user owned_def)
qed (auto simp: owned_def fun_eq_iff add_order_def upd_order_def add_epoch_def add_settlement_def)

text \<open>No operation records when an order was filled.\<close>

definition no_fill_times :: "db \<Rightarrow> bool" where
  "no_fill_times d \<longleftrightarrow> (\<forall>r \<in> set (orders d). o_filled_at r = None)"

interpretation untimed: market_tables no_fill_times
proof
  show "no_fill_times (d\<lparr>orders := update_where q h (orders d)\<rparr>)"
    if "no_fill_times d" "\<And>r. o_filled_at (h r) = o_filled_at r" for d q h
    using that by (auto simp: no_fill_times_def set_update_where)
qed (auto simp: no_fill_times_def upd_user_def add_order_def add_epoch_def add_settlement_def upd_settlement_def upd_cert_def)

subsection \<open>Steps\<close>

text \<open>
  One operation of the trading side, with any outcome.  \<open>outside\<close> is what the tables do not see:
  time passes, statements will be lost, the blockchain moves on.
\<close>

inductive trade_step :: "env \<Rightarrow> matching_engine \<Rightarrow> world \<Rightarrow> world \<Rightarrow> bool" for e g where
  place_order: "create_order e u sd ty en pr t z m w = (r, w') \<Longrightarrow> trade_step e g w w'"
| withdraw_order: "cancel_order e i u w = (r, w') \<Longrightarrow> trade_step e g w w'"
| lock_money: "lock_funds u i a w = (r, w') \<Longrightarrow> trade_step e g w w'"
| lock_kwh: "lock_energy u i a w = (r, w') \<Longrightarrow> trade_step e g w w'"
| unlock_money: "unlock_funds u i a s w = (r, w') \<Longrightarrow> trade_step e g w w'"
| unlock_kwh: "unlock_energy u i a s w = (r, w') \<Longrightarrow> trade_step e g w w'"
| open_epoch: "get_or_create_epoch e t w = (r, w') \<Longrightarrow> trade_step e g w w'"
| auction: "run_order_matching e ep w = Some (r, w') \<Longrightarrow> trade_step e g w w'"
| engine_round: "run_matching_loop e g flags w = (r, w') \<Longrightarrow> trade_step e g w w'"
| manual_cycle: "trigger_matching e g w = (r, w') \<Longrightarrow> trade_step e g w w'"
| record_trade: "create_settlement e cfg tm w = (r, w') \<Longrightarrow> trade_step e g w w'"
| issue: "issue_certificate e u iss rq sid w = (r, w') \<Longrightarrow> trade_step e g w w'"
| queue: "queue_task e ty p w = (r, w') \<Longrightarrow> trade_step e g w w'"
| work: "process_pending_tasks e w = (r, w') \<Longrightarrow> trade_step e g w w'"
| create_recurring: "create_recurring_order e u rq w = (r, w') \<Longrightarrow> trade_step e g w w'"
| cancel_recurring: "cancel_recurring_order u i w = (r, w') \<Longrightarrow> trade_step e g w w'"
| pause_recurring: "pause_recurring_order u i w = (r, w') \<Longrightarrow> trade_step e g w w'"
| resume_recurring: "resume_recurring_order e u i w = (r, w') \<Longrightarrow> trade_step e g w w'"
| schedule: "process_due_orders e w = (r, w') \<Longrightarrow> trade_step e g w w'"
| create_conditional: "create_conditional_order e u cq w = (r, w') \<Longrightarrow> trade_step e g w w'"
| cancel_conditional: "cancel_conditional_order u i w = (r, w') \<Longrightarrow> trade_step e g w w'"
| monitor: "check_and_trigger_orders e w = (r, w') \<Longrightarrow> trade_step e g w w'"
| create_alert: "create_price_alert e u tp c rep n w = (r, w') \<Longrightarrow> trade_step e g w w'"
| delete_alert: "delete_price_alert u i w = (r, w') \<Longrightarrow> trade_step e g w w'"
| outside: "db w' = db w \<Longrightarrow> trade_step e g w w'"

inductive_cases trade_stepE: "trade_step e g w w'"

text \<open>One operation of the whole market: trading, paying out, and the life of certificates.\<close>

inductive market_step :: "env \<Rightarrow> matching_engine \<Rightarrow> settlement_config \<Rightarrow> world \<Rightarrow> world \<Rightarrow> bool" for e g cfg where
  trade: "trade_step e g w w' \<Longrightarrow> market_step e g cfg w w'"
| pay: "execute_settlement e cfg i w = (r, w') \<Longrightarrow> market_step e g cfg w w'"
| pay_batch: "execute_batch_settlement e ids w = (r, w') \<Longrightarrow> market_step e g cfg w w'"
| relay: "process_relayer_queue e w = (r, w') \<Longrightarrow> market_step e g cfg w w'"
| retry: "retry_failed_settlements e cfg n w = (r, w') \<Longrightarrow> market_step e g cfg w w'"
| sign: "update_certificate_signature i sig w = (r, w') \<Longrightarrow> market_step e g cfg w w'"
| transfer: "transfer_certificate e scan i fw tw sig w = (r, w') \<Longrightarrow> market_step e g cfg w w'"
| retire: "retire_certificate i w = (r, w') \<Longrightarrow> market_step e g cfg w w'"

inductive_cases market_stepE: "market_step e g cfg w w'"

context trading_tables
begin

lemma trade_step_keeps: "trade_step e g w w' \<Longrightarrow> I (db w) \<Longrightarrow> I (db w')"
  by (erule trade_stepE)
    (auto simp: trigger_matching_def dest: auction_keeps
      keeps_dbE [OF create_order_keeps] keeps_dbE [OF cancel_order_keeps] escrow_keeps [THEN keeps_dbE]
      keeps_dbE [OF epoch_keeps(1)] keeps_dbE [OF matching_loop_keeps] keeps_dbE [OF cycle_keeps]
      keeps_dbE [OF settle_keeps] keeps_dbE [OF issue_keeps] worker_keeps [THEN keeps_dbE] recurring_keeps [THEN keeps_dbE]
      conditional_keeps [THEN keeps_dbE] alert_keeps [THEN keeps_dbE])

lemma trade_steps_keep: "(trade_step e g)\<^sup>*\<^sup>* w w' \<Longrightarrow> I (db w) \<Longrightarrow> I (db w')"
  by (induction rule: rtranclp_induct) (auto dest: trade_step_keeps)

end

context market_tables
begin

lemma market_step_keeps: "market_step e g cfg w w' \<Longrightarrow> I (db w) \<Longrightarrow> I (db w')"
  by (erule market_stepE)
    (auto dest: trade_step_keeps keeps_dbE [OF execute_keeps] batch_keeps [THEN keeps_dbE] certificate_keeps [THEN keeps_dbE])

lemma market_steps_keep: "(market_step e g cfg)\<^sup>*\<^sup>* w w' \<Longrightarrow> I (db w) \<Longrightarrow> I (db w')"
  by (induction rule: rtranclp_induct) (auto dest: market_step_keeps)

end

end
