(* ===== verification/Carbon.thy ===== *)
theory Carbon
  imports Erc Grid_Topology
begin

text \<open>
  Carbon credits (\<open>src/src/handlers/carbon.rs\<close>): the balance of a user over the credit ledger and the
  energy certificates, the transfer of credits to the owner of a wallet, and the list of transactions.
  The ledger is append only: a transfer adds a negative entry for the sender and a positive one for
  the recipient.
\<close>

subsection \<open>Balances\<close>

record carbon_balance_response =
  cb_total_credits :: decimal
  cb_active_credits :: decimal
  cb_retired_credits :: decimal
  cb_transferred_credits :: decimal
  cb_kg_co2_equivalent :: rat

definition credit_sum :: "(carbon_credit \<Rightarrow> bool) \<Rightarrow> uuid \<Rightarrow> db \<Rightarrow> decimal" where
  "credit_sum p u d = sum_list (map cc_amount (filter (\<lambda>c. cc_user_id c = u \<and> p c) (carbon_credits d)))"

text \<open>\<open>SUM\<close> passes over a \<open>NULL\<close> amount.\<close>

definition certificate_sum :: "(erc_certificate \<Rightarrow> bool) \<Rightarrow> uuid \<Rightarrow> db \<Rightarrow> decimal" where
  "certificate_sum p u d =
     sum_list (map (\<lambda>c. unwrap_or (c_kwh_amount c) 0) (filter (\<lambda>c. c_user_id c = Some u \<and> p c) (erc_certificates d)))"

definition get_carbon_balance :: "uuid \<Rightarrow> (world, carbon_balance_response) io" where
  "get_carbon_balance user =
    bnd (internal_err ''Failed to get balance: '' (query (\<lambda>d.
      (credit_sum (\<lambda>_. True) user d + certificate_sum (\<lambda>_. True) user d,
       credit_sum (\<lambda>c. cc_status c = CcActive) user d + certificate_sum (\<lambda>c. c_status c = ''active'') user d,
       credit_sum (\<lambda>c. cc_status c = CcRetired) user d + certificate_sum (\<lambda>c. c_status c = ''retired'') user d,
       credit_sum (\<lambda>c. cc_status c = CcTransferred) user d)))) (\<lambda>(total_c, active_c, retired_c, transferred_c).
    ret \<lparr> cb_total_credits = total_c, cb_active_credits = active_c, cb_retired_credits = retired_c,
          cb_transferred_credits = transferred_c, cb_kg_co2_equivalent = f64 (f64 active_c * 1000) \<rparr>)"

subsection \<open>Transfers\<close>

definition spendable :: "uuid \<Rightarrow> db \<Rightarrow> decimal" where
  "spendable u d = credit_sum (\<lambda>c. cc_status c = CcActive) u d"

definition credit_ok :: "carbon_credit \<Rightarrow> db \<Rightarrow> bool" where
  "credit_ok c d \<longleftrightarrow> users d (cc_user_id c) \<noteq> None \<and> list_all (\<lambda>q. cc_id q \<noteq> cc_id c) (carbon_credits d)
     \<and> at_most 200 (cc_description c)"

definition add_credit :: "carbon_credit \<Rightarrow> db \<Rightarrow> db" where
  "add_credit c d = d\<lparr>carbon_credits := carbon_credits d @ [c]\<rparr>"

definition insert_credit :: "env \<Rightarrow> uuid \<Rightarrow> decimal \<Rightarrow> string \<Rightarrow> CarbonStatus \<Rightarrow> string \<Rightarrow> (world, unit) io" where
  "insert_credit e user amount source status description =
    bnd (fresh_uuid e) (\<lambda>i. bnd get_clock (\<lambda>now.
    let c = \<lparr> cc_id = i, cc_user_id = user, cc_amount = amount, cc_source = source, cc_source_reference_id = None,
              cc_status = status, cc_description = Some description, cc_created_at = now \<rparr>
    in exec_chk (credit_ok c) (add_credit c)))"

definition transaction_ok :: "carbon_transaction \<Rightarrow> db \<Rightarrow> bool" where
  "transaction_ok x d \<longleftrightarrow> (case cx_from_user_id x of None \<Rightarrow> True | Some u \<Rightarrow> users d u \<noteq> None) \<and> users d (cx_to_user_id x) \<noteq> None
     \<and> list_all (\<lambda>q. cx_id q \<noteq> cx_id x) (carbon_transactions d) \<and> at_most 200 (cx_notes x)"

definition record_transfer :: "env \<Rightarrow> uuid \<Rightarrow> uuid \<Rightarrow> decimal \<Rightarrow> string option \<Rightarrow> (world, carbon_transaction) io" where
  "record_transfer e sender recipient amount notes =
    bnd (fresh_uuid e) (\<lambda>i. bnd get_clock (\<lambda>now.
    let x = \<lparr> cx_id = i, cx_from_user_id = Some sender, cx_to_user_id = recipient, cx_amount = amount,
              cx_price_per_credit = None, cx_total_value = None, cx_status = CtCompleted, cx_notes = notes,
              cx_created_at = now \<rparr>
    in exec_returning (transaction_ok x) (\<lambda>d. d\<lparr>carbon_transactions := carbon_transactions d @ [x]\<rparr>) (\<lambda>_. x)))"

definition transfer_credits ::
  "env \<Rightarrow> uuid list \<Rightarrow> uuid \<Rightarrow> string \<Rightarrow> decimal \<Rightarrow> string option \<Rightarrow> (world, carbon_transaction) io" where
  "transfer_credits e scan user to_wallet_address amount notes =
    (if amount \<le> 0 then fail (BadRequest ''Amount must be positive'')
     else
      bnd (internal_err [] (query (user_of_wallet scan to_wallet_address))) (\<lambda>recipient.
      bnd (ok_or recipient (BadRequest ''Recipient not found'')) (\<lambda>recipient_id.
      if recipient_id = user then fail (BadRequest ''Cannot transfer to yourself'')
      else internal_err [] (transaction (
        bnd (query (spendable user)) (\<lambda>sender_balance.
        if sender_balance < amount then fail (BadRequest ''Insufficient credits'')
        else sq (insert_credit e user (- amount) ''transfer_out'' CcTransferred (''Transfer to '' @ to_wallet_address))
          (sq (insert_credit e recipient_id amount ''transfer_in'' CcActive ''Transfer from user'')
              (record_transfer e user recipient_id amount notes))))))))"

definition page_limit :: "int option \<Rightarrow> int" where
  "page_limit n = min (unwrap_or n 50) 100"

definition get_carbon_transactions :: "uuid \<Rightarrow> int option \<Rightarrow> int option \<Rightarrow> (world, carbon_transaction list) io" where
  "get_carbon_transactions user limit_n offset_n = internal_err ''Failed to get transactions: ''
    (let n = page_limit limit_n; k = unwrap_or offset_n 0 in
     if n < 0 \<or> k < 0 then fail (Database ''LIMIT and OFFSET must not be negative'')
     else query (\<lambda>d. take (nat n) (drop (nat k) (sort_key (\<lambda>x. - cx_created_at x)
       (filter (\<lambda>x. cx_from_user_id x = Some user \<or> cx_to_user_id x = user) (carbon_transactions d))))))"


subsection \<open>What a transfer does\<close>

text \<open>The specification of a transfer: two ledger entries and a transaction, or nothing.\<close>

definition transferred :: "uuid \<Rightarrow> uuid \<Rightarrow> decimal \<Rightarrow> db \<Rightarrow> db \<Rightarrow> bool" where
  "transferred u v a d d' \<longleftrightarrow> (\<exists>out_c in_c. carbon_credits d' = carbon_credits d @ [out_c, in_c]
     \<and> cc_user_id out_c = u \<and> cc_amount out_c = - a \<and> cc_status out_c = CcTransferred
     \<and> cc_user_id in_c = v \<and> cc_amount in_c = a \<and> cc_status in_c = CcActive) \<and> users d' = users d"

lemma insert_credit_Ok:
  assumes "insert_credit e u a src st desc w = (Ok x, w')"
  shows "\<exists>c. db w' = add_credit c (db w) \<and> cc_user_id c = u \<and> cc_amount c = a \<and> cc_status c = st"
  using assms unfolding insert_credit_def Let_def
  by (auto elim!: bnd_OkE simp: fresh_uuid_app get_clock_app statement_Ok)

lemma record_transfer_Ok:
  assumes "record_transfer e u v a n w = (Ok x, w')"
  shows "carbon_credits (db w') = carbon_credits (db w) \<and> users (db w') = users (db w)
    \<and> carbon_transactions (db w') = carbon_transactions (db w) @ [x]
    \<and> cx_from_user_id x = Some u \<and> cx_to_user_id x = v \<and> cx_amount x = a"
  using assms unfolding record_transfer_def Let_def
  by (auto elim!: bnd_OkE simp: fresh_uuid_app get_clock_app statement_Ok)

lemma add_credit_frame [simp]:
  "users (add_credit c d) = users d" "carbon_credits (add_credit c d) = carbon_credits d @ [c]"
  "carbon_transactions (add_credit c d) = carbon_transactions d"
  by (simp_all add: add_credit_def)

lemma transfer_credits_Ok:
  assumes "transfer_credits e scan u addr a n w = (Ok x, w')"
  shows "0 < a \<and> a \<le> spendable u (db w) \<and> cx_to_user_id x \<noteq> u \<and> user_of_wallet scan addr (db w) = Some (cx_to_user_id x)
    \<and> transferred u (cx_to_user_id x) a (db w) (db w') \<and> carbon_transactions (db w') = carbon_transactions (db w) @ [x]
    \<and> cx_from_user_id x = Some u \<and> cx_amount x = a"
  using assms unfolding transfer_credits_def
  by (auto elim!: bnd_OkE transaction_OkE sq_OkE dest!: insert_credit_Ok record_transfer_Ok
      simp: statement_Ok transferred_def split: if_splits)

lemma transfer_credits_atomic:
  assumes "transfer_credits e scan u addr a n w = (r, w')" and "\<And>x. r \<noteq> Ok x"
  shows "db w' = db w"
  using assms unfolding transfer_credits_def
  by (auto simp: bnd_app internal_err_app query_def ok_or_def split: if_splits option.splits prod.splits outcome.splits
      dest!: transaction_atomic)

lemma credit_sum_add:
  assumes "transferred u v a d d'" and "u \<noteq> v"
  shows "spendable u d' = spendable u d" "spendable v d' = spendable v d + a"
    "credit_sum (\<lambda>_. True) u d' = credit_sum (\<lambda>_. True) u d - a" "credit_sum (\<lambda>_. True) v d' = credit_sum (\<lambda>_. True) v d + a"
    "x \<notin> {u, v} \<Longrightarrow> credit_sum p x d' = credit_sum p x d"
  using assms by (auto simp: transferred_def spendable_def credit_sum_def)

text \<open>The identifiers that the server is about to draw are new.\<close>

definition fresh_transfer_ids :: "env \<Rightarrow> world \<Rightarrow> bool" where
  "fresh_transfer_ids e w \<longleftrightarrow> (let n = uuids w in new_v4 e n \<noteq> new_v4 e (Suc n)
     \<and> list_all (\<lambda>c. cc_id c \<noteq> new_v4 e n \<and> cc_id c \<noteq> new_v4 e (Suc n)) (carbon_credits (db w))
     \<and> list_all (\<lambda>x. cx_id x \<noteq> new_v4 e (Suc (Suc n))) (carbon_transactions (db w)))"

lemma transfer_credits_runs:
  assumes "faults w = []" and "0 < a" and "a \<le> spendable u (db w)" and "user_of_wallet scan addr (db w) = Some v"
    and "u \<noteq> v" and "users (db w) u \<noteq> None" and "length addr \<le> 188" and "at_most 200 n" and "fresh_transfer_ids e w"
  shows "\<exists>x w'. transfer_credits e scan u addr a n w = (Ok x, w') \<and> faults w' = []"
proof -
  have "users (db w) v \<noteq> None"
    using assms(4) by (auto simp: user_of_wallet_def find_Some_iff split: option.splits)
  with assms show ?thesis
    by (simp add: transfer_credits_def io_simps insert_credit_def record_transfer_def Let_def credit_ok_def
        transaction_ok_def fresh_transfer_ids_def list_all_iff at_most_def)
qed

subsection \<open>Properties\<close>

text \<open>
  A transfer is all or nothing and balanced.  One that succeeds moves the amount from the ledger
  total of the sender to that of the recipient, found by wallet address and different from the
  sender, leaves every other user alone and appends one completed transaction; one that fails, for
  whatever reason, leaves every table as it was.
\<close>

theorem carbon_transfer_balanced:
  assumes "transfer_credits e scan u addr a n w = (r, w')"
  shows "(case r of
      Ok x \<Rightarrow> 0 < a \<and> user_of_wallet scan addr (db w) = Some (cx_to_user_id x) \<and> cx_to_user_id x \<noteq> u
        \<and> carbon_transactions (db w') = carbon_transactions (db w) @ [x]
        \<and> (\<forall>y. credit_sum (\<lambda>_. True) y (db w') = credit_sum (\<lambda>_. True) y (db w)
              + (if y = u then - a else if y = cx_to_user_id x then a else 0))
    | _ \<Rightarrow> db w' = db w)"
proof (cases r)
  case (Ok x)
  from transfer_credits_Ok [OF assms [unfolded Ok]] have t: "transferred u (cx_to_user_id x) a (db w) (db w')"
    "cx_to_user_id x \<noteq> u" by auto
  from credit_sum_add [OF t(1) t(2) [symmetric]] transfer_credits_Ok [OF assms [unfolded Ok]] Ok show ?thesis by auto
qed (use transfer_credits_atomic [OF assms] in auto)

text \<open>
  Spent credits can be spent again.  A transfer needs active credits, but it books its deduction
  under the status \<open>transferred\<close>, which the balance check does not count: after a transfer the sender
  can spend as much as before.  The same transfer succeeds a second time, and the recipient has
  received the amount twice.
\<close>

theorem carbon_credits_spent_twice:
  assumes "transfer_credits e scan u addr a n w = (Ok x, w1)" and "faults w1 = []"
    and "users (db w) u \<noteq> None" and "length addr \<le> 188" and "at_most 200 n" and "fresh_transfer_ids e w1"
  shows "\<exists>y w2. transfer_credits e scan u addr a n w1 = (Ok y, w2) \<and> spendable u (db w2) = spendable u (db w)
    \<and> spendable (cx_to_user_id x) (db w2) = spendable (cx_to_user_id x) (db w) + 2 * a"
proof -
  let ?v = "cx_to_user_id x"
  note first = transfer_credits_Ok [OF assms(1)]
  then have t: "transferred u ?v a (db w) (db w1)" "u \<noteq> ?v" by auto
  then have wallet: "user_of_wallet scan addr (db w1) = Some ?v" "users (db w1) u \<noteq> None"
    using first assms(3) by (auto simp: user_of_wallet_def transferred_def)
  have "0 < a" "a \<le> spendable u (db w1)" using first credit_sum_add(1) [OF t] by auto
  from transfer_credits_runs [OF assms(2) this wallet(1) t(2) wallet(2) assms(4-6)]
  obtain y w2 where second: "transfer_credits e scan u addr a n w1 = (Ok y, w2)" by blast
  moreover from transfer_credits_Ok [OF second] wallet(1) have "transferred u ?v a (db w1) (db w2)" by auto
  ultimately show ?thesis using credit_sum_add(1,2) [OF t] credit_sum_add(1,2) [OF _ t(2)] by auto
qed

definition carbon_db :: db where
  "carbon_db = empty_db\<lparr>users := [1 \<mapsto> sample_user 0 0 0, 2 \<mapsto> (sample_user 0 0 0)\<lparr>wallet_address := Some ''w2''\<rparr>],
     carbon_credits := [\<lparr> cc_id = 8, cc_user_id = 1, cc_amount = 10, cc_source = ''solar'', cc_source_reference_id = None,
        cc_status = CcActive, cc_description = None, cc_created_at = 0 \<rparr>]\<rparr>"

lemma carbon_db_rows [simp]:
  "spendable 1 carbon_db = 10" "spendable 2 carbon_db = 0" "user_of_wallet [1, 2] ''w2'' carbon_db = Some 2"
  "users carbon_db 1 = Some (sample_user 0 0 0)" "carbon_transactions carbon_db = []" "map cc_id (carbon_credits carbon_db) = [8]"
  by (simp_all add: carbon_db_def spendable_def credit_sum_def user_of_wallet_def sample_user_def)

lemma carbon_first_transfer:
  "\<exists>x w1. transfer_credits std_env [1, 2] 1 ''w2'' 10 None (calm_world carbon_db) = (Ok x, w1) \<and> faults w1 = []
     \<and> cx_to_user_id x = 2 \<and> fresh_transfer_ids std_env w1"
  by (simp add: transfer_credits_def io_simps insert_credit_def record_transfer_def Let_def credit_ok_def
        transaction_ok_def fresh_transfer_ids_def at_most_def carbon_db_def user_of_wallet_def spendable_def credit_sum_def sample_user_def)

theorem carbon_transfer_balanced_witness:
  "\<exists>x w1. transfer_credits std_env [1, 2] 1 ''w2'' 10 None (calm_world carbon_db) = (Ok x, w1)
     \<and> carbon_transactions (db w1) = [x]"
proof -
  obtain x w1 where "transfer_credits std_env [1, 2] 1 ''w2'' 10 None (calm_world carbon_db) = (Ok x, w1)"
    using carbon_first_transfer by blast
  with carbon_transfer_balanced [OF this] show ?thesis by auto
qed

theorem carbon_credits_spent_twice_witness:
  "\<exists>x w1 y w2. transfer_credits std_env [1, 2] 1 ''w2'' 10 None (calm_world carbon_db) = (Ok x, w1)
     \<and> transfer_credits std_env [1, 2] 1 ''w2'' 10 None w1 = (Ok y, w2) \<and> spendable 1 (db w2) = 10 \<and> spendable 2 (db w2) = 20"
proof -
  obtain x w1 where w1: "transfer_credits std_env [1, 2] 1 ''w2'' 10 None (calm_world carbon_db) = (Ok x, w1)" "faults w1 = []"
    "cx_to_user_id x = 2" "fresh_transfer_ids std_env w1" using carbon_first_transfer by blast
  from carbon_credits_spent_twice [OF w1(1,2) _ _ _ w1(4)] w1(1,3) show ?thesis by auto
qed

end
