(* ===== verification/Wallets.thy ===== *)
theory Wallets
  imports Escrow
begin

text \<open>
  The wallets linked to an account (\<open>src/src/handlers/wallets.rs\<close>): linking, removing and choosing the
  primary one.  Linking and choosing run in a transaction; removing is four separate statements, and
  an error of the last one, which promotes another wallet, is dropped.  Texts of responses are left out.
\<close>

subsection \<open>Handlers\<close>

definition own_wallet :: "uuid \<Rightarrow> uuid \<Rightarrow> user_wallet \<Rightarrow> bool" where
  "own_wallet wallet_id user x \<longleftrightarrow> uw_id x = wallet_id \<and> uw_user_id x = user"

definition list_wallets :: "uuid \<Rightarrow> (world, user_wallet list \<times> nat) io" where
  "list_wallets user =
    bnd (internal_err ''Failed to list wallets: '' (query (\<lambda>d.
      sort_key (\<lambda>x. if uw_is_primary x then 0 else 1 :: nat) (sort_key uw_created_at
        (filter (\<lambda>x. uw_user_id x = user) (user_wallets d)))))) (\<lambda>wallets.
    ret (wallets, length wallets))"

definition upd_wallets :: "(user_wallet \<Rightarrow> bool) \<Rightarrow> (user_wallet \<Rightarrow> user_wallet) \<Rightarrow> db \<Rightarrow> db" where
  "upd_wallets p f d = d\<lparr>user_wallets := update_where p f (user_wallets d)\<rparr>"

definition primary_of :: "uuid \<Rightarrow> user_wallet \<Rightarrow> bool" where
  "primary_of user x \<longleftrightarrow> uw_user_id x = user \<and> uw_is_primary x"

definition unset_primary :: "uuid \<Rightarrow> db \<Rightarrow> db" where
  "unset_primary user = upd_wallets (primary_of user) (\<lambda>x. x\<lparr>uw_is_primary := False\<rparr>)"

definition wallet_count :: "uuid \<Rightarrow> db \<Rightarrow> nat" where
  "wallet_count user d = length (filter (\<lambda>x. uw_user_id x = user) (user_wallets d))"

text \<open>The constraints of \<open>user_wallets\<close>, in the order in which the server checks them.\<close>

definition wallet_constraints :: "user_wallet \<Rightarrow> (string \<times> (db \<Rightarrow> bool)) list" where
  "wallet_constraints x =
    [(''character varying'', \<lambda>d. length (uw_wallet_address x) \<le> 64 \<and> at_most 50 (uw_label x)),
     (''user_wallets_pkey'', \<lambda>d. list_all (\<lambda>y. uw_id y \<noteq> uw_id x) (user_wallets d)),
     (''unique_wallet_address'', \<lambda>d. list_all (\<lambda>y. uw_wallet_address y \<noteq> uw_wallet_address x) (user_wallets d)),
     (''idx_user_wallets_primary'', \<lambda>d. \<not> uw_is_primary x \<or> list_all (\<lambda>y. \<not> primary_of (uw_user_id x) y) (user_wallets d)),
     (''user_wallets_user_id_fkey'', \<lambda>d. users d (uw_user_id x) \<noteq> None)]"

definition link_error :: "api_error \<Rightarrow> api_error" where
  "link_error er = (case er of
      Database m \<Rightarrow> if contains m ''unique_wallet_address''
        then BadRequest ''This wallet address is already linked to an account''
        else Internal (''Failed to link wallet: '' @ m)
    | _ \<Rightarrow> er)"

definition add_wallet :: "user_wallet \<Rightarrow> db \<Rightarrow> db" where
  "add_wallet x d = d\<lparr>user_wallets := user_wallets d @ [x]\<rparr>"

definition link_wallet :: "env \<Rightarrow> uuid \<Rightarrow> string \<Rightarrow> string option \<Rightarrow> bool option \<Rightarrow> (world, user_wallet) io" where
  "link_wallet e user address label primary =
    (if length address < 32 \<or> length address > 64 then fail (BadRequest ''Invalid wallet address format'')
     else
      bnd (fresh_uuid e) (\<lambda>wallet_id.
      bnd get_clock (\<lambda>now.
      let set_primary = unwrap_or primary False in
      internal_err [] (transaction (
        sq (if set_primary then internal_err ''Failed to update primary: '' (exec (unset_primary user)) else ret ())
        (bnd (query (wallet_count user)) (\<lambda>existing_count.
         let is_primary = set_primary \<or> existing_count = 0;
             x = \<lparr> uw_id = wallet_id, uw_user_id = user, uw_wallet_address = address, uw_label = label,
                   uw_is_primary = is_primary, uw_verified = False, uw_created_at = now \<rparr>
         in map_err link_error (exec_named (wallet_constraints x) (add_wallet x) (\<lambda>_. x)))))))))"

definition promote_oldest :: "uuid \<Rightarrow> db \<Rightarrow> db" where
  "promote_oldest user d =
    (case sort_key uw_created_at (filter (\<lambda>x. uw_user_id x = user) (user_wallets d)) of
       [] \<Rightarrow> d
     | oldest # _ \<Rightarrow>
         if list_ex (primary_of user) (user_wallets d) then d
         else upd_wallets (\<lambda>x. uw_user_id x = user \<and> uw_id x = uw_id oldest) (\<lambda>x. x\<lparr>uw_is_primary := True\<rparr>) d)"

definition remove_wallet :: "uuid \<Rightarrow> uuid \<Rightarrow> (world, unit) io" where
  "remove_wallet user wallet_id =
    bnd (internal_err [] (query (\<lambda>d. find (own_wallet wallet_id user) (user_wallets d)))) (\<lambda>wallet.
    bnd (ok_or wallet (NotFound ''Wallet not found'')) (\<lambda>x.
    sq (if uw_is_primary x then
          bnd (internal_err [] (query (\<lambda>d. length (filter (\<lambda>y. uw_user_id y = user \<and> uw_id y \<noteq> wallet_id) (user_wallets d)))))
            (\<lambda>other_count. if other_count = 0
               then fail (BadRequest ''Cannot remove the only wallet. Link another wallet first.'') else ret ())
        else ret ())
    (bnd (internal_err ''Failed to remove wallet: '' (exec_count
            (\<lambda>d. length (filter (own_wallet wallet_id user) (user_wallets d)))
            (\<lambda>d. d\<lparr>user_wallets := filter (\<lambda>y. \<not> own_wallet wallet_id user y) (user_wallets d)\<rparr>))) (\<lambda>rows_affected.
     if rows_affected = 0 then fail (NotFound ''Wallet not found'')
     else ignore (exec (promote_oldest user))))))"

definition set_primary_wallet :: "uuid \<Rightarrow> uuid \<Rightarrow> (world, user_wallet) io" where
  "set_primary_wallet user wallet_id = internal_err [] (transaction (
     sq (exec (unset_primary user))
     (bnd (exec_returning
            (\<lambda>d. list_all (\<lambda>y. uw_id y \<noteq> wallet_id \<longrightarrow> \<not> primary_of user y) (user_wallets d))
            (upd_wallets (own_wallet wallet_id user) (\<lambda>x. x\<lparr>uw_is_primary := True\<rparr>))
            (\<lambda>d. find (own_wallet wallet_id user) (user_wallets d))) (\<lambda>wallet.
      ok_or wallet (NotFound ''Wallet not found'')))))"

subsection \<open>One primary wallet\<close>

text \<open>Identifiers and addresses are unique, and a user who has wallets has exactly one primary one.\<close>

definition primaries :: "uuid \<Rightarrow> user_wallet list \<Rightarrow> nat" where
  "primaries u xs = length (filter (primary_of u) xs)"

definition owned_wallets :: "uuid \<Rightarrow> user_wallet list \<Rightarrow> nat" where
  "owned_wallets u xs = length (filter (\<lambda>x. uw_user_id x = u) xs)"

definition wallets_ok :: "db \<Rightarrow> bool" where
  "wallets_ok d \<longleftrightarrow> distinct (map uw_id (user_wallets d)) \<and> distinct (map uw_wallet_address (user_wallets d))
     \<and> (\<forall>u. primaries u (user_wallets d) = min 1 (owned_wallets u (user_wallets d)))"

lemma wallet_rows [simp]:
  "user_wallets (upd_wallets p f d) = update_where p f (user_wallets d)"
  "user_wallets (add_wallet x d) = user_wallets d @ [x]"
  "users (upd_wallets p f d) = users d" "users (add_wallet x d) = users d"
  by (simp_all add: upd_wallets_def add_wallet_def)

lemma counts_append [simp]:
  "primaries u (xs @ ys) = primaries u xs + primaries u ys"
  "owned_wallets u (xs @ ys) = owned_wallets u xs + owned_wallets u ys"
  by (simp_all add: primaries_def owned_wallets_def)

lemma counts_Cons [simp]:
  "primaries u (x # xs) = (if primary_of u x then 1 else 0) + primaries u xs"
  "owned_wallets u (x # xs) = (if uw_user_id x = u then 1 else 0) + owned_wallets u xs"
  "primaries u [] = 0" "owned_wallets u [] = 0"
  by (simp_all add: primaries_def owned_wallets_def)

lemma owned_pos: "x \<in> set xs \<Longrightarrow> 0 < owned_wallets (uw_user_id x) xs"
  by (induction xs) auto

lemma unset_counts:
  "primaries u (update_where (primary_of v) (\<lambda>x. x\<lparr>uw_is_primary := False\<rparr>) xs) = (if u = v then 0 else primaries u xs)"
  "owned_wallets u (update_where (primary_of v) (\<lambda>x. x\<lparr>uw_is_primary := False\<rparr>) xs) = owned_wallets u xs"
  by (induction xs) (auto simp: primary_of_def)

lemma set_counts:
  assumes "distinct (map uw_id xs)" and "x \<in> set xs" and "uw_user_id x = v" and "primaries v xs = 0"
  shows "primaries u (update_where (\<lambda>y. uw_user_id y = v \<and> uw_id y = uw_id x) (\<lambda>y. y\<lparr>uw_is_primary := True\<rparr>) xs)
      = (if u = v then 1 else primaries u xs)"
    "owned_wallets u (update_where p (\<lambda>y. y\<lparr>uw_is_primary := True\<rparr>) xs) = owned_wallets u xs"
proof -
  show "owned_wallets u (update_where p (\<lambda>y. y\<lparr>uw_is_primary := True\<rparr>) xs) = owned_wallets u xs"
    by (induction xs) auto
  have none: "update_where (\<lambda>y. uw_user_id y = t \<and> uw_id y = i) f ys = ys" if "i \<notin> uw_id ` set ys" for t i f ys
    using that by (intro update_where_none) auto
  show "primaries u (update_where (\<lambda>y. uw_user_id y = v \<and> uw_id y = uw_id x) (\<lambda>y. y\<lparr>uw_is_primary := True\<rparr>) xs)
      = (if u = v then 1 else primaries u xs)"
    using assms by (induction xs) (auto simp: primary_of_def none split: if_splits)
qed


lemma constraints_new:
  assumes "\<forall>c \<in> set (wallet_constraints x). snd c d"
  shows "uw_id x \<notin> set (map uw_id (user_wallets d))" "uw_wallet_address x \<notin> set (map uw_wallet_address (user_wallets d))"
  using assms by (auto simp: wallet_constraints_def list_all_iff)

lemma wallets_ok_unset_add:
  assumes "wallets_ok d" and "\<forall>c \<in> set (wallet_constraints x). snd c (unset_primary u d)"
    and "uw_user_id x = u" and "uw_is_primary x"
  shows "wallets_ok (add_wallet x (unset_primary u d))"
proof -
  have "map uw_id (user_wallets (unset_primary u d)) = map uw_id (user_wallets d)"
    "map uw_wallet_address (user_wallets (unset_primary u d)) = map uw_wallet_address (user_wallets d)"
    by (simp_all add: unset_primary_def map_update_where_same)
  moreover have "primary_of v x \<longleftrightarrow> v = u" for v using assms(3,4) by (auto simp: primary_of_def)
  ultimately show ?thesis using assms(1,3) constraints_new [OF assms(2)]
    by (simp add: wallets_ok_def del: set_map) (simp add: unset_primary_def unset_counts)
qed

lemma wallets_ok_add:
  assumes "wallets_ok d" and "\<forall>c \<in> set (wallet_constraints x). snd c d"
    and "uw_is_primary x \<longleftrightarrow> owned_wallets (uw_user_id x) (user_wallets d) = 0"
  shows "wallets_ok (add_wallet x d)"
proof -
  have "primary_of v x \<longleftrightarrow> v = uw_user_id x \<and> owned_wallets v (user_wallets d) = 0" for v
    using assms(3) by (auto simp: primary_of_def)
  with assms(1) constraints_new [OF assms(2)] show ?thesis by (auto simp: wallets_ok_def)
qed

lemma link_wallet_cases:
  assumes "link_wallet e u addr lb pr w = (r, w')" and "wallets_ok (db w)"
  shows "wallets_ok (db w')"
proof -
  let ?tx = "transaction (
        sq (if unwrap_or pr False then internal_err ''Failed to update primary: '' (exec (unset_primary u)) else ret ())
        (bnd (query (wallet_count u)) (\<lambda>n.
         let p = unwrap_or pr False \<or> n = 0;
             x = \<lparr> uw_id = new_v4 e (uuids w), uw_user_id = u, uw_wallet_address = addr, uw_label = lb,
                   uw_is_primary = p, uw_verified = False, uw_created_at = clock w \<rparr>
         in map_err link_error (exec_named (wallet_constraints x) (add_wallet x) (\<lambda>_. x)))))"
  show ?thesis
  proof (cases "length addr < 32 \<or> length addr > 64")
    case True
    with assms show ?thesis by (auto simp: link_wallet_def)
  next
    case False
    let ?w = "w\<lparr>uuids := Suc (uuids w)\<rparr>"
    obtain q w1 where tx: "?tx ?w = (q, w1)" by (cases "?tx ?w")
    have w1: "db w' = db w1"
      using assms(1) False tx by (cases q) (auto simp: link_wallet_def bnd_app fresh_uuid_app get_clock_app internal_err_app Let_def)
    show ?thesis
    proof (cases "\<exists>x. q = Ok x")
      case False
      with transaction_atomic [OF tx] assms(2) w1 show ?thesis by auto
    next
      case True
      then obtain x where "?tx ?w = (Ok x, w1)" using tx by auto
      note steps = this
      show ?thesis
      proof (cases "unwrap_or pr False")
        case True
        with steps assms(2) w1 show ?thesis
          by (auto elim!: transaction_OkE sq_OkE bnd_OkE simp: statement_Ok Let_def intro!: wallets_ok_unset_add)
      next
        case False
        with steps assms(2) w1 show ?thesis
          by (auto elim!: transaction_OkE sq_OkE bnd_OkE simp: statement_Ok Let_def wallet_count_def [folded owned_wallets_def]
              intro!: wallets_ok_add)
      qed
    qed
  qed
qed


lemma set_primary_keeps: "keeps_db wallets_ok (set_primary_wallet u i)"
  unfolding keeps_db_def keeps_def
proof (intro allI impI)
  fix w :: world assume ok: "wallets_ok (db w)"
  obtain r w' where run: "set_primary_wallet u i w = (r, w')" by (cases "set_primary_wallet u i w")
  let ?tx = "transaction (sq (exec (unset_primary u))
     (bnd (exec_returning
            (\<lambda>d. list_all (\<lambda>y. uw_id y \<noteq> i \<longrightarrow> \<not> primary_of u y) (user_wallets d))
            (upd_wallets (own_wallet i u) (\<lambda>x. x\<lparr>uw_is_primary := True\<rparr>))
            (\<lambda>d. find (own_wallet i u) (user_wallets d))) (\<lambda>wallet. ok_or wallet (NotFound ''Wallet not found''))))"
  obtain q w1 where tx: "?tx w = (q, w1)" by (cases "?tx w")
  have w1: "db w' = db w1" using run tx by (cases q) (auto simp: set_primary_wallet_def internal_err_app)
  have "wallets_ok (db w1)"
  proof (cases "\<exists>x. q = Ok x")
    case False
    with transaction_atomic [OF tx] ok show ?thesis by auto
  next
    case True
    let ?ws = "update_where (primary_of u) (\<lambda>x. x\<lparr>uw_is_primary := False\<rparr>) (user_wallets (db w))"
    let ?up = "update_where (\<lambda>y. uw_user_id y = u \<and> uw_id y = i) (\<lambda>x. x\<lparr>uw_is_primary := True\<rparr>)"
    from True tx obtain x where "?tx w = (Ok x, w1)" by auto
    then have x: "find (own_wallet i u) (?up ?ws) = Some x" and d: "user_wallets (db w1) = ?up ?ws"
      by (auto elim!: transaction_OkE sq_OkE bnd_OkE simp: statement_Ok unset_primary_def own_wallet_def [abs_def] conj_commute)
    from find_Some_in [OF x] obtain y where y: "y \<in> set ?ws" "uw_id y = i" "uw_user_id y = u"
      unfolding set_update_where [of _ _ ?ws] own_wallet_def by (auto split: if_splits)
    have ids: "distinct (map uw_id ?ws)" using ok by (simp add: wallets_ok_def map_update_where_same)
    have zero: "primaries u ?ws = 0" by (simp add: unset_counts)
    have "0 < owned_wallets u (user_wallets (db w))" using owned_pos [OF y(1)] y(3) by (simp add: unset_counts)
    with ok set_counts [OF ids y(1,3) zero] y(2) show ?thesis
      by (simp add: wallets_ok_def d map_update_where_same unset_counts)
  qed
  with run w1 show "wallets_ok (db (snd (set_primary_wallet u i w)))" by simp
qed


lemma remove_counts:
  assumes "distinct (map uw_id xs)" and "x \<in> set xs" and "own_wallet i u x"
  shows "primaries v xs = primaries v (filter (\<lambda>y. \<not> own_wallet i u y) xs) + (if primary_of v x then 1 else 0)"
    "owned_wallets v xs = owned_wallets v (filter (\<lambda>y. \<not> own_wallet i u y) xs) + (if uw_user_id x = v then 1 else 0)"
proof -
  have none: "filter (\<lambda>y. \<not> own_wallet (uw_id z) t y) ys = ys" if "uw_id z \<notin> uw_id ` set ys" for z :: user_wallet and t ys
    using that by (intro filter_True) (auto simp: own_wallet_def image_iff)
  have "primaries v xs = primaries v (filter (\<lambda>y. \<not> own_wallet i u y) xs) + (if primary_of v x then 1 else 0)
    \<and> owned_wallets v xs = owned_wallets v (filter (\<lambda>y. \<not> own_wallet i u y) xs) + (if uw_user_id x = v then 1 else 0)"
    using assms
  proof (induction xs)
    case (Cons y ys)
    show ?case
    proof (cases "y = x")
      case True
      with Cons.prems none [of x ys u] show ?thesis by (auto simp: own_wallet_def)
    next
      case False
      with Cons.prems have "\<not> own_wallet i u y" by (auto simp: own_wallet_def)
      with False Cons show ?thesis by auto
    qed
  qed simp
  then show "primaries v xs = primaries v (filter (\<lambda>y. \<not> own_wallet i u y) xs) + (if primary_of v x then 1 else 0)"
    "owned_wallets v xs = owned_wallets v (filter (\<lambda>y. \<not> own_wallet i u y) xs) + (if uw_user_id x = v then 1 else 0)" by auto
qed

lemma primaries_le: "primaries u xs \<le> owned_wallets u xs"
  by (induction xs) (auto simp: primary_of_def)

lemma primaries_zero: "primaries u xs = 0 \<longleftrightarrow> \<not> list_ex (primary_of u) xs"
  by (induction xs) auto

text \<open>Promoting restores the invariant when a user lost the primary wallet.\<close>

lemma promote_ok:
  assumes "distinct (map uw_id (user_wallets d))" and "distinct (map uw_wallet_address (user_wallets d))"
    and "\<And>v. v \<noteq> u \<Longrightarrow> primaries v (user_wallets d) = min 1 (owned_wallets v (user_wallets d))"
    and "primaries u (user_wallets d) \<le> 1"
  shows "wallets_ok (promote_oldest u d)"
proof (cases "sort_key uw_created_at (filter (\<lambda>x. uw_user_id x = u) (user_wallets d))")
  case Nil
  then have "owned_wallets u (user_wallets d) = 0"
    by (metis length_0_conv length_sort owned_wallets_def)
  then have "primaries v (user_wallets d) = min 1 (owned_wallets v (user_wallets d))" for v
    using assms(3) [of v] primaries_le [of u "user_wallets d"] by (cases "v = u") simp_all
  with assms(1,2) Nil show ?thesis by (simp add: promote_oldest_def wallets_ok_def)
next
  case (Cons x xs)
  then have "x \<in> set (sort_key uw_created_at (filter (\<lambda>x. uw_user_id x = u) (user_wallets d)))" by simp
  then have x: "x \<in> set (user_wallets d)" "uw_user_id x = u" by simp_all
  then have pos: "0 < owned_wallets u (user_wallets d)" using owned_pos by blast
  show ?thesis
  proof (cases "list_ex (primary_of u) (user_wallets d)")
    case True
    then have "primaries u (user_wallets d) = 1" using assms(4) primaries_zero [of u "user_wallets d"] by linarith
    then have "primaries v (user_wallets d) = min 1 (owned_wallets v (user_wallets d))" for v
      using assms(3) [of v] pos by (cases "v = u") simp_all
    with True Cons assms(1,2) show ?thesis by (simp add: promote_oldest_def wallets_ok_def)
  next
    case False
    then have "primaries u (user_wallets d) = 0" by (simp add: primaries_zero)
    from set_counts [OF assms(1) x this] False Cons assms(1-3) pos show ?thesis
      by (auto simp: promote_oldest_def wallets_ok_def map_update_where_same)
  qed
qed

lemma remove_wallet_keeps:
  assumes "faults w = []" and "wallets_ok (db w)" and "remove_wallet u i w = (r, w')"
  shows "wallets_ok (db w')"
proof (cases "db w' = db w")
  case False
  let ?ws = "filter (\<lambda>y. \<not> own_wallet i u y) (user_wallets (db w))"
  have "\<exists>x. find (own_wallet i u) (user_wallets (db w)) = Some x \<and> db w' = promote_oldest u ((db w)\<lparr>user_wallets := ?ws\<rparr>)"
    using assms(1,3) False
    by (cases "find (own_wallet i u) (user_wallets (db w))")
      (auto simp: remove_wallet_def bnd_app sq_app internal_err_app query_calm exec_count_calm ignore_app exec_calm filter_empty_conv
        dest: find_Some_in split: if_splits)
  then obtain x where x: "find (own_wallet i u) (user_wallets (db w)) = Some x"
    and d: "db w' = promote_oldest u ((db w)\<lparr>user_wallets := ?ws\<rparr>)" by blast
  have own: "x \<in> set (user_wallets (db w))" "own_wallet i u x" using find_Some_in [OF x] by auto
  have ids: "distinct (map uw_id (user_wallets (db w)))" using assms(2) by (simp add: wallets_ok_def)
  note counts = remove_counts [OF ids own]
  have "primaries v ?ws = min 1 (owned_wallets v ?ws)" if "v \<noteq> u" for v
    using counts [of v] assms(2) own(2) that by (auto simp: wallets_ok_def own_wallet_def primary_of_def)
  moreover have "primaries u ?ws \<le> 1" using counts(1) [of u] assms(2) by (auto simp: wallets_ok_def min_def split: if_splits)
  ultimately show ?thesis
    unfolding d using assms(2) by (intro promote_ok) (simp_all add: wallets_ok_def distinct_map_filter)
qed (use assms(2) in simp)


subsection \<open>Properties\<close>

text \<open>One operation on the linked wallets, or one that leaves their table alone; no statement of a removal is lost.\<close>

inductive wallet_step :: "env \<Rightarrow> world \<Rightarrow> world \<Rightarrow> bool" for e where
  link: "link_wallet e u addr lb pr w = (r, w') \<Longrightarrow> wallet_step e w w'"
| choose: "set_primary_wallet u i w = (r, w') \<Longrightarrow> wallet_step e w w'"
| remove: "faults w = [] \<Longrightarrow> remove_wallet u i w = (r, w') \<Longrightarrow> wallet_step e w w'"
| elsewhere: "user_wallets (db w') = user_wallets (db w) \<Longrightarrow> wallet_step e w w'"

lemma wallet_step_keeps:
  assumes "wallet_step e w w'" and "wallets_ok (db w)"
  shows "wallets_ok (db w')"
  using assms(1)
proof cases
  case link
  show ?thesis by (rule link_wallet_cases [OF link assms(2)])
next
  case choose
  show ?thesis by (rule keeps_dbE [OF set_primary_keeps choose assms(2)])
next
  case remove
  show ?thesis by (rule remove_wallet_keeps [OF remove(1) assms(2) remove(2)])
next
  case elsewhere
  with assms(2) show ?thesis by (simp add: wallets_ok_def)
qed

text \<open>
  C32. One primary wallet.  Along any sequence of linking and choosing wallets, with any outcome, and of
  removing wallets without a lost statement: identifiers and addresses stay unique across all users,
  and a user who has linked wallets has exactly one primary wallet.
\<close>

theorem one_primary_wallet:
  assumes "(wallet_step e)\<^sup>*\<^sup>* w w'" and "wallets_ok (db w)"
  shows "wallets_ok (db w')"
  using assms by (induction rule: rtranclp_induct) (auto dest: wallet_step_keeps)

definition sample_wallet :: "uuid \<Rightarrow> string \<Rightarrow> bool \<Rightarrow> user_wallet" where
  "sample_wallet i addr p = \<lparr> uw_id = i, uw_user_id = 1, uw_wallet_address = addr, uw_label = None,
     uw_is_primary = p, uw_verified = True, uw_created_at = 0 \<rparr>"

definition wallet_db :: db where
  "wallet_db = empty_db\<lparr>users := [1 \<mapsto> sample_user 0 0 0],
     user_wallets := [sample_wallet 21 ''a'' True, sample_wallet 22 ''b'' False]\<rparr>"

lemma wallet_db_rows [simp]:
  "user_wallets wallet_db = [sample_wallet 21 ''a'' True, sample_wallet 22 ''b'' False]" "wallets_ok wallet_db"
  by (simp_all add: wallet_db_def wallets_ok_def sample_wallet_def primary_of_def)

theorem one_primary_wallet_witness: "wallets_ok (db (snd (remove_wallet 1 21 (calm_world wallet_db))))"
proof -
  have "wallet_step std_env (calm_world wallet_db) (snd (remove_wallet 1 21 (calm_world wallet_db)))"
    by (rule wallet_step.remove [of _ 1 21 "fst (remove_wallet 1 21 (calm_world wallet_db))"]) simp_all
  from one_primary_wallet [OF r_into_rtranclp [of "wallet_step std_env", OF this]] show ?thesis by simp
qed

text \<open>
  When the statement that promotes another wallet is lost, the removal of the primary wallet still
  reports success, and the user is left with wallets of which none is primary.
\<close>

theorem lost_promotion_leaves_no_primary:
  "\<exists>w'. remove_wallet 1 21 ((calm_world wallet_db)\<lparr>faults := [None, None, None, Some ''timeout'']\<rparr>) = (Ok (), w')
     \<and> user_wallets (db w') = [sample_wallet 22 ''b'' False]"
  by (simp add: remove_wallet_def bnd_app sq_app internal_err_app query_def exec_count_def ignore_app exec_def exec_chk_def
      faulty_def tick_def own_wallet_def sample_wallet_def)

text \<open>An address that is already linked is refused as a bad request, and nothing changes.\<close>

theorem linked_address_refused:
  assumes "faults w = []" and "x \<in> set (user_wallets (db w))" and "uw_wallet_address x = addr"
    and "32 \<le> length addr" and "length addr \<le> 64" and "at_most 50 lb"
    and "list_all (\<lambda>y. uw_id y \<noteq> new_v4 e (uuids w)) (user_wallets (db w))"
  shows "\<exists>w'. link_wallet e u addr lb pr w = (Err (BadRequest ''This wallet address is already linked to an account''), w')
     \<and> db w' = db w"
proof -
  have used: "\<not> list_all (\<lambda>y. uw_wallet_address y \<noteq> addr) (user_wallets (unset_primary u (db w)))"
    "\<not> list_all (\<lambda>y. uw_wallet_address y \<noteq> addr) (user_wallets (db w))"
    "list_all (\<lambda>y. uw_id y \<noteq> new_v4 e (uuids w)) (user_wallets (unset_primary u (db w)))"
    using assms(2,3,7) by (auto simp: unset_primary_def list_all_update_where) (auto simp: list_all_iff)
  show ?thesis
    using assms(1,4-7) used
    by (cases "unwrap_or pr False")
      (simp_all add: link_wallet_def io_simps Let_def wallet_constraints_def link_error_def)
qed

end
