(* ===== verification/Futures.thy ===== *)
theory Futures
  imports Escrow
begin

text \<open>
  The futures service (\<open>src/src/services/futures/mod.rs\<close>): products, orders, positions and the mock
  order book.  A market order is filled at once at the price it names; opening and closing are
  separate statements without a transaction.  The candle list of the service is always empty.
\<close>

subsection \<open>The service\<close>

text \<open>The text of an enum value; the server refuses a statement with any other text.\<close>

definition futures_side_of :: "string \<Rightarrow> FuturesSide option" where
  "futures_side_of s = (if s = ''long'' then Some Long else if s = ''short'' then Some Short else None)"

definition futures_type_of :: "string \<Rightarrow> FuturesOrderType option" where
  "futures_type_of s = (if s = ''market'' then Some FtMarket else if s = ''limit'' then Some FtLimit else None)"

definition refuse :: "string \<Rightarrow> (world, 'a) io" where
  "refuse m = (\<lambda>w. (Err (Database (unwrap_or (faulty w) m)), tick w))"

definition get_products :: "(world, futures_product list) io" where
  "get_products = internal_err [] (query (\<lambda>d. filter (\<lambda>p. fp_is_active p = Some True) (futures_products d)))"

definition references_ok :: "uuid \<Rightarrow> uuid \<Rightarrow> db \<Rightarrow> bool" where
  "references_ok user product d \<longleftrightarrow> users d user \<noteq> None \<and> list_ex (\<lambda>p. fp_id p = product) (futures_products d)"

definition futures_order_ok :: "futures_order \<Rightarrow> db \<Rightarrow> bool" where
  "futures_order_ok r d \<longleftrightarrow> references_ok (fo_user_id r) (fo_product_id r) d \<and> list_all (\<lambda>q. fo_id q \<noteq> fo_id r) (futures_orders d)"

definition add_futures_order :: "futures_order \<Rightarrow> db \<Rightarrow> db" where
  "add_futures_order r d = d\<lparr>futures_orders := futures_orders d @ [r]\<rparr>"

text \<open>One position per user, product and side.\<close>

definition position_key :: "futures_position \<Rightarrow> uuid \<times> uuid \<times> FuturesSide" where
  "position_key p = (fq_user_id p, fq_product_id p, fq_side p)"

definition position_ok :: "futures_position \<Rightarrow> db \<Rightarrow> bool" where
  "position_ok p d \<longleftrightarrow> references_ok (fq_user_id p) (fq_product_id p) d
     \<and> list_all (\<lambda>q. fq_id q \<noteq> fq_id p \<and> position_key q \<noteq> position_key p) (futures_positions d)"

definition add_position :: "futures_position \<Rightarrow> db \<Rightarrow> db" where
  "add_position p d = d\<lparr>futures_positions := futures_positions d @ [p]\<rparr>"

definition new_futures_order ::
  "uuid \<Rightarrow> uuid \<Rightarrow> uuid \<Rightarrow> FuturesSide \<Rightarrow> FuturesOrderType \<Rightarrow> decimal \<Rightarrow> decimal \<Rightarrow> i32 \<Rightarrow> time \<Rightarrow> futures_order" where
  "new_futures_order i user product side ty quantity price leverage now =
    \<lparr> fo_id = i, fo_user_id = user, fo_product_id = product, fo_side = side, fo_order_type = ty,
      fo_quantity = quantity, fo_price = price, fo_leverage = leverage, fo_status = FtPending,
      fo_filled_quantity = Some 0, fo_average_fill_price = None, fo_created_at = now \<rparr>"

definition fill_order :: "decimal \<Rightarrow> decimal \<Rightarrow> futures_order \<Rightarrow> futures_order" where
  "fill_order quantity price r =
     r\<lparr>fo_status := FtFilled, fo_filled_quantity := Some quantity, fo_average_fill_price := Some price\<rparr>"

definition new_position ::
  "uuid \<Rightarrow> uuid \<Rightarrow> uuid \<Rightarrow> FuturesSide \<Rightarrow> decimal \<Rightarrow> decimal \<Rightarrow> i32 \<Rightarrow> decimal \<Rightarrow> futures_position" where
  "new_position i user product side quantity price leverage used =
    \<lparr> fq_id = i, fq_user_id = user, fq_product_id = product, fq_side = side, fq_quantity = quantity,
      fq_entry_price = price, fq_current_price = price, fq_leverage = leverage, fq_margin_used = used,
      fq_unrealized_pnl = Some 0, fq_liquidation_price = None \<rparr>"

definition open_position ::
  "env \<Rightarrow> uuid \<Rightarrow> uuid \<Rightarrow> FuturesSide \<Rightarrow> decimal \<Rightarrow> decimal \<Rightarrow> i32 \<Rightarrow> decimal \<Rightarrow> (world, unit) io" where
  "open_position e user product side quantity price leverage used =
    bnd (fresh_uuid e) (\<lambda>i.
    let p = new_position i user product side quantity price leverage used
    in exec_chk (position_ok p) (add_position p))"

definition upd_futures_order :: "uuid \<Rightarrow> (futures_order \<Rightarrow> futures_order) \<Rightarrow> db \<Rightarrow> db" where
  "upd_futures_order i f d = d\<lparr>futures_orders := update_where (\<lambda>r. fo_id r = i) f (futures_orders d)\<rparr>"

text \<open>The margin is the value divided by the leverage; dividing by a leverage of zero panics.\<close>

definition margin :: "env \<Rightarrow> decimal \<Rightarrow> decimal \<Rightarrow> i32 \<Rightarrow> decimal" where
  "margin e quantity price leverage = ddiv e (dmul e quantity price) (of_int (sint leverage))"

definition create_futures_order ::
  "env \<Rightarrow> uuid \<Rightarrow> uuid \<Rightarrow> string \<Rightarrow> string \<Rightarrow> decimal \<Rightarrow> decimal \<Rightarrow> i32 \<Rightarrow> (world, uuid) io" where
  "create_futures_order e user product side order_type quantity price leverage =
    (if quantity \<le> 0 then fail (BadRequest ''Quantity must be positive'')
     else if leverage = 0 then panic
     else
      let margin_required = margin e quantity price leverage in
      bnd (fresh_uuid e) (\<lambda>order_id.
      bnd get_clock (\<lambda>now.
      case (futures_side_of side, futures_type_of order_type) of
        (Some sd, Some ty) \<Rightarrow>
          sq (internal_err [] (let r = new_futures_order order_id user product sd ty quantity price leverage now
                in exec_chk (futures_order_ok r) (add_futures_order r)))
          (sq (if order_type = ''market'' then
                 sq (internal_err [] (open_position e user product sd quantity price leverage margin_required))
                    (internal_err [] (exec (upd_futures_order order_id (fill_order quantity price))))
               else ret ())
              (ret order_id))
      | _ \<Rightarrow> internal_err [] (refuse ''invalid input value for enum''))))"

definition get_positions :: "uuid \<Rightarrow> (world, (futures_position \<times> string) list) io" where
  "get_positions user = internal_err [] (query (\<lambda>d. List.map_filter
     (\<lambda>p. map_option (\<lambda>prod. (p, fp_symbol prod)) (find_row fp_id (fq_product_id p) (futures_products d)))
     (filter (\<lambda>p. fq_user_id p = user) (futures_positions d))))"

definition get_user_orders :: "uuid \<Rightarrow> (world, (futures_order \<times> string) list) io" where
  "get_user_orders user = internal_err [] (query (\<lambda>d. take 50 (sort_key (\<lambda>(r, _). - fo_created_at r) (List.map_filter
     (\<lambda>r. map_option (\<lambda>prod. (r\<lparr>fo_filled_quantity := Some (unwrap_or (fo_filled_quantity r) 0)\<rparr>, fp_symbol prod))
        (find_row fp_id (fo_product_id r) (futures_products d)))
     (filter (\<lambda>r. fo_user_id r = user) (futures_orders d))))))"

definition closing_side :: "FuturesSide \<Rightarrow> FuturesSide" where
  "closing_side sd = (if sd = Long then Short else Long)"

definition close_position :: "env \<Rightarrow> uuid \<Rightarrow> uuid \<Rightarrow> (world, uuid) io" where
  "close_position e user position_id =
    bnd (internal_err [] (query (\<lambda>d. find (\<lambda>p. fq_id p = position_id \<and> fq_user_id p = user) (futures_positions d)))) (\<lambda>found.
    bnd (ok_or found (BadRequest ''Position not found'')) (\<lambda>position.
    bnd (fresh_uuid e) (\<lambda>order_id.
    bnd get_clock (\<lambda>now.
    let r = fill_order (fq_quantity position) (fq_current_price position)
              (new_futures_order order_id user (fq_product_id position) (closing_side (fq_side position)) FtMarket
                 (fq_quantity position) (fq_current_price position) 1 now)
    in sq (internal_err [] (exec_chk (futures_order_ok r) (add_futures_order r)))
       (sq (internal_err [] (exec (\<lambda>d. d\<lparr>futures_positions := filter (\<lambda>p. fq_id p \<noteq> position_id) (futures_positions d)\<rparr>)))
           (ret order_id))))))"

text \<open>The mock order book: nineteen levels around 50000; the quantities are random.\<close>

record futures_book_entry =
  fe_price :: decimal
  fe_quantity :: decimal
  fe_total :: decimal

definition get_futures_order_book :: "(nat \<Rightarrow> decimal) \<Rightarrow> futures_book_entry list \<times> futures_book_entry list" where
  "get_futures_order_book qty =
    (map (\<lambda>i. \<lparr> fe_price = 50000 - of_nat i * 10, fe_quantity = qty i, fe_total = 0 \<rparr>) [1..<20],
     map (\<lambda>i. \<lparr> fe_price = 50000 + of_nat i * 10, fe_quantity = qty i, fe_total = 0 \<rparr>) [1..<20])"

subsection \<open>Positions stay unique\<close>

definition positions_ok :: "db \<Rightarrow> bool" where
  "positions_ok d \<longleftrightarrow> distinct (map fq_id (futures_positions d)) \<and> distinct (map position_key (futures_positions d))"

lemma futures_frame [simp]:
  "futures_positions (add_futures_order r d) = futures_positions d" "futures_orders (add_position p d) = futures_orders d"
  "futures_positions (upd_futures_order i f d) = futures_positions d" "users (add_futures_order r d) = users d"
  "futures_orders (add_futures_order r d) = futures_orders d @ [r]" "futures_positions (add_position p d) = futures_positions d @ [p]"
  "futures_orders (upd_futures_order i f d) = update_where (\<lambda>r. fo_id r = i) f (futures_orders d)"
  "references_ok u pr (add_futures_order r d) = references_ok u pr d"
  by (simp_all add: add_futures_order_def add_position_def upd_futures_order_def references_ok_def)

lemma futures_keep:
  "keeps_db positions_ok (create_futures_order e u pr s t q p l)" "keeps_db positions_ok (close_position e u i)"
proof -
  have refuse: "keeps_db positions_ok (refuse m :: (world, uuid) io)" for m
    by (simp add: keeps_db_def keeps_def refuse_def)
  have add: "positions_ok d \<Longrightarrow> position_ok x d \<Longrightarrow> positions_ok (add_position x d)" for x d
    by (auto simp: positions_ok_def position_ok_def list_all_iff)
  have drop: "positions_ok d \<Longrightarrow> positions_ok (d\<lparr>futures_positions := filter P (futures_positions d)\<rparr>)" for P d
    by (simp add: positions_ok_def distinct_map_filter)
  show "keeps_db positions_ok (create_futures_order e u pr s t q p l)"
    unfolding create_futures_order_def open_position_def Let_def
    by (intro keeps_db_intros refuse add) (simp_all add: positions_ok_def)
  show "keeps_db positions_ok (close_position e u i)"
    unfolding close_position_def Let_def
    by (intro keeps_db_intros drop) (simp_all add: positions_ok_def)
qed


subsection \<open>Properties\<close>

lemma new_row_fields [simp]:
  "fo_id (new_futures_order i u pr sd ty q p l t) = i" "fo_user_id (new_futures_order i u pr sd ty q p l t) = u"
  "fo_product_id (new_futures_order i u pr sd ty q p l t) = pr" "fo_side (new_futures_order i u pr sd ty q p l t) = sd"
  "fo_quantity (new_futures_order i u pr sd ty q p l t) = q"
  "fq_id (new_position i u pr sd q p l m) = i" "fq_user_id (new_position i u pr sd q p l m) = u"
  "fq_product_id (new_position i u pr sd q p l m) = pr" "fq_side (new_position i u pr sd q p l m) = sd"
  "fq_quantity (new_position i u pr sd q p l m) = q" "fq_current_price (new_position i u pr sd q p l m) = p"
  "position_key (new_position i u pr sd q p l m) = (u, pr, sd)"
  by (simp_all add: new_futures_order_def new_position_def position_key_def)

lemma find_last: "\<forall>y \<in> set xs. \<not> P y \<Longrightarrow> P x \<Longrightarrow> find P (xs @ [x]) = Some x"
  by (induction xs) auto

lemma fill_last:
  assumes "list_all (\<lambda>q. fo_id q \<noteq> i) rs"
  shows "update_where (\<lambda>r. fo_id r = i) f (rs @ [new_futures_order i u pr sd ty q p l now])
    = rs @ [f (new_futures_order i u pr sd ty q p l now)]"
  using assms by (induction rs) (auto simp: new_futures_order_def)

text \<open>
  A market order of the futures service fills at once, once per side.  When no statement is lost and
  the caller holds no position of that product and side, the order is recorded as filled and one
  position is opened, with margin equal to the value divided by the leverage.  When the caller already
  holds one, the unique key of positions refuses the second: the call fails, but the order it had
  inserted stays behind as pending.
\<close>

theorem futures_market_order:
  assumes "faults w = []" and "0 < q" and "l \<noteq> 0" and "futures_side_of s = Some sd" and "references_ok u pr (db w)"
    and "list_all (\<lambda>r. fo_id r \<noteq> new_v4 e (uuids w)) (futures_orders (db w))"
    and "list_all (\<lambda>x. fq_id x \<noteq> new_v4 e (Suc (uuids w))) (futures_positions (db w))"
  shows "\<exists>w'. let i = new_v4 e (uuids w); r = new_futures_order i u pr sd FtMarket q p l (clock w) in
    (if list_ex (\<lambda>x. position_key x = (u, pr, sd)) (futures_positions (db w))
     then create_futures_order e u pr s ''market'' q p l w = (Err (Internal ''violates constraint''), w')
       \<and> futures_orders (db w') = futures_orders (db w) @ [r] \<and> futures_positions (db w') = futures_positions (db w)
     else create_futures_order e u pr s ''market'' q p l w = (Ok i, w')
       \<and> futures_orders (db w') = futures_orders (db w) @ [fill_order q p r]
       \<and> futures_positions (db w') = futures_positions (db w) @ [new_position (new_v4 e (Suc (uuids w))) u pr sd q p l (margin e q p l)])"
proof -
  let ?r = "new_futures_order (new_v4 e (uuids w)) u pr sd FtMarket q p l (clock w)"
  let ?x = "new_position (new_v4 e (Suc (uuids w))) u pr sd q p l (margin e q p l)"
  have ok: "futures_order_ok ?r (db w)"
    using assms(5,6) by (simp add: futures_order_ok_def)
  have pos: "position_ok ?x (add_futures_order ?r (db w)) \<longleftrightarrow> \<not> list_ex (\<lambda>x. position_key x = (u, pr, sd)) (futures_positions (db w))"
    using assms(5,7) by (auto simp: position_ok_def list_all_iff list_ex_iff)
  show ?thesis
    using assms(1-4) ok pos fill_last [OF assms(6)]
    by (cases "list_ex (\<lambda>x. position_key x = (u, pr, sd)) (futures_positions (db w))") (simp_all add: create_futures_order_def futures_type_of_def io_simps Let_def open_position_def)
qed

definition futures_db :: db where
  "futures_db = empty_db\<lparr>users := [1 \<mapsto> sample_user 0 0 0], futures_products := [\<lparr> fp_id = 6, fp_symbol = ''KWH-Q1'',
     fp_base_asset = ''KWH'', fp_quote_asset = ''GRID'', fp_contract_size = 1000, fp_expiration_date = 0,
     fp_current_price = 5, fp_is_active = Some True \<rparr>]\<rparr>"

lemma futures_db_rows [simp]:
  "futures_orders futures_db = []" "futures_positions futures_db = []" "references_ok 1 6 futures_db"
  by (simp_all add: futures_db_def references_ok_def)

lemma futures_market_order_sample:
  "\<exists>w'. create_futures_order std_env 1 6 ''long'' ''market'' 2 5 2 (calm_world futures_db) = (Ok 1000, w')"
  by (simp add: create_futures_order_def futures_type_of_def futures_side_of_def io_simps Let_def open_position_def
      futures_order_ok_def position_ok_def)

theorem futures_market_order_witness:
  "\<exists>w'. create_futures_order std_env 1 6 ''long'' ''market'' 2 5 2 (calm_world futures_db) = (Ok 1000, w')
     \<and> futures_positions (db w') = [new_position 1001 1 6 Long 2 5 2 5]"
  using futures_market_order [of "calm_world futures_db" 2 2 "''long''" Long 1 6 std_env 5]
  by (auto simp: futures_side_of_def Let_def margin_def ddiv_def dmul_def)

text \<open>
  Closing undoes opening.  When a market order has opened a position and that position is then closed,
  the positions are what they were before, and the history has gained two filled orders of opposite
  sides with the same product, quantity and price.
\<close>

theorem futures_open_close_roundtrip:
  assumes "create_futures_order e u pr s ''market'' q p l w = (Ok i, w1)"
    and "close_position e u (new_v4 e (Suc (uuids w))) w1 = (Ok j, w2)"
  shows "futures_positions (db w2) = futures_positions (db w) \<and> (\<exists>a b. futures_orders (db w2) = futures_orders (db w) @ [a, b]
    \<and> fo_side b = closing_side (fo_side a) \<and> fo_product_id a = pr \<and> fo_product_id b = pr \<and> fo_quantity a = q \<and> fo_quantity b = q
    \<and> fo_average_fill_price a = Some p \<and> fo_average_fill_price b = Some p \<and> fo_status a = FtFilled \<and> fo_status b = FtFilled)"
proof -
  let ?k = "new_v4 e (Suc (uuids w))"
  from assms(1) obtain sd where sd: "futures_side_of s = Some sd" and g: "0 < q" "l \<noteq> 0"
    by (auto simp: create_futures_order_def refuse_def internal_err_app bnd_app fresh_uuid_app get_clock_app Let_def
        split: if_splits option.splits)
  let ?r = "new_futures_order i u pr sd FtMarket q p l (clock w)" and ?x = "new_position ?k u pr sd q p l (margin e q p l)"
  have d1: "futures_orders (db w1) = futures_orders (db w) @ [fill_order q p ?r]"
    "futures_positions (db w1) = futures_positions (db w) @ [?x]" "list_all (\<lambda>y. fq_id y \<noteq> ?k) (futures_positions (db w))"
    using assms(1) sd g
    by (auto simp: create_futures_order_def futures_type_of_def Let_def fresh_uuid_app get_clock_app statement_Ok
        open_position_def fill_last list_all_iff futures_order_ok_def position_ok_def
        elim!: bnd_OkE sq_OkE)
  have find: "find (\<lambda>y. fq_id y = ?k \<and> fq_user_id y = u) (futures_positions (db w1)) = Some ?x"
    and drop: "filter (\<lambda>y. fq_id y \<noteq> ?k) (futures_positions (db w1)) = futures_positions (db w)"
    using d1(2,3) by (auto simp: list_all_iff filter_id_conv intro!: find_last)
  show ?thesis
    using assms(2) find drop d1(1)
    by (auto simp: close_position_def statement_Ok Let_def fresh_uuid_app get_clock_app fill_order_def elim!: bnd_OkE sq_OkE)
qed


lemma futures_close_sample:
  assumes "create_futures_order std_env 1 6 ''long'' ''market'' 2 5 2 (calm_world futures_db) = (Ok 1000, w1)"
  shows "\<exists>w2. close_position std_env 1 1001 w1 = (Ok 1002, w2)"
  using assms
  by (auto simp: create_futures_order_def futures_type_of_def futures_side_of_def io_simps Let_def open_position_def
      close_position_def futures_order_ok_def position_ok_def upd_futures_order_def add_position_def references_ok_def
      fill_order_def add_futures_order_def futures_db_def split: if_splits)

theorem futures_open_close_roundtrip_witness:
  "\<exists>w1 w2. create_futures_order std_env 1 6 ''long'' ''market'' 2 5 2 (calm_world futures_db) = (Ok 1000, w1)
     \<and> close_position std_env 1 1001 w1 = (Ok 1002, w2) \<and> futures_positions (db w2) = []"
proof -
  obtain w1 where w1: "create_futures_order std_env 1 6 ''long'' ''market'' 2 5 2 (calm_world futures_db) = (Ok 1000, w1)"
    using futures_market_order_sample by blast
  then obtain w2 where w2: "close_position std_env 1 1001 w1 = (Ok 1002, w2)" using futures_close_sample by blast
  from futures_open_close_roundtrip [OF w1, of 1002 w2] w1 w2 show ?thesis by auto
qed

text \<open>
  Positions stay unique per user, product and side, whatever is opened and closed.
\<close>

theorem futures_positions_unique:
  "positions_ok (db w) \<Longrightarrow> positions_ok (db (snd (create_futures_order e u pr s t q p l w)))
     \<and> positions_ok (db (snd (close_position e u i w)))"
  using keeps_dbD [OF futures_keep(1)] keeps_dbD [OF futures_keep(2)] by blast

text \<open>A negative leverage is accepted and gives a negative margin.\<close>

theorem negative_leverage_negative_margin:
  assumes "decimal_rounding (rnd e)" and "0 \<le> q" and "0 \<le> p" and "sint l < 0"
  shows "margin e q p l \<le> 0"
proof -
  have "(of_int (sint l) :: rat) < 0" using assms(4) by (simp del: of_int_sint)
  moreover have "0 \<le> rnd e (q * p)" using decimal_rounding.rnd_nonneg [OF assms(1)] assms(2,3) by simp
  ultimately show ?thesis
    unfolding margin_def ddiv_def dmul_def by (intro decimal_rounding.rnd_nonpos [OF assms(1)] divide_nonneg_neg)
qed

end
