(* ===== verification/Errors.thy ===== *)
theory Errors
  imports Escrow
begin

text \<open>
  The error vocabulary of the API (\<open>src/src/error.rs\<close>): the numeric codes, their serialised names and
  texts, the helper constructors, and the response an error becomes.  An \<open>anyhow\<close> error is not an
  \<open>ApiError\<close>: the handlers turn it into \<open>Internal\<close> first, and the functions below treat it so.
\<close>

subsection \<open>Codes\<close>

primrec code_number :: "ErrorCode \<Rightarrow> 16 word" where
  "code_number EcInvalidCredentials = 1001"
| "code_number EcTokenExpired = 1002"
| "code_number EcTokenInvalid = 1003"
| "code_number EcTokenMissing = 1004"
| "code_number EcEmailNotVerified = 1005"
| "code_number EcAccountLocked = 1006"
| "code_number EcAccountDisabled = 1007"
| "code_number EcInsufficientPermissions = 2001"
| "code_number EcResourceAccessDenied = 2002"
| "code_number EcRoleNotAuthorized = 2003"
| "code_number EcInvalidInput = 3001"
| "code_number EcMissingRequiredField = 3002"
| "code_number EcInvalidFormat = 3003"
| "code_number EcInvalidWalletAddress = 3004"
| "code_number EcInvalidAmount = 3005"
| "code_number EcInvalidEmail = 3006"
| "code_number EcInvalidPassword = 3007"
| "code_number EcPasswordTooWeak = 3008"
| "code_number EcNotFound = 4001"
| "code_number EcAlreadyExists = 4002"
| "code_number EcConflict = 4003"
| "code_number EcGone = 4004"
| "code_number EcInsufficientBalance = 5001"
| "code_number EcOrderNotMatched = 5002"
| "code_number EcTradingNotAllowed = 5003"
| "code_number EcMeterReadingInvalid = 5004"
| "code_number EcTokenMintingFailed = 5005"
| "code_number EcEpochNotActive = 5006"
| "code_number EcBlockchainConnectionFailed = 6001"
| "code_number EcBlockchainTransactionFailed = 6002"
| "code_number EcTransactionTimeout = 6003"
| "code_number EcInvalidSignature = 6004"
| "code_number EcInsufficientGasFee = 6005"
| "code_number EcProgramError = 6006"
| "code_number EcDatabaseConnectionFailed = 7001"
| "code_number EcQueryFailed = 7002"
| "code_number EcDatabaseTransactionFailed = 7003"
| "code_number EcConstraintViolation = 7004"
| "code_number EcExternalServiceUnavailable = 8001"
| "code_number EcExternalServiceTimeout = 8002"
| "code_number EcExternalServiceError = 8003"
| "code_number EcEmailServiceFailed = 8004"
| "code_number EcServiceUnavailable = 8005"
| "code_number EcRateLimitExceeded = 9001"
| "code_number EcTooManyRequests = 9002"
| "code_number EcInternalServerError = 9999"
| "code_number EcConfigurationError = 9998"
| "code_number EcUnexpectedError = 9997"

definition apostrophe :: string where
  "apostrophe = [CHR 0x27]"

primrec message :: "ErrorCode \<Rightarrow> string" where
  "message EcInvalidCredentials = ''Invalid email or password''"
| "message EcTokenExpired = ''Your session has expired. Please log in again''"
| "message EcTokenInvalid = ''Invalid authentication token''"
| "message EcTokenMissing = ''Authentication required. Please log in''"
| "message EcEmailNotVerified = ''Please verify your email address before proceeding''"
| "message EcAccountLocked = ''Your account has been locked. Please contact support''"
| "message EcAccountDisabled = ''Your account has been disabled. Please contact support''"
| "message EcInsufficientPermissions = ''You don'' @ apostrophe @ ''t have permission to perform this action''"
| "message EcResourceAccessDenied = ''Access to this resource is denied''"
| "message EcRoleNotAuthorized = ''Your role is not authorized for this action''"
| "message EcInvalidInput = ''Invalid input provided''"
| "message EcMissingRequiredField = ''Required field is missing''"
| "message EcInvalidFormat = ''Invalid format provided''"
| "message EcInvalidWalletAddress = ''Invalid wallet address format''"
| "message EcInvalidAmount = ''Invalid amount provided''"
| "message EcInvalidEmail = ''Invalid email address format''"
| "message EcInvalidPassword = ''Invalid password''"
| "message EcPasswordTooWeak = ''Password is too weak. Use at least 8 characters with letters and numbers''"
| "message EcNotFound = ''The requested resource was not found''"
| "message EcAlreadyExists = ''This resource already exists''"
| "message EcConflict = ''A conflict occurred with an existing resource''"
| "message EcGone = ''This resource is no longer available''"
| "message EcInsufficientBalance = ''Insufficient balance to complete this transaction''"
| "message EcOrderNotMatched = ''No matching orders found''"
| "message EcTradingNotAllowed = ''Trading is not allowed at this time''"
| "message EcMeterReadingInvalid = ''Invalid meter reading provided''"
| "message EcTokenMintingFailed = ''Failed to mint energy tokens''"
| "message EcEpochNotActive = ''Trading epoch is not active''"
| "message EcBlockchainConnectionFailed = ''Failed to connect to blockchain network''"
| "message EcBlockchainTransactionFailed = ''Blockchain transaction failed''"
| "message EcTransactionTimeout = ''Blockchain transaction timed out''"
| "message EcInvalidSignature = ''Invalid transaction signature''"
| "message EcInsufficientGasFee = ''Insufficient gas fee for transaction''"
| "message EcProgramError = ''Blockchain program error occurred''"
| "message EcDatabaseConnectionFailed = ''Database connection failed''"
| "message EcQueryFailed = ''Database query failed''"
| "message EcDatabaseTransactionFailed = ''Database transaction failed''"
| "message EcConstraintViolation = ''Database constraint violation''"
| "message EcExternalServiceUnavailable = ''External service is currently unavailable''"
| "message EcExternalServiceTimeout = ''External service request timed out''"
| "message EcExternalServiceError = ''External service error occurred''"
| "message EcEmailServiceFailed = ''Failed to send email''"
| "message EcServiceUnavailable = ''Service is currently unavailable''"
| "message EcRateLimitExceeded = ''Rate limit exceeded. Please try again later''"
| "message EcTooManyRequests = ''Too many requests. Please slow down''"
| "message EcInternalServerError = ''An internal server error occurred''"
| "message EcConfigurationError = ''Server configuration error''"
| "message EcUnexpectedError = ''An unexpected error occurred''"

text \<open>The name a code is serialised under.\<close>

primrec serde_name :: "ErrorCode \<Rightarrow> string" where
  "serde_name EcInvalidCredentials = ''AUTH_1001''"
| "serde_name EcTokenExpired = ''AUTH_1002''"
| "serde_name EcTokenInvalid = ''AUTH_1003''"
| "serde_name EcTokenMissing = ''AUTH_1004''"
| "serde_name EcEmailNotVerified = ''AUTH_1005''"
| "serde_name EcAccountLocked = ''AUTH_1006''"
| "serde_name EcAccountDisabled = ''AUTH_1007''"
| "serde_name EcInsufficientPermissions = ''AUTHZ_2001''"
| "serde_name EcResourceAccessDenied = ''AUTHZ_2002''"
| "serde_name EcRoleNotAuthorized = ''AUTHZ_2003''"
| "serde_name EcInvalidInput = ''VAL_3001''"
| "serde_name EcMissingRequiredField = ''VAL_3002''"
| "serde_name EcInvalidFormat = ''VAL_3003''"
| "serde_name EcInvalidWalletAddress = ''VAL_3004''"
| "serde_name EcInvalidAmount = ''VAL_3005''"
| "serde_name EcInvalidEmail = ''VAL_3006''"
| "serde_name EcInvalidPassword = ''VAL_3007''"
| "serde_name EcPasswordTooWeak = ''VAL_3008''"
| "serde_name EcNotFound = ''RES_4001''"
| "serde_name EcAlreadyExists = ''RES_4002''"
| "serde_name EcConflict = ''RES_4003''"
| "serde_name EcGone = ''RES_4004''"
| "serde_name EcInsufficientBalance = ''BIZ_5001''"
| "serde_name EcOrderNotMatched = ''BIZ_5002''"
| "serde_name EcTradingNotAllowed = ''BIZ_5003''"
| "serde_name EcMeterReadingInvalid = ''BIZ_5004''"
| "serde_name EcTokenMintingFailed = ''BIZ_5005''"
| "serde_name EcEpochNotActive = ''BIZ_5006''"
| "serde_name EcBlockchainConnectionFailed = ''BC_6001''"
| "serde_name EcBlockchainTransactionFailed = ''BC_6002''"
| "serde_name EcTransactionTimeout = ''BC_6003''"
| "serde_name EcInvalidSignature = ''BC_6004''"
| "serde_name EcInsufficientGasFee = ''BC_6005''"
| "serde_name EcProgramError = ''BC_6006''"
| "serde_name EcDatabaseConnectionFailed = ''DB_7001''"
| "serde_name EcQueryFailed = ''DB_7002''"
| "serde_name EcDatabaseTransactionFailed = ''DB_7003''"
| "serde_name EcConstraintViolation = ''DB_7004''"
| "serde_name EcExternalServiceUnavailable = ''EXT_8001''"
| "serde_name EcExternalServiceTimeout = ''EXT_8002''"
| "serde_name EcExternalServiceError = ''EXT_8003''"
| "serde_name EcEmailServiceFailed = ''EXT_8004''"
| "serde_name EcServiceUnavailable = ''EXT_8005''"
| "serde_name EcRateLimitExceeded = ''RATE_9001''"
| "serde_name EcTooManyRequests = ''RATE_9002''"
| "serde_name EcInternalServerError = ''INT_9999''"
| "serde_name EcConfigurationError = ''INT_9998''"
| "serde_name EcUnexpectedError = ''INT_9997''"

definition all_codes :: "ErrorCode list" where
  "all_codes =
    [EcInvalidCredentials, EcTokenExpired, EcTokenInvalid, EcTokenMissing, EcEmailNotVerified,
     EcAccountLocked, EcAccountDisabled, EcInsufficientPermissions, EcResourceAccessDenied,
     EcRoleNotAuthorized, EcInvalidInput, EcMissingRequiredField, EcInvalidFormat,
     EcInvalidWalletAddress, EcInvalidAmount, EcInvalidEmail, EcInvalidPassword,
     EcPasswordTooWeak, EcNotFound, EcAlreadyExists, EcConflict, EcGone, EcInsufficientBalance,
     EcOrderNotMatched, EcTradingNotAllowed, EcMeterReadingInvalid, EcTokenMintingFailed,
     EcEpochNotActive, EcBlockchainConnectionFailed, EcBlockchainTransactionFailed,
     EcTransactionTimeout, EcInvalidSignature, EcInsufficientGasFee, EcProgramError,
     EcDatabaseConnectionFailed, EcQueryFailed, EcDatabaseTransactionFailed,
     EcConstraintViolation, EcExternalServiceUnavailable, EcExternalServiceTimeout,
     EcExternalServiceError, EcEmailServiceFailed, EcServiceUnavailable, EcRateLimitExceeded,
     EcTooManyRequests, EcInternalServerError, EcConfigurationError, EcUnexpectedError]"


text \<open>\<open>Deserialize\<close>: the variant with this name.\<close>

definition from_serde_name :: "string \<Rightarrow> ErrorCode option" where
  "from_serde_name s = find (\<lambda>c. serde_name c = s) all_codes"

subsection \<open>Constructors\<close>

definition with_code :: "ErrorCode \<Rightarrow> string \<Rightarrow> api_error" where
  "with_code c m = WithCode c m"

definition with_details :: "ErrorCode \<Rightarrow> string \<Rightarrow> string \<Rightarrow> api_error" where
  "with_details c m details = WithCodeAndDetails c m details"

definition validation_field :: "string \<Rightarrow> string \<Rightarrow> api_error" where
  "validation_field field m = ValidationWithField EcInvalidInput field m"

definition validation_error :: "string \<Rightarrow> string option \<Rightarrow> api_error" where
  "validation_error m field = (case field of
      Some field_name \<Rightarrow> ValidationWithField EcInvalidInput field_name m
    | None \<Rightarrow> with_code EcInvalidInput m)"

definition invalid_credentials :: api_error where
  "invalid_credentials = with_code EcInvalidCredentials ''Invalid credentials''"

definition token_expired :: api_error where
  "token_expired = with_code EcTokenExpired ''Token expired''"

definition email_not_verified :: api_error where
  "email_not_verified = with_code EcEmailNotVerified ''Email not verified''"

definition insufficient_balance :: "string \<Rightarrow> api_error" where
  "insufficient_balance amount = with_details EcInsufficientBalance ''Insufficient balance'' (''Required: '' @ amount)"

definition not_found :: "string \<Rightarrow> api_error" where
  "not_found resource = with_code EcNotFound (resource @ '' not found'')"

definition already_exists :: "string \<Rightarrow> api_error" where
  "already_exists resource = with_code EcAlreadyExists (resource @ '' already exists'')"

definition invalid_wallet :: api_error where
  "invalid_wallet = with_code EcInvalidWalletAddress ''Invalid wallet address''"

definition meter_not_found :: "string \<Rightarrow> api_error" where
  "meter_not_found meter_id = with_details EcNotFound (''Meter '' @ meter_id @ '' not found'')
     ''The specified meter does not exist in the system''"

definition order_already_matched :: "string \<Rightarrow> api_error" where
  "order_already_matched order_id = with_details EcConflict (''Order '' @ order_id @ '' has already been matched'')
     ''This order cannot be modified as it has been matched''"

definition order_not_found :: "string \<Rightarrow> api_error" where
  "order_not_found order_id = not_found (''Order '' @ order_id)"

definition epoch_not_active :: "string \<Rightarrow> api_error" where
  "epoch_not_active epoch_id = with_details EcEpochNotActive (''Epoch '' @ epoch_id @ '' is not active'')
     ''Trading is only allowed during active epochs''"

definition certificate_not_found :: "string \<Rightarrow> api_error" where
  "certificate_not_found cert_id = not_found (''Certificate '' @ cert_id)"

definition invalid_meter_reading :: "string \<Rightarrow> api_error" where
  "invalid_meter_reading reason = with_details EcMeterReadingInvalid ''Invalid meter reading'' reason"

definition blockchain_tx_failed :: "string \<Rightarrow> api_error" where
  "blockchain_tx_failed details = with_details EcBlockchainTransactionFailed ''Blockchain transaction failed'' details"

definition constraint_violation :: "string \<Rightarrow> api_error" where
  "constraint_violation c = with_details EcConstraintViolation ''Database constraint violation''
     (''Constraint '' @ apostrophe @ c @ apostrophe @ '' was violated'')"

definition service_unavailable :: "string \<Rightarrow> api_error" where
  "service_unavailable service = with_details EcServiceUnavailable (service @ '' service is currently unavailable'')
     ''Please try again later''"

subsection \<open>Responses\<close>

fun error_code :: "api_error \<Rightarrow> ErrorCode" where
  "error_code (Authentication _) = EcInvalidCredentials"
| "error_code (Authorization _) = EcInsufficientPermissions"
| "error_code (BadRequest _) = EcInvalidInput"
| "error_code (Unauthorized _) = EcTokenMissing"
| "error_code (Forbidden _) = EcResourceAccessDenied"
| "error_code (Validation _) = EcInvalidInput"
| "error_code (NotFound _) = EcNotFound"
| "error_code (Conflict _) = EcConflict"
| "error_code (Database _) = EcQueryFailed"
| "error_code (Redis _) = EcExternalServiceError"
| "error_code (Blockchain _) = EcBlockchainTransactionFailed"
| "error_code (ExternalService _) = EcExternalServiceError"
| "error_code (Configuration _) = EcConfigurationError"
| "error_code (Internal _) = EcInternalServerError"
| "error_code (RateLimitExceeded _) = EcRateLimitExceeded"
| "error_code (WithCode c _) = c"
| "error_code (WithCodeAndDetails c _ _) = c"
| "error_code (ValidationWithField c _ _) = c"
| "error_code (Anyhow _) = EcInternalServerError"

definition error_details :: "api_error \<Rightarrow> string option" where
  "error_details er = (case er of WithCodeAndDetails _ _ details \<Rightarrow> Some details | _ \<Rightarrow> None)"

definition error_field :: "api_error \<Rightarrow> string option" where
  "error_field er = (case er of ValidationWithField _ field _ \<Rightarrow> Some field | _ \<Rightarrow> None)"

text \<open>The status of an error that only carries a code.\<close>

definition status_of_code :: "ErrorCode \<Rightarrow> nat" where
  "status_of_code c =
    (if c \<in> {EcTokenExpired, EcTokenInvalid, EcTokenMissing, EcEmailNotVerified} then 401
     else if c \<in> {EcInsufficientPermissions, EcResourceAccessDenied} then 403
     else if c \<in> {EcInvalidInput, EcInvalidWalletAddress, EcInvalidAmount} then 400
     else if c = EcNotFound then 404
     else if c \<in> {EcConflict, EcAlreadyExists} then 409
     else if c \<in> {EcBlockchainConnectionFailed, EcExternalServiceUnavailable, EcServiceUnavailable} then 502
     else if c = EcRateLimitExceeded then 429
     else 500)"

fun status_code :: "api_error \<Rightarrow> nat" where
  "status_code (Authentication _) = 401"
| "status_code (Unauthorized _) = 401"
| "status_code (Authorization _) = 403"
| "status_code (Forbidden _) = 403"
| "status_code (BadRequest _) = 400"
| "status_code (Validation _) = 400"
| "status_code (ValidationWithField _ _ _) = 400"
| "status_code (NotFound _) = 404"
| "status_code (Conflict _) = 409"
| "status_code (Blockchain _) = 502"
| "status_code (ExternalService _) = 502"
| "status_code (RateLimitExceeded _) = 429"
| "status_code (WithCode c _) = status_of_code c"
| "status_code (Database _) = 500"
| "status_code (Redis _) = 500"
| "status_code (Configuration _) = 500"
| "status_code (Internal _) = 500"
| "status_code (WithCodeAndDetails _ _ _) = 500"
| "status_code (Anyhow _) = 500"

record error_detail =
  ed_code :: ErrorCode
  ed_code_number :: "16 word"
  ed_message :: string
  ed_details :: "string option"
  ed_field :: "string option"

record error_response =
  er_error :: error_detail
  er_request_id :: string
  er_timestamp :: string

fun response_message :: "api_error \<Rightarrow> string" where
  "response_message (WithCode _ m) = m"
| "response_message (WithCodeAndDetails _ m _) = m"
| "response_message (BadRequest m) = m"
| "response_message (ValidationWithField _ _ m) = m"
| "response_message er = message (error_code er)"

definition into_response :: "env \<Rightarrow> api_error \<Rightarrow> (world, nat \<times> error_response) io" where
  "into_response e er =
    bnd (fresh_uuid e) (\<lambda>i. bnd get_clock (\<lambda>now.
    ret (status_code er,
      \<lparr> er_error = \<lparr> ed_code = error_code er, ed_code_number = code_number (error_code er),
          ed_message = response_message er, ed_details = error_details er, ed_field = error_field er \<rparr>,
        er_request_id = uuid_str i, er_timestamp = rfc3339 e now \<rparr>)))"

fun error_type :: "api_error \<Rightarrow> string" where
  "error_type (Authentication _) = ''authentication_error''"
| "error_type (Authorization _) = ''authorization_error''"
| "error_type (BadRequest _) = ''bad_request''"
| "error_type (Unauthorized _) = ''unauthorized''"
| "error_type (Forbidden _) = ''forbidden''"
| "error_type (Validation _) = ''validation_error''"
| "error_type (Database _) = ''database_error''"
| "error_type (Redis _) = ''cache_error''"
| "error_type (Blockchain _) = ''blockchain_error''"
| "error_type (ExternalService _) = ''external_service_error''"
| "error_type (Configuration _) = ''configuration_error''"
| "error_type (NotFound _) = ''not_found''"
| "error_type (Conflict _) = ''conflict''"
| "error_type (Internal _) = ''internal_error''"
| "error_type (RateLimitExceeded _) = ''rate_limit_exceeded''"
| "error_type (WithCode c _) = (if c = EcInvalidCredentials then ''authentication_error''
     else if c = EcInsufficientPermissions then ''authorization_error''
     else if c = EcNotFound then ''not_found'' else ''error'')"
| "error_type (WithCodeAndDetails c _ _) = (if c = EcInvalidCredentials then ''authentication_error''
     else if c = EcInsufficientPermissions then ''authorization_error''
     else if c = EcNotFound then ''not_found'' else ''error'')"
| "error_type (ValidationWithField _ _ _) = ''validation_error''"
| "error_type (Anyhow _) = ''internal_error''"

text \<open>Why the framework rejected a request body, with its text.\<close>

datatype JsonRejection =
    JsonDataError string | JsonSyntaxError string | MissingJsonContentType string | BytesRejection string
  | OtherRejection string

definition rejection_error :: "JsonRejection \<Rightarrow> api_error" where
  "rejection_error err = (case err of
      JsonDataError t \<Rightarrow> with_details EcInvalidInput ''Invalid input provided'' t
    | JsonSyntaxError _ \<Rightarrow> with_code EcInvalidFormat ''Invalid JSON format''
    | MissingJsonContentType _ \<Rightarrow> with_code EcInvalidFormat ''JSON content type required''
    | BytesRejection _ \<Rightarrow> with_code EcInvalidInput ''Invalid request body format''
    | OtherRejection t \<Rightarrow> with_details EcInvalidInput ''Invalid input provided'' t)"

definition handle_rejection :: "env \<Rightarrow> JsonRejection \<Rightarrow> (world, nat \<times> error_response) io" where
  "handle_rejection e err = into_response e (rejection_error err)"


subsection \<open>Properties\<close>

definition digits4 :: "nat \<Rightarrow> string" where
  "digits4 n = map (\<lambda>k. ''0123456789'' ! (n div k mod 10)) [1000, 100, 10, 1]"

text \<open>The category of a code, by the prefix of its name, in the order of the documentation.\<close>

definition category_prefixes :: "nat \<Rightarrow> string list" where
  "category_prefixes k = [[], [''AUTH''], [''AUTHZ''], [''VAL''], [''RES''], [''BIZ''], [''BC''], [''DB''], [''EXT''], [''RATE'', ''INT'']] ! k"

lemma all_codes_complete: "c \<in> set all_codes"
  by (cases c) (simp_all add: all_codes_def)

lemma code_names: "distinct (map serde_name all_codes)" "distinct (map code_number all_codes)"
  by (simp_all add: all_codes_def)

lemma find_distinct: "distinct (map f xs) \<Longrightarrow> x \<in> set xs \<Longrightarrow> find (\<lambda>y. f y = f x) xs = Some x"
  by (induction xs) (auto simp: image_iff)

lemma name_has_number:
  "\<exists>p \<in> set (category_prefixes (unat (code_number c) div 1000)). serde_name c = p @ ''_'' @ digits4 (unat (code_number c))"
  by (cases c) (simp_all add: category_prefixes_def digits4_def)

text \<open>
  Error codes are unambiguous.  A code is recovered from the name it is serialised under; different
  codes have different numbers; and the name consists of the prefix of the category that the thousands
  digit of the number stands for, and of the number itself.
\<close>

theorem error_codes_roundtrip:
  "from_serde_name (serde_name c) = Some c \<and> (code_number c = code_number c' \<longleftrightarrow> c = c')
     \<and> (\<exists>p. p \<in> set (category_prefixes (unat (code_number c) div 1000))
          \<and> serde_name c = p @ ''_'' @ digits4 (unat (code_number c)))"
proof -
  have "inj_on code_number (set all_codes)" using code_names(2) by (simp add: distinct_map)
  then show ?thesis
    using find_distinct [OF code_names(1) all_codes_complete, of c] all_codes_complete [of c] all_codes_complete [of c']
      name_has_number [of c] by (auto simp: from_serde_name_def dest: inj_onD)
qed

text \<open>The same error without the text that only the log shows.\<close>

fun redact :: "api_error \<Rightarrow> api_error" where
  "redact (Authentication _) = Authentication []"
| "redact (Authorization _) = Authorization []"
| "redact (Unauthorized _) = Unauthorized []"
| "redact (Forbidden _) = Forbidden []"
| "redact (Validation _) = Validation []"
| "redact (Database _) = Database []"
| "redact (Redis _) = Redis []"
| "redact (Blockchain _) = Blockchain []"
| "redact (ExternalService _) = ExternalService []"
| "redact (Configuration _) = Configuration []"
| "redact (NotFound _) = NotFound []"
| "redact (Conflict _) = Conflict []"
| "redact (Internal _) = Internal []"
| "redact (RateLimitExceeded _) = RateLimitExceeded []"
| "redact (Anyhow _) = Anyhow []"
| "redact er = er"

text \<open>
  C40. Internal texts do not leak.  The response to a database, cache, blockchain, configuration or internal
  error, and to every other error that is not built with an explicit public text, is the same whatever
  text the error carries: a client learns the code and its fixed message only.
\<close>

theorem responses_do_not_leak: "into_response e (redact er) = into_response e er"
  by (cases er) (simp_all add: into_response_def error_details_def error_field_def)

text \<open>
  Errors built with details are reported as server errors.  An error with a code alone gets the status
  of its code, but one with a code and details gets 500, whatever the code: an unknown meter, a missing
  balance or a request body that does not fit its type are answered with 500, although the response
  names a code of the resource, business or validation category; and so are malformed JSON and wrong
  credentials reported through their helpers, whose codes the status table does not list.
\<close>

theorem detailed_errors_are_server_errors:
  "status_code (with_details c m d) = 500 \<and> status_code (not_found r) = 404
   \<and> status_code (meter_not_found i) = 500 \<and> error_code (meter_not_found i) = error_code (not_found r)
   \<and> status_code (insufficient_balance a) = 500
   \<and> status_code (rejection_error (JsonDataError t)) = 500 \<and> error_code (rejection_error (JsonDataError t)) = EcInvalidInput
   \<and> status_code (rejection_error (JsonSyntaxError t)) = 500
   \<and> status_code invalid_credentials = 500 \<and> status_code (Authentication t) = 401"
  by (simp add: with_details_def not_found_def with_code_def meter_not_found_def insufficient_balance_def
      rejection_error_def invalid_credentials_def status_of_code_def)

end
