(* ===== verification/Pagination.thy ===== *)
theory Pagination
  imports Errors Floats
begin

text \<open>
  Paging of list endpoints: \<open>src/src/utils/pagination.rs\<close> and the query parameters of the order
  endpoints in \<open>src/src/handlers/trading/types.rs\<close>.  Page numbers and sizes are 32-bit words and wrap
  as in a release build; the number of pages is computed in double precision.
\<close>

subsection \<open>Parameters\<close>

type_synonym u32 = "32 word"

datatype SortOrder = Asc | Desc

record pagination_params =
  pg_page :: u32
  pg_page_size :: u32
  pg_sort_by :: "string option"
  pg_sort_order :: SortOrder

definition default_page :: u32 where
  "default_page = 1"

definition default_page_size :: u32 where
  "default_page_size = 20"

definition default_sort_order :: SortOrder where
  "default_sort_order = Desc"

text \<open>\<open>validate\<close>: it repairs the parameters and never fails.\<close>

definition normal_page :: "u32 \<Rightarrow> u32" where
  "normal_page p = (if p < 1 then 1 else p)"

definition normal_size :: "u32 \<Rightarrow> u32" where
  "normal_size s = (if s < 1 then default_page_size else if s > 100 then 100 else s)"

definition validate :: "pagination_params \<Rightarrow> pagination_params" where
  "validate p = p\<lparr>pg_page := normal_page (pg_page p), pg_page_size := normal_size (pg_page_size p)\<rparr>"

definition row_limit :: "u32 \<Rightarrow> i64" where
  "row_limit n = ucast n"

definition row_offset :: "u32 \<Rightarrow> u32 \<Rightarrow> i64" where
  "row_offset page n = ucast ((page - 1) * n)"

fun sort_direction :: "SortOrder \<Rightarrow> string" where
  "sort_direction Asc = ''ASC''"
| "sort_direction Desc = ''DESC''"

record pagination_meta =
  pm_current_page :: u32
  pm_total_pages :: u32
  pm_total_items :: i64
  pm_items_per_page :: u32
  pm_has_next :: bool
  pm_has_previous :: bool

text \<open>\<open>x as u32\<close> of a finite \<open>f64\<close>: truncated towards zero and saturating.\<close>

definition f64_as_u32 :: "rat \<Rightarrow> u32" where
  "f64_as_u32 x = (if x \<le> 0 then 0 else if x \<ge> 4294967295 then 4294967295 else word_of_int \<lfloor>x\<rfloor>)"

text \<open>A page size of zero divides by zero: the quotient is an infinity, which saturates.\<close>

definition count_pages :: "i64 \<Rightarrow> u32 \<Rightarrow> u32" where
  "count_pages total_items n =
    (if total_items = 0 then 1
     else if n = 0 then (if sint total_items < 0 then 0 else 4294967295)
     else f64_as_u32 (of_int \<lceil>f64 (f64 (of_int (sint total_items)) / f64 (of_int (uint n)))\<rceil>))"

definition pagination_meta_new :: "pagination_params \<Rightarrow> i64 \<Rightarrow> pagination_meta" where
  "pagination_meta_new params total_items =
    (let total_pages = count_pages total_items (pg_page_size params) in
     \<lparr> pm_current_page = pg_page params, pm_total_pages = total_pages, pm_total_items = total_items,
       pm_items_per_page = pg_page_size params, pm_has_next = pg_page params < total_pages,
       pm_has_previous = pg_page params > 1 \<rparr>)"

record 'a paginated_response =
  pr_data :: "'a list"
  pr_pagination :: pagination_meta

definition paginated_response_new :: "'a list \<Rightarrow> pagination_params \<Rightarrow> i64 \<Rightarrow> 'a paginated_response" where
  "paginated_response_new xs params total_items = \<lparr>pr_data = xs, pr_pagination = pagination_meta_new params total_items\<rparr>"

record filter_params =
  fp_status :: "string option"
  fp_from_date :: "time option"
  fp_to_date :: "time option"
  fp_search :: "string option"

definition has_filters :: "filter_params \<Rightarrow> bool" where
  "has_filters f \<longleftrightarrow> fp_status f \<noteq> None \<or> fp_from_date f \<noteq> None \<or> fp_to_date f \<noteq> None \<or> fp_search f \<noteq> None"

record list_query_params = pagination_params +
  lq_status :: "string option"
  lq_from_date :: "time option"
  lq_to_date :: "time option"
  lq_search :: "string option"

definition pagination_of :: "list_query_params \<Rightarrow> pagination_params" where
  "pagination_of q = pagination_params.truncate q"

definition filters_of :: "list_query_params \<Rightarrow> filter_params" where
  "filters_of q = \<lparr>fp_status = lq_status q, fp_from_date = lq_from_date q, fp_to_date = lq_to_date q, fp_search = lq_search q\<rparr>"

text \<open>The method repairs the page in place before it looks at the dates.\<close>

definition validate_list_query :: "list_query_params \<Rightarrow> (string + unit) \<times> list_query_params" where
  "validate_list_query q =
    (let q' = q\<lparr>pg_page := normal_page (pg_page q), pg_page_size := normal_size (pg_page_size q)\<rparr>
     in (case (lq_from_date q, lq_to_date q) of
           (Some from, Some to) \<Rightarrow> if from > to then Inl ''from_date must be before to_date'' else Inr ()
         | _ \<Rightarrow> Inr (), q'))"

subsection \<open>The order endpoints\<close>

record order_query =
  oq_status :: "OrderStatus option"
  oq_side :: "OrderSide option"
  oq_order_type :: "OrderType option"
  oq_page :: u32
  oq_page_size :: u32
  oq_sort_by :: "string option"
  oq_sort_order :: SortOrder

definition sort_fields :: "string list" where
  "sort_fields = [''created_at'', ''price_per_kwh'', ''energy_amount'', ''filled_at'']"

definition validate_params :: "order_query \<Rightarrow> (api_error + unit) \<times> order_query" where
  "validate_params q =
    (let q' = q\<lparr>oq_page := normal_page (oq_page q), oq_page_size := normal_size (oq_page_size q)\<rparr>
     in (case oq_sort_by q of
           None \<Rightarrow> Inr ()
         | Some f \<Rightarrow> if f \<in> set sort_fields then Inr ()
             else Inl (validation_error
               ''Invalid sort_by field. Allowed values: created_at, price_per_kwh, energy_amount, filled_at'' (Some ''sort_by'')), q'))"

definition get_sort_field :: "order_query \<Rightarrow> string" where
  "get_sort_field q = unwrap_or (oq_sort_by q) ''created_at''"

definition page_params :: "order_query \<Rightarrow> pagination_params" where
  "page_params q = \<lparr>pg_page = oq_page q, pg_page_size = oq_page_size q, pg_sort_by = oq_sort_by q, pg_sort_order = oq_sort_order q\<rparr>"

text \<open>\<open>LIMIT l OFFSET o\<close> on the rows of a query.\<close>

definition sql_window :: "i64 \<Rightarrow> i64 \<Rightarrow> 'a list \<Rightarrow> 'a list" where
  "sql_window l k xs = take (nat (sint l)) (drop (nat (sint k)) xs)"

subsection \<open>Words and quotients\<close>

lemma sint_small: "uint (x :: 64 word) < 2 ^ 63 \<Longrightarrow> sint x = uint x"
proof -
  assume "uint x < 2 ^ 63"
  moreover have "- (2 ^ 63) \<le> uint x" by (rule order_trans [OF _ uint_ge_0]) simp
  ultimately show ?thesis by (simp add: sint_uint signed_take_bit_int_eq_self)
qed

lemma sint_wide [simp]: "sint (ucast (x :: u32) :: i64) = uint x"
proof -
  have "uint x < 2 ^ 32" using uint_lt2p [of x] by simp
  then have u: "uint (ucast x :: i64) = uint x" by (simp add: unsigned_ucast_eq take_bit_int_eq_self)
  with \<open>uint x < 2 ^ 32\<close> show ?thesis by (subst sint_small) simp_all
qed

lemma normal_size_bounds: "1 \<le> uint (normal_size s) \<and> uint (normal_size s) \<le> 100"
proof -
  have "uint (normal_size s) \<noteq> 0 \<and> uint (normal_size s) \<le> 100"
    by (auto simp: normal_size_def default_page_size_def not_less word_le_def uint_0_iff)
  with uint_ge_0 [of "normal_size s"] show ?thesis by linarith
qed

lemma quotient_le: "0 < k \<Longrightarrow> rat_of_nat t / of_int k \<le> of_nat t"
  using mult_right_mono [of 1 "rat_of_int k" "of_nat t"] by (simp add: field_simps)

lemma ceiling_f64_quotient:
  assumes t: "0 \<le> t" "t < 2 ^ 32" and n: "0 < n" "n \<le> 100"
  shows "\<lceil>f64 (of_int t / of_int n)\<rceil> = \<lceil>(of_int t :: rat) / of_int n\<rceil>"
proof (cases "n dvd t")
  case True
  then obtain q where q: "t = n * q" by auto
  with assms have "0 \<le> q" by (simp add: zero_le_mult_iff)
  moreover have "q \<le> t" using q \<open>0 \<le> q\<close> n(1) mult_right_mono [of 1 n q] by simp
  ultimately have "f64 (of_int q) = of_int q" using t by (intro f64_int) auto
  then show ?thesis using n by (simp add: q)
next
  case False
  let ?q = "of_int t / of_int n :: rat" and ?k = "t div n"
  have m: "t = n * ?k + t mod n" "0 < t mod n" "t mod n < n"
    using False n(1) pos_mod_sign [of n t] pos_mod_bound [of n t] by (auto simp: dvd_eq_mod_eq_0 order_less_le)
  have "of_int t = (of_int n * of_int ?k + of_int (t mod n) :: rat)"
    using arg_cong [OF m(1), of "of_int :: int \<Rightarrow> rat"] by (simp only: of_int_add of_int_mult)
  then have q: "?q = of_int ?k + of_int (t mod n) / of_int n" using n(1) by (simp add: field_simps)
  have "1 / 100 \<le> (1 :: rat) / of_int n" using n by (simp add: field_simps)
  also have "\<dots> \<le> of_int (t mod n) / of_int n" using n m(2) by (intro divide_right_mono) simp_all
  finally have lo: "of_int ?k + 1 / 100 \<le> ?q" by (simp add: q)
  have "of_int (t mod n) \<le> (of_int n - 1 :: rat)" using m(3) by (simp flip: of_int_diff)
  then have "of_int (t mod n) / of_int n \<le> (of_int n - 1) / (of_int n :: rat)" using n by (intro divide_right_mono) simp_all
  also have "\<dots> = 1 - 1 / of_int n" using n by (simp add: field_simps)
  finally have hi: "?q \<le> of_int ?k + 1 - 1 / 100" using \<open>1 / 100 \<le> (1 :: rat) / of_int n\<close> unfolding q by linarith
  have "0 < t" using m(1,2) t(1) by (cases "t = 0") auto
  then have "\<bar>f64 ?q - ?q\<bar> \<le> ?q / 2 ^ 53" using n by (intro f64_rel_err) simp
  also have "\<dots> \<le> 2 ^ 32 / 2 ^ 53"
  proof (intro divide_right_mono)
    have "?q \<le> of_int t" using n(1) t(1) quotient_le [of n "nat t"] by simp
    also have "\<dots> \<le> of_int (2 ^ 32)" using t(2) by (simp only: of_int_le_iff)
    finally show "?q \<le> 2 ^ 32" by simp
  qed simp
  also have "\<dots> < (1 :: rat) / 100" by simp
  finally have "\<bar>f64 ?q - ?q\<bar> < 1 / 100" .
  with lo hi have "of_int ?k < f64 ?q" "f64 ?q < of_int ?k + 1" "of_int ?k < ?q" "?q < of_int ?k + 1"
    unfolding abs_less_iff by linarith+
  then have "\<lceil>f64 ?q\<rceil> = ?k + 1" "\<lceil>?q\<rceil> = ?k + 1" by (simp_all add: ceiling_eq_iff)
  then show ?thesis by simp
qed

lemma f64_as_u32_int:
  assumes "0 < c" and "c \<le> 4294967295"
  shows "int (unat (f64_as_u32 (of_int c))) = c"
proof (cases "c = 4294967295")
  case True
  then show ?thesis by (simp add: f64_as_u32_def)
next
  case False
  with assms have "\<not> (of_int c :: rat) \<le> 0" "\<not> (4294967295 :: rat) \<le> of_int c" by simp_all
  then have "f64_as_u32 (of_int c) = word_of_int c" by (simp add: f64_as_u32_def)
  moreover have "uint (word_of_int c :: u32) = c" using assms False by (simp add: uint_word_of_int_eq take_bit_int_eq_self)
  ultimately show ?thesis by (simp only: uint_nat [symmetric])
qed

text \<open>The number of pages is the rounded-up quotient, and one page for an empty listing.\<close>

lemma count_pages_exact:
  assumes "len < 2 ^ 32" and "0 < len"
  shows "int (unat (count_pages (of_nat len) (normal_size s))) = \<lceil>rat_of_nat len / of_int (uint (normal_size s))\<rceil>"
proof -
  let ?n = "uint (normal_size s)" and ?t = "of_nat len :: i64"
  have u: "uint ?t = int len" using assms(1) by (simp add: unsigned_of_nat take_bit_nat_eq_self flip: of_nat_take_bit)
  then have t: "sint ?t = int len" using assms(1) by (simp add: sint_small)
  have n: "0 < ?n" "?n \<le> 100" using normal_size_bounds [of s] by auto
  then have "normal_size s \<noteq> 0" by auto
  moreover have "?t \<noteq> 0" using t assms(2) by auto
  moreover have "f64 (of_int ?n) = of_int ?n" "f64 (of_int (int len)) = of_int (int len)"
    using n assms(1) by (intro f64_int; simp)+
  ultimately have c: "count_pages ?t (normal_size s) = f64_as_u32 (of_int \<lceil>rat_of_nat len / of_int ?n\<rceil>)"
    using ceiling_f64_quotient [of "int len" ?n] n assms(1) by (simp add: count_pages_def t)
  let ?c = "\<lceil>rat_of_nat len / of_int ?n\<rceil>"
  have "rat_of_nat len / of_int ?n \<le> of_int (int len)" using quotient_le [of ?n len] n by (simp del: of_int_uint)
  then have "?c \<le> int len" by (simp add: ceiling_le_iff)
  moreover have "0 < ?c" using n assms(2) by (simp del: of_int_uint)
  moreover have "int len < 4294967296" using assms(1) by simp
  ultimately have b: "0 < ?c" "?c \<le> 4294967295" by linarith+
  then show ?thesis unfolding c by (rule f64_as_u32_int)
qed

subsection \<open>Pages\<close>

lemma concat_windows: "concat (map (\<lambda>i. take k (drop (i * k) xs)) [0..<m]) = take (m * k) xs"
proof (induction m)
  case (Suc m)
  then show ?case using take_add [of "m * k" k xs] by (simp add: add.commute)
qed simp

text \<open>The window of a page whose number stays below the wrap-around.\<close>

lemma page_window:
  assumes "1 \<le> n" and "(n - 1) * unat k < 2 ^ 32" and "n < 2 ^ 32"
  shows "sql_window (row_limit k) (row_offset (normal_page (of_nat n)) k) xs = take (unat k) (drop ((n - 1) * unat k) xs)"
proof -
  have "unat (of_nat n :: u32) = n" using assms(3) by (simp add: unsigned_of_nat take_bit_nat_eq_self)
  then have "normal_page (of_nat n) = of_nat n" using assms(1)
    by (simp add: normal_page_def word_less_nat_alt)
  moreover have "(of_nat n - 1 :: u32) = of_nat (n - 1)" using assms(1) by simp
  moreover have "(of_nat (n - 1) * k :: u32) = of_nat ((n - 1) * unat k)" by simp
  moreover have "uint (of_nat ((n - 1) * unat k) :: u32) = int ((n - 1) * unat k)"
    using assms(2) by (simp only: uint_nat unsigned_of_nat take_bit_nat_eq_self) (simp add: take_bit_nat_eq_self)
  ultimately show ?thesis by (simp add: sql_window_def row_limit_def row_offset_def nat_mult_distrib flip: unat_eq_nat_uint)
qed


lemma ceiling_quotient_bounds:
  assumes "0 < k" and "\<lceil>rat_of_nat len / of_nat k\<rceil> = int m"
  shows "len \<le> m * k" and "m = 0 \<or> (m - 1) * k < len"
proof -
  have "rat_of_nat len / of_nat k \<le> of_int (int m)" using assms(2) by (simp only: ceiling_le_iff [symmetric])
  then have "rat_of_nat len \<le> of_nat (m * k)" using assms(1) by (simp add: field_simps)
  then show "len \<le> m * k" by (simp only: of_nat_le_iff)
  show "m = 0 \<or> (m - 1) * k < len"
  proof (cases m)
    case (Suc i)
    then have "of_int (int i) < rat_of_nat len / of_nat k" using assms(2) by (simp only: less_ceiling_iff [symmetric])
    then have "rat_of_nat (i * k) < of_nat len" using assms(1) by (simp add: field_simps)
    with Suc show ?thesis by (simp only: of_nat_less_iff) simp
  qed simp
qed

text \<open>
  The pages of a listing cover it: for a listing of fewer than \<open>2 ^ 32\<close> rows and every requested page
  size, the windows of the pages from the first to the last one that the response announces, put
  together, are the rows of the listing in their order, each exactly once.
\<close>

theorem pages_cover_listing:
  assumes "length xs < 2 ^ 32"
  shows "concat (map (\<lambda>n. sql_window (row_limit (normal_size s)) (row_offset (normal_page (of_nat n)) (normal_size s)) xs)
      [1..<Suc (unat (count_pages (of_nat (length xs)) (normal_size s)))]) = xs"
proof (cases "xs = []")
  case True
  then show ?thesis by (simp add: count_pages_def sql_window_def)
next
  case False
  let ?k = "unat (normal_size s)" and ?m = "unat (count_pages (of_nat (length xs)) (normal_size s))"
  let ?w = "\<lambda>n. sql_window (row_limit (normal_size s)) (row_offset (normal_page (of_nat n)) (normal_size s)) xs"
  have k: "0 < ?k" using normal_size_bounds [of s] unfolding unat_eq_nat_uint by linarith
  have "\<lceil>rat_of_nat (length xs) / of_nat ?k\<rceil> = int ?m"
    using count_pages_exact [of "length xs" s] assms False by simp
  note m = ceiling_quotient_bounds [OF k this]
  have "?w (Suc i) = take ?k (drop (i * ?k) xs)" if "i < ?m" for i
  proof -
    have "i * ?k \<le> (?m - 1) * ?k" using that by (intro mult_right_mono) auto
    then have "i * ?k < 2 ^ 32" using m(2) that assms by linarith
    moreover have "?m < 2 ^ LENGTH(32)" by (rule unsigned_less)
    then have "Suc i < 2 ^ 32" using that by (simp add: Suc_le_eq [symmetric])
    ultimately show ?thesis using page_window [of "Suc i" "normal_size s" xs] by simp
  qed
  then have "map (\<lambda>i. ?w (Suc i)) [0..<?m] = map (\<lambda>i. take ?k (drop (i * ?k) xs)) [0..<?m]" by simp
  moreover have "map ?w [1..<Suc ?m] = map (\<lambda>i. ?w (Suc i)) [0..<?m]"
    by (simp add: map_Suc_upt [symmetric] comp_def del: upt_Suc map_Suc_upt)
  ultimately have "concat (map ?w [1..<Suc ?m]) = take (?m * ?k) xs" by (simp only: concat_windows)
  with m(1) show ?thesis by simp
qed

theorem pages_cover_listing_witness:
  "count_pages 45 (normal_size 20) = 3
     \<and> concat (map (\<lambda>n. sql_window (row_limit (normal_size 20)) (row_offset (normal_page (of_nat n)) (normal_size 20)) [0..<45])
          [1..<Suc (unat (count_pages (of_nat (length [0..<45])) (normal_size 20)))]) = [0..<45]"
proof -
  have "int (unat (count_pages 45 (normal_size 20))) = \<lceil>(45 :: rat) / of_int (uint (normal_size 20))\<rceil>"
    using count_pages_exact [of 45 20] by simp
  also have "\<dots> = \<lceil>(9 / 4 :: rat)\<rceil>" by (simp add: normal_size_def)
  also have "\<dots> = int (unat (3 :: u32))" by (simp add: ceiling_eq_iff)
  finally have "count_pages 45 (normal_size 20) = 3" by (simp only: of_nat_eq_iff word_unat_eq_iff)
  with pages_cover_listing [of "[0..<45]" 20] show ?thesis by simp
qed

text \<open>Repairing the parameters twice changes nothing more, and leaves a page that can be computed with.\<close>

theorem validate_normal:
  "validate (validate p) = validate p \<and> pg_page (validate p) \<noteq> 0
     \<and> 1 \<le> uint (pg_page_size (validate p)) \<and> uint (pg_page_size (validate p)) \<le> 100"
proof -
  have "normal_size (normal_size s) = normal_size s" for s by (auto simp: normal_size_def default_page_size_def)
  moreover have "normal_page (normal_page n) = normal_page n" "normal_page n \<noteq> 0" for n by (auto simp: normal_page_def)
  ultimately show ?thesis using normal_size_bounds by (simp add: validate_def)
qed

text \<open>
  The offset is computed in 32 bits: a page far behind the last one shows the first rows again, while
  the response says that it is not the last page before it.
\<close>

theorem page_offset_wraps:
  "row_offset 67108865 64 = row_offset 1 64 \<and> sql_window (row_limit 64) (row_offset 67108865 64) xs = take 64 xs"
  by (simp add: row_offset_def row_limit_def sql_window_def)

end
