(* ===== verification/Roles.thy ===== *)
theory Roles
  imports Errors
begin

text \<open>
  Role-based access control (\<open>src/src/auth/roles.rs\<close>): permissions \<open>resource:action\<close> with a wildcard
  action, the permissions of each role, and the text of a role.  A role's permissions are a list here;
  the code collects the same texts into a hash set and only tests membership.
\<close>

subsection \<open>Permissions\<close>

datatype Permission = Permission string

fun perm_text :: "Permission \<Rightarrow> string" where
  "perm_text (Permission s) = s"

definition permission_new :: "string \<Rightarrow> string \<Rightarrow> Permission" where
  "permission_new resource action = Permission (resource @ '':'' @ action)"

definition permission_wildcard :: "string \<Rightarrow> Permission" where
  "permission_wildcard resource = Permission (resource @ '':*'')"

text \<open>\<open>str::split(c)\<close>: the pieces between the separators, of which there is always one.\<close>

fun split_on :: "char \<Rightarrow> string \<Rightarrow> string list" where
  "split_on c [] = [[]]"
| "split_on c (x # xs) = (if x = c then [] # split_on c xs
     else (case split_on c xs of [] \<Rightarrow> [[x]] | p # ps \<Rightarrow> (x # p) # ps))"

definition resource_of :: "Permission \<Rightarrow> string" where
  "resource_of p = (case split_on CHR '':'' (perm_text p) of [] \<Rightarrow> [] | r # _ \<Rightarrow> r)"

definition action_of :: "Permission \<Rightarrow> string" where
  "action_of p = (case split_on CHR '':'' (perm_text p) of _ # a # _ \<Rightarrow> a | _ \<Rightarrow> [])"

definition is_wildcard :: "Permission \<Rightarrow> bool" where
  "is_wildcard p \<longleftrightarrow> drop (length (perm_text p) - 2) (perm_text p) = '':*''"

definition grants :: "Permission \<Rightarrow> Permission \<Rightarrow> bool" where
  "grants p requested \<longleftrightarrow> perm_text p = perm_text requested
     \<or> is_wildcard p \<and> resource_of p = resource_of requested"

subsection \<open>Roles\<close>

datatype Role = RoleUser | RoleAdmin | RoleAMI | RoleProducer | RoleConsumer | RoleOperator

fun permissions :: "Role \<Rightarrow> Permission list" where
  "permissions RoleUser = map Permission
     [''energy:read'', ''energy:submit'', ''trading:read'', ''trading:create'', ''profile:read'', ''profile:update'', ''meters:read'']"
| "permissions RoleAdmin = map Permission
     [''energy:*'', ''trading:*'', ''profile:*'', ''analytics:*'', ''users:*'', ''admin:*'', ''meters:*'', ''system:*'']"
| "permissions RoleAMI = map Permission
     [''energy:submit'', ''meters:read'', ''meters:update'', ''readings:submit'']"
| "permissions RoleProducer = map Permission
     [''energy:read'', ''energy:submit'', ''offers:*'', ''trading:read'', ''trading:create'', ''transactions:read'',
      ''profile:read'', ''profile:update'', ''meters:read'']"
| "permissions RoleConsumer = map Permission
     [''energy:read'', ''orders:*'', ''offers:read'', ''trading:read'', ''trading:create'', ''transactions:read'',
      ''profile:read'', ''profile:update'']"
| "permissions RoleOperator = map Permission
     [''energy:read'', ''meters:*'', ''readings:*'', ''analytics:read'', ''system:health'']"

definition has_permission :: "Role \<Rightarrow> Permission \<Rightarrow> bool" where
  "has_permission r p \<longleftrightarrow> list_ex (\<lambda>q. grants q p) (permissions r)"

definition has_any_permission :: "Role \<Rightarrow> Permission list \<Rightarrow> bool" where
  "has_any_permission r ps \<longleftrightarrow> list_ex (has_permission r) ps"

definition has_all_permissions :: "Role \<Rightarrow> Permission list \<Rightarrow> bool" where
  "has_all_permissions r ps \<longleftrightarrow> list_all (has_permission r) ps"

fun role_fmt :: "Role \<Rightarrow> string" where
  "role_fmt RoleUser = ''user''"
| "role_fmt RoleAdmin = ''admin''"
| "role_fmt RoleAMI = ''ami''"
| "role_fmt RoleProducer = ''producer''"
| "role_fmt RoleConsumer = ''consumer''"
| "role_fmt RoleOperator = ''operator''"

definition role_from_str :: "string \<Rightarrow> string + Role" where
  "role_from_str s = (let t = to_lower s in
     if t = ''user'' then Inr RoleUser
     else if t = ''admin'' then Inr RoleAdmin
     else if t = ''ami'' then Inr RoleAMI
     else if t = ''producer'' then Inr RoleProducer
     else if t = ''consumer'' then Inr RoleConsumer
     else if t = ''operator'' then Inr RoleOperator
     else Inl (''Invalid role: '' @ s))"

subsection \<open>Lemmas\<close>

lemma split_on_first: "split_on c xs = takeWhile (\<lambda>x. x \<noteq> c) xs # (case dropWhile (\<lambda>x. x \<noteq> c) xs of [] \<Rightarrow> [] | _ # ys \<Rightarrow> split_on c ys)"
  by (induction xs) (auto split: list.splits)

lemma resource_of_eq: "resource_of p = takeWhile (\<lambda>x. x \<noteq> CHR '':'') (perm_text p)"
  unfolding resource_of_def by (subst split_on_first) simp

lemma resource_new: "CHR '':'' \<notin> set r \<Longrightarrow> resource_of (permission_new r a) = r"
  by (simp add: resource_of_eq permission_new_def takeWhile_append takeWhile_eq_all_conv)

lemma action_new:
  assumes "CHR '':'' \<notin> set r" and "CHR '':'' \<notin> set a"
  shows "action_of (permission_new r a) = a"
proof -
  have "dropWhile (\<lambda>x. x \<noteq> CHR '':'') r = []" using assms(1) by (auto simp: dropWhile_eq_Nil_conv)
  then have d: "dropWhile (\<lambda>x. x \<noteq> CHR '':'') (r @ CHR '':'' # a) = CHR '':'' # a"
    using assms(1) by (simp add: dropWhile_append)
  have "takeWhile (\<lambda>x. x \<noteq> CHR '':'') a = a" using assms(2) by (auto simp: takeWhile_eq_all_conv)
  then have "split_on CHR '':'' a = a # (case dropWhile (\<lambda>x. x \<noteq> CHR '':'') a of [] \<Rightarrow> [] | _ # ys \<Rightarrow> split_on CHR '':'' ys)"
    by (subst split_on_first) simp
  with d show ?thesis
    unfolding action_of_def permission_new_def by (subst split_on_first) simp
qed

lemma wildcard_is_wildcard [simp]: "is_wildcard (permission_wildcard r)"
  by (simp add: is_wildcard_def permission_wildcard_def)

lemma grants_refl: "grants p p"
  by (simp add: grants_def)

lemma grants_trans: "grants p q \<Longrightarrow> grants q r \<Longrightarrow> grants p r"
  by (cases p; cases q; cases r) (auto simp: grants_def)

subsection \<open>Properties\<close>

text \<open>
  Permissions mean what their two parts say.  For a resource and an action without a colon, the
  parts of \<open>resource:action\<close> are read back from its text; the wildcard of a resource grants every
  action on it, and on no other resource; a permission that is not a wildcard grants itself only; and
  granting is transitive, so that checking against the permissions of a role is closed under what
  these grant.
\<close>

theorem permission_grants:
  assumes "CHR '':'' \<notin> set r" and "CHR '':'' \<notin> set r'" and "CHR '':'' \<notin> set a"
  shows "resource_of (permission_new r a) = r \<and> action_of (permission_new r a) = a
    \<and> (grants (permission_wildcard r) (permission_new r' a) \<longleftrightarrow> r = r')
    \<and> (\<not> is_wildcard p \<longrightarrow> grants p q \<longrightarrow> p = q)
    \<and> (has_permission role p \<longrightarrow> grants p q \<longrightarrow> has_permission role q)"
proof -
  have w: "permission_wildcard r = permission_new r ''*''" by (simp add: permission_wildcard_def permission_new_def)
  have "grants (permission_wildcard r) (permission_new r' a) \<longleftrightarrow> r = r'"
    using assms(1,2) wildcard_is_wildcard [of r] resource_new [of r "''*''"] resource_new [of r' a]
    by (auto simp: grants_def w) (metis Permission.exhaust perm_text.simps)
  moreover have "p = q" if "\<not> is_wildcard p" "grants p q"
    using that by (cases p; cases q) (simp add: grants_def)
  moreover have "has_permission role q" if "has_permission role p" "grants p q"
    using that grants_trans by (auto simp: has_permission_def list_ex_iff)
  ultimately show ?thesis using resource_new [OF assms(1)] action_new [OF assms(1,3)] by blast
qed

theorem permission_grants_witness:
  "resource_of (permission_new ''energy'' ''read'') = ''energy'' \<and> grants (permission_wildcard ''energy'') (permission_new ''energy'' ''read'')
     \<and> \<not> grants (permission_wildcard ''energy'') (permission_new ''users'' ''read'')"
proof -
  have "CHR '':'' \<notin> set ''energy''" "CHR '':'' \<notin> set ''users''" "CHR '':'' \<notin> set ''read''" "''energy'' \<noteq> ''users''" by simp_all
  with permission_grants [OF this(1,1,3)] permission_grants [OF this(1,2,3)] show ?thesis by blast
qed

text \<open>
  A role is read back from its text, whatever the case of the letters, and no text is read as a
  role unless it is that role's text up to case.
\<close>

theorem role_text_roundtrip:
  "role_from_str (role_fmt r) = Inr r \<and> role_from_str (to_upper (role_fmt r)) = Inr r
     \<and> (role_from_str s = Inr r \<longleftrightarrow> to_lower s = role_fmt r)"
proof -
  have iff: "role_from_str s = Inr r \<longleftrightarrow> to_lower s = role_fmt r" for s
    by (cases r) (simp_all add: role_from_str_def Let_def)
  have "to_lower (role_fmt r) = role_fmt r \<and> to_lower (to_upper (role_fmt r)) = role_fmt r"
    by (cases r; simp only: role_fmt.simps; code_simp)
  then show ?thesis by (simp only: iff)
qed

text \<open>
  The administrator's role does not include the others: it has no permission on offers, orders,
  transactions and readings.
\<close>

theorem admin_lacks_permissions:
  "has_permission RoleProducer (permission_new ''offers'' a) \<and> \<not> has_permission RoleAdmin (permission_new ''offers'' a)
   \<and> has_permission RoleConsumer (permission_new ''orders'' a) \<and> \<not> has_permission RoleAdmin (permission_new ''orders'' a)
   \<and> has_permission RoleOperator (permission_new ''readings'' a) \<and> \<not> has_permission RoleAdmin (permission_new ''readings'' a)"
  by (simp add: has_permission_def grants_def resource_of_eq is_wildcard_def permission_new_def)

end
