(* ===== verification/Dashboard.thy ===== *)
theory Dashboard
  imports Sample Floats
begin

text \<open>
  The live grid status: \<open>src/src/services/dashboard/mod.rs\<close> and \<open>types.rs\<close>, and the public view of it in
  \<open>src/src/handlers/auth/meters/public.rs\<close>.  The service keeps the latest power of every meter and running
  totals, for the grid and for each zone, behind one lock; an update is one step on that state.  A hash
  map is a partial function, a hash set a set.  The history table and the broadcast are not part of
  the state.
\<close>

subsection \<open>State\<close>

record zone_grid_status =
  zs_zone_id :: i32
  zs_generation :: f64_value
  zs_consumption :: f64_value
  zs_net_balance :: f64_value
  zs_active_meters :: i32
  zs_active_meter_ids :: "string set"
  zs_meter_generation :: "string \<rightharpoonup> f64_value"
  zs_meter_consumption :: "string \<rightharpoonup> f64_value"

record grid_status =
  gs_total_generation :: f64_value
  gs_total_consumption :: f64_value
  gs_net_balance :: f64_value
  gs_active_meters :: i64
  gs_co2_saved_kg :: f64_value
  gs_zones :: "i32 \<rightharpoonup> zone_grid_status"
  gs_timestamp :: time
  gs_active_meter_ids :: "string set"
  gs_meter_generation :: "string \<rightharpoonup> f64_value"
  gs_meter_consumption :: "string \<rightharpoonup> f64_value"

definition dashboard_new :: "time \<Rightarrow> grid_status" where
  "dashboard_new now =
    \<lparr> gs_total_generation = Finite 0, gs_total_consumption = Finite 0, gs_net_balance = Finite 0,
      gs_active_meters = 0, gs_co2_saved_kg = Finite 0, gs_zones = Map.empty, gs_timestamp = now,
      gs_active_meter_ids = {}, gs_meter_generation = Map.empty, gs_meter_consumption = Map.empty \<rparr>"

definition zone_new :: "i32 \<Rightarrow> zone_grid_status" where
  "zone_new z =
    \<lparr> zs_zone_id = z, zs_generation = Finite 0, zs_consumption = Finite 0, zs_net_balance = Finite 0,
      zs_active_meters = 0, zs_active_meter_ids = {}, zs_meter_generation = Map.empty, zs_meter_consumption = Map.empty \<rparr>"

subsection \<open>A reading\<close>

text \<open>\<open>total - old + new\<close>, where \<open>old\<close> is what the map held for the meter.\<close>

definition replace_share :: "f64_value \<Rightarrow> (string \<rightharpoonup> f64_value) \<Rightarrow> string \<Rightarrow> f64_value \<Rightarrow> f64_value" where
  "replace_share t m serial p = f64_add (f64_sub t (unwrap_or (m serial) (Finite 0))) p"

definition known :: "string \<Rightarrow> string set \<Rightarrow> string set" where
  "known serial ids = (if serial \<noteq> ''unknown'' then insert serial ids else ids)"

definition update_zone :: "string \<Rightarrow> f64_value \<Rightarrow> f64_value \<Rightarrow> zone_grid_status \<Rightarrow> zone_grid_status" where
  "update_zone serial gen cons z =
    (let g = replace_share (zs_generation z) (zs_meter_generation z) serial gen;
         c = replace_share (zs_consumption z) (zs_meter_consumption z) serial cons;
         ids = known serial (zs_active_meter_ids z)
     in z\<lparr>zs_meter_generation := (zs_meter_generation z)(serial \<mapsto> gen), zs_meter_consumption := (zs_meter_consumption z)(serial \<mapsto> cons),
          zs_generation := g, zs_consumption := c, zs_net_balance := f64_sub g c,
          zs_active_meter_ids := ids, zs_active_meters := of_nat (card ids)\<rparr>)"

text \<open>The constant \<open>0.431\<close> is the double nearest to it.\<close>

definition handle_meter_reading :: "time \<Rightarrow> rat \<Rightarrow> string \<Rightarrow> i32 option \<Rightarrow> f64_value \<Rightarrow> f64_value \<Rightarrow> grid_status \<Rightarrow> grid_status" where
  "handle_meter_reading now kwh serial zone gen cons s =
    (let g = replace_share (gs_total_generation s) (gs_meter_generation s) serial gen;
         c = replace_share (gs_total_consumption s) (gs_meter_consumption s) serial cons;
         ids = known serial (gs_active_meter_ids s)
     in s\<lparr>gs_meter_generation := (gs_meter_generation s)(serial \<mapsto> gen), gs_meter_consumption := (gs_meter_consumption s)(serial \<mapsto> cons),
          gs_total_generation := g, gs_total_consumption := c,
          gs_co2_saved_kg := (if kwh > 0 then f64_add (gs_co2_saved_kg s) (f64_mul (Finite kwh) (Finite (f64 (431 / 1000)))) else gs_co2_saved_kg s),
          gs_zones := (case zone of None \<Rightarrow> gs_zones s
             | Some z \<Rightarrow> (gs_zones s)(z \<mapsto> update_zone serial gen cons (unwrap_or (gs_zones s z) (zone_new z)))),
          gs_active_meter_ids := ids, gs_active_meters := of_nat (card ids),
          gs_net_balance := f64_sub g c, gs_timestamp := now\<rparr>)"

subsection \<open>Public view\<close>

record public_grid_status_response =
  ps_total_generation :: f64_value
  ps_total_consumption :: f64_value
  ps_net_balance :: f64_value
  ps_active_meters :: i64
  ps_co2_saved_kg :: f64_value
  ps_timestamp :: time
  ps_zones :: "i32 \<rightharpoonup> zone_grid_status"

definition public_grid_status :: "grid_status \<Rightarrow> public_grid_status_response" where
  "public_grid_status m =
    \<lparr> ps_total_generation = gs_total_generation m, ps_total_consumption = gs_total_consumption m, ps_net_balance = gs_net_balance m,
      ps_active_meters = gs_active_meters m, ps_co2_saved_kg = gs_co2_saved_kg m, ps_timestamp = gs_timestamp m, ps_zones = gs_zones m \<rparr>"

subsection \<open>Histories\<close>

text \<open>
  A reading as the service gets it, with powers in whole units, and what a history says about every
  meter: the latest value it reported.
\<close>

record reading_event =
  ev_time :: time
  ev_kwh :: rat
  ev_serial :: string
  ev_zone :: "i32 option"
  ev_gen :: int
  ev_cons :: int

definition on_event :: "reading_event \<Rightarrow> grid_status \<Rightarrow> grid_status" where
  "on_event ev s = handle_meter_reading (ev_time ev) (ev_kwh ev) (ev_serial ev) (ev_zone ev)
     (Finite (of_int (ev_gen ev))) (Finite (of_int (ev_cons ev))) s"

definition run_events :: "reading_event list \<Rightarrow> grid_status" where
  "run_events es = fold on_event es (dashboard_new 0)"

definition latest :: "(reading_event \<Rightarrow> int) \<Rightarrow> reading_event list \<Rightarrow> string \<rightharpoonup> int" where
  "latest f es = fold (\<lambda>ev m. m(ev_serial ev \<mapsto> f ev)) es Map.empty"

definition map_total :: "(string \<rightharpoonup> int) \<Rightarrow> int" where
  "map_total m = (\<Sum>s\<in>dom m. the (m s))"

text \<open>Powers small enough for their sum over all meters to stay below \<open>2 ^ 53\<close>.\<close>

definition powers_ok :: "int \<Rightarrow> reading_event list \<Rightarrow> bool" where
  "powers_ok b es \<longleftrightarrow> (\<forall>ev\<in>set es. 0 \<le> ev_gen ev \<and> ev_gen ev \<le> b \<and> 0 \<le> ev_cons ev \<and> ev_cons ev \<le> b)
     \<and> int (card (ev_serial ` set es)) * b < 2 ^ 53"

subsection \<open>Sums over the latest values\<close>

lemma map_total_upd:
  assumes "finite (dom m)"
  shows "map_total (m(s \<mapsto> v)) = map_total m - unwrap_or (m s) 0 + v"
proof -
  have e: "(\<Sum>x\<in>dom m - {s}. the ((m(s \<mapsto> v)) x)) = (\<Sum>x\<in>dom m - {s}. the (m x))" by (intro sum.cong) auto
  have "map_total (m(s \<mapsto> v)) = v + (\<Sum>x\<in>dom m - {s}. the (m x))"
    using assms e sum.insert_remove [of "dom m" "\<lambda>x. the ((m(s \<mapsto> v)) x)" s] by (simp add: map_total_def)
  moreover have "map_total m = unwrap_or (m s) 0 + (\<Sum>x\<in>dom m - {s}. the (m x))"
    unfolding map_total_def using assms by (cases "m s") (auto simp: sum.remove [of "dom m" s] domI intro!: sum.cong)
  ultimately show ?thesis by simp
qed

lemma latest_snoc [simp]: "latest f (es @ [ev]) = (latest f es)(ev_serial ev \<mapsto> f ev)"
  by (simp add: latest_def)

lemma latest_Nil [simp]: "latest f [] = Map.empty"
  by (simp add: latest_def)

lemma dom_latest: "dom (latest f es) = ev_serial ` set es"
  by (induction es rule: rev_induct) (simp_all add: dom_fun_upd del: fun_upd_apply)

lemma latest_range:
  assumes "\<forall>ev\<in>set es. 0 \<le> f ev \<and> f ev \<le> b" and "latest f es s = Some v"
  shows "0 \<le> v \<and> v \<le> b"
  using assms by (induction es arbitrary: v rule: rev_induct) (auto split: if_splits)

lemma map_total_latest:
  assumes "\<forall>ev\<in>set es. 0 \<le> f ev \<and> f ev \<le> b"
  shows "0 \<le> map_total (latest f es)" and "map_total (latest f es) \<le> int (card (ev_serial ` set es)) * b"
proof -
  have r: "0 \<le> the (latest f es s) \<and> the (latest f es s) \<le> b" if "s \<in> dom (latest f es)" for s
    using latest_range [OF assms] that by auto
  then show "0 \<le> map_total (latest f es)" unfolding map_total_def by (intro sum_nonneg) blast
  have "map_total (latest f es) \<le> (\<Sum>s\<in>dom (latest f es). b)" unfolding map_total_def using r by (intro sum_mono) blast
  then show "map_total (latest f es) \<le> int (card (ev_serial ` set es)) * b" by (simp add: dom_latest)
qed

lemma f64_add_int:
  assumes "\<bar>x + y\<bar> < 2 ^ 53"
  shows "f64_add (Finite (of_int x)) (Finite (of_int y)) = Finite (of_int (x + y))"
  using assms f64_round_int [of "x + y"] by simp

lemma f64_sub_int:
  assumes "\<bar>x - y\<bar> < 2 ^ 53"
  shows "f64_sub (Finite (of_int x)) (Finite (of_int y)) = Finite (of_int (x - y))"
  using assms f64_add_int [of x "- y"] by (simp add: f64_sub_def)

text \<open>One running total, kept beside the map of the latest values.\<close>

lemma replace_share_exact:
  assumes "\<forall>e\<in>set (es @ [ev]). 0 \<le> f e \<and> f e \<le> b" and "int (card (ev_serial ` set (es @ [ev]))) * b < 2 ^ 53"
    and "m = map_option (\<lambda>n. Finite (of_int n)) \<circ> latest f es"
  shows "replace_share (Finite (of_int (map_total (latest f es)))) m (ev_serial ev) (Finite (of_int (f ev)))
    = Finite (of_int (map_total (latest f (es @ [ev]))))"
proof -
  let ?t = "map_total (latest f es)" and ?o = "unwrap_or (latest f es (ev_serial ev)) 0"
  have es: "\<forall>e\<in>set es. 0 \<le> f e \<and> f e \<le> b" using assms(1) by simp
  have fin: "finite (dom (latest f es))" by (simp add: dom_latest)
  have upd: "map_total (latest f (es @ [ev])) = ?t - ?o + f ev" using map_total_upd [OF fin] by (simp add: latest_snoc)
  have new: "0 \<le> map_total (latest f (es @ [ev]))" "map_total (latest f (es @ [ev])) < 2 ^ 53"
    using map_total_latest [OF assms(1)] assms(2) by linarith+
  have "f ev \<ge> 0" using assms(1) by simp
  moreover have "0 \<le> ?t - ?o"
  proof -
    have "map_total ((latest f es)(ev_serial ev := None)) = ?t - ?o"
    proof (cases "latest f es (ev_serial ev)")
      case None
      then show ?thesis by (simp add: fun_upd_idem)
    next
      case (Some v)
      have "?t = v + map_total ((latest f es)(ev_serial ev := None))"
        unfolding map_total_def using fin Some
        by (auto simp: sum.remove [of "dom (latest f es)" "ev_serial ev"] domI dom_fun_upd intro!: sum.cong)
      with Some show ?thesis by simp
    qed
    moreover have "0 \<le> map_total ((latest f es)(ev_serial ev := None))"
      unfolding map_total_def using latest_range [OF es] by (intro sum_nonneg) (auto split: if_splits)
    ultimately show ?thesis by simp
  qed
  ultimately have "\<bar>?t - ?o\<bar> < 2 ^ 53" "\<bar>?t - ?o + f ev\<bar> < 2 ^ 53" using new upd by linarith+
  moreover have "unwrap_or (m (ev_serial ev)) (Finite 0) = Finite (of_int ?o)"
    by (cases "latest f es (ev_serial ev)") (simp_all add: assms(3))
  ultimately show ?thesis
    by (simp only: replace_share_def f64_sub_int f64_add_int upd)
qed

subsection \<open>Runs\<close>

definition on_zone :: "reading_event \<Rightarrow> zone_grid_status \<Rightarrow> zone_grid_status" where
  "on_zone ev = update_zone (ev_serial ev) (Finite (of_int (ev_gen ev))) (Finite (of_int (ev_cons ev)))"

definition run_zone :: "i32 \<Rightarrow> reading_event list \<Rightarrow> zone_grid_status" where
  "run_zone z es = fold on_zone es (zone_new z)"

definition in_zone :: "i32 \<Rightarrow> reading_event list \<Rightarrow> reading_event list" where
  "in_zone z es = filter (\<lambda>ev. ev_zone ev = Some z) es"

lemma run_zones: "gs_zones (run_events es) z = (if in_zone z es = [] then None else Some (run_zone z (in_zone z es)))"
proof (induction es rule: rev_induct)
  case Nil
  then show ?case by (simp add: run_events_def dashboard_new_def in_zone_def)
next
  case (snoc ev es)
  then show ?case
    by (cases "ev_zone ev") (auto simp: run_events_def on_event_def handle_meter_reading_def Let_def in_zone_def run_zone_def on_zone_def)
qed

lemma powers_ok_snoc:
  assumes "powers_ok b (es @ [ev])"
  shows "powers_ok b es" and "\<forall>e\<in>set (es @ [ev]). 0 \<le> ev_gen e \<and> ev_gen e \<le> b" and "\<forall>e\<in>set (es @ [ev]). 0 \<le> ev_cons e \<and> ev_cons e \<le> b"
    and "int (card (ev_serial ` set (es @ [ev]))) * b < 2 ^ 53"
proof -
  have b: "0 \<le> b" using assms by (auto simp: powers_ok_def)
  have "card (ev_serial ` set es) \<le> card (ev_serial ` set (es @ [ev]))" by (intro card_mono) auto
  then have "int (card (ev_serial ` set es)) * b \<le> int (card (ev_serial ` set (es @ [ev]))) * b" using b by (intro mult_right_mono) simp_all
  with assms show "powers_ok b es" unfolding powers_ok_def by auto
qed (use assms in \<open>auto simp: powers_ok_def\<close>)

lemma powers_ok_in_zone:
  assumes "powers_ok b es"
  shows "powers_ok b (in_zone z es)"
proof (cases "es = []")
  case False
  with assms have b: "0 \<le> b" by (cases es) (auto simp: powers_ok_def)
  have "card (ev_serial ` set (in_zone z es)) \<le> card (ev_serial ` set es)" by (intro card_mono) (auto simp: in_zone_def)
  then have "int (card (ev_serial ` set (in_zone z es))) * b \<le> int (card (ev_serial ` set es)) * b" using b by (intro mult_right_mono) simp_all
  with assms show ?thesis unfolding powers_ok_def by (auto simp: in_zone_def)
qed (use assms in \<open>simp add: in_zone_def\<close>)

text \<open>What a status is worth after a history: both totals, the balance and the counted meters.\<close>

definition shows_history :: "reading_event list \<Rightarrow> f64_value \<Rightarrow> f64_value \<Rightarrow> f64_value \<Rightarrow> string set \<Rightarrow> bool" where
  "shows_history es g c n ids \<longleftrightarrow>
     g = Finite (of_int (map_total (latest ev_gen es))) \<and> c = Finite (of_int (map_total (latest ev_cons es)))
     \<and> n = Finite (of_int (map_total (latest ev_gen es) - map_total (latest ev_cons es)))
     \<and> ids = {s \<in> ev_serial ` set es. s \<noteq> ''unknown''}"

lemma map_total_empty [simp]: "map_total Map.empty = 0"
  by (simp add: map_total_def)

lemma net_exact:
  assumes "powers_ok b es"
  shows "f64_sub (Finite (of_int (map_total (latest ev_gen es)))) (Finite (of_int (map_total (latest ev_cons es))))
    = Finite (of_int (map_total (latest ev_gen es) - map_total (latest ev_cons es)))"
proof -
  have "\<forall>e\<in>set es. 0 \<le> ev_gen e \<and> ev_gen e \<le> b" "\<forall>e\<in>set es. 0 \<le> ev_cons e \<and> ev_cons e \<le> b"
    and "int (card (ev_serial ` set es)) * b < 2 ^ 53" using assms by (auto simp: powers_ok_def)
  with map_total_latest [of es ev_gen b] map_total_latest [of es ev_cons b]
  have "\<bar>map_total (latest ev_gen es) - map_total (latest ev_cons es)\<bar> < 2 ^ 53" by linarith
  then show ?thesis by (rule f64_sub_int)
qed

lemma shows_history_step:
  assumes "powers_ok b (es @ [ev])" and "shows_history es g c n ids"
    and "mg = map_option (\<lambda>n. Finite (of_int n)) \<circ> latest ev_gen es"
    and "mc = map_option (\<lambda>n. Finite (of_int n)) \<circ> latest ev_cons es"
  shows "shows_history (es @ [ev]) (replace_share g mg (ev_serial ev) (Finite (of_int (ev_gen ev))))
    (replace_share c mc (ev_serial ev) (Finite (of_int (ev_cons ev))))
    (f64_sub (replace_share g mg (ev_serial ev) (Finite (of_int (ev_gen ev)))) (replace_share c mc (ev_serial ev) (Finite (of_int (ev_cons ev)))))
    (known (ev_serial ev) ids)"
proof -
  note p = powers_ok_snoc [OF assms(1)]
  have g: "replace_share g mg (ev_serial ev) (Finite (of_int (ev_gen ev))) = Finite (of_int (map_total (latest ev_gen (es @ [ev]))))"
    using replace_share_exact [OF p(2,4) assms(3)] assms(2) by (simp only: shows_history_def)
  have c: "replace_share c mc (ev_serial ev) (Finite (of_int (ev_cons ev))) = Finite (of_int (map_total (latest ev_cons (es @ [ev]))))"
    using replace_share_exact [OF p(3,4) assms(4)] assms(2) by (simp only: shows_history_def)
  have "known (ev_serial ev) ids = {s \<in> ev_serial ` set (es @ [ev]). s \<noteq> ''unknown''}"
    using assms(2) by (auto simp: shows_history_def known_def)
  then show ?thesis unfolding g c net_exact [OF assms(1)] unfolding shows_history_def by simp
qed

lemma run_events_history:
  assumes "powers_ok b es"
  shows "shows_history es (gs_total_generation (run_events es)) (gs_total_consumption (run_events es)) (gs_net_balance (run_events es)) (gs_active_meter_ids (run_events es))
    \<and> gs_active_meters (run_events es) = of_nat (card (gs_active_meter_ids (run_events es)))
    \<and> gs_meter_generation (run_events es) = map_option (\<lambda>n. Finite (of_int n)) \<circ> latest ev_gen es
    \<and> gs_meter_consumption (run_events es) = map_option (\<lambda>n. Finite (of_int n)) \<circ> latest ev_cons es"
  using assms
proof (induction es rule: rev_induct)
  case Nil
  then show ?case by (auto simp: run_events_def dashboard_new_def shows_history_def)
next
  case (snoc ev es)
  let ?s = "run_events es"
  have r: "run_events (es @ [ev]) = on_event ev ?s" by (simp add: run_events_def)
  from snoc.IH [OF powers_ok_snoc(1) [OF snoc.prems]] have
    ih: "shows_history es (gs_total_generation ?s) (gs_total_consumption ?s) (gs_net_balance ?s) (gs_active_meter_ids ?s)"
    and mg: "gs_meter_generation ?s = map_option (\<lambda>n. Finite (of_int n)) \<circ> latest ev_gen es"
    and mc: "gs_meter_consumption ?s = map_option (\<lambda>n. Finite (of_int n)) \<circ> latest ev_cons es" by auto
  note step = shows_history_step [OF snoc.prems ih mg mc]
  from step mg mc show ?case unfolding r by (auto simp: on_event_def handle_meter_reading_def Let_def)
qed

lemma run_zone_history:
  assumes "powers_ok b es"
  shows "shows_history es (zs_generation (run_zone z es)) (zs_consumption (run_zone z es)) (zs_net_balance (run_zone z es)) (zs_active_meter_ids (run_zone z es))
    \<and> zs_active_meters (run_zone z es) = of_nat (card (zs_active_meter_ids (run_zone z es)))
    \<and> zs_meter_generation (run_zone z es) = map_option (\<lambda>n. Finite (of_int n)) \<circ> latest ev_gen es
    \<and> zs_meter_consumption (run_zone z es) = map_option (\<lambda>n. Finite (of_int n)) \<circ> latest ev_cons es"
  using assms
proof (induction es rule: rev_induct)
  case Nil
  then show ?case by (auto simp: run_zone_def zone_new_def shows_history_def)
next
  case (snoc ev es)
  let ?s = "run_zone z es"
  have r: "run_zone z (es @ [ev]) = on_zone ev ?s" by (simp add: run_zone_def)
  from snoc.IH [OF powers_ok_snoc(1) [OF snoc.prems]] have
    ih: "shows_history es (zs_generation ?s) (zs_consumption ?s) (zs_net_balance ?s) (zs_active_meter_ids ?s)"
    and mg: "zs_meter_generation ?s = map_option (\<lambda>n. Finite (of_int n)) \<circ> latest ev_gen es"
    and mc: "zs_meter_consumption ?s = map_option (\<lambda>n. Finite (of_int n)) \<circ> latest ev_cons es" by auto
  note step = shows_history_step [OF snoc.prems ih mg mc]
  from step mg mc show ?case unfolding r by (auto simp: on_zone_def update_zone_def Let_def)
qed

subsection \<open>Properties\<close>

text \<open>
  C29. The live status is the sum over the meters.  For every history of readings with whole powers whose
  sum over all meters stays below \<open>2 ^ 53\<close>, the incrementally updated totals are exactly the sums of the
  latest generation and consumption of every meter, the balance is their difference and the number of
  active meters is the number of distinct serials; the same holds for every zone and the readings
  that name it, and a zone appears exactly when a reading has named it.
\<close>

theorem dashboard_totals:
  assumes "powers_ok b es"
  shows "shows_history es (gs_total_generation (run_events es)) (gs_total_consumption (run_events es)) (gs_net_balance (run_events es)) (gs_active_meter_ids (run_events es))
    \<and> gs_active_meters (run_events es) = of_nat (card (gs_active_meter_ids (run_events es)))
    \<and> (case gs_zones (run_events es) z of
         None \<Rightarrow> in_zone z es = []
       | Some zs \<Rightarrow> in_zone z es \<noteq> []
           \<and> shows_history (in_zone z es) (zs_generation zs) (zs_consumption zs) (zs_net_balance zs) (zs_active_meter_ids zs)
           \<and> zs_active_meters zs = of_nat (card (zs_active_meter_ids zs)))"
  using run_events_history [OF assms] run_zone_history [OF powers_ok_in_zone [OF assms]] by (simp add: run_zones)

definition sample_event :: "string \<Rightarrow> i32 \<Rightarrow> int \<Rightarrow> reading_event" where
  "sample_event s z g = \<lparr>ev_time = 0, ev_kwh = 1, ev_serial = s, ev_zone = Some z, ev_gen = g, ev_cons = 1\<rparr>"

definition sample_events :: "reading_event list" where
  "sample_events = [sample_event ''m1'' 1 5, sample_event ''m2'' 2 7, sample_event ''m1'' 1 4]"

theorem dashboard_totals_witness:
  "gs_total_generation (run_events sample_events) = Finite 11 \<and> gs_net_balance (run_events sample_events) = Finite 9"
proof -
  have "powers_ok 7 sample_events" by (simp add: powers_ok_def sample_events_def sample_event_def insert_commute)
  from dashboard_totals [OF this] show ?thesis
    by (simp add: shows_history_def sample_events_def sample_event_def latest_def map_total_def)
qed

text \<open>
  A meter that is moved to another zone stays in the totals of the old one: the zones then add up to
  more than the grid.
\<close>

theorem moved_meter_counts_twice:
  "gs_total_generation (run_events [sample_event ''m1'' 1 5, sample_event ''m1'' 2 5]) = Finite 5
    \<and> map_option zs_generation (gs_zones (run_events [sample_event ''m1'' 1 5, sample_event ''m1'' 2 5]) 1) = Some (Finite 5)
    \<and> map_option zs_generation (gs_zones (run_events [sample_event ''m1'' 1 5, sample_event ''m1'' 2 5]) 2) = Some (Finite 5)"
proof -
  have p: "powers_ok 5 [sample_event ''m1'' 1 5, sample_event ''m1'' 2 5]" by (simp add: powers_ok_def sample_event_def)
  have "shows_history [sample_event ''m1'' z 5] (zs_generation (run_zone z [sample_event ''m1'' z 5])) (zs_consumption (run_zone z [sample_event ''m1'' z 5]))
    (zs_net_balance (run_zone z [sample_event ''m1'' z 5])) (zs_active_meter_ids (run_zone z [sample_event ''m1'' z 5]))" for z
    using run_zone_history [of 5 "[sample_event ''m1'' z 5]" z] by (simp add: powers_ok_def sample_event_def)
  then have "zs_generation (run_zone z [sample_event ''m1'' z 5]) = Finite 5" for z
    by (simp add: shows_history_def latest_def map_total_def sample_event_def)
  with run_events_history [OF p] show ?thesis
    by (simp add: run_zones in_zone_def sample_event_def shows_history_def latest_def map_total_def)
qed

end
