(* ===== verification/Meter_Analyzer.thy ===== *)
theory Meter_Analyzer
  imports Sample Floats
begin

text \<open>
  Analysis of a meter's telemetry: \<open>src/src/services/meter_analyzer.rs\<close> (alerts and the health score of a
  reading), the trait \<open>ReadingData\<close> of \<open>src/src/handlers/meter/types.rs\<close> as a record of the values it
  gives access to, and the component scores of \<open>get_meter_health\<close> in \<open>src/src/handlers/meter/stub.rs\<close>.  A value
  that arrives is finite; the computations follow IEEE double precision over the whole range, so that
  an overflow is an infinity.
\<close>

record reading_data =
  dt_voltage :: "rat option"
  dt_frequency :: "rat option"
  dt_battery_level :: "rat option"
  dt_power_factor :: "rat option"
  dt_thd_voltage :: "rat option"
  dt_thd_current :: "rat option"

subsection \<open>Alerts\<close>

datatype AlertSeverity = AlertInfo | AlertWarning | AlertCritical

record meter_alert =
  ma_meter_id :: string
  ma_alert_type :: string
  ma_value :: rat
  ma_threshold :: rat
  ma_severity :: AlertSeverity
  ma_timestamp :: time

text \<open>The constant \<open>0.8\<close> is the double nearest to it.\<close>

definition pf_limit :: rat where
  "pf_limit = f64 (8 / 10)"

definition voltage_alerts :: "string \<Rightarrow> time \<Rightarrow> rat \<Rightarrow> meter_alert list" where
  "voltage_alerts m now v =
    (if v < 200 then [\<lparr>ma_meter_id = m, ma_alert_type = ''low_voltage'', ma_value = v, ma_threshold = 200, ma_severity = AlertCritical, ma_timestamp = now\<rparr>]
     else if v > 260 then [\<lparr>ma_meter_id = m, ma_alert_type = ''high_voltage'', ma_value = v, ma_threshold = 260, ma_severity = AlertCritical, ma_timestamp = now\<rparr>]
     else [])"

definition frequency_alerts :: "string \<Rightarrow> time \<Rightarrow> rat \<Rightarrow> meter_alert list" where
  "frequency_alerts m now f =
    (if f < 495 / 10 \<or> f > 505 / 10
     then [\<lparr>ma_meter_id = m, ma_alert_type = ''frequency_deviation'', ma_value = f,
            ma_threshold = (if f < 495 / 10 then 495 / 10 else 505 / 10), ma_severity = AlertWarning, ma_timestamp = now\<rparr>]
     else [])"

definition battery_alerts :: "string \<Rightarrow> time \<Rightarrow> rat \<Rightarrow> meter_alert list" where
  "battery_alerts m now b =
    (if b < 20 then [\<lparr>ma_meter_id = m, ma_alert_type = ''low_battery'', ma_value = b, ma_threshold = 20,
       ma_severity = (if b < 10 then AlertCritical else AlertWarning), ma_timestamp = now\<rparr>] else [])"

definition power_factor_alerts :: "string \<Rightarrow> time \<Rightarrow> rat \<Rightarrow> meter_alert list" where
  "power_factor_alerts m now pf =
    (if pf < pf_limit then [\<lparr>ma_meter_id = m, ma_alert_type = ''poor_power_factor'', ma_value = pf, ma_threshold = pf_limit,
       ma_severity = AlertWarning, ma_timestamp = now\<rparr>] else [])"

definition thd_voltage_alerts :: "string \<Rightarrow> time \<Rightarrow> rat \<Rightarrow> meter_alert list" where
  "thd_voltage_alerts m now t =
    (if t > 5 then [\<lparr>ma_meter_id = m, ma_alert_type = ''high_thd_voltage'', ma_value = t, ma_threshold = 5,
       ma_severity = AlertWarning, ma_timestamp = now\<rparr>] else [])"

definition thd_current_alerts :: "string \<Rightarrow> time \<Rightarrow> rat \<Rightarrow> meter_alert list" where
  "thd_current_alerts m now t =
    (if t > 8 then [\<lparr>ma_meter_id = m, ma_alert_type = ''high_thd_current'', ma_value = t, ma_threshold = 8,
       ma_severity = AlertWarning, ma_timestamp = now\<rparr>] else [])"

definition alerts_of :: "(rat \<Rightarrow> meter_alert list) \<Rightarrow> rat option \<Rightarrow> meter_alert list" where
  "alerts_of f v = (case v of None \<Rightarrow> [] | Some x \<Rightarrow> f x)"

definition check_alerts :: "string \<Rightarrow> time \<Rightarrow> reading_data \<Rightarrow> meter_alert list" where
  "check_alerts m now d =
    alerts_of (voltage_alerts m now) (dt_voltage d) @ alerts_of (frequency_alerts m now) (dt_frequency d)
    @ alerts_of (battery_alerts m now) (dt_battery_level d) @ alerts_of (power_factor_alerts m now) (dt_power_factor d)
    @ alerts_of (thd_voltage_alerts m now) (dt_thd_voltage d) @ alerts_of (thd_current_alerts m now) (dt_thd_current d)"

subsection \<open>Health score\<close>

text \<open>The weights \<open>0.3\<close> and \<open>0.2\<close> are the doubles nearest to them.\<close>

definition weight_30 :: f64_value where
  "weight_30 = Finite (f64 (3 / 10))"

definition weight_20 :: f64_value where
  "weight_20 = Finite (f64 (2 / 10))"

definition voltage_score :: "rat \<Rightarrow> f64_value" where
  "voltage_score v =
    (if 220 \<le> v \<and> v \<le> 240 then Finite 100
     else if 200 \<le> v \<and> v \<le> 260 then
       (let deviation = if v < 220 then f64_sub (Finite 220) (Finite v) else f64_sub (Finite v) (Finite 240)
        in f64_sub (Finite 100) (f64_min (f64_mul deviation (Finite 5)) (Finite 50)))
     else Finite 25)"

definition pf_score :: "rat \<Rightarrow> f64_value" where
  "pf_score pf = f64_min (f64_mul (Finite pf) (Finite 100)) (Finite 100)"

definition thd_score :: "rat option \<Rightarrow> rat option \<Rightarrow> f64_value" where
  "thd_score v i = f64_max (f64_sub (Finite 100)
     (f64_mul (f64_add (Finite (unwrap_or v 0)) (Finite (unwrap_or i 0))) (Finite 5))) (Finite 0)"

text \<open>The running pair of weighted score and total weight; each component adds to both when it is present.\<close>

definition add_component :: "bool \<Rightarrow> f64_value \<Rightarrow> f64_value \<Rightarrow> f64_value \<times> f64_value \<Rightarrow> f64_value \<times> f64_value" where
  "add_component present score weight acc =
    (if present then (f64_add (fst acc) (f64_mul score weight), f64_add (snd acc) weight) else acc)"

definition calculate_health_score :: "reading_data \<Rightarrow> f64_value" where
  "calculate_health_score d =
    (let a1 = add_component (dt_voltage d \<noteq> None) (voltage_score (unwrap_or (dt_voltage d) 0)) weight_30 (Finite 0, Finite 0);
         a2 = add_component (dt_power_factor d \<noteq> None) (pf_score (unwrap_or (dt_power_factor d) 0)) weight_30 a1;
         a3 = add_component (dt_thd_voltage d \<noteq> None \<or> dt_thd_current d \<noteq> None) (thd_score (dt_thd_voltage d) (dt_thd_current d)) weight_20 a2;
         a4 = add_component (dt_battery_level d \<noteq> None) (Finite (unwrap_or (dt_battery_level d) 0)) weight_20 a3
     in if f64_less (Finite 0) (snd a4)
        then f64_max (f64_min (f64_div (fst a4) (snd a4)) (Finite 100)) (Finite 0)
        else Finite 50)"

subsection \<open>Health of a meter\<close>

record health_components =
  hc_voltage_stability :: "f64_value option"
  hc_power_factor :: "f64_value option"
  hc_thd_quality :: "f64_value option"
  hc_battery_level :: "f64_value option"

record meter_health_response =
  mh_meter_serial :: string
  mh_health_score :: f64_value
  mh_status :: string
  mh_last_reading :: "time option"
  mh_components :: health_components

definition health_voltage :: "rat \<Rightarrow> f64_value" where
  "health_voltage v = (if 220 \<le> v \<and> v \<le> 240 then Finite 100 else if 200 \<le> v \<and> v \<le> 260 then Finite 75 else Finite 25)"

definition health_thd :: "rat option \<Rightarrow> rat option \<Rightarrow> f64_value option" where
  "health_thd v i = (case (v, i) of
      (Some a, Some b) \<Rightarrow> Some (f64_max (f64_sub (Finite 100) (f64_mul (f64_add (Finite a) (Finite b)) (Finite 5))) (Finite 0))
    | (Some a, None) \<Rightarrow> Some (f64_max (f64_sub (Finite 100) (f64_mul (Finite a) (Finite 10))) (Finite 0))
    | _ \<Rightarrow> None)"

definition health_average :: "f64_value option list \<Rightarrow> f64_value" where
  "health_average cs = (let xs = List.map_filter id cs in
     if xs = [] then Finite 50 else f64_div (fold (\<lambda>s acc. f64_add acc s) xs (Finite 0)) (Finite (of_nat (length xs))))"

definition health_status :: "f64_value \<Rightarrow> string" where
  "health_status h =
    (if f64_le (Finite 80) h then ''Good'' else if f64_le (Finite 60) h then ''Fair''
     else if f64_le (Finite 40) h then ''Poor'' else ''Critical'')"

definition meter_health_of :: "string \<Rightarrow> (reading_data \<times> time) option \<Rightarrow> meter_health_response" where
  "meter_health_of serial latest = (case latest of
      None \<Rightarrow> \<lparr>mh_meter_serial = serial, mh_health_score = Finite 0, mh_status = ''Unknown'', mh_last_reading = None,
        mh_components = \<lparr>hc_voltage_stability = None, hc_power_factor = None, hc_thd_quality = None, hc_battery_level = None\<rparr>\<rparr>
    | Some (d, t) \<Rightarrow>
        (let v = map_option health_voltage (dt_voltage d);
             pf = map_option (\<lambda>x. f64_mul (Finite x) (Finite 100)) (dt_power_factor d);
             thd = health_thd (dt_thd_voltage d) (dt_thd_current d);
             b = map_option Finite (dt_battery_level d);
             h = health_average [v, pf, thd, b]
         in \<lparr>mh_meter_serial = serial, mh_health_score = h, mh_status = health_status h, mh_last_reading = Some t,
              mh_components = \<lparr>hc_voltage_stability = v, hc_power_factor = pf, hc_thd_quality = thd, hc_battery_level = b\<rparr>\<rparr>))"

subsection \<open>Properties\<close>

text \<open>
  The health score is a number between 0 and 100 for every reading, also when the computation
  overflows: the last two steps clamp it, and they drop a not-a-number.
\<close>

lemma health_score_finite: "\<exists>r. calculate_health_score d = Finite r \<and> 0 \<le> r \<and> r \<le> 100"
proof -
  have "\<exists>r. f64_max (f64_min x (Finite 100)) (Finite 0) = Finite r \<and> 0 \<le> r \<and> r \<le> 100" for x
    by (rule f64_clamp) simp
  then show ?thesis unfolding calculate_health_score_def Let_def by auto
qed

definition in_limits :: "reading_data \<Rightarrow> bool" where
  "in_limits d \<longleftrightarrow> pred_option (\<lambda>v. 200 \<le> v \<and> v \<le> 260) (dt_voltage d) \<and> pred_option (\<lambda>f. 495 / 10 \<le> f \<and> f \<le> 505 / 10) (dt_frequency d)
     \<and> pred_option (\<lambda>b. 20 \<le> b) (dt_battery_level d) \<and> pred_option (\<lambda>p. pf_limit \<le> p) (dt_power_factor d)
     \<and> pred_option (\<lambda>t. t \<le> 5) (dt_thd_voltage d) \<and> pred_option (\<lambda>t. t \<le> 8) (dt_thd_current d)"

definition beyond :: "meter_alert \<Rightarrow> bool" where
  "beyond a \<longleftrightarrow> (if ma_alert_type a \<in> {''low_voltage'', ''low_battery'', ''poor_power_factor''} then ma_value a < ma_threshold a
     else if ma_alert_type a = ''frequency_deviation'' then ma_value a < ma_threshold a \<or> ma_value a > ma_threshold a
     else ma_value a > ma_threshold a)"

lemmas alert_defs = voltage_alerts_def frequency_alerts_def battery_alerts_def power_factor_alerts_def
  thd_voltage_alerts_def thd_current_alerts_def

lemma alerts_of_Nil: "alerts_of f v = [] \<longleftrightarrow> pred_option (\<lambda>x. f x = []) v"
  by (cases v) (simp_all add: alerts_of_def)

lemma alerts_of_set: "a \<in> set (alerts_of f v) \<longleftrightarrow> (\<exists>x. v = Some x \<and> a \<in> set (f x))"
  by (cases v) (simp_all add: alerts_of_def)

text \<open>Each group of alerts has at most one entry, of a type of that group only.\<close>

lemma distinct_groups:
  assumes "list_all2 (\<lambda>l ts. distinct l \<and> set l \<subseteq> set ts) ls tss" and "distinct (concat tss)"
  shows "distinct (concat ls)"
proof -
  have "distinct (concat ls) \<and> set (concat ls) \<subseteq> set (concat tss)"
    using assms by (induction rule: list_all2_induct) auto
  then show ?thesis by simp
qed

lemma alerts_of_types:
  assumes "\<And>x. distinct (map ma_alert_type (f x)) \<and> ma_alert_type ` set (f x) \<subseteq> set ts"
  shows "distinct (map ma_alert_type (alerts_of f v)) \<and> ma_alert_type ` set (alerts_of f v) \<subseteq> set ts"
  using assms by (cases v) (simp_all add: alerts_of_def)

lemma alert_types:
  "distinct (map ma_alert_type (voltage_alerts m now v)) \<and> ma_alert_type ` set (voltage_alerts m now v) \<subseteq> set [''low_voltage'', ''high_voltage'']"
  "distinct (map ma_alert_type (frequency_alerts m now f)) \<and> ma_alert_type ` set (frequency_alerts m now f) \<subseteq> set [''frequency_deviation'']"
  "distinct (map ma_alert_type (battery_alerts m now b)) \<and> ma_alert_type ` set (battery_alerts m now b) \<subseteq> set [''low_battery'']"
  "distinct (map ma_alert_type (power_factor_alerts m now p)) \<and> ma_alert_type ` set (power_factor_alerts m now p) \<subseteq> set [''poor_power_factor'']"
  "distinct (map ma_alert_type (thd_voltage_alerts m now h)) \<and> ma_alert_type ` set (thd_voltage_alerts m now h) \<subseteq> set [''high_thd_voltage'']"
  "distinct (map ma_alert_type (thd_current_alerts m now i)) \<and> ma_alert_type ` set (thd_current_alerts m now i) \<subseteq> set [''high_thd_current'']"
  by (auto simp: alert_defs)

lemma check_alerts_distinct: "distinct (map ma_alert_type (check_alerts m now d))"
proof -
  let ?tss = "[[''low_voltage'', ''high_voltage''], [''frequency_deviation''], [''low_battery''], [''poor_power_factor''],
    [''high_thd_voltage''], [''high_thd_current'']]"
  let ?ls = "map (map ma_alert_type) [alerts_of (voltage_alerts m now) (dt_voltage d), alerts_of (frequency_alerts m now) (dt_frequency d),
    alerts_of (battery_alerts m now) (dt_battery_level d), alerts_of (power_factor_alerts m now) (dt_power_factor d),
    alerts_of (thd_voltage_alerts m now) (dt_thd_voltage d), alerts_of (thd_current_alerts m now) (dt_thd_current d)]"
  have "list_all2 (\<lambda>l ts. distinct l \<and> set l \<subseteq> set ts) ?ls ?tss"
    unfolding list.map list_all2_Cons list_all2_Nil set_map
    by (rule alerts_of_types [of "voltage_alerts m now", OF alert_types(1)] alerts_of_types [of "frequency_alerts m now", OF alert_types(2)]
      alerts_of_types [of "battery_alerts m now", OF alert_types(3)] alerts_of_types [of "power_factor_alerts m now", OF alert_types(4)]
      alerts_of_types [of "thd_voltage_alerts m now", OF alert_types(5)] alerts_of_types [of "thd_current_alerts m now", OF alert_types(6)]
      | rule conjI refl)+
  then have "distinct (concat ?ls)" by (rule distinct_groups) simp
  then show ?thesis by (simp add: check_alerts_def)
qed

lemma check_alerts_quiet: "check_alerts m now d = [] \<longleftrightarrow> in_limits d"
  by (auto simp: check_alerts_def alerts_of_Nil in_limits_def alert_defs not_less split: option.splits if_splits
      elim!: option.pred_mono_strong)

lemma check_alerts_beyond:
  assumes "a \<in> set (check_alerts m now d)"
  shows "beyond a" and "ma_severity a = AlertCritical \<longleftrightarrow> ma_alert_type a \<in> {''low_voltage'', ''high_voltage''} \<or> ma_alert_type a = ''low_battery'' \<and> ma_value a < 10"
  using assms by (auto simp: check_alerts_def alerts_of_set alert_defs beyond_def split: if_splits)

text \<open>
  A quiet meter: \<open>check_alerts\<close> reports nothing exactly when every value that was measured is inside its
  limits (200 to 260 volts, 49.5 to 50.5 hertz, at least 20 percent battery, a power factor of at
  least 0.8, at most 5 and 8 percent distortion), it reports at most one alert per quantity, each
  alert carries a value beyond its threshold, and the only critical alerts are voltages outside the
  limits and batteries below 10 percent.
\<close>

theorem alerts_exactly_outside_limits:
  "(check_alerts m now d = [] \<longleftrightarrow> in_limits d) \<and> distinct (map ma_alert_type (check_alerts m now d))
     \<and> (a \<in> set (check_alerts m now d) \<longrightarrow> beyond a
         \<and> (ma_severity a = AlertCritical \<longleftrightarrow> ma_alert_type a \<in> {''low_voltage'', ''high_voltage''} \<or> ma_alert_type a = ''low_battery'' \<and> ma_value a < 10))"
  using check_alerts_quiet check_alerts_distinct check_alerts_beyond by blast

theorem alerts_exactly_outside_limits_witness:
  "\<not> in_limits \<lparr>dt_voltage = Some 190, dt_frequency = Some 50, dt_battery_level = Some 15, dt_power_factor = None, dt_thd_voltage = None, dt_thd_current = None\<rparr>
     \<and> beyond \<lparr>ma_meter_id = ''m'', ma_alert_type = ''low_battery'', ma_value = 15, ma_threshold = 20, ma_severity = AlertWarning, ma_timestamp = 0\<rparr>"
  using alerts_exactly_outside_limits [of "''m''" 0 "\<lparr>dt_voltage = Some 190, dt_frequency = Some 50, dt_battery_level = Some 15, dt_power_factor = None, dt_thd_voltage = None, dt_thd_current = None\<rparr>"
      "\<lparr>ma_meter_id = ''m'', ma_alert_type = ''low_battery'', ma_value = 15, ma_threshold = 20, ma_severity = AlertWarning, ma_timestamp = 0\<rparr>"]
  by (simp add: check_alerts_def alerts_of_def alert_defs)

text \<open>
  Values far beyond any measurement overflow into the sum of two opposite infinities; the clamp turns
  this not-a-number into a perfect score.
\<close>

lemma weight_pos: "1 / 4 \<le> f64 (3 / 10)" "1 / 8 \<le> f64 (2 / 10)"
  using f64_ge_pow [of "- 2" "3 / 10"] f64_ge_pow [of "- 3" "2 / 10"] by (simp_all add: power_int_minus)

lemma weight_inf: "f64_mul NegInf weight_30 = NegInf" "f64_mul PosInf weight_20 = PosInf"
  using weight_pos by (simp_all add: weight_30_def weight_20_def f64_inf_def)

lemma weight_sum_pos: "f64_less (Finite 0) (f64_add (f64_add (Finite 0) weight_30) weight_20)"
proof -
  have "f64_less (Finite 0) (f64_add (Finite 0) weight_30)" using weight_pos(1) by (simp add: weight_30_def f64_round_pos)
  then show ?thesis using weight_pos(2) by (cases "f64_add (Finite 0) weight_30") (simp_all add: weight_20_def f64_round_pos)
qed

theorem nonsense_scores_perfect:
  "calculate_health_score \<lparr>dt_voltage = None, dt_frequency = None, dt_battery_level = None,
     dt_power_factor = Some (- (2 ^ 1023)), dt_thd_voltage = Some (- (2 ^ 1023)), dt_thd_current = Some (- (2 ^ 1023))\<rparr> = Finite 100"
proof -
  have "f64_round (- (2 ^ 1023) * 100) = NegInf" "f64_round (- (2 ^ 1023) + - (2 ^ 1023)) = NegInf"
    by (rule f64_round_under; simp)+
  then have "pf_score (- (2 ^ 1023)) = NegInf" "thd_score (Some (- (2 ^ 1023))) (Some (- (2 ^ 1023))) = PosInf"
    unfolding pf_score_def thd_score_def f64_mul.simps unwrap_or_simps f64_add.simps by (simp_all add: f64_min_def f64_max_def f64_sub_def f64_inf_def)
  then show ?thesis
    using weight_sum_pos weight_inf by (simp add: calculate_health_score_def add_component_def f64_min_def f64_max_def)
qed

end
