(* ===== verification/Meter_Registry.thy ===== *)
theory Meter_Registry
  imports Erc Errors
begin

text \<open>
  The meter registry: \<open>src/src/services/meter/verification.rs\<close> (verification, simple registration, deletion,
  audit of attempts) and the handlers of \<open>src/src/handlers/auth/meters/registration.rs\<close> that write \<open>meters\<close> and
  \<open>meter_registry\<close>.  The length of a \<open>VARCHAR\<close>, uniqueness and the references to users are checks of the
  statements.  Texts are ASCII, so that the length in bytes is the number of characters.
\<close>

subsection \<open>Formats\<close>

definition is_alphanumeric :: "char \<Rightarrow> bool" where
  "is_alphanumeric c \<longleftrightarrow> (let n = of_char c :: nat in 48 \<le> n \<and> n \<le> 57 \<or> 65 \<le> n \<and> n \<le> 90 \<or> 97 \<le> n \<and> n \<le> 122)"

definition validate_meter_key_format :: "string \<Rightarrow> string + unit" where
  "validate_meter_key_format k =
    (if length k < 16 \<or> length k > 64 then Inl ''Meter key must be between 16 and 64 characters long''
     else if \<not> list_all (\<lambda>c. is_alphanumeric c \<or> c \<in> {CHR ''-'', CHR ''_''}) k
     then Inl ''Meter key can only contain letters, numbers, hyphens, and underscores''
     else Inr ())"

definition validate_meter_serial_format :: "string \<Rightarrow> string + unit" where
  "validate_meter_serial_format s =
    (if length s < 5 \<or> length s > 50 then Inl ''Meter serial must be between 5 and 50 characters long''
     else if \<not> list_all (\<lambda>c. is_alphanumeric c \<or> c = CHR ''-'') s
     then Inl ''Meter serial can only contain letters, numbers, and hyphens''
     else Inr ())"

definition quoted :: "string \<Rightarrow> string" where
  "quoted s = apostrophe @ s @ apostrophe"

subsection \<open>Statements\<close>

text \<open>\<open>map_err(|e| anyhow!("...{}", e))\<close> on the error of a statement.\<close>

definition anyhow_err :: "string \<Rightarrow> (world, 'a) io \<Rightarrow> (world, 'a) io" where
  "anyhow_err pre m = map_err (\<lambda>er. case er of Database t \<Rightarrow> Anyhow (pre @ t) | _ \<Rightarrow> er) m"

definition registry_fits :: "registry_row \<Rightarrow> db \<Rightarrow> bool" where
  "registry_fits r d \<longleftrightarrow> list_all (\<lambda>x. mr_id x \<noteq> mr_id r \<and> mr_meter_serial x \<noteq> mr_meter_serial r) (meter_registry d)
     \<and> users d (mr_user_id r) \<noteq> None
     \<and> length (mr_meter_serial r) \<le> 255 \<and> length (mr_meter_key_hash r) \<le> 255 \<and> length (mr_verification_method r) \<le> 50
     \<and> at_most 255 (mr_manufacturer r) \<and> at_most 50 (mr_meter_type r)"

definition add_registry :: "registry_row \<Rightarrow> db \<Rightarrow> db" where
  "add_registry r d = d\<lparr>meter_registry := meter_registry d @ [r]\<rparr>"

text \<open>A row of the registry with the defaults of the table.\<close>

definition registry_default :: "uuid \<Rightarrow> uuid \<Rightarrow> string \<Rightarrow> time \<Rightarrow> registry_row" where
  "registry_default i user serial now =
    \<lparr> mr_id = i, mr_user_id = user, mr_meter_serial = serial, mr_meter_key_hash = [], mr_verification_method = ''serial'',
      mr_verification_status = ''pending'', mr_manufacturer = None, mr_meter_type = None, mr_location_address = None,
      mr_installation_date = None, mr_verification_proof = None, mr_verified_at = None, mr_verified_by = None,
      mr_zone_id = None, mr_created_at = Some now, mr_updated_at = Some now \<rparr>"

definition attempt_fits :: "attempt_row \<Rightarrow> db \<Rightarrow> bool" where
  "attempt_fits a d \<longleftrightarrow> list_all (\<lambda>x. va_id x \<noteq> va_id a) (meter_verification_attempts d) \<and> users d (va_user_id a) \<noteq> None
     \<and> length (va_meter_serial a) \<le> 255 \<and> length (va_verification_method a) \<le> 50 \<and> length (va_attempt_status a) \<le> 20"

definition log_attempt ::
  "env \<Rightarrow> string \<Rightarrow> uuid \<Rightarrow> string \<Rightarrow> string option \<Rightarrow> string option \<Rightarrow> string \<Rightarrow> string option \<Rightarrow> (world, unit) io" where
  "log_attempt e serial user method ip agent attempt_result failure_reason =
    bnd (fresh_uuid e) (\<lambda>i. bnd get_clock (\<lambda>now.
    let a = \<lparr> va_id = i, va_meter_serial = serial, va_user_id = user, va_verification_method = method, va_ip_address = ip,
          va_user_agent = agent, va_attempt_status = attempt_result, va_attempt_result = None,
          va_failure_reason = failure_reason, va_attempted_at = Some now \<rparr>
    in anyhow_err ''Failed to log verification attempt: '' (exec_chk (attempt_fits a)
         (\<lambda>d. d\<lparr>meter_verification_attempts := meter_verification_attempts d @ [a]\<rparr>))))"

subsection \<open>The verification service\<close>

record verify_meter_request =
  vq_meter_serial :: string
  vq_meter_key :: string
  vq_verification_method :: string
  vq_manufacturer :: "string option"
  vq_meter_type :: string
  vq_location_address :: "string option"
  vq_verification_proof :: "string option"

record verify_meter_response =
  vr_meter_id :: uuid
  vr_verification_status :: string
  vr_message :: string

definition check_meter_availability :: "string \<Rightarrow> uuid \<Rightarrow> (world, unit) io" where
  "check_meter_availability serial user =
    bnd (anyhow_err ''Failed to check meter availability: '' (query (\<lambda>d. find_row mr_meter_serial serial (meter_registry d)))) (\<lambda>existing.
    case existing of
      None \<Rightarrow> ret ()
    | Some m \<Rightarrow>
        if mr_user_id m \<noteq> user then fail (Anyhow (''Meter '' @ quoted serial @ '' is already registered by another user''))
        else if mr_verification_status m = ''verified'' then fail (Anyhow (''Meter '' @ quoted serial @ '' is already verified for your account''))
        else ret ())"

definition insert_meter_registry :: "env \<Rightarrow> uuid \<Rightarrow> verify_meter_request \<Rightarrow> string \<Rightarrow> (world, uuid) io" where
  "insert_meter_registry e user request hash =
    bnd (fresh_uuid e) (\<lambda>i. bnd get_clock (\<lambda>now.
    let r = (registry_default i user (vq_meter_serial request) now)\<lparr> mr_meter_key_hash := hash,
          mr_verification_method := vq_verification_method request, mr_verification_status := ''verified'',
          mr_manufacturer := vq_manufacturer request, mr_meter_type := Some (vq_meter_type request),
          mr_location_address := vq_location_address request, mr_verification_proof := vq_verification_proof request,
          mr_verified_at := Some now \<rparr>
    in sq (anyhow_err ''Failed to insert meter registry: '' (exec_chk (registry_fits r) (add_registry r))) (ret i)))"

definition verify_meter ::
  "env \<Rightarrow> uuid \<Rightarrow> verify_meter_request \<Rightarrow> string option \<Rightarrow> string option \<Rightarrow> (world, verify_meter_response) io" where
  "verify_meter e user request ip agent =
    (let log = log_attempt e (vq_meter_serial request) user (vq_verification_method request) ip agent in
     case validate_meter_key_format (vq_meter_key request) of
       Inl m \<Rightarrow> sq (log ''invalid_key'' (Some m)) (fail (Anyhow m))
     | Inr _ \<Rightarrow>
        bnd (attempt (check_meter_availability (vq_meter_serial request) user)) (\<lambda>available.
        case available of
          Inl er \<Rightarrow> sq (log ''meter_claimed'' (Some (api_display er))) (fail er)
        | Inr _ \<Rightarrow>
           (case bcrypt_hash e (vq_meter_key request) of
              Inl m \<Rightarrow> fail (Anyhow (''Failed to hash meter key: '' @ m))
            | Inr hash \<Rightarrow>
               bnd (insert_meter_registry e user request hash) (\<lambda>meter_id.
               sq (log ''success'' None)
               (ret \<lparr>vr_meter_id = meter_id, vr_verification_status = ''verified'', vr_message = ''Meter ownership verified successfully''\<rparr>)))))"

text \<open>\<open>ORDER BY ... DESC\<close> of a nullable column: the rows without a value come first.\<close>

definition newest_first :: "('a \<Rightarrow> time option) \<Rightarrow> 'a list \<Rightarrow> 'a list" where
  "newest_first f xs = filter (\<lambda>x. f x = None) xs @ sort_key (\<lambda>x. - the (f x)) (filter (\<lambda>x. f x \<noteq> None) xs)"

text \<open>\<open>MeterRegistry\<close>: a row whose time stamps, when absent, are the time of the call.\<close>

definition meter_entry :: "time \<Rightarrow> registry_row \<Rightarrow> registry_row" where
  "meter_entry now r = r\<lparr>mr_created_at := Some (unwrap_or (mr_created_at r) now), mr_updated_at := Some (unwrap_or (mr_updated_at r) now)\<rparr>"

definition get_user_meters :: "uuid \<Rightarrow> (world, registry_row list) io" where
  "get_user_meters user =
    bnd (anyhow_err ''Failed to fetch user meters: '' (query (\<lambda>d.
      newest_first mr_created_at (filter (\<lambda>r. mr_user_id r = user) (meter_registry d))))) (\<lambda>rows.
    bnd get_clock (\<lambda>now. ret (map (meter_entry now) rows)))"

definition verify_meter_ownership :: "env \<Rightarrow> string \<Rightarrow> uuid \<Rightarrow> (world, bool) io" where
  "verify_meter_ownership e user_id meter_id =
    bnd (ok_or (parse_uuid e user_id) (Anyhow ''Invalid user ID format: '')) (\<lambda>user.
    bnd (anyhow_err ''Failed to check meter ownership: '' (query (\<lambda>d. find_row mr_id meter_id (meter_registry d)))) (\<lambda>meter.
    ret (case meter of Some m \<Rightarrow> mr_user_id m = user \<and> mr_verification_status m = ''verified'' | None \<Rightarrow> False)))"

text \<open>The server refuses a negative \<open>LIMIT\<close>.\<close>

definition get_user_verification_attempts :: "uuid \<Rightarrow> i64 \<Rightarrow> (world, attempt_row list) io" where
  "get_user_verification_attempts user n =
    anyhow_err ''Failed to fetch verification attempts: ''
      (bnd (query (\<lambda>d. newest_first va_attempted_at (filter (\<lambda>a. va_user_id a = user) (meter_verification_attempts d)))) (\<lambda>rows.
       if sint n < 0 then fail (Database ''LIMIT must not be negative'') else ret (take (nat (sint n)) rows)))"

definition get_meter_by_serial :: "string \<Rightarrow> (world, registry_row option) io" where
  "get_meter_by_serial serial =
    bnd (anyhow_err ''Failed to fetch meter by serial: '' (query (\<lambda>d. find_row mr_meter_serial serial (meter_registry d)))) (\<lambda>row.
    bnd get_clock (\<lambda>now. ret (map_option (meter_entry now) row)))"

definition get_meter_by_id :: "uuid \<Rightarrow> (world, registry_row option) io" where
  "get_meter_by_id i =
    bnd (anyhow_err ''Failed to fetch meter by ID: '' (query (\<lambda>d. find_row mr_id i (meter_registry d)))) (\<lambda>row.
    bnd get_clock (\<lambda>now. ret (map_option (meter_entry now) row)))"

definition register_meter_simple ::
  "env \<Rightarrow> uuid \<Rightarrow> string \<Rightarrow> string option \<Rightarrow> string option \<Rightarrow> (world, registry_row) io" where
  "register_meter_simple e user serial meter_type location =
    (case validate_meter_serial_format serial of
       Inl m \<Rightarrow> fail (Anyhow m)
     | Inr _ \<Rightarrow>
        bnd (get_meter_by_serial serial) (\<lambda>existing.
        case existing of
          Some x \<Rightarrow> if mr_user_id x \<noteq> user
            then fail (Anyhow (''Meter serial '' @ quoted serial @ '' is already registered by another user''))
            else fail (Anyhow (''Meter serial '' @ quoted serial @ '' is already registered to your account''))
        | None \<Rightarrow>
           bnd (fresh_uuid e) (\<lambda>i. bnd get_clock (\<lambda>now.
           let r = (registry_default i user serial now)\<lparr>mr_meter_type := meter_type, mr_location_address := location\<rparr>
           in sq (anyhow_err ''Failed to register meter: '' (exec_chk (registry_fits r) (add_registry r)))
              (bnd (get_meter_by_id i) (\<lambda>meter. ok_or meter (Anyhow ''Failed to retrieve registered meter'')))))))"

definition delete_pending_meter :: "uuid \<Rightarrow> uuid \<Rightarrow> (world, unit) io" where
  "delete_pending_meter user meter_id =
    bnd (anyhow_err ''Failed to fetch meter: '' (query (\<lambda>d. find_row mr_id meter_id (meter_registry d)))) (\<lambda>row.
    bnd (ok_or row (Anyhow ''Meter not found'')) (\<lambda>meter.
    if mr_user_id meter \<noteq> user then fail (Anyhow ''You do not own this meter'')
    else if mr_verification_status meter \<noteq> ''pending''
    then fail (Anyhow (''Cannot delete '' @ mr_verification_status meter @ '' meters. Only pending meters can be deleted.''))
    else anyhow_err ''Failed to delete meter: '' (exec (\<lambda>d. d\<lparr>meter_registry := filter (\<lambda>r. mr_id r \<noteq> meter_id) (meter_registry d)\<rparr>))))"

record verification_stats =
  vs_total_meters :: nat
  vs_verified_meters :: nat
  vs_pending_meters :: nat
  vs_rejected_meters :: nat
  vs_attempts_last_24h :: nat

definition with_status :: "string \<Rightarrow> db \<Rightarrow> nat" where
  "with_status s d = length (filter (\<lambda>r. mr_verification_status r = s) (meter_registry d))"

text \<open>\<open>NOW() - INTERVAL '24 hours'\<close>; a comparison with a missing time is not true.\<close>

definition get_verification_stats :: "(world, verification_stats) io" where
  "get_verification_stats =
    bnd (anyhow_err ''Failed to fetch verification stats: '' (query (\<lambda>d.
      (length (meter_registry d), with_status ''verified'' d, with_status ''pending'' d, with_status ''rejected'' d)))) (\<lambda>(t, v, p, r).
    bnd get_clock (\<lambda>now.
    bnd (anyhow_err ''Failed to fetch recent attempts: '' (query (\<lambda>d.
      length (filter (\<lambda>a. case va_attempted_at a of None \<Rightarrow> False | Some t0 \<Rightarrow> t0 > now - 24 * 3600 * 1000000000) (meter_verification_attempts d))))) (\<lambda>n.
    ret \<lparr>vs_total_meters = t, vs_verified_meters = v, vs_pending_meters = p, vs_rejected_meters = r, vs_attempts_last_24h = n\<rparr>)))"

subsection \<open>Handlers\<close>

record register_meter_request =
  rq_serial_number :: string
  rq_meter_type :: "string option"
  rq_location :: "string option"
  rq_latitude :: "rat option"
  rq_longitude :: "rat option"
  rq_zone_id :: "i32 option"

record meter_response =
  ms_id :: uuid
  ms_serial_number :: string
  ms_meter_type :: string
  ms_location :: string
  ms_is_verified :: bool
  ms_wallet_address :: string
  ms_latitude :: "rat option"
  ms_longitude :: "rat option"
  ms_zone_id :: "i32 option"

record register_meter_response =
  rs_success :: bool
  rs_message :: string
  rs_meter :: "meter_response option"

definition meter_fits :: "meter_row \<Rightarrow> db \<Rightarrow> bool" where
  "meter_fits m d \<longleftrightarrow> list_all (\<lambda>x. mt_id x \<noteq> mt_id m \<and> mt_serial_number x \<noteq> mt_serial_number m) (meters d)
     \<and> users d (mt_user_id m) \<noteq> None \<and> length (mt_serial_number m) \<le> 100 \<and> at_most 50 (mt_meter_type m)"

text \<open>\<open>Err(e)\<close> of a statement, as text.\<close>

fun sql_text :: "api_error \<Rightarrow> string" where
  "sql_text (Database m) = m"
| "sql_text er = api_display er"

definition register_meter :: "env \<Rightarrow> uuid \<Rightarrow> register_meter_request \<Rightarrow> (world, register_meter_response) io" where
  "register_meter e user request =
    bnd (fresh_uuid e) (\<lambda>meter_id.
    let serial = rq_serial_number request;
        meter_type = unwrap_or (rq_meter_type request) ''solar'';
        location = unwrap_or (rq_location request) ''Not specified'';
        m = \<lparr> mt_id = meter_id, mt_user_id = user, mt_serial_number = serial, mt_meter_type = Some meter_type,
              mt_location = Some location, mt_latitude = rq_latitude request, mt_longitude = rq_longitude request,
              mt_zone_id = rq_zone_id request, mt_is_verified = Some True \<rparr>
    in bnd (attempt (query (\<lambda>d. find_row mt_serial_number serial (meters d)))) (\<lambda>existing.
       if (case existing of Inr (Some _) \<Rightarrow> True | _ \<Rightarrow> False)
       then ret \<lparr>rs_success = False, rs_message = ''Meter '' @ serial @ '' is already registered to another account'', rs_meter = None\<rparr>
       else
        bnd (attempt (exec_chk (meter_fits m) (\<lambda>d. d\<lparr>meters := meters d @ [m]\<rparr>))) (\<lambda>insert_result.
        case insert_result of
          Inl er \<Rightarrow> ret \<lparr>rs_success = False, rs_message = ''Failed to register meter: '' @ sql_text er, rs_meter = None\<rparr>
        | Inr _ \<Rightarrow>
           bnd get_clock (\<lambda>now.
           let r = (registry_default meter_id user serial now)\<lparr> mr_meter_type := Some meter_type, mr_location_address := Some location,
                 mr_meter_key_hash := ''mock_hash'', mr_verification_status := ''verified'', mr_zone_id := rq_zone_id request \<rparr>
           in sq (ignore (exec_chk (registry_fits r) (add_registry r)))
              (bnd (attempt (query (\<lambda>d. Option.bind (users d user) wallet_address))) (\<lambda>wallet.
               ret \<lparr>rs_success = True, rs_message = ''Meter '' @ serial @ '' registered successfully. Waiting for verification.'',
                    rs_meter = Some \<lparr> ms_id = meter_id, ms_serial_number = serial, ms_meter_type = meter_type, ms_location = location,
                      ms_is_verified = True, ms_wallet_address = (case wallet of Inr (Some a) \<Rightarrow> a | _ \<Rightarrow> []),
                      ms_latitude = rq_latitude request, ms_longitude = rq_longitude request, ms_zone_id = rq_zone_id request \<rparr>\<rparr>))))))"

definition verify_meter_handler :: "string \<Rightarrow> (world, register_meter_response) io" where
  "verify_meter_handler serial =
    bnd (attempt (query (\<lambda>d. Option.bind (find_row mt_serial_number serial (meters d)) (\<lambda>m. map_option email_verified (users d (mt_user_id m)))))) (\<lambda>owner_check.
    case owner_check of
      Inr (Some False) \<Rightarrow> ret \<lparr>rs_success = False, rs_message = ''Meter owner must verify their email before meter can be verified.'', rs_meter = None\<rparr>
    | Inr None \<Rightarrow> ret \<lparr>rs_success = False, rs_message = ''Meter '' @ serial @ '' not found'', rs_meter = None\<rparr>
    | Inl er \<Rightarrow> ret \<lparr>rs_success = False, rs_message = ''Database error'', rs_meter = None\<rparr>
    | Inr (Some True) \<Rightarrow>
       bnd (attempt (exec_count (\<lambda>d. length (filter (\<lambda>m. mt_serial_number m = serial) (meters d)))
              (\<lambda>d. d\<lparr>meters := update_where (\<lambda>m. mt_serial_number m = serial) (\<lambda>m. m\<lparr>mt_is_verified := Some True\<rparr>) (meters d)\<rparr>))) (\<lambda>update_result.
       ret (if (case update_result of Inr n \<Rightarrow> n > 0 | Inl _ \<Rightarrow> False)
            then \<lparr>rs_success = True, rs_message = ''Meter '' @ serial @ '' is now verified and ready to submit readings.'', rs_meter = None\<rparr>
            else \<lparr>rs_success = False, rs_message = ''Meter '' @ serial @ '' not found or already verified'', rs_meter = None\<rparr>)))"

record update_meter_status_request =
  us_status :: "string option"
  us_zone_id :: "i32 option"
  us_latitude :: "rat option"
  us_longitude :: "rat option"

text \<open>The assignments that the query builder puts together.\<close>

definition patch_meter :: "update_meter_status_request \<Rightarrow> meter_row \<Rightarrow> meter_row" where
  "patch_meter q m =
    m\<lparr> mt_is_verified := (case us_status q of None \<Rightarrow> mt_is_verified m | Some s \<Rightarrow> Some (s = ''verified'' \<or> s = ''active'')),
       mt_zone_id := (case us_zone_id q of None \<Rightarrow> mt_zone_id m | Some z \<Rightarrow> Some z),
       mt_latitude := (case us_latitude q of None \<Rightarrow> mt_latitude m | Some x \<Rightarrow> Some x),
       mt_longitude := (case us_longitude q of None \<Rightarrow> mt_longitude m | Some x \<Rightarrow> Some x) \<rparr>"

definition update_meter_status :: "string \<Rightarrow> update_meter_status_request \<Rightarrow> (world, register_meter_response) io" where
  "update_meter_status serial request =
    bnd (attempt (exec_count (\<lambda>d. length (filter (\<lambda>m. mt_serial_number m = serial) (meters d)))
          (\<lambda>d. d\<lparr>meters := update_where (\<lambda>m. mt_serial_number m = serial) (patch_meter request) (meters d)\<rparr>))) (\<lambda>update_result.
    if (case update_result of Inr n \<Rightarrow> n > 0 | Inl _ \<Rightarrow> False)
    then sq (case us_zone_id request of None \<Rightarrow> ret ()
             | Some z \<Rightarrow> ignore (exec (\<lambda>d. d\<lparr>meter_registry := update_where (\<lambda>r. mr_meter_serial r = serial) (\<lambda>r. r\<lparr>mr_zone_id := Some z\<rparr>) (meter_registry d)\<rparr>)))
         (ret \<lparr>rs_success = True, rs_message = ''Meter '' @ serial @ '' updated successfully'', rs_meter = None\<rparr>)
    else ret \<lparr>rs_success = False, rs_message = ''Meter '' @ serial @ '' not found or no changes made'', rs_meter = None\<rparr>)"

subsection \<open>Soundness of the tables\<close>

definition registry_sound :: "db \<Rightarrow> bool" where
  "registry_sound d \<longleftrightarrow> distinct (map mr_id (meter_registry d)) \<and> distinct (map mr_meter_serial (meter_registry d))
     \<and> distinct (map mt_serial_number (meters d))"

definition same_meter :: "registry_row \<Rightarrow> registry_row \<Rightarrow> bool" where
  "same_meter r r' \<longleftrightarrow> mr_id r' = mr_id r \<and> mr_meter_serial r' = mr_meter_serial r \<and> mr_user_id r' = mr_user_id r
     \<and> mr_verification_status r' = mr_verification_status r"

definition holds_meter :: "registry_row \<Rightarrow> db \<Rightarrow> bool" where
  "holds_meter r d \<longleftrightarrow> registry_sound d \<and> list_ex (same_meter r) (meter_registry d)"

text \<open>The operations that write the registry and the table of meters.\<close>

inductive registry_step :: "env \<Rightarrow> world \<Rightarrow> world \<Rightarrow> bool" for e where
  verify: "verify_meter e u q ip agent w = (r, w') \<Longrightarrow> registry_step e w w'"
| register_simple: "register_meter_simple e u s t l w = (r, w') \<Longrightarrow> registry_step e w w'"
| delete_pending: "delete_pending_meter u i w = (r, w') \<Longrightarrow> registry_step e w w'"
| register: "register_meter e u q w = (r, w') \<Longrightarrow> registry_step e w w'"
| verify_handler: "verify_meter_handler s w = (r, w') \<Longrightarrow> registry_step e w w'"
| patch: "update_meter_status s q w = (r, w') \<Longrightarrow> registry_step e w w'"

lemma keeps_db_anyhow [keeps_db_intros]: "keeps_db I m \<Longrightarrow> keeps_db I (anyhow_err pre m)"
  unfolding anyhow_err_def by (intro keeps_db_intros)

lemma holds_add: "holds_meter r d \<Longrightarrow> registry_fits x d \<Longrightarrow> holds_meter r (add_registry x d)"
  by (auto simp: holds_meter_def registry_sound_def registry_fits_def add_registry_def list_all_iff)

lemma holds_attempts: "holds_meter r (d\<lparr>meter_verification_attempts := a\<rparr>) = holds_meter r d"
  by (simp add: holds_meter_def registry_sound_def)

lemma holds_meters:
  "holds_meter r d \<Longrightarrow> meter_fits m d \<Longrightarrow> holds_meter r (d\<lparr>meters := meters d @ [m]\<rparr>)"
  "holds_meter r d \<Longrightarrow> (\<And>m. mt_serial_number (g m) = mt_serial_number m) \<Longrightarrow> holds_meter r (d\<lparr>meters := update_where p g (meters d)\<rparr>)"
  by (auto simp: holds_meter_def registry_sound_def meter_fits_def list_all_iff map_update_where_same)

lemma holds_zone:
  assumes "holds_meter r d"
  shows "holds_meter r (d\<lparr>meter_registry := update_where p (\<lambda>r. r\<lparr>mr_zone_id := z\<rparr>) (meter_registry d)\<rparr>)"
proof -
  from assms obtain x where x: "x \<in> set (meter_registry d)" "same_meter r x" by (auto simp: holds_meter_def list_ex_iff)
  let ?y = "if p x then x\<lparr>mr_zone_id := z\<rparr> else x"
  have "?y \<in> set (update_where p (\<lambda>r. r\<lparr>mr_zone_id := z\<rparr>) (meter_registry d))" using x(1) by (auto simp: set_update_where)
  moreover have "same_meter r ?y" using x(2) by (simp add: same_meter_def)
  ultimately show ?thesis using assms by (auto simp: holds_meter_def registry_sound_def map_update_where_same list_ex_iff)
qed

lemma holds_delete:
  assumes "holds_meter r d" and "find_row mr_id i (meter_registry d) = Some m" and "mr_verification_status m \<noteq> mr_verification_status r"
  shows "holds_meter r (d\<lparr>meter_registry := filter (\<lambda>x. mr_id x \<noteq> i) (meter_registry d)\<rparr>)"
proof -
  from assms(1) obtain x where x: "x \<in> set (meter_registry d)" "same_meter r x" by (auto simp: holds_meter_def list_ex_iff)
  have "mr_id x \<noteq> i"
  proof
    assume "mr_id x = i"
    moreover have "find_row mr_id (mr_id x) (meter_registry d) = Some x"
      using assms(1) x(1) by (intro find_row_distinct) (simp_all add: holds_meter_def registry_sound_def)
    ultimately have "m = x" using assms(2) by simp
    with assms(3) x(2) show False by (simp add: same_meter_def)
  qed
  with x assms(1) show ?thesis by (auto simp: holds_meter_def registry_sound_def list_ex_iff intro: distinct_map_filter)
qed

lemma log_attempt_keeps: "keeps_db (holds_meter r) (log_attempt e s u m ip ag st re)"
  unfolding log_attempt_def Let_def by (intro keeps_db_intros) (simp add: holds_attempts)

lemma verify_meter_keeps: "keeps_db (holds_meter r) (verify_meter e u q ip ag)"
  unfolding verify_meter_def check_meter_availability_def insert_meter_registry_def Let_def
  by (intro keeps_db_intros log_attempt_keeps) (rule holds_add)

lemma register_simple_keeps: "keeps_db (holds_meter r) (register_meter_simple e u s t l)"
  unfolding register_meter_simple_def get_meter_by_serial_def get_meter_by_id_def Let_def
  by (intro keeps_db_intros) (rule holds_add)

lemma register_meter_keeps: "keeps_db (holds_meter r) (register_meter e u q)"
  unfolding register_meter_def Let_def
  by (intro keeps_db_intros; (rule holds_add | rule holds_meters); assumption)

lemma verify_handler_keeps: "keeps_db (holds_meter r) (verify_meter_handler s)"
proof -
  have "keeps_db (holds_meter r) (exec_count n (\<lambda>d. d\<lparr>meters := update_where p (\<lambda>m. m\<lparr>mt_is_verified := Some True\<rparr>) (meters d)\<rparr>))" for n p
    by (intro keeps_db_intros holds_meters) simp_all
  then show ?thesis unfolding verify_meter_handler_def
    by (intro keeps_db_intros) (auto intro: keeps_db_intros split: sum.split option.split bool.split)
qed

lemma patch_keeps: "keeps_db (holds_meter r) (update_meter_status s q)"
  unfolding update_meter_status_def
  by (intro keeps_db_intros holds_meters holds_zone) (simp_all add: patch_meter_def)

lemma delete_pending_keeps:
  assumes "delete_pending_meter u i w = (x, w')" and "holds_meter r (db w)" and "mr_verification_status r \<noteq> ''pending''"
  shows "holds_meter r (db w')"
proof (cases "\<exists>m. find_row mr_id i (meter_registry (db w)) = Some m \<and> mr_verification_status m = ''pending''")
  case True
  then obtain m where m: "find_row mr_id i (meter_registry (db w)) = Some m" "mr_verification_status m = ''pending''" by blast
  have "db w' = db w \<or> db w' = (db w)\<lparr>meter_registry := filter (\<lambda>x. mr_id x \<noteq> i) (meter_registry (db w))\<rparr>"
    using assms(1) m by (auto simp: delete_pending_meter_def anyhow_err_def bnd_app map_err_app query_def exec_def exec_chk_def ok_or_def
        split: option.splits if_splits)
  with holds_delete [OF assms(2) m(1)] m(2) assms(2,3) show ?thesis by auto
next
  case False
  then have "db w' = db w"
    using assms(1) by (auto simp: delete_pending_meter_def anyhow_err_def bnd_app map_err_app query_def ok_or_def split: option.splits if_splits)
  with assms(2) show ?thesis by simp
qed

lemma registry_step_holds:
  assumes "registry_step e w w'" and "holds_meter r (db w)" and "mr_verification_status r \<noteq> ''pending''"
  shows "holds_meter r (db w')"
  using assms
proof cases
  case verify
  then show ?thesis using keeps_dbE [OF verify_meter_keeps] assms(2) by blast
next
  case register_simple
  then show ?thesis using keeps_dbE [OF register_simple_keeps] assms(2) by blast
next
  case delete_pending
  then show ?thesis using delete_pending_keeps assms(2,3) by blast
next
  case register
  then show ?thesis using keeps_dbE [OF register_meter_keeps] assms(2) by blast
next
  case verify_handler
  then show ?thesis using keeps_dbE [OF verify_handler_keeps] assms(2) by blast
next
  case patch
  then show ?thesis using keeps_dbE [OF patch_keeps] assms(2) by blast
qed

lemma registry_run_holds:
  assumes "(registry_step e)\<^sup>*\<^sup>* w w'" and "holds_meter r (db w)" and "mr_verification_status r \<noteq> ''pending''"
  shows "holds_meter r (db w')"
  using assms(1,2) by (induction rule: rtranclp_induct) (auto intro: registry_step_holds [OF _ _ assms(3)])

subsection \<open>Properties\<close>


definition registered :: "string \<Rightarrow> string \<Rightarrow> registry_row" where
  "registered serial st = (registry_default 5 1 serial 0)\<lparr>mr_verification_status := st\<rparr>"

definition registry_db :: "registry_row list \<Rightarrow> db" where
  "registry_db rs = empty_db\<lparr>users := [1 \<mapsto> sample_user 0 0 0, 2 \<mapsto> sample_user 0 0 0], meter_registry := rs\<rparr>"

lemma registry_db_simps [simp]:
  "meter_registry (registry_db rs) = rs" "meter_verification_attempts (registry_db rs) = []" "meters (registry_db rs) = []"
  "users (registry_db rs) = [1 \<mapsto> sample_user 0 0 0, 2 \<mapsto> sample_user 0 0 0]"
  by (simp_all add: registry_db_def)

definition sample_verification :: "string \<Rightarrow> verify_meter_request" where
  "sample_verification serial =
    \<lparr> vq_meter_serial = serial, vq_meter_key = ''0123456789abcdef'', vq_verification_method = ''serial'', vq_manufacturer = None,
      vq_meter_type = ''solar'', vq_location_address = None, vq_verification_proof = None \<rparr>"


text \<open>What a call logs, and whether it registers the meter, from the key and the entry of the serial.\<close>

definition attempt_logged :: "uuid \<Rightarrow> string \<Rightarrow> registry_row option \<Rightarrow> string list" where
  "attempt_logged user key existing =
    (case validate_meter_key_format key of
       Inl _ \<Rightarrow> [''invalid_key'']
     | Inr _ \<Rightarrow> (case existing of
          None \<Rightarrow> [''success'']
        | Some m \<Rightarrow> if mr_user_id m \<noteq> user \<or> mr_verification_status m = ''verified'' then [''meter_claimed''] else []))"

definition request_fits :: "env \<Rightarrow> verify_meter_request \<Rightarrow> bool" where
  "request_fits e q \<longleftrightarrow> length (vq_meter_serial q) \<le> 255 \<and> length (vq_verification_method q) \<le> 50 \<and> at_most 255 (vq_manufacturer q)
     \<and> length (vq_meter_type q) \<le> 50 \<and> (case bcrypt_hash e (vq_meter_key q) of Inl _ \<Rightarrow> False | Inr h \<Rightarrow> length h \<le> 255)"

definition fresh_ids :: "env \<Rightarrow> world \<Rightarrow> bool" where
  "fresh_ids e w \<longleftrightarrow> new_v4 e (uuids w) \<notin> mr_id ` set (meter_registry (db w))
     \<and> {new_v4 e (uuids w), new_v4 e (Suc (uuids w))} \<inter> va_id ` set (meter_verification_attempts (db w)) = {}"

lemma anyhow_err_app [io_simps]:
  "anyhow_err pre m w = (case m w of
      (Ok x, w') \<Rightarrow> (Ok x, w')
    | (Err er, w') \<Rightarrow> (Err (case er of Database t \<Rightarrow> Anyhow (pre @ t) | _ \<Rightarrow> er), w')
    | (Panic, w') \<Rightarrow> (Panic, w'))"
  by (simp add: anyhow_err_def map_err_app)

lemma log_attempt_calm:
  assumes "faults w = []" and "users (db w) u \<noteq> None" and "new_v4 e (uuids w) \<notin> va_id ` set (meter_verification_attempts (db w))"
    and "length s \<le> 255" and "length m \<le> 50" and "length st \<le> 20"
  shows "\<exists>a. va_attempt_status a = st \<and> va_attempt_result a = None \<and> va_user_id a = u
    \<and> log_attempt e s u m ip ag st re w
      = (Ok (), w\<lparr>uuids := Suc (uuids w), db := (db w)\<lparr>meter_verification_attempts := meter_verification_attempts (db w) @ [a]\<rparr>\<rparr>)"
proof -
  let ?a = "\<lparr> va_id = new_v4 e (uuids w), va_meter_serial = s, va_user_id = u, va_verification_method = m, va_ip_address = ip,
          va_user_agent = ag, va_attempt_status = st, va_attempt_result = None, va_failure_reason = re, va_attempted_at = Some (clock w) \<rparr>"
  have "attempt_fits ?a (db w)" using assms by (auto simp: attempt_fits_def list_all_iff image_iff)
  then show ?thesis using assms(1) by (intro exI [of _ ?a]) (simp add: log_attempt_def io_simps Let_def)
qed

lemma verify_meter_invalid:
  assumes "faults w = []" and "users (db w) u \<noteq> None" and "request_fits e q" and "fresh_ids e w"
    and "validate_meter_key_format (vq_meter_key q) = Inl msg"
  shows "\<exists>w' a. verify_meter e u q ip ag w = (Err (Anyhow msg), w') \<and> meter_registry (db w') = meter_registry (db w)
    \<and> meter_verification_attempts (db w') = meter_verification_attempts (db w) @ [a] \<and> va_attempt_status a = ''invalid_key''"
proof -
  have "\<exists>a. va_attempt_status a = ''invalid_key'' \<and> va_attempt_result a = None \<and> va_user_id a = u
    \<and> log_attempt e (vq_meter_serial q) u (vq_verification_method q) ip ag ''invalid_key'' (Some msg) w
      = (Ok (), w\<lparr>uuids := Suc (uuids w), db := (db w)\<lparr>meter_verification_attempts := meter_verification_attempts (db w) @ [a]\<rparr>\<rparr>)"
    using assms by (intro log_attempt_calm) (auto simp: request_fits_def fresh_ids_def)
  with assms(5) show ?thesis by (auto simp: verify_meter_def Let_def sq_app)
qed

lemma verify_meter_claimed:
  assumes "faults w = []" and "users (db w) u \<noteq> None" and "request_fits e q" and "fresh_ids e w"
    and "validate_meter_key_format (vq_meter_key q) = Inr ()"
    and "find_row mr_meter_serial (vq_meter_serial q) (meter_registry (db w)) = Some m"
    and "mr_user_id m \<noteq> u \<or> mr_verification_status m = ''verified''"
  shows "\<exists>er w' a. verify_meter e u q ip ag w = (Err er, w') \<and> meter_registry (db w') = meter_registry (db w)
    \<and> meter_verification_attempts (db w') = meter_verification_attempts (db w) @ [a] \<and> va_attempt_status a = ''meter_claimed''"
proof -
  have "\<exists>er. check_meter_availability (vq_meter_serial q) u w = (Err er, w)"
    using assms(1,6,7) by (auto simp: check_meter_availability_def io_simps)
  then obtain er where c: "check_meter_availability (vq_meter_serial q) u w = (Err er, w)" by blast
  have "\<exists>a. va_attempt_status a = ''meter_claimed'' \<and> va_attempt_result a = None \<and> va_user_id a = u
    \<and> log_attempt e (vq_meter_serial q) u (vq_verification_method q) ip ag ''meter_claimed'' (Some (api_display er)) w
      = (Ok (), w\<lparr>uuids := Suc (uuids w), db := (db w)\<lparr>meter_verification_attempts := meter_verification_attempts (db w) @ [a]\<rparr>\<rparr>)"
    using assms by (intro log_attempt_calm) (auto simp: request_fits_def fresh_ids_def)
  with assms(5) c show ?thesis by (auto simp: verify_meter_def Let_def bnd_app attempt_app sq_app)
qed

lemma verify_meter_new:
  assumes "faults w = []" and "users (db w) u \<noteq> None" and "request_fits e q" and "fresh_ids e w"
    and "validate_meter_key_format (vq_meter_key q) = Inr ()"
    and "find_row mr_meter_serial (vq_meter_serial q) (meter_registry (db w)) = None"
  shows "\<exists>x w' a r. verify_meter e u q ip ag w = (Ok x, w') \<and> meter_registry (db w') = meter_registry (db w) @ [r]
    \<and> mr_meter_serial r = vq_meter_serial q \<and> mr_user_id r = u \<and> mr_verification_status r = ''verified'' \<and> vr_meter_id x = mr_id r
    \<and> meter_verification_attempts (db w') = meter_verification_attempts (db w) @ [a] \<and> va_attempt_status a = ''success''"
proof -
  obtain h where h: "bcrypt_hash e (vq_meter_key q) = Inr h" "length h \<le> 255"
    using assms(3) by (auto simp: request_fits_def split: sum.splits)
  let ?r = "(registry_default (new_v4 e (uuids w)) u (vq_meter_serial q) (clock w))\<lparr> mr_meter_key_hash := h,
          mr_verification_method := vq_verification_method q, mr_verification_status := ''verified'',
          mr_manufacturer := vq_manufacturer q, mr_meter_type := Some (vq_meter_type q),
          mr_location_address := vq_location_address q, mr_verification_proof := vq_verification_proof q,
          mr_verified_at := Some (clock w) \<rparr>"
  let ?w = "w\<lparr>uuids := Suc (uuids w), db := add_registry ?r (db w)\<rparr>"
  have c: "check_meter_availability (vq_meter_serial q) u w = (Ok (), w)"
    using assms(1,6) by (simp add: check_meter_availability_def io_simps)
  have "\<forall>x\<in>set (meter_registry (db w)). mr_meter_serial x \<noteq> vq_meter_serial q"
    using assms(6) find_row_distinct by (auto simp: find_row_def find_None_iff)
  then have "registry_fits ?r (db w)"
    using assms(2,3,4) h(2) by (auto simp: registry_fits_def request_fits_def fresh_ids_def registry_default_def list_all_iff image_iff at_most_def)
  then have i: "insert_meter_registry e u q h w = (Ok (new_v4 e (uuids w)), ?w)"
    using assms(1) by (simp add: insert_meter_registry_def io_simps Let_def)
  have "\<exists>a. va_attempt_status a = ''success'' \<and> va_attempt_result a = None \<and> va_user_id a = u
    \<and> log_attempt e (vq_meter_serial q) u (vq_verification_method q) ip ag ''success'' None ?w
      = (Ok (), ?w\<lparr>uuids := Suc (uuids ?w), db := (db ?w)\<lparr>meter_verification_attempts := meter_verification_attempts (db ?w) @ [a]\<rparr>\<rparr>)"
    using assms by (intro log_attempt_calm) (auto simp: request_fits_def fresh_ids_def add_registry_def)
  then obtain a where a: "va_attempt_status a = ''success''"
    "log_attempt e (vq_meter_serial q) u (vq_verification_method q) ip ag ''success'' None ?w
      = (Ok (), ?w\<lparr>uuids := Suc (uuids ?w), db := (db ?w)\<lparr>meter_verification_attempts := meter_verification_attempts (db ?w) @ [a]\<rparr>\<rparr>)" by blast
  show ?thesis
    using assms(5) c h(1) i a(2)
    by (intro exI [of _ a] exI [of _ ?r] exI conjI)
      (auto simp: verify_meter_def Let_def bnd_app attempt_app sq_app add_registry_def registry_default_def a(1))
qed

lemma log_attempt_registry: "meter_registry (db (snd (log_attempt e s u m ip ag st re w))) = meter_registry (db w)"
proof -
  have "keeps_db (\<lambda>d. meter_registry d = meter_registry (db w)) (log_attempt e s u m ip ag st re)"
    unfolding log_attempt_def Let_def by (intro keeps_db_intros) simp
  from keeps_dbD [OF this, of w] show ?thesis by simp
qed

lemma log_then_fail:
  "\<exists>er w'. sq (log_attempt e s u m ip ag st re) (fail er') w = (Err er, w') \<and> meter_registry (db w') = meter_registry (db w)"
proof -
  have "no_panic (log_attempt e s u m ip ag st re)"
    unfolding log_attempt_def anyhow_err_def Let_def by (intro no_panic_intros)
  then have "fst (log_attempt e s u m ip ag st re w) \<noteq> Panic" by (rule no_panicD)
  with log_attempt_registry [of e s u m ip ag st re w] show ?thesis
    by (cases "log_attempt e s u m ip ag st re w"; cases "fst (log_attempt e s u m ip ag st re w)") (auto simp: sq_app)
qed

lemma check_meter_availability_db:
  "\<exists>r w'. check_meter_availability s u w = (r, w') \<and> db w' = db w \<and> r \<noteq> Panic"
  by (auto simp: check_meter_availability_def anyhow_err_def bnd_app map_err_app query_def split: option.split)

lemma insert_registered_fails:
  assumes "find_row mr_meter_serial (vq_meter_serial q) (meter_registry (db w)) = Some m"
  shows "\<exists>er w'. insert_meter_registry e u q h w = (Err er, w') \<and> meter_registry (db w') = meter_registry (db w)"
proof -
  have "m \<in> set (meter_registry (db w))" "mr_meter_serial m = vq_meter_serial q" using find_row_Some [OF assms] by auto
  then have "\<not> registry_fits r (db w)" if "mr_meter_serial r = vq_meter_serial q" for r
    using that by (auto simp: registry_fits_def list_all_iff)
  then show ?thesis
    by (auto simp: insert_meter_registry_def anyhow_err_def bnd_app map_err_app sq_app fresh_uuid_app get_clock_app exec_chk_def
        Let_def registry_default_def split: option.split)
qed

lemma verify_meter_registered:
  assumes "find_row mr_meter_serial (vq_meter_serial q) (meter_registry (db w)) = Some m"
  shows "\<exists>er w'. verify_meter e u q ip ag w = (Err er, w') \<and> meter_registry (db w') = meter_registry (db w)"
proof (cases "validate_meter_key_format (vq_meter_key q)")
  case (Inl msg)
  then show ?thesis using log_then_fail by (simp add: verify_meter_def Let_def)
next
  case (Inr _)
  obtain r w1 where c: "check_meter_availability (vq_meter_serial q) u w = (r, w1)" "db w1 = db w" "r \<noteq> Panic"
    using check_meter_availability_db by blast
  show ?thesis
  proof (cases r)
    case (Err er)
    with Inr c log_then_fail [of e "vq_meter_serial q" u "vq_verification_method q" ip ag "''meter_claimed''" "Some (api_display er)" er w1]
    show ?thesis by (simp add: verify_meter_def Let_def bnd_app attempt_app)
  next
    case (Ok x)
    show ?thesis
    proof (cases "bcrypt_hash e (vq_meter_key q)")
      case (Inl x)
      with Inr c Ok show ?thesis by (simp add: verify_meter_def Let_def bnd_app attempt_app)
    next
      case (Inr h)
      obtain er w2 where "insert_meter_registry e u q h w1 = (Err er, w2)" "meter_registry (db w2) = meter_registry (db w1)"
        using insert_registered_fails [of q w1 m e u h] assms c(2) by auto
      with Inr \<open>validate_meter_key_format (vq_meter_key q) = Inr _\<close> c Ok show ?thesis
        by (simp add: verify_meter_def Let_def bnd_app attempt_app)
    qed
  qed (use c in simp)
qed

lemma verify_meter_pending:
  assumes "faults w = []" and "request_fits e q" and "validate_meter_key_format (vq_meter_key q) = Inr ()"
    and "find_row mr_meter_serial (vq_meter_serial q) (meter_registry (db w)) = Some m"
    and "mr_user_id m = u" and "mr_verification_status m \<noteq> ''verified''"
  shows "\<exists>er w'. verify_meter e u q ip ag w = (Err er, w') \<and> db w' = db w"
proof -
  obtain h where h: "bcrypt_hash e (vq_meter_key q) = Inr h" using assms(2) by (auto simp: request_fits_def split: sum.splits)
  have "m \<in> set (meter_registry (db w))" "mr_meter_serial m = vq_meter_serial q" using find_row_Some [OF assms(4)] by auto
  then have "\<not> registry_fits r (db w)" if "mr_meter_serial r = vq_meter_serial q" for r
    using that by (auto simp: registry_fits_def list_all_iff)
  then show ?thesis
    using assms h by (auto simp: verify_meter_def check_meter_availability_def insert_meter_registry_def io_simps Let_def registry_default_def)
qed

text \<open>
  Verifying a meter: on a connection that loses no statement, for a known user, a request that fits
  the columns and fresh identifiers, \<open>verify_meter\<close> succeeds exactly when the key is well-formed and the
  serial number is not registered.  Then the registry gains one verified entry of this user with that
  serial number; otherwise it is unchanged.  The audit trail gains one entry: for a malformed
  key, for a meter that is claimed, and for a success; an own meter that is still pending is refused
  by the unique serial number and leaves no trace there.
\<close>

theorem verify_meter_outcome:
  assumes "faults w = []" and "users (db w) u \<noteq> None" and "request_fits e q" and "fresh_ids e w"
  shows "\<exists>rs as. let ok = is_ok (verify_meter e u q ip ag w); d = db (snd (verify_meter e u q ip ag w)) in
    (ok \<longleftrightarrow> validate_meter_key_format (vq_meter_key q) = Inr ()
         \<and> find_row mr_meter_serial (vq_meter_serial q) (meter_registry (db w)) = None)
    \<and> meter_registry d = meter_registry (db w) @ rs
    \<and> (if ok then map (\<lambda>x. (mr_meter_serial x, mr_user_id x, mr_verification_status x)) rs = [(vq_meter_serial q, u, ''verified'')] else rs = [])
    \<and> meter_verification_attempts d = meter_verification_attempts (db w) @ as
    \<and> map va_attempt_status as = attempt_logged u (vq_meter_key q) (find_row mr_meter_serial (vq_meter_serial q) (meter_registry (db w)))"
proof (cases "validate_meter_key_format (vq_meter_key q)")
  case (Inl msg)
  from verify_meter_invalid [OF assms Inl] obtain w' a where
    "verify_meter e u q ip ag w = (Err (Anyhow msg), w')" "meter_registry (db w') = meter_registry (db w)"
    "meter_verification_attempts (db w') = meter_verification_attempts (db w) @ [a]" "va_attempt_status a = ''invalid_key''" by blast
  with Inl show ?thesis by (intro exI [of _ "[]"] exI [of _ "[a]"]) (simp add: is_ok_def attempt_logged_def Let_def)
next
  case (Inr v)
  then have v: "validate_meter_key_format (vq_meter_key q) = Inr ()" by simp
  show ?thesis
  proof (cases "find_row mr_meter_serial (vq_meter_serial q) (meter_registry (db w))")
    case None
    from verify_meter_new [OF assms v None, of ip ag] obtain x w' a r where
      "verify_meter e u q ip ag w = (Ok x, w')" "meter_registry (db w') = meter_registry (db w) @ [r]"
      "mr_meter_serial r = vq_meter_serial q" "mr_user_id r = u" "mr_verification_status r = ''verified''"
      "meter_verification_attempts (db w') = meter_verification_attempts (db w) @ [a]" "va_attempt_status a = ''success''" by blast
    with v None show ?thesis by (intro exI [of _ "[r]"] exI [of _ "[a]"]) (simp add: is_ok_def attempt_logged_def Let_def)
  next
    case (Some m)
    show ?thesis
    proof (cases "mr_user_id m \<noteq> u \<or> mr_verification_status m = ''verified''")
      case True
      from verify_meter_claimed [OF assms v Some True, of ip ag] obtain er w' a where
        "verify_meter e u q ip ag w = (Err er, w')" "meter_registry (db w') = meter_registry (db w)"
        "meter_verification_attempts (db w') = meter_verification_attempts (db w) @ [a]" "va_attempt_status a = ''meter_claimed''" by blast
      with v Some True show ?thesis by (intro exI [of _ "[]"] exI [of _ "[a]"]) (simp add: is_ok_def attempt_logged_def Let_def)
    next
      case False
      with verify_meter_pending [OF assms(1,3) v Some, of u ip ag] obtain er w' where
        "verify_meter e u q ip ag w = (Err er, w')" "db w' = db w" by blast
      with v Some False show ?thesis by (intro exI [of _ "[]"] exI [of _ "[]"]) (simp add: is_ok_def attempt_logged_def Let_def)
    qed
  qed
qed

theorem verify_meter_outcome_witness:
  "is_ok (verify_meter std_env 1 (sample_verification ''M-002'') None None (calm_world (registry_db [registered ''M-001'' ''verified''])))
    \<and> \<not> is_ok (verify_meter std_env 2 (sample_verification ''M-001'') None None (calm_world (registry_db [registered ''M-001'' ''verified''])))"
proof -
  let ?w = "calm_world (registry_db [registered ''M-001'' ''verified''])"
  have r: "request_fits std_env (sample_verification ''M-001'')" "request_fits std_env (sample_verification ''M-002'')" "fresh_ids std_env ?w"
    by (simp_all add: request_fits_def sample_verification_def fresh_ids_def registered_def registry_default_def)
  have k: "validate_meter_key_format (vq_meter_key (sample_verification s)) = Inr ()" for s
    unfolding sample_verification_def verify_meter_request.select_convs by code_simp
  have f: "find_row mr_meter_serial (vq_meter_serial (sample_verification ''M-002'')) (meter_registry (db ?w)) = None"
    "find_row mr_meter_serial (vq_meter_serial (sample_verification ''M-001'')) (meter_registry (db ?w)) \<noteq> None"
    by (simp_all add: sample_verification_def registered_def registry_default_def)
  show ?thesis
    using verify_meter_outcome [of ?w 1, OF _ _ r(2,3), of None None] verify_meter_outcome [of ?w 2, OF _ _ r(1,3), of None None] k f
    by (auto simp: Let_def)
qed

text \<open>
  A meter that a user registered with \<open>register_meter_simple\<close> can never be verified: whatever the key, the
  caller and the connection, \<open>verify_meter\<close> fails on a registered serial number.
\<close>

theorem pending_meter_never_verified:
  assumes "r \<in> set (meter_registry (db w))" and "mr_meter_serial r = vq_meter_serial q"
  shows "\<not> is_ok (verify_meter e u q ip ag w) \<and> meter_registry (db (snd (verify_meter e u q ip ag w))) = meter_registry (db w)"
proof -
  have "find_row mr_meter_serial (vq_meter_serial q) (meter_registry (db w)) \<noteq> None"
    using assms by (auto simp: find_row_def find_None_iff)
  then obtain m where "find_row mr_meter_serial (vq_meter_serial q) (meter_registry (db w)) = Some m" by blast
  from verify_meter_registered [OF this, of e u ip ag] show ?thesis by (auto simp: is_ok_def)
qed

theorem pending_meter_never_verified_witness:
  "\<not> is_ok (verify_meter std_env 1 (sample_verification ''M-001'') None None (calm_world (registry_db [registered ''M-001'' ''pending''])))"
  using pending_meter_never_verified [of "registered ''M-001'' ''pending''" "calm_world (registry_db [registered ''M-001'' ''pending''])"
      "sample_verification ''M-001''" std_env 1 None None]
  by (simp add: sample_verification_def registered_def registry_default_def)

end
