(* ===== verification/Readings.thy ===== *)
theory Readings
  imports Market Dashboard Meter_Analyzer Meter_Registry
begin

text \<open>
  From a meter reading to tokens: \<open>src/src/handlers/auth/meters/reading.rs\<close> (the endpoints that queue a
  reading and the task that processes it), \<open>src/src/services/reading_processor.rs\<close> (the workers),
  \<open>src/src/services/validation/oracle_validator.rs\<close>, the queue of \<open>src/src/services/cache/mod.rs\<close> and the minting
  handlers of \<open>src/src/handlers/meter/minting.rs\<close>.

  A station is the world, the live grid status, the two Redis lists and the Redis commands that are
  lost.  A task in the queue is kept as it is (it travels as JSON text).  A spawned task runs after
  the code that spawned it; a panic in it stays there.
\<close>

subsection \<open>Requests\<close>

record create_reading_request =
  rg_kwh :: rat
  rg_timestamp :: "time option"
  rg_wallet_address :: "string option"
  rg_meter_id :: "string option"
  rg_meter_serial :: "string option"
  rg_meter_type :: "string option"
  rg_energy_generated :: "rat option"
  rg_energy_consumed :: "rat option"
  rg_surplus_energy :: "rat option"
  rg_deficit_energy :: "rat option"
  rg_voltage :: "rat option"
  rg_current :: "rat option"
  rg_power :: "rat option"
  rg_power_generated :: "rat option"
  rg_power_consumed :: "rat option"
  rg_power_factor :: "rat option"
  rg_frequency :: "rat option"
  rg_temperature :: "rat option"
  rg_thd_voltage :: "rat option"
  rg_thd_current :: "rat option"
  rg_latitude :: "rat option"
  rg_longitude :: "rat option"
  rg_battery_level :: "rat option"
  rg_weather_condition :: "string option"
  rg_zone_id :: "i32 option"
  rg_rec_eligible :: "bool option"
  rg_carbon_offset :: "rat option"
  rg_max_sell_price :: "rat option"
  rg_max_buy_price :: "rat option"
  rg_meter_signature :: "string option"

definition reading_data_of :: "create_reading_request \<Rightarrow> reading_data" where
  "reading_data_of q =
    \<lparr> dt_voltage = rg_voltage q, dt_frequency = rg_frequency q, dt_battery_level = rg_battery_level q,
      dt_power_factor = rg_power_factor q, dt_thd_voltage = rg_thd_voltage q, dt_thd_current = rg_thd_current q \<rparr>"

record create_reading_params =
  rp_auto_mint :: "bool option"
  rp_timeout_secs :: "u64 option"

record create_reading_response =
  ro_id :: uuid
  ro_serial_number :: string
  ro_kwh :: rat
  ro_timestamp :: time
  ro_minted :: bool
  ro_tx_signature :: "string option"
  ro_message :: string

record reading_task =
  rt_serial :: string
  rt_params :: create_reading_params
  rt_request :: create_reading_request
  rt_retry_count :: "32 word"

subsection \<open>Oracle validation\<close>

record validation_config =
  vc_max_kwh_per_reading :: rat
  vc_allow_negative_generation :: bool

definition validation_config_default :: validation_config where
  "validation_config_default = \<lparr>vc_max_kwh_per_reading = 1000, vc_allow_negative_generation = False\<rparr>"

definition validate_reading :: "string \<Rightarrow> create_reading_request \<Rightarrow> validation_config \<Rightarrow> string + unit" where
  "validate_reading serial q config =
    (if rg_kwh q > vc_max_kwh_per_reading config then Inl (''Reading for '' @ serial @ '' exceeds sanity threshold'')
     else if \<not> vc_allow_negative_generation config \<and> rg_kwh q < 0 then Inl (''Negative energy generation detected for '' @ serial)
     else case (rg_surplus_energy q, rg_deficit_energy q) of
        (Some surplus, Some deficit) \<Rightarrow>
          if surplus > 0 \<and> deficit > 0 then Inl (''Inconsistent telemetry for '' @ serial @ '': simultaneous surplus and deficit'') else Inr ()
      | _ \<Rightarrow> Inr ())"

definition check_monotonicity :: "decimal \<Rightarrow> decimal \<Rightarrow> string + unit" where
  "check_monotonicity current previous =
    (if current < previous then Inl ''Counter reset detected or invalid decrement in cumulative reading'' else Inr ())"

subsection \<open>Stations and queues\<close>

record station =
  sn_world :: world
  sn_grid :: grid_status
  sn_queue :: "reading_task list"
  sn_dlq :: "reading_task list"
  sn_redis :: "string option list"

definition on_world :: "(world, 'a) io \<Rightarrow> (station, 'a) io" where
  "on_world m = (\<lambda>s. (fst (m (sn_world s)), s\<lparr>sn_world := snd (m (sn_world s))\<rparr>))"

definition redis :: "string \<Rightarrow> (station \<Rightarrow> station) \<Rightarrow> (station \<Rightarrow> 'a) \<Rightarrow> (station, 'a) io" where
  "redis what f q = (\<lambda>s. let s1 = s\<lparr>sn_redis := tl (sn_redis s)\<rparr> in
     case sn_redis s of
       Some m # _ \<Rightarrow> (Err (Anyhow (''Redis '' @ what @ '' failed: '' @ m)), s1)
     | _ \<Rightarrow> (Ok (q s), f s1))"

text \<open>\<open>LPUSH\<close> puts a task in front, \<open>BRPOP\<close> takes the last one.\<close>

definition push_reading :: "reading_task \<Rightarrow> (station, unit) io" where
  "push_reading t = redis ''LPUSH'' (\<lambda>s. s\<lparr>sn_queue := t # sn_queue s\<rparr>) (\<lambda>_. ())"

definition push_to_dlq :: "reading_task \<Rightarrow> (station, unit) io" where
  "push_to_dlq t = redis ''LPUSH'' (\<lambda>s. s\<lparr>sn_dlq := t # sn_dlq s\<rparr>) (\<lambda>_. ())"

definition get_queue_depth :: "(station, nat) io" where
  "get_queue_depth = redis ''LLEN'' (\<lambda>s. s) (\<lambda>s. length (sn_queue s))"

definition pop_reading :: "(station, reading_task option) io" where
  "pop_reading = redis ''BRPOP'' (\<lambda>s. s\<lparr>sn_queue := butlast (sn_queue s)\<rparr>)
     (\<lambda>s. if sn_queue s = [] then None else Some (last (sn_queue s)))"

subsection \<open>Endpoints\<close>

definition internal_create_reading ::
  "env \<Rightarrow> string \<Rightarrow> create_reading_params \<Rightarrow> create_reading_request \<Rightarrow> (station, create_reading_response) io" where
  "internal_create_reading e serial params request =
    bnd (on_world (fresh_uuid e)) (\<lambda>reading_id.
    bnd (on_world get_clock) (\<lambda>now.
    let timestamp = unwrap_or (rg_timestamp request) now;
        response = (\<lambda>m. \<lparr>ro_id = reading_id, ro_serial_number = serial, ro_kwh = rg_kwh request, ro_timestamp = timestamp,
          ro_minted = False, ro_tx_signature = None, ro_message = m\<rparr>)
    in case validate_reading serial request validation_config_default of
         Inl er \<Rightarrow> ret (response (''Oracle Validation Failed: '' @ er))
       | Inr _ \<Rightarrow>
          bnd (attempt (push_reading \<lparr>rt_serial = serial, rt_params = params, rt_request = request, rt_retry_count = 0\<rparr>)) (\<lambda>r.
          ret (response (case r of Inr _ \<Rightarrow> ''Reading queued for processing'' | Inl er \<Rightarrow> ''Failed to queue reading: '' @ api_display er)))))"

definition create_reading :: "env \<Rightarrow> string \<Rightarrow> create_reading_params \<Rightarrow> create_reading_request \<Rightarrow> (station, create_reading_response) io" where
  "create_reading e serial params request = internal_create_reading e serial params request"

text \<open>The readings of a batch are queued concurrently; here in the order of the batch.\<close>

definition batch_item :: "env \<Rightarrow> create_reading_request \<Rightarrow> (station, bool) io" where
  "batch_item e reading =
    (case (case rg_meter_serial reading of None \<Rightarrow> rg_meter_id reading | Some s \<Rightarrow> Some s) of
       Some serial \<Rightarrow> sq (ignore (internal_create_reading e serial \<lparr>rp_auto_mint = Some True, rp_timeout_secs = Some 30\<rparr> reading)) (ret True)
     | None \<Rightarrow> ret False)"

definition create_batch_readings :: "env \<Rightarrow> create_reading_request list \<Rightarrow> (station, nat \<times> nat) io" where
  "create_batch_readings e readings =
    bnd (map_each readings (batch_item e)) (\<lambda>results.
    ret (length (filter (\<lambda>r. r) results), length (filter (\<lambda>r. \<not> r) results)))"

subsection \<open>Minting\<close>

datatype mint_failure = MintTimeout | MintError string

text \<open>
  A call inside \<open>tokio::time::timeout\<close>: when its answer comes after the deadline, the call was made and its
  answer is lost.
\<close>

definition timed_call :: "env \<Rightarrow> u64 \<Rightarrow> string \<Rightarrow> chain_call \<Rightarrow> (string \<Rightarrow> (world, mint_failure + string) io) \<Rightarrow> (world, mint_failure + string) io" where
  "timed_call e t pre c k =
    (\<lambda>w. if \<not> in_time e (chain_log w) c t then (Ok (Inl MintTimeout), snd (call_str e c w))
         else bnd (attempt (call_str e c)) (\<lambda>r. case r of Inl er \<Rightarrow> ret (Inl (MintError (pre @ api_display er))) | Inr x \<Rightarrow> k x) w)"

definition mint_call :: "env \<Rightarrow> string \<Rightarrow> string \<Rightarrow> string \<Rightarrow> string \<Rightarrow> rat \<Rightarrow> chain_call" where
  "mint_call e authority ata wallet mint kwh =
    (if enable_real_blockchain e then MintEnergyTokens authority ata wallet mint kwh else MintSplTokens authority wallet mint kwh)"

definition mint_with_timeout :: "env \<Rightarrow> u64 \<Rightarrow> string \<Rightarrow> rat \<Rightarrow> (world, mint_failure + string) io" where
  "mint_with_timeout e timeout wallet kwh =
    (case authority_keypair e of
       None \<Rightarrow> ret (Inl (MintError ''Authority keypair error: Authority keypair not loaded. Call initialize_authority() first.''))
     | Some authority \<Rightarrow>
      (case parse_pubkey e (energy_token_mint e) of
         None \<Rightarrow> ret (Inl (MintError ''Invalid token mint: ''))
       | Some mint \<Rightarrow>
        (case parse_pubkey e wallet of
           None \<Rightarrow> ret (Inl (MintError ''Invalid wallet address: ''))
         | Some wallet_pubkey \<Rightarrow>
            timed_call e timeout ''Token account error: '' (EnsureTokenAccount authority wallet_pubkey mint) (\<lambda>ata.
            timed_call e timeout (if enable_real_blockchain e then ''Anchor Mint error: '' else ''CLI Mint error: '')
              (mint_call e authority ata wallet_pubkey mint kwh) (\<lambda>sig. ret (Inr sig))))))"

definition process_minting :: "env \<Rightarrow> u64 \<Rightarrow> string \<Rightarrow> rat \<Rightarrow> (world, bool \<times> string option \<times> string) io" where
  "process_minting e timeout wallet kwh =
    bnd (mint_with_timeout e timeout wallet kwh) (\<lambda>r.
    ret (case r of
        Inr sig \<Rightarrow> (True, Some sig, show_f64 e kwh @ '' kWh minted successfully'')
      | Inl (MintError m) \<Rightarrow> (False, None, ''Reading recorded but minting failed: '' @ m)
      | Inl MintTimeout \<Rightarrow> (False, None, ''Reading recorded but minting timed out'')))"

subsection \<open>Aggregation\<close>

text \<open>
  The upsert of \<open>meter_unminted_balances\<close>.  The amount is converted to \<open>NUMERIC(15,6)\<close>; a sum with a missing
  balance is missing; a result that does not fit is an error.
\<close>

definition new_balance :: "decimal \<Rightarrow> string \<Rightarrow> db \<Rightarrow> decimal option" where
  "new_balance x serial d = (case find_row ub_meter_serial serial (meter_unminted_balances d) of
      None \<Rightarrow> Some x | Some b \<Rightarrow> sql_add (ub_accumulated_kwh b) x)"

definition upsert_balance :: "decimal \<Rightarrow> string \<Rightarrow> db \<Rightarrow> db" where
  "upsert_balance x serial d =
    (if list_ex (\<lambda>b. ub_meter_serial b = serial) (meter_unminted_balances d)
     then d\<lparr>meter_unminted_balances := update_where (\<lambda>b. ub_meter_serial b = serial)
            (\<lambda>b. b\<lparr>ub_accumulated_kwh := sql_add (ub_accumulated_kwh b) x\<rparr>) (meter_unminted_balances d)\<rparr>
     else d\<lparr>meter_unminted_balances := meter_unminted_balances d @ [\<lparr>ub_meter_serial = serial, ub_accumulated_kwh = Some x, ub_last_mint_at = None\<rparr>]\<rparr>)"

definition accumulate :: "env \<Rightarrow> string \<Rightarrow> rat \<Rightarrow> (world, decimal option) io" where
  "accumulate e serial kwh =
    (case pg_numeric e 15 6 kwh of
       None \<Rightarrow> exec_returning (\<lambda>_. False) (\<lambda>d. d) (\<lambda>_. None)
     | Some x \<Rightarrow> exec_returning (\<lambda>d. length serial \<le> 100 \<and> pred_option (\<lambda>v. \<bar>v\<bar> < 10 ^ 9) (new_balance x serial d))
         (upsert_balance x serial) (\<lambda>d. Option.bind (find_row ub_meter_serial serial (meter_unminted_balances d)) ub_accumulated_kwh))"

definition reset_balance :: "string \<Rightarrow> time \<Rightarrow> db \<Rightarrow> db" where
  "reset_balance serial now d = d\<lparr>meter_unminted_balances := update_where (\<lambda>b. ub_meter_serial b = serial)
     (\<lambda>b. b\<lparr>ub_accumulated_kwh := Some 0, ub_last_mint_at := Some now\<rparr>) (meter_unminted_balances d)\<rparr>"

definition aggregate_and_mint :: "env \<Rightarrow> string \<Rightarrow> string \<Rightarrow> bool \<Rightarrow> u64 \<Rightarrow> rat \<Rightarrow> (world, bool \<times> string option \<times> string) io" where
  "aggregate_and_mint e serial wallet auto_mint timeout kwh =
    (if auto_mint \<and> kwh > 0 then
      bnd (attempt (accumulate e serial kwh)) (\<lambda>agg_result.
      case agg_result of
        Inl er \<Rightarrow> ret (False, None, ''Aggregation failed: '' @ sql_text er)
      | Inr accumulated_kwh \<Rightarrow>
         (let current_total = (case accumulated_kwh of None \<Rightarrow> 0 | Some b \<Rightarrow> dec_to_f64 e b) in
          if current_total \<ge> mint_threshold e then
            bnd (process_minting e timeout wallet current_total) (\<lambda>(m, sig, msg).
            if m then bnd get_clock (\<lambda>now. sq (ignore (exec (reset_balance serial now))) (ret (True, sig, msg)))
            else ret (False, None, ''Threshold reached but aggregation mint failed: '' @ msg))
          else ret (False, None, ''Energy aggregated'')))
     else ret (False, None, ''Reading recorded (auto_mint disabled or negative kwh)''))"

subsection \<open>Recording a reading\<close>

definition resolve_meter_context :: "string \<Rightarrow> string option \<Rightarrow> (world, uuid \<times> uuid \<times> string \<times> i32 option) io" where
  "resolve_meter_context serial request_wallet =
    bnd (anyhow_err ''Database lookup error: '' (query (\<lambda>d.
      Option.bind (find_row mr_meter_serial serial (meter_registry d)) (\<lambda>m.
        map_option (\<lambda>u. (mr_id m, mr_user_id m, wallet_address u, mr_zone_id m)) (users d (mr_user_id m)))))) (\<lambda>meter_info.
    case meter_info of
      Some (mid, uid, Some a, zid) \<Rightarrow> ret (mid, uid, a, zid)
    | Some (mid, uid, None, zid) \<Rightarrow> (case request_wallet of
          Some a \<Rightarrow> ret (mid, uid, a, zid)
        | None \<Rightarrow> fail (Anyhow ''Wallet address required (not found on user profile)''))
    | None \<Rightarrow> fail (Anyhow ''Meter not found''))"

definition positive_part :: "rat \<Rightarrow> rat" where
  "positive_part x = (if x > 0 then x else 0)"

definition negative_part :: "rat \<Rightarrow> rat" where
  "negative_part x = (if x < 0 then \<bar>x\<bar> else 0)"

text \<open>The numeric columns of a reading, each with its precision; \<open>None\<close> is an overflow.\<close>

definition numeric_column :: "env \<Rightarrow> nat \<Rightarrow> nat \<Rightarrow> rat option \<Rightarrow> decimal option option" where
  "numeric_column e p s x = (case x of None \<Rightarrow> Some None | Some v \<Rightarrow> map_option Some (pg_numeric e p s v))"

definition numerics_fit :: "env \<Rightarrow> create_reading_request \<Rightarrow> bool" where
  "numerics_fit e q \<longleftrightarrow>
     numeric_column e 12 4 (Some (rg_kwh q)) \<noteq> None
   \<and> numeric_column e 12 4 (Some (unwrap_or (rg_energy_generated q) (positive_part (rg_kwh q)))) \<noteq> None
   \<and> numeric_column e 12 4 (Some (unwrap_or (rg_energy_consumed q) (if rg_kwh q > 0 then 0 else \<bar>rg_kwh q\<bar>))) \<noteq> None
   \<and> numeric_column e 12 4 (Some (unwrap_or (rg_surplus_energy q) (positive_part (rg_kwh q)))) \<noteq> None
   \<and> numeric_column e 12 4 (Some (unwrap_or (rg_deficit_energy q) (negative_part (rg_kwh q)))) \<noteq> None
   \<and> numeric_column e 8 2 (rg_voltage q) \<noteq> None \<and> numeric_column e 5 2 (rg_temperature q) \<noteq> None \<and> numeric_column e 5 2 (rg_battery_level q) \<noteq> None"

definition reading_of :: "env \<Rightarrow> uuid \<Rightarrow> string \<Rightarrow> uuid \<Rightarrow> uuid \<Rightarrow> string \<Rightarrow> time \<Rightarrow> time \<Rightarrow> create_reading_request \<Rightarrow> bool \<Rightarrow> string option \<Rightarrow> f64_value \<Rightarrow> reading_row" where
  "reading_of e i serial meter user wallet timestamp now q minted sig health =
    (let num = (\<lambda>p s x. unwrap_or (numeric_column e p s x) None) in
     \<lparr> rd_id = i, rd_meter_serial = Some serial, rd_meter_id = Some meter, rd_user_id = Some user, rd_wallet_address = wallet,
       rd_timestamp = timestamp, rd_reading_timestamp = timestamp, rd_kwh_amount = num 12 4 (Some (rg_kwh q)),
       rd_energy_generated = num 12 4 (Some (unwrap_or (rg_energy_generated q) (positive_part (rg_kwh q)))),
       rd_energy_consumed = num 12 4 (Some (unwrap_or (rg_energy_consumed q) (if rg_kwh q > 0 then 0 else \<bar>rg_kwh q\<bar>))),
       rd_surplus_energy = num 12 4 (Some (unwrap_or (rg_surplus_energy q) (positive_part (rg_kwh q)))),
       rd_deficit_energy = num 12 4 (Some (unwrap_or (rg_deficit_energy q) (negative_part (rg_kwh q)))),
       rd_voltage = num 8 2 (rg_voltage q), rd_temperature = num 5 2 (rg_temperature q), rd_battery_level = num 5 2 (rg_battery_level q),
       rd_health_score = (case health of Finite h \<Rightarrow> Some h | _ \<Rightarrow> None),
       rd_extra = \<lparr> rx_current_amps = rg_current q, rx_power_factor = rg_power_factor q, rx_frequency = rg_frequency q,
         rx_thd_voltage = rg_thd_voltage q, rx_thd_current = rg_thd_current q, rx_latitude = rg_latitude q, rx_longitude = rg_longitude q,
         rx_weather_condition = rg_weather_condition q, rx_rec_eligible = Some (unwrap_or (rg_rec_eligible q) False),
         rx_carbon_offset = rg_carbon_offset q, rx_max_sell_price = rg_max_sell_price q, rx_max_buy_price = rg_max_buy_price q,
         rx_meter_signature = rg_meter_signature q, rx_meter_type = rg_meter_type q \<rparr>,
       rd_minted = Some minted, rd_mint_tx_signature = sig, rd_created_at = Some now \<rparr>)"

definition reading_fits :: "reading_row \<Rightarrow> db \<Rightarrow> bool" where
  "reading_fits r d \<longleftrightarrow>
     list_all (\<lambda>x. rd_id x \<noteq> rd_id r \<or> rd_reading_timestamp x \<noteq> rd_reading_timestamp r) (meter_readings d)
   \<and> (case rd_meter_id r of None \<Rightarrow> True | Some m \<Rightarrow> list_ex (\<lambda>x. mr_id x = m) (meter_registry d))
   \<and> (case rd_user_id r of None \<Rightarrow> True | Some u \<Rightarrow> users d u \<noteq> None)
   \<and> at_most 50 (rd_meter_serial r) \<and> length (rd_wallet_address r) \<le> 88 \<and> at_most 88 (rd_mint_tx_signature r)
   \<and> at_most 50 (rx_weather_condition (rd_extra r)) \<and> at_most 50 (rx_meter_type (rd_extra r))"

definition add_reading :: "reading_row \<Rightarrow> db \<Rightarrow> db" where
  "add_reading r d = d\<lparr>meter_readings := meter_readings d @ [r]\<rparr>"

definition persist_reading_to_db ::
  "env \<Rightarrow> uuid \<Rightarrow> string \<Rightarrow> uuid \<Rightarrow> uuid \<Rightarrow> string \<Rightarrow> time \<Rightarrow> create_reading_request \<Rightarrow> bool \<Rightarrow> string option \<Rightarrow> f64_value \<Rightarrow> (world, unit) io" where
  "persist_reading_to_db e i serial meter user wallet timestamp q minted sig health =
    bnd get_clock (\<lambda>now.
    let r = reading_of e i serial meter user wallet timestamp now q minted sig health
    in exec_chk (\<lambda>d. numerics_fit e q \<and> reading_fits r d) (add_reading r))"

subsection \<open>Orders from a reading\<close>

definition auto_order :: "env \<Rightarrow> uuid \<Rightarrow> uuid \<Rightarrow> OrderSide \<Rightarrow> decimal \<Rightarrow> decimal option \<Rightarrow> (world, unit) io" where
  "auto_order e user meter side amount price =
    (if amount > 0 then
      (case price of
         Some p \<Rightarrow> if p > 0 then ignore (create_order e user side Limit amount (Some p) None None (Some meter)) else ret ()
       | None \<Rightarrow> ret ())
     else ret ())"

definition spawned :: "('w, 'a) io \<Rightarrow> ('w, unit) io" where
  "spawned m = (\<lambda>w. (Ok (), snd (m w)))"

definition trigger_post_processing :: "env \<Rightarrow> uuid \<Rightarrow> uuid \<Rightarrow> rat \<Rightarrow> rat \<Rightarrow> rat option \<Rightarrow> rat option \<Rightarrow> (world, unit) io" where
  "trigger_post_processing e meter user surplus deficit max_sell_price max_buy_price =
    spawned (sq (auto_order e user meter Sell (dec_from_f64 e surplus) (map_option (dec_from_f64 e) max_sell_price))
                (auto_order e user meter Buy (dec_from_f64 e deficit) (map_option (dec_from_f64 e) max_buy_price)))"

subsection \<open>Processing a queued reading\<close>

definition power_val :: "create_reading_request \<Rightarrow> f64_value option" where
  "power_val q = (case rg_power q of
      Some p \<Rightarrow> Some (Finite p)
    | None \<Rightarrow> (case (rg_power_generated q, rg_power_consumed q) of
        (Some g, Some c) \<Rightarrow> Some (f64_sub (Finite g) (Finite c))
      | _ \<Rightarrow> (case (rg_voltage q, rg_current q) of
          (Some v, Some i) \<Rightarrow> Some (f64_div (f64_mul (f64_mul (Finite v) (Finite i)) (Finite (unwrap_or (rg_power_factor q) 1))) (Finite 1000))
        | _ \<Rightarrow> None)))"

definition power_gen :: "create_reading_request \<Rightarrow> f64_value" where
  "power_gen q = (case rg_power_generated q of Some g \<Rightarrow> Finite g
     | None \<Rightarrow> if rg_kwh q > 0 then unwrap_or (power_val q) (Finite 0) else Finite 0)"

definition power_cons :: "create_reading_request \<Rightarrow> f64_value" where
  "power_cons q = (case rg_power_consumed q of Some c \<Rightarrow> Finite c
     | None \<Rightarrow> if rg_kwh q < 0 then f64_abs (unwrap_or (power_val q) (Finite 0)) else Finite 0)"

text \<open>Steps 0 to 3, up to the stored reading.\<close>

definition record_reading :: "env \<Rightarrow> reading_task \<Rightarrow> (world, uuid \<times> uuid \<times> i32 option) io" where
  "record_reading e task =
    (let serial = rt_serial task; request = rt_request task;
         auto_mint = unwrap_or (rp_auto_mint (rt_params task)) True;
         timeout = unwrap_or (rp_timeout_secs (rt_params task)) 30
     in case validate_reading serial request validation_config_default of
          Inl er \<Rightarrow> fail (Anyhow (''Oracle Validation Failed: '' @ er))
        | Inr _ \<Rightarrow>
           bnd (resolve_meter_context serial (rg_wallet_address request)) (\<lambda>(meter_id, user_id, wallet, zone_id).
           bnd (aggregate_and_mint e serial wallet auto_mint timeout (rg_kwh request)) (\<lambda>(minted, tx_signature, _).
           bnd (fresh_uuid e) (\<lambda>reading_id.
           bnd get_clock (\<lambda>now.
           sq (anyhow_err ''Database error: '' (persist_reading_to_db e reading_id serial meter_id user_id wallet
                 (unwrap_or (rg_timestamp request) now) request minted tx_signature (calculate_health_score (reading_data_of request))))
              (ret (meter_id, user_id, zone_id)))))))"

definition update_grid :: "string \<Rightarrow> i32 option \<Rightarrow> create_reading_request \<Rightarrow> (station, unit) io" where
  "update_grid serial zone q = (\<lambda>s. (Ok (), s\<lparr>sn_grid :=
     handle_meter_reading (clock (sn_world s)) (rg_kwh q) serial zone (power_gen q) (power_cons q) (sn_grid s)\<rparr>))"

definition process_reading_task :: "env \<Rightarrow> reading_task \<Rightarrow> (station, unit) io" where
  "process_reading_task e task =
    (let request = rt_request task in
     bnd (on_world (record_reading e task)) (\<lambda>(meter_id, user_id, zone_id).
     sq (update_grid (rt_serial task) zone_id request)
        (on_world (trigger_post_processing e meter_id user_id
           (unwrap_or (rg_surplus_energy request) (positive_part (rg_kwh request)))
           (unwrap_or (rg_deficit_energy request) (negative_part (rg_kwh request)))
           (rg_max_sell_price request) (rg_max_buy_price request)))))"

subsection \<open>Workers\<close>

text \<open>
  One round of a worker.  Only the first worker reads the depth of the queue, for its metrics; the back-off is
  computed for the log only; a lost pop waits five seconds.
\<close>

definition worker_round :: "env \<Rightarrow> 32 word \<Rightarrow> (station, unit) io" where
  "worker_round e worker_id =
    sq (if worker_id = 0 then ignore get_queue_depth else ret ())
    (bnd (attempt pop_reading) (\<lambda>popped.
     case popped of
       Inr (Some task) \<Rightarrow>
         bnd (attempt (process_reading_task e task)) (\<lambda>r.
         case r of
           Inr _ \<Rightarrow> ret ()
         | Inl _ \<Rightarrow>
            (let task' = task\<lparr>rt_retry_count := rt_retry_count task + 1\<rparr> in
             if rt_retry_count task' < 3 then ignore (push_reading task') else ignore (push_to_dlq task')))
     | Inr None \<Rightarrow> ret ()
     | Inl _ \<Rightarrow> on_world (sleep 5)))"

subsection \<open>Minting a stored reading\<close>

definition check_admin_role :: "string \<Rightarrow> (world, unit) io" where
  "check_admin_role role = (if to_lower role \<noteq> ''admin'' then fail (Forbidden ''Access denied. Admin role required.'') else ret ())"

definition get_reading_by_id :: "uuid \<Rightarrow> (world, reading_row) io" where
  "get_reading_by_id i =
    bnd (map_err (\<lambda>_. Internal ''Database error'') (query (\<lambda>d. find_row rd_id i (meter_readings d)))) (\<lambda>r.
    ok_or r (NotFound ''Reading not found''))"

definition set_minted :: "uuid \<Rightarrow> string \<Rightarrow> db \<Rightarrow> db" where
  "set_minted i sig d = d\<lparr>meter_readings := update_where (\<lambda>r. rd_id r = i) (\<lambda>r. r\<lparr>rd_minted := Some True, rd_mint_tx_signature := Some sig\<rparr>) (meter_readings d)\<rparr>"

definition mark_as_minted :: "uuid \<Rightarrow> string \<Rightarrow> (world, unit) io" where
  "mark_as_minted i sig = map_err (\<lambda>_. Internal ''Failed to update reading status'') (exec_chk (\<lambda>_. length sig \<le> 88) (set_minted i sig))"

record mint_response =
  mp_message :: string
  mp_transaction_signature :: string
  mp_kwh_amount :: decimal
  mp_wallet_address :: string

text \<open>The part that the two handlers share, from the check of the flag on.\<close>

definition mint_reading :: "env \<Rightarrow> uuid \<Rightarrow> reading_row \<Rightarrow> (world, mint_response) io" where
  "mint_reading e i reading =
    (if unwrap_or (rd_minted reading) False then fail (BadRequest ''Reading has already been minted'')
     else
      bnd (ok_or (rd_kwh_amount reading) (Internal ''Missing kwh_amount'')) (\<lambda>kwh.
      bnd (ok_or (authority_keypair e) (Internal ''Failed to access blockchain'')) (\<lambda>authority.
      bnd (ok_or (parse_pubkey e (energy_token_mint e)) (Internal ''Invalid token mint: '')) (\<lambda>mint.
      bnd (ok_or (parse_pubkey e (rd_wallet_address reading)) (BadRequest ''Invalid wallet address: '')) (\<lambda>wallet.
      bnd (map_err (\<lambda>_. Internal ''Failed to create token account'') (call_str e (EnsureTokenAccount authority wallet mint))) (\<lambda>ata.
      bnd (map_err (\<lambda>er. Internal (''Blockchain minting failed: '' @ api_display er))
            (call_str e (mint_call e authority ata wallet mint (dec_to_f64 e kwh)))) (\<lambda>sig.
      sq (mark_as_minted i sig)
         (ret \<lparr>mp_message = ''Tokens minted successfully'', mp_transaction_signature = sig, mp_kwh_amount = kwh,
               mp_wallet_address = rd_wallet_address reading\<rparr>))))))))"

definition mint_from_reading :: "env \<Rightarrow> string \<Rightarrow> uuid \<Rightarrow> (world, mint_response) io" where
  "mint_from_reading e role i =
    sq (check_admin_role role) (bnd (get_reading_by_id i) (mint_reading e i))"

definition mint_user_reading :: "env \<Rightarrow> uuid \<Rightarrow> uuid \<Rightarrow> (world, mint_response) io" where
  "mint_user_reading e user i =
    bnd (get_reading_by_id i) (\<lambda>reading.
    bnd (ok_or (rd_user_id reading) (BadRequest ''Reading has no associated user'')) (\<lambda>owner.
    if owner \<noteq> user then fail (Forbidden ''You can only mint your own readings'')
    else mint_reading e i reading))"

subsection \<open>Balances\<close>

definition balance_of :: "string \<Rightarrow> db \<Rightarrow> decimal option" where
  "balance_of serial d = Option.bind (find_row ub_meter_serial serial (meter_unminted_balances d)) ub_accumulated_kwh"

lemma find_row_rewritten:
  assumes "\<And>r. key (g r) = key r"
  shows "find_row key s (update_where (\<lambda>r. key r = k) g rs) = (if s = k then map_option g (find_row key k rs) else find_row key s rs)"
  using assms by (induction rs) auto

lemma find_upsert:
  "find_row ub_meter_serial s (meter_unminted_balances (upsert_balance x serial d)) =
    (if s = serial then Some (case find_row ub_meter_serial serial (meter_unminted_balances d) of
         None \<Rightarrow> \<lparr>ub_meter_serial = serial, ub_accumulated_kwh = Some x, ub_last_mint_at = None\<rparr>
       | Some b \<Rightarrow> b\<lparr>ub_accumulated_kwh := sql_add (ub_accumulated_kwh b) x\<rparr>)
     else find_row ub_meter_serial s (meter_unminted_balances d))"
proof (cases "find_row ub_meter_serial serial (meter_unminted_balances d)")
  case None
  then have "\<not> list_ex (\<lambda>b. ub_meter_serial b = serial) (meter_unminted_balances d)" by (auto simp: list_ex_iff find_row_def find_None_iff)
  with None show ?thesis by (auto simp: upsert_balance_def find_row_append split: option.split)
next
  case (Some b)
  with find_row_Some [OF Some] have "list_ex (\<lambda>b. ub_meter_serial b = serial) (meter_unminted_balances d)" by (auto simp: list_ex_iff)
  with Some show ?thesis by (simp add: upsert_balance_def find_row_rewritten)
qed

lemma balance_upsert:
  "balance_of s (upsert_balance x serial d) = (if s = serial then new_balance x serial d else balance_of s d)"
  by (auto simp: balance_of_def find_upsert new_balance_def split: option.split)

lemma balance_reset:
  "balance_of s (reset_balance serial now d) =
    (if s = serial \<and> find_row ub_meter_serial serial (meter_unminted_balances d) \<noteq> None then Some 0 else balance_of s d)"
  by (auto simp: balance_of_def reset_balance_def find_row_rewritten)

lemma accumulate_calm:
  assumes "faults w = []" and "pg_numeric e 15 6 kwh = Some x" and "length serial \<le> 100"
    and "new_balance x serial (db w) = Some b" and "\<bar>b\<bar> < 10 ^ 9"
  shows "accumulate e serial kwh w = (Ok (Some b), w\<lparr>db := upsert_balance x serial (db w)\<rparr>)"
  using assms balance_upsert [of serial x serial "db w"]
  by (simp add: accumulate_def exec_returning_calm balance_of_def [symmetric])

subsection \<open>Minting calls\<close>

text \<open>What an attempt to mint does to the world: it only makes calls, and a success ends with the mint.\<close>

lemma timed_call_cases:
  "(\<exists>f. timed_call e t pre c k w = (Ok (Inl f), w\<lparr>chain_log := chain_log w @ [c]\<rparr>))
   \<or> (\<exists>x. timed_call e t pre c k w = k x (w\<lparr>chain_log := chain_log w @ [c]\<rparr>))"
  by (cases "chain_str e (chain_log w) c") (auto simp: timed_call_def bnd_app attempt_app call_str_def)

fun minted_amount :: "chain_call \<Rightarrow> rat option" where
  "minted_amount (MintEnergyTokens _ _ _ _ k) = Some k"
| "minted_amount (MintSplTokens _ _ _ k) = Some k"
| "minted_amount _ = None"

lemma minted_amount_call [simp]: "minted_amount (mint_call e a acc wp m kwh) = Some kwh"
  by (simp add: mint_call_def)

text \<open>The outcome of an attempt to mint, and the world after it.\<close>

definition mint_run :: "env \<Rightarrow> rat \<Rightarrow> world \<Rightarrow> (mint_failure + string) outcome \<times> world \<Rightarrow> bool" where
  "mint_run e kwh w res \<longleftrightarrow> (\<exists>calls. snd res = w\<lparr>chain_log := chain_log w @ calls\<rparr>
     \<and> ((\<exists>f. fst res = Ok (Inl f))
        \<or> (\<exists>sig c c'. fst res = Ok (Inr sig) \<and> calls = [c, c'] \<and> minted_amount c' = Some kwh)))"

lemma mint_run_refused: "mint_run e kwh w (Ok (Inl f), w)"
  by (auto simp: mint_run_def intro!: exI [of _ "[]"])

lemma mint_run_calls:
  "mint_run e kwh w (timed_call e t pre c (\<lambda>ata. timed_call e t pre' (mint_call e a ata p m kwh) (\<lambda>sig. ret (Inr sig))) w)"
proof -
  let ?k = "\<lambda>ata. timed_call e t pre' (mint_call e a ata p m kwh) (\<lambda>sig. ret (Inr sig))"
  let ?w = "w\<lparr>chain_log := chain_log w @ [c]\<rparr>"
  from timed_call_cases [of e t pre c ?k w] show ?thesis
  proof
    assume "\<exists>f. timed_call e t pre c ?k w = (Ok (Inl f), ?w)"
    then show ?thesis by (auto simp: mint_run_def)
  next
    assume "\<exists>x. timed_call e t pre c ?k w = ?k x ?w"
    then obtain x where x: "timed_call e t pre c ?k w = ?k x ?w" by blast
    have l: "?w\<lparr>chain_log := chain_log ?w @ [mint_call e a x p m kwh]\<rparr> = w\<lparr>chain_log := chain_log w @ [c, mint_call e a x p m kwh]\<rparr>" by simp
    from timed_call_cases [of e t pre' "mint_call e a x p m kwh" "\<lambda>sig. ret (Inr sig)" ?w]
    show ?thesis unfolding x mint_run_def l by (elim disjE exE) (auto simp: ret_def intro!: exI [of _ "[c, mint_call e a x p m kwh]"])
  qed
qed

lemma mint_with_timeout_run: "mint_run e kwh w (mint_with_timeout e t wallet kwh w)"
  by (auto simp: mint_with_timeout_def mint_run_refused mint_run_calls ret_def [of "Inl _"] split: option.split)

lemma process_minting_cases:
  obtains (failed) calls msg where "process_minting e t wallet kwh w = (Ok (False, None, msg), w\<lparr>chain_log := chain_log w @ calls\<rparr>)"
  | (minted) sig msg c c' where "process_minting e t wallet kwh w = (Ok (True, Some sig, msg), w\<lparr>chain_log := chain_log w @ [c, c']\<rparr>)"
      and "minted_amount c' = Some kwh"
proof -
  obtain r w' where m: "mint_with_timeout e t wallet kwh w = (r, w')" by (cases "mint_with_timeout e t wallet kwh w")
  with mint_with_timeout_run [of e kwh w t wallet] have "mint_run e kwh w (r, w')" by simp
  then consider (a) calls f where "r = Ok (Inl f)" "w' = w\<lparr>chain_log := chain_log w @ calls\<rparr>"
    | (b) sig c c' where "r = Ok (Inr sig)" "w' = w\<lparr>chain_log := chain_log w @ [c, c']\<rparr>" "minted_amount c' = Some kwh"
    by (auto simp: mint_run_def)
  then show thesis
  proof cases
    case a
    with m failed show ?thesis by (cases f) (auto simp: process_minting_def bnd_app ret_def)
  next
    case b
    with m minted show ?thesis by (auto simp: process_minting_def bnd_app ret_def)
  qed
qed

subsection \<open>Energy is minted or kept\<close>


definition plain_request :: "rat \<Rightarrow> create_reading_request" where
  "plain_request kwh =
    \<lparr> rg_kwh = kwh, rg_timestamp = Some 500, rg_wallet_address = None, rg_meter_id = None, rg_meter_serial = None, rg_meter_type = None,
      rg_energy_generated = None, rg_energy_consumed = None, rg_surplus_energy = None, rg_deficit_energy = None,
      rg_voltage = None, rg_current = None, rg_power = None, rg_power_generated = None, rg_power_consumed = None,
      rg_power_factor = None, rg_frequency = None, rg_temperature = None, rg_thd_voltage = None, rg_thd_current = None,
      rg_latitude = None, rg_longitude = None, rg_battery_level = None, rg_weather_condition = None, rg_zone_id = None,
      rg_rec_eligible = None, rg_carbon_offset = None, rg_max_sell_price = None, rg_max_buy_price = None, rg_meter_signature = None \<rparr>"

definition task_of :: "string \<Rightarrow> create_reading_request \<Rightarrow> reading_task" where
  "task_of serial q = \<lparr>rt_serial = serial, rt_params = \<lparr>rp_auto_mint = None, rp_timeout_secs = None\<rparr>, rt_request = q, rt_retry_count = 0\<rparr>"

definition station_of :: "db \<Rightarrow> reading_task list \<Rightarrow> station" where
  "station_of d ts = \<lparr>sn_world = calm_world d, sn_grid = dashboard_new 0, sn_queue = ts, sn_dlq = [], sn_redis = []\<rparr>"

lemma std_numeric:
  "pg_numeric std_env 15 6 3 = Some 3" "pg_numeric std_env 15 6 6 = Some 6" "pg_numeric std_env 12 4 3 = Some 3" "pg_numeric std_env 12 4 0 = Some 0"
  "pg_numeric std_env 5 2 1000 = None"
  unfolding std_env_simps by code_simp+


text \<open>
  A mint whose answer comes after the deadline counts as failed, although the call was made: the whole
  balance stays and is minted again with the next reading.
\<close>

theorem timed_out_mint_stays_unminted:
  assumes "faults w = []" and "0 < kwh" and "pg_numeric e 15 6 kwh = Some x" and "length serial \<le> 100"
    and "new_balance x serial (db w) = Some b" and "\<bar>b\<bar> < 10 ^ 9" and "mint_threshold e \<le> dec_to_f64 e b"
    and "authority_keypair e = Some a" and "parse_pubkey e (energy_token_mint e) = Some m" and "parse_pubkey e wallet = Some p"
    and "chain_str e (chain_log w) (EnsureTokenAccount a p m) = Inr ata" and "in_time e (chain_log w) (EnsureTokenAccount a p m) t"
    and "\<not> in_time e (chain_log w @ [EnsureTokenAccount a p m]) (mint_call e a ata p m (dec_to_f64 e b)) t"
  shows "minted_amount (last (chain_log (snd (aggregate_and_mint e serial wallet True t kwh w)))) = Some (dec_to_f64 e b)
    \<and> balance_of serial (db (snd (aggregate_and_mint e serial wallet True t kwh w))) = Some b"
proof -
  let ?w = "w\<lparr>db := upsert_balance x serial (db w)\<rparr>"
  have "process_minting e t wallet (dec_to_f64 e b) ?w = (Ok (False, None, ''Reading recorded but minting timed out''),
    ?w\<lparr>chain_log := chain_log w @ [EnsureTokenAccount a p m, mint_call e a ata p m (dec_to_f64 e b)]\<rparr>)"
    using assms(8-13) by (simp add: process_minting_def mint_with_timeout_def timed_call_def bnd_app attempt_app call_str_def)
  then show ?thesis
    using assms(2,5,7) accumulate_calm [OF assms(1,3-6)]
    by (simp add: aggregate_and_mint_def bnd_app attempt_app balance_upsert)
qed

subsection \<open>Readings are stored once\<close>

definition stores :: "(reading_row \<Rightarrow> bool) \<Rightarrow> (world, 'a) io \<Rightarrow> bool" where
  "stores P m \<longleftrightarrow> (\<forall>w. case m w of
      (Ok _, w') \<Rightarrow> \<exists>row. P row \<and> meter_readings (db w') = meter_readings (db w) @ [row]
    | (_, w') \<Rightarrow> meter_readings (db w') = meter_readings (db w))"

definition keeps_readings :: "(world, 'a) io \<Rightarrow> bool" where
  "keeps_readings m \<longleftrightarrow> (\<forall>rs. keeps_db (\<lambda>d. meter_readings d = rs) m)"

lemma keeps_readingsD: "keeps_readings m \<Longrightarrow> m w = (r, w') \<Longrightarrow> meter_readings (db w') = meter_readings (db w)"
  by (auto simp: keeps_readings_def dest: keeps_dbE)

lemma stores_bnd:
  assumes "keeps_readings m" and "\<And>x. stores P (k x)"
  shows "stores P (bnd m k)"
  unfolding stores_def
proof
  fix w
  obtain r w1 where m: "m w = (r, w1)" by (cases "m w")
  have same: "meter_readings (db w1) = meter_readings (db w)" by (rule keeps_readingsD [OF assms(1) m])
  show "case bnd m k w of (Ok _, w') \<Rightarrow> \<exists>row. P row \<and> meter_readings (db w') = meter_readings (db w) @ [row] | (_, w') \<Rightarrow> meter_readings (db w') = meter_readings (db w)"
  proof (cases r)
    case (Ok x)
    from assms(2) [of x, unfolded stores_def, THEN spec, of w1] m Ok same show ?thesis
      by (auto simp: bnd_app split: prod.splits outcome.splits)
  qed (use m same in \<open>simp_all add: bnd_app\<close>)
qed

lemma stores_fail: "stores P (fail er)"
  by (simp add: stores_def)

lemma stores_sq_ret: "stores P m \<Longrightarrow> stores P (sq m (ret x))"
  by (fastforce simp: stores_def sq_app split: prod.splits outcome.splits)

lemma stores_anyhow: "stores P m \<Longrightarrow> stores P (anyhow_err pre m)"
  by (fastforce simp: stores_def anyhow_err_app split: prod.splits outcome.splits)

lemma stores_persist:
  assumes "\<And>now. P (reading_of e i s m u a t now q mi sg h)"
  shows "stores P (persist_reading_to_db e i s m u a t q mi sg h)"
  using assms by (auto simp: stores_def persist_reading_to_db_def bnd_app get_clock_app exec_chk_def add_reading_def Let_def split: option.split)

lemma timed_call_keeps: "(\<And>x. keeps_db I (k x)) \<Longrightarrow> keeps_db I (timed_call e t pre c k)"
proof -
  assume k: "\<And>x. keeps_db I (k x)"
  have "keeps_db I (bnd (attempt (call_str e c)) (\<lambda>r. case r of Inl er \<Rightarrow> ret (Inl (MintError (pre @ api_display er))) | Inr x \<Rightarrow> k x))"
    by (intro keeps_db_intros k)
  then show ?thesis unfolding keeps_db_def keeps_def timed_call_def by (auto simp: call_str_def)
qed

lemma minting_keeps: "keeps_db I (process_minting e t wallet kwh)"
  unfolding process_minting_def mint_with_timeout_def by (intro keeps_db_intros timed_call_keeps)

lemma aggregate_keeps_readings: "keeps_readings (aggregate_and_mint e s a am t kwh)"
  unfolding keeps_readings_def aggregate_and_mint_def accumulate_def Let_def
  by (intro allI keeps_db_intros minting_keeps) (simp_all add: upsert_balance_def reset_balance_def)

lemma resolve_keeps_readings: "keeps_readings (resolve_meter_context s a)"
  unfolding keeps_readings_def resolve_meter_context_def by (intro allI keeps_db_intros)

lemma keeps_readings_basic: "keeps_readings (fresh_uuid e)" "keeps_readings get_clock"
  unfolding keeps_readings_def by (intro allI keeps_db_intros)+

text \<open>The stored row: the serial of the task, the amount as the column holds it, and the flag of the minting step.\<close>

definition row_of_task :: "env \<Rightarrow> reading_task \<Rightarrow> reading_row \<Rightarrow> bool" where
  "row_of_task e t row \<longleftrightarrow> rd_meter_serial row = Some (rt_serial t) \<and> rd_kwh_amount row = pg_numeric e 12 4 (rg_kwh (rt_request t))
     \<and> rd_minted row \<noteq> None \<and> (\<exists>h. rd_health_score row = Some h \<and> 0 \<le> h \<and> h \<le> 100)"

lemma row_of_task_reading:
  "row_of_task e t (reading_of e i (rt_serial t) m u a ts now (rt_request t) mi sg (calculate_health_score (reading_data_of (rt_request t))))"
  using health_score_finite [of "reading_data_of (rt_request t)"]
  by (auto simp: row_of_task_def reading_of_def numeric_column_def Let_def unwrap_or_def split: option.split)

lemma record_reading_stores: "stores (row_of_task e t) (record_reading e t)"
proof -
  have "stores (row_of_task e t) (case p of (a, b) \<Rightarrow> k a b)" if "\<And>a b. stores (row_of_task e t) (k a b)"
    for p :: "'x \<times> 'y" and k :: "'x \<Rightarrow> 'y \<Rightarrow> (world, 'z) io"
    using that by (cases p) simp
  note split = this
  show ?thesis
    unfolding record_reading_def Let_def
    by (cases "validate_reading (rt_serial t) (rt_request t) validation_config_default")
      (simp_all only: sum.case, intro stores_fail, intro stores_bnd stores_sq_ret stores_anyhow stores_persist row_of_task_reading
        aggregate_keeps_readings resolve_keeps_readings keeps_readings_basic split stores_fail)
qed

text \<open>Placing orders does not touch the readings.\<close>

interpretation readings_kept: trading_tables "\<lambda>d. meter_readings d = rs" for rs
  by unfold_locales (simp_all add: upd_user_def add_order_def add_epoch_def add_settlement_def)

lemma spawned_keeps: "keeps_db I m \<Longrightarrow> keeps_db I (spawned m)"
  by (auto simp: spawned_def keeps_db_def keeps_def)

lemma post_processing_keeps_readings: "keeps_readings (trigger_post_processing e m u s d ps pb)"
  unfolding keeps_readings_def trigger_post_processing_def auto_order_def
  by (intro allI spawned_keeps keeps_db_intros readings_kept.create_order_keeps)

lemma post_processing_Ok: "fst (trigger_post_processing e m u s d ps pb w) = Ok ()"
  by (simp add: trigger_post_processing_def spawned_def)

lemma no_panic_more [no_panic_intros]: "no_panic (exec_returning ok f q)" "no_panic m \<Longrightarrow> no_panic (anyhow_err pre m)"
  by (auto simp: no_panic_def exec_returning_def exec_chk_def anyhow_err_app split: option.split prod.split outcome.split)
    (metis fst_conv)

lemma timed_call_no_panic: "(\<And>x. no_panic (k x)) \<Longrightarrow> no_panic (timed_call e t pre c k)"
proof -
  assume k: "\<And>x. no_panic (k x)"
  have "no_panic (bnd (attempt (call_str e c)) (\<lambda>r. case r of Inl er \<Rightarrow> ret (Inl (MintError (pre @ api_display er))) | Inr x \<Rightarrow> k x))"
    by (intro no_panic_intros k)
  then show ?thesis unfolding no_panic_def timed_call_def by auto
qed

lemma record_reading_no_panic: "no_panic (record_reading e t)"
  unfolding record_reading_def resolve_meter_context_def aggregate_and_mint_def accumulate_def process_minting_def mint_with_timeout_def
    persist_reading_to_db_def Let_def
  by (intro no_panic_intros timed_call_no_panic)

lemma process_reading_task_cases:
  obtains (stored) row s' where "process_reading_task e t s = (Ok (), s')" and "row_of_task e t row"
      and "meter_readings (db (sn_world s')) = meter_readings (db (sn_world s)) @ [row]"
      and "validate_reading (rt_serial t) (rt_request t) validation_config_default = Inr ()"
      and "sn_queue s' = sn_queue s" and "sn_dlq s' = sn_dlq s" and "sn_redis s' = sn_redis s"
  | (refused) er w' where "process_reading_task e t s = (Err er, s\<lparr>sn_world := w'\<rparr>)"
      and "meter_readings (db w') = meter_readings (db (sn_world s))"
proof -
  obtain r w1 where run: "record_reading e t (sn_world s) = (r, w1)" by (cases "record_reading e t (sn_world s)")
  note st = record_reading_stores [of e t, unfolded stores_def, THEN spec, of "sn_world s", unfolded run]
  show thesis
  proof (cases r)
    case Panic
    then show ?thesis using no_panicD [OF record_reading_no_panic, of e t "sn_world s"] run by simp
  next
    case (Err er)
    with run have "process_reading_task e t s = (Err er, s\<lparr>sn_world := w1\<rparr>)"
      by (simp add: process_reading_task_def bnd_app on_world_def Let_def)
    with st Err show ?thesis using refused by simp
  next
    case (Ok x)
    obtain m u z where x: "x = (m, u, z)" by (cases x)
    let ?q = "rt_request t"
    let ?tp = "trigger_post_processing e m u (unwrap_or (rg_surplus_energy ?q) (positive_part (rg_kwh ?q)))
      (unwrap_or (rg_deficit_energy ?q) (negative_part (rg_kwh ?q))) (rg_max_sell_price ?q) (rg_max_buy_price ?q)"
    obtain w2 where w2: "?tp w1 = (Ok (), w2)" using post_processing_Ok by (metis prod.collapse)
    have "meter_readings (db w2) = meter_readings (db w1)" by (rule keeps_readingsD [OF post_processing_keeps_readings w2])
    moreover obtain s' where "process_reading_task e t s = (Ok (), s')" "sn_world s' = w2" "sn_queue s' = sn_queue s" "sn_dlq s' = sn_dlq s" "sn_redis s' = sn_redis s"
      using run Ok w2 x by (simp add: process_reading_task_def bnd_app sq_app on_world_def update_grid_def Let_def)
    moreover have "validate_reading (rt_serial t) ?q validation_config_default = Inr ()"
      using run Ok by (auto simp: record_reading_def Let_def split: sum.splits)
    ultimately show ?thesis using st Ok stored by auto
  qed
qed

text \<open>
  C14. Processing a queued reading is all or nothing for the readings table.  For every station and every
  pattern of lost statements and refused blockchain calls, \<open>process_reading_task\<close> either succeeds and has added
  exactly one reading, with the serial of the task, the amount as its column holds it and a health score
  between 0 and 100, and the reading had passed the oracle; or it returns an error, has added no reading
  and left the live grid status as it was.  It never panics.
\<close>

theorem reading_stored_once:
  "(\<exists>row s'. process_reading_task e t s = (Ok (), s') \<and> row_of_task e t row
      \<and> meter_readings (db (sn_world s')) = meter_readings (db (sn_world s)) @ [row]
      \<and> validate_reading (rt_serial t) (rt_request t) validation_config_default = Inr ())
   \<or> (\<exists>er s'. process_reading_task e t s = (Err er, s') \<and> meter_readings (db (sn_world s')) = meter_readings (db (sn_world s))
        \<and> sn_grid s' = sn_grid s)"
  by (cases rule: process_reading_task_cases [of e t s]) auto

subsection \<open>The workers empty the queue\<close>

text \<open>The rounds of several workers, in the order in which they pop.\<close>

definition rounds :: "env \<Rightarrow> 32 word list \<Rightarrow> station \<Rightarrow> station" where
  "rounds e ids s = fold (\<lambda>i s. snd (worker_round e i s)) ids s"

text \<open>The attempts that a task has left, and the sum over the queue.\<close>

definition attempts_left :: "reading_task \<Rightarrow> nat" where
  "attempts_left t = 3 - unat (rt_retry_count t)"

definition budget :: "station \<Rightarrow> nat" where
  "budget s = sum_list (map attempts_left (sn_queue s))"

definition queue_ok :: "station \<Rightarrow> bool" where
  "queue_ok s \<longleftrightarrow> sn_redis s = [] \<and> list_all (\<lambda>t. rt_retry_count t < 3) (sn_queue s)"

lemma retry_cases:
  assumes "rt_retry_count t < 3"
  shows "attempts_left t \<noteq> 0" and "rt_retry_count t + 1 < 3 \<Longrightarrow> attempts_left (t\<lparr>rt_retry_count := rt_retry_count t + 1\<rparr>) < attempts_left t"
    and "\<not> rt_retry_count t + 1 < 3 \<Longrightarrow> rt_retry_count t + 1 = 3"
proof -
  have u: "unat (rt_retry_count t) < 3" using assms by (simp add: word_less_nat_alt)
  then show "attempts_left t \<noteq> 0" by (simp add: attempts_left_def)
  have s: "unat (rt_retry_count t + 1) = unat (rt_retry_count t) + 1" using u by (simp add: unat_add_lem [THEN iffD1] unat_word_ariths)
  show "attempts_left (t\<lparr>rt_retry_count := rt_retry_count t + 1\<rparr>) < attempts_left t" if "rt_retry_count t + 1 < 3"
    using u s by (simp add: attempts_left_def)
  show "rt_retry_count t + 1 = 3" if "\<not> rt_retry_count t + 1 < 3"
    using that u s by (simp add: word_less_nat_alt word_unat_eq_iff)
qed

lemma pop_last: "sn_redis s = [] \<Longrightarrow> sn_queue s = q @ [t] \<Longrightarrow> pop_reading s = (Ok (Some t), s\<lparr>sn_queue := q, sn_redis := []\<rparr>)"
  by (simp add: pop_reading_def redis_def Let_def)

lemma push_calm: "sn_redis s = [] \<Longrightarrow> push_reading t s = (Ok (), s\<lparr>sn_queue := t # sn_queue s, sn_redis := []\<rparr>)"
  "sn_redis s = [] \<Longrightarrow> push_to_dlq t s = (Ok (), s\<lparr>sn_dlq := t # sn_dlq s, sn_redis := []\<rparr>)"
  by (simp_all add: push_reading_def push_to_dlq_def redis_def Let_def)

lemma depth_calm: "sn_redis s = [] \<Longrightarrow> (if c then ignore get_queue_depth else ret ()) s = (Ok (), s)"
  by (simp add: get_queue_depth_def redis_def ignore_app Let_def)

lemma worker_round_idle: "sn_redis s = [] \<Longrightarrow> sn_queue s = [] \<Longrightarrow> worker_round e i s = (Ok (), s)"
  by (simp add: worker_round_def sq_app depth_calm pop_reading_def redis_def bnd_app attempt_app Let_def)

lemma worker_round_task:
  assumes "sn_redis s = []" and "sn_queue s = q @ [t]"
  shows "\<exists>s'. worker_round e i s = (Ok (), s') \<and> sn_redis s' = []
    \<and> (sn_queue s' = q \<and> sn_dlq s' = sn_dlq s
      \<or> rt_retry_count t + 1 < 3 \<and> sn_queue s' = t\<lparr>rt_retry_count := rt_retry_count t + 1\<rparr> # q \<and> sn_dlq s' = sn_dlq s
      \<or> \<not> rt_retry_count t + 1 < 3 \<and> sn_queue s' = q \<and> sn_dlq s' = t\<lparr>rt_retry_count := rt_retry_count t + 1\<rparr> # sn_dlq s)"
proof -
  let ?s = "s\<lparr>sn_queue := q, sn_redis := []\<rparr>"
  show ?thesis
  proof (cases rule: process_reading_task_cases [of e t ?s])
    case (stored row s')
    then have "worker_round e i s = (Ok (), s')" using pop_last [OF assms] assms(1) by (simp add: worker_round_def sq_app depth_calm bnd_app attempt_app)
    with stored show ?thesis by auto
  next
    case (refused er w')
    then show ?thesis
      using pop_last [OF assms] assms(1) by (auto simp: worker_round_def sq_app depth_calm bnd_app attempt_app push_calm ignore_app Let_def)
  qed
qed

lemma worker_round_progress:
  assumes "queue_ok s" and "sn_queue s \<noteq> []"
  shows "queue_ok (snd (worker_round e i s))" and "budget (snd (worker_round e i s)) < budget s"
    and "set (sn_dlq (snd (worker_round e i s))) \<subseteq> set (sn_dlq s) \<union> {t. rt_retry_count t = 3}"
proof -
  obtain q t where q: "sn_queue s = q @ [t]" using assms(2) by (metis rev_exhaust)
  have r: "sn_redis s = []" and t: "rt_retry_count t < 3" and all: "list_all (\<lambda>t. rt_retry_count t < 3) q"
    using assms(1) q by (auto simp: queue_ok_def)
  from worker_round_task [OF r q, of e i] obtain s' where s': "worker_round e i s = (Ok (), s')" "sn_redis s' = []"
    and c: "sn_queue s' = q \<and> sn_dlq s' = sn_dlq s
      \<or> rt_retry_count t + 1 < 3 \<and> sn_queue s' = t\<lparr>rt_retry_count := rt_retry_count t + 1\<rparr> # q \<and> sn_dlq s' = sn_dlq s
      \<or> \<not> rt_retry_count t + 1 < 3 \<and> sn_queue s' = q \<and> sn_dlq s' = t\<lparr>rt_retry_count := rt_retry_count t + 1\<rparr> # sn_dlq s" by blast
  show "queue_ok (snd (worker_round e i s))" using s' c all by (auto simp: queue_ok_def)
  show "budget (snd (worker_round e i s)) < budget s" using s'(1) c retry_cases [OF t] q by (auto simp: budget_def)
  show "set (sn_dlq (snd (worker_round e i s))) \<subseteq> set (sn_dlq s) \<union> {t. rt_retry_count t = 3}"
    using s'(1) c retry_cases(3) [OF t] by auto
qed

lemma rounds_idle: "sn_redis s = [] \<Longrightarrow> sn_queue s = [] \<Longrightarrow> rounds e ids s = s"
  unfolding rounds_def by (induction ids) (simp_all add: worker_round_idle)

lemma rounds_drain:
  "queue_ok s \<Longrightarrow> budget s \<le> length ids \<Longrightarrow>
    sn_queue (rounds e ids s) = [] \<and> set (sn_dlq (rounds e ids s)) \<subseteq> set (sn_dlq s) \<union> {t. rt_retry_count t = 3}"
proof (induction ids arbitrary: s)
  case Nil
  then have "sn_queue s = []" using retry_cases(1) by (cases "sn_queue s") (auto simp: queue_ok_def budget_def)
  then show ?case by (simp add: rounds_def)
next
  case (Cons i ids)
  show ?case
  proof (cases "sn_queue s = []")
    case True
    with Cons.prems rounds_idle [of s e "i # ids"] show ?thesis by (auto simp: queue_ok_def)
  next
    case False
    note p = worker_round_progress [OF Cons.prems(1) False, of e i]
    have "rounds e (i # ids) s = rounds e ids (snd (worker_round e i s))" by (simp add: rounds_def)
    with Cons.IH [OF p(1)] p(2,3) Cons.prems(2) show ?thesis by fastforce
  qed
qed

lemma budget_bound: "budget s \<le> 3 * length (sn_queue s)"
proof -
  have "sum_list (map attempts_left ts) \<le> 3 * length ts" for ts
    by (induction ts) (auto simp: attempts_left_def)
  then show ?thesis by (simp add: budget_def)
qed



subsection \<open>Minting a stored reading\<close>

lemma mint_reading_OkE:
  assumes "mint_reading e i r w = (Ok x, w')"
  obtains c c' sig kwh where "\<not> unwrap_or (rd_minted r) False" and "rd_kwh_amount r = Some kwh" and "minted_amount c' = Some (dec_to_f64 e kwh)"
    and "chain_log w' = chain_log w @ [c, c']" and "db w' = set_minted i sig (db w)"
    and "mp_kwh_amount x = kwh" and "mp_wallet_address x = rd_wallet_address r" and "mp_transaction_signature x = sig"
  using assms
  by (auto simp: mint_reading_def mark_as_minted_def ok_or_def call_str_def statement_Ok ret_def
      split: if_splits option.splits sum.splits elim!: bnd_OkE sq_OkE)

lemma minted_reading_refused:
  assumes "find_row rd_id i (meter_readings (db w)) = Some r" and "rd_minted r = Some True"
  shows "\<not> is_ok (mint_user_reading e u i w) \<and> chain_log (snd (mint_user_reading e u i w)) = chain_log w
    \<and> \<not> is_ok (mint_from_reading e role i w) \<and> chain_log (snd (mint_from_reading e role i w)) = chain_log w"
proof -
  have m: "mint_reading e i r v = (Err (BadRequest ''Reading has already been minted''), v)" for v
    using assms(2) by (simp add: mint_reading_def)
  have g: "get_reading_by_id i w = (case faulty w of None \<Rightarrow> (Ok r, tick w) | Some _ \<Rightarrow> (Err (Internal ''Database error''), tick w))"
    using assms(1) by (simp add: get_reading_by_id_def bnd_app map_err_app query_def ok_or_def split: option.split)
  show ?thesis
    by (cases "faulty w"; cases "rd_user_id r")
      (auto simp: mint_user_reading_def mint_from_reading_def check_admin_role_def bnd_app sq_app g m ok_or_def is_ok_def)
qed

text \<open>
  C15. A stored reading is minted once.  When a user's call to mint a reading succeeds, the reading was the
  user's own and not minted, exactly its amount was minted with the second of two calls to the
  blockchain, and the reading is marked; from then on, for every caller and every administrator, and whatever
  happens to the connection, a call to mint it again fails before it calls the blockchain.
\<close>

theorem reading_minted_once:
  assumes "mint_user_reading e u i w = (Ok x, w')" and "db w2 = db w'"
  shows "(\<exists>r c c' kwh. find_row rd_id i (meter_readings (db w)) = Some r \<and> rd_user_id r = Some u \<and> \<not> unwrap_or (rd_minted r) False
      \<and> rd_kwh_amount r = Some kwh \<and> chain_log w' = chain_log w @ [c, c'] \<and> minted_amount c' = Some (dec_to_f64 e kwh))
    \<and> \<not> is_ok (mint_user_reading e v i w2) \<and> chain_log (snd (mint_user_reading e v i w2)) = chain_log w2
    \<and> \<not> is_ok (mint_from_reading e role i w2) \<and> chain_log (snd (mint_from_reading e role i w2)) = chain_log w2"
proof -
  from assms(1) obtain r where r: "find_row rd_id i (meter_readings (db w)) = Some r" "rd_user_id r = Some u"
    and m: "mint_reading e i r (tick w) = (Ok x, w')"
    by (auto simp: mint_user_reading_def get_reading_by_id_def ok_or_def query_Ok map_err_Ok ret_def split: if_splits option.splits elim!: bnd_OkE)
  from m obtain c c' sig kwh where c: "\<not> unwrap_or (rd_minted r) False" "rd_kwh_amount r = Some kwh" "minted_amount c' = Some (dec_to_f64 e kwh)"
    "chain_log w' = chain_log (tick w) @ [c, c']" "db w' = set_minted i sig (db (tick w))" by (rule mint_reading_OkE)
  have "find_row rd_id i (meter_readings (db w2)) = Some (r\<lparr>rd_minted := Some True, rd_mint_tx_signature := Some sig\<rparr>)"
    using assms(2) c(5) r(1) by (simp add: set_minted_def find_row_rewritten)
  from minted_reading_refused [OF this] r c show ?thesis by auto
qed

definition meter_db :: db where
  "meter_db = registry_db [registered ''M-001'' ''verified'']"

definition stored_reading :: "uuid \<Rightarrow> rat \<Rightarrow> bool \<Rightarrow> reading_row" where
  "stored_reading i kwh minted = reading_of std_env i ''M-001'' 5 1 ''wallet'' 500 1000 (plain_request kwh) minted None (Finite 50)"

lemma stored_reading_simps:
  "rd_id (stored_reading i 3 m) = i" "rd_user_id (stored_reading i 3 m) = Some 1" "rd_minted (stored_reading i 3 m) = Some m"
  "rd_kwh_amount (stored_reading i 3 m) = Some 3" "rd_wallet_address (stored_reading i 3 m) = ''wallet''"
  using std_numeric(3) by (simp_all add: stored_reading_def reading_of_def plain_request_def numeric_column_def Let_def)

lemma mint_sample:
  assumes "chain_log w = l" and "faults w = []" and "find_row rd_id i (meter_readings (db w)) = Some (stored_reading i 3 False)"
  shows "\<exists>x w'. mint_user_reading std_env 1 i w = (Ok x, w')"
  using assms by (simp add: mint_user_reading_def get_reading_by_id_def mint_reading_def mark_as_minted_def stored_reading_simps ok_or_def io_simps
      call_str_def std_env_def)

theorem reading_minted_once_witness:
  "\<not> is_ok (mint_user_reading std_env 1 9 (snd (mint_user_reading std_env 1 9 (calm_world (meter_db\<lparr>meter_readings := [stored_reading 9 3 False]\<rparr>)))))"
proof -
  let ?w = "calm_world (meter_db\<lparr>meter_readings := [stored_reading 9 3 False]\<rparr>)"
  obtain x w' where "mint_user_reading std_env 1 9 ?w = (Ok x, w')"
    using mint_sample [of ?w "[]" 9] by (auto simp: stored_reading_simps)
  with reading_minted_once [OF this refl] show ?thesis by simp
qed

text \<open>
  A reading that was aggregated keeps its own flag: after a second reading reached the threshold and the
  sum of both was minted, the first one can still be minted by its owner.
\<close>

lemma auto_order_unpriced: "auto_order e u m sd x None = ret ()"
  by (simp add: auto_order_def)

lemma process_plain:
  assumes "record_reading e t (sn_world s) = (Ok (m, u, z), w')" and "rg_max_sell_price (rt_request t) = None" and "rg_max_buy_price (rt_request t) = None"
  shows "fst (process_reading_task e t s) = Ok ()" and "sn_world (snd (process_reading_task e t s)) = w'"
  using assms by (simp_all add: process_reading_task_def bnd_app sq_app on_world_def update_grid_def trigger_post_processing_def spawned_def auto_order_unpriced Let_def)

lemma plain_request_simps:
  "rg_kwh (plain_request k) = k" "rg_timestamp (plain_request k) = Some 500" "rg_wallet_address (plain_request k) = None"
  "rg_max_sell_price (plain_request k) = None" "rg_max_buy_price (plain_request k) = None"
  "calculate_health_score (reading_data_of (plain_request k)) = Finite 50"
  by (simp_all add: plain_request_def reading_data_of_def calculate_health_score_def add_component_def)

lemma plain_valid: "validate_reading s (plain_request 3) validation_config_default = Inr ()"
  by (simp add: validate_reading_def plain_request_def validation_config_default_def)

lemma plain_fits: "numerics_fit std_env (plain_request 3)"
  using std_numeric(3,4) by (simp add: numerics_fit_def plain_request_def numeric_column_def positive_part_def negative_part_def)

lemma meter_db_simps [simp]:
  "meter_registry meter_db = [registered ''M-001'' ''verified'']" "meter_readings meter_db = []" "meter_unminted_balances meter_db = []"
  "users meter_db 1 = Some (sample_user 0 0 0)"
  by (simp_all add: meter_db_def registry_db_def)

text \<open>The world between the steps of the example.\<close>

definition aggregated :: "decimal \<Rightarrow> reading_row list \<Rightarrow> chain_call list \<Rightarrow> nat \<Rightarrow> world" where
  "aggregated b rs l n = (calm_world (meter_db\<lparr>meter_unminted_balances := [\<lparr>ub_meter_serial = ''M-001'', ub_accumulated_kwh = Some b,
     ub_last_mint_at = (if b = 0 then Some 1000 else None)\<rparr>], meter_readings := rs\<rparr>))\<lparr>uuids := n, chain_log := l\<rparr>"

lemma record_plain:
  assumes "faults w = []" and "meter_registry (db w) = [registered ''M-001'' ''verified'']" and "users (db w) 1 = Some (sample_user 0 0 0)"
    and "clock w = 1000" and "aggregate_and_mint std_env ''M-001'' ''wallet'' True 30 3 w = (Ok (b, sg, msg), w')"
    and "faults w' = []" and "meter_registry (db w') = [registered ''M-001'' ''verified'']" and "users (db w') 1 = Some (sample_user 0 0 0)"
    and "clock w' = 1000" and "list_all (\<lambda>x. rd_id x \<noteq> word_of_nat (uuids w' + 1000)) (meter_readings (db w'))" and "at_most 88 sg"
  shows "record_reading std_env (task_of ''M-001'' (plain_request 3)) w = (Ok (5, 1, None), w'\<lparr>uuids := Suc (uuids w'),
    db := add_reading (reading_of std_env (word_of_nat (uuids w' + 1000)) ''M-001'' 5 1 ''wallet'' 500 1000 (plain_request 3) b sg (Finite 50)) (db w')\<rparr>)"
proof -
  have r: "resolve_meter_context ''M-001'' None w = (Ok (5, 1, ''wallet'', None), w)"
    using assms(1-3) by (simp add: resolve_meter_context_def io_simps registered_def registry_default_def sample_user_def)
  have f: "reading_fits (reading_of std_env (word_of_nat (uuids w' + 1000)) ''M-001'' 5 1 ''wallet'' 500 1000 (plain_request 3) b sg (Finite 50)) (db w')"
    using assms(7,8,10,11) by (auto simp: reading_fits_def reading_of_def plain_request_def registered_def registry_default_def Let_def list_all_iff at_most_def)
  show ?thesis
    using assms(4-6,9) r f plain_valid plain_fits
    by (simp add: record_reading_def task_of_def plain_request_simps bnd_app sq_app fresh_uuid_app get_clock_app persist_reading_to_db_def
        anyhow_err_app exec_chk_calm Let_def)
qed

lemma aggregate_first: "aggregate_and_mint std_env ''M-001'' ''wallet'' True 30 3 (calm_world meter_db)
    = (Ok (False, None, ''Energy aggregated''), aggregated 3 [] [] 0)"
  using accumulate_calm [of "calm_world meter_db" std_env 3 3 "''M-001''" 3] std_numeric(1)
  by (simp add: aggregate_and_mint_def bnd_app attempt_app new_balance_def upsert_balance_def aggregated_def)

lemma std_mint: "energy_token_mint std_env = ''grx''"
  by (simp add: std_env_def)

lemma aggregate_second:
  "aggregate_and_mint std_env ''M-001'' ''wallet'' True 30 3 (aggregated 3 rs [] 1)
    = (Ok (True, Some ''sig'', show_f64 std_env 6 @ '' kWh minted successfully''),
       aggregated 0 rs [EnsureTokenAccount ''authority'' ''wallet'' ''grx'', MintSplTokens ''authority'' ''wallet'' ''grx'' 6] 1)"
  using accumulate_calm [of "aggregated 3 rs [] 1" std_env 3 3 "''M-001''" 6] std_numeric(1)
  by (simp add: aggregate_and_mint_def bnd_app attempt_app sq_app ignore_app exec_calm get_clock_app new_balance_def upsert_balance_def reset_balance_def
      process_minting_def mint_with_timeout_def timed_call_def mint_call_def call_str_def aggregated_def calm_world_def std_mint)

lemma add_aggregated:
  "(aggregated b rs l n)\<lparr>uuids := k, db := add_reading r (db (aggregated b rs l n))\<rparr> = aggregated b (rs @ [r]) l k"
  by (simp add: aggregated_def add_reading_def calm_world_def)

lemma aggregated_simps [simp]:
  "faults (aggregated b rs l n) = []" "clock (aggregated b rs l n) = 1000" "uuids (aggregated b rs l n) = n" "chain_log (aggregated b rs l n) = l"
  "meter_registry (db (aggregated b rs l n)) = [registered ''M-001'' ''verified'']" "meter_readings (db (aggregated b rs l n)) = rs"
  "users (db (aggregated b rs l n)) 1 = Some (sample_user 0 0 0)"
  by (simp_all add: aggregated_def)

theorem aggregated_reading_minted_twice:
  "List.map_filter minted_amount (chain_log (snd (mint_user_reading std_env 1 1000 (sn_world (snd (process_reading_task std_env
      (task_of ''M-001'' (plain_request 3)) (snd (process_reading_task std_env (task_of ''M-001'' (plain_request 3)) (station_of meter_db [])))))))))
    = [6, 3]"
proof -
  let ?t = "task_of ''M-001'' (plain_request 3)" and ?s = "station_of meter_db []"
  let ?calls = "[EnsureTokenAccount ''authority'' ''wallet'' ''grx'', MintSplTokens ''authority'' ''wallet'' ''grx'' 6]"
  let ?r1 = "stored_reading 1000 3 False" and ?r2 = "reading_of std_env 1001 ''M-001'' 5 1 ''wallet'' 500 1000 (plain_request 3) True (Some ''sig'') (Finite 50)"
  have t: "rg_max_sell_price (rt_request ?t) = None" "rg_max_buy_price (rt_request ?t) = None" by (simp_all add: task_of_def plain_request_simps)
  have "record_reading std_env ?t (sn_world ?s) = (Ok (5, 1, None), aggregated 3 [?r1] [] 1)"
    using record_plain [OF _ _ _ _ aggregate_first] add_aggregated [where b = 3 and rs = "[]" and l = "[]" and n = 0 and k = 1 and r = ?r1] by (simp add: station_of_def stored_reading_def)
  note w1 = process_plain(2) [OF this t]
  have "record_reading std_env ?t (aggregated 3 [?r1] [] 1) = (Ok (5, 1, None), aggregated 0 [?r1, ?r2] ?calls 2)"
    using record_plain [OF _ _ _ _ aggregate_second [of "[?r1]"]] add_aggregated [where b = 0 and rs = "[?r1]" and l = ?calls and n = 1 and k = 2 and r = ?r2]
    by (simp add: stored_reading_simps at_most_def numeral_2_eq_2)
  from process_plain(2) [OF _ t, of std_env "snd (process_reading_task std_env ?t ?s)", unfolded w1, OF this]
  have w2: "sn_world (snd (process_reading_task std_env ?t (snd (process_reading_task std_env ?t ?s)))) = aggregated 0 [?r1, ?r2] ?calls 2" .
  have f: "find_row rd_id 1000 (meter_readings (db (aggregated 0 [?r1, ?r2] ?calls 2))) = Some ?r1" by (simp add: stored_reading_simps)
  obtain x w3 where m: "mint_user_reading std_env 1 1000 (aggregated 0 [?r1, ?r2] ?calls 2) = (Ok x, w3)"
    using mint_sample [OF refl _ f] by auto
  have "\<exists>c c'. chain_log w3 = ?calls @ [c, c'] \<and> minted_amount c = None \<and> minted_amount c' = Some 3"
    using m f by (auto simp: mint_user_reading_def get_reading_by_id_def mint_reading_def mark_as_minted_def stored_reading_simps ok_or_def io_simps call_str_def std_mint)
  then show ?thesis unfolding w2 m by (auto simp: List.map_filter_def)
qed

text \<open>
  A reading that cannot be stored is counted all the same: the energy is added to the balance before the
  reading is stored, the failed task is queued again, and the next attempt adds it once more.
\<close>

definition charged_request :: create_reading_request where
  "charged_request = (plain_request 3)\<lparr>rg_battery_level := Some 1000\<rparr>"

lemma record_charged:
  "\<exists>er. record_reading std_env (task_of ''M-001'' charged_request) (calm_world meter_db) = (Err er, aggregated 3 [] [] 1)"
proof -
  have v: "validate_reading s charged_request validation_config_default = Inr ()" for s
    by (simp add: validate_reading_def charged_request_def plain_request_def validation_config_default_def)
  have r: "resolve_meter_context ''M-001'' None (calm_world meter_db) = (Ok (5, 1, ''wallet'', None), calm_world meter_db)"
    by (simp add: resolve_meter_context_def io_simps registered_def registry_default_def sample_user_def)
  have n: "\<not> numerics_fit std_env charged_request"
    using std_numeric(5) by (simp add: numerics_fit_def charged_request_def plain_request_def numeric_column_def)
  have q: "rg_kwh charged_request = 3" "rg_wallet_address charged_request = None" by (simp_all add: charged_request_def plain_request_simps)
  have w: "(aggregated 3 [] [] 0)\<lparr>uuids := Suc 0\<rparr> = aggregated 3 [] [] 1" by (simp add: aggregated_def)
  show ?thesis using v r n q aggregate_first
    by (simp add: record_reading_def task_of_def bnd_app sq_app fresh_uuid_app get_clock_app persist_reading_to_db_def anyhow_err_app
        exec_chk_calm Let_def w)
qed

theorem failed_reading_counts_again:
  fixes t :: reading_task
  defines "t \<equiv> task_of ''M-001'' charged_request"
  shows "let s = rounds std_env [1] (station_of meter_db [t]) in
    sn_queue s = [t\<lparr>rt_retry_count := 1\<rparr>] \<and> meter_readings (db (sn_world s)) = [] \<and> balance_of ''M-001'' (db (sn_world s)) = Some 3"
proof -
  obtain er where r: "record_reading std_env t (calm_world meter_db) = (Err er, aggregated 3 [] [] 1)" using record_charged t_def by blast
  then have "process_reading_task std_env t (station_of meter_db []) = (Err er, (station_of meter_db [])\<lparr>sn_world := aggregated 3 [] [] 1\<rparr>)"
    by (simp add: process_reading_task_def bnd_app on_world_def station_of_def Let_def)
  moreover have "pop_reading (station_of meter_db [t]) = (Ok (Some t), station_of meter_db [])"
    by (simp add: pop_reading_def redis_def station_of_def Let_def)
  moreover have "rt_retry_count t = 0" by (simp add: t_def task_of_def)
  ultimately show ?thesis
    by (simp add: rounds_def worker_round_def sq_app bnd_app attempt_app ignore_app push_calm station_of_def Let_def)
       (simp add: aggregated_def balance_of_def)
qed

end
