(* ===== verification/Order_Api.thy ===== *)
theory Order_Api
  imports Orders Pagination Meter_Registry
begin

text \<open>
  The order endpoints, \<open>src/src/handlers/trading/orders/\<close>: \<open>create.rs\<close> (signed orders), \<open>management.rs\<close>
  (cancelling and updating) and \<open>queries.rs\<close> (listings, trades, token balance).

  A row is decoded into \<open>TradingOrderDb\<close>, which needs a column for every field.  The functions that select
  \<open>*\<close> take the columns of the table as an argument; \<open>trading_order_columns\<close> are those that the migrations
  create.
\<close>

subsection \<open>Rows\<close>

definition order_fields :: "string list" where
  "order_fields =
    [''id'', ''user_id'', ''order_type'', ''side'', ''energy_amount'', ''price_per_kwh'', ''filled_amount'', ''status'', ''expires_at'',
     ''created_at'', ''filled_at'', ''epoch_id'', ''zone_id'', ''meter_id'', ''refund_tx_signature'', ''order_pda'', ''session_token'',
     ''is_confidential'', ''energy_source'', ''trigger_price'', ''trigger_type'', ''trigger_status'', ''trailing_offset'', ''triggered_at'']"

definition trading_order_columns :: "string list" where
  "trading_order_columns =
    [''id'', ''user_id'', ''epoch_id'', ''order_type'', ''energy_amount'', ''price_per_kwh'', ''filled_amount'', ''status'', ''transaction_hash'',
     ''created_at'', ''updated_at'', ''settled_at'', ''side'', ''kwh_amount'', ''expires_at'', ''blockchain_tx_signature'',
     ''blockchain_tx_type'', ''blockchain_status'', ''blockchain_attempts'', ''blockchain_last_error'', ''blockchain_submitted_at'',
     ''blockchain_confirmed_at'', ''order_pda'', ''filled_at'', ''zone_id'', ''refund_tx_signature'', ''meter_id'', ''trigger_price'',
     ''trigger_type'', ''trigger_status'', ''triggered_at'', ''trailing_offset'', ''session_token'']"

text \<open>The select list of the two listings.\<close>

definition listed_columns :: "string list" where
  "listed_columns =
    [''id'', ''user_id'', ''order_type'', ''side'', ''energy_amount'', ''price_per_kwh'', ''filled_amount'', ''status'', ''expires_at'',
     ''created_at'', ''filled_at'', ''epoch_id'', ''zone_id'', ''meter_id'', ''refund_tx_signature'', ''order_pda'', ''session_token'',
     ''trigger_price'', ''trigger_type'', ''trigger_status'', ''trailing_offset'', ''triggered_at'']"

definition decodes :: "string list \<Rightarrow> bool" where
  "decodes cols = list_all (\<lambda>c. c \<in> set cols) order_fields"

definition from_row :: "string list \<Rightarrow> order_row \<Rightarrow> (world, order_row) io" where
  "from_row cols r = (if decodes cols then ret r else fail (Database ''no column found for name''))"

lemma columns_missing: "\<not> decodes trading_order_columns" "\<not> decodes listed_columns" "decodes order_fields"
  by (simp_all add: decodes_def order_fields_def trading_order_columns_def listed_columns_def)

subsection \<open>Creating an order\<close>

text \<open>
  \<open>CreateOrderRequest\<close>.  \<open>Decimal\<close> prints with the scale that the client sent, which a rational number does not
  carry: the two texts are fields of their own.
\<close>

record create_order_request =
  co_side :: OrderSide
  co_energy_amount :: decimal
  co_energy_text :: string
  co_price_per_kwh :: "decimal option"
  co_price_text :: string
  co_order_type :: OrderType
  co_expiry_time :: "time option"
  co_zone_id :: "i32 option"
  co_meter_id :: "uuid option"
  co_signature :: "string option"
  co_timestamp :: "i64 option"
  co_session_token :: "string option"

record create_order_response =
  cr_id :: uuid
  cr_status :: OrderStatus
  cr_created_at :: time
  cr_message :: string

definition timestamp_millis :: "time \<Rightarrow> i64" where
  "timestamp_millis now = word_of_int (now div 1000000)"

definition i64_abs :: "i64 \<Rightarrow> i64" where
  "i64_abs x = (if sint x < 0 then - x else x)"

text \<open>\<open>(now_ts - timestamp).abs() > 5 * 60 * 1000\<close> in wrapping arithmetic.\<close>

definition timestamp_expired :: "i64 \<Rightarrow> i64 \<Rightarrow> bool" where
  "timestamp_expired now_ts timestamp \<longleftrightarrow> sint (i64_abs (now_ts - timestamp)) > 300000"

definition order_message :: "create_order_request \<Rightarrow> i64 \<Rightarrow> string" where
  "order_message q timestamp = order_side_as_str (co_side q) @ '':'' @ co_energy_text q @ '':'' @
     (if co_price_per_kwh q = None then [] else co_price_text q) @ '':'' @ show_int (sint timestamp)"

definition valid_session :: "uuid \<Rightarrow> string \<Rightarrow> time \<Rightarrow> session_row \<Rightarrow> bool" where
  "valid_session user token now s \<longleftrightarrow>
     ws_user_id s = user \<and> ws_session_token s = token \<and> ws_is_active s = Some True \<and> ws_expires_at s > now"

definition signing_key :: "env \<Rightarrow> uuid \<Rightarrow> string option \<Rightarrow> (world, string) io" where
  "signing_key e user session_token = (case session_token of
      None \<Rightarrow> ret ''test_secret_key''
    | Some token \<Rightarrow>
        bnd get_clock (\<lambda>now.
        bnd (query (\<lambda>d. find (valid_session user token now) (wallet_sessions d))) (\<lambda>session.
        case session of
          None \<Rightarrow> fail (Unauthorized ''Invalid or expired session token'')
        | Some s \<Rightarrow> ok_or (decrypt_private_key e token (ws_cached_key_encrypted s) (ws_key_salt s) (ws_key_iv s))
            (Internal ''Failed to decrypt signing key''))))"

definition check_signature :: "env \<Rightarrow> uuid \<Rightarrow> create_order_request \<Rightarrow> (world, unit) io" where
  "check_signature e user q = (case (co_signature q, co_timestamp q) of
      (Some signature, Some timestamp) \<Rightarrow>
        bnd get_clock (\<lambda>now.
        if timestamp_expired (timestamp_millis now) timestamp then fail (BadRequest ''Order timestamp expired'')
        else
         bnd (signing_key e user (co_session_token q)) (\<lambda>secret_key.
         if signature \<noteq> hmac_hex e secret_key (order_message q timestamp) then fail (BadRequest ''Invalid order signature'')
         else ret ()))
    | _ \<Rightarrow> ret ())"

definition detect_zone :: "uuid \<Rightarrow> i32 option \<Rightarrow> (world, i32 option) io" where
  "detect_zone user zone = (case zone of
      Some z \<Rightarrow> ret (Some z)
    | None \<Rightarrow>
        bnd (attempt (query (\<lambda>d. newest_first mr_created_at (filter (\<lambda>r. mr_user_id r = user) (meter_registry d))))) (\<lambda>r.
        ret (case r of Inr (m # _) \<Rightarrow> mr_zone_id m | _ \<Rightarrow> None)))"

definition api_create_order :: "env \<Rightarrow> uuid \<Rightarrow> create_order_request \<Rightarrow> (world, create_order_response) io" where
  "api_create_order e user q =
    sq (check_signature e user q)
    (bnd (detect_zone user (co_zone_id q)) (\<lambda>zone_id.
     bnd (map_err (\<lambda>er. Internal (''Order creation failed: '' @ sql_text er))
            (create_order e user (co_side q) (co_order_type q) (co_energy_amount q) (co_price_per_kwh q) (co_expiry_time q) zone_id (co_meter_id q))) (\<lambda>order_id.
     bnd get_clock (\<lambda>now.
     bnd (map_err (\<lambda>_. Internal ''Failed to assign order to epoch'') (get_or_create_epoch e now)) (\<lambda>epoch.
     ret \<lparr> cr_id = order_id, cr_status = Pending, cr_created_at = now,
           cr_message = ''Order created successfully and assigned to epoch '' @ show_int (ep_number epoch) @ '' for matching.'' \<rparr>)))))"

subsection \<open>Cancelling and updating\<close>

definition own_order :: "uuid \<Rightarrow> uuid \<Rightarrow> db \<Rightarrow> order_row option" where
  "own_order user i d = find (\<lambda>r. o_id r = i \<and> o_user_id r = user) (orders d)"

definition fetch_own :: "string list \<Rightarrow> uuid \<Rightarrow> uuid \<Rightarrow> (world, order_row) io" where
  "fetch_own cols user i =
    bnd (query (own_order user i)) (\<lambda>r. case r of
      None \<Rightarrow> fail (NotFound (''Order '' @ uuid_str i @ '' not found''))
    | Some x \<Rightarrow> from_row cols x)"

definition update_returning :: "string list \<Rightarrow> uuid \<Rightarrow> (db \<Rightarrow> bool) \<Rightarrow> (order_row \<Rightarrow> order_row) \<Rightarrow> (world, order_row) io" where
  "update_returning cols i ok f =
    bnd (exec_returning ok (upd_order i f) (\<lambda>d. find_row o_id i (orders d))) (\<lambda>r.
    bnd (ok_or r (Database ''no rows returned'')) (from_row cols))"

definition api_cancel_order :: "env \<Rightarrow> string list \<Rightarrow> uuid \<Rightarrow> uuid \<Rightarrow> (world, trading_order) io" where
  "api_cancel_order e cols user i =
    bnd (fetch_own cols user i) (\<lambda>order.
    if o_status order \<noteq> Pending then fail (BadRequest (''Cannot cancel order with status: '' @ order_status_as_str (o_status order)))
    else
     bnd (update_returning cols i (\<lambda>_. True) (\<lambda>r. r\<lparr>o_status := Cancelled\<rparr>)) (\<lambda>updated.
     let remaining = o_energy_amount updated - unwrap_or (o_filled_amount updated) 0 in
     sq (if remaining > 0 then
           (case o_side updated of
              Buy \<Rightarrow> ignore (unlock_funds user i (dmul e remaining (o_price_per_kwh updated)) ''Order Cancelled'')
            | Sell \<Rightarrow> ignore (unlock_energy user i remaining ''Order Cancelled''))
         else ret ())
        (ret (trading_order_from updated))))"

record update_order_request =
  uo_energy_amount :: "decimal option"
  uo_price_per_kwh :: "decimal option"

definition validate_update :: "update_order_request \<Rightarrow> (world, unit) io" where
  "validate_update q =
    (if (case uo_energy_amount q of Some a \<Rightarrow> a \<le> 0 | None \<Rightarrow> False) then fail (BadRequest ''Energy amount must be positive'')
     else if (case uo_price_per_kwh q of Some p \<Rightarrow> p \<le> 0 | None \<Rightarrow> False) then fail (BadRequest ''Price must be positive'')
     else ret ())"

definition adjust_escrow :: "env \<Rightarrow> uuid \<Rightarrow> uuid \<Rightarrow> order_row \<Rightarrow> decimal \<Rightarrow> decimal \<Rightarrow> (world, unit) io" where
  "adjust_escrow e user i order new_energy new_price = (case o_side order of
      Buy \<Rightarrow>
        (let old_escrow = dmul e (o_energy_amount order) (o_price_per_kwh order); new_escrow = dmul e new_energy new_price in
         if new_escrow > old_escrow
         then map_err (\<lambda>er. BadRequest (''Insufficient balance for update: '' @ sql_text er)) (lock_funds user i (new_escrow - old_escrow))
         else if new_escrow < old_escrow then ignore (unlock_funds user i (old_escrow - new_escrow) ''Order Updated'')
         else ret ())
    | Sell \<Rightarrow>
        (if new_energy > o_energy_amount order
         then map_err (\<lambda>er. Internal (''Energy lock failed: '' @ sql_text er)) (lock_energy user i (new_energy - o_energy_amount order))
         else if new_energy < o_energy_amount order then ignore (unlock_energy user i (o_energy_amount order - new_energy) ''Order Updated'')
         else ret ()))"

definition update_order :: "env \<Rightarrow> string list \<Rightarrow> uuid \<Rightarrow> uuid \<Rightarrow> update_order_request \<Rightarrow> (world, trading_order) io" where
  "update_order e cols user i q =
    sq (validate_update q)
    (bnd (fetch_own cols user i) (\<lambda>order.
     if o_status order \<noteq> Pending then fail (BadRequest ''Only pending orders can be updated'')
     else
      (let new_energy = unwrap_or (uo_energy_amount q) (o_energy_amount order);
           new_price = unwrap_or (uo_price_per_kwh q) (o_price_per_kwh order)
       in sq (adjust_escrow e user i order new_energy new_price)
          (bnd (update_returning cols i (\<lambda>_. 0 < new_energy \<and> 0 < new_price) (\<lambda>r. r\<lparr>o_energy_amount := new_energy, o_price_per_kwh := new_price\<rparr>))
             (\<lambda>updated. ret (trading_order_from updated))))))"

subsection \<open>Listings\<close>

text \<open>\<open>ORDER BY\<close> of a nullable time, ascending: the rows without a value come last.\<close>

definition oldest_first :: "('a \<Rightarrow> time option) \<Rightarrow> 'a list \<Rightarrow> 'a list" where
  "oldest_first f xs = sort_key (\<lambda>x. the (f x)) (filter (\<lambda>x. f x \<noteq> None) xs) @ filter (\<lambda>x. f x = None) xs"

definition sort_rows :: "string \<Rightarrow> SortOrder \<Rightarrow> order_row list \<Rightarrow> order_row list" where
  "sort_rows field dir rows =
    (if field = ''price_per_kwh'' then sort_key (\<lambda>r. if dir = Asc then o_price_per_kwh r else - o_price_per_kwh r) rows
     else if field = ''energy_amount'' then sort_key (\<lambda>r. if dir = Asc then o_energy_amount r else - o_energy_amount r) rows
     else let f = (if field = ''filled_at'' then o_filled_at else o_created_at) in
       if dir = Asc then oldest_first f rows else newest_first f rows)"

definition matches_query :: "order_query \<Rightarrow> order_row \<Rightarrow> bool" where
  "matches_query q r \<longleftrightarrow> (case oq_side q of None \<Rightarrow> True | Some s \<Rightarrow> o_side r = s)
     \<and> (case oq_order_type q of None \<Rightarrow> True | Some t \<Rightarrow> o_order_type r = t)"

record trading_orders_response =
  to_data :: "trading_order list"
  to_pagination :: pagination_meta

text \<open>The part that the two listings share: counting, the page and its decoding.\<close>

definition list_orders :: "order_query \<Rightarrow> (order_row \<Rightarrow> bool) \<Rightarrow> (world, trading_orders_response) io" where
  "list_orders q p =
    bnd (query (\<lambda>d. word_of_nat (length (filter p (orders d))))) (\<lambda>n.
    bnd (query (\<lambda>d. sql_window (row_limit (oq_page_size q)) (row_offset (oq_page q) (oq_page_size q))
           (sort_rows (get_sort_field q) (oq_sort_order q) (filter p (orders d))))) (\<lambda>rows.
    bnd (map_each rows (from_row listed_columns)) (\<lambda>rs.
    ret \<lparr>to_data = map trading_order_from rs, to_pagination = pagination_meta_new (page_params q) n\<rparr>)))"

definition get_user_orders :: "uuid \<Rightarrow> order_query \<Rightarrow> (world, trading_orders_response) io" where
  "get_user_orders user q0 = (case validate_params q0 of
      (Inl er, _) \<Rightarrow> fail er
    | (Inr _, q) \<Rightarrow> list_orders q (\<lambda>r. o_user_id r = user
        \<and> (case oq_status q of None \<Rightarrow> True | Some s \<Rightarrow> o_status r = s) \<and> matches_query q r))"

definition api_get_order_book :: "order_query \<Rightarrow> (world, trading_orders_response) io" where
  "api_get_order_book q0 = (case validate_params q0 of
      (Inl er, _) \<Rightarrow> fail er
    | (Inr _, q) \<Rightarrow>
        bnd get_clock (\<lambda>now. list_orders q (\<lambda>r. (case o_expires_at r of None \<Rightarrow> False | Some t \<Rightarrow> t > now)
          \<and> (case oq_status q of Some s \<Rightarrow> o_status r = s | None \<Rightarrow> o_status r = Pending \<or> o_status r = Active) \<and> matches_query q r)))"

subsection \<open>Trades and balance\<close>

record trade_record =
  tr_id :: uuid
  tr_quantity :: decimal
  tr_price :: decimal
  tr_total_value :: decimal
  tr_role :: string
  tr_counterparty_id :: uuid
  tr_executed_at :: time
  tr_status :: string
  tr_wheeling_charge :: "decimal option"
  tr_loss_cost :: "decimal option"
  tr_effective_energy :: "decimal option"
  tr_buyer_zone_id :: "i32 option"
  tr_seller_zone_id :: "i32 option"

text \<open>The joins of a match with its two orders and, when there is one, its settlement.\<close>

definition trade_of :: "db \<Rightarrow> uuid \<Rightarrow> match_row \<Rightarrow> trade_record option" where
  "trade_of d user m =
    (case (find_row o_id (m_buy_order_id m) (orders d), find_row o_id (m_sell_order_id m) (orders d)) of
       (Some b, Some s) \<Rightarrow>
         (if o_user_id b = user \<or> o_user_id s = user then
           (let st = Option.bind (m_settlement_id m) (\<lambda>i. find_row s_id i (settlements d)) in
            Some \<lparr> tr_id = m_id m, tr_quantity = m_matched_amount m, tr_price = m_match_price m,
              tr_total_value = m_matched_amount m * m_match_price m,
              tr_role = (if o_user_id b = user then ''buyer'' else ''seller''),
              tr_counterparty_id = (if o_user_id b = user then o_user_id s else o_user_id b),
              tr_executed_at = m_match_time m, tr_status = m_status m,
              tr_wheeling_charge = Option.bind st s_wheeling_charge, tr_loss_cost = Option.bind st s_loss_cost,
              tr_effective_energy = Option.bind st s_effective_energy, tr_buyer_zone_id = Option.bind st s_buyer_zone_id,
              tr_seller_zone_id = Option.bind st s_seller_zone_id \<rparr>)
          else None)
     | _ \<Rightarrow> None)"

definition trade_limit :: "i32 option \<Rightarrow> i32" where
  "trade_limit l = (let n = unwrap_or l 20 in if sint n < 100 then n else 100)"

definition get_my_trades :: "uuid \<Rightarrow> i32 option \<Rightarrow> (world, trade_record list) io" where
  "get_my_trades user l =
    (let n = trade_limit l in
     bnd (query (\<lambda>d. sort_key (\<lambda>t. - tr_executed_at t) (List.map_filter (trade_of d user) (order_matches d)))) (\<lambda>trades.
     if sint n < 0 then fail (Database ''LIMIT must not be negative'') else ret (take (nat (sint n)) trades)))"

record token_balance_response =
  tb_wallet_address :: "string option"
  tb_token_balance :: rat
  tb_raw_balance :: u64
  tb_mint :: string

definition get_token_balance :: "env \<Rightarrow> uuid \<Rightarrow> (world, token_balance_response) io" where
  "get_token_balance e user =
    bnd (fetch_one (\<lambda>d. map_option wallet_address (users d user))) (\<lambda>wallet.
    case wallet of
      Some (c # cs) \<Rightarrow>
        bnd (ok_or (parse_pubkey e (c # cs)) (BadRequest ''Invalid wallet address: '')) (\<lambda>wallet_pubkey.
        bnd (ok_or (parse_pubkey e (energy_token_mint e)) (Internal ''Invalid mint address: '')) (\<lambda>mint_pubkey.
        bnd (attempt (call_u64 e (TokenBalance wallet_pubkey mint_pubkey))) (\<lambda>r.
        let raw = (case r of Inr b \<Rightarrow> b | Inl _ \<Rightarrow> 0) in
        ret \<lparr>tb_wallet_address = Some (c # cs), tb_token_balance = f64 (f64 (of_int (uint raw)) / 1000000000), tb_raw_balance = raw, tb_mint = energy_token_mint e\<rparr>)))
    | _ \<Rightarrow> ret \<lparr>tb_wallet_address = None, tb_token_balance = 0, tb_raw_balance = 0, tb_mint = energy_token_mint e\<rparr>)"

subsection \<open>Signed orders\<close>

lemma check_signature_db: "db (snd (check_signature e user q w)) = db w"
proof -
  have "keeps_db (\<lambda>d. d = db w) (check_signature e user q)"
    unfolding check_signature_def signing_key_def by (intro keeps_db_intros)
  from keeps_dbD [OF this, of w] show ?thesis by simp
qed

lemma signing_key_Ok:
  assumes "signing_key e user t w = (Ok key, w')"
  shows "case t of None \<Rightarrow> key = ''test_secret_key''
    | Some token \<Rightarrow> \<exists>s. s \<in> set (wallet_sessions (db w)) \<and> valid_session user token (clock w) s
        \<and> decrypt_private_key e token (ws_cached_key_encrypted s) (ws_key_salt s) (ws_key_iv s) = Some key"
  using assms
  by (auto simp: signing_key_def bnd_app get_clock_app query_def ok_or_def find_Some_iff in_set_conv_nth split: option.splits prod.splits outcome.splits)

text \<open>
  C10. A signature on an order counts.  When a request carries a signature and a time stamp and the call changes
  any table, then the signature is the authentication code of the order's side, amount, price and time stamp under a
  key, the time stamp passed the check of the five minute window, and the key is the one decrypted
  from a session of the user that is active and has not expired at the time of the call, or, without a session
  token, the fixed test key.
\<close>

theorem signed_order_needs_key:
  assumes "co_signature q = Some signature" and "co_timestamp q = Some ts"
    and "api_create_order e user q w = (r, w')" and "db w' \<noteq> db w"
  shows "\<exists>key. signature = hmac_hex e key (order_message q ts) \<and> \<not> timestamp_expired (timestamp_millis (clock w)) ts
    \<and> (case co_session_token q of None \<Rightarrow> key = ''test_secret_key''
       | Some token \<Rightarrow> \<exists>s. s \<in> set (wallet_sessions (db w)) \<and> valid_session user token (clock w) s
           \<and> decrypt_private_key e token (ws_cached_key_encrypted s) (ws_key_salt s) (ws_key_iv s) = Some key)"
proof -
  obtain c w1 where c: "check_signature e user q w = (c, w1)" by (cases "check_signature e user q w")
  have "\<exists>x. c = Ok x"
    using assms(3,4) c check_signature_db [of e user q w] by (cases c) (auto simp: api_create_order_def sq_app)
  then obtain key w2 where "signing_key e user (co_session_token q) w = (Ok key, w2)"
    and "signature = hmac_hex e key (order_message q ts)" and "\<not> timestamp_expired (timestamp_millis (clock w)) ts"
    using c assms(1,2) by (auto simp: check_signature_def bnd_app get_clock_app split: if_splits prod.splits outcome.splits)
  with signing_key_Ok show ?thesis by blast
qed

definition plain_order :: create_order_request where
  "plain_order = \<lparr>co_side = Buy, co_energy_amount = 10, co_energy_text = ''10'', co_price_per_kwh = Some 2, co_price_text = ''2'', co_order_type = Limit,
     co_expiry_time = None, co_zone_id = None, co_meter_id = None, co_signature = None, co_timestamp = Some 0, co_session_token = None\<rparr>"

definition signed_order :: create_order_request where
  "signed_order = plain_order\<lparr>co_signature := Some (''test_secret_key'' @ order_message plain_order 0)\<rparr>"

lemma signed_order_runs: "db (snd (api_create_order std_env 1 signed_order (calm_world trader_db))) \<noteq> trader_db"
proof -
  let ?w = "calm_world trader_db"
  have c: "check_signature std_env 1 signed_order ?w = (Ok (), ?w)"
    by (simp add: check_signature_def signed_order_def plain_order_def timestamp_expired_def timestamp_millis_def i64_abs_def signing_key_def
        order_message_def io_simps)
  have z: "detect_zone 1 None ?w = (Ok None, ?w)" by (simp add: detect_zone_def io_simps newest_first_def trader_db_def)
  obtain w1 where w1: "create_order std_env 1 Buy Limit 10 (Some 2) None None None ?w = (Ok 1000, w1)" using sample_create by blast
  from create_order_cases [OF w1(1)] obtain ep where
    "order_placed std_env (new_order 1000 1 Limit Buy 10 2 (default_expiry 1000) 1000 ep None None) trader_db (db w1)" by auto
  from order_placed_found [OF this] have "orders (db w1) \<noteq> []" by auto
  moreover have "orders (db (snd (api_create_order std_env 1 signed_order ?w))) = orders (db w1)"
    using c z w1 get_or_create_epoch_frame [of std_env "clock w1" w1]
    by (auto simp: api_create_order_def signed_order_def plain_order_def sq_app bnd_app map_err_app get_clock_app split: outcome.split prod.splits)
  ultimately show ?thesis by (auto simp: trader_db_def)
qed

theorem signed_order_needs_key_witness:
  "\<exists>key. ''test_secret_key'' @ order_message plain_order 0 = hmac_hex std_env key (order_message signed_order 0) \<and> key = ''test_secret_key''"
  using signed_order_needs_key [of signed_order "''test_secret_key'' @ order_message plain_order 0" 0 std_env 1 "calm_world trader_db"]
    signed_order_runs by (simp add: signed_order_def plain_order_def prod_eq_iff)

text \<open>Without a signature there is no check at all, and without a session token anyone can sign with the test key.\<close>

theorem unsigned_order_accepted: "co_signature q = None \<Longrightarrow> check_signature e user q w = (Ok (), w)"
  by (simp add: check_signature_def)

subsection \<open>The window of time stamps\<close>

text \<open>Where the difference does not overflow, the check is the one that is meant.\<close>

lemma timestamp_expired_exact:
  assumes "- (2 ^ 63) < sint now - sint ts" and "sint now - sint ts < 2 ^ 63"
  shows "timestamp_expired now ts \<longleftrightarrow> \<bar>sint now - sint ts\<bar> > 300000"
proof -
  have d: "now - ts = word_of_int (sint now - sint ts)" by simp
  have s: "sint (now - ts) = sint now - sint ts" unfolding d using assms by (intro sint_i64_small) simp_all
  have m: "sint (- (now - ts)) = - (sint now - sint ts)"
  proof -
    have "- (now - ts) = word_of_int (- (sint now - sint ts))" by simp
    then show ?thesis using assms by (simp only:) (intro sint_i64_small, simp_all)
  qed
  show ?thesis using s m by (auto simp: timestamp_expired_def i64_abs_def)
qed

text \<open>
  One time stamp escapes: at the distance of half the range the absolute value wraps to a negative
  number, and a time stamp of hundreds of millions of years ago or ahead counts as fresh.
\<close>

theorem wrapped_timestamp_accepted: "\<not> timestamp_expired now (now - 2 ^ 63)"
  by (simp add: timestamp_expired_def i64_abs_def)

subsection \<open>Cancelling\<close>

lemma own_order_found:
  assumes "own_order user i d = Some r" and "distinct (map o_id (orders d))"
  shows "find_row o_id i (orders d) = Some r" and "o_user_id r = user" and "o_id r = i"
proof -
  have r: "r \<in> set (orders d)" "o_id r = i" "o_user_id r = user"
    using assms(1) by (auto simp: own_order_def find_Some_iff in_set_conv_nth)
  with find_row_distinct [OF assms(2)] show "find_row o_id i (orders d) = Some r" by blast
  from r show "o_user_id r = user" and "o_id r = i" by simp_all
qed

lemma own_order_updated:
  assumes "own_order user i d = Some r" and "\<And>x. o_id (f x) = o_id x" and "\<And>x. o_user_id (f x) = o_user_id x"
  shows "find (\<lambda>x. o_id x = i \<and> o_user_id x = user) (update_where (\<lambda>x. o_id x = i) f (orders d)) = Some (f r)"
proof -
  have "find (\<lambda>x. o_id x = i \<and> o_user_id x = user) (update_where (\<lambda>x. o_id x = i) f rs)
      = map_option f (find (\<lambda>x. o_id x = i \<and> o_user_id x = user) rs)" for rs
    using assms(2,3) by (induction rs) auto
  with assms(1) show ?thesis by (simp add: own_order_def)
qed

lemma fetch_own_calm:
  assumes "faults w = []" and "decodes cols" and "own_order user i (db w) = Some r"
  shows "fetch_own cols user i w = (Ok r, w)"
  using assms by (simp add: fetch_own_def from_row_def io_simps)

lemma update_returning_calm:
  assumes "faults w = []" and "decodes cols" and "find_row o_id i (orders (db w)) = Some r" and "\<And>x. o_id (f x) = o_id x" and "ok (db w)"
  shows "update_returning cols i ok f w = (Ok (f r), w\<lparr>db := upd_order i f (db w)\<rparr>)"
  using assms find_row_update_same [of o_id f i "orders (db w)"] by (simp add: update_returning_def from_row_def ok_or_def io_simps)

lemma unlock_calm:
  assumes "faults w = []"
  shows "\<exists>es. unlock_funds u i a s w = (Ok (), w\<lparr>db := (upd_user u (move_to_locked (- a)) (db w))\<lparr>escrow_records := es\<rparr>\<rparr>)"
    and "\<exists>es. unlock_energy u i a s w = (Ok (), w\<lparr>db := (upd_user u (add_locked_energy (- a)) (db w))\<lparr>escrow_records := es\<rparr>\<rparr>)"
  using assms by (auto simp: unlock_funds_def unlock_energy_def io_simps release_escrow_def)



subsection \<open>Updating\<close>

definition updated_row :: "update_order_request \<Rightarrow> order_row \<Rightarrow> order_row" where
  "updated_row q r = r\<lparr>o_energy_amount := unwrap_or (uo_energy_amount q) (o_energy_amount r),
     o_price_per_kwh := unwrap_or (uo_price_per_kwh q) (o_price_per_kwh r)\<rparr>"

lemma updated_row_simps [simp]:
  "o_side (updated_row q r) = o_side r" "o_id (updated_row q r) = o_id r" "o_user_id (updated_row q r) = o_user_id r"
  "o_energy_amount (updated_row q r) = unwrap_or (uo_energy_amount q) (o_energy_amount r)"
  "o_price_per_kwh (updated_row q r) = unwrap_or (uo_price_per_kwh q) (o_price_per_kwh r)"
  by (simp_all add: updated_row_def)

lemma lock_calm:
  assumes "faults w = []" and "users (db w) u = Some x" and "order_exists i (db w)"
  shows "(\<exists>er. lock_funds u i a w = (Err er, w)) \<or> (\<exists>es. lock_funds u i a w = (Ok (), w\<lparr>db := (upd_user u (move_to_locked a) (db w))\<lparr>escrow_records := es\<rparr>\<rparr>))"
    and "\<exists>es. lock_energy u i a w = (Ok (), w\<lparr>db := (upd_user u (add_locked_energy a) (db w))\<lparr>escrow_records := es\<rparr>\<rparr>)"
  using assms by (auto simp: lock_funds_def lock_energy_def io_simps add_escrow_def escrow_fk_def order_exists_def)

lemma lock_user_0 [simp]: "lock_user sd 0 r = r"
  by (cases sd) (simp_all add: lock_user_def move_to_locked_def add_locked_energy_def)

lemma adjust_escrow_calm:
  assumes "faults w = []" and "users (db w) user = Some u" and "order_exists i (db w)"
  shows "(\<exists>er. adjust_escrow e user i r en pr w = (Err er, w))
    \<or> (\<exists>es. adjust_escrow e user i r en pr w = (Ok (), w\<lparr>db := (upd_user user (lock_user (o_side r)
          (escrow_amount e (r\<lparr>o_energy_amount := en, o_price_per_kwh := pr\<rparr>) - escrow_amount e r)) (db w))\<lparr>escrow_records := es\<rparr>\<rparr>))"
proof -
  have idle: "w = w\<lparr>db := (upd_user user (lock_user sd 0) (db w))\<lparr>escrow_records := escrow_records (db w)\<rparr>\<rparr>" for sd
    using assms(2) by (simp add: upd_user_def fun_upd_idem)
  show ?thesis
  proof (cases "o_side r")
    case Buy
    let ?d = "dmul e en pr - dmul e (o_energy_amount r) (o_price_per_kwh r)"
    from lock_calm(1) [OF assms, of ?d] unlock_calm(1) [OF assms(1), of user i "- ?d" "''Order Updated''"] idle [of Buy]
    show ?thesis using Buy
      by (cases "?d > 0"; cases "?d < 0") (auto simp: adjust_escrow_def escrow_amount_def lock_user_def map_err_app ignore_app Let_def)
  next
    case Sell
    let ?d = "en - o_energy_amount r"
    from lock_calm(2) [OF assms, of ?d] unlock_calm(2) [OF assms(1), of user i "- ?d" "''Order Updated''"] idle [of Sell]
    show ?thesis using Sell
      by (cases "?d > 0"; cases "?d < 0") (auto simp: adjust_escrow_def escrow_amount_def lock_user_def map_err_app ignore_app Let_def)
  qed
qed



text \<open>
  The adjustment of the escrow and the update of the order are separate statements: when the second is lost, the
  extra money stays locked and the order is as it was.
\<close>

theorem lost_update_keeps_extra_lock:
  "let w = (calm_world sample_escrow)\<lparr>faults := [None, None, None, None, None, None, Some ''lost'']\<rparr>;
       (r, w') = update_order std_env order_fields 1 11 \<lparr>uo_energy_amount = None, uo_price_per_kwh = Some 3\<rparr> w
   in r = Err (Database ''lost'') \<and> orders (db w') = orders (db w)
     \<and> users (db w) 1 = Some (sample_user 100 0 0) \<and> map_option balance (users (db w') 1) = Some (Some 90)"
  by (simp add: update_order_def validate_update_def fetch_own_def own_order_def from_row_def columns_missing adjust_escrow_def update_returning_def
      lock_funds_def io_simps dmul_def sq_app bnd_app query_def exec_def exec_chk_def exec_returning_def fetch_one_def transaction_def faulty_def tick_def
      escrow_fk_def order_exists_def add_escrow_def Let_def ok_or_def)

subsection \<open>Columns\<close>

text \<open>
  On the table that the migrations create, the endpoints cannot read an order: the fields \<open>is_confidential\<close> and
  \<open>energy_source\<close> have no column.  Cancelling any order of the user is a database error and changes nothing.
\<close>

theorem migrated_table_refuses_cancel:
  assumes "faults w = []" and "own_order user i (db w) = Some r"
  shows "\<exists>m. api_cancel_order e trading_order_columns user i w = (Err (Database m), w)"
  using assms columns_missing(1) by (simp add: api_cancel_order_def fetch_own_def from_row_def bnd_app query_calm)

theorem migrated_table_refuses_cancel_witness:
  "\<exists>m. api_cancel_order std_env trading_order_columns 1 11 (calm_world sample_escrow) = (Err (Database m), calm_world sample_escrow)"
  by (rule migrated_table_refuses_cancel) (simp_all add: own_order_def)

text \<open>
  The listings name their columns and leave the same two out, whatever the table has: a page that contains an
  order is a database error, only an empty page is answered.
\<close>

lemma sort_rows_Nil [simp]: "sort_rows f dir [] = []"
  by (simp add: sort_rows_def oldest_first_def newest_first_def)

lemma decode_rows: "map_each rows (from_row listed_columns) w = (if rows = [] then (Ok [], w) else (Err (Database ''no column found for name''), w))"
  using columns_missing(2) by (cases rows) (simp_all add: from_row_def bnd_app)

theorem listing_only_empty_pages:
  assumes "faults w = []"
  shows "(\<exists>x. list_orders q p w = (Ok x, w) \<and> to_data x = [])
    \<or> (\<exists>m. list_orders q p w = (Err (Database m), w)) \<and> (\<exists>r \<in> set (orders (db w)). p r)"
proof -
  let ?rows = "sql_window (row_limit (oq_page_size q)) (row_offset (oq_page q) (oq_page_size q))
     (sort_rows (get_sort_field q) (oq_sort_order q) (filter p (orders (db w))))"
  have "?rows \<noteq> [] \<Longrightarrow> filter p (orders (db w)) \<noteq> []"
    by (auto simp: sql_window_def)
  then show ?thesis using assms by (cases "?rows = []") (auto simp: list_orders_def bnd_app query_calm decode_rows filter_empty_conv)
qed

subsection \<open>Trades\<close>

text \<open>
  Both sides see the same trade.  A match between orders of two different users is listed for the buyer
  exactly when it is listed for the seller, with the same amounts, price, charges and time; each is
  the counterparty of the other.
\<close>

theorem trade_seen_by_both:
  assumes "find_row o_id (m_buy_order_id m) (orders d) = Some b" and "find_row o_id (m_sell_order_id m) (orders d) = Some s"
    and "o_user_id b \<noteq> o_user_id s"
  shows "\<exists>t. trade_of d (o_user_id b) m = Some t \<and> tr_role t = ''buyer'' \<and> tr_counterparty_id t = o_user_id s
    \<and> trade_of d (o_user_id s) m = Some (t\<lparr>tr_role := ''seller'', tr_counterparty_id := o_user_id b\<rparr>)
    \<and> (\<forall>v. v \<noteq> o_user_id b \<and> v \<noteq> o_user_id s \<longrightarrow> trade_of d v m = None)"
  using assms by (auto simp: trade_of_def Let_def)

definition traded_db :: db where
  "traded_db = sample_escrow\<lparr>order_matches := [\<lparr>m_id = 5, m_epoch_id = 7, m_buy_order_id = 11, m_sell_order_id = 12, m_matched_amount = 4,
     m_match_price = 2, m_match_time = 10, m_status = ''pending'', m_settlement_id = None\<rparr>]\<rparr>"

theorem trade_seen_by_both_witness:
  "trade_of traded_db 3 (hd (order_matches traded_db)) = None \<and> map_option tr_counterparty_id (trade_of traded_db 1 (hd (order_matches traded_db))) = Some 2"
  using trade_seen_by_both [of "hd (order_matches traded_db)" traded_db "sample_order 11 1 Buy 10 2 0 Pending" "sample_order 12 2 Sell 10 1 0 Pending"]
  by (auto simp: traded_db_def)

end
