(* ===== verification/Accounts.thy ===== *)
theory Accounts
  imports Meter_Registry Onchain
begin

text \<open>
  Accounts and access: \<open>src/src/auth/\<close> (passwords, claims and tokens, the authentication middleware, the roles
  of \<open>mod.rs\<close>) and the handlers of \<open>src/src/handlers/auth/\<close> for registration, login, email verification, passwords
  and profiles.

  Hashing, signing and sending mail are parameters of the environment; a token that is decoded at
  a given time is the result of the token library at that time.  The handlers that look a user up by
  a column take the order in which the server scans the rows.  A handler that mails a token also returns the
  mail.  Texts are ASCII.
\<close>

subsection \<open>Passwords\<close>

definition is_lowercase :: "char \<Rightarrow> bool" where
  "is_lowercase c \<longleftrightarrow> (let n = of_char c :: nat in 97 \<le> n \<and> n \<le> 122)"

definition is_uppercase :: "char \<Rightarrow> bool" where
  "is_uppercase c \<longleftrightarrow> (let n = of_char c :: nat in 65 \<le> n \<and> n \<le> 90)"

definition is_digit :: "char \<Rightarrow> bool" where
  "is_digit c \<longleftrightarrow> (let n = of_char c :: nat in 48 \<le> n \<and> n \<le> 57)"

definition special_chars :: string where
  "special_chars = ''!@#$%^&*()_+-=[]{}|;:,.<>?''"

definition weak_patterns :: "string list" where
  "weak_patterns = [''password'', ''123456'', ''qwerty'', ''admin'', ''letmein'', ''welcome'', ''monkey'', ''dragon'']"

fun join :: "string \<Rightarrow> string list \<Rightarrow> string" where
  "join sep [] = []"
| "join sep [x] = x"
| "join sep (x # y # ys) = x @ sep @ join sep (y # ys)"

definition strength_checks :: "string \<Rightarrow> (bool \<times> string) list" where
  "strength_checks p =
    [(list_ex is_lowercase p, ''at least one lowercase letter''), (list_ex is_uppercase p, ''at least one uppercase letter''),
     (list_ex is_digit p, ''at least one digit''),
     (list_ex (\<lambda>c. c \<in> set special_chars) p, ''at least one special character ('' @ special_chars @ '')'')]"

definition validate_password_strength :: "string \<Rightarrow> api_error + unit" where
  "validate_password_strength p =
    (let missing = map snd (filter (\<lambda>c. \<not> fst c) (strength_checks p)) in
     if length p < 8 then Inl (BadRequest ''Password must be at least 8 characters long'')
     else if length p > 128 then Inl (BadRequest ''Password must be no more than 128 characters long'')
     else if missing \<noteq> [] then Inl (BadRequest (''Password must contain: '' @ join '', '' missing))
     else if list_ex (\<lambda>w. contains (to_lower p) w) weak_patterns then Inl (BadRequest ''Password contains common weak patterns'')
     else Inr ())"

definition hash_password :: "env \<Rightarrow> string \<Rightarrow> api_error + string" where
  "hash_password e p = (case validate_password_strength p of
      Inl er \<Rightarrow> Inl er
    | Inr _ \<Rightarrow> (case bcrypt_hash e p of Inl m \<Rightarrow> Inl (Internal (''Failed to hash password: '' @ m)) | Inr h \<Rightarrow> Inr h))"

definition verify_password :: "env \<Rightarrow> string \<Rightarrow> string \<Rightarrow> api_error + bool" where
  "verify_password e p h = (case bcrypt_verify e p h of Inl m \<Rightarrow> Inl (Internal (''Failed to verify password: '' @ m)) | Inr b \<Rightarrow> Inr b)"

subsection \<open>Claims and tokens\<close>

definition unix_seconds :: "time \<Rightarrow> i64" where
  "unix_seconds t = word_of_int (t div 1000000000)"

definition claims_new :: "time \<Rightarrow> uuid \<Rightarrow> string \<Rightarrow> string \<Rightarrow> claims" where
  "claims_new now user name role =
    \<lparr> cl_sub = user, cl_username = name, cl_role = role, cl_exp = unix_seconds (now + 24 * 3600 * 1000000000),
      cl_iat = unix_seconds now, cl_iss = ''api-gateway'' \<rparr>"

definition claims_expired :: "time \<Rightarrow> claims \<Rightarrow> bool" where
  "claims_expired now c \<longleftrightarrow> sint (unix_seconds now) > sint (cl_exp c)"

definition has_role :: "claims \<Rightarrow> string \<Rightarrow> bool" where
  "has_role c role \<longleftrightarrow> cl_role c = role"

definition has_any_role :: "claims \<Rightarrow> string list \<Rightarrow> bool" where
  "has_any_role c roles \<longleftrightarrow> cl_role c \<in> set roles"

definition validate_token :: "env \<Rightarrow> time \<Rightarrow> string \<Rightarrow> bool" where
  "validate_token e now token = (case jwt_decode e now token of Some c \<Rightarrow> \<not> claims_expired now c | None \<Rightarrow> False)"

definition refresh_token :: "env \<Rightarrow> time \<Rightarrow> string \<Rightarrow> string option" where
  "refresh_token e now token =
    Option.bind (jwt_decode e now token) (\<lambda>c. jwt_encode e (claims_new now (cl_sub c) (cl_username c) (cl_role c)))"

subsection \<open>Roles of the middleware\<close>

datatype account_role = RUser | RAdmin | RAMI | RProducer | RConsumer

definition account_role_from :: "string \<Rightarrow> account_role option" where
  "account_role_from s = (let t = to_lower s in
     if t = ''user'' then Some RUser else if t = ''admin'' then Some RAdmin else if t = ''ami'' then Some RAMI
     else if t = ''producer'' then Some RProducer else if t = ''consumer'' then Some RConsumer else None)"

fun account_role_str :: "account_role \<Rightarrow> string" where
  "account_role_str RUser = ''user''"
| "account_role_str RAdmin = ''admin''"
| "account_role_str RAMI = ''ami''"
| "account_role_str RProducer = ''producer''"
| "account_role_str RConsumer = ''consumer''"

fun role_permissions :: "account_role \<Rightarrow> string list" where
  "role_permissions RUser = [''energy:read'', ''energy:submit'', ''trading:read'', ''trading:create'', ''profile:read'', ''profile:update'']"
| "role_permissions RAdmin = [''energy:*'', ''trading:*'', ''profile:*'', ''analytics:*'', ''users:*'', ''admin:*'']"
| "role_permissions RAMI = [''energy:submit'', ''meters:read'', ''meters:update'']"
| "role_permissions RProducer = [''energy:read'', ''offers:*'', ''trading:read'', ''transactions:read'', ''profile:read'', ''profile:update'']"
| "role_permissions RConsumer = [''energy:read'', ''orders:*'', ''offers:read'', ''trading:read'', ''transactions:read'', ''profile:read'', ''profile:update'']"

definition can_access :: "account_role \<Rightarrow> string \<Rightarrow> bool" where
  "can_access r permission \<longleftrightarrow> permission \<in> set (role_permissions r)
     \<or> list_ex (\<lambda>p. p \<noteq> [] \<and> last p = CHR ''*'' \<and> starts_with permission (butlast p)) (role_permissions r)"

subsection \<open>The authentication middleware\<close>

record auth_headers =
  ah_authorization :: "string option"
  ah_api_key :: "string option"
  ah_impersonate :: "string option"

definition bearer_of :: "string \<Rightarrow> string option" where
  "bearer_of h = (if starts_with h ''Bearer '' then Some (drop 7 h) else None)"

text \<open>\<open>header.strip_prefix("Bearer ").unwrap_or(header)\<close>\<close>

definition strip_bearer :: "string \<Rightarrow> string" where
  "strip_bearer h = unwrap_or (bearer_of h) h"

definition simulator_claims :: "env \<Rightarrow> time \<Rightarrow> string option \<Rightarrow> claims" where
  "simulator_claims e now impersonate =
    (let simulator = unwrap_or (parse_uuid e (simulator_user_id e)) 0;
         user = (case impersonate of Some i \<Rightarrow> unwrap_or (parse_uuid e i) simulator | None \<Rightarrow> simulator)
     in claims_new now user ''simulator'' ''ami'')"

definition auth_middleware :: "env \<Rightarrow> time \<Rightarrow> auth_headers \<Rightarrow> string + claims" where
  "auth_middleware e now h = (case Option.bind (ah_authorization h) bearer_of of
      None \<Rightarrow>
        if ah_api_key h = Some (engineering_api_key e) then Inr (simulator_claims e now (ah_impersonate h))
        else Inl ''Missing or invalid Authorization header''
    | Some token \<Rightarrow>
        if token = engineering_api_key e then Inr (simulator_claims e now (ah_impersonate h))
        else (case jwt_decode e now token of Some c \<Rightarrow> Inr c | None \<Rightarrow> Inl ''Invalid or expired token''))"

definition require_admin_role :: "claims \<Rightarrow> string + unit" where
  "require_admin_role c = (case account_role_from (cl_role c) of
      None \<Rightarrow> Inl ''Invalid user role''
    | Some r \<Rightarrow> if r = RAdmin then Inr () else Inl ''Admin access required'')"

subsection \<open>Users by a column\<close>

definition find_user :: "uuid list \<Rightarrow> (user_row \<Rightarrow> bool) \<Rightarrow> db \<Rightarrow> (uuid \<times> user_row) option" where
  "find_user scan p d =
    Option.bind (find (\<lambda>u. case users d u of None \<Rightarrow> False | Some r \<Rightarrow> p r) scan) (\<lambda>u. map_option (Pair u) (users d u))"

definition upd_users :: "(user_row \<Rightarrow> bool) \<Rightarrow> (user_row \<Rightarrow> user_row) \<Rightarrow> db \<Rightarrow> db" where
  "upd_users p f d = d\<lparr>users := (\<lambda>u. map_option (\<lambda>r. if p r then f r else r) (users d u))\<rparr>"

text \<open>\<open>UPDATE users SET ... WHERE p RETURNING ...\<close>, of which the first row is read.\<close>

definition update_users :: "uuid list \<Rightarrow> (db \<Rightarrow> bool) \<Rightarrow> (user_row \<Rightarrow> bool) \<Rightarrow> (user_row \<Rightarrow> user_row) \<Rightarrow> (world, (uuid \<times> user_row) option) io" where
  "update_users scan ok p f =
    (\<lambda>w. sq (exec_chk ok (upd_users p f)) (ret (map_option (\<lambda>(u, r). (u, f r)) (find_user scan p (db w)))) w)"

text \<open>The unique key on \<open>wallet_address\<close>, when the rows that satisfy \<open>p\<close> get the wallet \<open>pk\<close>.\<close>

definition wallet_fits :: "uuid list \<Rightarrow> (user_row \<Rightarrow> bool) \<Rightarrow> string \<Rightarrow> db \<Rightarrow> bool" where
  "wallet_fits scan p pk d \<longleftrightarrow>
     (let hit = filter (\<lambda>u. case users d u of None \<Rightarrow> False | Some r \<Rightarrow> p r) scan in
      hit = [] \<or> length hit = 1 \<and> length pk \<le> 88
        \<and> list_all (\<lambda>u. u \<in> set hit \<or> (case users d u of None \<Rightarrow> True | Some r \<Rightarrow> wallet_address r \<noteq> Some pk)) scan)"

definition on_account :: "(account_row \<Rightarrow> account_row) \<Rightarrow> user_row \<Rightarrow> user_row" where
  "on_account f r = r\<lparr>account := f (account r)\<rparr>"

subsection \<open>Responses\<close>

record user_response =
  ur_id :: uuid
  ur_username :: string
  ur_email :: string
  ur_role :: string
  ur_first_name :: string
  ur_last_name :: string
  ur_wallet_address :: "string option"
  ur_balance :: decimal
  ur_locked_amount :: decimal
  ur_locked_energy :: decimal

record auth_response =
  ar_access_token :: string
  ar_expires_in :: int
  ar_user :: user_response

record verify_email_response =
  ve_success :: bool
  ve_message :: string
  ve_wallet_address :: "string option"
  ve_auth :: "auth_response option"

definition simple_response :: "bool \<Rightarrow> string \<Rightarrow> verify_email_response" where
  "simple_response ok m = \<lparr>ve_success = ok, ve_message = m, ve_wallet_address = None, ve_auth = None\<rparr>"

definition user_response_of :: "uuid \<Rightarrow> user_row \<Rightarrow> user_response" where
  "user_response_of u r =
    \<lparr> ur_id = u, ur_username = ac_username (account r), ur_email = email r, ur_role = ac_role (account r),
      ur_first_name = unwrap_or (ac_first_name (account r)) [], ur_last_name = unwrap_or (ac_last_name (account r)) [],
      ur_wallet_address = wallet_address r, ur_balance = unwrap_or (balance r) 0,
      ur_locked_amount = unwrap_or (locked_amount r) 0, ur_locked_energy = unwrap_or (locked_energy r) 0 \<rparr>"

definition no_user :: user_response where
  "no_user = \<lparr>ur_id = 0, ur_username = [], ur_email = [], ur_role = [], ur_first_name = [], ur_last_name = [], ur_wallet_address = None,
     ur_balance = 0, ur_locked_amount = 0, ur_locked_energy = 0\<rparr>"

definition refused :: "string \<Rightarrow> auth_response" where
  "refused t = \<lparr>ar_access_token = t, ar_expires_in = 0, ar_user = no_user\<rparr>"

definition access_token :: "env \<Rightarrow> time \<Rightarrow> uuid \<Rightarrow> string \<Rightarrow> string \<Rightarrow> string" where
  "access_token e now u name role = unwrap_or (jwt_encode e (claims_new now u name role)) (''token_'' @ name @ ''_'' @ uuid_str u)"

subsection \<open>Login\<close>

definition login_match :: "string \<Rightarrow> user_row \<Rightarrow> bool" where
  "login_match name r \<longleftrightarrow> (ac_username (account r) = name \<or> email r = name) \<and> ac_is_active (account r) = Some True"

definition login :: "env \<Rightarrow> uuid list \<Rightarrow> string \<Rightarrow> string \<Rightarrow> (world, nat \<times> auth_response) io" where
  "login e scan name password =
    bnd (attempt (query (find_user scan (login_match name)))) (\<lambda>user_result.
    case user_result of
      Inl _ \<Rightarrow> ret (500, refused [])
    | Inr None \<Rightarrow> ret (401, refused ''user_not_found'')
    | Inr (Some (u, r)) \<Rightarrow>
       (case verify_password e password (ac_password_hash (account r)) of
          Inl _ \<Rightarrow> ret (500, refused [])
        | Inr False \<Rightarrow> ret (401, refused ''invalid_credentials'')
        | Inr True \<Rightarrow>
           bnd get_clock (\<lambda>now.
           ret (200, \<lparr>ar_access_token = access_token e now u (ac_username (account r)) (ac_role (account r)), ar_expires_in = 86400,
             ar_user = user_response_of u r\<rparr>))))"

subsection \<open>Email verification\<close>

text \<open>A fresh key pair is funded and registered on the chain; both calls may fail.\<close>

definition register_on_chain :: "env \<Rightarrow> string \<Rightarrow> (world, bool) io" where
  "register_on_chain e pk =
    bnd (attempt (call_str e (RequestAirdrop pk 100000000))) (\<lambda>airdrop.
    case airdrop of
      Inl _ \<Rightarrow> ret False
    | Inr _ \<Rightarrow> sq (sleep 2) (bnd (attempt (call_str e (RegisterUser pk 0 ''GridTokenX Platform''))) (\<lambda>r. ret (\<not> isl r))))"

definition generate_auth_response :: "env \<Rightarrow> time \<Rightarrow> uuid \<Rightarrow> user_row \<Rightarrow> string option \<Rightarrow> auth_response option" where
  "generate_auth_response e now u r wallet =
    map_option (\<lambda>token. \<lparr>ar_access_token = token, ar_expires_in = 86400,
        ar_user = (user_response_of u r)\<lparr>ur_wallet_address := wallet, ur_balance := 0, ur_locked_amount := 0, ur_locked_energy := 0\<rparr>\<rparr>)
      (jwt_encode e (claims_new now u (ac_username (account r)) (ac_role (account r))))"

definition new_verified :: "string \<Rightarrow> string \<Rightarrow> string \<Rightarrow> string \<Rightarrow> bool \<Rightarrow> user_row \<Rightarrow> user_row" where
  "new_verified pk enc salt iv onchain r =
    on_account (\<lambda>a. a\<lparr>ac_blockchain_registered := Some onchain\<rparr>)
      (r\<lparr>email_verified := True, wallet_address := Some pk, encrypted_private_key := Some enc, wallet_salt := Some salt, encryption_iv := Some iv\<rparr>)"

definition coalesce :: "'a option \<Rightarrow> 'a \<Rightarrow> 'a option" where
  "coalesce x y = (case x of None \<Rightarrow> Some y | Some v \<Rightarrow> Some v)"

definition fill_wallet :: "string \<Rightarrow> string \<Rightarrow> string \<Rightarrow> string \<Rightarrow> user_row \<Rightarrow> user_row" where
  "fill_wallet pk enc salt iv r =
    r\<lparr>email_verified := True, wallet_address := coalesce (if wallet_address r = Some [] then None else wallet_address r) pk,
      encrypted_private_key := coalesce (encrypted_private_key r) enc, wallet_salt := coalesce (wallet_salt r) salt,
      encryption_iv := coalesce (encryption_iv r) iv\<rparr>"

definition has_wallet :: "user_row \<Rightarrow> bool" where
  "has_wallet r \<longleftrightarrow> wallet_address r \<noteq> None \<and> wallet_address r \<noteq> Some []"

definition verified_response :: "env \<Rightarrow> string \<Rightarrow> uuid \<Rightarrow> user_row \<Rightarrow> string option \<Rightarrow> (world, verify_email_response) io" where
  "verified_response e m u r wallet =
    bnd get_clock (\<lambda>now. ret \<lparr>ve_success = True, ve_message = m, ve_wallet_address = wallet, ve_auth = generate_auth_response e now u r wallet\<rparr>)"

text \<open>The branch for tokens of the form \<open>verify_<username>\<close>.\<close>

definition verify_by_name :: "env \<Rightarrow> uuid list \<Rightarrow> string \<Rightarrow> string \<Rightarrow> string \<Rightarrow> string \<Rightarrow> string \<Rightarrow> bool \<Rightarrow> (world, verify_email_response) io" where
  "verify_by_name e scan name pk enc salt iv onchain =
    (let named = (\<lambda>r. ac_username (account r) = name); fresh = (\<lambda>r. named r \<and> \<not> has_wallet r) in
     bnd (attempt (update_users scan (wallet_fits scan fresh pk) fresh (new_verified pk enc salt iv onchain))) (\<lambda>update_test.
     case update_test of
       Inr (Some (u, r)) \<Rightarrow> verified_response e ''Email verified! You are now logged in.'' u r (Some pk)
     | _ \<Rightarrow>
        bnd (attempt (update_users scan (wallet_fits scan fresh pk) named (fill_wallet pk enc salt iv))) (\<lambda>user_result.
        case user_result of
          Inr (Some (u, r)) \<Rightarrow> verified_response e ''Email verified! You are now logged in.'' u r (wallet_address r)
        | _ \<Rightarrow> ret (simple_response False ''Invalid or expired verification token''))))"

definition verify_email :: "env \<Rightarrow> uuid list \<Rightarrow> string \<Rightarrow> (world, verify_email_response) io" where
  "verify_email e scan token =
    (if token = [] then ret (simple_response False ''Missing verification token'')
     else
      bnd (attempt (fresh_wallet e)) (\<lambda>wallet.
      case wallet of
        Inl _ \<Rightarrow> ret (simple_response False ''Failed to create secure wallet'')
      | Inr (pk, enc, salt, iv) \<Rightarrow>
         bnd (register_on_chain e pk) (\<lambda>onchain.
         let waiting = (\<lambda>r. ac_email_verification_token (account r) = Some token \<and> \<not> email_verified r) in
         bnd (attempt (update_users scan (wallet_fits scan waiting pk) waiting (new_verified pk enc salt iv onchain))) (\<lambda>update_result.
         case update_result of
           Inr (Some (u, r)) \<Rightarrow> verified_response e ''Email verified successfully! You are now logged in.'' u r (Some pk)
         | Inr None \<Rightarrow>
            if starts_with token ''verify_'' then verify_by_name e scan (drop 7 token) pk enc salt iv onchain
            else ret (simple_response False ''Invalid or expired verification token'')
         | Inl _ \<Rightarrow> ret (simple_response False ''Verification failed. Please try again.'')))))"

subsection \<open>Registration\<close>

record registration_request =
  rr_username :: string
  rr_email :: string
  rr_password :: string
  rr_first_name :: string
  rr_last_name :: string

record registration_response =
  rn_message :: string
  rn_email_verification_sent :: bool
  rn_auth :: "auth_response option"

text \<open>The keys of \<open>users\<close> and the lengths of its columns.\<close>

definition user_fits :: "uuid list \<Rightarrow> uuid \<Rightarrow> user_row \<Rightarrow> db \<Rightarrow> bool" where
  "user_fits scan u r d \<longleftrightarrow> users d u = None
     \<and> list_all (\<lambda>v. case users d v of None \<Rightarrow> True
         | Some x \<Rightarrow> ac_username (account x) \<noteq> ac_username (account r) \<and> to_lower (email x) \<noteq> to_lower (email r)) scan
     \<and> length (email r) \<le> 255 \<and> length (ac_username (account r)) \<le> 50 \<and> length (ac_password_hash (account r)) \<le> 255
     \<and> at_most 100 (ac_first_name (account r)) \<and> at_most 100 (ac_last_name (account r))"

definition new_user :: "registration_request \<Rightarrow> string \<Rightarrow> string \<Rightarrow> time \<Rightarrow> user_row" where
  "new_user q hash token expires =
    \<lparr> balance = Some 0, locked_amount = Some 0, locked_energy = Some 0, wallet_address = None, encrypted_private_key = None,
      wallet_salt = None, encryption_iv = None, email = rr_email q, email_verified = False,
      account = \<lparr> ac_username = rr_username q, ac_password_hash = hash, ac_role = ''user'', ac_first_name = Some (rr_first_name q),
        ac_last_name = Some (rr_last_name q), ac_is_active = Some True, ac_blockchain_registered = Some False,
        ac_email_verification_token = Some token, ac_email_verification_expires_at = Some expires,
        ac_password_reset_token = None, ac_password_reset_expires_at = None \<rparr> \<rparr>"

type_synonym mail = "string \<times> string"

definition send_mail :: "env \<Rightarrow> string \<Rightarrow> string \<Rightarrow> string \<Rightarrow> bool" where
  "send_mail e address token name = (case mailer e of None \<Rightarrow> False | Some send \<Rightarrow> send address token name)"

definition verification_expiry :: "env \<Rightarrow> time \<Rightarrow> time" where
  "verification_expiry e now = now + verification_expiry_hours e * 3600 * 1000000000"

definition register :: "env \<Rightarrow> uuid list \<Rightarrow> registration_request \<Rightarrow> (world, registration_response \<times> mail option) io" where
  "register e scan q =
    bnd (fresh_uuid e) (\<lambda>i.
    case hash_password e (rr_password q) of
      Inl er \<Rightarrow> ret (\<lparr>rn_message = ''Registration failed: '' @ api_display er, rn_email_verification_sent = False, rn_auth = None\<rparr>, None)
    | Inr hash \<Rightarrow>
       bnd (fresh_uuid e) (\<lambda>t. bnd get_clock (\<lambda>now.
       let token = uuid_str t; r = new_user q hash token (verification_expiry e now) in
       bnd (attempt (exec_chk (user_fits scan i r) (\<lambda>d. d\<lparr>users := (users d)(i \<mapsto> r)\<rparr>))) (\<lambda>insert_result.
       case insert_result of
         Inl er \<Rightarrow> ret (\<lparr>rn_message = ''Registration failed: '' @ sql_text er, rn_email_verification_sent = False, rn_auth = None\<rparr>, None)
       | Inr _ \<Rightarrow>
          (let email_sent = send_mail e (rr_email q) token (rr_username q) in
           ret (\<lparr>rn_message = (if email_sent then ''Registration successful. Please check your email to verify your account.''
                   else ''Registration successful. Email verification may be delayed.''),
                 rn_email_verification_sent = email_sent,
                 rn_auth = Some \<lparr>ar_access_token = access_token e now i (rr_username q) ''user'', ar_expires_in = 86400, ar_user = user_response_of i r\<rparr>\<rparr>,
                if email_sent then Some (rr_email q, token) else None))))))"

definition resend_verification :: "env \<Rightarrow> uuid list \<Rightarrow> string \<Rightarrow> (world, verify_email_response \<times> mail option) io" where
  "resend_verification e scan address =
    bnd (attempt (query (find_user scan (\<lambda>r. email r = address)))) (\<lambda>user_result.
    case user_result of
      Inl _ \<Rightarrow> ret (simple_response False ''An error occurred. Please try again.'', None)
    | Inr None \<Rightarrow> ret (simple_response False ''Email address not found.'', None)
    | Inr (Some (u, r)) \<Rightarrow>
       (if email_verified r then ret (simple_response True ''Email is already verified. You can login now.'', None)
        else
         bnd (fresh_uuid e) (\<lambda>t. bnd get_clock (\<lambda>now.
         let token = uuid_str t in
         bnd (attempt (exec (upd_user u (on_account (\<lambda>a. a\<lparr>ac_email_verification_token := Some token,
                ac_email_verification_expires_at := Some (verification_expiry e now)\<rparr>))))) (\<lambda>update_result.
         case update_result of
           Inl _ \<Rightarrow> ret (simple_response False ''Failed to generate new verification token.'', None)
         | Inr _ \<Rightarrow>
            ret (if send_mail e address token (ac_username (account r))
                 then (simple_response True (''Verification email sent to '' @ address @ ''. Please check your inbox.''), Some (address, token))
                 else (simple_response False ''Failed to send verification email. Please try again later.'', None)))))))"

subsection \<open>Passwords of an account\<close>

definition is_active_user :: "user_row \<Rightarrow> bool" where
  "is_active_user r \<longleftrightarrow> ac_is_active (account r) = Some True"

definition forgot_password :: "env \<Rightarrow> uuid list \<Rightarrow> string \<Rightarrow> (world, verify_email_response \<times> mail option) io" where
  "forgot_password e scan address =
    (let sent = simple_response True ''If an account with that email exists, a password reset link has been sent.'' in
     bnd (attempt (query (find_user scan (\<lambda>r. email r = address \<and> is_active_user r)))) (\<lambda>user_result.
     case user_result of
       Inl _ \<Rightarrow> ret (simple_response False ''An error occurred. Please try again.'', None)
     | Inr None \<Rightarrow> ret (sent, None)
     | Inr (Some (u, r)) \<Rightarrow>
        bnd (fresh_uuid e) (\<lambda>t. bnd get_clock (\<lambda>now.
        let token = uuid_str t in
        bnd (attempt (exec (upd_user u (on_account (\<lambda>a. a\<lparr>ac_password_reset_token := Some token,
               ac_password_reset_expires_at := Some (now + 3600 * 1000000000)\<rparr>))))) (\<lambda>update_result.
        case update_result of
          Inl _ \<Rightarrow> ret (simple_response False ''Failed to generate reset token. Please try again.'', None)
        | Inr _ \<Rightarrow> ret (sent, if send_mail e address token (ac_username (account r)) then Some (address, token) else None))))))"

definition reset_match :: "string \<Rightarrow> user_row \<Rightarrow> bool" where
  "reset_match token r \<longleftrightarrow> ac_password_reset_token (account r) = Some token \<and> ac_password_reset_expires_at (account r) \<noteq> None \<and> is_active_user r"

definition set_password :: "string \<Rightarrow> account_row \<Rightarrow> account_row" where
  "set_password hash a = a\<lparr>ac_password_hash := hash\<rparr>"

definition clear_reset :: "account_row \<Rightarrow> account_row" where
  "clear_reset a = a\<lparr>ac_password_reset_token := None, ac_password_reset_expires_at := None\<rparr>"

definition reset_password :: "env \<Rightarrow> uuid list \<Rightarrow> string \<Rightarrow> string \<Rightarrow> (world, verify_email_response) io" where
  "reset_password e scan token new_password =
    (if token = [] then ret (simple_response False ''Reset token is required.'')
     else if length new_password < 8 then ret (simple_response False ''Password must be at least 8 characters long.'')
     else
      bnd (attempt (query (find_user scan (reset_match token)))) (\<lambda>user_result.
      case user_result of
        Inl _ \<Rightarrow> ret (simple_response False ''An error occurred. Please try again.'')
      | Inr None \<Rightarrow> ret (simple_response False ''Invalid or expired reset token.'')
      | Inr (Some (u, r)) \<Rightarrow>
         bnd get_clock (\<lambda>now.
         if (case ac_password_reset_expires_at (account r) of Some t \<Rightarrow> now > t | None \<Rightarrow> False)
         then ret (simple_response False ''Reset token has expired. Please request a new one.'')
         else (case hash_password e new_password of
             Inl er \<Rightarrow> ret (simple_response False (api_display er))
           | Inr hash \<Rightarrow>
              bnd (attempt (exec_chk (\<lambda>_. length hash \<le> 255) (upd_user u (on_account (\<lambda>a. clear_reset (set_password hash a)))))) (\<lambda>update_result.
              ret (case update_result of
                  Inr _ \<Rightarrow> simple_response True ''Password has been reset successfully. You can now login with your new password.''
                | Inl _ \<Rightarrow> simple_response False ''Failed to reset password. Please try again.''))))))"

definition change_password :: "env \<Rightarrow> string option \<Rightarrow> string \<Rightarrow> string \<Rightarrow> (world, verify_email_response) io" where
  "change_password e auth_header current_password new_password =
    bnd get_clock (\<lambda>now.
    case jwt_decode e now (strip_bearer (unwrap_or auth_header [])) of
      None \<Rightarrow> ret (simple_response False ''Invalid or expired token. Please log in again.'')
    | Some c \<Rightarrow>
       if length new_password < 8 then ret (simple_response False ''New password must be at least 8 characters long.'')
       else
        bnd (attempt (query (\<lambda>d. case users d (cl_sub c) of Some r \<Rightarrow> if is_active_user r then Some (ac_password_hash (account r)) else None | None \<Rightarrow> None))) (\<lambda>user_result.
        case user_result of
          Inl _ \<Rightarrow> ret (simple_response False ''An error occurred. Please try again.'')
        | Inr None \<Rightarrow> ret (simple_response False ''User not found.'')
        | Inr (Some current_hash) \<Rightarrow>
           (case verify_password e current_password current_hash of
              Inl _ \<Rightarrow> ret (simple_response False ''An error occurred. Please try again.'')
            | Inr False \<Rightarrow> ret (simple_response False ''Current password is incorrect.'')
            | Inr True \<Rightarrow>
               (case hash_password e new_password of
                  Inl er \<Rightarrow> ret (simple_response False (api_display er))
                | Inr new_hash \<Rightarrow>
                   bnd (attempt (exec_chk (\<lambda>_. length new_hash \<le> 255) (upd_user (cl_sub c) (on_account (set_password new_hash))))) (\<lambda>update_result.
                   ret (case update_result of
                       Inr _ \<Rightarrow> simple_response True ''Password changed successfully.''
                     | Inl _ \<Rightarrow> simple_response False ''Failed to change password. Please try again.''))))))"

subsection \<open>Profile and wallet\<close>

definition guest :: "uuid \<Rightarrow> user_response" where
  "guest i = \<lparr>ur_id = i, ur_username = ''guest'', ur_email = ''guest@gridtokenx.com'', ur_role = ''user'', ur_first_name = ''Guest'',
     ur_last_name = ''User'', ur_wallet_address = None, ur_balance = 0, ur_locked_amount = 0, ur_locked_energy = 0\<rparr>"

definition profile :: "env \<Rightarrow> string option \<Rightarrow> (world, user_response) io" where
  "profile e auth_header =
    bnd get_clock (\<lambda>now.
    bnd (case jwt_decode e now (strip_bearer (unwrap_or auth_header [])) of
           None \<Rightarrow> ret None
         | Some c \<Rightarrow> bnd (attempt (query (\<lambda>d. users d (cl_sub c)))) (\<lambda>r. ret (case r of Inr (Some x) \<Rightarrow> Some (user_response_of (cl_sub c) x) | _ \<Rightarrow> None)))
      (\<lambda>found. case found of Some x \<Rightarrow> ret x | None \<Rightarrow> bnd (fresh_uuid e) (\<lambda>i. ret (guest i))))"

definition bearer_claims :: "env \<Rightarrow> string option \<Rightarrow> (world, claims) io" where
  "bearer_claims e auth_header =
    bnd (ok_or auth_header (Unauthorized ''Missing token'')) (\<lambda>h.
    bnd get_clock (\<lambda>now. ok_or (jwt_decode e now (strip_bearer h)) (Unauthorized ''Invalid token'')))"

definition update_user_returning :: "uuid list \<Rightarrow> uuid \<Rightarrow> string \<Rightarrow> (user_row \<Rightarrow> user_row) \<Rightarrow> (world, user_row) io" where
  "update_user_returning scan u pk f =
    bnd (map_err (\<lambda>_. Internal ''Database error'')
      (exec_returning (\<lambda>d. users d u = None \<or> length pk \<le> 88 \<and> list_all (\<lambda>v. v = u \<or> (case users d v of None \<Rightarrow> True | Some r \<Rightarrow> wallet_address r \<noteq> Some pk)) scan)
        (upd_user u f) (\<lambda>d. users d u))) (\<lambda>r.
    ok_or r (Internal ''Database error''))"

definition update_wallet :: "env \<Rightarrow> uuid list \<Rightarrow> string option \<Rightarrow> string \<Rightarrow> (world, user_response) io" where
  "update_wallet e scan auth_header wallet =
    bnd (bearer_claims e auth_header) (\<lambda>c.
    bnd (update_user_returning scan (cl_sub c) wallet
           (\<lambda>r. on_account (\<lambda>a. a\<lparr>ac_blockchain_registered := Some True\<rparr>) (r\<lparr>wallet_address := Some wallet\<rparr>))) (\<lambda>r.
    ret (user_response_of (cl_sub c) r)))"

definition generate_wallet :: "env \<Rightarrow> uuid list \<Rightarrow> string option \<Rightarrow> (world, user_response) io" where
  "generate_wallet e scan auth_header =
    bnd (bearer_claims e auth_header) (\<lambda>c.
    bnd (map_err (\<lambda>_. Internal ''Encryption failure'') (fresh_wallet e)) (\<lambda>(pk, enc, salt, iv).
    bnd (update_user_returning scan (cl_sub c) pk
           (\<lambda>r. on_account (\<lambda>a. a\<lparr>ac_blockchain_registered := Some True\<rparr>) (set_wallet pk enc salt iv r))) (\<lambda>r.
    sq (ignore (call_str e (RequestAirdrop pk 2000000000)))
       (ret (user_response_of (cl_sub c) r)))))"

subsection \<open>Password policy\<close>

lemma starts_with_iff: "starts_with s p \<longleftrightarrow> (\<exists>r. s = p @ r)"
  by (induction s p rule: starts_with.induct) auto

lemma contains_iff: "contains s p \<longleftrightarrow> (\<exists>a b. s = a @ p @ b)"
proof (induction s)
  case (Cons c cs)
  have "(\<exists>a b. c # cs = a @ p @ b) \<longleftrightarrow> (\<exists>b. c # cs = p @ b) \<or> (\<exists>a b. cs = a @ p @ b)"
    by (metis Cons_eq_append_conv append_Cons append_Nil)
  with Cons show ?case by (auto simp: starts_with_iff)
qed auto

text \<open>
  The password policy.  A password is accepted exactly when it has 8 to 128 characters, among them a lower
  case letter, an upper case letter, a digit and a special character, and, read without regard to
  case, contains none of the listed weak patterns.
\<close>

theorem password_policy:
  "validate_password_strength p = Inr () \<longleftrightarrow>
     8 \<le> length p \<and> length p \<le> 128
     \<and> (\<exists>c \<in> set p. is_lowercase c) \<and> (\<exists>c \<in> set p. is_uppercase c) \<and> (\<exists>c \<in> set p. is_digit c) \<and> set p \<inter> set special_chars \<noteq> {}
     \<and> \<not> (\<exists>w a b. w \<in> set weak_patterns \<and> to_lower p = a @ w @ b)"
proof -
  have "(\<exists>w a b. w \<in> set weak_patterns \<and> to_lower p = a @ w @ b) \<longleftrightarrow> list_ex (\<lambda>w. contains (to_lower p) w) weak_patterns"
    by (auto simp: list_ex_iff contains_iff)
  moreover have "map snd (filter (\<lambda>c. \<not> fst c) (strength_checks p)) = [] \<longleftrightarrow>
      list_ex is_lowercase p \<and> list_ex is_uppercase p \<and> list_ex is_digit p \<and> list_ex (\<lambda>c. c \<in> set special_chars) p"
    by (simp add: strength_checks_def)
  ultimately show ?thesis
    by (auto simp: validate_password_strength_def Let_def list_ex_iff simp del: map_is_Nil_conv)
qed

subsection \<open>Access\<close>

lemma find_user_Some:
  assumes "find_user scan p d = Some (u, r)"
  shows "u \<in> set scan" and "users d u = Some r" and "p r"
  using assms by (auto simp: find_user_def find_Some_iff in_set_conv_nth bind_eq_Some_conv split: option.splits)

lemma find_user_None:
  assumes "find_user scan p d = None" and "u \<in> set scan" and "users d u = Some r"
  shows "\<not> p r"
proof
  assume "p r"
  have "find (\<lambda>u. case users d u of None \<Rightarrow> False | Some r \<Rightarrow> p r) scan \<noteq> None"
    using assms(2,3) \<open>p r\<close> by (auto simp: find_None_iff)
  then obtain v where v: "find (\<lambda>u. case users d u of None \<Rightarrow> False | Some r \<Rightarrow> p r) scan = Some v" by auto
  then have "users d v \<noteq> None" by (auto simp: find_Some_iff split: option.splits)
  with v assms(1) show False by (auto simp: find_user_def)
qed

lemma login_needs_password_aux:
  assumes "login e scan name password w = (Ok (200, a), w')"
  shows "db w' = db w \<and> (\<exists>u r. users (db w) u = Some r \<and> login_match name r
    \<and> bcrypt_verify e password (ac_password_hash (account r)) = Inr True
    \<and> ar_access_token a = access_token e (clock w) u (ac_username (account r)) (ac_role (account r))
    \<and> ar_user a = user_response_of u r)"
proof -
  obtain x where q: "attempt (query (find_user scan (login_match name))) w = (Ok x, tick w)"
    "\<And>y. x = Inr y \<Longrightarrow> y = find_user scan (login_match name) (db w)"
    by (cases "faulty w") (auto simp: attempt_app query_def)
  from assms obtain u r where x: "x = Inr (Some (u, r))" and v: "verify_password e password (ac_password_hash (account r)) = Inr True"
    using q(1) by (auto simp: login_def bnd_app refused_def split: sum.splits option.splits bool.splits)
  have "login e scan name password w = (Ok (200, \<lparr>ar_access_token = access_token e (clock w) u (ac_username (account r)) (ac_role (account r)),
      ar_expires_in = 86400, ar_user = user_response_of u r\<rparr>), tick w)"
    using q(1) x v by (simp add: login_def bnd_app get_clock_app)
  moreover have "bcrypt_verify e password (ac_password_hash (account r)) = Inr True" using v by (simp add: verify_password_def split: sum.splits)
  ultimately show ?thesis using assms q(2) x find_user_Some [of scan "login_match name" "db w" u r] by auto
qed

text \<open>
  C17. Logging in takes the password.  When the answer is 200, there is an active user with the given name or email
  address whose stored hash the given password matches, the token is the one for this user's
  identifier, name and role, and the call changes no table.
\<close>

theorem login_needs_password:
  assumes "login e scan name password w = (Ok (200, a), w')"
  shows "db w' = db w \<and> (\<exists>u r. users (db w) u = Some r \<and> login_match name r
    \<and> bcrypt_verify e password (ac_password_hash (account r)) = Inr True
    \<and> ar_access_token a = access_token e (clock w) u (ac_username (account r)) (ac_role (account r))
    \<and> ar_user a = user_response_of u r)"
  using login_needs_password_aux [OF assms] .

text \<open>
  C18. Nobody becomes an administrator without a signed token.  When the middleware lets a request pass and the check for
  the administrator role succeeds, the request carried a bearer token that is not the API key and that the
  token library decoded to claims with the role of an administrator; the API key, with or
  without impersonation, never gives that role.
\<close>

theorem admin_needs_token:
  assumes "auth_middleware e now h = Inr c" and "require_admin_role c = Inr ()"
  shows "\<exists>a token. ah_authorization h = Some a \<and> bearer_of a = Some token \<and> token \<noteq> engineering_api_key e
    \<and> jwt_decode e now token = Some c \<and> account_role_from (cl_role c) = Some RAdmin"
proof -
  have "account_role_from (cl_role (simulator_claims e now i)) = Some RAMI" for i
    by (simp add: simulator_claims_def claims_new_def account_role_from_def to_lower_def Let_def)
  with assms show ?thesis
    by (auto simp: auth_middleware_def require_admin_role_def bind_eq_Some_conv split: option.splits if_splits)
qed

text \<open>
  The token of a login is good for a day.  Provided that the token library decodes a token to the claims it was
  made of until they expire, the token of a successful login, sent as bearer token within 24 hours, passes
  the middleware with the identifier, name and role of the user who logged in.
\<close>

theorem login_token_authenticates:
  assumes "login e scan name password w = (Ok (200, a), w')"
    and "\<And>c t. jwt_encode e c = Some t \<Longrightarrow> \<not> claims_expired now c \<Longrightarrow> jwt_decode e now t = Some c"
    and "jwt_encode e (claims_new (clock w) (ur_id (ar_user a)) (ur_username (ar_user a)) (ur_role (ar_user a))) = Some token"
    and "token \<noteq> engineering_api_key e" and "clock w \<le> now" and "now \<le> clock w + 24 * 3600 * 1000000000"
    and "0 \<le> clock w" and "now < 2 ^ 62"
  shows "auth_middleware e now \<lparr>ah_authorization = Some (''Bearer '' @ ar_access_token a), ah_api_key = None, ah_impersonate = None\<rparr>
    = Inr (claims_new (clock w) (ur_id (ar_user a)) (ur_username (ar_user a)) (ur_role (ar_user a)))"
proof -
  from login_needs_password_aux [OF assms(1)] obtain u r where
    a: "ar_access_token a = access_token e (clock w) u (ac_username (account r)) (ac_role (account r))" "ar_user a = user_response_of u r" by blast
  then have t: "ar_access_token a = token" using assms(3) by (simp add: access_token_def user_response_of_def)
  have "now div 1000000000 \<le> (clock w + 86400000000000) div 1000000000" using assms(6) by (intro zdiv_mono1) simp_all
  moreover have "0 \<le> now div 1000000000" "(clock w + 86400000000000) div 1000000000 < 2 ^ 63" "now div 1000000000 < 2 ^ 63"
    using assms(5,7,8) by (auto simp: div_less_iff_less_mult)
  ultimately have "\<not> claims_expired now (claims_new (clock w) u n ro)" for n ro
    by (simp add: claims_expired_def claims_new_def unix_seconds_def sint_i64_small)
  then show ?thesis using assms(2) [OF assms(3)] assms(4) a(2) t by (simp add: auth_middleware_def bearer_of_def user_response_of_def)
qed

subsection \<open>Resetting a password\<close>

lemma attempt_query: "\<exists>x. attempt (query q) w = (Ok x, tick w) \<and> (x = Inr (q (db w)) \<or> (\<exists>er. x = Inl er))"
  by (cases "faulty w") (auto simp: attempt_app query_def)

lemma attempt_exec_chk:
  "(attempt (exec_chk ok f) w = (Ok (Inr ()), (tick w)\<lparr>db := f (db w)\<rparr>) \<and> ok (db w)) \<or> (\<exists>er. attempt (exec_chk ok f) w = (Ok (Inl er), tick w))"
  by (cases "faulty w") (auto simp: attempt_app exec_chk_def)

text \<open>The users after a reset, and what the token had to be.\<close>

definition reset_of :: "env \<Rightarrow> string \<Rightarrow> string \<Rightarrow> world \<Rightarrow> world \<Rightarrow> bool" where
  "reset_of e token pw w w' \<longleftrightarrow> (\<exists>u r t hash. users (db w) u = Some r \<and> reset_match token r
     \<and> ac_password_reset_expires_at (account r) = Some t \<and> clock w \<le> t \<and> hash_password e pw = Inr hash
     \<and> db w' = upd_user u (on_account (\<lambda>a. clear_reset (set_password hash a))) (db w))"

lemma ve_success_simple [simp]: "ve_success (simple_response ok m) = ok"
  by (cases ok) (simp_all add: simple_response_def)

lemma reset_password_cases:
  obtains (refused) resp w' where "reset_password e scan token pw w = (Ok resp, w')" and "\<not> ve_success resp" and "db w' = db w"
  | (reset) resp w' where "reset_password e scan token pw w = (Ok resp, w')" and "ve_success resp" and "reset_of e token pw w w'"
proof (cases "token = [] \<or> length pw < 8")
  case True
  then have "\<exists>m. reset_password e scan token pw w = (Ok (simple_response False m), w)" by (auto simp: reset_password_def ret_def)
  then show thesis by (elim exE) (rule refused, assumption, simp_all)
next
  case False
  obtain x where q: "attempt (query (find_user scan (reset_match token))) w = (Ok x, tick w)"
    and x: "x = Inr (find_user scan (reset_match token) (db w)) \<or> (\<exists>er. x = Inl er)"
    using attempt_query [of "find_user scan (reset_match token)" w] by blast
  show thesis
  proof (cases "\<exists>u r t hash. x = Inr (Some (u, r)) \<and> ac_password_reset_expires_at (account r) = Some t \<and> clock w \<le> t \<and> hash_password e pw = Inr hash")
    case True
    then obtain u r t hash where h: "x = Inr (Some (u, r))" "ac_password_reset_expires_at (account r) = Some t" "clock w \<le> t" "hash_password e pw = Inr hash" by blast
    with x have "find_user scan (reset_match token) (db w) = Some (u, r)" by auto
    note f = find_user_Some [OF this]
    let ?f = "upd_user u (on_account (\<lambda>a. clear_reset (set_password hash a)))"
    have run: "reset_password e scan token pw w = (case attempt (exec_chk (\<lambda>_. length hash \<le> 255) ?f) (tick w) of
        (Ok (Inr _), w1) \<Rightarrow> (Ok (simple_response True ''Password has been reset successfully. You can now login with your new password.''), w1)
      | (Ok (Inl _), w1) \<Rightarrow> (Ok (simple_response False ''Failed to reset password. Please try again.''), w1)
      | (Err er, w1) \<Rightarrow> (Err er, w1) | (Panic, w1) \<Rightarrow> (Panic, w1))"
      using False q h by (auto simp: reset_password_def bnd_app get_clock_app ret_def split: prod.splits outcome.splits sum.splits)
    from attempt_exec_chk [of "\<lambda>_. length hash \<le> 255" ?f "tick w"] show thesis
    proof (elim disjE conjE exE)
      assume "attempt (exec_chk (\<lambda>_. length hash \<le> 255) ?f) (tick w) = (Ok (Inr ()), (tick (tick w))\<lparr>db := ?f (db (tick w))\<rparr>)"
      with run have "reset_password e scan token pw w
        = (Ok (simple_response True ''Password has been reset successfully. You can now login with your new password.''), (tick (tick w))\<lparr>db := ?f (db w)\<rparr>)" by simp
      moreover have "reset_of e token pw w ((tick (tick w))\<lparr>db := ?f (db w)\<rparr>)"
        unfolding reset_of_def using f(2,3) h by (intro exI [of _ u] exI [of _ r] exI [of _ t] exI [of _ hash]) simp
      ultimately show thesis by (metis reset ve_success_simple)
    next
      fix er assume "attempt (exec_chk (\<lambda>_. length hash \<le> 255) ?f) (tick w) = (Ok (Inl er), tick (tick w))"
      with run have "reset_password e scan token pw w = (Ok (simple_response False ''Failed to reset password. Please try again.''), tick (tick w))" by simp
      then show thesis by (metis refused ve_success_simple tick_simps(1))
    qed
  next
    case no: False
    have "\<exists>m. reset_password e scan token pw w = (Ok (simple_response False m), tick w)"
    proof (cases "\<exists>u r. x = Inr (Some (u, r))")
      case True
      then obtain u r where h: "x = Inr (Some (u, r))" by blast
      with x have "find_user scan (reset_match token) (db w) = Some (u, r)" by auto
      from find_user_Some(3) [OF this] obtain t where "ac_password_reset_expires_at (account r) = Some t" by (auto simp: reset_match_def)
      with no h q False show ?thesis
        by (auto simp: reset_password_def bnd_app get_clock_app ret_def not_le split: sum.splits)
    next
      case no_user: False
      then consider er where "x = Inl er" | "x = Inr None" by (cases x) (auto, metis option.exhaust surj_pair)
      then show ?thesis using q False by cases (auto simp: reset_password_def bnd_app ret_def)
    qed
    then show thesis by (elim exE) (rule refused, assumption, simp_all)
  qed
qed

text \<open>
  C19. A reset token works once, in time, for one account.  A reset that reports success used a token that an active
  account held and that had not expired, and a password that passed the policy; it changes nothing but
  the password and the token of this account.  A reset that reports failure changes nothing.  As long as no two accounts
  hold the same token, the token is refused from then on.
\<close>

theorem reset_token_single_use:
  assumes "reset_password e scan token pw w = (Ok resp, w')"
    and "\<And>u v r s. users (db w) u = Some r \<Longrightarrow> users (db w) v = Some s \<Longrightarrow>
      ac_password_reset_token (account r) = Some token \<Longrightarrow> ac_password_reset_token (account s) = Some token \<Longrightarrow> u = v"
  shows "if ve_success resp
    then reset_of e token pw w w' \<and> (\<forall>scan2 pw2 w2. users (db w2) = users (db w') \<longrightarrow>
      (\<exists>resp2 w3. reset_password e scan2 token pw2 w2 = (Ok resp2, w3) \<and> \<not> ve_success resp2 \<and> db w3 = db w2))
    else db w' = db w"
proof (cases rule: reset_password_cases [of e scan token pw w])
  case (refused resp1 w1)
  then show ?thesis using assms(1) by simp
next
  case (reset resp1 w1)
  then have *: "ve_success resp" "reset_of e token pw w w'" using assms(1) by simp_all
  then obtain u r hash where u: "users (db w) u = Some r" "reset_match token r"
    "db w' = upd_user u (on_account (\<lambda>a. clear_reset (set_password hash a))) (db w)" by (auto simp: reset_of_def)
  have gone: "\<not> reset_match token s" if "users (db w') v = Some s" for v s
  proof (cases "v = u")
    case True
    with that u show ?thesis by (auto simp: upd_user_def reset_match_def on_account_def clear_reset_def)
  next
    case False
    with that u(3) have "users (db w) v = Some s" by (auto simp: upd_user_def split: option.splits)
    then show ?thesis using assms(2) [OF u(1)] u(2) False by (auto simp: reset_match_def)
  qed
  have "\<exists>resp2 w3. reset_password e scan2 token pw2 w2 = (Ok resp2, w3) \<and> \<not> ve_success resp2 \<and> db w3 = db w2"
    if "users (db w2) = users (db w')" for scan2 pw2 and w2 :: world
    using that gone by (cases rule: reset_password_cases [of e scan2 token pw2 w2]) (auto simp: reset_of_def)
  with * show ?thesis by auto
qed

text \<open>
  Asking for a reset tells nothing about the accounts.  While no statement is lost, the answer is the same
  for every address; a mail goes to the address that was given, with a token that from then on is the
  one of an active account with this address; otherwise the tables stay as they are.
\<close>

theorem forgot_password_uniform:
  assumes "faults w = []"
  shows "\<exists>mail w'. forgot_password e scan address w =
      (Ok (simple_response True ''If an account with that email exists, a password reset link has been sent.'', mail), w')
    \<and> (find_user scan (\<lambda>r. email r = address \<and> is_active_user r) (db w) = None \<longrightarrow> mail = None \<and> db w' = db w)
    \<and> (\<forall>to token. mail = Some (to, token) \<longrightarrow> to = address \<and> (\<exists>u r. users (db w') u = Some r \<and> email r = address
           \<and> reset_match token r \<and> ac_password_reset_expires_at (account r) = Some (clock w + 3600 * 1000000000)))"
proof (cases "find_user scan (\<lambda>r. email r = address \<and> is_active_user r) (db w)")
  case None
  with assms show ?thesis by (simp add: forgot_password_def io_simps bnd_app attempt_app ret_def Let_def)
next
  case (Some ur)
  then obtain u r where ur: "find_user scan (\<lambda>r. email r = address \<and> is_active_user r) (db w) = Some (u, r)" by (cases ur) auto
  note f = find_user_Some [OF this]
  let ?token = "uuid_str (new_v4 e (uuids w))"
  let ?g = "on_account (\<lambda>a. a\<lparr>ac_password_reset_token := Some ?token, ac_password_reset_expires_at := Some (clock w + 3600 * 1000000000)\<rparr>)"
  have "forgot_password e scan address w =
      (Ok (simple_response True ''If an account with that email exists, a password reset link has been sent.'',
         if send_mail e address ?token (ac_username (account r)) then Some (address, ?token) else None), w\<lparr>uuids := Suc (uuids w), db := upd_user u ?g (db w)\<rparr>)"
    using assms ur by (simp add: forgot_password_def io_simps bnd_app attempt_app ret_def Let_def)
  then show ?thesis using f ur by (auto simp: reset_match_def is_active_user_def on_account_def)
qed

subsection \<open>Unique accounts\<close>

definition accounts_ok :: "db \<Rightarrow> bool" where
  "accounts_ok d \<longleftrightarrow> (\<forall>u v r s. users d u = Some r \<longrightarrow> users d v = Some s \<longrightarrow> u \<noteq> v \<longrightarrow>
     ac_username (account r) \<noteq> ac_username (account s) \<and> to_lower (email r) \<noteq> to_lower (email s)
     \<and> (wallet_address r = None \<or> wallet_address r \<noteq> wallet_address s))"

definition same_identity :: "user_row \<Rightarrow> user_row \<Rightarrow> bool" where
  "same_identity r s \<longleftrightarrow> ac_username (account r) = ac_username (account s) \<and> email r = email s"

lemma users_upd_users [simp]: "users (upd_users p f d) = (\<lambda>u. map_option (\<lambda>r. if p r then f r else r) (users d u))"
  by (simp add: upd_users_def)

text \<open>One row gets the wallet \<open>pk\<close>, which no other row has.\<close>

lemma accounts_ok_one_wallet:
  assumes "accounts_ok d" and "\<And>v. users d' v = map_option (g v) (users d v)" and "\<And>v r. users d v = Some r \<Longrightarrow> same_identity (g v r) r"
    and "\<And>v r. users d v = Some r \<Longrightarrow> v \<noteq> u \<Longrightarrow> wallet_address (g v r) = wallet_address r \<and> wallet_address r \<noteq> Some pk"
    and "\<And>r. users d u = Some r \<Longrightarrow> wallet_address (g u r) = Some pk"
  shows "accounts_ok d'"
  unfolding accounts_ok_def
proof (intro allI impI)
  fix x y r s assume "users d' x = Some r" "users d' y = Some s" and xy: "x \<noteq> y"
  then obtain r0 s0 where *: "users d x = Some r0" "r = g x r0" "users d y = Some s0" "s = g y s0" using assms(2) by auto
  with assms(1) xy have "ac_username (account r0) \<noteq> ac_username (account s0)" "to_lower (email r0) \<noteq> to_lower (email s0)"
    "wallet_address r0 = None \<or> wallet_address r0 \<noteq> wallet_address s0" by (auto simp: accounts_ok_def)
  moreover have "wallet_address r = None \<or> wallet_address r \<noteq> wallet_address s"
    using assms(4) [of x r0] assms(4) [of y s0] assms(5) [of r0] assms(5) [of s0] * xy calculation(3) by (cases "x = u"; cases "y = u") auto
  ultimately show "ac_username (account r) \<noteq> ac_username (account s) \<and> to_lower (email r) \<noteq> to_lower (email s)
     \<and> (wallet_address r = None \<or> wallet_address r \<noteq> wallet_address s)"
    using * assms(3) [of x r0] assms(3) [of y s0] by (simp add: same_identity_def)
qed

lemma accounts_ok_same_wallets:
  assumes "accounts_ok d" and "\<And>v. users d' v = map_option (g v) (users d v)"
    and "\<And>v r. users d v = Some r \<Longrightarrow> same_identity (g v r) r \<and> wallet_address (g v r) = wallet_address r"
  shows "accounts_ok d'"
  unfolding accounts_ok_def
proof (intro allI impI)
  fix x y r s assume "users d' x = Some r" "users d' y = Some s" and xy: "x \<noteq> y"
  then obtain r0 s0 where *: "users d x = Some r0" "r = g x r0" "users d y = Some s0" "s = g y s0" using assms(2) by auto
  with assms(1) xy show "ac_username (account r) \<noteq> ac_username (account s) \<and> to_lower (email r) \<noteq> to_lower (email s)
     \<and> (wallet_address r = None \<or> wallet_address r \<noteq> wallet_address s)"
    using assms(3) [of x r0] assms(3) [of y s0] unfolding accounts_ok_def same_identity_def by metis
qed

lemma accounts_ok_wallet_fits:
  assumes "accounts_ok d" and "wallet_fits scan q pk d" and "dom (users d) \<subseteq> set scan"
    and "\<And>r. same_identity (f r) r" and "\<And>r. q r \<Longrightarrow> p r" and "\<And>r. q r \<Longrightarrow> wallet_address (f r) = Some pk"
    and "\<And>r. p r \<Longrightarrow> \<not> q r \<Longrightarrow> wallet_address (f r) = wallet_address r"
  shows "accounts_ok (upd_users p f d)"
proof -
  let ?hit = "filter (\<lambda>u. case users d u of None \<Rightarrow> False | Some r \<Rightarrow> q r) scan"
  let ?g = "\<lambda>v r. if p r then f r else r"
  have hit: "v \<in> set ?hit" if "users d v = Some r" "q r" for v r using that assms(3) by auto
  consider "?hit = []" | u where "?hit = [u]" "list_all (\<lambda>v. v = u \<or> (case users d v of None \<Rightarrow> True | Some r \<Rightarrow> wallet_address r \<noteq> Some pk)) scan"
  proof (cases "?hit = []")
    case False
    with assms(2) obtain u where "?hit = [u]" by (auto simp: wallet_fits_def Let_def length_Suc_conv)
    moreover from this have "set ?hit = {u}" by (metis list.set(1,2))
    ultimately show thesis using assms(2) False by (intro that(2) [of u]) (auto simp only: wallet_fits_def Let_def singleton_iff)
  qed (rule that(1))
  then show ?thesis
  proof cases
    case 1
    then have "same_identity (?g v r) r \<and> wallet_address (?g v r) = wallet_address r" if "users d v = Some r" for v r
      using hit [OF that] assms(4,7) by (auto simp: same_identity_def)
    then show ?thesis by (rule accounts_ok_same_wallets [OF assms(1), where g = ?g, rotated]) simp_all
  next
    case 2
    then have "u \<in> set ?hit" by simp
    then obtain r0 where r0: "users d u = Some r0" "q r0" by (auto split: option.splits)
    have other: "wallet_address (?g v r) = wallet_address r \<and> wallet_address r \<noteq> Some pk" if v: "users d v = Some r" "v \<noteq> u" for v r
    proof
      from v assms(3) have "v \<in> set scan" by auto
      with 2(2) v show "wallet_address r \<noteq> Some pk" by (auto simp: list_all_iff)
      from hit [OF v(1)] 2(1) v(2) have "\<not> q r" by auto
      then show "wallet_address (?g v r) = wallet_address r" using assms(7) by simp
    qed
    show ?thesis
      by (rule accounts_ok_one_wallet [OF assms(1), where g = ?g and u = u and pk = pk])
        (use other r0 assms(4-6) in \<open>simp_all add: same_identity_def\<close>)
  qed
qed

definition listed_ok :: "uuid list \<Rightarrow> db \<Rightarrow> bool" where
  "listed_ok scan d \<longleftrightarrow> accounts_ok d \<and> dom (users d) \<subseteq> set scan"

lemma listed_ok_upd_user:
  assumes "listed_ok scan d" and "\<And>r. same_identity (f r) r" and "\<And>r. wallet_address (f r) = wallet_address r"
  shows "listed_ok scan (upd_user u f d)"
proof -
  have "accounts_ok (upd_user u f d)"
    by (rule accounts_ok_same_wallets [of d _ "\<lambda>v r. if v = u then f r else r"])
      (use assms in \<open>auto simp: listed_ok_def same_identity_def option.map_ident\<close>)
  with assms(1) show ?thesis by (auto simp: listed_ok_def)
qed

lemma listed_ok_set_wallet:
  assumes "listed_ok scan d" and "\<And>r. same_identity (f r) r" and "\<And>r. wallet_address (f r) = Some pk"
    and "users d u = None \<or> length pk \<le> 88 \<and> list_all (\<lambda>v. v = u \<or> (case users d v of None \<Rightarrow> True | Some r \<Rightarrow> wallet_address r \<noteq> Some pk)) scan"
  shows "listed_ok scan (upd_user u f d)"
proof (cases "users d u")
  case None
  then have "upd_user u f d = d" by (simp add: upd_user_def fun_upd_idem)
  with assms(1) show ?thesis by simp
next
  case (Some r0)
  have other: "wallet_address r \<noteq> Some pk" if "users d v = Some r" "v \<noteq> u" for v r
    using that assms(1,4) Some by (force simp: listed_ok_def list_all_iff)
  have "accounts_ok (upd_user u f d)"
    by (rule accounts_ok_one_wallet [of d _ "\<lambda>v r. if v = u then f r else r" u pk])
      (use assms(1-3) other in \<open>auto simp: listed_ok_def same_identity_def option.map_ident\<close>)
  with assms(1) Some show ?thesis by (auto simp: listed_ok_def)
qed

lemma keeps_update_users:
  assumes "\<And>r. same_identity (f r) r" and "\<And>r. q r \<Longrightarrow> p r" and "\<And>r. q r \<Longrightarrow> wallet_address (f r) = Some pk"
    and "\<And>r. p r \<Longrightarrow> \<not> q r \<Longrightarrow> wallet_address (f r) = wallet_address r"
  shows "keeps_db (listed_ok scan) (update_users scan (wallet_fits scan q pk) p f)"
proof -
  have "keeps_db (listed_ok scan) (sq (exec_chk (wallet_fits scan q pk) (upd_users p f)) (ret x))" for x :: "(uuid \<times> user_row) option"
    by (intro keeps_db_intros) (use accounts_ok_wallet_fits [OF _ _ _ assms] in \<open>auto simp: listed_ok_def\<close>)
  then show ?thesis unfolding update_users_def keeps_db_def keeps_def by blast
qed

lemma same_identity_changes [simp]:
  "same_identity (new_verified pk enc salt iv b r) r" "same_identity (fill_wallet pk enc salt iv r) r"
  "wallet_address (new_verified pk enc salt iv b r) = Some pk"
  "wallet_address (fill_wallet pk enc salt iv r) = (if has_wallet r then wallet_address r else Some pk)"
  by (auto simp: same_identity_def new_verified_def fill_wallet_def on_account_def has_wallet_def coalesce_def split: option.splits)

lemma keeps_verify_email: "keeps_db (listed_ok scan) (verify_email e scan token)"
  unfolding verify_email_def verify_by_name_def verified_response_def register_on_chain_def Let_def
  by (intro keeps_db_intros keeps_update_users) auto

lemma keeps_db_bool [keeps_db_intros]: "keeps_db I m \<Longrightarrow> keeps_db I n \<Longrightarrow> keeps_db I (case b of True \<Rightarrow> m | False \<Rightarrow> n)"
  by (cases b) simp_all

lemma keeps_resend: "keeps_db (listed_ok scan) (resend_verification e scan address)"
  and keeps_forgot: "keeps_db (listed_ok scan) (forgot_password e scan address)"
  and keeps_reset: "keeps_db (listed_ok scan) (reset_password e scan token pw)"
  and keeps_change: "keeps_db (listed_ok scan) (change_password e h old pw)"
  unfolding resend_verification_def forgot_password_def reset_password_def change_password_def Let_def
  by (intro keeps_db_intros listed_ok_upd_user; simp add: on_account_def same_identity_def clear_reset_def set_password_def)+

lemma keeps_update_wallet: "keeps_db (listed_ok scan) (update_wallet e scan h pk)"
  and keeps_generate_wallet: "keeps_db (listed_ok scan) (generate_wallet e scan h)"
  unfolding update_wallet_def generate_wallet_def update_user_returning_def bearer_claims_def
  by (intro keeps_db_intros listed_ok_set_wallet; simp add: on_account_def same_identity_def set_wallet_def)+

lemma register_cases:
  assumes "register e scan q w = (out, w')"
  shows "db w' = db w \<or> (\<exists>i r. user_fits scan i r (db w) \<and> wallet_address r = None \<and> db w' = (db w)\<lparr>users := (users (db w))(i \<mapsto> r)\<rparr>)"
proof (cases "hash_password e (rr_password q)")
  case (Inl er)
  with assms show ?thesis by (auto simp: register_def bnd_app fresh_uuid_app ret_def)
next
  case (Inr hash)
  define i where "i = new_v4 e (uuids w)"
  define r where "r = new_user q hash (uuid_str (new_v4 e (Suc (uuids w)))) (verification_expiry e (clock w))"
  let ?w = "w\<lparr>uuids := Suc (Suc (uuids w))\<rparr>" and ?f = "\<lambda>d. d\<lparr>users := (users d)(i \<mapsto> r)\<rparr>"
  have "wallet_address r = None" by (simp add: r_def new_user_def)
  moreover from attempt_exec_chk [of "user_fits scan i r" ?f ?w] have "db w' = db w \<or> user_fits scan i r (db w) \<and> db w' = ?f (db w)"
    using assms Inr by (elim disjE exE) (auto simp: register_def bnd_app fresh_uuid_app get_clock_app ret_def Let_def i_def r_def)
  ultimately show ?thesis by blast
qed

lemma register_keeps_accounts:
  assumes "register e scan q w = (out, w')" and "listed_ok scan (db w)"
  shows "accounts_ok (db w')"
  using register_cases [OF assms(1)]
proof (elim disjE exE conjE)
  fix i r assume fits: "user_fits scan i r (db w)" and r: "wallet_address r = None" and w': "db w' = (db w)\<lparr>users := (users (db w))(i \<mapsto> r)\<rparr>"
  have "ac_username (account x) \<noteq> ac_username (account r) \<and> to_lower (email x) \<noteq> to_lower (email r)" if "users (db w) v = Some x" for v x
    using fits that assms(2) by (force simp: user_fits_def listed_ok_def list_all_iff)
  with assms(2) r show ?thesis unfolding w' accounts_ok_def listed_ok_def by (auto dest: not_sym)
qed (use assms(2) in \<open>simp add: listed_ok_def\<close>)

text \<open>The handlers that change \<open>users\<close>, each with a scan that lists the rows.\<close>

inductive account_step :: "env \<Rightarrow> world \<Rightarrow> world \<Rightarrow> bool" for e where
  registering: "dom (users (db w)) \<subseteq> set scan \<Longrightarrow> register e scan q w = (out1, w') \<Longrightarrow> account_step e w w'"
| verifying: "dom (users (db w)) \<subseteq> set scan \<Longrightarrow> verify_email e scan token w = (out2, w') \<Longrightarrow> account_step e w w'"
| resending: "dom (users (db w)) \<subseteq> set scan \<Longrightarrow> resend_verification e scan address w = (out3, w') \<Longrightarrow> account_step e w w'"
| forgetting: "dom (users (db w)) \<subseteq> set scan \<Longrightarrow> forgot_password e scan address w = (out3, w') \<Longrightarrow> account_step e w w'"
| resetting: "dom (users (db w)) \<subseteq> set scan \<Longrightarrow> reset_password e scan token pw w = (out2, w') \<Longrightarrow> account_step e w w'"
| changing: "dom (users (db w)) \<subseteq> set scan \<Longrightarrow> change_password e h old pw w = (out2, w') \<Longrightarrow> account_step e w w'"
| giving_wallet: "dom (users (db w)) \<subseteq> set scan \<Longrightarrow> update_wallet e scan h pk w = (out4, w') \<Longrightarrow> account_step e w w'"
| making_wallet: "dom (users (db w)) \<subseteq> set scan \<Longrightarrow> generate_wallet e scan h w = (out4, w') \<Longrightarrow> account_step e w w'"
| passing: "db w' = db w \<Longrightarrow> account_step e w w'"

lemma account_step_keeps:
  assumes "account_step e w w'" and "accounts_ok (db w)"
  shows "accounts_ok (db w')"
  using assms
proof cases
  case (registering scan q out1)
  then show ?thesis using register_keeps_accounts assms(2) by (simp add: listed_ok_def)
next
  case passing
  with assms(2) show ?thesis by simp
qed (use assms(2) keeps_dbE [OF keeps_verify_email] keeps_dbE [OF keeps_resend] keeps_dbE [OF keeps_forgot] keeps_dbE [OF keeps_reset] keeps_dbE [OF keeps_change]
      keeps_dbE [OF keeps_update_wallet] keeps_dbE [OF keeps_generate_wallet] in \<open>auto simp: listed_ok_def\<close>)


subsection \<open>Verification tokens that are not secret\<close>

lemma find_user_unique:
  assumes "u \<in> set scan" and "users d u = Some r" and "p r" and "\<And>v s. users d v = Some s \<Longrightarrow> p s \<Longrightarrow> v = u"
  shows "find_user scan p d = Some (u, r)"
proof (cases "find_user scan p d")
  case None
  from find_user_None [OF this assms(1,2)] assms(3) show ?thesis by simp
next
  case (Some vs)
  then obtain v s where "find_user scan p d = Some (v, s)" by (cases vs) auto
  with find_user_Some [OF this] assms show ?thesis by auto
qed

lemma no_user_matches:
  assumes "\<And>v s. users d v = Some s \<Longrightarrow> \<not> p s"
  shows "find_user scan p d = None" and "upd_users p f d = d" and "wallet_fits scan p pk d"
proof -
  show "find_user scan p d = None" using assms find_user_Some(2,3) [of scan p d] by (cases "find_user scan p d") fastforce+
  have "map_option (\<lambda>r. if p r then f r else r) (users d v) = users d v" for v using assms by (cases "users d v") auto
  then show "upd_users p f d = d" by (simp add: upd_users_def)
  have "filter (\<lambda>u. case users d u of None \<Rightarrow> False | Some r \<Rightarrow> p r) scan = []"
    using assms by (auto simp: filter_empty_conv split: option.splits)
  then show "wallet_fits scan p pk d" by (simp only: wallet_fits_def Let_def simp_thms)
qed

lemma register_on_chain_frame: "\<exists>b w1. register_on_chain e pk w = (Ok b, w1) \<and> db w1 = db w \<and> faults w1 = faults w"
  by (auto simp: register_on_chain_def bnd_app sq_app attempt_app calls_app sleep_app ret_def split: sum.splits)

lemma update_users_calm:
  assumes "faults w = []" and "ok (db w)"
  shows "attempt (update_users scan ok p f) w
    = (Ok (Inr (map_option (\<lambda>(u, r). (u, f r)) (find_user scan p (db w)))), w\<lparr>db := upd_users p f (db w)\<rparr>)"
  using assms by (simp add: update_users_def attempt_app sq_app exec_chk_calm ret_def)

text \<open>
  Anyone who knows a user name gets an access token of its owner: the token \<open>verify_<username>\<close> is accepted for
  every account, verified or not, and the answer logs the caller in.
\<close>

theorem verify_email_by_name:
  assumes "faults w = []" and "new_wallet e (uuids w) = Inr (pk, enc, salt, iv)" and "accounts_ok (db w)" and "dom (users (db w)) \<subseteq> set scan"
    and "users (db w) u = Some r" and "ac_username (account r) = name" and "has_wallet r"
    and "\<And>v s. users (db w) v = Some s \<Longrightarrow> ac_email_verification_token (account s) \<noteq> Some (''verify_'' @ name)"
    and "\<And>c. jwt_encode e c = Some (sign c)"
  shows "\<exists>resp w' a. verify_email e scan (''verify_'' @ name) w = (Ok resp, w') \<and> ve_auth resp = Some a
    \<and> ar_access_token a = sign (claims_new (clock w') u name (ac_role (account r)))"
proof -
  obtain b w1 where w1: "register_on_chain e pk (w\<lparr>uuids := Suc (uuids w)\<rparr>) = (Ok b, w1)" "db w1 = db w" "faults w1 = []"
    using register_on_chain_frame [of e pk "w\<lparr>uuids := Suc (uuids w)\<rparr>"] assms(1) by auto
  let ?waiting = "\<lambda>r. ac_email_verification_token (account r) = Some (''verify_'' @ name) \<and> \<not> email_verified r"
  let ?named = "\<lambda>r. ac_username (account r) = name" and ?fresh = "\<lambda>r. ac_username (account r) = name \<and> \<not> has_wallet r"
  have only: "v = u" if "users (db w) v = Some s" "?named s" for v s using that assms(3,5,6) unfolding accounts_ok_def by blast
  have w: "\<not> ?waiting s" if "users (db w1) v = Some s" for v s using that assms(8) w1(2) by auto
  have f: "\<not> ?fresh s" if "users (db w1) v = Some s" for v s using that only [of v s] assms(5,7) w1(2) by (metis option.inject)
  have n: "find_user scan ?named (db w1) = Some (u, r)" 
    unfolding w1(2) by (rule find_user_unique [where p = ?named, OF subsetD [OF assms(4) domI [of "users (db w)", OF assms(5)]] assms(5,6) only])
  have fw: "attempt (fresh_wallet e) w = (Ok (Inr (pk, enc, salt, iv)), w\<lparr>uuids := Suc (uuids w)\<rparr>)"
    using assms(2) by (simp add: attempt_app fresh_wallet_def)
  note waiting = no_user_matches [of "db w1" ?waiting, OF w] and fresh = no_user_matches [of "db w1" ?fresh, OF f]
  have "verify_by_name e scan name pk enc salt iv b w1 =
    verified_response e ''Email verified! You are now logged in.'' u (fill_wallet pk enc salt iv r) (wallet_address r)
      (w1\<lparr>db := upd_users ?named (fill_wallet pk enc salt iv) (db w1)\<rparr>)"
    using w1(3) fresh n assms(7) by (simp add: verify_by_name_def Let_def bnd_app update_users_calm)
  then have "verify_email e scan (''verify_'' @ name) w =
    verified_response e ''Email verified! You are now logged in.'' u (fill_wallet pk enc salt iv r) (wallet_address r)
      (w1\<lparr>db := upd_users ?named (fill_wallet pk enc salt iv) (db w1)\<rparr>)"
    using fw w1(1,3) waiting by (simp add: verify_email_def Let_def bnd_app update_users_calm)
  with assms(6,9) show ?thesis
    by (simp add: verified_response_def bnd_app get_clock_app ret_def generate_auth_response_def fill_wallet_def)
qed

subsection \<open>Samples\<close>

definition accounts_db :: db where
  "accounts_db = empty_db\<lparr>users := [1 \<mapsto> on_account (\<lambda>a. a\<lparr>ac_password_reset_token := Some ''reset'', ac_password_reset_expires_at := Some 2000\<rparr>) (sample_user 0 0 0)]\<rparr>"

definition token_claims :: claims where
  "token_claims = claims_new 1000 1 ''user'' ''user''"

definition token_env :: env where
  "token_env = std_env\<lparr>jwt_encode := (\<lambda>c. if c = token_claims then Some ''jwt'' else None),
     jwt_decode := (\<lambda>now t. if t = ''jwt'' \<and> \<not> claims_expired now token_claims then Some token_claims else None)\<rparr>"

definition token_answer :: auth_response where
  "token_answer = \<lparr>ar_access_token = ''jwt'', ar_expires_in = 86400, ar_user = user_response_of 1 (sample_user 0 0 0)\<rparr>"

lemma login_sample: "login token_env [1] ''user'' ''secret'' (calm_world accounts_db) = (Ok (200, token_answer), calm_world accounts_db)"
  by (simp add: login_def io_simps bnd_app attempt_app find_user_def accounts_db_def login_match_def on_account_def sample_user_def sample_account_def
      verify_password_def token_env_def access_token_def token_claims_def token_answer_def user_response_of_def ret_def)

theorem login_needs_password_witness:
  "\<exists>u r. users accounts_db u = Some r \<and> login_match ''user'' r \<and> bcrypt_verify token_env ''secret'' (ac_password_hash (account r)) = Inr True
    \<and> ar_user token_answer = user_response_of u r"
  using login_needs_password [OF login_sample] by auto

theorem admin_needs_token_witness:
  "\<exists>a token. Some ''Bearer t'' = Some a \<and> bearer_of a = Some token \<and> token \<noteq> ''key'' \<and> account_role_from ''admin'' = Some RAdmin"
  using admin_needs_token [of "std_env\<lparr>jwt_decode := (\<lambda>_ t. Some (claims_new 0 1 ''root'' ''admin''))\<rparr>" 0
      "\<lparr>ah_authorization = Some ''Bearer t'', ah_api_key = None, ah_impersonate = None\<rparr>" "claims_new 0 1 ''root'' ''admin''"]
  by (simp add: auth_middleware_def bearer_of_def require_admin_role_def claims_new_def account_role_from_def to_lower_def Let_def)

theorem login_token_authenticates_witness:
  "auth_middleware token_env 50000000000000 \<lparr>ah_authorization = Some (''Bearer '' @ ar_access_token token_answer), ah_api_key = None, ah_impersonate = None\<rparr>
    = Inr (claims_new (clock (calm_world accounts_db)) (ur_id (ar_user token_answer)) (ur_username (ar_user token_answer)) (ur_role (ar_user token_answer)))"
  by (rule login_token_authenticates [OF login_sample, of _ "''jwt''"])
    (auto simp: token_env_def token_answer_def token_claims_def user_response_of_def sample_user_def sample_account_def split: if_splits)

lemma reset_sample: "\<exists>resp w'. reset_password std_env [1] ''reset'' ''Str0ng!pw'' (calm_world accounts_db) = (Ok resp, w') \<and> ve_success resp"
proof -
  have "hash_password std_env ''Str0ng!pw'' = Inr ''hash-Str0ng!pw''" by code_simp
  then show ?thesis
    by (simp add: reset_password_def io_simps bnd_app attempt_app find_user_def accounts_db_def reset_match_def is_active_user_def on_account_def sample_user_def sample_account_def
        ret_def)
qed

theorem reset_token_single_use_witness:
  "\<exists>resp w'. reset_password std_env [1] ''reset'' ''Str0ng!pw'' (calm_world accounts_db) = (Ok resp, w') \<and> reset_of std_env ''reset'' ''Str0ng!pw'' (calm_world accounts_db) w'"
proof -
  obtain resp w' where run: "reset_password std_env [1] ''reset'' ''Str0ng!pw'' (calm_world accounts_db) = (Ok resp, w')" "ve_success resp" using reset_sample by blast
  have one: "u = 1" if "users (db (calm_world accounts_db)) u = Some r" for u r using that by (simp add: accounts_db_def split: if_splits)
  then have "u = v" if "users (db (calm_world accounts_db)) u = Some r" "users (db (calm_world accounts_db)) v = Some s" for u v r s
    using that by (metis (no_types))
  from reset_token_single_use [OF run(1) this] run(2) have "reset_of std_env ''reset'' ''Str0ng!pw'' (calm_world accounts_db) w'" by simp
  with run(1) show ?thesis by blast
qed

theorem forgot_password_uniform_witness:
  "\<exists>mail w'. forgot_password std_env [1] ''nobody'' (calm_world accounts_db) =
      (Ok (simple_response True ''If an account with that email exists, a password reset link has been sent.'', mail), w') \<and> mail = None \<and> db w' = accounts_db"
proof -
  have "find_user [1] (\<lambda>r. email r = ''nobody'' \<and> is_active_user r) accounts_db = None"
    by (simp add: find_user_def accounts_db_def on_account_def sample_user_def)
  then show ?thesis using forgot_password_uniform [of "calm_world accounts_db" std_env "[1]" "''nobody''"] by auto
qed

definition sample_registration :: registration_request where
  "sample_registration = \<lparr>rr_username = ''ann'', rr_email = ''ann@grid'', rr_password = ''Str0ng!pw'', rr_first_name = ''Ann'', rr_last_name = ''B''\<rparr>"

lemma accounts_db_ok: "accounts_ok accounts_db"
  by (auto simp: accounts_ok_def accounts_db_def split: if_splits)


end
