(* ===== verification/Tokenization.thy ===== *)
theory Tokenization
  imports Floats World
begin

text \<open>
  The tokenization configuration: \<open>src/src/config/tokenization.rs\<close>.

  Sixteen settings with defaults, most of them read from environment variables; a variable that does not
  parse or is out of range is ignored.  Conversions between energy and tokens and the retry delay
  are in double precision.  \<open>f64::powi\<close>, whose precision the standard library leaves open, is a parameter.
\<close>

subsection \<open>Reading numbers\<close>

definition digit :: "char \<Rightarrow> nat option" where
  "digit c = (let n = of_char c :: nat in if 48 \<le> n \<and> n \<le> 57 then Some (n - 48) else None)"

fun digits :: "string \<Rightarrow> nat option" where
  "digits [] = Some 0"
| "digits s = Option.bind (digit (last s)) (\<lambda>d. map_option (\<lambda>n. 10 * n + d) (digits (butlast s)))"

text \<open>\<open>str::parse\<close> for an unsigned type with the given largest value, for \<open>i64\<close> and for \<open>bool\<close>.\<close>

definition parse_unsigned :: "nat \<Rightarrow> string \<Rightarrow> nat option" where
  "parse_unsigned largest s =
    (let t = (case s of c # cs \<Rightarrow> if c = CHR ''+'' then cs else s | [] \<Rightarrow> []) in
     if t = [] then None else Option.bind (digits t) (\<lambda>n. if n \<le> largest then Some n else None))"

definition parse_i64 :: "string \<Rightarrow> int option" where
  "parse_i64 s = (case s of
      [] \<Rightarrow> None
    | c # cs \<Rightarrow>
        if c = CHR ''-'' then (if cs = [] then None else Option.bind (digits cs) (\<lambda>n. if n \<le> 2 ^ 63 then Some (- int n) else None))
        else map_option int (parse_unsigned (2 ^ 63 - 1) s))"

definition parse_bool :: "string \<Rightarrow> bool option" where
  "parse_bool s = (if s = ''true'' then Some True else if s = ''false'' then Some False else None)"

text \<open>
  \<open>str::parse::<f64>\<close>: an optional sign, then infinity or not a number in any case, or digits with an
  optional point and exponent; the result is the nearest double.
\<close>

definition parse_exponent :: "string \<Rightarrow> int option" where
  "parse_exponent s = (case s of
      [] \<Rightarrow> None
    | c # cs \<Rightarrow>
        if c = CHR ''-'' then (if cs = [] then None else map_option (\<lambda>n. - int n) (digits cs))
        else if c = CHR ''+'' then (if cs = [] then None else map_option int (digits cs))
        else map_option int (digits s))"

definition parse_decimal :: "string \<Rightarrow> rat option" where
  "parse_decimal s =
    (let mantissa = takeWhile (\<lambda>c. c \<noteq> CHR ''e'' \<and> c \<noteq> CHR ''E'') s; rest = drop (length mantissa) s;
         whole = takeWhile (\<lambda>c. c \<noteq> CHR ''.'') mantissa; fraction = drop (Suc (length whole)) mantissa
     in if whole @ fraction = [] then None
        else Option.bind (digits (whole @ fraction)) (\<lambda>m.
             map_option (\<lambda>x. of_nat m * 10 powi (x - int (length fraction))) (if rest = [] then Some 0 else parse_exponent (tl rest))))"

definition parse_f64 :: "string \<Rightarrow> f64_value option" where
  "parse_f64 s =
    (let negative = (s \<noteq> [] \<and> hd s = CHR ''-''); t = (if s \<noteq> [] \<and> hd s \<in> {CHR ''-'', CHR ''+''} then tl s else s); u = to_lower t;
         sign = (if negative then f64_neg else (\<lambda>x. x))
     in if u = ''inf'' \<or> u = ''infinity'' then Some (sign PosInf)
        else if u = ''nan'' then Some NaN
        else map_option (\<lambda>x. sign (f64_round x)) (parse_decimal t))"

subsection \<open>The configuration\<close>

record tokenization_config =
  kwh_to_token_ratio :: f64_value
  token_decimals :: nat
  max_reading_kwh :: f64_value
  reading_max_age_days :: int
  auto_mint_enabled :: bool
  polling_interval_secs :: nat
  batch_size :: nat
  max_retry_attempts :: nat
  initial_retry_delay_secs :: nat
  retry_backoff_multiplier :: f64_value
  max_retry_delay_secs :: nat
  transaction_timeout_secs :: nat
  max_transactions_per_batch :: nat
  tc_enable_real_blockchain :: bool
  tc_use_onchain_balance_for_escrow :: bool
  tc_mint_threshold :: f64_value

definition config_default :: tokenization_config where
  "config_default =
    \<lparr> kwh_to_token_ratio = Finite 1, token_decimals = 9, max_reading_kwh = Finite 100, reading_max_age_days = 7, auto_mint_enabled = True,
      polling_interval_secs = 60, batch_size = 50, max_retry_attempts = 3, initial_retry_delay_secs = 300, retry_backoff_multiplier = Finite 2,
      max_retry_delay_secs = 3600, transaction_timeout_secs = 60, max_transactions_per_batch = 20, tc_enable_real_blockchain = True,
      tc_use_onchain_balance_for_escrow = False, tc_mint_threshold = Finite 5 \<rparr>"

text \<open>One variable: ignored when it is not set, does not parse or fails the guard.\<close>

definition setting :: "env \<Rightarrow> string \<Rightarrow> (string \<Rightarrow> 'a option) \<Rightarrow> ('a \<Rightarrow> bool) \<Rightarrow> 'a option" where
  "setting e name parse ok = Option.bind (env_var e name) (\<lambda>v. Option.bind (parse v) (\<lambda>x. if ok x then Some x else None))"

definition with_setting :: "'a option \<Rightarrow> ('a \<Rightarrow> tokenization_config \<Rightarrow> tokenization_config) \<Rightarrow> tokenization_config \<Rightarrow> tokenization_config" where
  "with_setting s set_field c = (case s of None \<Rightarrow> c | Some x \<Rightarrow> set_field x c)"

abbreviation u64_max :: nat where
  "u64_max \<equiv> 2 ^ 64 - 1"

definition load_settings :: "env \<Rightarrow> tokenization_config" where
  "load_settings e =
    (let c = config_default;
         c = with_setting (setting e ''TOKENIZATION_KWH_TO_TOKEN_RATIO'' parse_f64 (\<lambda>x. f64_less (Finite 0) x)) (\<lambda>x c. c\<lparr>kwh_to_token_ratio := x\<rparr>) c;
         c = with_setting (setting e ''TOKENIZATION_DECIMALS'' (parse_unsigned 255) (\<lambda>n. n \<le> 18)) (\<lambda>n c. c\<lparr>token_decimals := n\<rparr>) c;
         c = with_setting (setting e ''TOKENIZATION_MAX_READING_KWH'' parse_f64 (\<lambda>x. f64_less (Finite 0) x)) (\<lambda>x c. c\<lparr>max_reading_kwh := x\<rparr>) c;
         c = with_setting (setting e ''TOKENIZATION_READING_MAX_AGE_DAYS'' parse_i64 (\<lambda>n. n > 0)) (\<lambda>n c. c\<lparr>reading_max_age_days := n\<rparr>) c;
         c = with_setting (setting e ''TOKENIZATION_AUTO_MINT_ENABLED'' parse_bool (\<lambda>_. True)) (\<lambda>b c. c\<lparr>auto_mint_enabled := b\<rparr>) c;
         c = with_setting (setting e ''TOKENIZATION_POLLING_INTERVAL_SECS'' (parse_unsigned u64_max) (\<lambda>n. n \<ge> 10)) (\<lambda>n c. c\<lparr>polling_interval_secs := n\<rparr>) c;
         c = with_setting (setting e ''TOKENIZATION_BATCH_SIZE'' (parse_unsigned u64_max) (\<lambda>n. n \<ge> 1 \<and> n \<le> 1000)) (\<lambda>n c. c\<lparr>batch_size := n\<rparr>) c;
         c = with_setting (setting e ''TOKENIZATION_MAX_RETRY_ATTEMPTS'' (parse_unsigned (2 ^ 32 - 1)) (\<lambda>n. n \<ge> 0)) (\<lambda>n c. c\<lparr>max_retry_attempts := n\<rparr>) c;
         c = with_setting (setting e ''TOKENIZATION_INITIAL_RETRY_DELAY_SECS'' (parse_unsigned u64_max) (\<lambda>n. n \<ge> 1)) (\<lambda>n c. c\<lparr>initial_retry_delay_secs := n\<rparr>) c;
         c = with_setting (setting e ''TOKENIZATION_RETRY_BACKOFF_MULTIPLIER'' parse_f64 (\<lambda>x. f64_le (Finite 1) x)) (\<lambda>x c. c\<lparr>retry_backoff_multiplier := x\<rparr>) c;
         c = with_setting (setting e ''TOKENIZATION_MAX_RETRY_DELAY_SECS'' (parse_unsigned u64_max) (\<lambda>n. n \<ge> initial_retry_delay_secs c))
               (\<lambda>n c. c\<lparr>max_retry_delay_secs := n\<rparr>) c;
         c = with_setting (setting e ''TOKENIZATION_TRANSACTION_TIMEOUT_SECS'' (parse_unsigned u64_max) (\<lambda>n. n \<ge> 10)) (\<lambda>n c. c\<lparr>transaction_timeout_secs := n\<rparr>) c;
         c = with_setting (setting e ''TOKENIZATION_MAX_TRANSACTIONS_PER_BATCH'' (parse_unsigned u64_max) (\<lambda>n. n \<ge> 1)) (\<lambda>n c. c\<lparr>max_transactions_per_batch := n\<rparr>) c;
         c = with_setting (setting e ''TOKENIZATION_ENABLE_REAL_BLOCKCHAIN'' parse_bool (\<lambda>_. True)) (\<lambda>b c. c\<lparr>tc_enable_real_blockchain := b\<rparr>) c
     in with_setting (setting e ''TOKENIZATION_MINT_THRESHOLD'' parse_f64 (\<lambda>x. f64_le (Finite 0) x)) (\<lambda>x c. c\<lparr>tc_mint_threshold := x\<rparr>) c)"

definition from_env :: "env \<Rightarrow> string + tokenization_config" where
  "from_env e = (let c = load_settings e in
     if auto_mint_enabled c \<and> polling_interval_secs c < 10 then Inl ''Polling interval must be at least 10 seconds when auto mint is enabled''
     else if batch_size c = 0 then Inl ''Batch size must be greater than 0''
     else if token_decimals c > 18 then Inl ''Token decimals cannot exceed 18''
     else if max_retry_delay_secs c < initial_retry_delay_secs c then Inl ''Max retry delay must be at least the initial retry delay''
     else Inr c)"

subsection \<open>Conversions\<close>

datatype validation_error =
    NegativeAmount | AmountTooHigh f64_value | AmountExceedsMaximum | InvalidConversion
  | InvalidWalletAddress | ReadingTooOld | DuplicateReading

type_synonym powi_fn = "f64_value \<Rightarrow> int \<Rightarrow> f64_value"

text \<open>\<open>as u64\<close> from a double saturates and sends not-a-number to zero; \<open>as f64\<close> rounds.\<close>

definition f64_to_u64 :: "f64_value \<Rightarrow> nat" where
  "f64_to_u64 x = (case x of NaN \<Rightarrow> 0 | NegInf \<Rightarrow> 0 | PosInf \<Rightarrow> u64_max | Finite r \<Rightarrow> nat (min \<lfloor>r\<rfloor> (2 ^ 64 - 1)))"

definition u64_to_f64 :: "nat \<Rightarrow> f64_value" where
  "u64_to_f64 n = f64_round (of_nat n)"

definition kwh_to_tokens :: "powi_fn \<Rightarrow> tokenization_config \<Rightarrow> f64_value \<Rightarrow> validation_error + nat" where
  "kwh_to_tokens pw c kwh =
    (if f64_less kwh (Finite 0) then Inl NegativeAmount
     else if f64_less (max_reading_kwh c) kwh then Inl (AmountTooHigh kwh)
     else
      (let tokens_decimal = f64_mul (f64_mul kwh (kwh_to_token_ratio c)) (pw (Finite 10) (int (token_decimals c))) in
       if f64_less (u64_to_f64 u64_max) tokens_decimal then Inl AmountExceedsMaximum
       else Inr (f64_to_u64 tokens_decimal)))"

definition tokens_to_kwh :: "powi_fn \<Rightarrow> tokenization_config \<Rightarrow> nat \<Rightarrow> f64_value" where
  "tokens_to_kwh pw c tokens = f64_div (u64_to_f64 tokens) (f64_mul (kwh_to_token_ratio c) (pw (Finite 10) (int (token_decimals c))))"

definition calculate_retry_delay :: "powi_fn \<Rightarrow> tokenization_config \<Rightarrow> i32 \<Rightarrow> nat" where
  "calculate_retry_delay pw c n =
    (if n = 0 then 0
     else f64_to_u64 (f64_min (f64_mul (u64_to_f64 (initial_retry_delay_secs c)) (pw (retry_backoff_multiplier c) (sint (n - 1))))
       (u64_to_f64 (max_retry_delay_secs c))))"

subsection \<open>A loaded configuration is in range\<close>

definition config_ok :: "tokenization_config \<Rightarrow> bool" where
  "config_ok c \<longleftrightarrow> f64_less (Finite 0) (kwh_to_token_ratio c) \<and> token_decimals c \<le> 18 \<and> f64_less (Finite 0) (max_reading_kwh c)
     \<and> 0 < reading_max_age_days c \<and> 10 \<le> polling_interval_secs c \<and> 1 \<le> batch_size c \<and> batch_size c \<le> 1000
     \<and> 1 \<le> initial_retry_delay_secs c \<and> f64_le (Finite 1) (retry_backoff_multiplier c)
     \<and> 10 \<le> transaction_timeout_secs c \<and> 1 \<le> max_transactions_per_batch c \<and> f64_le (Finite 0) (tc_mint_threshold c)"

lemma setting_ok: "setting e name parse ok = Some x \<Longrightarrow> ok x"
  by (auto simp: setting_def bind_eq_Some_conv split: if_splits)

lemma with_setting_keeps:
  assumes "P c" and "\<And>x c. s = Some x \<Longrightarrow> P c \<Longrightarrow> P (set_field x c)"
  shows "P (with_setting s set_field c)"
  using assms by (cases s) (simp_all add: with_setting_def)

lemma load_settings_ok: "config_ok (load_settings e)"
  unfolding load_settings_def Let_def
  by (intro with_setting_keeps [of config_ok]) (drule setting_ok | simp add: config_ok_def config_default_def)+

lemma with_setting_other:
  "(\<And>x c. g (f x c) = g c) \<Longrightarrow> g (with_setting s f c) = g c"
  by (simp add: with_setting_def split: option.split)

lemma with_setting_own:
  "initial_retry_delay_secs (with_setting s (\<lambda>n c. c\<lparr>initial_retry_delay_secs := n\<rparr>) c) = unwrap_or s (initial_retry_delay_secs c)"
  "max_retry_delay_secs (with_setting s (\<lambda>n c. c\<lparr>max_retry_delay_secs := n\<rparr>) c) = unwrap_or s (max_retry_delay_secs c)"
  by (simp_all add: with_setting_def unwrap_or_def split: option.split)

definition initial_delay :: "env \<Rightarrow> nat" where
  "initial_delay e = unwrap_or (setting e ''TOKENIZATION_INITIAL_RETRY_DELAY_SECS'' (parse_unsigned u64_max) (\<lambda>n. n \<ge> 1)) 300"

definition longest_delay :: "env \<Rightarrow> nat" where
  "longest_delay e = unwrap_or (setting e ''TOKENIZATION_MAX_RETRY_DELAY_SECS'' (parse_unsigned u64_max) (\<lambda>n. n \<ge> initial_delay e)) 3600"

lemma load_settings_delays:
  "initial_retry_delay_secs (load_settings e) = initial_delay e" "max_retry_delay_secs (load_settings e) = longest_delay e"
  unfolding load_settings_def Let_def longest_delay_def initial_delay_def
  by (simp_all add: with_setting_own with_setting_other [of initial_retry_delay_secs] with_setting_other [of max_retry_delay_secs] config_default_def)


subsection \<open>Retry delays\<close>

lemma sint_i32_small: "- (2 ^ 31) \<le> x \<Longrightarrow> x < 2 ^ 31 \<Longrightarrow> sint (word_of_int x :: i32) = x"
  by (simp add: signed_take_bit_int_eq_self sint_sbintrunc')

lemma f64_min_int: "f64_min (Finite (of_int a)) (Finite (of_int b)) = Finite (of_int (min a b))"
  by (simp add: f64_min_def min_def)

lemma f64_to_u64_int [simp]: "f64_to_u64 (Finite (of_int n)) = nat (min n (2 ^ 64 - 1))"
  by (simp add: f64_to_u64_def)

lemma u64_to_f64_small: "n < 2 ^ 53 \<Longrightarrow> u64_to_f64 n = Finite (of_nat n)"
  using f64_round_int [of "int n"] by (simp add: u64_to_f64_def)

lemma f64_to_u64_min: "f64_to_u64 (f64_min x (Finite (of_nat n))) \<le> n"
proof (cases x)
  case (Finite r)
  have "\<lfloor>min r (of_nat n)\<rfloor> \<le> int n" by (simp add: floor_le_iff min_less_iff_disj)
  then show ?thesis using Finite by (auto simp: f64_min_def f64_to_u64_def min_def nat_le_iff split: if_splits)
qed (auto simp: f64_min_def f64_to_u64_def)

text \<open>
  Retry delays.  Whatever the precision of \<open>powi\<close>, and for every number of attempts, also one for which the exponent
  wraps, the delay is at most the longest configured delay (below \<open>2 ^ 53\<close> seconds), and the first
  call does not wait.  Where \<open>powi\<close> is exact on powers of two, the default delays
  double from five minutes up to one hour.
\<close>

theorem retry_delay_bounds:
  assumes "max_retry_delay_secs c < 2 ^ 53" and "\<And>k. k \<le> 1000 \<Longrightarrow> pw (Finite 2) (int k) = Finite (2 ^ k)"
  shows "calculate_retry_delay pw c n \<le> max_retry_delay_secs c \<and> calculate_retry_delay pw c 0 = 0
    \<and> (\<forall>k < 40. calculate_retry_delay pw config_default (word_of_nat (Suc k)) = min (300 * 2 ^ k) 3600)"
proof (intro conjI allI impI)
  show "calculate_retry_delay pw c n \<le> max_retry_delay_secs c"
    using f64_to_u64_min assms(1) by (auto simp: calculate_retry_delay_def u64_to_f64_small)
  show "calculate_retry_delay pw c 0 = 0" by (simp add: calculate_retry_delay_def)
  fix k :: nat assume k: "k < 40"
  then have p: "pw (Finite 2) (int k) = Finite (2 ^ k)" using assms(2) by simp
  have "(2 :: int) ^ k \<le> 2 ^ 39" using k by (intro power_increasing) auto
  then have "300 * (2 :: int) ^ k < 2 ^ 53" by simp
  then have r: "f64_round (300 * 2 ^ k) = Finite (300 * 2 ^ k)" using f64_round_int [of "300 * 2 ^ k"] by simp
  have m: "f64_min (Finite (300 * 2 ^ k)) (Finite 3600) = Finite (of_int (min (300 * 2 ^ k) 3600))"
    using f64_min_int [of "300 * 2 ^ k" 3600] by simp
  have "min (min (300 * 2 ^ k) 3600) (2 ^ 64 - 1) = int (min (300 * 2 ^ k) 3600)" by (simp add: of_nat_min)
  then have "nat (min (min (300 * 2 ^ k) 3600) (2 ^ 64 - 1)) = min (300 * 2 ^ k) 3600" by (simp only: nat_int)
  then have u: "f64_to_u64 (Finite (of_int (min (300 * 2 ^ k) 3600))) = min (300 * 2 ^ k) 3600" unfolding f64_to_u64_int .
  have w: "sint (word_of_nat k :: i32) = int k" using k sint_i32_small [of "int k"] by simp
  have "unat (word_of_nat (Suc k) :: i32) = Suc k" using k by (simp add: unat_of_nat take_bit_nat_eq_self del: of_nat_Suc)
  then have nz: "(word_of_nat (Suc k) :: i32) \<noteq> 0" by (metis nat.distinct(1) unat_0)
  show "calculate_retry_delay pw config_default (word_of_nat (Suc k)) = min (300 * 2 ^ k) 3600"
    using p r w nz m u by (simp add: calculate_retry_delay_def config_default_def u64_to_f64_small del: of_int_min)
qed

definition table_powi :: powi_fn where
  "table_powi x n = (case x of Finite r \<Rightarrow> Finite (r powi n) | _ \<Rightarrow> x)"

theorem retry_delay_bounds_witness:
  "calculate_retry_delay table_powi config_default 5 \<le> 3600 \<and> calculate_retry_delay table_powi config_default (word_of_nat (Suc 3)) = 2400"
proof -
  have *: "calculate_retry_delay table_powi config_default 5 \<le> max_retry_delay_secs config_default"
    "\<forall>k < 40. calculate_retry_delay table_powi config_default (word_of_nat (Suc k)) = min (300 * 2 ^ k) 3600"
    using retry_delay_bounds [of config_default table_powi 5] by (simp_all add: table_powi_def config_default_def)
  from *(2) [rule_format, of 3] *(1) show ?thesis by (simp add: config_default_def)
qed

lemma f64_round_not_less:
  assumes "2 powi k \<le> x" and "z \<le> 2 powi k" and "0 \<le> k"
  shows "\<not> f64_less (f64_round x) (Finite z)"
proof -
  have "(1 :: rat) \<le> 2 powi k" using assms(3) by (simp add: power_int_def)
  then have "1 \<le> x" using assms(1) by simp
  moreover have "(2 :: rat) powi (- 1022) \<le> 1" by (simp add: power_int_def power_le_one)
  ultimately have "\<not> \<bar>x\<bar> < 2 powi (- 1022)" by simp
  moreover have "z \<le> f64 x" "\<not> f64 x \<le> - (2 ^ 1024)"
    using f64_ge_pow [OF assms(1)] assms(2) \<open>(1 :: rat) \<le> 2 powi k\<close> by (simp_all only: not_le) (simp_all add: less_le_trans [of _ 1])
  ultimately show ?thesis unfolding f64_round_def Let_def by (simp only: if_False if_True split: if_split) simp
qed

text \<open>
  Whole kilowatt hours convert without loss.  With nine decimals and a ratio of one, when \<open>powi\<close> gives ten to the ninth,
  a reading of a whole number of kilowatt hours up to the maximum becomes exactly that many billions of
  units, converting back gives the reading, and a negative or excessive reading is refused.
\<close>

theorem kwh_tokens_roundtrip:
  assumes "pw (Finite 10) 9 = Finite (10 ^ 9)" and "0 \<le> n"
  shows "kwh_to_tokens pw config_default (Finite (of_int n)) = (if n \<le> 100 then Inr (nat n * 10 ^ 9) else Inl (AmountTooHigh (Finite (of_int n))))
    \<and> (n \<le> 100 \<longrightarrow> tokens_to_kwh pw config_default (nat n * 10 ^ 9) = Finite (of_int n))
    \<and> (n > 0 \<longrightarrow> kwh_to_tokens pw config_default (Finite (- of_int n)) = Inl NegativeAmount)"
proof (cases "n \<le> 100")
  case True
  have small: "f64_round (of_int n) = Finite (of_int n)" "f64_round (of_int (n * 10 ^ 9)) = Finite (of_int (n * 10 ^ 9))"
    by (rule f64_round_int; use True assms(2) in simp)+
  have over: "\<not> f64_less (u64_to_f64 u64_max) (Finite (of_int n * 10 ^ 9))"
    using True assms(2) unfolding u64_to_f64_def by (intro f64_round_not_less [of 63]) simp_all
  have ten: "f64_round (10 ^ 9) = Finite (10 ^ 9)" using f64_round_int [of "10 ^ 9"] by simp
  have "f64_round (of_nat (nat n * 10 ^ 9)) = Finite (of_int n * 10 ^ 9)" using small(2) assms(2) by simp
  moreover have "f64_to_u64 (Finite (of_int (n * 10 ^ 9))) = nat n * 10 ^ 9"
    using True assms(2) unfolding f64_to_u64_int by (simp add: min_absorb1 nat_mult_distrib)
  ultimately show ?thesis using True assms small over ten
    by (simp add: kwh_to_tokens_def tokens_to_kwh_def config_default_def u64_to_f64_def)
next
  case False
  then show ?thesis by (simp add: kwh_to_tokens_def config_default_def)
qed

theorem kwh_tokens_roundtrip_witness:
  "kwh_to_tokens table_powi config_default (Finite (of_int 3)) = Inr (nat 3 * 10 ^ 9) \<and> tokens_to_kwh table_powi config_default (nat 3 * 10 ^ 9) = Finite (of_int 3)"
  using kwh_tokens_roundtrip [of table_powi 3] by (simp add: table_powi_def)

end
