(* ===== verification/Input_Validation.thy ===== *)
theory Input_Validation
  imports Errors Floats
begin

text \<open>
  The validators of \<open>src/src/utils/validation.rs\<close>.

  A regular expression that is a sequence of character classes with repetition counts is a list of
  pieces; the matcher tries the repetitions as a backtracking matcher does.  Texts are ASCII, so a length in
  bytes is a length in characters.
\<close>

subsection \<open>Patterns\<close>

datatype piece = Piece (p_class: "char \<Rightarrow> bool") (p_least: nat) (p_most: "nat option")

function (sequential) matches :: "piece list \<Rightarrow> string \<Rightarrow> bool" where
  "matches [] s \<longleftrightarrow> s = []"
| "matches (Piece p (Suc lo) hi # ps) [] \<longleftrightarrow> False"
| "matches (Piece p (Suc lo) hi # ps) (c # s) \<longleftrightarrow> p c \<and> hi \<noteq> Some 0 \<and> matches (Piece p lo (map_option (\<lambda>h. h - 1) hi) # ps) s"
| "matches (Piece p 0 hi # ps) [] \<longleftrightarrow> matches ps []"
| "matches (Piece p 0 hi # ps) (c # s) \<longleftrightarrow>
     p c \<and> hi \<noteq> Some 0 \<and> matches (Piece p 0 (map_option (\<lambda>h. h - 1) hi) # ps) s \<or> matches ps (c # s)"
  by pat_completeness auto
termination
  by (relation "measures [\<lambda>(ps, s). length s, \<lambda>(ps, s). length ps]") auto

definition between :: "char \<Rightarrow> char \<Rightarrow> char \<Rightarrow> bool" where
  "between a b c \<longleftrightarrow> (of_char a :: nat) \<le> of_char c \<and> (of_char c :: nat) \<le> of_char b"

definition is_alphabetic :: "char \<Rightarrow> bool" where
  "is_alphabetic c \<longleftrightarrow> between CHR ''a'' CHR ''z'' c \<or> between CHR ''A'' CHR ''Z'' c"

definition is_numeric :: "char \<Rightarrow> bool" where
  "is_numeric c \<longleftrightarrow> between CHR ''0'' CHR ''9'' c"

definition local_char :: "char \<Rightarrow> bool" where
  "local_char c \<longleftrightarrow> is_alphabetic c \<or> is_numeric c \<or> c \<in> set ''._%+-''"

definition domain_char :: "char \<Rightarrow> bool" where
  "domain_char c \<longleftrightarrow> is_alphabetic c \<or> is_numeric c \<or> c \<in> set ''.-''"

definition email_regex :: "piece list" where
  "email_regex = [Piece local_char 1 None, Piece (\<lambda>c. c = CHR ''@'') 1 (Some 1), Piece domain_char 1 None,
     Piece (\<lambda>c. c = CHR ''.'') 1 (Some 1), Piece is_alphabetic 2 None]"

definition base58_char :: "char \<Rightarrow> bool" where
  "base58_char c \<longleftrightarrow> between CHR ''1'' CHR ''9'' c \<or> between CHR ''A'' CHR ''H'' c \<or> between CHR ''J'' CHR ''N'' c
     \<or> between CHR ''P'' CHR ''Z'' c \<or> between CHR ''a'' CHR ''k'' c \<or> between CHR ''m'' CHR ''z'' c"

definition wallet_regex :: "piece list" where
  "wallet_regex = [Piece base58_char 32 (Some 44)]"

subsection \<open>Validators\<close>

definition validate_email :: "string \<Rightarrow> api_error + unit" where
  "validate_email s =
    (if s = [] then Inl (validation_field ''email'' ''Email is required'')
     else if length s > 255 then Inl (validation_field ''email'' ''Email is too long'')
     else if \<not> matches email_regex s then Inl (with_code EcInvalidEmail ''Invalid email format'')
     else Inr ())"

definition validate_password :: "string \<Rightarrow> api_error + unit" where
  "validate_password p =
    (if p = [] then Inl (validation_field ''password'' ''Password is required'')
     else if length p < 8 then Inl (with_code EcPasswordTooWeak ''Password must be at least 8 characters'')
     else if length p > 128 then Inl (validation_field ''password'' ''Password is too long'')
     else if \<not> list_ex is_alphabetic p \<or> \<not> list_ex is_numeric p
     then Inl (with_code EcPasswordTooWeak ''Password must contain at least one letter and one number'')
     else Inr ())"

definition validate_wallet_address :: "string \<Rightarrow> api_error + unit" where
  "validate_wallet_address s =
    (if s = [] then Inl (validation_field ''wallet_address'' ''Wallet address is required'')
     else if \<not> matches wallet_regex s then Inl (with_code EcInvalidWalletAddress ''Invalid Solana wallet address format'')
     else Inr ())"

definition validate_amount :: "f64_value \<Rightarrow> string \<Rightarrow> api_error + unit" where
  "validate_amount x field =
    (if f64_le x (Finite 0) then Inl (validation_field field (field @ '' must be greater than zero''))
     else if x \<in> {PosInf, NegInf, NaN} then Inl (validation_field field (field @ '' must be a valid number''))
     else Inr ())"

definition validate_token_amount :: "i64 \<Rightarrow> string \<Rightarrow> api_error + unit" where
  "validate_token_amount n field = (if sint n \<le> 0 then Inl (validation_field field (field @ '' must be greater than zero'')) else Inr ())"

definition validate_energy_reading :: "f64_value \<Rightarrow> api_error + unit" where
  "validate_energy_reading kwh =
    (if f64_less kwh (Finite 0) then Inl (with_code EcMeterReadingInvalid ''Energy reading cannot be negative'')
     else if f64_less (Finite 1000000) kwh then Inl (with_code EcMeterReadingInvalid ''Energy reading is unreasonably high (max 1,000,000 kWh)'')
     else Inr ())"

definition validate_price :: "f64_value \<Rightarrow> api_error + unit" where
  "validate_price x = (case validate_amount x ''price'' of
      Inl er \<Rightarrow> Inl er
    | Inr _ \<Rightarrow> if f64_less (Finite 1000) x then Inl (validation_field ''price'' ''Price is unreasonably high (max 1000)'') else Inr ())"

definition is_whitespace :: "char \<Rightarrow> bool" where
  "is_whitespace c \<longleftrightarrow> (let n = of_char c :: nat in n = 32 \<or> 9 \<le> n \<and> n \<le> 13)"

definition trim :: "string \<Rightarrow> string" where
  "trim s = rev (dropWhile is_whitespace (rev (dropWhile is_whitespace s)))"

definition validate_required_string :: "string \<Rightarrow> string \<Rightarrow> api_error + unit" where
  "validate_required_string v field = (if trim v = [] then Inl (validation_field field (field @ '' is required'')) else Inr ())"

definition validate_string_length :: "string \<Rightarrow> string \<Rightarrow> nat \<Rightarrow> nat \<Rightarrow> api_error + unit" where
  "validate_string_length v field least most =
    (if length v < least then Inl (validation_field field (field @ '' must be at least '' @ show_nat least @ '' characters''))
     else if length v > most then Inl (validation_field field (field @ '' must be at most '' @ show_nat most @ '' characters''))
     else Inr ())"

definition validate_uuid :: "env \<Rightarrow> string \<Rightarrow> string \<Rightarrow> api_error + unit" where
  "validate_uuid e v field = (case parse_uuid e v of None \<Rightarrow> Inl (validation_field field (field @ '' must be a valid UUID'')) | Some _ \<Rightarrow> Inr ())"

definition validate_positive_integer :: "i64 \<Rightarrow> string \<Rightarrow> api_error + unit" where
  "validate_positive_integer n field = (if sint n \<le> 0 then Inl (validation_field field (field @ '' must be a positive integer'')) else Inr ())"

definition validate_not_future_date :: "time \<Rightarrow> time \<Rightarrow> string \<Rightarrow> api_error + unit" where
  "validate_not_future_date now date field = (if date > now then Inl (validation_field field (field @ '' cannot be in the future'')) else Inr ())"

definition validate_date_range :: "time option \<Rightarrow> time option \<Rightarrow> api_error + unit" where
  "validate_date_range from_date to_date = (case (from_date, to_date) of
      (Some from, Some to) \<Rightarrow> if from > to then Inl (validation_error ''from_date must be before to_date'' None) else Inr ()
    | _ \<Rightarrow> Inr ())"

text \<open>One of a fixed list, with or without regard to case.\<close>

fun list_text :: "string list \<Rightarrow> string" where
  "list_text [] = []"
| "list_text [x] = x"
| "list_text (x # y # ys) = x @ '', '' @ list_text (y # ys)"

definition energy_sources :: "string list" where
  "energy_sources = [''solar'', ''wind'', ''hydro'', ''mixed'', ''biomass'', ''geothermal'']"

definition validate_energy_source :: "string \<Rightarrow> api_error + unit" where
  "validate_energy_source s = (if to_lower s \<notin> set energy_sources
     then Inl (validation_field ''energy_source'' (''Energy source must be one of: '' @ list_text energy_sources)) else Inr ())"

definition validate_order_side :: "string \<Rightarrow> api_error + unit" where
  "validate_order_side s = (if to_lower s \<notin> {''buy'', ''sell''}
     then Inl (validation_field ''side'' (''Order side must be '' @ apostrophe @ ''buy'' @ apostrophe @ '' or '' @ apostrophe @ ''sell'' @ apostrophe)) else Inr ())"

definition order_statuses :: "string list" where
  "order_statuses = [''Pending'', ''PartiallyFilled'', ''Filled'', ''Cancelled'', ''Expired'']"

definition validate_order_status :: "string \<Rightarrow> api_error + unit" where
  "validate_order_status s = (if s \<notin> set order_statuses then Inl (validation_field ''status'' (''Status must be one of: '' @ list_text order_statuses)) else Inr ())"

definition transaction_statuses :: "string list" where
  "transaction_statuses = [''Pending'', ''Processing'', ''Completed'', ''Failed'', ''Cancelled'']"

definition validate_transaction_status :: "string \<Rightarrow> api_error + unit" where
  "validate_transaction_status s = (if s \<notin> set transaction_statuses
     then Inl (validation_field ''status'' (''Status must be one of: '' @ list_text transaction_statuses)) else Inr ())"

definition certificate_statuses :: "string list" where
  "certificate_statuses = [''Active'', ''Retired'', ''Expired'', ''Cancelled'']"

definition validate_certificate_status :: "string \<Rightarrow> api_error + unit" where
  "validate_certificate_status s = (if s \<notin> set certificate_statuses
     then Inl (validation_field ''status'' (''Status must be one of: '' @ list_text certificate_statuses)) else Inr ())"

definition user_roles :: "string list" where
  "user_roles = [''consumer'', ''producer'', ''prosumer'', ''admin'', ''rec'']"

definition validate_user_role :: "string \<Rightarrow> api_error + unit" where
  "validate_user_role s = (if to_lower s \<notin> set user_roles then Inl (validation_field ''role'' (''Role must be one of: '' @ list_text user_roles)) else Inr ())"

definition outside :: "rat \<Rightarrow> rat \<Rightarrow> f64_value \<Rightarrow> bool" where
  "outside lo hi x \<longleftrightarrow> f64_less x (Finite lo) \<or> f64_less (Finite hi) x"

definition validate_percentage :: "f64_value \<Rightarrow> string \<Rightarrow> api_error + unit" where
  "validate_percentage x field = (if outside 0 100 x then Inl (validation_field field (field @ '' must be between 0 and 100'')) else Inr ())"

definition validate_latitude :: "f64_value \<Rightarrow> api_error + unit" where
  "validate_latitude x = (if outside (- 90) 90 x then Inl (validation_field ''latitude'' ''Latitude must be between -90 and 90'') else Inr ())"

definition validate_longitude :: "f64_value \<Rightarrow> api_error + unit" where
  "validate_longitude x = (if outside (- 180) 180 x then Inl (validation_field ''longitude'' ''Longitude must be between -180 and 180'') else Inr ())"

definition validate_bigdecimal_amount :: "rat \<Rightarrow> string \<Rightarrow> api_error + unit" where
  "validate_bigdecimal_amount x field = (if x = 0 \<or> x < 0 then Inl (validation_field field (field @ '' must be greater than zero'')) else Inr ())"

definition validate_username :: "string \<Rightarrow> api_error + unit" where
  "validate_username s =
    (if s = [] then Inl (validation_field ''username'' ''Username is required'')
     else if length s < 3 then Inl (validation_field ''username'' ''Username must be at least 3 characters'')
     else if length s > 50 then Inl (validation_field ''username'' ''Username must be at most 50 characters'')
     else if \<not> list_all (\<lambda>c. is_alphabetic c \<or> is_numeric c \<or> c = CHR ''_'' \<or> c = CHR ''-'') s
     then Inl (validation_field ''username'' ''Username can only contain letters, numbers, underscores, and hyphens'')
     else Inr ())"

definition validate_phone_number :: "string \<Rightarrow> api_error + unit" where
  "validate_phone_number s =
    (if s = [] then Inr ()
     else let cleaned = filter (\<lambda>c. is_numeric c \<or> c = CHR ''+'') s in
      if length cleaned < 10 \<or> length cleaned > 15 then Inl (validation_field ''phone_number'' ''Phone number must be between 10 and 15 digits'')
      else Inr ())"

definition validate_time_range_hours :: "i32 \<Rightarrow> api_error + unit" where
  "validate_time_range_hours h =
    (if sint h \<le> 0 then Inl (validation_field ''hours'' ''Hours must be positive'')
     else if sint h > 8760 then Inl (validation_field ''hours'' ''Hours cannot exceed 8760 (1 year)'')
     else Inr ())"

subsection \<open>The matcher\<close>

text \<open>The language of a pattern: each piece matches a segment of its class whose length is in range.\<close>

fun in_language :: "piece list \<Rightarrow> string \<Rightarrow> bool" where
  "in_language [] s \<longleftrightarrow> s = []"
| "in_language (Piece p lo hi # ps) s \<longleftrightarrow>
     (\<exists>a b. s = a @ b \<and> (\<forall>c \<in> set a. p c) \<and> lo \<le> length a \<and> (case hi of None \<Rightarrow> True | Some h \<Rightarrow> length a \<le> h) \<and> in_language ps b)"

lemma in_language_ConsI:
  assumes "s = a @ b" and "\<forall>c \<in> set a. p c" and "lo \<le> length a" and "case hi of None \<Rightarrow> True | Some h \<Rightarrow> length a \<le> h" and "in_language ps b"
  shows "in_language (Piece p lo hi # ps) s"
  using assms by (simp only: in_language.simps) blast

lemma in_language_ConsE:
  assumes "in_language (Piece p lo hi # ps) s"
  obtains a b where "s = a @ b" and "list_all p a" and "lo \<le> length a" and "in_language ps b"
  using assms by (auto simp: list_all_iff)

lemma matches_in_language_aux: "matches ps s \<longleftrightarrow> in_language ps s"
proof (induction ps s rule: matches.induct)
  case (3 p lo hi ps c s)
  show ?case
  proof
    assume "matches (Piece p (Suc lo) hi # ps) (c # s)"
    then have c: "p c" "hi \<noteq> Some 0" "in_language (Piece p lo (map_option (\<lambda>h. h - 1) hi) # ps) s" using 3 by auto
    then obtain a b where "s = a @ b" "\<forall>c \<in> set a. p c" "lo \<le> length a" "in_language ps b"
      "case map_option (\<lambda>h. h - 1) hi of None \<Rightarrow> True | Some h \<Rightarrow> length a \<le> h" by auto
    with c(1,2) show "in_language (Piece p (Suc lo) hi # ps) (c # s)"
      by (intro in_language_ConsI [of _ "c # a" b]) (auto split: option.splits)
  next
    assume "in_language (Piece p (Suc lo) hi # ps) (c # s)"
    then obtain a b where a: "c # s = a @ b" "\<forall>c \<in> set a. p c" "Suc lo \<le> length a" "in_language ps b"
      "case hi of None \<Rightarrow> True | Some h \<Rightarrow> length a \<le> h" by auto
    then obtain a' where "a = c # a'" "s = a' @ b" by (cases a) auto
    note a' = this
    have "in_language (Piece p lo (map_option (\<lambda>h. h - 1) hi) # ps) s"
      by (rule in_language_ConsI [OF a'(2)]) (use a a'(1) in \<open>auto split: option.splits\<close>)
    moreover have "p c" "hi \<noteq> Some 0" using a a'(1) by auto
    ultimately show "matches (Piece p (Suc lo) hi # ps) (c # s)" using 3 by auto
  qed
next
  case (5 p hi ps c s)
  show ?case
  proof
    assume "matches (Piece p 0 hi # ps) (c # s)"
    then consider "p c" "hi \<noteq> Some 0" "in_language (Piece p 0 (map_option (\<lambda>h. h - 1) hi) # ps) s" | "in_language ps (c # s)" using 5 by auto
    then show "in_language (Piece p 0 hi # ps) (c # s)"
    proof cases
      case 1
      then obtain a b where "s = a @ b" "\<forall>c \<in> set a. p c" "in_language ps b"
        "case map_option (\<lambda>h. h - 1) hi of None \<Rightarrow> True | Some h \<Rightarrow> length a \<le> h" by auto
      with 1(1,2) show ?thesis by (intro in_language_ConsI [of _ "c # a" b]) (auto split: option.splits)
    next
      case 2
      then show ?thesis by (intro in_language_ConsI [of _ "[]" "c # s"]) (auto split: option.splits)
    qed
  next
    assume "in_language (Piece p 0 hi # ps) (c # s)"
    then obtain a b where a: "c # s = a @ b" "\<forall>c \<in> set a. p c" "in_language ps b"
      "case hi of None \<Rightarrow> True | Some h \<Rightarrow> length a \<le> h" by auto
    then show "matches (Piece p 0 hi # ps) (c # s)"
    proof (cases a)
      case Nil
      with a 5 show ?thesis by auto
    next
      case (Cons d a')
      then have "s = a' @ b" using a(1) by simp
      then have "in_language (Piece p 0 (map_option (\<lambda>h. h - 1) hi) # ps) s"
        by (rule in_language_ConsI) (use a Cons in \<open>auto split: option.splits\<close>)
      moreover have "p c" "hi \<noteq> Some 0" using a Cons by auto
      ultimately show ?thesis using 5 by auto
    qed
  qed
qed (auto split: option.splits)

text \<open>
  The matcher decides the language of a pattern: a text matches a sequence of pieces exactly when it can be cut into
  one segment for each piece, with characters of its class and as many as it allows.
\<close>

theorem matches_in_language: "matches ps s \<longleftrightarrow> in_language ps s"
  by (rule matches_in_language_aux)

lemma in_language_one: "in_language (Piece p 1 (Some 1) # ps) s \<longleftrightarrow> (\<exists>c b. s = c # b \<and> p c \<and> in_language ps b)"
proof
  assume "in_language (Piece p 1 (Some 1) # ps) s"
  then obtain a b where "s = a @ b" "\<forall>c \<in> set a. p c" "length a = 1" "in_language ps b" by auto
  then show "\<exists>c b. s = c # b \<and> p c \<and> in_language ps b" by (cases a) auto
next
  assume "\<exists>c b. s = c # b \<and> p c \<and> in_language ps b"
  then obtain c b where "s = [c] @ b" "p c" "in_language ps b" by auto
  then show "in_language (Piece p 1 (Some 1) # ps) s" by (intro in_language_ConsI [of _ "[c]" b]) auto
qed

lemma in_language_literalE:
  assumes "in_language (Piece (\<lambda>c. c = x) 1 (Some 1) # ps) s"
  obtains b where "s = [x] @ b" and "in_language ps b"
  using assms unfolding in_language_one by (metis append_Cons append_Nil)

text \<open>
  C39. What counts as an email address and as a wallet address.  An address is accepted exactly when it has at most 255 characters
  and is a nonempty local part, an at sign, a nonempty domain, a dot and a top level of at least two letters, over
  the listed characters; a wallet exactly when it has 32 to 44 characters of the base 58 alphabet.
\<close>

theorem address_formats:
  "(validate_email s = Inr () \<longleftrightarrow> length s \<le> 255 \<and> (\<exists>l d t. s = l @ ''@'' @ d @ ''.'' @ t \<and> l \<noteq> [] \<and> d \<noteq> [] \<and> 2 \<le> length t
      \<and> list_all local_char l \<and> list_all domain_char d \<and> list_all is_alphabetic t))
   \<and> (validate_wallet_address s = Inr () \<longleftrightarrow> 32 \<le> length s \<and> length s \<le> 44 \<and> list_all base58_char s)"
proof
  have "matches email_regex s \<longleftrightarrow> (\<exists>l d t. s = l @ ''@'' @ d @ ''.'' @ t \<and> l \<noteq> [] \<and> d \<noteq> [] \<and> 2 \<le> length t
      \<and> list_all local_char l \<and> list_all domain_char d \<and> list_all is_alphabetic t)" (is "_ \<longleftrightarrow> ?split")
  proof
    assume "matches email_regex s"
    then have "in_language email_regex s" by (simp only: matches_in_language_aux)
    then obtain l s1 where l: "s = l @ s1" "list_all local_char l" "1 \<le> length l"
      and s1: "in_language [Piece (\<lambda>c. c = CHR ''@'') 1 (Some 1), Piece domain_char 1 None, Piece (\<lambda>c. c = CHR ''.'') 1 (Some 1), Piece is_alphabetic 2 None] s1"
      unfolding email_regex_def by (rule in_language_ConsE)
    from s1 obtain s2 where s2: "s1 = ''@'' @ s2" "in_language [Piece domain_char 1 None, Piece (\<lambda>c. c = CHR ''.'') 1 (Some 1), Piece is_alphabetic 2 None] s2"
      by (rule in_language_literalE)
    from s2(2) obtain d s3 where d: "s2 = d @ s3" "list_all domain_char d" "1 \<le> length d"
      and s3: "in_language [Piece (\<lambda>c. c = CHR ''.'') 1 (Some 1), Piece is_alphabetic 2 None] s3"
      by (rule in_language_ConsE)
    from s3 obtain t where t: "s3 = ''.'' @ t" "in_language [Piece is_alphabetic 2 None] t"
      by (rule in_language_literalE)
    from t(2) have "list_all is_alphabetic t" "2 \<le> length t" by (auto elim!: in_language_ConsE simp: list_all_iff)
    moreover have "l \<noteq> []" "d \<noteq> []" using l(3) d(3) by auto
    moreover have "s = l @ ''@'' @ d @ ''.'' @ t" using l(1) s2(1) d(1) t(1) by simp
    ultimately show ?split using l(2) d(2) by blast
  next
    assume ?split
    then obtain l d t where "s = l @ ''@'' @ d @ ''.'' @ t" "l \<noteq> []" "d \<noteq> []" "2 \<le> length t"
      "list_all local_char l" "list_all domain_char d" "list_all is_alphabetic t" by blast
    then show "matches email_regex s" unfolding matches_in_language_aux email_regex_def
      by (intro in_language_ConsI [of _ l "''@'' @ d @ ''.'' @ t"] in_language_ConsI [of _ "''@''" "d @ ''.'' @ t"] in_language_ConsI [of _ d "''.'' @ t"]
          in_language_ConsI [of _ "''.''" t] in_language_ConsI [of _ t "[]"]) (auto simp: list_all_iff Suc_le_eq)
  qed
  then show "validate_email s = Inr () \<longleftrightarrow> length s \<le> 255 \<and> ?split" by (auto simp: validate_email_def)
next
  have "matches wallet_regex s \<longleftrightarrow> 32 \<le> length s \<and> length s \<le> 44 \<and> list_all base58_char s"
    by (auto simp: matches_in_language_aux wallet_regex_def list_all_iff)
  then show "validate_wallet_address s = Inr () \<longleftrightarrow> 32 \<le> length s \<and> length s \<le> 44 \<and> list_all base58_char s"
    by (auto simp: validate_wallet_address_def)
qed

text \<open>
  Not a number is within every range: the validators of readings, percentages and coordinates accept it, only
  amounts and prices refuse it.
\<close>

theorem nan_passes_ranges:
  "validate_energy_reading NaN = Inr ()" "validate_percentage NaN field = Inr ()" "validate_latitude NaN = Inr ()" "validate_longitude NaN = Inr ()"
  "validate_amount NaN field = Inl (validation_field field (field @ '' must be a valid number''))"
  by (simp_all add: validate_energy_reading_def validate_percentage_def validate_latitude_def validate_longitude_def outside_def validate_amount_def)

text \<open>Apart from that, a number is accepted exactly when it is in its range.\<close>

theorem ranges_checked:
  "validate_amount (Finite x) field = Inr () \<longleftrightarrow> 0 < x"
  "validate_price (Finite x) = Inr () \<longleftrightarrow> 0 < x \<and> x \<le> 1000"
  "validate_energy_reading (Finite x) = Inr () \<longleftrightarrow> 0 \<le> x \<and> x \<le> 1000000"
  "validate_percentage (Finite x) field = Inr () \<longleftrightarrow> 0 \<le> x \<and> x \<le> 100"
  "validate_latitude (Finite x) = Inr () \<longleftrightarrow> - 90 \<le> x \<and> x \<le> 90"
  "validate_longitude (Finite x) = Inr () \<longleftrightarrow> - 180 \<le> x \<and> x \<le> 180"
  by (auto simp: validate_amount_def validate_price_def validate_energy_reading_def validate_percentage_def validate_latitude_def validate_longitude_def
      outside_def not_less split: sum.splits if_splits)

text \<open>A required text is one with a character that is not white space.\<close>

lemma trim_Nil: "trim s = [] \<longleftrightarrow> list_all is_whitespace s"
proof -
  have "(\<forall>x \<in> set (dropWhile P s). P x) \<longleftrightarrow> (\<forall>x \<in> set s. P x)" for P :: "char \<Rightarrow> bool" by (induction s) auto
  then show ?thesis by (simp add: trim_def list_all_iff dropWhile_eq_Nil_conv)
qed

text \<open>
  The status texts that the validator accepts are not the ones that the database and the responses use, which are in
  snake case: no stored status of an order passes.
\<close>

theorem order_status_text_refused: "validate_order_status (order_status_as_str st) \<noteq> Inr ()"
  by (cases st) (simp_all add: validate_order_status_def order_statuses_def)

end
