(* ===== verification/Notifications.thy ===== *)
theory Notifications
  imports Meter_Registry Sample
begin

text \<open>
  Notifications: the dispatcher (\<open>src/src/services/notification_dispatcher.rs\<close>), the handlers
  (\<open>src/src/handlers/notifications.rs\<close>) and their types (\<open>src/src/models/notification.rs\<close>).

  What leaves the process is part of a result: whether the notification is broadcast to the web sockets, and the
  mail that is handed to the mail service.  The server's order of the users and the text of JSON and of numbers
  with a fixed number of digits are parameters.
\<close>

subsection \<open>Types\<close>

fun notification_type_fmt :: "NotificationType \<Rightarrow> string" where
  "notification_type_fmt OrderFilled = ''order_filled''"
| "notification_type_fmt OrderMatched = ''order_matched''"
| "notification_type_fmt ConditionalTriggered = ''conditional_triggered''"
| "notification_type_fmt RecurringExecuted = ''recurring_executed''"
| "notification_type_fmt PriceAlert = ''price_alert''"
| "notification_type_fmt EscrowReleased = ''escrow_released''"
| "notification_type_fmt System = ''system''"

record create_notification_request =
  cn_user_id :: uuid
  cn_notification_type :: NotificationType
  cn_title :: string
  cn_message :: "string option"
  cn_data :: "string option"

record update_preferences_request =
  up_order_filled :: "bool option"
  up_order_matched :: "bool option"
  up_conditional_triggered :: "bool option"
  up_recurring_executed :: "bool option"
  up_price_alerts :: "bool option"
  up_escrow_events :: "bool option"
  up_system_announcements :: "bool option"
  up_email_enabled :: "bool option"
  up_push_enabled :: "bool option"

record notification_list_response =
  nl_notifications :: "notification list"
  nl_unread_count :: nat
  nl_total :: nat

subsection \<open>The dispatcher\<close>

record dispatcher_config =
  respect_preferences :: bool
  channel_capacity :: nat

definition dispatcher_default :: dispatcher_config where
  "dispatcher_default = \<lparr>respect_preferences = True, channel_capacity = 1000\<rparr>"

text \<open>A dispatched notification: the stored row, whether it is broadcast, and the mail (address, name, title, text).\<close>

record dispatched =
  di_notification :: notification
  di_broadcast :: bool
  di_mail :: "(string \<times> string \<times> string \<times> string) option"

fun type_enabled :: "NotificationType \<Rightarrow> notification_preferences \<Rightarrow> bool" where
  "type_enabled OrderFilled p = np_order_filled p"
| "type_enabled OrderMatched p = np_order_matched p"
| "type_enabled ConditionalTriggered p = np_conditional_triggered p"
| "type_enabled RecurringExecuted p = np_recurring_executed p"
| "type_enabled PriceAlert p = np_price_alerts p"
| "type_enabled EscrowReleased p = np_escrow_events p"
| "type_enabled System p = np_system_announcements p"

definition wanted :: "NotificationType \<Rightarrow> notification_preferences option \<Rightarrow> bool \<times> bool" where
  "wanted t prefs = (case prefs of
      None \<Rightarrow> (True, False)
    | Some p \<Rightarrow> (type_enabled t p \<and> np_push_enabled p, type_enabled t p \<and> np_email_enabled p))"

definition check_preferences :: "uuid \<Rightarrow> NotificationType \<Rightarrow> (world, bool \<times> bool) io" where
  "check_preferences user t = bnd (anyhow_err [] (query (\<lambda>d. find_row np_user_id user (preferences d)))) (\<lambda>p. ret (wanted t p))"

definition new_notification :: "uuid \<Rightarrow> time \<Rightarrow> create_notification_request \<Rightarrow> notification" where
  "new_notification i now q =
    \<lparr> n_id = i, n_user_id = cn_user_id q, n_notification_type = cn_notification_type q, n_title = cn_title q, n_message = cn_message q,
      n_data = cn_data q, n_read = False, n_created_at = now \<rparr>"

text \<open>The primary key, the foreign key and the length of the title.\<close>

definition notification_fits :: "notification \<Rightarrow> db \<Rightarrow> bool" where
  "notification_fits n d \<longleftrightarrow> users d (n_user_id n) \<noteq> None \<and> length (n_title n) \<le> 200 \<and> list_all (\<lambda>x. n_id x \<noteq> n_id n) (notifications d)"

definition create_notification :: "env \<Rightarrow> create_notification_request \<Rightarrow> (world, notification) io" where
  "create_notification e q =
    bnd (fresh_uuid e) (\<lambda>i. bnd get_clock (\<lambda>now.
    let n = new_notification i now q in
    sq (anyhow_err [] (exec_chk (notification_fits n) (\<lambda>d. d\<lparr>notifications := notifications d @ [n]\<rparr>))) (ret n)))"

definition mail_for :: "create_notification_request \<Rightarrow> user_row \<Rightarrow> string \<times> string \<times> string \<times> string" where
  "mail_for q r = (email r, ac_username (account r), cn_title q, unwrap_or (cn_message q) [])"

definition send :: "env \<Rightarrow> dispatcher_config \<Rightarrow> create_notification_request \<Rightarrow> (world, dispatched) io" where
  "send e cfg q =
    bnd (check_preferences (cn_user_id q) (cn_notification_type q)) (\<lambda>(should_push, should_email).
    if respect_preferences cfg \<and> \<not> should_push
    then bnd (create_notification e q) (\<lambda>n. ret \<lparr>di_notification = n, di_broadcast = False, di_mail = None\<rparr>)
    else
     bnd (create_notification e q) (\<lambda>n.
     bnd (if should_email \<and> mailer e \<noteq> None
          then bnd (anyhow_err [] (query (\<lambda>d. users d (cn_user_id q)))) (\<lambda>u. ret (map_option (mail_for q) u))
          else ret None) (\<lambda>m.
     ret \<lparr>di_notification = n, di_broadcast = True, di_mail = m\<rparr>)))"

fun send_bulk :: "env \<Rightarrow> dispatcher_config \<Rightarrow> create_notification_request list \<Rightarrow> (world, dispatched list) io" where
  "send_bulk e cfg [] = ret []"
| "send_bulk e cfg (q # qs) =
    bnd (attempt (send e cfg q)) (\<lambda>r. bnd (send_bulk e cfg qs) (\<lambda>rest. ret (case r of Inr n \<Rightarrow> n # rest | Inl _ \<Rightarrow> rest)))"

definition announcement :: "string \<Rightarrow> string \<Rightarrow> uuid \<Rightarrow> create_notification_request" where
  "announcement title text_body user =
    \<lparr>cn_user_id = user, cn_notification_type = System, cn_title = title, cn_message = Some text_body, cn_data = None\<rparr>"

definition wants_announcements :: "db \<Rightarrow> uuid \<Rightarrow> bool" where
  "wants_announcements d u \<longleftrightarrow> users d u \<noteq> None
     \<and> (case find_row np_user_id u (preferences d) of None \<Rightarrow> True | Some p \<Rightarrow> np_system_announcements p)"

definition send_system_announcement :: "env \<Rightarrow> dispatcher_config \<Rightarrow> uuid list \<Rightarrow> string \<Rightarrow> string \<Rightarrow> (world, nat) io" where
  "send_system_announcement e cfg scan title text_body =
    bnd (anyhow_err [] (query (\<lambda>d. filter (wants_announcements d) scan))) (\<lambda>us.
    bnd (send_bulk e cfg (map (announcement title text_body) us)) (\<lambda>sent. ret (length sent)))"

datatype json_value = JText string | JNumber rat | JInteger int

definition notify_order_filled :: "(nat \<Rightarrow> rat \<Rightarrow> string) \<Rightarrow> ((string \<times> json_value) list \<Rightarrow> string) \<Rightarrow> env \<Rightarrow> dispatcher_config
    \<Rightarrow> uuid \<Rightarrow> uuid \<Rightarrow> rat \<Rightarrow> rat \<Rightarrow> (world, dispatched) io" where
  "notify_order_filled fixed json e cfg user order_id amount price = send e cfg
    \<lparr> cn_user_id = user, cn_notification_type = OrderFilled, cn_title = ''Order Filled'',
      cn_message = Some (''Your order for '' @ fixed 2 amount @ '' kWh was filled at '' @ fixed 4 price @ ''/kWh''),
      cn_data = Some (json [(''order_id'', JText (uuid_str order_id)), (''amount'', JNumber amount), (''price'', JNumber price)]) \<rparr>"

definition notify_conditional_triggered :: "(nat \<Rightarrow> rat \<Rightarrow> string) \<Rightarrow> ((string \<times> json_value) list \<Rightarrow> string) \<Rightarrow> env \<Rightarrow> dispatcher_config
    \<Rightarrow> uuid \<Rightarrow> uuid \<Rightarrow> string \<Rightarrow> rat \<Rightarrow> (world, dispatched) io" where
  "notify_conditional_triggered fixed json e cfg user order_id trigger_type trigger_price = send e cfg
    \<lparr> cn_user_id = user, cn_notification_type = ConditionalTriggered, cn_title = trigger_type @ '' Triggered'',
      cn_message = Some (''Your '' @ trigger_type @ '' order was triggered at price '' @ fixed 4 trigger_price),
      cn_data = Some (json [(''order_id'', JText (uuid_str order_id)), (''trigger_type'', JText trigger_type), (''trigger_price'', JNumber trigger_price)]) \<rparr>"

definition notify_recurring_executed :: "(nat \<Rightarrow> rat \<Rightarrow> string) \<Rightarrow> ((string \<times> json_value) list \<Rightarrow> string) \<Rightarrow> env \<Rightarrow> dispatcher_config
    \<Rightarrow> uuid \<Rightarrow> uuid \<Rightarrow> i32 \<Rightarrow> rat \<Rightarrow> (world, dispatched) io" where
  "notify_recurring_executed fixed json e cfg user recurring_id execution_number amount = send e cfg
    \<lparr> cn_user_id = user, cn_notification_type = RecurringExecuted, cn_title = ''Recurring Order Executed'',
      cn_message = Some (''Execution #'' @ show_int (sint execution_number) @ '' completed for '' @ fixed 2 amount @ '' kWh''),
      cn_data = Some (json [(''recurring_id'', JText (uuid_str recurring_id)), (''execution_number'', JInteger (sint execution_number)), (''amount'', JNumber amount)]) \<rparr>"

subsection \<open>The handlers\<close>

definition of_user :: "uuid \<Rightarrow> db \<Rightarrow> notification list" where
  "of_user user d = filter (\<lambda>n. n_user_id n = user) (notifications d)"

definition list_window :: "i64 \<Rightarrow> i64 \<Rightarrow> 'a list \<Rightarrow> 'a list" where
  "list_window cap skip xs = take (nat (sint cap)) (drop (nat (sint skip)) xs)"

definition list_notifications :: "uuid \<Rightarrow> i64 option \<Rightarrow> i64 option \<Rightarrow> bool option \<Rightarrow> (world, notification_list_response) io" where
  "list_notifications user limit_param offset_param unread =
    (let cap = (let l = unwrap_or limit_param 50 in if sint l \<le> 100 then l else 100); skip = unwrap_or offset_param 0; unread_only = unwrap_or unread False in
     bnd (internal_err ''Failed to list notifications: ''
       (if sint cap < 0 \<or> sint skip < 0 then sq (query (\<lambda>_. ())) (fail (Database ''LIMIT or OFFSET must not be negative''))
        else query (\<lambda>d. list_window cap skip
          (newest_first (\<lambda>n. Some (n_created_at n)) (filter (\<lambda>n. unread_only \<longrightarrow> \<not> n_read n) (of_user user d)))))) (\<lambda>ns.
     bnd (internal_err ''Failed to get counts: '' (query (\<lambda>d. (length (filter (\<lambda>n. \<not> n_read n) (of_user user d)), length (of_user user d))))) (\<lambda>(unread_count, total_count).
     ret \<lparr>nl_notifications = ns, nl_unread_count = unread_count, nl_total = total_count\<rparr>)))"

definition set_read :: "(notification \<Rightarrow> bool) \<Rightarrow> db \<Rightarrow> db" where
  "set_read p d = d\<lparr>notifications := update_where p (\<lambda>n. n\<lparr>n_read := True\<rparr>) (notifications d)\<rparr>"

definition mark_as_read :: "uuid \<Rightarrow> uuid \<Rightarrow> (world, string) io" where
  "mark_as_read user i =
    (let p = (\<lambda>n. n_id n = i \<and> n_user_id n = user) in
     bnd (internal_err ''Failed to mark as read: '' (exec_count (\<lambda>d. length (filter p (notifications d))) (set_read p))) (\<lambda>rows.
     if rows = 0 then fail (NotFound ''Notification not found'') else ret ''Notification marked as read''))"

definition mark_all_as_read :: "uuid \<Rightarrow> (world, string) io" where
  "mark_all_as_read user =
    (let p = (\<lambda>n. n_user_id n = user \<and> \<not> n_read n) in
     bnd (internal_err ''Failed to mark all as read: '' (exec_count (\<lambda>d. length (filter p (notifications d))) (set_read p))) (\<lambda>rows.
     ret (show_nat rows @ '' notifications marked as read'')))"

text \<open>A row with the defaults of the table.\<close>

definition default_preferences :: "uuid \<Rightarrow> time \<Rightarrow> notification_preferences" where
  "default_preferences user now =
    \<lparr> np_user_id = user, np_order_filled = True, np_order_matched = True, np_conditional_triggered = True, np_recurring_executed = True,
      np_price_alerts = True, np_escrow_events = True, np_system_announcements = True, np_email_enabled = False, np_push_enabled = True,
      np_updated_at = now \<rparr>"

definition preferences_fit :: "uuid \<Rightarrow> db \<Rightarrow> bool" where
  "preferences_fit user d \<longleftrightarrow> users d user \<noteq> None \<and> find_row np_user_id user (preferences d) = None"

definition get_preferences :: "uuid \<Rightarrow> (world, notification_preferences) io" where
  "get_preferences user =
    bnd (internal_err ''Failed to get preferences: '' (query (\<lambda>d. find_row np_user_id user (preferences d)))) (\<lambda>found.
    case found of
      Some p \<Rightarrow> ret p
    | None \<Rightarrow>
       bnd get_clock (\<lambda>now.
       let p = default_preferences user now in
       sq (internal_err ''Failed to create preferences: '' (exec_chk (preferences_fit user) (\<lambda>d. d\<lparr>preferences := preferences d @ [p]\<rparr>))) (ret p)))"

definition apply_update :: "update_preferences_request \<Rightarrow> time \<Rightarrow> notification_preferences \<Rightarrow> notification_preferences" where
  "apply_update q now p = p
    \<lparr> np_order_filled := unwrap_or (up_order_filled q) (np_order_filled p), np_order_matched := unwrap_or (up_order_matched q) (np_order_matched p),
      np_conditional_triggered := unwrap_or (up_conditional_triggered q) (np_conditional_triggered p),
      np_recurring_executed := unwrap_or (up_recurring_executed q) (np_recurring_executed p),
      np_price_alerts := unwrap_or (up_price_alerts q) (np_price_alerts p), np_escrow_events := unwrap_or (up_escrow_events q) (np_escrow_events p),
      np_system_announcements := unwrap_or (up_system_announcements q) (np_system_announcements p),
      np_email_enabled := unwrap_or (up_email_enabled q) (np_email_enabled p), np_push_enabled := unwrap_or (up_push_enabled q) (np_push_enabled p),
      np_updated_at := now \<rparr>"

definition upsert_preferences :: "uuid \<Rightarrow> update_preferences_request \<Rightarrow> time \<Rightarrow> db \<Rightarrow> db" where
  "upsert_preferences user q now d = (case find_row np_user_id user (preferences d) of
      None \<Rightarrow> d\<lparr>preferences := preferences d @ [apply_update q now (default_preferences user now)]\<rparr>
    | Some _ \<Rightarrow> d\<lparr>preferences := update_where (\<lambda>p. np_user_id p = user) (apply_update q now) (preferences d)\<rparr>)"

definition update_preferences :: "uuid \<Rightarrow> update_preferences_request \<Rightarrow> (world, notification_preferences) io" where
  "update_preferences user q =
    bnd get_clock (\<lambda>now.
    bnd (internal_err ''Failed to update preferences: ''
      (exec_returning (\<lambda>d. users d user \<noteq> None) (upsert_preferences user q now) (\<lambda>d. find_row np_user_id user (preferences d)))) (\<lambda>r.
    ok_or r (Internal ''Failed to update preferences: no rows returned'')))"

subsection \<open>Sending\<close>

lemma check_preferences_calm:
  "faults w = [] \<Longrightarrow> check_preferences u t w = (Ok (wanted t (find_row np_user_id u (preferences (db w)))), w)"
  by (simp add: check_preferences_def anyhow_err_def io_simps bnd_app map_err_app ret_def)

lemma create_notification_calm:
  assumes "faults w = []" and "notification_fits (new_notification (new_v4 e (uuids w)) (clock w) q) (db w)"
  shows "create_notification e q w = (Ok (new_notification (new_v4 e (uuids w)) (clock w) q),
    w\<lparr>uuids := Suc (uuids w), db := (db w)\<lparr>notifications := notifications (db w) @ [new_notification (new_v4 e (uuids w)) (clock w) q]\<rparr>\<rparr>)"
  using assms by (simp add: create_notification_def anyhow_err_def io_simps bnd_app sq_app map_err_app ret_def Let_def)

text \<open>What the preferences of a user allow.\<close>

text \<open>The table of the switches, and what it means for a notification to leave the process, stated over the stored row.\<close>

definition switches :: "notification_preferences \<Rightarrow> (NotificationType \<times> bool) list" where
  "switches p = [(OrderFilled, np_order_filled p), (OrderMatched, np_order_matched p), (ConditionalTriggered, np_conditional_triggered p),
     (RecurringExecuted, np_recurring_executed p), (PriceAlert, np_price_alerts p), (EscrowReleased, np_escrow_events p), (System, np_system_announcements p)]"

definition allowed :: "dispatcher_config \<Rightarrow> create_notification_request \<Rightarrow> db \<Rightarrow> bool" where
  "allowed cfg q d \<longleftrightarrow> \<not> respect_preferences cfg \<or> (case find_row np_user_id (cn_user_id q) (preferences d) of
      None \<Rightarrow> True | Some p \<Rightarrow> np_push_enabled p \<and> (cn_notification_type q, True) \<in> set (switches p))"

definition mailed :: "env \<Rightarrow> dispatcher_config \<Rightarrow> create_notification_request \<Rightarrow> db \<Rightarrow> bool" where
  "mailed e cfg q d \<longleftrightarrow> allowed cfg q d \<and> mailer e \<noteq> None \<and> (case find_row np_user_id (cn_user_id q) (preferences d) of
      None \<Rightarrow> False | Some p \<Rightarrow> np_email_enabled p \<and> (cn_notification_type q, True) \<in> set (switches p))"

lemma type_enabled_switch: "type_enabled t p \<longleftrightarrow> (t, True) \<in> set (switches p)"
  by (cases t) (auto simp: switches_def)

lemma wanted_spec:
  "allowed cfg q d \<longleftrightarrow> (respect_preferences cfg \<longrightarrow> fst (wanted (cn_notification_type q) (find_row np_user_id (cn_user_id q) (preferences d))))"
  "mailed e cfg q d \<longleftrightarrow> allowed cfg q d \<and> mailer e \<noteq> None
     \<and> snd (wanted (cn_notification_type q) (find_row np_user_id (cn_user_id q) (preferences d)))"
  by (auto simp: allowed_def mailed_def wanted_def type_enabled_switch split: option.splits)

text \<open>
  C37. A notification is always stored, and leaves the process as the preferences say.  When no statement is lost and the row
  meets the constraints, sending stores one unread row for the user, broadcasts it exactly when the preferences are
  not respected or the user wants this kind pushed, and mails it exactly when it is broadcast, there is a
  mail service and the user wants this kind by mail.
\<close>

theorem send_follows_preferences:
  assumes "faults w = []" and "users (db w) (cn_user_id q) = Some r"
    and "notification_fits n (db w)" and "n = new_notification (new_v4 e (uuids w)) (clock w) q"
  shows "\<exists>w'. send e cfg q w = (Ok \<lparr>di_notification = n, di_broadcast = allowed cfg q (db w),
        di_mail = (if mailed e cfg q (db w) then Some (mail_for q r) else None)\<rparr>, w')
     \<and> db w' = (db w)\<lparr>notifications := notifications (db w) @ [n]\<rparr>"
proof -
  have create: "create_notification e q w = (Ok n, w\<lparr>uuids := Suc (uuids w), db := (db w)\<lparr>notifications := notifications (db w) @ [n]\<rparr>\<rparr>)"
    using create_notification_calm [of w e q] assms by simp
  obtain push mail where want: "wanted (cn_notification_type q) (find_row np_user_id (cn_user_id q) (preferences (db w))) = (push, mail)"
    by (cases "wanted (cn_notification_type q) (find_row np_user_id (cn_user_id q) (preferences (db w)))")
  show ?thesis
    using assms(1,2) want create
    by (cases "mailer e") (simp_all add: send_def bnd_app check_preferences_calm anyhow_err_def io_simps map_err_app ret_def wanted_spec)
qed

subsection \<open>The tables over a run\<close>

definition notifications_ok :: "db \<Rightarrow> bool" where
  "notifications_ok d \<longleftrightarrow> distinct (map n_id (notifications d)) \<and> distinct (map np_user_id (preferences d))
     \<and> list_all (\<lambda>n. users d (n_user_id n) \<noteq> None \<and> length (n_title n) \<le> 200) (notifications d)
     \<and> list_all (\<lambda>p. users d (np_user_id p) \<noteq> None) (preferences d)"

text \<open>The requests of one user.\<close>

inductive user_request :: "uuid \<Rightarrow> world \<Rightarrow> world \<Rightarrow> bool" for u :: uuid where
  listing: "list_notifications u l f r w = (out, w') \<Longrightarrow> user_request u w w'"
| reading: "mark_as_read u i w = (out, w') \<Longrightarrow> user_request u w w'"
| reading_all: "mark_all_as_read u w = (out, w') \<Longrightarrow> user_request u w w'"
| getting: "get_preferences u w = (out, w') \<Longrightarrow> user_request u w w'"
| updating: "update_preferences u q w = (out, w') \<Longrightarrow> user_request u w w'"

text \<open>A step of the system: a request, a notification or an announcement.\<close>

inductive notification_step :: "env \<Rightarrow> dispatcher_config \<Rightarrow> world \<Rightarrow> world \<Rightarrow> bool" for e :: env and cfg :: dispatcher_config where
  requesting: "user_request u w w' \<Longrightarrow> notification_step e cfg w w'"
| sending: "send e cfg q w = (out, w') \<Longrightarrow> notification_step e cfg w w'"
| announcing: "send_system_announcement e cfg scan title text_body w = (total_sent, w') \<Longrightarrow> notification_step e cfg w w'"

lemma map_key_update [simp]:
  "map n_id (update_where p (\<lambda>n. n\<lparr>n_read := b\<rparr>) ns) = map n_id ns"
  "map n_user_id (update_where p (\<lambda>n. n\<lparr>n_read := b\<rparr>) ns) = map n_user_id ns"
  "map np_user_id (update_where v (apply_update q now) ps) = map np_user_id ps"
  by (simp_all add: map_update_where_same apply_update_def)

lemma apply_update_user [simp]: "np_user_id (apply_update q now p) = np_user_id p"
  by (simp add: apply_update_def)

lemma find_row_fresh: "find_row key k rs = None \<Longrightarrow> k \<notin> key ` set rs"
  by (auto simp: find_row_def find_None_iff)

lemma set_read_ok: "notifications_ok d \<Longrightarrow> notifications_ok (set_read p d)"
  by (auto simp: notifications_ok_def set_read_def list_all_update_where)

lemma insert_ok: "notifications_ok d \<Longrightarrow> notification_fits n d \<Longrightarrow> notifications_ok (d\<lparr>notifications := notifications d @ [n]\<rparr>)"
  by (auto simp: notifications_ok_def notification_fits_def list_all_iff)

lemma preferences_ok:
  "notifications_ok d \<Longrightarrow> preferences_fit u d \<Longrightarrow> np_user_id p = u \<Longrightarrow> notifications_ok (d\<lparr>preferences := preferences d @ [p]\<rparr>)"
  by (auto simp: notifications_ok_def preferences_fit_def dest!: find_row_fresh)

lemma upsert_ok:
  assumes "notifications_ok d" and "users d u \<noteq> None"
  shows "notifications_ok (upsert_preferences u q now d)"
proof (cases "find_row np_user_id u (preferences d)")
  case None
  with assms preferences_ok [of d u "apply_update q now (default_preferences u now)"] show ?thesis
    by (simp add: upsert_preferences_def preferences_fit_def default_preferences_def)
next
  case (Some p)
  with assms show ?thesis by (simp add: upsert_preferences_def notifications_ok_def list_all_update_where)
qed

lemma request_keeps_ok: "user_request u w w' \<Longrightarrow> notifications_ok (db w) \<Longrightarrow> notifications_ok (db w')"
proof (induction rule: user_request.induct)
  case (listing l f r w out w')
  have "keeps_db notifications_ok (list_notifications u l f r)" unfolding list_notifications_def Let_def by (intro keeps_db_intros)
  then show ?case using listing by (rule keeps_dbE)
next
  case (reading i w out w')
  have "keeps_db notifications_ok (mark_as_read u i)" unfolding mark_as_read_def Let_def by (intro keeps_db_intros set_read_ok)
  then show ?case using reading by (rule keeps_dbE)
next
  case (reading_all w out w')
  have "keeps_db notifications_ok (mark_all_as_read u)" unfolding mark_all_as_read_def Let_def by (intro keeps_db_intros set_read_ok)
  then show ?case using reading_all by (rule keeps_dbE)
next
  case (getting w out w')
  have "keeps_db notifications_ok (get_preferences u)" unfolding get_preferences_def Let_def
    by (intro keeps_db_intros preferences_ok) (auto simp: default_preferences_def)
  then show ?case using getting by (rule keeps_dbE)
next
  case (updating q w out w')
  have "keeps_db notifications_ok (update_preferences u q)" unfolding update_preferences_def
    by (intro keeps_db_intros upsert_ok)
  then show ?case using updating by (rule keeps_dbE)
qed

lemma send_keeps:
  assumes "\<And>d n. I d \<Longrightarrow> notification_fits n d \<Longrightarrow> I (d\<lparr>notifications := notifications d @ [n]\<rparr>)"
  shows "keeps_db I (send e cfg q)" "keeps_db I (send_bulk e cfg qs)" "keeps_db I (send_system_announcement e cfg scan title text_body)"
proof -
  have create: "keeps_db I (create_notification e q)" for q
    unfolding create_notification_def anyhow_err_def Let_def by (intro keeps_db_intros assms)
  have one: "keeps_db I (send e cfg q)" for q
    unfolding send_def check_preferences_def anyhow_err_def by (intro keeps_db_intros create)
  have many: "keeps_db I (send_bulk e cfg qs)" for qs
    by (induction qs) (simp only: send_bulk.simps, intro keeps_db_intros one, assumption?)+
  show "keeps_db I (send e cfg q)" "keeps_db I (send_bulk e cfg qs)" by (fact one many)+
  show "keeps_db I (send_system_announcement e cfg scan title text_body)"
    unfolding send_system_announcement_def anyhow_err_def by (intro keeps_db_intros many)
qed

text \<open>
  The notification tables stay well formed.  Whatever requests, notifications and announcements are served, in any
  order and with any lost statement, identifiers stay unique, every user has at most one row of preferences, and
  every row belongs to a user.
\<close>

theorem notifications_stay_ok:
  assumes "(notification_step e cfg)\<^sup>*\<^sup>* w w'" and "notifications_ok (db w)"
  shows "notifications_ok (db w')"
  using assms
proof (induction rule: rtranclp_induct)
  case (step w1 w2)
  from step.hyps(2) step.IH [OF step.prems] show ?case
    by cases (blast intro: request_keeps_ok keeps_dbE [OF send_keeps(1)] keeps_dbE [OF send_keeps(3)] insert_ok)+
qed

subsection \<open>Isolation\<close>

definition view_of :: "uuid \<Rightarrow> db \<Rightarrow> notification list \<times> notification_preferences list" where
  "view_of v d = (of_user v d, filter (\<lambda>p. np_user_id p = v) (preferences d))"

lemma filter_update_other: "(\<And>x. p x \<Longrightarrow> \<not> Q x \<and> \<not> Q (f x)) \<Longrightarrow> filter Q (update_where p f xs) = filter Q xs"
  by (induction xs) auto

lemma request_keeps_view:
  assumes "user_request u w w'" and "u \<noteq> v"
  shows "view_of v (db w') = view_of v (db w)"
proof -
  define I where "I = (\<lambda>d. view_of v d = view_of v (db w))"
  have read: "I d \<Longrightarrow> I (set_read p d)" if "\<And>n. p n \<Longrightarrow> n_user_id n = u" for d p
    using that assms(2) by (auto simp: I_def view_of_def of_user_def set_read_def filter_update_other)
  have new: "I d \<Longrightarrow> I (d\<lparr>preferences := preferences d @ [p]\<rparr>)" if "np_user_id p = u" for d p
    using that assms(2) by (auto simp: I_def view_of_def of_user_def)
  have upsert: "I d \<Longrightarrow> I (upsert_preferences u q now d)" for d q now
    using assms(2) new [of "apply_update q now (default_preferences u now)" d]
    by (auto simp: upsert_preferences_def default_preferences_def I_def view_of_def of_user_def filter_update_other split: option.split)
  have "I (db w')" using assms(1)
  proof cases
    case (listing l f r out)
    have "keeps_db I (list_notifications u l f r)" unfolding list_notifications_def Let_def by (intro keeps_db_intros)
    then show ?thesis using listing by (rule keeps_dbE) (simp add: I_def)
  next
    case (reading i out)
    have "keeps_db I (mark_as_read u i)" unfolding mark_as_read_def Let_def by (intro keeps_db_intros read) auto
    then show ?thesis using reading by (rule keeps_dbE) (simp add: I_def)
  next
    case (reading_all out)
    have "keeps_db I (mark_all_as_read u)" unfolding mark_all_as_read_def Let_def by (intro keeps_db_intros read) auto
    then show ?thesis using reading_all by (rule keeps_dbE) (simp add: I_def)
  next
    case (getting out)
    have "keeps_db I (get_preferences u)" unfolding get_preferences_def Let_def
      by (intro keeps_db_intros new) (simp_all add: default_preferences_def)
    then show ?thesis using getting by (rule keeps_dbE) (simp add: I_def)
  next
    case (updating q out)
    have "keeps_db I (update_preferences u q)" unfolding update_preferences_def by (intro keeps_db_intros upsert)
    then show ?thesis using updating by (rule keeps_dbE) (simp add: I_def)
  qed
  then show ?thesis by (simp add: I_def)
qed

text \<open>
  C36. Notifications are private.  No sequence of requests of other users changes a user's notifications, what of them
  is read, or the user's preferences.
\<close>

theorem notifications_private:
  assumes "(\<lambda>w1 w2. \<exists>u. u \<noteq> v \<and> user_request u w1 w2)\<^sup>*\<^sup>* w w'"
  shows "of_user v (db w') = of_user v (db w) \<and> find_row np_user_id v (preferences (db w')) = find_row np_user_id v (preferences (db w))"
proof -
  have "view_of v (db w') = view_of v (db w)"
    using assms by (induction rule: rtranclp_induct) (auto simp: request_keeps_view)
  moreover have "find_row np_user_id v ps = (case filter (\<lambda>p. np_user_id p = v) ps of [] \<Rightarrow> None | p # _ \<Rightarrow> Some p)" for ps
    by (induction ps) auto
  ultimately show ?thesis unfolding view_of_def by (metis prod.inject)
qed

subsection \<open>Preferences\<close>

lemma find_row_upsert:
  "find_row np_user_id u (preferences (upsert_preferences u q now d)) =
     Some (apply_update q now (unwrap_or (find_row np_user_id u (preferences d)) (default_preferences u now)))"
  by (cases "find_row np_user_id u (preferences d)")
    (auto simp: upsert_preferences_def find_row_append find_row_update_same default_preferences_def unwrap_or_def)

text \<open>
  Preferences round trip.  An update that returns answers with the requested value of every setting that the request
  names and the stored (or default) one of every other, and asking for the preferences then gives the same
  answer and changes nothing.
\<close>

theorem preferences_roundtrip:
  assumes "update_preferences u q w = (Ok p, w')"
  shows "p = apply_update q (clock w) (unwrap_or (find_row np_user_id u (preferences (db w))) (default_preferences u (clock w)))
    \<and> (faulty w' = None \<longrightarrow> get_preferences u w' = (Ok p, tick w'))"
proof -
  from assms have w': "w' = (tick w)\<lparr>db := upsert_preferences u q (clock w) (db w)\<rparr>"
      "find_row np_user_id u (preferences (upsert_preferences u q (clock w) (db w))) = Some p"
    by (auto simp: update_preferences_def get_clock_app statement_Ok ok_or_def ret_def fail_def elim!: bnd_OkE split: option.splits)
  moreover from this have "faulty w' = None \<Longrightarrow> get_preferences u w' = (Ok p, tick w')"
    by (simp add: get_preferences_def internal_err_app query_def bnd_app ret_def)
  ultimately show ?thesis by (simp add: find_row_upsert)
qed

subsection \<open>Witnesses\<close>

definition notify_db :: db where
  "notify_db = empty_db\<lparr>users := [1 \<mapsto> sample_user 0 0 0, 2 \<mapsto> sample_user 0 0 0]\<rparr>"

definition sample_notice :: create_notification_request where
  "sample_notice = announcement ''Maintenance'' ''Tonight'' 1"

definition no_update :: update_preferences_request where
  "no_update = \<lparr>up_order_filled = None, up_order_matched = None, up_conditional_triggered = None, up_recurring_executed = None, up_price_alerts = None,
     up_escrow_events = None, up_system_announcements = None, up_email_enabled = Some True, up_push_enabled = Some False\<rparr>"

theorem send_follows_preferences_witness:
  "\<exists>w'. send std_env dispatcher_default sample_notice (calm_world notify_db)
      = (Ok \<lparr>di_notification = new_notification 1000 1000 sample_notice, di_broadcast = True, di_mail = None\<rparr>, w')"
  using send_follows_preferences [of "calm_world notify_db" sample_notice "sample_user 0 0 0" "new_notification 1000 1000 sample_notice" std_env dispatcher_default]
  by (auto simp: notify_db_def sample_notice_def announcement_def notification_fits_def new_notification_def allowed_def mailed_def wanted_def)

theorem notifications_stay_ok_witness:
  "\<exists>out w'. send std_env dispatcher_default sample_notice (calm_world notify_db) = (out, w') \<and> notifications_ok (db w')"
proof -
  obtain out w' where run: "send std_env dispatcher_default sample_notice (calm_world notify_db) = (out, w')"
    by (cases "send std_env dispatcher_default sample_notice (calm_world notify_db)")
  then show ?thesis
    using notifications_stay_ok [OF r_into_rtranclp, OF notification_step.sending [OF run]] by (auto simp: notifications_ok_def notify_db_def)
qed

lemma update_sample:
  "update_preferences 2 no_update (calm_world notify_db) = (Ok (apply_update no_update 1000 (default_preferences 2 1000)),
     (calm_world notify_db)\<lparr>db := notify_db\<lparr>preferences := [apply_update no_update 1000 (default_preferences 2 1000)]\<rparr>\<rparr>)"
  by (simp add: update_preferences_def io_simps bnd_app upsert_preferences_def notify_db_def default_preferences_def ret_def)

theorem notifications_private_witness:
  "\<exists>out w'. update_preferences 2 no_update (calm_world notify_db) = (out, w') \<and> preferences (db w') \<noteq> []
     \<and> find_row np_user_id 1 (preferences (db w')) = None"
proof -
  have "\<exists>u. u \<noteq> 1 \<and> user_request u (calm_world notify_db) ((calm_world notify_db)\<lparr>db := notify_db\<lparr>preferences := [apply_update no_update 1000 (default_preferences 2 1000)]\<rparr>\<rparr>)"
    by (rule exI [of _ 2]) (simp add: user_request.updating [OF update_sample])
  from notifications_private [OF r_into_rtranclp, of 1, OF this] show ?thesis by (simp add: update_sample) (simp add: notify_db_def)
qed

theorem preferences_roundtrip_witness:
  "\<exists>w'. update_preferences 2 no_update (calm_world notify_db) = (Ok (apply_update no_update 1000 (default_preferences 2 1000)), w')
     \<and> get_preferences 2 w' = (Ok (apply_update no_update 1000 (default_preferences 2 1000)), tick w')"
proof -
  from conjunct2 [OF preferences_roundtrip [OF update_sample]]
  have "get_preferences 2 ((calm_world notify_db)\<lparr>db := notify_db\<lparr>preferences := [apply_update no_update 1000 (default_preferences 2 1000)]\<rparr>\<rparr>)
    = (Ok (apply_update no_update 1000 (default_preferences 2 1000)),
       tick ((calm_world notify_db)\<lparr>db := notify_db\<lparr>preferences := [apply_update no_update 1000 (default_preferences 2 1000)]\<rparr>\<rparr>))" by simp
  with update_sample show ?thesis by blast
qed

text \<open>
  Switching the push channel off also silences the mail: no kind of notification is mailed to a user whose
  preferences ask for mail and not for push.
\<close>

theorem push_off_silences_mail:
  "find_row np_user_id (cn_user_id q) (preferences d) = Some p \<Longrightarrow> \<not> np_push_enabled p \<Longrightarrow> \<not> mailed e dispatcher_default q d"
  by (simp add: mailed_def allowed_def wanted_def dispatcher_default_def)

end
