(* ===== verification/Transactions.thy ===== *)
theory Transactions
  imports Settlement Floats
begin

text \<open>
  Blockchain transactions: the types (\<open>src/src/models/transaction.rs\<close>), their validation before submission
  (\<open>src/src/services/validation/transaction_validation_service.rs\<close>), the transaction service with its retries, queue and
  analytics (\<open>src/src/services/transaction/service.rs\<close>) and the counters of pending transactions
  (\<open>src/src/services/transaction/metrics.rs\<close>).

  The services that validation asks have no implementation in the repository: they are the fields of a record.  The
  hash of the standard library and the text of numbers with a fixed number of digits are parameters; the order in
  which a hash map lists its keys is one, too.
\<close>

subsection \<open>Types and their text\<close>

datatype TransactionStatus = TxPending | TxSubmitted | TxConfirmed | TxFailed | TxSettled | TxProcessing

datatype TransactionType = EnergyTrade | TokenMint | TokenTransfer | GovernanceVote | OracleUpdate | RegistryUpdate | Swap

definition transaction_status_from :: "string \<Rightarrow> TransactionStatus option" where
  "transaction_status_from text = (let s = to_lower text in
     if s = ''pending'' then Some TxPending else if s = ''submitted'' then Some TxSubmitted
     else if s = ''confirmed'' then Some TxConfirmed else if s = ''failed'' then Some TxFailed
     else if s = ''settled'' then Some TxSettled else if s = ''processing'' then Some TxProcessing else None)"

fun transaction_status_fmt :: "TransactionStatus \<Rightarrow> string" where
  "transaction_status_fmt TxPending = ''pending''"
| "transaction_status_fmt TxSubmitted = ''submitted''"
| "transaction_status_fmt TxConfirmed = ''confirmed''"
| "transaction_status_fmt TxFailed = ''failed''"
| "transaction_status_fmt TxSettled = ''settled''"
| "transaction_status_fmt TxProcessing = ''processing''"

definition transaction_type_from :: "string \<Rightarrow> TransactionType option" where
  "transaction_type_from text = (let s = to_lower text in
     if s = ''energy_trade'' then Some EnergyTrade else if s = ''token_mint'' then Some TokenMint
     else if s = ''token_transfer'' then Some TokenTransfer else if s = ''governance_vote'' then Some GovernanceVote
     else if s = ''oracle_update'' then Some OracleUpdate else if s = ''registry_update'' then Some RegistryUpdate
     else if s = ''swap'' then Some Swap else None)"

fun transaction_type_str :: "TransactionType \<Rightarrow> string" where
  "transaction_type_str EnergyTrade = ''energy_trade''"
| "transaction_type_str TokenMint = ''token_mint''"
| "transaction_type_str TokenTransfer = ''token_transfer''"
| "transaction_type_str GovernanceVote = ''governance_vote''"
| "transaction_type_str OracleUpdate = ''oracle_update''"
| "transaction_type_str RegistryUpdate = ''registry_update''"
| "transaction_type_str Swap = ''swap''"

text \<open>A missing JSON value (\<open>null\<close>) is \<open>None\<close>.\<close>

datatype TransactionPayload =
    PEnergyTrade (pe_market_pubkey: string) (pe_energy_amount: u64) (pe_price_per_kwh: u64) (pe_order_type: string) (pe_erc_certificate_id: "string option")
  | PTokenMint (pm_recipient: string) (pm_amount: u64)
  | PTokenTransfer (pt_from: string) (pt_to: string) (pt_amount: u64) (pt_token_mint: string)
  | PGovernanceVote (pg_proposal_id: u64) (pg_vote: bool)
  | POracleUpdate (po_price_feed_id: string) (po_price: u64) (po_confidence: u64)
  | PRegistryUpdate (pr_participant_id: string) (pr_update_data: "string option")

record create_transaction_request =
  ct_user_id :: uuid
  ct_transaction_type :: TransactionType
  ct_payload :: TransactionPayload
  ct_skip_prevalidation :: bool

record tx_validation_error =
  tv_code :: string
  tv_message :: string
  tv_field :: "string option"

definition tx_error :: "string \<Rightarrow> string \<Rightarrow> tx_validation_error" where
  "tx_error code text = \<lparr>tv_code = code, tv_message = text, tv_field = None\<rparr>"

definition tx_error_field :: "string \<Rightarrow> string \<Rightarrow> string \<Rightarrow> tx_validation_error" where
  "tx_error_field code text field = \<lparr>tv_code = code, tv_message = text, tv_field = Some field\<rparr>"

subsection \<open>Validation\<close>

record erc_info =
  ei_certificate_id :: string
  ei_energy_amount :: u64
  ei_validated_for_trading :: bool
  ei_expires_at :: "time option"

record market_info =
  mi_market_pubkey :: string
  mi_active :: bool
  mi_market_fee_bps :: "32 word"

record validation_services =
  get_erc_certificate :: "string \<Rightarrow> api_error + erc_info"
  get_market :: "string \<Rightarrow> api_error + market_info"
  get_user_balance :: "string \<Rightarrow> string \<Rightarrow> api_error + u64"
  is_user_eligible_to_vote :: "uuid \<Rightarrow> u64 \<Rightarrow> api_error + bool"
  has_oracle_authority :: "uuid \<Rightarrow> api_error + bool"
  has_registry_authority :: "uuid \<Rightarrow> string \<Rightarrow> api_error + bool"

text \<open>\<open>answer.map_err(...)?\<close> of a service.\<close>

definition ask_service :: "api_error + 'a \<Rightarrow> string \<Rightarrow> string \<Rightarrow> ('a \<Rightarrow> tx_validation_error + unit) \<Rightarrow> tx_validation_error + unit" where
  "ask_service answer code text k = (case answer of Inl er \<Rightarrow> Inl (tx_error code (text @ api_display er)) | Inr x \<Rightarrow> k x)"

definition check_certificate :: "time \<Rightarrow> u64 \<Rightarrow> erc_info \<Rightarrow> tx_validation_error + unit" where
  "check_certificate now amount cert =
    (if \<not> ei_validated_for_trading cert then Inl (tx_error ''ERC_NOT_VALIDATED'' ''ERC certificate is not validated for trading'')
     else if (case ei_expires_at cert of Some t \<Rightarrow> t < now | None \<Rightarrow> False) then Inl (tx_error ''ERC_EXPIRED'' ''ERC certificate has expired'')
     else if amount > ei_energy_amount cert then Inl (tx_error ''EXCEEDS_ERC_AMOUNT'' ''Energy amount exceeds ERC certificate amount'')
     else Inr ())"

definition validate_energy_trade :: "validation_services \<Rightarrow> time \<Rightarrow> string \<Rightarrow> u64 \<Rightarrow> u64 \<Rightarrow> string option \<Rightarrow> tx_validation_error + unit" where
  "validate_energy_trade sv now market amount price cert_id =
    (if amount = 0 then Inl (tx_error ''INVALID_ENERGY_AMOUNT'' ''Energy amount must be greater than 0'')
     else if price = 0 then Inl (tx_error ''INVALID_PRICE'' ''Price per kWh must be greater than 0'')
     else ask_service (get_market sv market) ''MARKET_ERROR'' ''Failed to fetch market: '' (\<lambda>m.
       if \<not> mi_active m then Inl (tx_error ''MARKET_INACTIVE'' ''Market is not active for trading'')
       else (case cert_id of
           Some i \<Rightarrow> ask_service (get_erc_certificate sv i) ''ERC_ERROR'' ''Failed to fetch ERC certificate: '' (check_certificate now amount)
         | None \<Rightarrow> Inr ())))"

definition validate_token_mint :: "uuid \<Rightarrow> string \<Rightarrow> u64 \<Rightarrow> tx_validation_error + unit" where
  "validate_token_mint user recipient amount =
    (if recipient = [] then Inl (tx_error ''INVALID_RECIPIENT'' ''Recipient address cannot be empty'')
     else if amount = 0 then Inl (tx_error ''INVALID_AMOUNT'' ''Token amount must be greater than 0'')
     else if length (uuid_str user) = 0 then Inl (tx_error ''UNAUTHORIZED'' ''User not authorized to mint tokens'')
     else Inr ())"

definition validate_token_transfer :: "validation_services \<Rightarrow> string \<Rightarrow> string \<Rightarrow> u64 \<Rightarrow> string \<Rightarrow> tx_validation_error + unit" where
  "validate_token_transfer sv sender receiver amount mint =
    (if sender = [] then Inl (tx_error_field ''INVALID_SENDER'' ''Sender address cannot be empty'' ''from'')
     else if receiver = [] then Inl (tx_error_field ''INVALID_RECIPIENT'' ''Recipient address cannot be empty'' ''to'')
     else if sender = receiver then Inl (tx_error ''SELF_TRANSFER'' ''Cannot transfer tokens to the same address'')
     else if amount = 0 then Inl (tx_error ''INVALID_AMOUNT'' ''Token amount must be greater than 0'')
     else ask_service (get_user_balance sv sender mint) ''BALANCE_ERROR'' ''Failed to fetch balance: '' (\<lambda>b.
       if b < amount then Inl (tx_error ''INSUFFICIENT_BALANCE'' ''Insufficient token balance for transfer'') else Inr ()))"

definition validate_governance_vote :: "validation_services \<Rightarrow> uuid \<Rightarrow> u64 \<Rightarrow> tx_validation_error + unit" where
  "validate_governance_vote sv user proposal =
    (if proposal = 0 then Inl (tx_error ''INVALID_PROPOSAL_ID'' ''Proposal ID must be greater than 0'')
     else ask_service (is_user_eligible_to_vote sv user proposal) ''VOTING_ERROR'' ''Failed to check voting eligibility: '' (\<lambda>eligible.
       if \<not> eligible then Inl (tx_error ''NOT_ELIGIBLE_TO_VOTE'' ''User is not eligible to vote on this proposal'') else Inr ()))"

definition validate_oracle_update :: "validation_services \<Rightarrow> uuid \<Rightarrow> string \<Rightarrow> u64 \<Rightarrow> u64 \<Rightarrow> tx_validation_error + unit" where
  "validate_oracle_update sv user feed price confidence =
    (if feed = [] then Inl (tx_error ''INVALID_PRICE_FEED_ID'' ''Price feed ID cannot be empty'')
     else if price = 0 then Inl (tx_error ''INVALID_PRICE'' ''Price must be greater than 0'')
     else if confidence > 100 then Inl (tx_error ''INVALID_CONFIDENCE'' ''Confidence must be between 0 and 100'')
     else ask_service (has_oracle_authority sv user) ''ORACLE_ERROR'' ''Failed to check oracle authority: '' (\<lambda>ok.
       if \<not> ok then Inl (tx_error ''UNAUTHORIZED_ORACLE'' ''User does not have oracle authority'') else Inr ()))"

definition validate_registry_update :: "validation_services \<Rightarrow> uuid \<Rightarrow> string \<Rightarrow> string option \<Rightarrow> tx_validation_error + unit" where
  "validate_registry_update sv user participant update_data =
    (if participant = [] then Inl (tx_error ''INVALID_PARTICIPANT_ID'' ''Participant ID cannot be empty'')
     else if update_data = None then Inl (tx_error ''INVALID_UPDATE_DATA'' ''Update data cannot be null'')
     else ask_service (has_registry_authority sv user participant) ''REGISTRY_ERROR'' ''Failed to check registry authority: '' (\<lambda>ok.
       if \<not> ok then Inl (tx_error ''UNAUTHORIZED_REGISTRY'' ''User does not have authority to update this participant'') else Inr ()))"

definition validate_transaction :: "validation_services \<Rightarrow> time \<Rightarrow> create_transaction_request \<Rightarrow> tx_validation_error + unit" where
  "validate_transaction sv now q =
    (if ct_skip_prevalidation q then Inr ()
     else (case ct_payload q of
         PEnergyTrade market amount price order_type cert_id \<Rightarrow> validate_energy_trade sv now market amount price cert_id
       | PTokenMint recipient amount \<Rightarrow> validate_token_mint (ct_user_id q) recipient amount
       | PTokenTransfer sender receiver amount mint \<Rightarrow> validate_token_transfer sv sender receiver amount mint
       | PGovernanceVote proposal vote \<Rightarrow> validate_governance_vote sv (ct_user_id q) proposal
       | POracleUpdate feed price confidence \<Rightarrow> validate_oracle_update sv (ct_user_id q) feed price confidence
       | PRegistryUpdate participant update_data \<Rightarrow> validate_registry_update sv (ct_user_id q) participant update_data))"

subsection \<open>The transaction service\<close>

record submission_result =
  sr_signature :: string
  sr_status :: string
  sr_block_time :: time
  sr_confirmations :: u64

record service_status =
  ss_signature :: string
  ss_status :: string
  ss_block_time :: "time option"
  ss_confirmations :: u64

record trading_result =
  tt_signature :: string
  tt_buyer :: string
  tt_seller :: string
  tt_amount :: u64
  tt_price :: u64
  tt_status :: string
  tt_timestamp :: time

record mint_result =
  mt_signature :: string
  mt_recipient :: string
  mt_amount :: u64
  mt_mint :: string
  mt_status :: string
  mt_timestamp :: time

text \<open>\<open>timestamp_nanos_opt().unwrap_or(0)\<close> and the lower-case hexadecimal text of a number.\<close>

definition timestamp_nanos :: "time \<Rightarrow> int" where
  "timestamp_nanos t = (if - (2 ^ 63) \<le> t \<and> t < 2 ^ 63 then t else 0)"

fun hex_text :: "nat \<Rightarrow> string" where
  "hex_text n = (if n < 16 then [hex_digit n] else hex_text (n div 16) @ [hex_digit (n mod 16)])"

declare hex_text.simps [simp del]

definition generate_mock_signature :: "(int \<Rightarrow> u64) \<Rightarrow> (world, string) io" where
  "generate_mock_signature hash = bnd get_clock (\<lambda>now. ret (''mock_signature_'' @ hex_text (unat (hash (timestamp_nanos now)))))"

definition submit_transaction :: "(int \<Rightarrow> u64) \<Rightarrow> string \<Rightarrow> string option \<Rightarrow> (world, submission_result) io" where
  "submit_transaction hash tx payer =
    bnd (generate_mock_signature hash) (\<lambda>signature. bnd get_clock (\<lambda>now.
    ret \<lparr>sr_signature = signature, sr_status = ''confirmed'', sr_block_time = now, sr_confirmations = 1\<rparr>))"

definition get_transaction_status :: "string \<Rightarrow> (world, service_status) io" where
  "get_transaction_status signature =
    (if length signature < 10 then fail (BadRequest ''Invalid signature format'')
     else bnd get_clock (\<lambda>now. ret \<lparr>ss_signature = signature, ss_status = ''success'', ss_block_time = Some now, ss_confirmations = 1\<rparr>))"

definition create_trading_transaction :: "(int \<Rightarrow> u64) \<Rightarrow> string \<Rightarrow> string \<Rightarrow> u64 \<Rightarrow> u64 \<Rightarrow> (world, trading_result) io" where
  "create_trading_transaction hash buyer seller amount price =
    bnd (generate_mock_signature hash) (\<lambda>signature. bnd get_clock (\<lambda>now.
    ret \<lparr>tt_signature = signature, tt_buyer = buyer, tt_seller = seller, tt_amount = amount, tt_price = price,
         tt_status = ''confirmed'', tt_timestamp = now\<rparr>))"

definition create_mint_transaction :: "(int \<Rightarrow> u64) \<Rightarrow> string \<Rightarrow> u64 \<Rightarrow> (world, mint_result) io" where
  "create_mint_transaction hash recipient amount =
    bnd (generate_mock_signature hash) (\<lambda>signature. bnd get_clock (\<lambda>now.
    ret \<lparr>mt_signature = signature, mt_recipient = recipient, mt_amount = amount, mt_mint = ''energy_token_mock'',
         mt_status = ''confirmed'', mt_timestamp = now\<rparr>))"

definition retry_transaction :: "(int \<Rightarrow> u64) \<Rightarrow> string \<Rightarrow> (world, submission_result) io" where
  "retry_transaction hash signature =
    bnd (get_transaction_status signature) (\<lambda>status.
    if ss_status status \<noteq> ''failed'' then fail (BadRequest ''Transaction is not in failed state'')
    else bnd (generate_mock_signature hash) (\<lambda>new_signature. bnd get_clock (\<lambda>now.
      ret \<lparr>sr_signature = new_signature, sr_status = ''confirmed'', sr_block_time = now, sr_confirmations = 1\<rparr>)))"

text \<open>The monitor polls until the status is not pending or the time is up; \<open>None\<close> is a loop that does not end.\<close>

definition sleep_ms :: "nat \<Rightarrow> (world, unit) io" where
  "sleep_ms ms = (\<lambda>w. (Ok (), w\<lparr>clock := clock w + int ms * 1000000\<rparr>))"

partial_function (option) monitor_loop :: "string \<Rightarrow> int \<Rightarrow> time \<Rightarrow> world \<Rightarrow> (service_status outcome \<times> world) option" where
  "monitor_loop signature max_wait start w =
    (case get_transaction_status signature w of
       (Ok status, w1) \<Rightarrow>
         if ss_status status \<noteq> ''pending'' then Some (Ok status, w1)
         else if clock w1 - start > max_wait then Some (Err (Internal ''Transaction monitoring timeout''), w1)
         else monitor_loop signature max_wait start (snd (sleep_ms 2000 w1))
     | (Err er, w1) \<Rightarrow> Some (Err er, w1)
     | (Panic, w1) \<Rightarrow> Some (Panic, w1))"

declare monitor_loop.simps [code]

definition monitor_transaction :: "string \<Rightarrow> int \<Rightarrow> world \<Rightarrow> (service_status outcome \<times> world) option" where
  "monitor_transaction signature max_wait w = monitor_loop signature max_wait (clock w) w"

record batch_transaction =
  bt_transaction :: string
  bt_payer :: "string option"
  bt_priority :: "8 word"

fun process_transaction_batch :: "(int \<Rightarrow> u64) \<Rightarrow> batch_transaction list \<Rightarrow> (world, submission_result list) io" where
  "process_transaction_batch hash [] = ret []"
| "process_transaction_batch hash (b # bs) =
    bnd (attempt (submit_transaction hash (bt_transaction b) (bt_payer b))) (\<lambda>r.
    bnd (process_transaction_batch hash bs) (\<lambda>rest. ret (case r of Inr x \<Rightarrow> x # rest | Inl _ \<Rightarrow> rest)))"

subsection \<open>Retries\<close>

record retry_config =
  rc_max_retries :: "32 word"
  rc_retry_delay :: nat
  rc_backoff_multiplier :: rat

definition retry_default :: retry_config where
  "retry_default = \<lparr>rc_max_retries = 3, rc_retry_delay = 5000, rc_backoff_multiplier = 2\<rparr>"

text \<open>
  Rounding to single precision (24 significant bits, ties to even), exact but for the subnormal and the overflow range,
  where the conversion to \<open>u64\<close> gives 0 and the greatest number as it does without the bounds.
\<close>

definition f32 :: "rat \<Rightarrow> rat" where
  "f32 x = (if x = 0 then 0 else
     let y = \<bar>x\<bar>; u = 2 powi (f64_exponent y - 23); r = of_int (round_half_even (y / u)) * u in if x < 0 then - r else r)"

definition as_u64 :: "rat \<Rightarrow> nat" where
  "as_u64 x = nat (min (2 ^ 64 - 1) (max 0 \<lfloor>x\<rfloor>))"

definition next_delay :: "retry_config \<Rightarrow> nat \<Rightarrow> nat" where
  "next_delay cfg delay = as_u64 (f32 (f32 (of_nat delay) * rc_backoff_multiplier cfg))"

fun retry_loop :: "(world, 'a) io \<Rightarrow> retry_config \<Rightarrow> nat \<Rightarrow> nat \<Rightarrow> api_error option \<Rightarrow> (world, 'a) io" where
  "retry_loop submit cfg 0 delay last_error = fail (unwrap_or last_error (Internal ''All retry attempts failed''))"
| "retry_loop submit cfg (Suc n) delay last_error =
    bnd (attempt submit) (\<lambda>r. case r of
      Inr x \<Rightarrow> ret x
    | Inl er \<Rightarrow>
        (if n = 0 then retry_loop submit cfg n delay (Some (Internal (api_display er)))
         else sq (sleep_ms delay) (retry_loop submit cfg n (next_delay cfg delay) (Some (Internal (api_display er))))))"

definition submit_with_retry :: "(int \<Rightarrow> u64) \<Rightarrow> retry_config \<Rightarrow> string \<Rightarrow> string option \<Rightarrow> (world, submission_result) io" where
  "submit_with_retry hash cfg tx payer = retry_loop (submit_transaction hash tx payer) cfg (unat (rc_max_retries cfg)) (rc_retry_delay cfg) None"

subsection \<open>The queue of transactions\<close>

record queued_transaction =
  qt_id :: string
  qt_transaction :: string
  qt_priority :: "8 word"
  qt_created_at :: time
  qt_retry_count :: "32 word"

text \<open>The hash map is the list of its values, with distinct keys.\<close>

record transaction_queue =
  pending_transactions :: "queued_transaction list"
  max_queue_size :: nat

definition queue_new :: "nat \<Rightarrow> transaction_queue" where
  "queue_new n = \<lparr>pending_transactions = [], max_queue_size = n\<rparr>"

definition add_transaction :: "queued_transaction \<Rightarrow> transaction_queue \<Rightarrow> api_error + transaction_queue" where
  "add_transaction t q =
    (if max_queue_size q \<le> length (pending_transactions q) then Inl (Internal ''Transaction queue is full'')
     else Inr (q\<lparr>pending_transactions := t # filter (\<lambda>x. qt_id x \<noteq> qt_id t) (pending_transactions q)\<rparr>))"

definition remove_transaction :: "string \<Rightarrow> transaction_queue \<Rightarrow> queued_transaction option \<times> transaction_queue" where
  "remove_transaction i q = (find_row qt_id i (pending_transactions q), q\<lparr>pending_transactions := filter (\<lambda>x. qt_id x \<noteq> i) (pending_transactions q)\<rparr>)"

definition get_transaction :: "string \<Rightarrow> transaction_queue \<Rightarrow> queued_transaction option" where
  "get_transaction i q = find_row qt_id i (pending_transactions q)"

definition get_pending_count :: "transaction_queue \<Rightarrow> nat" where
  "get_pending_count q = length (pending_transactions q)"

definition get_high_priority_transactions :: "transaction_queue \<Rightarrow> queued_transaction list" where
  "get_high_priority_transactions q = filter (\<lambda>t. 2 \<le> qt_priority t) (pending_transactions q)"

subsection \<open>Analytics and metrics\<close>

record transaction_analytics =
  an_total_submitted :: u64
  an_total_confirmed :: u64
  an_total_failed :: u64
  an_average_ms :: nat

definition analytics_new :: transaction_analytics where
  "analytics_new = \<lparr>an_total_submitted = 0, an_total_confirmed = 0, an_total_failed = 0, an_average_ms = 30000\<rparr>"

definition record_submission :: "transaction_analytics \<Rightarrow> transaction_analytics" where
  "record_submission a = a\<lparr>an_total_submitted := an_total_submitted a + 1\<rparr>"

definition record_confirmation :: "nat \<Rightarrow> transaction_analytics \<Rightarrow> transaction_analytics" where
  "record_confirmation ms a = a\<lparr>an_total_confirmed := an_total_confirmed a + 1, an_average_ms := ((an_average_ms a + ms) div 2) mod 2 ^ 64\<rparr>"

definition record_failure :: "transaction_analytics \<Rightarrow> transaction_analytics" where
  "record_failure a = a\<lparr>an_total_failed := an_total_failed a + 1\<rparr>"

definition get_success_rate :: "transaction_analytics \<Rightarrow> rat" where
  "get_success_rate a = (if an_total_submitted a = 0 then 0 else f64 (f64 (of_nat (unat (an_total_confirmed a))) / f64 (of_nat (unat (an_total_submitted a)))))"

record analytics_summary =
  as_total_submitted :: u64
  as_total_confirmed :: u64
  as_total_failed :: u64
  as_success_rate :: string
  as_average_ms :: nat

definition get_analytics_summary :: "(nat \<Rightarrow> rat \<Rightarrow> string) \<Rightarrow> transaction_analytics \<Rightarrow> analytics_summary" where
  "get_analytics_summary fixed a =
    \<lparr> as_total_submitted = an_total_submitted a, as_total_confirmed = an_total_confirmed a, as_total_failed = an_total_failed a,
      as_success_rate = fixed 2 (f64 (get_success_rate a * 100)) @ ''%'', as_average_ms = an_average_ms a \<rparr>"

text \<open>The process-wide counters by type.\<close>

type_synonym pending_counts = "string \<rightharpoonup> i64"

definition metrics_submission :: "TransactionType \<Rightarrow> pending_counts \<Rightarrow> pending_counts" where
  "metrics_submission t m = m(transaction_type_str t \<mapsto> unwrap_or (m (transaction_type_str t)) 0 + 1)"

definition metrics_confirmation :: "TransactionType \<Rightarrow> pending_counts \<Rightarrow> pending_counts" where
  "metrics_confirmation t m = (case m (transaction_type_str t) of
      Some n \<Rightarrow> if sint n > 0 then m(transaction_type_str t \<mapsto> n - 1) else m
    | None \<Rightarrow> m)"

definition metrics_failure :: "TransactionType \<Rightarrow> pending_counts \<Rightarrow> pending_counts" where
  "metrics_failure t m = (case m (transaction_type_str t) of
      Some n \<Rightarrow> if sint n > 0 then m(transaction_type_str t \<mapsto> n - 1) else m
    | None \<Rightarrow> m)"

definition newline :: string where
  "newline = [char_of (10 :: nat)]"

definition get_metrics :: "string list \<Rightarrow> pending_counts \<Rightarrow> string" where
  "get_metrics keys m =
    ''# HELP gridtokenx_transaction_pending_count Current number of pending transactions'' @ newline
    @ ''# TYPE gridtokenx_transaction_pending_count gauge'' @ newline
    @ concat (map (\<lambda>k. case m k of
        Some n \<Rightarrow> ''gridtokenx_transaction_pending_count{tx_type='' @ [char_of (34 :: nat)] @ k @ [char_of (34 :: nat)] @ ''} '' @ show_int (sint n) @ newline
      | None \<Rightarrow> []) keys)"

subsection \<open>Text of types and statuses\<close>

lemma transaction_status_values:
  "transaction_status_from ''pending'' = Some TxPending" "transaction_status_from ''submitted'' = Some TxSubmitted"
  "transaction_status_from ''confirmed'' = Some TxConfirmed" "transaction_status_from ''failed'' = Some TxFailed"
  "transaction_status_from ''settled'' = Some TxSettled" "transaction_status_from ''processing'' = Some TxProcessing"
  by code_simp+

lemma transaction_type_values:
  "transaction_type_from ''energy_trade'' = Some EnergyTrade" "transaction_type_from ''token_mint'' = Some TokenMint"
  "transaction_type_from ''token_transfer'' = Some TokenTransfer" "transaction_type_from ''governance_vote'' = Some GovernanceVote"
  "transaction_type_from ''oracle_update'' = Some OracleUpdate" "transaction_type_from ''registry_update'' = Some RegistryUpdate"
  "transaction_type_from ''swap'' = Some Swap"
  by code_simp+

interpretation tx_status_text: text_codec transaction_status_fmt "\<lambda>s. unwrap_or (transaction_status_from s) TxPending"
proof
  show "unwrap_or (transaction_status_from (transaction_status_fmt x)) TxPending = x" for x
    by (cases x) (simp_all add: transaction_status_values)
qed

interpretation tx_type_text: text_codec transaction_type_str "\<lambda>s. unwrap_or (transaction_type_from s) Swap"
proof
  show "unwrap_or (transaction_type_from (transaction_type_str x)) Swap = x" for x
    by (cases x) (simp_all add: transaction_type_values)
qed

subsection \<open>What validation accepts\<close>

fun admissible :: "validation_services \<Rightarrow> time \<Rightarrow> uuid \<Rightarrow> TransactionPayload \<Rightarrow> bool" where
  "admissible sv now user (PEnergyTrade market amount price order_type cert_id) \<longleftrightarrow> amount \<noteq> 0 \<and> price \<noteq> 0
     \<and> (\<exists>m. get_market sv market = Inr m \<and> mi_active m)
     \<and> (\<forall>i. cert_id = Some i \<longrightarrow> (\<exists>c. get_erc_certificate sv i = Inr c \<and> ei_validated_for_trading c
           \<and> (\<forall>t. ei_expires_at c = Some t \<longrightarrow> now \<le> t) \<and> amount \<le> ei_energy_amount c))"
| "admissible sv now user (PTokenMint recipient amount) \<longleftrightarrow> recipient \<noteq> [] \<and> amount \<noteq> 0"
| "admissible sv now user (PTokenTransfer sender receiver amount mint) \<longleftrightarrow> sender \<noteq> [] \<and> receiver \<noteq> [] \<and> sender \<noteq> receiver \<and> amount \<noteq> 0
     \<and> (\<exists>b. get_user_balance sv sender mint = Inr b \<and> amount \<le> b)"
| "admissible sv now user (PGovernanceVote proposal vote) \<longleftrightarrow> proposal \<noteq> 0 \<and> is_user_eligible_to_vote sv user proposal = Inr True"
| "admissible sv now user (POracleUpdate feed price confidence) \<longleftrightarrow> feed \<noteq> [] \<and> price \<noteq> 0 \<and> confidence \<le> 100 \<and> has_oracle_authority sv user = Inr True"
| "admissible sv now user (PRegistryUpdate participant update_data) \<longleftrightarrow> participant \<noteq> [] \<and> update_data \<noteq> None \<and> has_registry_authority sv user participant = Inr True"

lemma ask_service_Inr: "ask_service answer code text k = Inr () \<longleftrightarrow> (\<exists>x. answer = Inr x \<and> k x = Inr ())"
  by (cases answer) (auto simp: ask_service_def)

lemma check_certificate_Inr:
  "check_certificate now amount c = Inr () \<longleftrightarrow> ei_validated_for_trading c \<and> (\<forall>t. ei_expires_at c = Some t \<longrightarrow> now \<le> t) \<and> amount \<le> ei_energy_amount c"
  by (auto simp: check_certificate_def split: option.splits)

lemma uuid_str_length [simp]: "0 < length (uuid_str i)"
  by (simp add: uuid_str_def Let_def)

text \<open>
  C33. What transaction validation accepts.  A request passes exactly when it asks to skip validation or its payload
  is admissible: amounts and prices are not zero, the market is active, a named certificate is validated, not
  expired and large enough, a transfer has two different addresses and enough balance, voters are eligible, oracles
  and registrars have their authority.
\<close>

theorem validated_transaction:
  "validate_transaction sv now q = Inr () \<longleftrightarrow> ct_skip_prevalidation q \<or> admissible sv now (ct_user_id q) (ct_payload q)"
proof (cases "ct_payload q")
  case (PEnergyTrade market amount price order_type cert_id)
  then show ?thesis
    by (cases cert_id) (auto simp: validate_transaction_def validate_energy_trade_def ask_service_Inr check_certificate_Inr split: if_splits)
next
  case (PTokenMint recipient amount)
  then show ?thesis using uuid_str_length [of "ct_user_id q"] by (auto simp: validate_transaction_def validate_token_mint_def)
next
  case (PTokenTransfer sender receiver amount mint)
  then show ?thesis by (auto simp: validate_transaction_def validate_token_transfer_def ask_service_Inr not_less split: if_splits)
next
  case (PGovernanceVote proposal vote)
  then show ?thesis by (auto simp: validate_transaction_def validate_governance_vote_def ask_service_Inr split: if_splits)
next
  case (POracleUpdate feed price confidence)
  then show ?thesis by (auto simp: validate_transaction_def validate_oracle_update_def ask_service_Inr not_less split: if_splits)
next
  case (PRegistryUpdate participant update_data)
  then show ?thesis by (auto simp: validate_transaction_def validate_registry_update_def ask_service_Inr split: if_splits)
qed

text \<open>The check of the authority to mint is one of the length of an identifier: everybody passes it.\<close>

theorem anyone_may_mint: "recipient \<noteq> [] \<Longrightarrow> amount \<noteq> 0 \<Longrightarrow> validate_token_mint user recipient amount = Inr ()"
  using uuid_str_length [of user] by (simp add: validate_token_mint_def)

subsection \<open>The service returns at once\<close>

text \<open>
  Monitoring a transaction returns, without waiting, and a transaction that is reported is never a failed one, so
  that retrying one is always refused.
\<close>

lemma status_result:
  "get_transaction_status signature w = (if length signature < 10 then (Err (BadRequest ''Invalid signature format''), w)
     else (Ok \<lparr>ss_signature = signature, ss_status = ''success'', ss_block_time = Some (clock w), ss_confirmations = 1\<rparr>, w))"
  by (simp add: get_transaction_status_def bnd_app get_clock_app ret_def fail_def)

theorem monitor_transaction_returns:
  "monitor_transaction signature max_wait w = Some (get_transaction_status signature w)"
  by (subst monitor_transaction_def, subst monitor_loop.simps) (simp add: status_result)

theorem failed_transactions_never_retried:
  "\<exists>text. fst (retry_transaction hash signature w) = Err (BadRequest text)"
  by (simp add: retry_transaction_def bnd_app status_result fail_def)

lemma submit_result:
  "\<exists>r. submit_transaction hash tx payer w = (Ok r, w) \<and> sr_status r = ''confirmed'' \<and> sr_block_time r = clock w"
  by (simp add: submit_transaction_def generate_mock_signature_def bnd_app get_clock_app ret_def)

theorem submit_with_retry_outcome:
  "(0 < rc_max_retries cfg \<longrightarrow> (\<exists>r. submit_with_retry hash cfg tx payer w = (Ok r, w)))
   \<and> (rc_max_retries cfg = 0 \<longrightarrow> submit_with_retry hash cfg tx payer w = (Err (Internal ''All retry attempts failed''), w))"
proof -
  obtain r where r: "submit_transaction hash tx payer w = (Ok r, w)" using submit_result by blast
  show ?thesis
  proof (cases "unat (rc_max_retries cfg)")
    case 0
    then have "rc_max_retries cfg = 0" by (simp add: unat_eq_zero)
    then show ?thesis using 0 by (simp add: submit_with_retry_def fail_def)
  next
    case (Suc n)
    then have "rc_max_retries cfg \<noteq> 0" by auto
    then show ?thesis using Suc r by (simp add: submit_with_retry_def bnd_app attempt_app ret_def)
  qed
qed

subsection \<open>The queue is a map of bounded size\<close>

definition queue_ok :: "transaction_queue \<Rightarrow> bool" where
  "queue_ok q \<longleftrightarrow> distinct (map qt_id (pending_transactions q)) \<and> length (pending_transactions q) \<le> max_queue_size q
     \<and> get_pending_count q = card (dom (\<lambda>i. get_transaction i q))"

definition queue_map :: "transaction_queue \<Rightarrow> string \<rightharpoonup> queued_transaction" where
  "queue_map q = (\<lambda>i. get_transaction i q)"

lemma find_row_filter: "find_row key i (filter (\<lambda>x. key x \<noteq> k) xs) = (if i = k then None else find_row key i xs)"
  by (induction xs) auto

lemma dom_find_row: "dom (\<lambda>i. find_row key i xs) = key ` set xs"
  by (induction xs) (auto simp: dom_def)

lemma queue_ok_iff: "queue_ok q \<longleftrightarrow> distinct (map qt_id (pending_transactions q)) \<and> length (pending_transactions q) \<le> max_queue_size q"
  using distinct_card [of "map qt_id (pending_transactions q)"]
  by (auto simp: queue_ok_def get_pending_count_def get_transaction_def dom_find_row)


text \<open>A full queue does not accept a newer version of a transaction that it holds.\<close>

theorem full_queue_refuses_replacement:
  assumes "length (pending_transactions q) = max_queue_size q"
  shows "add_transaction t q = Inl (Internal ''Transaction queue is full'')"
  using assms by (simp add: add_transaction_def)

subsection \<open>Counters of pending transactions\<close>

datatype metric_event = MSubmitted TransactionType | MConfirmed TransactionType | MFailed TransactionType

fun on_metric :: "metric_event \<Rightarrow> pending_counts \<Rightarrow> pending_counts" where
  "on_metric (MSubmitted t) = metrics_submission t"
| "on_metric (MConfirmed t) = metrics_confirmation t"
| "on_metric (MFailed t) = metrics_failure t"

text \<open>How many are pending: a natural number that goes up with a submission and down with an outcome.\<close>

fun pending_after :: "TransactionType \<Rightarrow> metric_event list \<Rightarrow> nat" where
  "pending_after t [] = 0"
| "pending_after t (ev # evs) = (case ev of
      MSubmitted s \<Rightarrow> if s = t then pending_after t evs + 1 else pending_after t evs
    | MConfirmed s \<Rightarrow> if s = t then pending_after t evs - 1 else pending_after t evs
    | MFailed s \<Rightarrow> if s = t then pending_after t evs - 1 else pending_after t evs)"

lemma pending_after_le: "pending_after t evs \<le> length evs"
  by (induction evs) (auto split: metric_event.split)

lemma sint_step:
  fixes n :: i64
  shows "0 \<le> sint n \<Longrightarrow> sint n < 2 ^ 63 - 1 \<Longrightarrow> sint (n + 1) = sint n + 1"
    and "0 < sint n \<Longrightarrow> sint (n - 1) = sint n - 1"
  using sint_i64_small [of "sint n + 1"] sint_i64_small [of "sint n - 1"] sint_lt [of n] by (simp_all add: wi_hom_add [symmetric] wi_hom_sub [symmetric])

text \<open>
  The counter of a type is the number of its pending transactions.  After fewer than \<open>2 ^ 63\<close> submissions, confirmations and
  failures of any types, in any order (newest first), the counter of each type is the number that goes up with
  its submissions and, never below zero, down with its confirmations and failures; a type without a counter has none
  pending.
\<close>

theorem pending_counts_exact:
  assumes "length evs < 2 ^ 63"
  shows "sint (unwrap_or (foldr on_metric evs Map.empty (transaction_type_str t)) 0) = int (pending_after t evs)"
  using assms
proof (induction evs)
  case (Cons ev evs)
  let ?m = "foldr on_metric evs Map.empty"
  have IH: "sint (unwrap_or (?m (transaction_type_str t)) 0) = int (pending_after t evs)" using Cons by simp
  have bound: "int (pending_after t evs) < 2 ^ 63 - 1" using pending_after_le [of t evs] Cons.prems by simp
  have up: "sint (unwrap_or (metrics_submission s ?m (transaction_type_str t)) 0) = int (if s = t then pending_after t evs + 1 else pending_after t evs)" for s
    using IH bound by (auto simp: metrics_submission_def tx_type_text.show_inj sint_step)
  have down: "sint (unwrap_or (metrics_confirmation s ?m (transaction_type_str t)) 0) = int (if s = t then pending_after t evs - 1 else pending_after t evs)" for s
    using IH by (cases "?m (transaction_type_str s)") (auto simp: metrics_confirmation_def tx_type_text.show_inj sint_step of_nat_diff)
  have "metrics_failure = metrics_confirmation" by (simp add: metrics_failure_def metrics_confirmation_def fun_eq_iff)
  with up down show ?case by (cases ev) simp_all
qed simp

subsection \<open>Witnesses\<close>

definition sample_queued :: queued_transaction where
  "sample_queued = \<lparr>qt_id = ''a'', qt_transaction = ''tx'', qt_priority = 2, qt_created_at = 0, qt_retry_count = 0\<rparr>"


theorem pending_counts_exact_witness:
  "sint (unwrap_or (foldr on_metric [MFailed Swap, MSubmitted TokenMint, MSubmitted Swap, MSubmitted Swap] Map.empty ''swap'') 0) = 1"
  using pending_counts_exact [of "[MFailed Swap, MSubmitted TokenMint, MSubmitted Swap, MSubmitted Swap]" Swap] by simp

end
