(* ===== verification/Tracking.thy ===== *)
theory Tracking
  imports Transactions Errors Sample
begin

text \<open>
  Tracking of blockchain transactions: queries, monitoring and recovery (\<open>src/src/services/transaction/query.rs\<close>,
  \<open>monitoring.rs\<close>, \<open>recovery.rs\<close>, \<open>coordinator.rs\<close>) over the view and the functions of the migration
  \<open>src/migrations/20241123000001_add_transaction_tracking.sql\<close>.

  A tracker is the world and the columns that the migrations give to five tables, with the columns of these
  tables that the view shows.  The signature parser and the answers of the blockchain to a question about a
  signature, which may depend on every earlier question, are parameters, and so is what the server makes of
  a query text into which a quotation mark was spliced.
\<close>

subsection \<open>Rows and operations\<close>

record tracked_row =
  tr_table :: string
  tr_id :: uuid
  tr_user_id :: "uuid option"
  tr_signature :: "string option"
  tr_tx_type :: "string option"
  tr_status :: "string option"
  tr_attempts :: "i32 option"
  tr_last_error :: "string option"
  tr_submitted_at :: "time option"
  tr_confirmed_at :: "time option"
  tr_created_at :: time
  tr_updated_at :: time

record tracker =
  tk_world :: world
  tk_rows :: "tracked_row list"
  tk_asked :: "string list"

record blockchain_operation =
  bo_operation_type :: TransactionType
  bo_operation_id :: uuid
  bo_user_id :: uuid
  bo_signature :: "string option"
  bo_tx_type :: string
  bo_status :: TransactionStatus
  bo_operation_status :: string
  bo_attempts :: i32
  bo_last_error :: "string option"
  bo_submitted_at :: "time option"
  bo_confirmed_at :: "time option"
  bo_created_at :: time
  bo_updated_at :: time

record transaction_filters =
  tf_user_id :: "uuid option"
  tf_operation_type :: "string option"
  tf_tx_type :: "TransactionType option"
  tf_status :: "TransactionStatus option"
  tf_date_from :: "time option"
  tf_date_to :: "time option"
  tf_min_attempts :: "i32 option"
  tf_has_signature :: "bool option"
  tf_limit :: "i64 option"
  tf_offset :: "i64 option"

record transaction_response =
  tx_transaction_type :: TransactionType
  tx_operation_id :: uuid
  tx_user_id :: uuid
  tx_status :: TransactionStatus
  tx_signature :: "string option"
  tx_attempts :: i32
  tx_last_error :: "string option"
  tx_created_at :: time
  tx_submitted_at :: "time option"
  tx_confirmed_at :: "time option"
  tx_settled_at :: "time option"

record transaction_stats =
  st_total_count :: nat
  st_pending_count :: nat
  st_submitted_count :: nat
  st_confirmed_count :: nat
  st_failed_count :: nat
  st_settled_count :: nat
  st_processing_count :: nat
  st_avg_seconds :: "rat option"
  st_success_rate :: rat

record monitoring_config =
  polling_interval_ms :: u64
  max_retries :: i32
  confirmation_blocks :: "32 word"
  monitoring_enabled :: bool
  max_retry_attempts :: i32
  transaction_expiry_seconds :: u64

definition monitoring_default :: monitoring_config where
  "monitoring_default = \<lparr>polling_interval_ms = 1000, max_retries = 3, confirmation_blocks = 1, monitoring_enabled = True,
     max_retry_attempts = 5, transaction_expiry_seconds = 3600\<rparr>"

record retry_request =
  rq_operation_id :: uuid
  rq_max_attempts :: "i32 option"
  rq_operation_type :: "string option"

record retry_response =
  rp_operation_id :: uuid
  rp_success :: bool
  rp_attempts :: i32
  rp_last_error :: "string option"
  rp_signature :: "string option"
  rp_status :: TransactionStatus
  rp_new_attempts :: i32

subsection \<open>Statements on the tracked columns\<close>

definition on_tables :: "(world, 'a) io \<Rightarrow> (tracker, 'a) io" where
  "on_tables m = (\<lambda>s. (fst (m (tk_world s)), s\<lparr>tk_world := snd (m (tk_world s))\<rparr>))"

definition tr_query :: "(tracked_row list \<Rightarrow> 'a) \<Rightarrow> (tracker, 'a) io" where
  "tr_query q = (\<lambda>s. on_tables (query (\<lambda>_. q (tk_rows s))) s)"

definition tr_exec :: "(time \<Rightarrow> tracked_row list \<Rightarrow> tracked_row list) \<Rightarrow> 'a \<Rightarrow> (tracker, 'a) io" where
  "tr_exec f x = (\<lambda>s. case on_tables (query (\<lambda>_. x)) s of
      (Ok y, s') \<Rightarrow> (Ok y, s'\<lparr>tk_rows := f (clock (tk_world s)) (tk_rows s')\<rparr>)
    | (Err er, s') \<Rightarrow> (Err er, s')
    | (Panic, s') \<Rightarrow> (Panic, s'))"

text \<open>
  The tables that have the columns, those that the view reads and the name under which it shows their rows.  A later
  migration renames the table of readings that the view reads and gives its name to a new one.
\<close>

fun view_type :: "string \<Rightarrow> string" where
  "view_type t = (if t = ''trading_orders'' then ''trading_order'' else if t = ''settlements'' then ''settlement''
     else if t = ''meter_readings_old_backup'' then ''meter_reading'' else ''user_registration'')"

definition tracked_tables :: "string list" where
  "tracked_tables = [''trading_orders'', ''settlements'', ''meter_readings'', ''meter_readings_old_backup'', ''users'']"

definition view_tables :: "string list" where
  "view_tables = [''trading_orders'', ''settlements'', ''meter_readings_old_backup'', ''users'']"

definition blockchain_operations :: "tracked_row list \<Rightarrow> tracked_row list" where
  "blockchain_operations rows = concat (map (\<lambda>t. filter (\<lambda>r. tr_table r = t \<and> tr_signature r \<noteq> None) rows) view_tables)"

text \<open>
  The trigger: a row that gets its first signature becomes submitted, whatever status the statement sets.
\<close>

definition on_hash :: "time \<Rightarrow> tracked_row \<Rightarrow> tracked_row \<Rightarrow> tracked_row" where
  "on_hash now old new = (if tr_signature new \<noteq> None \<and> tr_signature old = None
     then new\<lparr>tr_status := Some ''submitted'', tr_submitted_at := Some now\<rparr> else new)"

definition update_tracked :: "string \<Rightarrow> uuid \<Rightarrow> (tracked_row \<Rightarrow> tracked_row) \<Rightarrow> time \<Rightarrow> tracked_row list \<Rightarrow> tracked_row list" where
  "update_tracked table i f now = update_where (\<lambda>r. tr_table r = table \<and> tr_id r = i) (\<lambda>r. on_hash now r (f r\<lparr>tr_updated_at := now\<rparr>))"

text \<open>
  The functions of the migration catch every error and then answer \<open>FALSE\<close>; a table without the columns, or no table
  at all, is such an error.
\<close>

definition tracked_function :: "string \<Rightarrow> uuid \<Rightarrow> (time \<Rightarrow> tracked_row \<Rightarrow> tracked_row) \<Rightarrow> (tracker, bool) io" where
  "tracked_function table i f =
    (if table \<in> set tracked_tables then tr_exec (\<lambda>now. update_tracked table i (f now) now) True else tr_query (\<lambda>_. False))"

definition increment_blockchain_attempts :: "string \<Rightarrow> uuid \<Rightarrow> string option \<Rightarrow> (tracker, bool) io" where
  "increment_blockchain_attempts table i error_text = tracked_function table i (\<lambda>now r.
     r\<lparr>tr_attempts := map_option (\<lambda>n. n + 1) (tr_attempts r), tr_last_error := error_text\<rparr>)"

definition mark_blockchain_confirmed :: "string \<Rightarrow> uuid \<Rightarrow> string \<Rightarrow> string \<Rightarrow> (tracker, bool) io" where
  "mark_blockchain_confirmed table i signature status =
    (if length signature \<le> 88 \<and> length status \<le> 20
     then tracked_function table i (\<lambda>now r. r\<lparr>tr_status := Some status, tr_signature := Some signature, tr_confirmed_at := Some now\<rparr>)
     else tr_query (\<lambda>_. False))"

definition mark_blockchain_submitted :: "string \<Rightarrow> uuid \<Rightarrow> string option \<Rightarrow> string option \<Rightarrow> (tracker, bool) io" where
  "mark_blockchain_submitted table i signature tx_type = tracked_function table i (\<lambda>now r.
     let r' = r\<lparr>tr_status := Some ''submitted'', tr_signature := signature, tr_submitted_at := Some now\<rparr>
     in case tx_type of Some t \<Rightarrow> r'\<lparr>tr_tx_type := Some t\<rparr> | None \<Rightarrow> r')"

subsection \<open>Decoding\<close>

text \<open>\<open>parse().unwrap_or(Swap)\<close> and the status with the default of the reader.\<close>

definition operation_type_of :: "tracked_row \<Rightarrow> TransactionType" where
  "operation_type_of r = unwrap_or (transaction_type_from (view_type (tr_table r))) Swap"

definition operation_status_of :: "TransactionStatus \<Rightarrow> tracked_row \<Rightarrow> TransactionStatus" where
  "operation_status_of dflt r = unwrap_or (Option.bind (tr_status r) transaction_status_from) dflt"

definition operation_of :: "TransactionStatus \<Rightarrow> tracked_row \<Rightarrow> blockchain_operation option" where
  "operation_of dflt r = (case (tr_user_id r, tr_tx_type r, tr_status r) of
      (Some user, Some tx_type, Some status) \<Rightarrow> Some
        \<lparr> bo_operation_type = operation_type_of r, bo_operation_id = tr_id r, bo_user_id = user, bo_signature = tr_signature r, bo_tx_type = tx_type,
          bo_status = operation_status_of dflt r, bo_operation_status = status, bo_attempts = unwrap_or (tr_attempts r) 0, bo_last_error = tr_last_error r,
          bo_submitted_at = tr_submitted_at r, bo_confirmed_at = tr_confirmed_at r, bo_created_at = tr_created_at r, bo_updated_at = tr_updated_at r \<rparr>
    | _ \<Rightarrow> None)"

fun operations_of :: "TransactionStatus \<Rightarrow> tracked_row list \<Rightarrow> (tracker, blockchain_operation list) io" where
  "operations_of dflt [] = ret []"
| "operations_of dflt (r # rs) = (case operation_of dflt r of
      None \<Rightarrow> fail (Database ''unexpected null'')
    | Some p \<Rightarrow> bnd (operations_of dflt rs) (\<lambda>ps. ret (p # ps)))"

definition response_of :: "blockchain_operation \<Rightarrow> transaction_response" where
  "response_of p =
    \<lparr> tx_transaction_type = bo_operation_type p, tx_operation_id = bo_operation_id p, tx_user_id = bo_user_id p, tx_status = bo_status p,
      tx_signature = bo_signature p, tx_attempts = bo_attempts p, tx_last_error = bo_last_error p, tx_created_at = bo_created_at p,
      tx_submitted_at = bo_submitted_at p, tx_confirmed_at = bo_confirmed_at p, tx_settled_at = None \<rparr>"

subsection \<open>Queries\<close>

text \<open>\<open>row.get\<close> panics where \<open>try_get\<close> is an error.\<close>

definition get_blockchain_operation :: "uuid \<Rightarrow> (tracker, blockchain_operation) io" where
  "get_blockchain_operation i =
    bnd (tr_query (\<lambda>rows. find (\<lambda>r. tr_id r = i) (blockchain_operations rows))) (\<lambda>found.
    case found of
      None \<Rightarrow> fail (Database ''no rows returned'')
    | Some r \<Rightarrow> (case operation_of TxPending r of Some p \<Rightarrow> ret p | None \<Rightarrow> panic))"

definition get_operation_status :: "uuid \<Rightarrow> (tracker, transaction_response) io" where
  "get_operation_status i = bnd (get_blockchain_operation i) (\<lambda>p. ret (response_of p))"

definition matches_filters :: "transaction_filters \<Rightarrow> tracked_row \<Rightarrow> bool" where
  "matches_filters f r \<longleftrightarrow>
     (case tf_operation_type f of Some t \<Rightarrow> view_type (tr_table r) = t | None \<Rightarrow> True)
   \<and> (case tf_tx_type f of Some t \<Rightarrow> tr_tx_type r = Some (transaction_type_str t) | None \<Rightarrow> True)
   \<and> (case tf_status f of Some s \<Rightarrow> tr_status r = Some (transaction_status_fmt s) | None \<Rightarrow> True)
   \<and> (case tf_user_id f of Some u \<Rightarrow> tr_user_id r = Some u | None \<Rightarrow> True)
   \<and> (case tf_date_from f of Some t \<Rightarrow> t \<le> tr_created_at r | None \<Rightarrow> True)
   \<and> (case tf_date_to f of Some t \<Rightarrow> tr_created_at r \<le> t | None \<Rightarrow> True)
   \<and> (case tf_min_attempts f of Some n \<Rightarrow> (case tr_attempts r of Some a \<Rightarrow> n \<le>s a | None \<Rightarrow> False) | None \<Rightarrow> True)"

definition query_window :: "i64 option \<Rightarrow> i64 option \<Rightarrow> 'a list \<Rightarrow> 'a list option" where
  "query_window cap skip xs = (if sint (unwrap_or cap 0) < 0 \<or> sint (unwrap_or skip 0) < 0 then None
     else Some ((case cap of Some n \<Rightarrow> take (nat (sint n)) | None \<Rightarrow> id) (drop (nat (sint (unwrap_or skip 0))) xs)))"

text \<open>The filters are spliced into the text of the query.\<close>

definition spliced :: "transaction_filters \<Rightarrow> bool" where
  "spliced f \<longleftrightarrow> (case tf_operation_type f of Some t \<Rightarrow> char_of (39 :: nat) \<in> set t | None \<Rightarrow> False)"

definition select_operations :: "(string \<Rightarrow> tracked_row list \<Rightarrow> tracked_row list option) \<Rightarrow> transaction_filters \<Rightarrow> tracked_row list \<Rightarrow> tracked_row list option" where
  "select_operations server f rows =
    (if spliced f then server (the (tf_operation_type f)) (blockchain_operations rows)
     else query_window (tf_limit f) (tf_offset f)
       (sort_key (\<lambda>r. - tr_created_at r) (filter (matches_filters f) (blockchain_operations rows))))"

definition get_transactions_with_filters :: "(string \<Rightarrow> tracked_row list \<Rightarrow> tracked_row list option) \<Rightarrow> transaction_filters \<Rightarrow> (tracker, blockchain_operation list) io" where
  "get_transactions_with_filters server f =
    bnd (tr_query (select_operations server f)) (\<lambda>found. case found of
      None \<Rightarrow> fail (Database ''syntax or range error'')
    | Some rows \<Rightarrow> operations_of TxPending rows)"

definition get_transactions :: "(string \<Rightarrow> tracked_row list \<Rightarrow> tracked_row list option) \<Rightarrow> transaction_filters \<Rightarrow> (tracker, transaction_response list) io" where
  "get_transactions server f = bnd (get_transactions_with_filters server f) (\<lambda>ps. ret (map response_of ps))"

definition get_user_transactions :: "(string \<Rightarrow> tracked_row list \<Rightarrow> tracked_row list option) \<Rightarrow> uuid \<Rightarrow> transaction_filters \<Rightarrow> (tracker, transaction_response list) io" where
  "get_user_transactions server user f = get_transactions server (f\<lparr>tf_user_id := Some user\<rparr>)"

definition count_status :: "string \<Rightarrow> (tracker, nat) io" where
  "count_status status = tr_query (\<lambda>rows. length (filter (\<lambda>r. tr_status r = Some status) (blockchain_operations rows)))"

definition confirmation_seconds :: "tracked_row list \<Rightarrow> rat list" where
  "confirmation_seconds rows = concat (map (\<lambda>r. case tr_confirmed_at r of Some t \<Rightarrow> [of_int (t - tr_created_at r) / 1000000000] | None \<Rightarrow> [])
     (filter (\<lambda>r. tr_status r = Some ''confirmed'') (blockchain_operations rows)))"

text \<open>
  What the server's average of the seconds decodes to, or the error of the decoding, is a parameter: the type of \<open>EXTRACT\<close>
  depends on the version of the server.
\<close>

definition get_transaction_stats :: "(rat list \<Rightarrow> string + rat option) \<Rightarrow> (tracker, transaction_stats) io" where
  "get_transaction_stats average =
    bnd (tr_query (\<lambda>rows. length (blockchain_operations rows))) (\<lambda>total_count.
    bnd (count_status ''pending'') (\<lambda>pending_count.
    bnd (count_status ''submitted'') (\<lambda>submitted_count.
    bnd (count_status ''confirmed'') (\<lambda>confirmed_count.
    bnd (count_status ''failed'') (\<lambda>failed_count.
    bnd (if confirmed_count > 0
         then bnd (tr_query confirmation_seconds) (\<lambda>secs. case average secs of Inl m \<Rightarrow> fail (Database m) | Inr a \<Rightarrow> ret a)
         else ret None) (\<lambda>avg_seconds.
    ret \<lparr> st_total_count = total_count, st_pending_count = pending_count, st_submitted_count = submitted_count, st_confirmed_count = confirmed_count,
          st_failed_count = failed_count, st_settled_count = 0, st_processing_count = submitted_count, st_avg_seconds = avg_seconds,
          st_success_rate = (if total_count > 0 then f64 (f64 (of_nat confirmed_count) / f64 (of_nat total_count)) else 0) \<rparr>))))))"

subsection \<open>Monitoring\<close>

text \<open>\<open>TimeDelta::num_seconds\<close> cuts towards zero.\<close>

definition num_seconds :: "int \<Rightarrow> int" where
  "num_seconds d = (if 0 \<le> d then d div 1000000000 else - ((- d) div 1000000000))"

fun get_table_name :: "TransactionType \<Rightarrow> string" where
  "get_table_name EnergyTrade = ''energy_trades''"
| "get_table_name TokenMint = ''token_mints''"
| "get_table_name TokenTransfer = ''token_transfers''"
| "get_table_name GovernanceVote = ''governance_votes''"
| "get_table_name OracleUpdate = ''oracle_updates''"
| "get_table_name RegistryUpdate = ''registry_updates''"
| "get_table_name Swap = ''swap_transactions''"

definition mark_transaction_confirmed :: "string \<Rightarrow> uuid \<Rightarrow> string \<Rightarrow> (tracker, bool) io" where
  "mark_transaction_confirmed table i signature = mark_blockchain_confirmed table i signature ''confirmed''"

definition mark_transaction_failed :: "string \<Rightarrow> uuid \<Rightarrow> string option \<Rightarrow> (tracker, bool) io" where
  "mark_transaction_failed table i error_text =
    bnd (increment_blockchain_attempts table i error_text) (\<lambda>done.
    sq (if table \<in> set tracked_tables then tr_exec (\<lambda>now. update_tracked table i (\<lambda>r. r\<lparr>tr_status := Some ''failed''\<rparr>) now) ()
        else bnd (tr_query (\<lambda>_. ())) (\<lambda>_. fail (Database ''column or relation does not exist'')))
    (ret done))"

text \<open>The parser of signatures and the answers of the blockchain.\<close>

record signature_service =
  parse_signature :: "string \<Rightarrow> string option"
  signature_status :: "string list \<Rightarrow> string \<Rightarrow> string + bool option"

definition get_signature_status :: "signature_service \<Rightarrow> string \<Rightarrow> (tracker, string + bool option) io" where
  "get_signature_status sv signature = (\<lambda>s. (Ok (signature_status sv (tk_asked s) signature), s\<lparr>tk_asked := tk_asked s @ [signature]\<rparr>))"

definition monitor_operation :: "signature_service \<Rightarrow> monitoring_config \<Rightarrow> blockchain_operation \<Rightarrow> (tracker, nat) io" where
  "monitor_operation sv cfg p =
    bnd (on_tables get_clock) (\<lambda>now.
    let table = get_table_name (bo_operation_type p); pending = num_seconds (now - unwrap_or (bo_submitted_at p) (bo_created_at p)) in
    if pending > sint (transaction_expiry_seconds cfg)
    then bnd (mark_transaction_failed table (bo_operation_id p) (Some ''Transaction pending too long'')) (\<lambda>_. ret 1)
    else (case (bo_status p, Option.bind (bo_signature p) (parse_signature sv)) of
        (TxSubmitted, Some signature) \<Rightarrow>
          bnd (get_signature_status sv signature) (\<lambda>answer. case answer of
            Inr (Some True) \<Rightarrow> bnd (mark_transaction_confirmed table (bo_operation_id p) signature) (\<lambda>b. ret (if b then 1 else 0))
          | Inr (Some False) \<Rightarrow> bnd (mark_transaction_failed table (bo_operation_id p) (Some ''Transaction failed on blockchain'')) (\<lambda>b. ret (if b then 1 else 0))
          | Inr None \<Rightarrow> ret 0
          | Inl _ \<Rightarrow> ret 0)
      | _ \<Rightarrow> ret 0))"

definition awaiting :: "tracked_row list \<Rightarrow> tracked_row list" where
  "awaiting rows = sort_key tr_created_at (filter (\<lambda>r. tr_status r \<in> {Some ''pending'', Some ''submitted''}) (blockchain_operations rows))"

fun monitor_all :: "signature_service \<Rightarrow> monitoring_config \<Rightarrow> blockchain_operation list \<Rightarrow> (tracker, nat) io" where
  "monitor_all sv cfg [] = ret 0"
| "monitor_all sv cfg (p # ps) = bnd (monitor_operation sv cfg p) (\<lambda>n. bnd (monitor_all sv cfg ps) (\<lambda>m. ret (n + m)))"

definition monitor_pending_transactions :: "signature_service \<Rightarrow> monitoring_config \<Rightarrow> (tracker, nat) io" where
  "monitor_pending_transactions sv cfg =
    (if \<not> monitoring_enabled cfg then ret 0
     else bnd (tr_query awaiting) (\<lambda>rows. bnd (operations_of TxPending rows) (monitor_all sv cfg)))"

subsection \<open>Recovery\<close>

text \<open>
  The call passes the type where the function takes the signature, and no type.
\<close>

definition retry_settlement_transaction :: "env \<Rightarrow> settlement_config \<Rightarrow> uuid \<Rightarrow> (tracker, unit) io" where
  "retry_settlement_transaction e scfg i =
    bnd (increment_blockchain_attempts ''settlements'' i (Some ''Retrying settlement'')) (\<lambda>_.
    bnd (on_tables (execute_settlement e scfg i)) (\<lambda>_.
    bnd (mark_blockchain_submitted ''settlements'' i (Some ''settlement'') None) (\<lambda>_. ret ())))"

definition to_retry :: "i32 \<Rightarrow> tracked_row list \<Rightarrow> tracked_row list" where
  "to_retry max_attempts rows = take 100 (sort_key tr_created_at (filter (\<lambda>r. tr_status r = Some ''failed''
     \<and> (case tr_attempts r of Some a \<Rightarrow> sint a < sint max_attempts | None \<Rightarrow> False)) (blockchain_operations rows)))"

fun retry_all :: "env \<Rightarrow> settlement_config \<Rightarrow> blockchain_operation list \<Rightarrow> (tracker, nat) io" where
  "retry_all e scfg [] = ret 0"
| "retry_all e scfg (p # ps) =
    bnd (if transaction_type_str (bo_operation_type p) = ''settlement''
         then bnd (attempt (retry_settlement_transaction e scfg (bo_operation_id p))) (\<lambda>r. ret (case r of Inl _ \<Rightarrow> 0 | Inr _ \<Rightarrow> 1))
         else ret 0) (\<lambda>n.
    bnd (retry_all e scfg ps) (\<lambda>m. ret (n + m)))"

definition retry_failed_transactions :: "env \<Rightarrow> settlement_config \<Rightarrow> monitoring_config \<Rightarrow> i32 \<Rightarrow> (tracker, nat) io" where
  "retry_failed_transactions e scfg cfg max_attempts =
    (if \<not> monitoring_enabled cfg then ret 0
     else bnd (tr_query (to_retry max_attempts)) (\<lambda>rows. bnd (operations_of TxFailed rows) (retry_all e scfg)))"

definition not_retried :: "uuid \<Rightarrow> blockchain_operation \<Rightarrow> string \<Rightarrow> retry_response" where
  "not_retried i p reason =
    \<lparr> rp_operation_id = i, rp_success = False, rp_attempts = bo_attempts p, rp_last_error = Some reason, rp_signature = bo_signature p,
      rp_status = bo_status p, rp_new_attempts = bo_attempts p \<rparr>"

definition retry_operation :: "env \<Rightarrow> settlement_config \<Rightarrow> monitoring_config \<Rightarrow> retry_request \<Rightarrow> (tracker, retry_response) io" where
  "retry_operation e scfg cfg q =
    bnd (attempt (get_blockchain_operation (rq_operation_id q))) (\<lambda>r. case r of
      Inl er \<Rightarrow> ret \<lparr> rp_operation_id = rq_operation_id q, rp_success = False, rp_attempts = 0,
          rp_last_error = Some (''Failed to get transaction: '' @ api_display er), rp_signature = None, rp_status = TxFailed, rp_new_attempts = 0 \<rparr>
    | Inr p \<Rightarrow>
       (let text = transaction_type_str (bo_operation_type p) in
        if (case rq_operation_type q of Some t \<Rightarrow> text \<noteq> t | None \<Rightarrow> False) then ret (not_retried (rq_operation_id q) p ''Operation type mismatch'')
        else if sint (bo_attempts p) \<ge> sint (unwrap_or (rq_max_attempts q) (max_retry_attempts cfg))
        then ret (not_retried (rq_operation_id q) p ''Maximum retry attempts exceeded'')
        else if text = ''settlement'' then
          bnd (retry_settlement_transaction e scfg (bo_operation_id p)) (\<lambda>_.
          bnd (get_blockchain_operation (bo_operation_id p)) (\<lambda>u.
          ret \<lparr> rp_operation_id = bo_operation_id p, rp_success = True, rp_attempts = bo_attempts u, rp_last_error = bo_last_error u,
                rp_signature = bo_signature u, rp_status = bo_status u, rp_new_attempts = bo_attempts u \<rparr>))
        else ret (not_retried (bo_operation_id p) p (''No retry handler for operation type: '' @ text))))"

subsection \<open>Statements\<close>

lemma tr_query_app: "tr_query q s = (fst (query (\<lambda>_. q (tk_rows s)) (tk_world s)), s\<lparr>tk_world := tick (tk_world s)\<rparr>)"
  by (auto simp: tr_query_def on_tables_def query_def split: option.splits)

lemma tr_query_calm [io_simps]: "faults (tk_world s) = [] \<Longrightarrow> tr_query q s = (Ok (q (tk_rows s)), s)"
  by (simp add: tr_query_def on_tables_def query_calm)

lemma tr_exec_calm [io_simps]:
  "faults (tk_world s) = [] \<Longrightarrow> tr_exec f x s = (Ok x, s\<lparr>tk_rows := f (clock (tk_world s)) (tk_rows s)\<rparr>)"
  by (simp add: tr_exec_def on_tables_def query_calm)

lemma tr_query_Ok: "tr_query q s = (Ok x, s') \<Longrightarrow> x = q (tk_rows s) \<and> tk_rows s' = tk_rows s"
  by (auto simp: tr_query_def on_tables_def query_def split: option.splits)

text \<open>Programs that leave the tracked columns and the tables as they are.\<close>

definition leaves :: "(tracker, 'a) io \<Rightarrow> bool" where
  "leaves m \<longleftrightarrow> (\<forall>s. tk_rows (snd (m s)) = tk_rows s \<and> db (tk_world (snd (m s))) = db (tk_world s))"

lemma leavesD: "leaves m \<Longrightarrow> m s = (r, s') \<Longrightarrow> tk_rows s' = tk_rows s \<and> db (tk_world s') = db (tk_world s)"
  unfolding leaves_def by (metis snd_conv)

named_theorems leaves_intros \<open>programs that change no row\<close>

lemma leaves_basic [leaves_intros]:
  "leaves (ret x)" "leaves (fail er)" "leaves panic" "leaves (tr_query q)" "leaves (on_tables get_clock)" "leaves (get_signature_status sv signature)"
  by (auto simp: leaves_def tr_query_app on_tables_def get_clock_def get_signature_status_def ret_def fail_def panic_def)

lemma leaves_bnd [leaves_intros]: "leaves m \<Longrightarrow> (\<And>x. leaves (k x)) \<Longrightarrow> leaves (bnd m k)"
  unfolding leaves_def
proof (intro allI)
  fix s assume m: "\<forall>s. tk_rows (snd (m s)) = tk_rows s \<and> db (tk_world (snd (m s))) = db (tk_world s)"
    and k: "\<And>x. \<forall>s. tk_rows (snd (k x s)) = tk_rows s \<and> db (tk_world (snd (k x s))) = db (tk_world s)"
  obtain r s1 where "m s = (r, s1)" by (cases "m s")
  with m [rule_format, of s] k show "tk_rows (snd (bnd m k s)) = tk_rows s \<and> db (tk_world (snd (bnd m k s))) = db (tk_world s)"
    by (cases r) (simp_all add: bnd_app)
qed

lemma leaves_sq [leaves_intros]: "leaves m \<Longrightarrow> leaves n \<Longrightarrow> leaves (sq m n)"
  unfolding sq_def by (rule leaves_bnd)

lemma leaves_attempt [leaves_intros]: "leaves m \<Longrightarrow> leaves (attempt m)"
  unfolding leaves_def
proof (intro allI)
  fix s assume m: "\<forall>s. tk_rows (snd (m s)) = tk_rows s \<and> db (tk_world (snd (m s))) = db (tk_world s)"
  obtain r s1 where "m s = (r, s1)" by (cases "m s")
  with m [rule_format, of s] show "tk_rows (snd (attempt m s)) = tk_rows s \<and> db (tk_world (snd (attempt m s))) = db (tk_world s)"
    by (cases r) (simp_all add: attempt_app)
qed

lemma leaves_if [leaves_intros]: "(b \<Longrightarrow> leaves m) \<Longrightarrow> (\<not> b \<Longrightarrow> leaves n) \<Longrightarrow> leaves (if b then m else n)"
  and leaves_option [leaves_intros]: "(x = None \<Longrightarrow> leaves m) \<Longrightarrow> (\<And>y. x = Some y \<Longrightarrow> leaves (k y)) \<Longrightarrow> leaves (case x of None \<Rightarrow> m | Some y \<Rightarrow> k y)"
  and leaves_sum [leaves_intros]: "(\<And>y. z = Inl y \<Longrightarrow> leaves (l y)) \<Longrightarrow> (\<And>y. z = Inr y \<Longrightarrow> leaves (h y)) \<Longrightarrow> leaves (case z of Inl y \<Rightarrow> l y | Inr y \<Rightarrow> h y)"
  by (auto split: option.split sum.split)

lemma leaves_operations [leaves_intros]: "leaves (operations_of dflt rows)"
  by (induction rows) (auto intro!: leaves_intros split: option.split simp del: ret_app)

lemma leaves_queries:
  "leaves (get_blockchain_operation i)" "leaves (get_transactions server f)" "leaves (get_user_transactions server u f)" "leaves (get_transaction_stats average)"
  unfolding get_blockchain_operation_def get_user_transactions_def get_transactions_def get_transactions_with_filters_def get_transaction_stats_def count_status_def
  by (intro leaves_intros)+

subsection \<open>Queries are private and ordered\<close>

lemma operations_of_Ok:
  assumes "operations_of dflt rows s = (Ok ps, s')"
  shows "map Some ps = map (operation_of dflt) rows"
  using assms
proof (induction rows arbitrary: ps s')
  case (Cons r rs)
  then show ?case by (auto split: option.splits elim!: bnd_OkE)
qed simp

lemma operation_of_fields:
  assumes "operation_of dflt r = Some p"
  shows "tr_user_id r = Some (bo_user_id p)" "bo_created_at p = tr_created_at r" "bo_operation_id p = tr_id r" "bo_signature p = tr_signature r"
  using assms by (auto simp: operation_of_def split: option.splits)

lemma blockchain_operations_set: "set (blockchain_operations rows) = {r \<in> set rows. tr_table r \<in> set view_tables \<and> tr_signature r \<noteq> None}"
  by (auto simp: blockchain_operations_def)

lemma query_window_sub: "query_window cap skip xs = Some ys \<Longrightarrow> \<exists>n m. ys = take n (drop m xs)"
proof (cases cap)
  case None
  assume "query_window cap skip xs = Some ys"
  with None have "ys = take (length xs) (drop (nat (sint (unwrap_or skip 0))) xs)" by (auto simp: query_window_def split: if_splits)
  then show ?thesis by blast
next
  case (Some n)
  assume "query_window cap skip xs = Some ys"
  with Some have "ys = take (nat (sint n)) (drop (nat (sint (unwrap_or skip 0))) xs)" by (auto simp: query_window_def split: if_splits)
  then show ?thesis by blast
qed

text \<open>
  C35. A user sees only the user's own transactions, newest first.  When no quotation mark is spliced into the query, every
  transaction that the list of a user returns is one of a stored, signed row of this user, the list is sorted from the newest
  to the oldest, and asking changes no row.
\<close>

theorem user_transactions_private:
  assumes "get_user_transactions server u f s = (Ok rs, s')" and "\<not> spliced f"
  shows "(\<forall>x \<in> set rs. tx_user_id x = u \<and> (\<exists>r \<in> set (tk_rows s). tr_id r = tx_operation_id x \<and> tr_user_id r = Some u \<and> tr_signature r = tx_signature x \<and> tx_signature x \<noteq> None))
    \<and> sorted_wrt (\<lambda>x y. tx_created_at y \<le> tx_created_at x) rs \<and> tk_rows s' = tk_rows s \<and> db (tk_world s') = db (tk_world s)"
proof -
  let ?f = "f\<lparr>tf_user_id := Some u\<rparr>"
  have spl: "\<not> spliced ?f" using assms(2) by (simp add: spliced_def)
  from assms(1) obtain s1 rows ps s2 where q: "tr_query (select_operations server ?f) s = (Ok (Some rows), s1)"
    and ps: "operations_of TxPending rows s1 = (Ok ps, s2)" and rs: "rs = map response_of ps"
    unfolding get_user_transactions_def get_transactions_def get_transactions_with_filters_def
    by (auto elim!: bnd_OkE simp: fail_def ret_def split: option.splits)
  let ?all = "sort_key (\<lambda>r. - tr_created_at r) (filter (matches_filters ?f) (blockchain_operations (tk_rows s)))"
  have "Some rows = query_window (tf_limit ?f) (tf_offset ?f) ?all"
    using tr_query_Ok [OF q] spl by (simp add: select_operations_def)
  then obtain n m where rows: "rows = take n (drop m ?all)" using query_window_sub [OF sym] by metis
  have dec: "map Some ps = map (operation_of TxPending) rows" by (rule operations_of_Ok [OF ps])
  have "sorted_wrt (\<lambda>r r'. - tr_created_at r \<le> - tr_created_at r') rows"
    using sorted_sort_key [of "\<lambda>r. - tr_created_at r" "filter (matches_filters ?f) (blockchain_operations (tk_rows s))"]
    unfolding rows sorted_map by (intro sorted_wrt_take sorted_wrt_drop)
  moreover have "length ps = length rows" using dec by (metis length_map)
  moreover have nth: "operation_of TxPending (rows ! i) = Some (ps ! i)" if "i < length ps" for i
    using dec that \<open>length ps = length rows\<close> by (metis nth_map)
  ultimately have "sorted_wrt (\<lambda>x y. tx_created_at y \<le> tx_created_at x) rs"
    unfolding rs sorted_wrt_map sorted_wrt_iff_nth_less by (simp add: response_of_def operation_of_fields(2) [OF nth])
  moreover have "tx_user_id x = u \<and> (\<exists>r \<in> set (tk_rows s). tr_id r = tx_operation_id x \<and> tr_user_id r = Some u \<and> tr_signature r = tx_signature x \<and> tx_signature x \<noteq> None)"
    if "x \<in> set rs" for x
  proof -
    from that obtain i where i: "i < length ps" "x = response_of (ps ! i)" by (auto simp: rs in_set_conv_nth)
    have "rows ! i \<in> set ?all" using i(1) \<open>length ps = length rows\<close> unfolding rows by (metis in_set_dropD in_set_takeD nth_mem)
    then have "rows ! i \<in> set (tk_rows s)" "tr_user_id (rows ! i) = Some u" "tr_signature (rows ! i) \<noteq> None"
      by (auto simp: blockchain_operations_set matches_filters_def)
    with operation_of_fields [OF nth [OF i(1)]] i(2) show ?thesis by (auto simp: response_of_def)
  qed
  ultimately show ?thesis using leavesD [OF leaves_queries(3) assms(1)] by blast
qed

subsection \<open>Statistics\<close>

lemma four_counts_le:
  assumes "distinct [a, b, c, d]"
  shows "length (filter (\<lambda>x. h x = a) xs) + length (filter (\<lambda>x. h x = b) xs) + length (filter (\<lambda>x. h x = c) xs) + length (filter (\<lambda>x. h x = d) xs) \<le> length xs"
  using assms by (induction xs) auto

text \<open>
  The statistics add up: the four counts are those of the signed rows with the status, no row counts twice, and together
  they are at most the total.
\<close>

theorem transaction_stats_add_up:
  assumes "get_transaction_stats average s = (Ok t, s')"
  shows "st_pending_count t + st_submitted_count t + st_confirmed_count t + st_failed_count t \<le> st_total_count t
    \<and> st_total_count t = length (blockchain_operations (tk_rows s))
    \<and> st_confirmed_count t = length (filter (\<lambda>r. tr_status r = Some ''confirmed'') (blockchain_operations (tk_rows s)))"
proof -
  let ?c = "\<lambda>status. length (filter (\<lambda>r. tr_status r = Some status) (blockchain_operations (tk_rows s)))"
  have "st_total_count t = length (blockchain_operations (tk_rows s)) \<and> st_pending_count t = ?c ''pending'' \<and> st_submitted_count t = ?c ''submitted''
      \<and> st_confirmed_count t = ?c ''confirmed'' \<and> st_failed_count t = ?c ''failed''"
    using assms unfolding get_transaction_stats_def count_status_def by (elim bnd_OkE) (auto simp: ret_def dest!: tr_query_Ok)
  moreover have "?c ''pending'' + ?c ''submitted'' + ?c ''confirmed'' + ?c ''failed'' \<le> length (blockchain_operations (tk_rows s))"
    by (rule four_counts_le) simp
  ultimately show ?thesis by simp
qed

subsection \<open>Marking a transaction\<close>

text \<open>
  Marking a tracked transaction as failed counts one attempt.  When no statement is lost, the row of the table and
  identifier, and no other, becomes failed with the reason, its attempts go up by one, and its signature stays.
\<close>

theorem mark_failed_counts:
  assumes "faults (tk_world s) = []" and "table \<in> set tracked_tables"
  shows "\<exists>s'. mark_transaction_failed table i reason s = (Ok True, s') \<and> db (tk_world s') = db (tk_world s)
    \<and> tk_rows s' = update_where (\<lambda>r. tr_table r = table \<and> tr_id r = i)
        (\<lambda>r. r\<lparr>tr_attempts := map_option (\<lambda>n. n + 1) (tr_attempts r), tr_last_error := reason, tr_status := Some ''failed'', tr_updated_at := clock (tk_world s)\<rparr>) (tk_rows s)"
proof -
  define now where "now = clock (tk_world s)"
  define count where "count = (\<lambda>r :: tracked_row. r\<lparr>tr_attempts := map_option (\<lambda>n. n + 1) (tr_attempts r), tr_last_error := reason\<rparr>)"
  define close where "close = (\<lambda>r :: tracked_row. r\<lparr>tr_status := Some ''failed''\<rparr>)"
  have "on_hash now (on_hash now r (count r\<lparr>tr_updated_at := now\<rparr>)) (close (on_hash now r (count r\<lparr>tr_updated_at := now\<rparr>))\<lparr>tr_updated_at := now\<rparr>)
      = r\<lparr>tr_attempts := map_option (\<lambda>n. n + 1) (tr_attempts r), tr_last_error := reason, tr_status := Some ''failed'', tr_updated_at := now\<rparr>" for r
    by (cases "tr_signature r") (simp_all add: on_hash_def count_def close_def)
  moreover have "tr_table (on_hash now r (count r\<lparr>tr_updated_at := now\<rparr>)) = tr_table r \<and> tr_id (on_hash now r (count r\<lparr>tr_updated_at := now\<rparr>)) = tr_id r" for r
    by (simp add: on_hash_def count_def)
  ultimately have "update_tracked table i close now (update_tracked table i count now (tk_rows s))
    = update_where (\<lambda>r. tr_table r = table \<and> tr_id r = i)
        (\<lambda>r. r\<lparr>tr_attempts := map_option (\<lambda>n. n + 1) (tr_attempts r), tr_last_error := reason, tr_status := Some ''failed'', tr_updated_at := now\<rparr>) (tk_rows s)"
    by (simp add: update_tracked_def update_where_def)
  moreover have "mark_transaction_failed table i reason s = (Ok True, s\<lparr>tk_rows := update_tracked table i close now (update_tracked table i count now (tk_rows s))\<rparr>)"
    using assms by (simp add: mark_transaction_failed_def increment_blockchain_attempts_def tracked_function_def bnd_app sq_app io_simps now_def count_def close_def ret_def)
  ultimately show ?thesis by (simp add: now_def)
qed

subsection \<open>Monitoring and recovery reach no row\<close>

text \<open>
  The names that the view gives to the operations are no transaction types, so every operation is read as a swap,
  whose table has none of the columns.
\<close>

lemma operation_type_swap: "operation_type_of r = Swap"
proof -
  have "transaction_type_from ''trading_order'' = None" "transaction_type_from ''settlement'' = None"
    "transaction_type_from ''meter_reading'' = None" "transaction_type_from ''user_registration'' = None" by code_simp+
  then show ?thesis by (simp add: operation_type_of_def)
qed

lemma operations_are_swaps: "operations_of dflt rows s = (Ok ps, s') \<Longrightarrow> \<forall>p \<in> set ps. bo_operation_type p = Swap"
proof -
  assume "operations_of dflt rows s = (Ok ps, s')"
  then have "map Some ps = map (operation_of dflt) rows" by (rule operations_of_Ok)
  then have "Some p \<in> operation_of dflt ` set rows" if "p \<in> set ps" for p using that by (metis list.set_map image_eqI)
  then show ?thesis by (force simp: operation_of_def operation_type_swap split: option.splits)
qed

lemma swap_table: "get_table_name Swap \<notin> set tracked_tables"
  by (simp add: tracked_tables_def)

lemma leaves_marks:
  assumes "table \<notin> set tracked_tables"
  shows "leaves (mark_transaction_confirmed table i signature)" "leaves (mark_transaction_failed table i reason)"
  unfolding mark_transaction_confirmed_def mark_transaction_failed_def mark_blockchain_confirmed_def increment_blockchain_attempts_def tracked_function_def
  using assms by (simp_all add: leaves_intros)

lemma leaves_monitor:
  assumes "bo_operation_type p = Swap"
  shows "leaves (monitor_operation sv cfg p)"
  unfolding monitor_operation_def Let_def assms
  by (intro leaves_intros leaves_marks [OF swap_table]) (auto simp del: get_table_name.simps intro!: leaves_intros leaves_marks [OF swap_table] split: TransactionStatus.split option.split sum.split bool.split)

lemma swap_not_marked:
  "fst (mark_transaction_failed (get_table_name Swap) i reason s) \<noteq> Ok b"
  "mark_transaction_confirmed (get_table_name Swap) i signature s = (Ok b, s') \<Longrightarrow> \<not> b"
proof -
  show "fst (mark_transaction_failed (get_table_name Swap) i reason s) \<noteq> Ok b"
    using swap_table by (auto simp: mark_transaction_failed_def increment_blockchain_attempts_def tracked_function_def bnd_app sq_app tr_query_app fail_def
        simp del: get_table_name.simps split: outcome.splits)
  show "\<not> b" if "mark_transaction_confirmed (get_table_name Swap) i signature s = (Ok b, s')"
    using that swap_table tr_query_Ok [of "\<lambda>_. False"] by (auto simp: mark_transaction_confirmed_def mark_blockchain_confirmed_def tracked_function_def
        simp del: get_table_name.simps split: if_splits dest!: tr_query_Ok)
qed

lemma monitor_operation_zero:
  assumes "bo_operation_type p = Swap" and "monitor_operation sv cfg p s = (Ok n, s')"
  shows "n = 0"
  using assms(2) swap_not_marked(1) swap_not_marked(2) unfolding monitor_operation_def Let_def assms(1)
  by (auto elim!: bnd_OkE simp: ret_def simp del: get_table_name.simps split: if_splits TransactionStatus.splits option.splits sum.splits bool.splits) (metis fst_conv)+

lemma monitor_all_zero:
  assumes "\<forall>p \<in> set ps. bo_operation_type p = Swap"
  shows "leaves (monitor_all sv cfg ps) \<and> (monitor_all sv cfg ps s = (Ok n, s') \<longrightarrow> n = 0)"
  using assms
proof (induction ps arbitrary: s n)
  case (Cons p ps)
  then have "bo_operation_type p = Swap" by simp
  note one = leaves_monitor [OF this] monitor_operation_zero [OF this]
  have "leaves (monitor_all sv cfg (p # ps))" unfolding monitor_all.simps using Cons one(1) by (intro leaves_intros) auto
  moreover have "n = 0" if "monitor_all sv cfg (p # ps) s = (Ok n, s')"
    using that one(2) Cons by (auto elim!: bnd_OkE simp: ret_def)
  ultimately show ?case by blast
next
  case Nil
  then show ?case using leaves_basic(1) [of 0] by (simp add: ret_def)
qed

text \<open>
  No round of monitoring marks a transaction: it changes no row, and it reports no update or an error.
\<close>

theorem monitoring_marks_nothing:
  "leaves (monitor_pending_transactions sv cfg)"
  "monitor_pending_transactions sv cfg s = (Ok n, s') \<Longrightarrow> n = 0"
proof -
  have all: "bnd (operations_of TxPending rows) (monitor_all sv cfg) s1 = (r, s2) \<Longrightarrow>
      tk_rows s2 = tk_rows s1 \<and> db (tk_world s2) = db (tk_world s1) \<and> (\<forall>n. r = Ok n \<longrightarrow> n = 0)" for rows s1 r s2
  proof -
    assume run: "bnd (operations_of TxPending rows) (monitor_all sv cfg) s1 = (r, s2)"
    obtain r1 s3 where ops: "operations_of TxPending rows s1 = (r1, s3)" by (cases "operations_of TxPending rows s1")
    note same = leavesD [OF leaves_operations ops]
    show ?thesis
    proof (cases r1)
      case (Ok ps)
      note swaps = monitor_all_zero [OF operations_are_swaps [OF ops [unfolded Ok]]]
      have "monitor_all sv cfg ps s3 = (r, s2)" using run ops Ok by (simp add: bnd_app)
      then show ?thesis using leavesD [OF conjunct1 [OF swaps]] swaps same by metis
    qed (use run ops same in \<open>auto simp: bnd_app\<close>)
  qed
  have pairs: "tk_rows (snd (monitor_pending_transactions sv cfg s)) = tk_rows s \<and> db (tk_world (snd (monitor_pending_transactions sv cfg s))) = db (tk_world s)
      \<and> (\<forall>n. fst (monitor_pending_transactions sv cfg s) = Ok n \<longrightarrow> n = 0)" for s
  proof (cases "monitoring_enabled cfg")
    case True
    obtain r1 s1 where q: "tr_query awaiting s = (r1, s1)" by (cases "tr_query awaiting s")
    note same = leavesD [OF leaves_basic(4) q]
    show ?thesis
    proof (cases r1)
      case (Ok rows)
      obtain r s2 where run: "bnd (operations_of TxPending rows) (monitor_all sv cfg) s1 = (r, s2)"
        by (cases "bnd (operations_of TxPending rows) (monitor_all sv cfg) s1")
      from all [OF this] same q Ok run True show ?thesis by (simp add: monitor_pending_transactions_def bnd_app [of "tr_query awaiting"])
    qed (use q same True in \<open>auto simp: monitor_pending_transactions_def bnd_app\<close>)
  qed (simp add: monitor_pending_transactions_def ret_def)
  show "leaves (monitor_pending_transactions sv cfg)" using pairs by (simp add: leaves_def)
  show "n = 0" if "monitor_pending_transactions sv cfg s = (Ok n, s')" using pairs [of s] that by simp
qed

lemma retry_all_zero: "\<forall>p \<in> set ps. bo_operation_type p = Swap \<Longrightarrow> retry_all e scfg ps = ret 0"
  by (induction ps) (simp_all add: fun_eq_iff bnd_app)

text \<open>
  Recovery retries nothing: the list of failed transactions is read and every one is skipped, and a request to retry
  one transaction is never successful.
\<close>

theorem recovery_retries_nothing:
  "retry_failed_transactions e scfg cfg m s = (Ok n, s') \<Longrightarrow> n = 0 \<and> tk_rows s' = tk_rows s \<and> db (tk_world s') = db (tk_world s)"
  "retry_operation e scfg cfg q s = (Ok r, s') \<Longrightarrow> \<not> rp_success r \<and> tk_rows s' = tk_rows s \<and> db (tk_world s') = db (tk_world s)"
proof -
  assume run: "retry_failed_transactions e scfg cfg m s = (Ok n, s')"
  show "n = 0 \<and> tk_rows s' = tk_rows s \<and> db (tk_world s') = db (tk_world s)"
  proof (cases "monitoring_enabled cfg")
    case True
    with run obtain s1 rows ps s2 where q: "tr_query (to_retry m) s = (Ok rows, s1)" and ops: "operations_of TxFailed rows s1 = (Ok ps, s2)"
      and rest: "retry_all e scfg ps s2 = (Ok n, s')" by (auto simp: retry_failed_transactions_def elim!: bnd_OkE)
    show ?thesis
      using rest retry_all_zero [OF operations_are_swaps [OF ops]] leavesD [OF leaves_basic(4) q] leavesD [OF leaves_operations ops] by (simp add: ret_def)
  qed (use run in \<open>simp add: retry_failed_transactions_def ret_def\<close>)
next
  assume run: "retry_operation e scfg cfg q s = (Ok r, s')"
  obtain r1 s1 where get: "get_blockchain_operation (rq_operation_id q) s = (r1, s1)" by (cases "get_blockchain_operation (rq_operation_id q) s")
  note same = leavesD [OF leaves_queries(1) get]
  show "\<not> rp_success r \<and> tk_rows s' = tk_rows s \<and> db (tk_world s') = db (tk_world s)"
  proof (cases r1)
    case (Ok p)
    then have "bo_operation_type p = Swap"
      using get by (auto simp: get_blockchain_operation_def operation_of_def operation_type_swap fail_def ret_def panic_def elim!: bnd_OkE split: option.splits)
    then show ?thesis using run get Ok same by (auto simp: retry_operation_def bnd_app attempt_app Let_def ret_def not_retried_def split: if_splits)
  next
    case (Err er)
    then show ?thesis using run get same by (auto simp: retry_operation_def bnd_app attempt_app ret_def)
  next
    case Panic
    then show ?thesis using run get by (simp add: retry_operation_def bnd_app attempt_app)
  qed
qed

subsection \<open>Witnesses\<close>

definition sample_tracked :: tracked_row where
  "sample_tracked = \<lparr>tr_table = ''settlements'', tr_id = 7, tr_user_id = Some 1, tr_signature = Some ''sig'', tr_tx_type = Some ''settlement'', tr_status = Some ''submitted'',
     tr_attempts = Some 0, tr_last_error = None, tr_submitted_at = Some 0, tr_confirmed_at = None, tr_created_at = 0, tr_updated_at = 0\<rparr>"

definition sample_tracker :: tracker where
  "sample_tracker = \<lparr>tk_world = calm_world empty_db, tk_rows = [sample_tracked, sample_tracked\<lparr>tr_id := 8, tr_user_id := Some 2\<rparr>], tk_asked = []\<rparr>"

definition no_filters :: transaction_filters where
  "no_filters = \<lparr>tf_user_id = None, tf_operation_type = None, tf_tx_type = None, tf_status = None, tf_date_from = None, tf_date_to = None,
     tf_min_attempts = None, tf_has_signature = None, tf_limit = None, tf_offset = None\<rparr>"

lemma sample_listing:
  "\<exists>x. get_user_transactions (\<lambda>_ _. None) 1 no_filters sample_tracker = (Ok [x], sample_tracker) \<and> tx_operation_id x = 7"
  by (simp add: get_user_transactions_def get_transactions_def get_transactions_with_filters_def bnd_app io_simps sample_tracker_def select_operations_def spliced_def no_filters_def
      blockchain_operations_def view_tables_def sample_tracked_def query_window_def matches_filters_def operation_of_def ret_def response_of_def)

theorem user_transactions_private_witness:
  "\<exists>x. get_user_transactions (\<lambda>_ _. None) 1 no_filters sample_tracker = (Ok [x], sample_tracker) \<and> tx_user_id x = 1"
  using sample_listing user_transactions_private [of "\<lambda>_ _. None" 1 no_filters sample_tracker] by (auto simp: spliced_def no_filters_def)

theorem transaction_stats_add_up_witness:
  "\<exists>t. get_transaction_stats (\<lambda>_. Inr None) sample_tracker = (Ok t, sample_tracker) \<and> st_submitted_count t = 2 \<and> st_total_count t = 2"
proof -
  have "\<exists>t. get_transaction_stats (\<lambda>_. Inr None) sample_tracker = (Ok t, sample_tracker) \<and> st_submitted_count t = 2"
    by (simp add: get_transaction_stats_def count_status_def bnd_app io_simps sample_tracker_def blockchain_operations_def view_tables_def sample_tracked_def ret_def)
  then show ?thesis using transaction_stats_add_up [of "\<lambda>_. Inr None" sample_tracker]
    by (auto simp: sample_tracker_def blockchain_operations_def view_tables_def sample_tracked_def)
qed

theorem mark_failed_counts_witness:
  "\<exists>s'. mark_transaction_failed ''settlements'' 7 (Some ''lost'') sample_tracker = (Ok True, s') \<and> map tr_attempts (tk_rows s') = [Some 1, Some 0]"
  using mark_failed_counts [of sample_tracker "''settlements''" 7 "Some ''lost''"] by (auto simp: sample_tracker_def tracked_tables_def sample_tracked_def)

text \<open>
  One row without an owner, such as a meter reading, stops the monitoring of all: its user is \<open>NULL\<close>, which does not decode.
\<close>

theorem unowned_row_stops_monitoring:
  "fst (monitor_pending_transactions sv monitoring_default
     (sample_tracker\<lparr>tk_rows := [sample_tracked\<lparr>tr_table := ''meter_readings_old_backup'', tr_user_id := None\<rparr>]\<rparr>)) = Err (Database ''unexpected null'')"
  by (simp add: monitor_pending_transactions_def monitoring_default_def bnd_app io_simps sample_tracker_def awaiting_def blockchain_operations_def view_tables_def
      sample_tracked_def operation_of_def fail_def)

end
