(* ===== verification/Meter_Api.thy ===== *)
theory Meter_Api
  imports Readings Accounts
begin

text \<open>
  The endpoints for meters that read and those of the simulator: \<open>src/src/handlers/auth/meters/query.rs\<close>, \<open>public.rs\<close>
  and \<open>src/src/handlers/meter/stub.rs\<close>.

  A row decodes into the types of the response or the request fails: a column that may be \<open>NULL\<close> does not decode into a
  plain value, a \<open>NUMERIC\<close> column not into a double.  The server's order of the users is a parameter.  Broadcasts are left out,
  but for the alerts that a reading raises, which are part of its result.
\<close>

subsection \<open>Decoding\<close>

datatype sql_value = SqlNull | SqlNumeric rat | SqlFloat rat

definition numeric_value :: "decimal option \<Rightarrow> sql_value" where
  "numeric_value x = (case x of None \<Rightarrow> SqlNull | Some v \<Rightarrow> SqlNumeric v)"

text \<open>\<open>try_get::<f64>\<close> and \<open>try_get::<Option<f64>>\<close>; the cast \<open>::FLOAT8\<close>.\<close>

fun get_f64 :: "sql_value \<Rightarrow> rat option" where
  "get_f64 (SqlFloat x) = Some x"
| "get_f64 _ = None"

fun get_f64_opt :: "sql_value \<Rightarrow> rat option option" where
  "get_f64_opt (SqlFloat x) = Some (Some x)"
| "get_f64_opt SqlNull = Some None"
| "get_f64_opt (SqlNumeric x) = None"

definition to_float8 :: "decimal option \<Rightarrow> rat option" where
  "to_float8 x = map_option f64 x"

text \<open>A query whose rows are decoded, and what a handler makes of a failure that it only logs.\<close>

definition fetch_decoded :: "(db \<Rightarrow> 'a option list option) \<Rightarrow> (world, 'a list) io" where
  "fetch_decoded q = bnd (query q) (\<lambda>r. case Option.bind r those of
      None \<Rightarrow> fail (Database ''decoding or range error'') | Some xs \<Rightarrow> ret xs)"

definition or_empty :: "(world, 'a list) io \<Rightarrow> (world, 'a list) io" where
  "or_empty m = bnd (attempt m) (\<lambda>r. ret (case r of Inl _ \<Rightarrow> [] | Inr xs \<Rightarrow> xs))"

definition window :: "i64 \<Rightarrow> i64 \<Rightarrow> 'a list \<Rightarrow> 'a list option" where
  "window cap skip xs = (if sint cap < 0 \<or> sint skip < 0 then None else Some (take (nat (sint cap)) (drop (nat (sint skip)) xs)))"

definition min_i64 :: "i64 \<Rightarrow> i64 \<Rightarrow> i64" where
  "min_i64 x y = (if sint x \<le> sint y then x else y)"

subsection \<open>Lists of meters\<close>

definition meter_of_row :: "meter_row \<times> user_row \<Rightarrow> meter_response option" where
  "meter_of_row r = (case r of (m, u) \<Rightarrow> (case (mt_meter_type m, mt_location m, mt_is_verified m) of
      (Some t, Some l, Some v) \<Rightarrow> Some
        \<lparr> ms_id = mt_id m, ms_serial_number = mt_serial_number m, ms_meter_type = t, ms_location = l, ms_is_verified = v,
          ms_wallet_address = unwrap_or (wallet_address u) [], ms_latitude = mt_latitude m, ms_longitude = mt_longitude m, ms_zone_id = mt_zone_id m \<rparr>
    | _ \<Rightarrow> None))"

definition owned_meters :: "db \<Rightarrow> (meter_row \<times> user_row) list" where
  "owned_meters d = concat (map (\<lambda>m. case users d (mt_user_id m) of Some u \<Rightarrow> [(m, u)] | None \<Rightarrow> []) (meters d))"

definition list_meters :: "(meter_row \<Rightarrow> bool) \<Rightarrow> (world, meter_response list) io" where
  "list_meters p = or_empty (fetch_decoded (\<lambda>d. Some (map meter_of_row (filter (\<lambda>(m, u). p m) (owned_meters d)))))"

definition get_my_meters :: "env \<Rightarrow> string option \<Rightarrow> (world, meter_response list) io" where
  "get_my_meters e auth_header =
    bnd get_clock (\<lambda>now. case jwt_decode e now (strip_bearer (unwrap_or auth_header [])) of
      Some c \<Rightarrow> list_meters (\<lambda>m. mt_user_id m = cl_sub c)
    | None \<Rightarrow> ret [])"

definition get_registered_meters :: "(world, meter_response list) io" where
  "get_registered_meters = list_meters (\<lambda>m. mt_is_verified m = Some True)"

definition get_registered_meters_filtered :: "string option \<Rightarrow> (world, meter_response list) io" where
  "get_registered_meters_filtered status = list_meters (\<lambda>m.
     if status = Some ''verified'' \<or> status = Some ''active'' then mt_is_verified m = Some True
     else if status = Some ''pending'' then mt_is_verified m = Some False else True)"

subsection \<open>A user's readings\<close>

record my_reading =
  my_id :: uuid
  my_meter_serial :: string
  my_kwh :: rat
  my_timestamp :: time
  my_submitted_at :: time
  my_minted :: bool
  my_tx_signature :: "string option"
  my_message :: "string option"

definition my_reading_of :: "reading_row \<Rightarrow> my_reading option" where
  "my_reading_of r = (case (rd_meter_serial r, to_float8 (rd_kwh_amount r), rd_created_at r, rd_minted r) of
      (Some s, Some k, Some t, Some m) \<Rightarrow> Some
        \<lparr> my_id = rd_id r, my_meter_serial = s, my_kwh = k, my_timestamp = rd_reading_timestamp r, my_submitted_at = t, my_minted = m,
          my_tx_signature = rd_mint_tx_signature r, my_message = None \<rparr>
    | _ \<Rightarrow> None)"

definition readings_of_user :: "uuid \<Rightarrow> db \<Rightarrow> reading_row list" where
  "readings_of_user user d = filter (\<lambda>r. rd_user_id r = Some user) (meter_readings d)"

definition get_my_readings :: "uuid \<Rightarrow> i64 option \<Rightarrow> i64 option \<Rightarrow> (world, my_reading list) io" where
  "get_my_readings user limit_param offset_param =
    or_empty (fetch_decoded (\<lambda>d. map_option (map my_reading_of)
      (window (min_i64 (unwrap_or limit_param 50) 1000) (unwrap_or offset_param 0)
        (sort_key (\<lambda>r. - rd_reading_timestamp r) (readings_of_user user d)))))"

record meter_stats =
  sx_total_produced :: rat
  sx_total_consumed :: rat
  sx_last_reading_time :: "time option"
  sx_total_minted :: rat
  sx_total_minted_count :: nat
  sx_pending_mint :: rat
  sx_pending_mint_count :: nat

definition stats_default :: meter_stats where
  "stats_default = \<lparr>sx_total_produced = 0, sx_total_consumed = 0, sx_last_reading_time = None, sx_total_minted = 0,
     sx_total_minted_count = 0, sx_pending_mint = 0, sx_pending_mint_count = 0\<rparr>"

text \<open>\<open>SUM\<close> leaves out missing values and is missing itself when there is none; \<open>MAX\<close> likewise.\<close>

definition sql_sum :: "decimal option list \<Rightarrow> decimal option" where
  "sql_sum xs = (let ys = List.map_filter id xs in if ys = [] then None else Some (sum_list ys))"

definition latest_time :: "time list \<Rightarrow> time option" where
  "latest_time ts = (if ts = [] then None else Some (Max (set ts)))"

definition minted_reading :: "reading_row \<Rightarrow> bool" where
  "minted_reading r \<longleftrightarrow> rd_minted r = Some True"

definition unminted_surplus :: "reading_row \<Rightarrow> bool" where
  "unminted_surplus r \<longleftrightarrow> rd_minted r = Some False \<and> (case rd_kwh_amount r of Some k \<Rightarrow> k > 0 | None \<Rightarrow> False)"

definition stats_of :: "reading_row list \<Rightarrow> meter_stats" where
  "stats_of rs =
    \<lparr> sx_total_produced = unwrap_or (to_float8 (sql_sum (map rd_energy_generated rs))) 0,
      sx_total_consumed = unwrap_or (to_float8 (sql_sum (map rd_energy_consumed rs))) 0,
      sx_last_reading_time = latest_time (map rd_reading_timestamp rs),
      sx_total_minted = unwrap_or (to_float8 (sql_sum (map (\<lambda>r. if minted_reading r then rd_kwh_amount r else Some 0) rs))) 0,
      sx_total_minted_count = length (filter minted_reading rs),
      sx_pending_mint = unwrap_or (to_float8 (sql_sum (map (\<lambda>r. if unminted_surplus r then rd_kwh_amount r else Some 0) rs))) 0,
      sx_pending_mint_count = length (filter unminted_surplus rs) \<rparr>"

definition get_meter_stats :: "uuid \<Rightarrow> (world, meter_stats) io" where
  "get_meter_stats user = bnd (attempt (query (\<lambda>d. stats_of (readings_of_user user d)))) (\<lambda>r. ret (case r of Inl _ \<Rightarrow> stats_default | Inr s \<Rightarrow> s))"

subsection \<open>The public map\<close>

record public_meter =
  pm_location :: string
  pm_meter_type :: string
  pm_is_verified :: bool
  pm_latitude :: "rat option"
  pm_longitude :: "rat option"
  pm_current_generation :: "rat option"
  pm_current_consumption :: "rat option"
  pm_voltage :: "rat option"
  pm_current :: "rat option"
  pm_frequency :: "rat option"
  pm_power_factor :: "rat option"
  pm_surplus_energy :: "rat option"
  pm_deficit_energy :: "rat option"
  pm_zone_id :: "i32 option"

definition latest_of_serial :: "string \<Rightarrow> db \<Rightarrow> reading_row option" where
  "latest_of_serial serial d = (case sort_key (\<lambda>r. - rd_reading_timestamp r) (filter (\<lambda>r. rd_meter_serial r = Some serial) (meter_readings d)) of
      [] \<Rightarrow> None | r # _ \<Rightarrow> Some r)"

definition public_of :: "db \<Rightarrow> meter_row \<Rightarrow> public_meter option" where
  "public_of d m = (let lr = latest_of_serial (mt_serial_number m) d in
     case (mt_meter_type m, mt_location m, mt_is_verified m) of
      (Some t, Some l, Some v) \<Rightarrow> Some
        \<lparr> pm_location = l, pm_meter_type = t, pm_is_verified = v, pm_latitude = mt_latitude m, pm_longitude = mt_longitude m,
          pm_current_generation = Option.bind lr (\<lambda>r. to_float8 (rd_energy_generated r)), pm_current_consumption = Option.bind lr (\<lambda>r. to_float8 (rd_energy_consumed r)),
          pm_voltage = Option.bind lr (\<lambda>r. to_float8 (rd_voltage r)), pm_current = Option.bind lr (\<lambda>r. rx_current_amps (rd_extra r)),
          pm_frequency = Option.bind lr (\<lambda>r. rx_frequency (rd_extra r)), pm_power_factor = Option.bind lr (\<lambda>r. rx_power_factor (rd_extra r)),
          pm_surplus_energy = Option.bind lr (\<lambda>r. to_float8 (rd_surplus_energy r)), pm_deficit_energy = Option.bind lr (\<lambda>r. to_float8 (rd_deficit_energy r)),
          pm_zone_id = mt_zone_id m \<rparr>
    | _ \<Rightarrow> None)"

definition public_get_meters :: "(world, public_meter list) io" where
  "public_get_meters = or_empty (fetch_decoded (\<lambda>d. Some (map (public_of d) (filter (\<lambda>m. mt_is_verified m = Some True) (meters d)))))"

subsection \<open>Readings of a meter\<close>

record reading_record =
  rr_id :: uuid
  rr_meter_serial :: string
  rr_timestamp :: time
  rr_kwh_amount :: rat
  rr_energy_generated :: "rat option"
  rr_energy_consumed :: "rat option"
  rr_voltage :: "rat option"
  rr_current_amps :: "rat option"
  rr_power_factor :: "rat option"
  rr_frequency :: "rat option"
  rr_temperature :: "rat option"
  rr_thd_voltage :: "rat option"
  rr_thd_current :: "rat option"
  rr_latitude :: "rat option"
  rr_longitude :: "rat option"
  rr_battery_level :: "rat option"
  rr_health_score :: "rat option"
  rr_minted :: bool

definition reading_record_of :: "reading_row \<Rightarrow> reading_record option" where
  "reading_record_of r =
    Option.bind (rd_meter_serial r) (\<lambda>serial.
    Option.bind (get_f64 (numeric_value (rd_kwh_amount r))) (\<lambda>kwh.
    Option.bind (get_f64_opt (numeric_value (rd_energy_generated r))) (\<lambda>gen.
    Option.bind (get_f64_opt (numeric_value (rd_energy_consumed r))) (\<lambda>cons.
    Option.bind (get_f64_opt (numeric_value (rd_voltage r))) (\<lambda>v.
    Option.bind (get_f64_opt (numeric_value (rd_temperature r))) (\<lambda>t.
    Option.bind (get_f64_opt (numeric_value (rd_battery_level r))) (\<lambda>b.
    Option.bind (rd_minted r) (\<lambda>m.
    Some \<lparr> rr_id = rd_id r, rr_meter_serial = serial, rr_timestamp = rd_timestamp r, rr_kwh_amount = kwh, rr_energy_generated = gen, rr_energy_consumed = cons,
           rr_voltage = v, rr_current_amps = rx_current_amps (rd_extra r), rr_power_factor = rx_power_factor (rd_extra r), rr_frequency = rx_frequency (rd_extra r),
           rr_temperature = t, rr_thd_voltage = rx_thd_voltage (rd_extra r), rr_thd_current = rx_thd_current (rd_extra r), rr_latitude = rx_latitude (rd_extra r),
           rr_longitude = rx_longitude (rd_extra r), rr_battery_level = b, rr_health_score = rd_health_score r, rr_minted = m \<rparr>))))))))"

record readings_response =
  rg_readings :: "reading_record list"
  rg_total :: nat
  rg_limit :: i64
  rg_offset :: i64

text \<open>Without \<open>from\<close> the query does not look at \<open>to\<close>.\<close>

definition in_period :: "time option \<Rightarrow> time option \<Rightarrow> reading_row \<Rightarrow> bool" where
  "in_period from to r \<longleftrightarrow> (case (from, to) of
      (Some a, Some b) \<Rightarrow> a \<le> rd_timestamp r \<and> rd_timestamp r \<le> b
    | (Some a, None) \<Rightarrow> a \<le> rd_timestamp r
    | _ \<Rightarrow> True)"

definition of_serial :: "string \<Rightarrow> db \<Rightarrow> reading_row list" where
  "of_serial serial d = filter (\<lambda>r. rd_meter_serial r = Some serial) (meter_readings d)"

definition get_meter_readings :: "string \<Rightarrow> time option \<Rightarrow> time option \<Rightarrow> i64 option \<Rightarrow> i64 option \<Rightarrow> (world, readings_response) io" where
  "get_meter_readings serial from to limit_param offset_param =
    (let cap = min_i64 (unwrap_or limit_param 100) 1000; skip = unwrap_or offset_param 0 in
     bnd (fetch_decoded (\<lambda>d. map_option (map reading_record_of) (window cap skip
            (sort_key (\<lambda>r. - rd_timestamp r) (filter (in_period from to) (of_serial serial d)))))) (\<lambda>rs.
     bnd (attempt (query (\<lambda>d. length (of_serial serial d)))) (\<lambda>n.
     ret \<lparr>rg_readings = rs, rg_total = (case n of Inl _ \<Rightarrow> 0 | Inr k \<Rightarrow> k), rg_limit = cap, rg_offset = skip\<rparr>)))"

definition health_data_of :: "reading_row \<Rightarrow> (reading_data \<times> time) option" where
  "health_data_of r =
    Option.bind (get_f64_opt (numeric_value (rd_voltage r))) (\<lambda>v.
    Option.bind (get_f64_opt (numeric_value (rd_battery_level r))) (\<lambda>b.
    Some (\<lparr> dt_voltage = v, dt_frequency = None, dt_battery_level = b, dt_power_factor = rx_power_factor (rd_extra r),
            dt_thd_voltage = rx_thd_voltage (rd_extra r), dt_thd_current = rx_thd_current (rd_extra r) \<rparr>, rd_timestamp r)))"

definition get_meter_health :: "string \<Rightarrow> (world, meter_health_response) io" where
  "get_meter_health serial =
    bnd (fetch_decoded (\<lambda>d. Some (map health_data_of (take 1 (sort_key (\<lambda>r. - rd_timestamp r) (of_serial serial d)))))) (\<lambda>rows.
    ret (meter_health_of serial (case rows of [] \<Rightarrow> None | x # _ \<Rightarrow> Some x)))"

record trend_record =
  td_time_bucket :: time
  td_production :: "rat option"
  td_consumption :: "rat option"
  td_net_energy :: "rat option"
  td_avg_health :: "rat option"

record trend_response =
  te_meter_serial :: string
  te_period :: string
  te_data :: "trend_record list"

text \<open>\<open>DATE_TRUNC\<close> and the server's average of doubles are parameters.\<close>

definition trend_of :: "(rat list \<Rightarrow> rat) \<Rightarrow> time \<Rightarrow> reading_row list \<Rightarrow> trend_record option" where
  "trend_of avg bucket rs =
    Option.bind (get_f64_opt (numeric_value (sql_sum (map rd_energy_generated rs)))) (\<lambda>gen.
    Option.bind (get_f64_opt (numeric_value (sql_sum (map rd_energy_consumed rs)))) (\<lambda>cons.
    Option.bind (get_f64_opt (numeric_value (sql_sum (map rd_kwh_amount rs)))) (\<lambda>net.
    Some \<lparr> td_time_bucket = bucket, td_production = gen, td_consumption = cons, td_net_energy = net,
           td_avg_health = (let hs = List.map_filter rd_health_score rs in if hs = [] then None else Some (avg hs)) \<rparr>)))"

definition trend_interval :: "string \<Rightarrow> string" where
  "trend_interval period = (if period = ''hour'' then ''hour'' else if period = ''month'' then ''month'' else ''day'')"

definition get_meter_trends :: "(string \<Rightarrow> time \<Rightarrow> time) \<Rightarrow> (rat list \<Rightarrow> rat) \<Rightarrow> string \<Rightarrow> string option \<Rightarrow> time option \<Rightarrow> time option \<Rightarrow> (world, trend_response) io" where
  "get_meter_trends trunc avg serial period from to =
    bnd get_clock (\<lambda>now.
    let interval = trend_interval (unwrap_or period ''day''); a = unwrap_or from (now - 30 * 24 * 3600 * 1000000000); b = unwrap_or to now in
    bnd (fetch_decoded (\<lambda>d.
      let rs = filter (\<lambda>r. a \<le> rd_timestamp r \<and> rd_timestamp r \<le> b) (of_serial serial d);
          buckets = sorted_list_of_set (set (map (\<lambda>r. trunc interval (rd_timestamp r)) rs))
      in Some (map (\<lambda>k. trend_of avg k (filter (\<lambda>r. trunc interval (rd_timestamp r) = k) rs)) buckets))) (\<lambda>rows.
    ret \<lparr>te_meter_serial = serial, te_period = interval, te_data = rows\<rparr>))"

subsection \<open>Registration by the simulator\<close>

record register_by_id_request =
  ri_meter_id :: string
  ri_wallet_address :: string
  ri_meter_type :: "string option"
  ri_location :: "string option"
  ri_latitude :: "rat option"
  ri_longitude :: "rat option"
  ri_zone_id :: "i32 option"

record register_by_id_response =
  rb_success :: bool
  rb_message :: string
  rb_meter_id :: string

definition simulator_email :: "string \<Rightarrow> string" where
  "simulator_email wallet = ''simulator_'' @ take 8 wallet @ ''@gridtokenx.local''"

definition simulator_user :: "string \<Rightarrow> user_row" where
  "simulator_user wallet =
    \<lparr> balance = Some 0, locked_amount = Some 0, locked_energy = Some 0, wallet_address = Some wallet, encrypted_private_key = None,
      wallet_salt = None, encryption_iv = None, email = simulator_email wallet, email_verified = True,
      account = \<lparr> ac_username = simulator_email wallet, ac_password_hash = ''simulator_no_password'', ac_role = ''prosumer'', ac_first_name = None,
        ac_last_name = None, ac_is_active = Some True, ac_blockchain_registered = Some False, ac_email_verification_token = None,
        ac_email_verification_expires_at = None, ac_password_reset_token = None, ac_password_reset_expires_at = None \<rparr> \<rparr>"

text \<open>
  \<open>INSERT ... ON CONFLICT (email) DO UPDATE SET wallet_address\<close>: with the address of an existing row, that row gets the wallet,
  which no other row may have; otherwise the new row has to meet every constraint.
\<close>

definition wallet_free :: "uuid list \<Rightarrow> uuid \<Rightarrow> string \<Rightarrow> db \<Rightarrow> bool" where
  "wallet_free scan u wallet d \<longleftrightarrow> list_all (\<lambda>v. v = u \<or> (case users d v of None \<Rightarrow> True | Some r \<Rightarrow> wallet_address r \<noteq> Some wallet)) scan"

definition upsert_simulator_ok :: "uuid list \<Rightarrow> uuid \<Rightarrow> string \<Rightarrow> db \<Rightarrow> bool" where
  "upsert_simulator_ok scan i wallet d \<longleftrightarrow> length wallet \<le> 88 \<and> (case find_user scan (\<lambda>r. email r = simulator_email wallet) d of
      Some (u, _) \<Rightarrow> wallet_free scan u wallet d
    | None \<Rightarrow> user_fits scan i (simulator_user wallet) d \<and> wallet_free scan i wallet d)"

definition upsert_simulator :: "uuid list \<Rightarrow> uuid \<Rightarrow> string \<Rightarrow> db \<Rightarrow> db" where
  "upsert_simulator scan i wallet d = (case find_user scan (\<lambda>r. email r = simulator_email wallet) d of
      Some (u, r) \<Rightarrow> d\<lparr>users := (users d)(u \<mapsto> r\<lparr>wallet_address := Some wallet\<rparr>)\<rparr>
    | None \<Rightarrow> d\<lparr>users := (users d)(i \<mapsto> simulator_user wallet)\<rparr>)"

definition user_by_wallet :: "uuid list \<Rightarrow> string \<Rightarrow> (world, uuid option) io" where
  "user_by_wallet scan wallet = bnd (attempt (query (find_user scan (\<lambda>r. wallet_address r = Some wallet)))) (\<lambda>r.
     ret (case r of Inr (Some (u, _)) \<Rightarrow> Some u | _ \<Rightarrow> None))"

text \<open>The statement returns the identifier of the row, but the code executes it and returns the one it drew.\<close>

definition get_or_create_simulator_user :: "env \<Rightarrow> uuid list \<Rightarrow> string \<Rightarrow> (world, uuid) io" where
  "get_or_create_simulator_user e scan wallet =
    bnd (user_by_wallet scan wallet) (\<lambda>existing. case existing of
      Some u \<Rightarrow> ret u
    | None \<Rightarrow>
       bnd (fresh_uuid e) (\<lambda>i.
       bnd (attempt (exec_chk (upsert_simulator_ok scan i wallet) (upsert_simulator scan i wallet))) (\<lambda>inserted. case inserted of
         Inr _ \<Rightarrow> ret i
       | Inl _ \<Rightarrow> bnd (user_by_wallet scan wallet) (\<lambda>again. case again of
           Some u \<Rightarrow> ret u
         | None \<Rightarrow> fail (Internal ''Failed to create simulator user'')))))"

definition touch_registry :: "register_by_id_request \<Rightarrow> time \<Rightarrow> db \<Rightarrow> db" where
  "touch_registry q now d = d\<lparr>meter_registry := update_where (\<lambda>r. mr_meter_serial r = ri_meter_id q)
     (\<lambda>r. r\<lparr>mr_updated_at := Some now, mr_location_address := (case ri_location q of Some l \<Rightarrow> Some l | None \<Rightarrow> mr_location_address r),
          mr_zone_id := (case ri_zone_id q of Some z \<Rightarrow> Some z | None \<Rightarrow> mr_zone_id r)\<rparr>) (meter_registry d)\<rparr>"

definition upsert_registry_ok :: "registry_row \<Rightarrow> db \<Rightarrow> bool" where
  "upsert_registry_ok r d \<longleftrightarrow> list_ex (\<lambda>x. mr_meter_serial x = mr_meter_serial r) (meter_registry d) \<or> registry_fits r d"

definition upsert_registry :: "registry_row \<Rightarrow> time \<Rightarrow> db \<Rightarrow> db" where
  "upsert_registry r now d = (if list_ex (\<lambda>x. mr_meter_serial x = mr_meter_serial r) (meter_registry d)
     then d\<lparr>meter_registry := update_where (\<lambda>x. mr_meter_serial x = mr_meter_serial r)
       (\<lambda>x. x\<lparr>mr_zone_id := mr_zone_id r, mr_location_address := mr_location_address r, mr_updated_at := Some now\<rparr>) (meter_registry d)\<rparr>
     else add_registry r d)"

definition register_meter_by_id :: "env \<Rightarrow> uuid list \<Rightarrow> register_by_id_request \<Rightarrow> (world, register_by_id_response) io" where
  "register_meter_by_id e scan q =
    (let serial = ri_meter_id q in
     bnd (attempt (query (\<lambda>d. length (filter (\<lambda>m. mt_serial_number m = serial) (meters d))))) (\<lambda>existing.
     if (case existing of Inr n \<Rightarrow> n > 0 | Inl _ \<Rightarrow> False) then
       sq (if ri_latitude q \<noteq> None \<or> ri_longitude q \<noteq> None then bnd get_clock (\<lambda>now. ignore (exec (touch_registry q now))) else ret ())
       (ret \<lparr>rb_success = True, rb_message = ''Meter '' @ serial @ '' is already registered'', rb_meter_id = serial\<rparr>)
     else
      bnd (get_or_create_simulator_user e scan (ri_wallet_address q)) (\<lambda>user.
      bnd (fresh_uuid e) (\<lambda>i. bnd get_clock (\<lambda>now.
      let meter_type = unwrap_or (ri_meter_type q) ''solar''; location = unwrap_or (ri_location q) ''Simulator'';
          m = \<lparr> mt_id = i, mt_user_id = user, mt_serial_number = serial, mt_meter_type = Some meter_type, mt_location = Some location,
                mt_latitude = ri_latitude q, mt_longitude = ri_longitude q, mt_zone_id = ri_zone_id q, mt_is_verified = Some True \<rparr>;
          r = (registry_default i user serial now)\<lparr> mr_meter_type := Some meter_type, mr_location_address := Some location,
                mr_meter_key_hash := ''simulator_hash'', mr_verification_method := ''auto'', mr_verification_status := ''verified'', mr_zone_id := ri_zone_id q \<rparr>
      in bnd (attempt (exec_chk (meter_fits m) (\<lambda>d. d\<lparr>meters := meters d @ [m]\<rparr>))) (\<lambda>inserted. case inserted of
           Inr _ \<Rightarrow> sq (ignore (exec_chk (upsert_registry_ok r) (upsert_registry r now)))
             (ret \<lparr>rb_success = True, rb_message = ''Meter '' @ serial @ '' registered and verified'', rb_meter_id = serial\<rparr>)
         | Inl er \<Rightarrow> fail (Internal (''Failed to register meter: '' @ sql_text er))))))))"

definition is_meter_registered :: "string \<Rightarrow> (world, bool) io" where
  "is_meter_registered serial = bnd (attempt (query (\<lambda>d. length (filter (\<lambda>m. mt_serial_number m = serial) (meters d)))))
     (\<lambda>r. ret (case r of Inr n \<Rightarrow> n > 0 | Inl _ \<Rightarrow> False))"

subsection \<open>Readings of the simulator\<close>

record submit_reading_request =
  sb_wallet_address :: "string option"
  sb_kwh_amount :: decimal
  sb_reading_timestamp :: time
  sb_meter_serial :: "string option"
  sb_energy_generated :: "rat option"
  sb_energy_consumed :: "rat option"
  sb_surplus_energy :: "rat option"
  sb_deficit_energy :: "rat option"
  sb_power_generated :: "rat option"
  sb_power_consumed :: "rat option"
  sb_voltage :: "rat option"
  sb_current :: "rat option"
  sb_power_factor :: "rat option"
  sb_frequency :: "rat option"
  sb_temperature :: "rat option"
  sb_thd_voltage :: "rat option"
  sb_thd_current :: "rat option"
  sb_latitude :: "rat option"
  sb_longitude :: "rat option"
  sb_battery_level :: "rat option"

record submitted_reading =
  su_id :: uuid
  su_wallet_address :: string
  su_kwh_amount :: decimal
  su_reading_timestamp :: time
  su_submitted_at :: time
  su_minted :: bool
  su_mint_tx_signature :: "string option"
  su_message :: string
  su_alerts :: "meter_alert list"

definition submitted_data :: "submit_reading_request \<Rightarrow> reading_data" where
  "submitted_data q = \<lparr> dt_voltage = sb_voltage q, dt_frequency = sb_frequency q, dt_battery_level = sb_battery_level q, dt_power_factor = sb_power_factor q,
     dt_thd_voltage = sb_thd_voltage q, dt_thd_current = sb_thd_current q \<rparr>"

definition serial_or_unknown :: "submit_reading_request \<Rightarrow> string" where
  "serial_or_unknown q = unwrap_or (sb_meter_serial q) ''unknown''"

definition watt_hours :: "rat \<Rightarrow> u64" where
  "watt_hours kwh = word_of_int \<lfloor>f64 (kwh * 1000)\<rfloor>"

definition authority_error :: string where
  "authority_error = ''Authority keypair not loaded. Call initialize_authority() first.''"

text \<open>
  The tokens of a reading: minted for generation, burned for consumption.  The answer of the registry program is
  dropped; an error becomes part of the message.
\<close>

definition token_action :: "env \<Rightarrow> string \<Rightarrow> string \<Rightarrow> string \<Rightarrow> string \<Rightarrow> string
    \<Rightarrow> (string \<Rightarrow> string \<Rightarrow> string \<Rightarrow> string \<Rightarrow> chain_call) \<Rightarrow> (string \<Rightarrow> chain_call) \<Rightarrow> (string \<Rightarrow> bool \<times> string option \<times> string)
    \<Rightarrow> (world, bool \<times> string option \<times> string) io" where
  "token_action e wallet no_authority bad_address no_account failed act registry done =
    (case authority_keypair e of
       None \<Rightarrow> ret (False, None, no_authority @ authority_error)
     | Some authority \<Rightarrow>
      (case (parse_pubkey e (energy_token_mint e), parse_pubkey e wallet) of
         (Some mint, Some pubkey) \<Rightarrow>
           bnd (attempt (call_str e (EnsureTokenAccount authority pubkey mint))) (\<lambda>acc. case acc of
             Inl er \<Rightarrow> ret (False, None, no_account @ api_display er)
           | Inr token_account \<Rightarrow>
              sq (ignore (call_str e (registry authority)))
              (bnd (attempt (call_str e (act authority token_account pubkey mint))) (\<lambda>r. ret (case r of
                 Inl er \<Rightarrow> (False, None, failed @ api_display er)
               | Inr signature \<Rightarrow> done signature))))
       | _ \<Rightarrow> ret (False, None, bad_address)))"

definition submit_tokens :: "env \<Rightarrow> string \<Rightarrow> submit_reading_request \<Rightarrow> (world, bool \<times> string option \<times> string) io" where
  "submit_tokens e wallet q =
    (let kwh = dec_to_f64 e (sb_kwh_amount q); serial = serial_or_unknown q; seconds = unix_seconds (sb_reading_timestamp q) in
     if kwh > 0 then
       token_action e wallet ''Reading received but authority wallet not available: '' ''Reading received but invalid addresses''
         ''Reading received but token account creation failed: '' ''Reading received but minting failed: ''
         (\<lambda>authority token_account pubkey mint. MintEnergyTokens authority token_account pubkey mint kwh)
         (\<lambda>authority. UpdateMeterReading authority serial (watt_hours kwh) 0 seconds)
         (\<lambda>signature. (True, Some signature, ''Reading received and '' @ show_f64 e kwh @ '' kWh minted. TX: '' @ signature))
     else if kwh < 0 then
       token_action e wallet ''Consumption recorded but authority wallet not available: '' ''Consumption recorded but invalid addresses''
         ''Consumption recorded but token account not found: '' ''Consumption recorded but burn failed: ''
         (\<lambda>authority token_account pubkey mint. BurnEnergyTokens authority token_account mint \<bar>kwh\<bar>)
         (\<lambda>authority. UpdateMeterReading authority serial 0 (watt_hours \<bar>kwh\<bar>) seconds)
         (\<lambda>signature. (False, Some signature, ''Consumption of '' @ show_f64 e \<bar>kwh\<bar> @ '' kWh recorded. '' @ show_f64 e \<bar>kwh\<bar> @ '' tokens burned. TX: '' @ signature))
     else ret (False, None, ''Reading received''))"

definition dec_column :: "env \<Rightarrow> nat \<Rightarrow> nat \<Rightarrow> rat option \<Rightarrow> decimal option option" where
  "dec_column e p s x = (case x of None \<Rightarrow> Some None | Some v \<Rightarrow> map_option Some (pg_numeric e p s (dec_from_f64 e v)))"

definition submitted_numerics_fit :: "env \<Rightarrow> submit_reading_request \<Rightarrow> bool" where
  "submitted_numerics_fit e q \<longleftrightarrow> pg_numeric e 12 4 (sb_kwh_amount q) \<noteq> None
   \<and> dec_column e 12 4 (sb_energy_generated q) \<noteq> None \<and> dec_column e 12 4 (sb_energy_consumed q) \<noteq> None
   \<and> dec_column e 12 4 (sb_surplus_energy q) \<noteq> None \<and> dec_column e 12 4 (sb_deficit_energy q) \<noteq> None
   \<and> dec_column e 8 2 (sb_voltage q) \<noteq> None \<and> dec_column e 5 2 (sb_temperature q) \<noteq> None \<and> dec_column e 5 2 (sb_battery_level q) \<noteq> None"

definition submitted_row :: "env \<Rightarrow> uuid \<Rightarrow> meter_row \<Rightarrow> string \<Rightarrow> time \<Rightarrow> submit_reading_request \<Rightarrow> bool \<Rightarrow> string option \<Rightarrow> reading_row" where
  "submitted_row e i m wallet now q minted sig =
    (let num = (\<lambda>p s x. unwrap_or (dec_column e p s x) None); dbl = map_option (\<lambda>v. f64 (dec_from_f64 e v)) in
     \<lparr> rd_id = i, rd_meter_serial = Some (serial_or_unknown q), rd_meter_id = Some (mt_id m), rd_user_id = Some (mt_user_id m), rd_wallet_address = wallet,
       rd_timestamp = sb_reading_timestamp q, rd_reading_timestamp = sb_reading_timestamp q, rd_kwh_amount = pg_numeric e 12 4 (sb_kwh_amount q),
       rd_energy_generated = num 12 4 (sb_energy_generated q), rd_energy_consumed = num 12 4 (sb_energy_consumed q),
       rd_surplus_energy = num 12 4 (sb_surplus_energy q), rd_deficit_energy = num 12 4 (sb_deficit_energy q),
       rd_voltage = num 8 2 (sb_voltage q), rd_temperature = num 5 2 (sb_temperature q), rd_battery_level = num 5 2 (sb_battery_level q),
       rd_health_score = (case calculate_health_score (submitted_data q) of Finite h \<Rightarrow> Some h | _ \<Rightarrow> None),
       rd_extra = \<lparr> rx_current_amps = dbl (sb_current q), rx_power_factor = dbl (sb_power_factor q), rx_frequency = dbl (sb_frequency q),
         rx_thd_voltage = dbl (sb_thd_voltage q), rx_thd_current = dbl (sb_thd_current q), rx_latitude = sb_latitude q, rx_longitude = sb_longitude q,
         rx_weather_condition = None, rx_rec_eligible = Some False, rx_carbon_offset = None, rx_max_sell_price = None, rx_max_buy_price = None,
         rx_meter_signature = None, rx_meter_type = None \<rparr>,
       rd_minted = Some minted, rd_mint_tx_signature = sig, rd_created_at = Some now \<rparr>)"

definition store_submitted :: "env \<Rightarrow> uuid \<Rightarrow> string \<Rightarrow> submit_reading_request \<Rightarrow> bool \<Rightarrow> string option \<Rightarrow> (world, unit) io" where
  "store_submitted e i wallet q minted sig =
    bnd (attempt (query (\<lambda>d. find_row mt_serial_number (serial_or_unknown q) (meters d)))) (\<lambda>r. case r of
      Inr (Some m) \<Rightarrow> bnd get_clock (\<lambda>now.
        let row = submitted_row e i m wallet now q minted sig
        in ignore (exec_chk (\<lambda>d. submitted_numerics_fit e q \<and> reading_fits row d) (add_reading row)))
    | _ \<Rightarrow> ret ())"

definition submitted_zone :: "submit_reading_request \<Rightarrow> (world, i32 option) io" where
  "submitted_zone q = (case sb_meter_serial q of
      None \<Rightarrow> ret None
    | Some serial \<Rightarrow> bnd (attempt (query (\<lambda>d. find_row mt_serial_number serial (meters d)))) (\<lambda>r. case r of
        Inr (Some m) \<Rightarrow> ret (mt_zone_id m)
      | _ \<Rightarrow> fail (NotFound (''Meter '' @ serial @ '' is not registered. Please register the meter first.''))))"

definition submit_reading :: "env \<Rightarrow> submit_reading_request \<Rightarrow> (station, submitted_reading) io" where
  "submit_reading e q =
    bnd (ok_or (sb_wallet_address q) (BadRequest ''Wallet address required'')) (\<lambda>wallet.
    bnd (on_world (fresh_uuid e)) (\<lambda>i.
    bnd (on_world get_clock) (\<lambda>submitted_at.
    let kwh = dec_to_f64 e (sb_kwh_amount q); serial = serial_or_unknown q in
    if \<bar>kwh\<bar> > 100 then fail (BadRequest ''kWh amount exceeds maximum (100 kWh)'')
    else
     bnd (on_world (submitted_zone q)) (\<lambda>zone.
     sq (\<lambda>s. (Ok (), s\<lparr>sn_grid := handle_meter_reading (clock (sn_world s)) kwh serial zone
            (Finite (unwrap_or (sb_power_generated q) 0)) (Finite (unwrap_or (sb_power_consumed q) 0)) (sn_grid s)\<rparr>))
     (bnd (on_world get_clock) (\<lambda>now.
      bnd (on_world (submit_tokens e wallet q)) (\<lambda>(minted, sig, text).
      sq (on_world (store_submitted e i wallet q minted sig))
      (ret \<lparr> su_id = i, su_wallet_address = wallet, su_kwh_amount = sb_kwh_amount q, su_reading_timestamp = sb_reading_timestamp q,
             su_submitted_at = submitted_at, su_minted = minted, su_mint_tx_signature = sig, su_message = text,
             su_alerts = check_alerts serial now (submitted_data q) \<rparr>)))))))) "

subsection \<open>What the lists show\<close>

lemma those_Some: "those xs = Some ys \<longleftrightarrow> xs = map Some ys"
proof (induction xs arbitrary: ys)
  case (Cons x xs)
  then show ?case by (cases x; cases ys) auto
qed auto

lemma fetch_decoded_Ok:
  assumes "fetch_decoded q w = (Ok xs, w')"
  shows "q (db w) = Some (map Some xs) \<and> db w' = db w"
  using assms by (auto simp: fetch_decoded_def statement_Ok fail_def ret_def those_Some elim!: bnd_OkE split: option.splits bind_splits)

lemma fetch_decoded_db: "db (snd (fetch_decoded q w)) = db w"
  by (auto simp: fetch_decoded_def bnd_app query_def fail_def ret_def split: option.splits)

lemma or_empty_Ok:
  assumes "or_empty (fetch_decoded q) w = (Ok xs, w')"
  shows "db w' = db w \<and> (xs = [] \<or> q (db w) = Some (map Some xs))"
proof -
  obtain r w1 where m: "fetch_decoded q w = (r, w1)" by (cases "fetch_decoded q w")
  with fetch_decoded_db [of q w] have "db w1 = db w" by simp
  with m fetch_decoded_Ok [of q w] assms show ?thesis by (cases r) (auto simp: or_empty_def bnd_app attempt_app ret_def)
qed

lemma owned_meters_iff: "(m, u) \<in> set (owned_meters d) \<longleftrightarrow> m \<in> set (meters d) \<and> users d (mt_user_id m) = Some u"
  by (auto simp: owned_meters_def split: option.splits)

lemma meter_of_row_fields:
  assumes "meter_of_row (m, u) = Some x"
  shows "ms_id x = mt_id m" and "ms_wallet_address x = unwrap_or (wallet_address u) []"
  using assms by (auto simp: meter_of_row_def split: option.splits)

lemma list_meters_owned:
  assumes "list_meters p w = (Ok ms, w')"
  shows "db w' = db w \<and> (\<forall>x \<in> set ms. \<exists>m u. m \<in> set (meters (db w)) \<and> p m \<and> mt_id m = ms_id x
    \<and> users (db w) (mt_user_id m) = Some u \<and> ms_wallet_address x = unwrap_or (wallet_address u) [])"
proof -
  let ?rows = "filter (\<lambda>(m, u). p m) (owned_meters (db w))"
  from or_empty_Ok [OF assms [unfolded list_meters_def]]
  have run: "db w' = db w" "ms = [] \<or> map meter_of_row ?rows = map Some ms" by auto
  have "\<exists>m u. m \<in> set (meters (db w)) \<and> p m \<and> mt_id m = ms_id x \<and> users (db w) (mt_user_id m) = Some u \<and> ms_wallet_address x = unwrap_or (wallet_address u) []"
    if x: "x \<in> set ms" for x
  proof -
    from x run(2) have "map meter_of_row ?rows = map Some ms" by auto
    with x have "Some x \<in> meter_of_row ` set ?rows" by (metis image_eqI set_map)
    then obtain y where y: "y \<in> set ?rows" "meter_of_row y = Some x" by (metis imageE)
    obtain m u where "y = (m, u)" by (cases y)
    with y show ?thesis using meter_of_row_fields [of m u x] by (auto simp: owned_meters_iff)
  qed
  with run(1) show ?thesis by blast
qed

lemma get_my_meters_owned:
  assumes "get_my_meters e h w = (Ok ms, w')"
  shows "db w' = db w \<and> (\<forall>x \<in> set ms. \<exists>c m u. jwt_decode e (clock w) (strip_bearer (unwrap_or h [])) = Some c
      \<and> m \<in> set (meters (db w)) \<and> mt_id m = ms_id x \<and> mt_user_id m = cl_sub c \<and> users (db w) (cl_sub c) = Some u \<and> ms_wallet_address x = unwrap_or (wallet_address u) [])"
proof (cases "jwt_decode e (clock w) (strip_bearer (unwrap_or h []))")
  case None
  with assms show ?thesis by (auto simp: get_my_meters_def bnd_app get_clock_app ret_def)
next
  case (Some c)
  with assms have "list_meters (\<lambda>m. mt_user_id m = cl_sub c) w = (Ok ms, w')" by (simp add: get_my_meters_def bnd_app get_clock_app)
  from list_meters_owned [OF this] Some show ?thesis by fastforce
qed

lemma my_reading_fields:
  assumes "my_reading_of r = Some x"
  shows "my_id x = rd_id r" and "my_timestamp x = rd_reading_timestamp r"
  using assms by (auto simp: my_reading_of_def split: option.splits)

lemma decoded_page:
  assumes "map my_reading_of rows = map Some rs" and "sorted_wrt (\<lambda>r r'. rd_reading_timestamp r' \<le> rd_reading_timestamp r) rows"
  shows "sorted_wrt (\<lambda>x y. my_timestamp y \<le> my_timestamp x) rs"
    and "\<forall>x \<in> set rs. \<exists>r \<in> set rows. rd_id r = my_id x \<and> rd_reading_timestamp r = my_timestamp x"
proof -
  have fields: "list_all2 (\<lambda>r x. my_reading_of r = Some x) rows rs"
    using assms(1) by (metis (mono_tags) list.rel_eq list.rel_map(1) list.rel_map(2))
  from fields assms(2) show "sorted_wrt (\<lambda>x y. my_timestamp y \<le> my_timestamp x) rs"
    by (auto simp: sorted_wrt_iff_nth_less list_all2_conv_all_nth) (metis dual_order.strict_trans my_reading_fields(2))
  from fields show "\<forall>x \<in> set rs. \<exists>r \<in> set rows. rd_id r = my_id x \<and> rd_reading_timestamp r = my_timestamp x"
    by (induction rule: list_all2_induct) (auto simp: my_reading_fields)
qed

lemma get_my_readings_owned:
  assumes "get_my_readings v n k w = (Ok rs, w')"
  shows "db w' = db w \<and> sorted_wrt (\<lambda>x y. my_timestamp y \<le> my_timestamp x) rs
    \<and> (\<forall>x \<in> set rs. \<exists>r \<in> set (meter_readings (db w)). rd_id r = my_id x \<and> rd_user_id r = Some v \<and> rd_reading_timestamp r = my_timestamp x)"
proof -
  let ?all = "sort_key (\<lambda>r. - rd_reading_timestamp r) (readings_of_user v (db w))"
  from or_empty_Ok [OF assms [unfolded get_my_readings_def]]
  have same: "db w' = db w" and rows: "rs = [] \<or> (\<exists>a b. map my_reading_of (take a (drop b ?all)) = map Some rs)"
    by (auto simp: window_def split: if_splits)
  have "sorted_wrt (\<lambda>r r'. rd_reading_timestamp r' \<le> rd_reading_timestamp r) ?all"
    using sorted_sort_key [of "\<lambda>r. - rd_reading_timestamp r" "readings_of_user v (db w)"] by (simp add: sorted_wrt_map)
  then have sorted: "sorted_wrt (\<lambda>r r'. rd_reading_timestamp r' \<le> rd_reading_timestamp r) (take a (drop b ?all))" for a b
    by (intro sorted_wrt_take sorted_wrt_drop)
  have "r \<in> set (meter_readings (db w)) \<and> rd_user_id r = Some v" if "r \<in> set (take a (drop b ?all))" for a b r
    using in_set_dropD [OF in_set_takeD [OF that]] by (simp add: readings_of_user_def)
  moreover have ?thesis if "map my_reading_of (take a (drop b ?all)) = map Some rs" for a b
    using decoded_page [OF that sorted] same calculation [of _ a b] by blast
  ultimately show ?thesis using rows same by auto
qed

text \<open>
  A user sees the user's own meters and readings only.  The meters that the list returns for a request belong to the owner of
  the token of this request, with this owner's wallet; the readings that the list of a user returns are stored readings
  of this user, from the newest to the oldest; neither changes a table.
\<close>

theorem meter_lists_private:
  assumes "get_my_meters e h w = (Ok ms, w')" and "get_my_readings v n k w = (Ok rs, w'')"
  shows "db w' = db w \<and> db w'' = db w
    \<and> (\<forall>x \<in> set ms. \<exists>c m u. jwt_decode e (clock w) (strip_bearer (unwrap_or h [])) = Some c
        \<and> m \<in> set (meters (db w)) \<and> mt_id m = ms_id x \<and> mt_user_id m = cl_sub c \<and> users (db w) (cl_sub c) = Some u \<and> ms_wallet_address x = unwrap_or (wallet_address u) [])
    \<and> sorted_wrt (\<lambda>x y. my_timestamp y \<le> my_timestamp x) rs
    \<and> (\<forall>x \<in> set rs. \<exists>r \<in> set (meter_readings (db w)). rd_id r = my_id x \<and> rd_user_id r = Some v \<and> rd_reading_timestamp r = my_timestamp x)"
  using get_my_meters_owned [OF assms(1)] get_my_readings_owned [OF assms(2)] by blast

text \<open>
  A stored reading has a \<open>NUMERIC\<close> amount, which the record of the response does not decode: every page of readings with
  a row is an error.
\<close>

lemma reading_record_undecodable: "reading_record_of r = None"
  by (cases "rd_kwh_amount r") (simp_all add: reading_record_of_def numeric_value_def)

theorem readings_page_fails:
  assumes "faults w = []" and "window (min_i64 (unwrap_or n 100) 1000) (unwrap_or k 0)
      (sort_key (\<lambda>r. - rd_timestamp r) (filter (in_period from to) (of_serial serial (db w)))) = Some (r # rs)"
  shows "fst (get_meter_readings serial from to n k w) = Err (Database ''decoding or range error'')"
  using assms by (simp add: get_meter_readings_def fetch_decoded_def bnd_app query_calm reading_record_undecodable fail_def Let_def)

subsection \<open>Statistics\<close>

text \<open>
  The statistics of a user count every reading once: minted and pending ones are different readings, together at most all of them.
\<close>

theorem meter_stats_counts:
  "sx_total_minted_count (stats_of rs) + sx_pending_mint_count (stats_of rs) \<le> length rs
   \<and> sx_total_minted_count (stats_of rs) + sx_pending_mint_count (stats_of rs)
     + length (filter (\<lambda>r. rd_minted r = None \<or> rd_minted r = Some False \<and> \<not> unminted_surplus r) rs) = length rs"
proof -
  have "length (filter minted_reading rs) + length (filter unminted_surplus rs)
     + length (filter (\<lambda>r. rd_minted r = None \<or> rd_minted r = Some False \<and> \<not> unminted_surplus r) rs) = length rs"
  proof (induction rs)
    case (Cons r rs)
    then show ?case by (cases "rd_minted r") (auto simp: minted_reading_def unminted_surplus_def)
  qed simp
  then show ?thesis by (simp add: stats_of_def)
qed

subsection \<open>Tokens of a submitted reading\<close>

fun moves_tokens :: "chain_call \<Rightarrow> bool" where
  "moves_tokens (MintEnergyTokens _ _ _ _ _) = True"
| "moves_tokens (MintSplTokens _ _ _ _) = True"
| "moves_tokens (BurnEnergyTokens _ _ _ _) = True"
| "moves_tokens _ = False"

lemma token_action_calls:
  assumes "token_action e wallet m1 m2 m3 m4 act registry done w = (out, w')" and "\<And>a. \<not> moves_tokens (registry a)" and "\<And>a t p m. moves_tokens (act a t p m)"
  shows "db w' = db w \<and> (\<exists>calls x. chain_log w' = chain_log w @ calls \<and> out = Ok x
    \<and> (filter moves_tokens calls = [] \<and> \<not> fst x \<or> (\<exists>a t p m. filter moves_tokens calls = [act a t p m] \<and> (\<not> fst x \<or> (\<exists>s. x = done s)))))"
proof (cases "authority_keypair e")
  case None
  with assms(1) show ?thesis by (auto simp: token_action_def ret_def)
next
  case (Some a)
  show ?thesis
  proof (cases "\<exists>mint pub. parse_pubkey e (energy_token_mint e) = Some mint \<and> parse_pubkey e wallet = Some pub")
    case True
    then obtain mint pub where keys: "parse_pubkey e (energy_token_mint e) = Some mint" "parse_pubkey e wallet = Some pub" by blast
    show ?thesis
    proof (cases "chain_str e (chain_log w) (EnsureTokenAccount a pub mint)")
      case (Inl er)
      then show ?thesis using assms(1) Some keys by (auto simp: token_action_def bnd_app attempt_app calls_app ret_def)
    next
      case (Inr acc)
      let ?log = "chain_log w @ [EnsureTokenAccount a pub mint, registry a]"
      let ?w = "w\<lparr>chain_log := ?log @ [act a acc pub mint]\<rparr>"
      have "token_action e wallet m1 m2 m3 m4 act registry done w
          = (Ok (case chain_str e ?log (act a acc pub mint) of Inl er \<Rightarrow> (False, None, m4 @ api_display (Anyhow er)) | Inr sig \<Rightarrow> done sig), ?w)"
        using Some keys Inr by (simp add: token_action_def bnd_app attempt_app sq_app ignore_app calls_app ret_def split: sum.split)
      with assms(1) have "w' = ?w" and out: "out = Ok (case chain_str e ?log (act a acc pub mint) of Inl er \<Rightarrow> (False, None, m4 @ api_display (Anyhow er)) | Inr sig \<Rightarrow> done sig)" by auto
      moreover have "filter moves_tokens [EnsureTokenAccount a pub mint, registry a, act a acc pub mint] = [act a acc pub mint]" using assms(2,3) by simp
      moreover have "\<not> fst (case r of Inl er \<Rightarrow> (False, None, m4 @ api_display (Anyhow er)) | Inr sig \<Rightarrow> done sig)
          \<or> (\<exists>s. (case r of Inl er \<Rightarrow> (False, None, m4 @ api_display (Anyhow er)) | Inr sig \<Rightarrow> done sig) = done s)" for r :: "string + string"
        by (cases r) auto
      ultimately show ?thesis
        by (intro conjI exI [of _ "[EnsureTokenAccount a pub mint, registry a, act a acc pub mint]"] exI) (simp, simp, assumption, blast)
    qed
  next
    case False
    then show ?thesis using assms(1) Some by (auto simp: token_action_def ret_def split: option.splits)
  qed
qed

lemma submit_tokens_calls:
  assumes "submit_tokens e wallet q w = (out, w')" and "kwh = dec_to_f64 e (sb_kwh_amount q)"
  shows "db w' = db w \<and> (\<exists>calls x. chain_log w' = chain_log w @ calls \<and> out = Ok x
    \<and> (filter moves_tokens calls = [] \<and> \<not> fst x
       \<or> kwh > 0 \<and> (\<exists>a t p m. filter moves_tokens calls = [MintEnergyTokens a t p m kwh])
       \<or> kwh < 0 \<and> \<not> fst x \<and> (\<exists>a t m. filter moves_tokens calls = [BurnEnergyTokens a t m \<bar>kwh\<bar>])))"
proof -
  consider "kwh > 0" | "kwh < 0" | "kwh = 0" by linarith
  then show ?thesis
  proof cases
    case 1
    with assms have "token_action e wallet ''Reading received but authority wallet not available: '' ''Reading received but invalid addresses''
         ''Reading received but token account creation failed: '' ''Reading received but minting failed: ''
         (\<lambda>authority token_account pubkey mint. MintEnergyTokens authority token_account pubkey mint kwh)
         (\<lambda>authority. UpdateMeterReading authority (serial_or_unknown q) (watt_hours kwh) 0 (unix_seconds (sb_reading_timestamp q)))
         (\<lambda>signature. (True, Some signature, ''Reading received and '' @ show_f64 e kwh @ '' kWh minted. TX: '' @ signature)) w = (out, w')"
      by (simp add: submit_tokens_def Let_def)
    from token_action_calls [OF this] 1 show ?thesis by fastforce
  next
    case 2
    with assms have "token_action e wallet ''Consumption recorded but authority wallet not available: '' ''Consumption recorded but invalid addresses''
         ''Consumption recorded but token account not found: '' ''Consumption recorded but burn failed: ''
         (\<lambda>authority token_account pubkey mint. BurnEnergyTokens authority token_account mint \<bar>kwh\<bar>)
         (\<lambda>authority. UpdateMeterReading authority (serial_or_unknown q) 0 (watt_hours \<bar>kwh\<bar>) (unix_seconds (sb_reading_timestamp q)))
         (\<lambda>signature. (False, Some signature, ''Consumption of '' @ show_f64 e \<bar>kwh\<bar> @ '' kWh recorded. '' @ show_f64 e \<bar>kwh\<bar> @ '' tokens burned. TX: '' @ signature)) w = (out, w')"
      by (simp add: submit_tokens_def Let_def)
    from token_action_calls [OF this] 2 show ?thesis by fastforce
  next
    case 3
    with assms show ?thesis by (auto simp: submit_tokens_def Let_def ret_def)
  qed
qed

lemma submitted_row_fields [simp]:
  "rd_id (submitted_row e i m wallet now q minted sig) = i" "rd_minted (submitted_row e i m wallet now q minted sig) = Some minted"
  "rd_mint_tx_signature (submitted_row e i m wallet now q minted sig) = sig"
  by (simp_all add: submitted_row_def Let_def)

lemma store_submitted_frame:
  assumes "store_submitted e i wallet q minted sig w = (out, w')"
  shows "out = Ok () \<and> chain_log w' = chain_log w
    \<and> (db w' = db w \<or> (\<exists>row. rd_id row = i \<and> rd_minted row = Some minted \<and> rd_mint_tx_signature row = sig \<and> db w' = add_reading row (db w)))"
proof (cases "\<exists>m. faulty w = None \<and> find_row mt_serial_number (serial_or_unknown q) (meters (db w)) = Some m")
  case True
  then obtain m where m: "faulty w = None" "find_row mt_serial_number (serial_or_unknown q) (meters (db w)) = Some m" by blast
  define row where "row = submitted_row e i m wallet (clock w) q minted sig"
  have "store_submitted e i wallet q minted sig w
      = (Ok (), snd (exec_chk (\<lambda>d. submitted_numerics_fit e q \<and> reading_fits row d) (add_reading row) (tick w)))"
    using m by (simp add: store_submitted_def bnd_app attempt_app query_def get_clock_app row_def Let_def ignore_no_panic no_panic_intros)
  with assms have "out = Ok ()" "w' = snd (exec_chk (\<lambda>d. submitted_numerics_fit e q \<and> reading_fits row d) (add_reading row) (tick w))" by auto
  moreover have "chain_log (snd (exec_chk p f w)) = chain_log w \<and> (db (snd (exec_chk p f w)) = db w \<or> db (snd (exec_chk p f w)) = f (db w))" for p f w
    by (simp add: exec_chk_def split: option.split)
  moreover have "rd_id row = i \<and> rd_minted row = Some minted \<and> rd_mint_tx_signature row = sig" by (simp add: row_def)
  ultimately show ?thesis by (metis tick_simps(1,4))
next
  case False
  with assms show ?thesis by (auto simp: store_submitted_def bnd_app attempt_app query_def ret_def split: option.splits)
qed

text \<open>
  C16. A submitted reading moves its amount once.  When submitting succeeds, the amount is at most 100 kWh, and the calls that were made
  contain at most one that moves tokens: a mint of exactly the amount for a generation, a burn of exactly the amount for a
  consumption, and none for zero.  A reading is reported as minted only when a mint was called for.  At most one reading is
  stored, under the identifier of the answer and with its mint status.
\<close>

theorem submit_moves_amount_once:
  assumes "submit_reading e q s = (Ok r, s')" and "kwh = dec_to_f64 e (sb_kwh_amount q)"
  shows "\<bar>kwh\<bar> \<le> 100 \<and> (\<exists>calls. chain_log (sn_world s') = chain_log (sn_world s) @ calls
      \<and> (filter moves_tokens calls = [] \<and> \<not> su_minted r
         \<or> kwh > 0 \<and> (\<exists>a t p m. filter moves_tokens calls = [MintEnergyTokens a t p m kwh])
         \<or> kwh < 0 \<and> \<not> su_minted r \<and> (\<exists>a t m. filter moves_tokens calls = [BurnEnergyTokens a t m \<bar>kwh\<bar>])))
    \<and> (db (sn_world s') = db (sn_world s)
       \<or> (\<exists>row. rd_id row = su_id r \<and> rd_minted row = Some (su_minted r) \<and> db (sn_world s') = add_reading row (db (sn_world s))))"
proof -
  have zone: "chain_log (snd (submitted_zone q w)) = chain_log w \<and> db (snd (submitted_zone q w)) = db w" for w
    by (auto simp: submitted_zone_def bnd_app attempt_app query_def fail_def ret_def split: option.splits)
  let ?w = "snd (submitted_zone q ((sn_world s)\<lparr>uuids := Suc (uuids (sn_world s))\<rparr>))"
  from assms obtain wallet minted sig msg where small: "\<bar>kwh\<bar> \<le> 100" and r: "su_minted r = minted"
    and tokens: "fst (submit_tokens e wallet q ?w) = Ok (minted, sig, msg)"
    and store: "sn_world s' = snd (store_submitted e (su_id r) wallet q minted sig (snd (submit_tokens e wallet q ?w)))"
    unfolding submit_reading_def Let_def
    by (elim bnd_OkE sq_OkE) (auto simp: on_world_def fresh_uuid_app get_clock_app ret_def fail_def elim!: bnd_OkE sq_OkE split: if_splits prod.splits)
  have w: "chain_log ?w = chain_log (sn_world s)" "db ?w = db (sn_world s)" by (simp_all add: zone)
  have "submit_tokens e wallet q ?w = (Ok (minted, sig, msg), snd (submit_tokens e wallet q ?w))" by (simp add: tokens prod_eq_iff)
  from submit_tokens_calls [OF this assms(2)] w
  have calls: "db (snd (submit_tokens e wallet q ?w)) = db (sn_world s)" "\<exists>calls. chain_log (snd (submit_tokens e wallet q ?w)) = chain_log (sn_world s) @ calls
      \<and> (filter moves_tokens calls = [] \<and> \<not> minted \<or> kwh > 0 \<and> (\<exists>a t p m. filter moves_tokens calls = [MintEnergyTokens a t p m kwh])
         \<or> kwh < 0 \<and> \<not> minted \<and> (\<exists>a t m. filter moves_tokens calls = [BurnEnergyTokens a t m \<bar>kwh\<bar>]))" by auto
  from store_submitted_frame [of e "su_id r" wallet q minted sig "snd (submit_tokens e wallet q ?w)", OF surjective_pairing]
  have "chain_log (sn_world s') = chain_log (snd (submit_tokens e wallet q ?w))"
    "db (sn_world s') = db (sn_world s) \<or> (\<exists>row. rd_id row = su_id r \<and> rd_minted row = Some minted \<and> db (sn_world s') = add_reading row (db (sn_world s)))"
    unfolding store using calls(1) by auto
  with small calls(2) r show ?thesis by simp
qed

subsection \<open>Users of the simulator\<close>

lemma simulator_wallet_user:
  assumes "faults w = []" and "find_user scan (\<lambda>r. wallet_address r = Some wallet) (db w) = Some (u, r)"
  shows "get_or_create_simulator_user e scan wallet w = (Ok u, w)"
  using assms by (simp add: get_or_create_simulator_user_def user_by_wallet_def bnd_app attempt_app query_calm ret_def)

text \<open>
  The address of a simulated user is made of the first eight characters of the wallet.  A second wallet with the same beginning
  takes over the row of the first: its wallet is overwritten, and the registration fails, since the identifier that
  the function returns is not that of the row.
\<close>

theorem simulator_prefix_conflict:
  assumes "faults w = []" and new: "list_all (\<lambda>m. mt_serial_number m \<noteq> ri_meter_id q) (meters (db w))"
    and unknown: "find_user scan (\<lambda>r. wallet_address r = Some (ri_wallet_address q)) (db w) = None"
    and taken: "find_user scan (\<lambda>r. email r = simulator_email (ri_wallet_address q)) (db w) = Some (u, r)"
    and "wallet_free scan u (ri_wallet_address q) (db w)" and "length (ri_wallet_address q) \<le> 88"
    and fresh: "users (db w) (new_v4 e (uuids w)) = None" "u \<noteq> new_v4 e (uuids w)"
  shows "\<exists>msg w'. register_meter_by_id e scan q w = (Err (Internal msg), w') \<and> meters (db w') = meters (db w)
    \<and> users (db w') = (users (db w))(u \<mapsto> r\<lparr>wallet_address := Some (ri_wallet_address q)\<rparr>)"
proof -
  have none: "filter (\<lambda>m. mt_serial_number m = ri_meter_id q) (meters (db w)) = []"
    using new by (auto simp: list_all_iff filter_empty_conv)
  let ?d = "upsert_simulator scan (new_v4 e (uuids w)) (ri_wallet_address q) (db w)"
  have d: "users ?d = (users (db w))(u \<mapsto> r\<lparr>wallet_address := Some (ri_wallet_address q)\<rparr>)" "meters ?d = meters (db w)"
    by (simp_all add: upsert_simulator_def taken)
  have "upsert_simulator_ok scan (new_v4 e (uuids w)) (ri_wallet_address q) (db w)"
    using assms by (simp add: upsert_simulator_ok_def)
  then have user: "get_or_create_simulator_user e scan (ri_wallet_address q) w
      = (Ok (new_v4 e (uuids w)), w\<lparr>uuids := Suc (uuids w), db := ?d\<rparr>)"
    using assms(1) unknown by (simp add: get_or_create_simulator_user_def user_by_wallet_def bnd_app attempt_app query_calm fresh_uuid_app exec_chk_calm ret_def)
  have unfit: "\<not> meter_fits m ?d" if "mt_user_id m = new_v4 e (uuids w)" for m
    using that fresh by (simp add: meter_fits_def d)
  show ?thesis
    using assms(1) none user unfit d
    by (simp add: register_meter_by_id_def bnd_app attempt_app query_calm fresh_uuid_app get_clock_app exec_chk_calm fail_def Let_def)
qed

text \<open>
  The first meter of a wallet that the platform has not seen: a user with this wallet is made, and the meter is this user's, verified.
\<close>

theorem simulator_registers:
  assumes "faults w = []" and new: "list_all (\<lambda>m. mt_serial_number m \<noteq> ri_meter_id q \<and> mt_id m \<noteq> new_v4 e (Suc (uuids w))) (meters (db w))"
    and unknown: "find_user scan (\<lambda>r. wallet_address r = Some (ri_wallet_address q)) (db w) = None"
    and free: "find_user scan (\<lambda>r. email r = simulator_email (ri_wallet_address q)) (db w) = None"
    and fits: "upsert_simulator_ok scan (new_v4 e (uuids w)) (ri_wallet_address q) (db w)"
    and short: "length (ri_meter_id q) \<le> 100" "at_most 50 (ri_meter_type q)"
  shows "\<exists>msg w'. register_meter_by_id e scan q w = (Ok \<lparr>rb_success = True, rb_message = msg, rb_meter_id = ri_meter_id q\<rparr>, w')
    \<and> users (db w') = (users (db w))(new_v4 e (uuids w) \<mapsto> simulator_user (ri_wallet_address q))
    \<and> (\<exists>m. meters (db w') = meters (db w) @ [m] \<and> mt_serial_number m = ri_meter_id q \<and> mt_user_id m = new_v4 e (uuids w) \<and> mt_is_verified m = Some True)"
proof -
  have none: "filter (\<lambda>m. mt_serial_number m = ri_meter_id q) (meters (db w)) = []"
    using new by (auto simp: list_all_iff filter_empty_conv)
  let ?d = "upsert_simulator scan (new_v4 e (uuids w)) (ri_wallet_address q) (db w)"
  have d: "users ?d = (users (db w))(new_v4 e (uuids w) \<mapsto> simulator_user (ri_wallet_address q))" "meters ?d = meters (db w)"
    by (simp_all add: upsert_simulator_def free)
  have user: "get_or_create_simulator_user e scan (ri_wallet_address q) w
      = (Ok (new_v4 e (uuids w)), w\<lparr>uuids := Suc (uuids w), db := ?d\<rparr>)"
    using assms(1) unknown fits by (simp add: get_or_create_simulator_user_def user_by_wallet_def bnd_app attempt_app query_calm fresh_uuid_app exec_chk_calm ret_def)
  have fit: "meter_fits m ?d" if "mt_user_id m = new_v4 e (uuids w)" "mt_id m = new_v4 e (Suc (uuids w))" "mt_serial_number m = ri_meter_id q"
    "mt_meter_type m = Some (unwrap_or (ri_meter_type q) ''solar'')" for m
    using that short new by (cases "ri_meter_type q") (simp_all add: meter_fits_def d at_most_def list_all_iff)
  show ?thesis
    using assms(1) none user fit d
    by (simp add: register_meter_by_id_def bnd_app attempt_app sq_app ignore_no_panic no_panic_intros query_calm fresh_uuid_app get_clock_app exec_chk_calm fail_def ret_def upsert_registry_def add_registry_def Let_def)
qed

subsection \<open>Witnesses\<close>

definition sample_meter :: "uuid \<Rightarrow> string \<Rightarrow> meter_row" where
  "sample_meter u serial = \<lparr> mt_id = 5, mt_user_id = u, mt_serial_number = serial, mt_meter_type = Some ''solar'', mt_location = Some ''roof'',
     mt_latitude = None, mt_longitude = None, mt_zone_id = Some 2, mt_is_verified = Some True \<rparr>"

definition listed_db :: db where
  "listed_db = empty_db\<lparr>users := [1 \<mapsto> sample_user 0 0 0], meters := [sample_meter 1 ''M-001'', sample_meter 2 ''M-002''],
     meter_readings := [stored_reading 9 3 False]\<rparr>"

lemma listed_meters:
  "\<exists>ms. get_my_meters token_env (Some ''Bearer jwt'') (calm_world listed_db) = (Ok ms, calm_world listed_db) \<and> ms \<noteq> []"
proof -
  have "jwt_decode token_env 1000 (strip_bearer ''Bearer jwt'') = Some token_claims"
    by (simp add: token_env_def strip_bearer_def bearer_of_def claims_expired_def token_claims_def claims_new_def unix_seconds_def)
  moreover have "cl_sub token_claims = 1" by (simp add: token_claims_def claims_new_def)
  ultimately show ?thesis
    by (simp add: get_my_meters_def list_meters_def or_empty_def fetch_decoded_def bnd_app attempt_app query_calm get_clock_app ret_def
        owned_meters_def listed_db_def sample_meter_def meter_of_row_def sample_user_def)
qed

lemma listed_readings:
  "\<exists>rs. get_my_readings 1 None None (calm_world listed_db) = (Ok rs, calm_world listed_db) \<and> rs \<noteq> []"
proof -
  have "rd_meter_serial (stored_reading 9 3 False) = Some ''M-001''" "rd_created_at (stored_reading 9 3 False) = Some 1000"
    by (simp_all add: stored_reading_def reading_of_def Let_def)
  then show ?thesis
    by (simp add: get_my_readings_def or_empty_def fetch_decoded_def bnd_app attempt_app query_calm ret_def window_def min_i64_def
        readings_of_user_def listed_db_def my_reading_of_def to_float8_def stored_reading_simps)
qed

theorem meter_lists_private_witness:
  "\<exists>ms rs w' w''. get_my_meters token_env (Some ''Bearer jwt'') (calm_world listed_db) = (Ok ms, w') \<and> ms \<noteq> []
    \<and> get_my_readings 1 None None (calm_world listed_db) = (Ok rs, w'') \<and> rs \<noteq> []
    \<and> db w' = listed_db \<and> (\<forall>x \<in> set rs. my_id x = 9)"
proof -
  obtain ms rs where runs: "get_my_meters token_env (Some ''Bearer jwt'') (calm_world listed_db) = (Ok ms, calm_world listed_db)" "ms \<noteq> []"
    "get_my_readings 1 None None (calm_world listed_db) = (Ok rs, calm_world listed_db)" "rs \<noteq> []"
    using listed_meters listed_readings by blast
  from meter_lists_private [OF runs(1,3)] have "\<forall>x \<in> set rs. my_id x = 9" by (auto simp: listed_db_def stored_reading_simps)
  with runs show ?thesis by auto
qed

definition sample_submission :: submit_reading_request where
  "sample_submission = \<lparr> sb_wallet_address = Some ''wallet'', sb_kwh_amount = 3, sb_reading_timestamp = 500, sb_meter_serial = Some ''M-001'',
     sb_energy_generated = None, sb_energy_consumed = None, sb_surplus_energy = None, sb_deficit_energy = None, sb_power_generated = None, sb_power_consumed = None,
     sb_voltage = None, sb_current = None, sb_power_factor = None, sb_frequency = None, sb_temperature = None, sb_thd_voltage = None, sb_thd_current = None,
     sb_latitude = None, sb_longitude = None, sb_battery_level = None \<rparr>"

lemma sample_submission_runs:
  "\<exists>r s'. submit_reading std_env sample_submission (station_of listed_db []) = (Ok r, s') \<and> su_minted r"
proof -
  let ?q = sample_submission
  have q: "sb_wallet_address ?q = Some ''wallet''" "sb_kwh_amount ?q = 3" "serial_or_unknown ?q = ''M-001''" "sb_meter_serial ?q = Some ''M-001''"
    by (simp_all add: sample_submission_def serial_or_unknown_def)
  have zone: "submitted_zone ?q w = (Ok (Some 2), w)" if "faults w = []" "db w = listed_db" for w
    using that q by (simp add: submitted_zone_def bnd_app attempt_app query_calm ret_def listed_db_def sample_meter_def find_row_def)
  have tokens: "\<exists>sig msg w'. submit_tokens std_env ''wallet'' ?q w = (Ok (True, sig, msg), w')" for w
    using q by (simp add: submit_tokens_def token_action_def std_env_def [THEN arg_cong, of energy_token_mint] bnd_app sq_app attempt_app ignore_app calls_app ret_def Let_def)
  have store: "fst (store_submitted std_env i ''wallet'' ?q m sig w) = Ok ()" for i m sig w
    using store_submitted_frame [OF surjective_pairing] by blast
  define w where "w = (calm_world listed_db)\<lparr>uuids := Suc 0\<rparr>"
  obtain sig msg w' where "submit_tokens std_env ''wallet'' ?q w = (Ok (True, sig, msg), w')" using tokens by blast
  moreover have "faults w = []" "db w = listed_db" by (simp_all add: w_def)
  ultimately show ?thesis
    using zone [of w] store [of _ True sig w'] q
    by (simp add: submit_reading_def station_of_def on_world_def bnd_app sq_app ok_or_def fresh_uuid_app get_clock_app ret_def Let_def w_def)
qed

theorem submit_moves_amount_once_witness:
  "\<exists>r s'. submit_reading std_env sample_submission (station_of listed_db []) = (Ok r, s')
    \<and> (\<exists>a t p m. filter moves_tokens (chain_log (sn_world s')) = [MintEnergyTokens a t p m 3])"
proof -
  obtain r s' where run: "submit_reading std_env sample_submission (station_of listed_db []) = (Ok r, s')" "su_minted r"
    using sample_submission_runs by blast
  from submit_moves_amount_once [OF run(1) refl] run show ?thesis by (auto simp: sample_submission_def station_of_def)
qed

end
