(* ===== verification/Spec2Isabelle.thy ===== *)
theory Spec2Isabelle
  imports Market Carbon Wallets Futures Errors Pagination Roles Readings Order_Api Accounts Tokenization Input_Validation Notifications Tracking Meter_Api
begin

text \<open>
  \<^bold>\<open>GridTokenX API gateway: trading, settlement and metering.\<close>

  The gateway is a Rust service in front of a PostgreSQL database and a Solana blockchain.  Users
  place buy and sell orders for energy; an order locks money or energy in escrow; a background
  engine and an epoch auction match orders; a match becomes a settlement, which moves energy tokens
  on the chain and money in the ledger and issues a renewable energy certificate to the seller.
  Meters send readings, which are queued, stored and turned into energy tokens and orders.

  \<^bold>\<open>Theories and the code they model\<close> (paths under \<open>src/src/\<close>):
  \<^item> \<open>Prelude\<close>: outcomes (\<open>Ok\<close>, \<open>Err\<close>, \<open>Panic\<close>) of \<open>Result\<close>-returning code, the sequencing
    combinators (\<open>bnd\<close> is \<open>?\<close>), \<open>ApiError\<close> and its text (\<open>error.rs\<close>), decimals and their rounding,
    machine integers, table updates.
  \<^item> \<open>Schema\<close>: enums and structs of \<open>database/schema.rs\<close>, \<open>models/trading.rs\<close> and the \<open>types.rs\<close> files;
    rows of the tables of \<open>migrations/\<close>.
  \<^item> \<open>World\<close>: the state a call runs in (tables, lost statements, clock, identifiers drawn, blockchain
    calls made) and the parameters that stand for code outside the repository.  \<open>Sample\<close>: one concrete
    environment and small tables for the witnesses.
  \<^item> \<open>Grid_Topology\<close>: \<open>services/grid_topology.rs\<close>, wheeling charges and losses between zones.
  \<^item> \<open>Escrow\<close>, \<open>Epochs\<close>, \<open>Onchain\<close>, \<open>Orders\<close>, \<open>Clearing\<close>: \<open>services/market_clearing/\<close>
    (\<open>escrow.rs\<close>, \<open>epoch.rs\<close>, \<open>blockchain.rs\<close>, \<open>orders.rs\<close>, then \<open>mod.rs\<close>, \<open>matching.rs\<close> and \<open>revenue.rs\<close>).
  \<^item> \<open>Erc\<close>: \<open>services/erc/\<close>, renewable energy certificates.
  \<^item> \<open>Settlement\<close>: \<open>services/settlement/\<close>.  \<open>Engine\<close>: \<open>services/order_matching_engine/mod.rs\<close>.
  \<^item> \<open>Market\<close>: the operations of all components as two step relations, \<open>trade_step\<close> (everything that
    trades) and \<open>market_step\<close> (these and settlement, epochs and certificates), over one world.
  \<^item> \<open>Tasks\<close>: \<open>services/blockchain_task/\<close>, queued escrow refunds.  \<open>Recurring\<close>: \<open>handlers/trading/recurring.rs\<close> and
    \<open>services/recurring_scheduler.rs\<close>.  \<open>Conditional\<close>: conditional orders, price alerts and
    \<open>services/price_monitor.rs\<close>.
  \<^item> \<open>Carbon\<close>, \<open>Wallets\<close>, \<open>Futures\<close>: \<open>handlers/carbon.rs\<close>, \<open>handlers/wallets.rs\<close> and \<open>services/futures/\<close>.
  \<^item> \<open>Errors\<close>: error codes, texts and responses of \<open>error.rs\<close>.  \<open>Floats\<close>: double precision numbers.
    \<open>Pagination\<close>: \<open>utils/pagination.rs\<close>.  \<open>Roles\<close>: \<open>auth/roles.rs\<close>.
  \<^item> \<open>Meter_Analyzer\<close>: \<open>services/meter_analyzer.rs\<close> and the health response of \<open>handlers/meter/stub.rs\<close>.  \<open>Dashboard\<close>:
    the live grid status of \<open>services/dashboard/\<close>.  \<open>Meter_Registry\<close>: \<open>services/meter/verification.rs\<close> and
    \<open>handlers/auth/meters/registration.rs\<close>.
  \<^item> \<open>Readings\<close>: \<open>handlers/auth/meters/reading.rs\<close>, \<open>services/reading_processor.rs\<close>, the oracle validator, the reading
    queue of \<open>services/cache/mod.rs\<close> and \<open>handlers/meter/minting.rs\<close>.
  \<^item> \<open>Order_Api\<close>: the order endpoints of \<open>handlers/trading/orders/\<close>.  \<open>Accounts\<close>: passwords, tokens, middleware and roles
    of \<open>auth/\<close> and the account handlers of \<open>handlers/auth/\<close>.
  \<^item> \<open>Tokenization\<close>: \<open>config/tokenization.rs\<close>.  \<open>Input_Validation\<close>: \<open>utils/validation.rs\<close>.  \<open>Notifications\<close>: \<open>models/notification.rs\<close>,
    \<open>services/notification_dispatcher.rs\<close> and \<open>handlers/notifications.rs\<close>.
  \<^item> \<open>Transactions\<close>: \<open>models/transaction.rs\<close>, the transaction validator and \<open>services/transaction/service.rs\<close>, \<open>metrics.rs\<close>.
    \<open>Tracking\<close>: \<open>query.rs\<close>, \<open>monitoring.rs\<close> and \<open>recovery.rs\<close> of the same directory.  \<open>Meter_Api\<close>: \<open>handlers/auth/meters/query.rs\<close>,
    \<open>public.rs\<close> and \<open>handlers/meter/stub.rs\<close>.
  A struct is a record, an enum a datatype, a service method a function of its arguments that maps
  a world to an outcome and the next world, composed as in the code.  A statement of SQL is a
  function on the tables; \<open>WHERE\<close> is a filter, \<open>ORDER BY\<close> a stable sort, and a statement that violates
  a key, a foreign key or a check constraint of the migrations returns a database error.  A
  transaction that does not commit restores the tables.  Every statement may also be lost, with any
  error text (the list \<open>faults\<close>), and every blockchain call may fail, so the theorems without a
  hypothesis on \<open>faults\<close> hold for every pattern of failures.

  \<^bold>\<open>Interfaces.\<close>  \<open>decimal_rounding\<close> and \<open>decimal_crate\<close> (what the decimal crate documents about rounding and
  conversion), \<open>calendar\<close> (civil dates), \<open>grid_costs\<close> (what the engine relies on of the tariff),
  \<open>escrow_side\<close> (lock and unlock, interpreted for money and for energy), \<open>text_codec\<close> (an enum stored as
  text), \<open>trading_tables\<close> and \<open>market_tables\<close> (a property of the tables that the single statements
  keep, from which every operation keeps it; interpreted on well-formedness and on wealth).

  \<^bold>\<open>What is proved.\<close>  Safety of the tables: well-formedness along every sequence of operations, and
  that trading alone never changes what a user owns.  Escrow: exact amounts, atomicity, round trips.
  Orders: all or nothing, refund of the unfilled part, price-time priority.  Matching: neither the
  engine nor the auction overfills an order, candidates are complete and sorted by landed cost, the
  auction's seller is optimal, the auction ends when every open order has energy left.
  Settlements: the split of a trade's value, the ledger of a payout, status text round trip, backoff
  bounds.  Certificates: retired once.  The theorems also record where the code does not do what it
  means to (a second execution pays again, price improvements stay locked, cross-chain
  settlements are refused, the auction's settlement panics, its loop can run forever, and others).
  Queued tasks are run in order and give up after the allowed attempts; recurring orders follow their
  life cycle; a triggered conditional order is created completely or not at all; carbon transfers
  balance; every user has at most one primary wallet; a futures position opened and closed leaves none;
  error codes are read back from their text, server errors do not leak their cause; the pages of a
  listing cover it; permissions mean what their parts say.
  Metering: aggregated energy is minted or kept, a processed reading is stored exactly once, a stored
  reading is minted once, the workers empty the queue; a verified meter keeps its owner; the live
  totals are the sums of the latest powers; alerts are raised exactly outside the limits.
  Endpoints: a signed order needs the key, cancelling refunds once, an update moves the difference of
  the escrow.  Access: logging in takes the password, the administrator role takes a signed token, the
  token of a login is good for a day, a reset token works once, accounts stay apart.
  Notifications are stored always, leave the process as the preferences say and are private to their
  user; preferences round trip.  The token configuration is in range or loading fails; retry delays
  are bounded.  The validators of addresses decide exactly the language of their patterns.
  A transaction is valid exactly when its payload is admissible; the transaction queue is a bounded map; the pending counters
  are exact; a user sees the user's own transactions, meters and readings only; a submitted reading moves its amount once.
  \<^bold>\<open>Bounds and loops.\<close>  The auction's \<open>while\<close> loop is a partial function into \<open>option\<close>: \<open>None\<close> means that
  it runs forever; that it ends is a theorem.  The engine's endless loop is followed along the
  values of the running flag that its rounds read.  All other loops run over lists.  Machine
  integers keep their width (\<open>i32\<close> zones, \<open>u64\<close> amounts and delays) and wrap as in a release build;
  decimals are rationals whose products and quotients pass through the rounding parameter.

  \<^bold>\<open>Parameters.\<close>  The environment record \<open>env\<close>: rounding and conversions of the decimal crate, identifier
  generation, calendar, number and date formatting, public-key parsing, wallet encryption,
  password hashing, token signing, mail, the zonal cost simulator (an HTTP service, taken to answer the
  same question in the same way), the
  blockchain service, environment variables and configuration.

  \<^bold>\<open>Not modelled.\<close>  Logging, metrics, the transport of web socket messages and of mail, and the audit log (output only); numbers
  and identifiers interpolated into error texts and descriptions; the scale of \<open>NUMERIC\<close> columns;
  interleaving inside one service call (\<open>process_pending_settlements\<close> runs up to ten executions
  concurrently) and the endless relayer loop around \<open>process_relayer_queue\<close>; a read of a balance
  before an on-chain call that is only logged; the certificate service is always present, as its
  constructor makes it; paged lists of revenue records and certificates; on-chain calls of the
  certificate service; the history of the dashboard.  Routing, the unused table of
  API keys, the key-value cache, Kafka, health checks and the disabled modules are outside this development.
\<close>

subsection \<open>Money locked for an order\<close>

lemma held_money_view: "held_money d u = Option.bind (money_view d u) (\<lambda>(b, l, en). l)"
  by (cases "users d u") (simp_all add: held_money_def money_view_def)

lemma held_money_place:
  assumes "o_side row = Buy" and "o_user_id row = u"
  shows "held_money (place e row d) u = sql_add (held_money d u) (dmul e (o_energy_amount row) (o_price_per_kwh row))"
  using assms by (cases "users d u") (simp_all add: held_money_def place_def lock_user_def escrow_amount_def)

lemma create_order_held:
  assumes "create_order e u Buy ty en (Some bid) t z None w = (Ok i, w')"
  shows "held_money (db w') u = sql_add (held_money (db w) u) (dmul e en bid)"
proof -
  from create_order_cases [OF assms] obtain pr ep where pr: "Some bid = Some pr"
    and pl: "order_placed e (new_order (new_v4 e (uuids w)) u ty Buy en pr (unwrap_or t (default_expiry (clock w))) (clock w) ep z None)
      (db w) (db w')" by auto
  let ?row = "new_order (new_v4 e (uuids w)) u ty Buy en pr (unwrap_or t (default_expiry (clock w))) (clock w) ep z None"
  have "money_view (db w') = money_view (place e ?row (db w))" using pl by (simp add: order_placed_def same_book_def)
  then have "held_money (db w') u = held_money (place e ?row (db w)) u" by (simp add: held_money_view)
  also have "\<dots> = sql_add (held_money (db w) u) (dmul e en bid)"
    using held_money_place [of ?row u e "db w"] pr by (simp add: new_order_def)
  finally show ?thesis .
qed

lemma finalize_held:
  assumes "finalize_escrow e s w = (Ok x, w')" and "sv_buyer_id s \<noteq> sv_seller_id s"
  shows "held_money (db w') (sv_buyer_id s) = sql_add (held_money (db w) (sv_buyer_id s)) (- dmul e (sv_energy_amount s) (sv_price s))"
  using assms(2) finalize_escrow_ledger(1) [OF assms(1)]
  by (cases "users (db w) (sv_buyer_id s)") (simp_all add: held_money_def add_locked_def)

subsection \<open>Properties that span components\<close>





text \<open>Conditional orders never trigger.  The price monitor takes the market price from the orders
  filled within the last hour, but no operation records when an order was filled: after every sequence
  of operations of the market, from a database without such a time, a round of the monitor changes
  nothing, whatever stop-loss and take-profit orders are waiting.\<close>

theorem conditional_orders_never_trigger:
  assumes "no_fill_times (db w)" and "(market_step e g cfg)\<^sup>*\<^sup>* w w'"
  shows "db (snd (check_and_trigger_orders e w')) = db w' \<and> fst (check_and_trigger_orders e w') \<noteq> Panic"
  using check_and_trigger_idle [of w'] untimed.market_steps_keep [OF assms(2,1)] by (simp add: no_fill_times_def)

text \<open>A stop-loss order over the price at which the market trades.\<close>

definition stop_request :: create_conditional_order_request where
  "stop_request = \<lparr>cq_side = Sell, cq_energy_amount = 10, cq_trigger_price = 3, cq_trigger_type = StopLoss,
     cq_limit_price = Some 2, cq_trailing_offset = None, cq_expiry_time = None, cq_session_token = None\<rparr>"

theorem conditional_orders_never_trigger_witness:
  "\<exists>w' r. (market_step std_env (engine_new std_env) default_config)\<^sup>*\<^sup>* (calm_world conditional_db) w'
     \<and> create_conditional_order std_env 1 stop_request (calm_world conditional_db) = (Ok r, w')
     \<and> length (pending_conditional 1000 (db w')) = 2 \<and> db (snd (check_and_trigger_orders std_env w')) = db w'"
proof -
  let ?row = "conditional_row 1000 1 stop_request 1000"
  obtain r where r: "create_conditional_order std_env 1 stop_request (calm_world conditional_db)
      = (Ok r, (calm_world conditional_db)\<lparr>db := add_order ?row conditional_db, uuids := 1\<rparr>)" (is "_ = (_, ?w')")
    by (simp add: create_conditional_order_def stop_request_def io_simps Let_def order_ok_def conditional_row_def order_exists_def)
  then have run: "(market_step std_env (engine_new std_env) default_config)\<^sup>*\<^sup>* (calm_world conditional_db) ?w'"
    by (intro r_into_rtranclp market_step.trade trade_step.create_conditional)
  have "no_fill_times (db (calm_world conditional_db))" by (simp add: no_fill_times_def stop_row_def sample_order_def)
  moreover have "length (pending_conditional 1000 (db ?w')) = 2"
    by (simp add: pending_conditional_def add_order_def conditional_row_def stop_request_def stop_row_def sample_order_def new_order_def)
  ultimately show ?thesis using conditional_orders_never_trigger [OF _ run] run r by blast
qed

text \<open>The price improvement stays locked: a buy order (with no meter given) locks its energy
  at the bid; when all of its
  energy is settled at a lower ask, paying out releases the energy at the ask only, so the
  difference between the two values is still locked.\<close>

theorem price_improvement_stays_locked:
  assumes "create_order e u Buy ty en (Some bid) t z None w = (Ok i, w1)"
    and "finalize_escrow e s w2 = (Ok x, w3)" and "held_money (db w2) u = held_money (db w1) u"
    and "sv_buyer_id s = u" and "sv_seller_id s \<noteq> u" and "sv_energy_amount s = en" and "sv_price s = ask"
  shows "held_money (db w3) u = sql_add (held_money (db w) u) (dmul e en bid - dmul e en ask)"
  using create_order_held [OF assms(1)] finalize_held [OF assms(2)] assms(3-) by simp

definition cheap_settlement :: settlement where
  "cheap_settlement = payable\<lparr>sv_buyer_id := 1, sv_seller_id := 2, sv_energy_amount := 10, sv_price := 1\<rparr>"

theorem price_improvement_stays_locked_witness:
  "\<exists>w1 w2 w3. create_order std_env 1 Buy Limit 10 (Some 2) None None None (calm_world trader_db) = (Ok 1000, w1)
     \<and> finalize_escrow std_env cheap_settlement w2 = (Ok (), w3) \<and> held_money (db w1) 1 = held_money (db w2) 1
     \<and> held_money (db w3) 1 = Some 10"
proof -
  obtain w1 where w1: "create_order std_env 1 Buy Limit 10 (Some 2) None None None (calm_world trader_db) = (Ok 1000, w1)" "faults w1 = []"
    using sample_create by blast
  let ?w2 = "w1\<lparr>db := (db w1)\<lparr>settlements := [settlement_row_of cheap_settlement 7]\<rparr>\<rparr>"
  have "touches (sv_id cheap_settlement) (db ?w2)" by (simp add: touches_def settlement_row_of_def)
  then obtain d where w3: "finalize_escrow std_env cheap_settlement ?w2 = (Ok (), ?w2\<lparr>db := d\<rparr>)"
    using commitsD [OF finalize_escrow_commits, of ?w2 cheap_settlement std_env] w1(2) by auto
  have "held_money (db ?w2) 1 = held_money (db w1) 1" by (simp add: held_money_def)
  moreover have "held_money trader_db 1 = Some 0" by (simp add: held_money_def trader_db_def)
  ultimately have "held_money d 1 = Some 10"
    using price_improvement_stays_locked [OF w1(1) w3, of 1] by (simp add: cheap_settlement_def dmul_def)
  with w1(1) w3 show ?thesis
    by (intro exI [of _ w1] exI [of _ ?w2] exI [of _ "?w2\<lparr>db := d\<rparr>"]) (simp add: held_money_def)
qed

end
